(* ===== verification/Py_Value.thy ===== *)
theory Py_Value
  imports Prelude
begin

text \<open>
  The Python values the program computes on: what \<open>json.loads\<close> and a JSONB column give back.
  Numbers keep Python's three types (\<open>bool\<close>, \<open>int\<close>, \<open>float\<close>) because the code tells
  them apart with \<open>isinstance\<close> and \<open>type\<close> and compares them with \<open>==\<close>, which does not.
  A finite float is the rational it denotes (JSONB holds no NaN and no infinity); the operations
  that round are rounded here as IEEE doubles. A dict is an association list in insertion order;
  \<open>json_ok\<close> says that no key is repeated. Text is the Latin-1 part of Unicode, one \<open>char\<close>
  per code point.
\<close>

section \<open>Exceptions of the language\<close>

datatype py_error = TypeError | KeyError | IndexError | AttributeError | ValueError | OverflowError | AssertionError

section \<open>Values\<close>

datatype json =
    JNull
  | JBool bool
  | JInt int
  | JFloat rat
  | JStr string
  | JList "json list"
  | JDict "(string \<times> json) list"

type_synonym json_dict = "(string \<times> json) list"

text \<open>Every dict, at every depth, has distinct keys.\<close>

fun json_ok :: "json \<Rightarrow> bool" where
  "json_ok (JList xs) = list_all json_ok xs"
| "json_ok (JDict kvs) = (distinct (map fst kvs) \<and> list_all (\<lambda>(k, v). json_ok v) kvs)"
| "json_ok _ = True"

definition dict_ok :: "json_dict \<Rightarrow> bool" where
  "dict_ok kvs \<longleftrightarrow> json_ok (JDict kvs)"

lemma dict_ok_distinct: "dict_ok kvs \<Longrightarrow> distinct (map fst kvs)"
  by (simp add: dict_ok_def)

lemma dict_ok_lookup: "dict_ok kvs \<Longrightarrow> map_of kvs k = Some v \<Longrightarrow> json_ok v"
  by (auto simp: dict_ok_def list_all_iff dest: map_of_SomeD)

text \<open>Nesting depth: a scalar has depth 0.\<close>

fun json_depth :: "json \<Rightarrow> nat" where
  "json_depth (JList xs) = Suc (max_list (map json_depth xs))"
| "json_depth (JDict kvs) = Suc (max_list (map (\<lambda>(k, v). json_depth v) kvs))"
| "json_depth _ = 0"

lemma json_depth_list: "x \<in> set xs \<Longrightarrow> json_depth x < json_depth (JList xs)"
  by (simp add: less_Suc_eq_le max_list_ge)

lemma json_depth_dict: "(k, v) \<in> set kvs \<Longrightarrow> json_depth v < json_depth (JDict kvs)"
  by (force simp: less_Suc_eq_le intro: max_list_ge)

lemma json_depth_lookup: "map_of kvs k = Some v \<Longrightarrow> json_depth v < json_depth (JDict kvs)"
  by (rule json_depth_dict [OF map_of_SomeD])

section \<open>Dictionaries\<close>

text \<open>\<open>d.get(k)\<close> and \<open>d.get(k, default)\<close>; a key bound to \<open>None\<close> reads as \<open>None\<close>.\<close>

definition dget :: "json_dict \<Rightarrow> string \<Rightarrow> json" where
  "dget kvs k = (case map_of kvs k of None \<Rightarrow> JNull | Some v \<Rightarrow> v)"

definition dget_or :: "json_dict \<Rightarrow> string \<Rightarrow> json \<Rightarrow> json" where
  "dget_or kvs k d = (case map_of kvs k of None \<Rightarrow> d | Some v \<Rightarrow> v)"

definition dkeys :: "json_dict \<Rightarrow> string list" where
  "dkeys kvs = map fst kvs"

definition has_key :: "json_dict \<Rightarrow> string \<Rightarrow> bool" where
  "has_key kvs k \<longleftrightarrow> k \<in> set (map fst kvs)"

lemma has_key_iff: "has_key kvs k \<longleftrightarrow> map_of kvs k \<noteq> None"
  by (simp add: has_key_def map_of_eq_None_iff)

lemma has_key_iff_ex: "has_key kvs k \<longleftrightarrow> (\<exists>v. map_of kvs k = Some v)"
  by (simp add: has_key_iff)

lemma set_dkeys [simp]: "set (dkeys kvs) = fst ` set kvs"
  by (simp add: dkeys_def)

lemma mem_keys_iff_has_key: "k \<in> fst ` set kvs \<longleftrightarrow> has_key kvs k"
  by (simp add: has_key_def)

text \<open>\<open>d[k] = v\<close>: a bound key keeps its place, a new one comes last.\<close>

fun dput :: "'k \<Rightarrow> 'a \<Rightarrow> ('k \<times> 'a) list \<Rightarrow> ('k \<times> 'a) list" where
  "dput k v [] = [(k, v)]"
| "dput k v ((l, w) # kvs) = (if l = k then (l, v) # kvs else (l, w) # dput k v kvs)"

lemma map_of_dput [simp]: "map_of (dput k v kvs) = (map_of kvs)(k \<mapsto> v)"
  by (induction kvs) auto

lemma set_keys_dput [simp]: "fst ` set (dput k v kvs) = insert k (fst ` set kvs)"
proof (induction kvs)
  case (Cons p kvs)
  then show ?case by (cases p) auto
qed simp

lemma distinct_dput: "distinct (map fst kvs) \<Longrightarrow> distinct (map fst (dput k v kvs))"
  by (induction kvs) auto

section \<open>Truth, numbers, equality\<close>

text \<open>\<open>bool(v)\<close>.\<close>

fun py_bool :: "json \<Rightarrow> bool" where
  "py_bool JNull = False"
| "py_bool (JBool b) = b"
| "py_bool (JInt i) = (i \<noteq> 0)"
| "py_bool (JFloat q) = (q \<noteq> 0)"
| "py_bool (JStr s) = (s \<noteq> [])"
| "py_bool (JList xs) = (xs \<noteq> [])"
| "py_bool (JDict kvs) = (kvs \<noteq> [])"

text \<open>\<open>a or b\<close>.\<close>

definition py_or :: "json \<Rightarrow> json \<Rightarrow> json" where
  "py_or a b = (if py_bool a then a else b)"

text \<open>The number a value stands for in a comparison: \<open>True == 1 == 1.0\<close>.\<close>

fun py_num :: "json \<Rightarrow> rat option" where
  "py_num (JBool b) = Some (if b then 1 else 0)"
| "py_num (JInt i) = Some (of_int i)"
| "py_num (JFloat q) = Some q"
| "py_num _ = None"

text \<open>
  \<open>a == b\<close>. Dicts are equal when they have as many keys and every key of the one is bound to an
  equal value in the other; the order of the keys does not matter.
\<close>

fun py_eq :: "json \<Rightarrow> json \<Rightarrow> bool"
  and py_eq_list :: "json list \<Rightarrow> json list \<Rightarrow> bool"
  and py_eq_items :: "json_dict \<Rightarrow> json_dict \<Rightarrow> bool" where
  "py_eq JNull b = (b = JNull)"
| "py_eq (JBool x) b = (py_num b = py_num (JBool x))"
| "py_eq (JInt x) b = (py_num b = py_num (JInt x))"
| "py_eq (JFloat x) b = (py_num b = py_num (JFloat x))"
| "py_eq (JStr s) b = (b = JStr s)"
| "py_eq (JList xs) b = (case b of JList ys \<Rightarrow> py_eq_list xs ys | _ \<Rightarrow> False)"
| "py_eq (JDict kvs) b =
     (case b of JDict lvs \<Rightarrow> length kvs = length lvs \<and> py_eq_items kvs lvs | _ \<Rightarrow> False)"
| "py_eq_list [] ys = (ys = [])"
| "py_eq_list (x # xs) ys = (case ys of [] \<Rightarrow> False | y # ys' \<Rightarrow> py_eq x y \<and> py_eq_list xs ys')"
| "py_eq_items [] lvs = True"
| "py_eq_items ((k, v) # kvs) lvs =
     ((case map_of lvs k of None \<Rightarrow> False | Some w \<Rightarrow> py_eq v w) \<and> py_eq_items kvs lvs)"

lemma py_eq_list_iff: "py_eq_list xs ys \<longleftrightarrow> list_all2 py_eq xs ys"
  by (induction xs arbitrary: ys) (auto split: list.splits simp: list_all2_Cons1)

lemma py_eq_items_iff:
  "py_eq_items kvs lvs \<longleftrightarrow> (\<forall>(k, v) \<in> set kvs. \<exists>w. map_of lvs k = Some w \<and> py_eq v w)"
  by (induction kvs) (auto split: option.splits)

text \<open>\<open>type(a) is type(b)\<close>.\<close>

fun same_type :: "json \<Rightarrow> json \<Rightarrow> bool" where
  "same_type JNull JNull = True"
| "same_type (JBool _) (JBool _) = True"
| "same_type (JInt _) (JInt _) = True"
| "same_type (JFloat _) (JFloat _) = True"
| "same_type (JStr _) (JStr _) = True"
| "same_type (JList _) (JList _) = True"
| "same_type (JDict _) (JDict _) = True"
| "same_type _ _ = False"

definition is_dict :: "json \<Rightarrow> bool" where
  "is_dict v \<longleftrightarrow> (case v of JDict _ \<Rightarrow> True | _ \<Rightarrow> False)"

definition is_list :: "json \<Rightarrow> bool" where
  "is_list v \<longleftrightarrow> (case v of JList _ \<Rightarrow> True | _ \<Rightarrow> False)"

definition is_str :: "json \<Rightarrow> bool" where
  "is_str v \<longleftrightarrow> (case v of JStr _ \<Rightarrow> True | _ \<Rightarrow> False)"

lemma is_dict_iff: "is_dict v \<longleftrightarrow> (\<exists>kvs. v = JDict kvs)"
  by (cases v) (simp_all add: is_dict_def)

lemma is_list_iff: "is_list v \<longleftrightarrow> (\<exists>xs. v = JList xs)"
  by (cases v) (simp_all add: is_list_def)

lemma is_str_iff: "is_str v \<longleftrightarrow> (\<exists>s. v = JStr s)"
  by (cases v) (simp_all add: is_str_def)

declare py_eq.simps(6,7) [simp del]

end
