(* ===== verification/Py_Text.thy ===== *)
theory Py_Text
  imports Py_Value
begin

text \<open>
  Python's text of values (\<open>str\<close> and \<open>repr\<close>), the string methods \<open>strip\<close>,
  \<open>lower\<close> and \<open>replace\<close> on the Latin-1 characters of the model, and floats: rounding of a
  rational to the nearest IEEE double (ties to even), \<open>float(i)\<close> of an unbounded integer with its
  \<open>OverflowError\<close>, and the shortest text that reads back as the same double.
\<close>

section \<open>IEEE doubles\<close>

function int_log2 :: "int \<Rightarrow> int" where
  "int_log2 n = (if n < 2 then 0 else int_log2 (n div 2) + 1)"
  by pat_completeness auto
termination
  by (relation "measure nat") auto

declare int_log2.simps [simp del]

definition pow2 :: "int \<Rightarrow> rat" where
  "pow2 e = (if 0 \<le> e then 2 ^ nat e else 1 / 2 ^ nat (- e))"

text \<open>The exponent of the leading binary digit of a positive rational.\<close>

definition rat_log2 :: "rat \<Rightarrow> int" where
  "rat_log2 x =
     (let (a, b) = quotient_of x; l = int_log2 a - int_log2 b
      in if pow2 l \<le> x then l else l - 1)"

definition round_half_even :: "rat \<Rightarrow> int" where
  "round_half_even q =
     (let f = \<lfloor>q\<rfloor>; r = q - of_int f
      in if r < 1 / 2 then f else if 1 / 2 < r then f + 1 else if even f then f else f + 1)"

definition round_double :: "rat \<Rightarrow> rat" where
  "round_double x =
     (if x = 0 then 0
      else let e = max (rat_log2 \<bar>x\<bar> - 52) (- 1074)
           in sgn x * of_int (round_half_even (\<bar>x\<bar> / pow2 e)) * pow2 e)"

text \<open>\<open>float(i)\<close> of a Python integer.\<close>

definition float_of_int :: "int \<Rightarrow> py_error + rat" where
  "float_of_int i =
     (let q = round_double (of_int i) in if 2 ^ 1024 \<le> \<bar>q\<bar> then Inl OverflowError else Inr q)"

lemma int_log2_less: "n < 2 ^ k \<Longrightarrow> 0 < k \<Longrightarrow> int_log2 n < int k"
proof (induction n arbitrary: k rule: int_log2.induct)
  case (1 n)
  show ?case
  proof (cases "n < 2")
    case True
    with "1.prems" show ?thesis by (simp add: int_log2.simps [of n])
  next
    case False
    with "1.prems" obtain k' where k: "k = Suc k'" "0 < k'"
      by (cases k; cases "k - 1") auto
    with "1.prems" have "n div 2 < 2 ^ k'" by simp
    with "1.IH" False k have "int_log2 (n div 2) < int k'" by simp
    with False k show ?thesis by (simp add: int_log2.simps [of n])
  qed
qed

lemma round_half_even_of_int [simp]: "round_half_even (of_int i) = i"
  by (simp add: round_half_even_def Let_def)

text \<open>Integers of at most 53 bits are doubles: rounding leaves them as they are.\<close>

lemma round_double_of_int: "\<bar>i\<bar> < 2 ^ 53 \<Longrightarrow> round_double (of_int i) = of_int i"
proof (cases "i = 0")
  case False
  assume small: "\<bar>i\<bar> < 2 ^ 53"
  define e where "e = max (rat_log2 \<bar>of_int i :: rat\<bar> - 52) (- 1074)"
  have q: "quotient_of \<bar>of_int i :: rat\<bar> = (\<bar>i\<bar>, 1)"
    by (metis of_int_abs quotient_of_int Rat.of_int_def)
  have "int_log2 \<bar>i\<bar> < int 53"
    using small by (rule int_log2_less) simp
  then have "rat_log2 \<bar>of_int i :: rat\<bar> \<le> 52"
    by (simp add: rat_log2_def q Let_def int_log2.simps [of 1])
  then have e: "e \<le> 0" by (simp add: e_def)
  have p: "pow2 e = 1 / of_int (2 ^ nat (- e))"
    using e by (auto simp: pow2_def)
  have "\<bar>of_int i :: rat\<bar> / pow2 e = of_int (\<bar>i\<bar> * 2 ^ nat (- e))"
    by (simp add: p)
  then have "round_half_even (\<bar>of_int i :: rat\<bar> / pow2 e) = \<bar>i\<bar> * 2 ^ nat (- e)"
    by (metis round_half_even_of_int)
  then have "round_double (of_int i) = sgn (of_int i) * of_int (\<bar>i\<bar> * 2 ^ nat (- e)) * pow2 e"
    using False by (simp add: round_double_def e_def Let_def)
  also have "\<dots> = sgn (of_int i) * \<bar>of_int i\<bar>" by (simp add: p)
  finally show ?thesis by (simp add: sgn_mult_abs)
qed (simp add: round_double_def)

lemma float_of_int_exact: "\<bar>i\<bar> < 2 ^ 53 \<Longrightarrow> float_of_int i = Inr (of_int i)"
proof -
  assume small: "\<bar>i\<bar> < 2 ^ 53"
  then have "\<bar>of_int i :: rat\<bar> < 2 ^ 53"
    by (metis of_int_abs of_int_less_iff of_int_numeral of_int_power)
  also have "(2 :: rat) ^ 53 \<le> 2 ^ 1024" by (rule power_increasing) simp_all
  finally show ?thesis using small by (simp add: float_of_int_def round_double_of_int)
qed

text \<open>The first integer that is not a double, with its neighbour.\<close>

lemma float_of_int_inexact:
  "float_of_int 9007199254740992 = Inr 9007199254740992"
  "float_of_int 9007199254740993 = Inr 9007199254740992"
proof -
  have l: "int_log2 9007199254740992 = 53" "int_log2 9007199254740993 = 53" "int_log2 1 = 0"
    by (simp_all add: int_log2.simps)
  have f: "\<lfloor>9007199254740993 / (2 :: rat)\<rfloor> = 4503599627370496"
    by (rule floor_unique) simp_all
  have "(9007199254740992 :: rat) < 2 ^ 54" by simp
  also have "(2 :: rat) ^ 54 \<le> 2 ^ 1024" by (rule power_increasing) simp_all
  finally have big: "\<not> (2 :: rat) ^ 1024 \<le> 9007199254740992" by simp
  show "float_of_int 9007199254740992 = Inr 9007199254740992"
    "float_of_int 9007199254740993 = Inr 9007199254740992"
    using big f
    by (simp_all add: float_of_int_def round_double_def rat_log2_def quotient_of_number l Let_def
        pow2_def round_half_even_def)
qed

section \<open>Shortest text of a double\<close>

text \<open>The decimal exponent of a positive rational: \<open>10^k <= x < 10^(k+1)\<close>, found by counting digits.\<close>

function int_log10 :: "int \<Rightarrow> int" where
  "int_log10 n = (if n < 10 then 0 else int_log10 (n div 10) + 1)"
  by pat_completeness auto
termination
  by (relation "measure nat") auto

declare int_log10.simps [simp del]

definition pow10 :: "int \<Rightarrow> rat" where
  "pow10 e = (if 0 \<le> e then 10 ^ nat e else 1 / 10 ^ nat (- e))"

definition rat_log10 :: "rat \<Rightarrow> int" where
  "rat_log10 x =
     (let (a, b) = quotient_of x; l = int_log10 a - int_log10 b
      in if pow10 (l + 1) \<le> x then l + 1 else if pow10 l \<le> x then l else l - 1)"

text \<open>
  The best decimal of \<open>p\<close> digits that reads back as \<open>x\<close>, as (digits, exponent of the last
  digit): of the two neighbours on the grid the nearer one, the even one on a tie.
\<close>

definition decimal_of :: "nat \<Rightarrow> rat \<Rightarrow> (int \<times> int) option" where
  "decimal_of p x =
     (let k = rat_log10 x - int p + 1;
          lo = \<lfloor>x / pow10 k\<rfloor>; hi = lo + 1;
          near = round_half_even (x / pow10 k); far = (if near = lo then hi else lo)
      in if round_double (of_int near * pow10 k) = x then Some (near, k)
         else if round_double (of_int far * pow10 k) = x then Some (far, k)
         else None)"

fun shortest_from :: "nat \<Rightarrow> nat \<Rightarrow> rat \<Rightarrow> int \<times> int" where
  "shortest_from 0 p x = (round_half_even (x / pow10 (rat_log10 x - 16)), rat_log10 x - 16)"
| "shortest_from (Suc fuel) p x =
     (case decimal_of p x of Some d \<Rightarrow> d | None \<Rightarrow> shortest_from fuel (Suc p) x)"

definition strip_zeros :: "string \<Rightarrow> string" where
  "strip_zeros s = rev (dropWhile (\<lambda>c. c = CHR ''0'') (rev s))"

text \<open>
  Layout of \<open>repr(float)\<close>: \<open>point\<close> is the position of the decimal point relative to the first
  digit; scientific notation below \<open>1e-4\<close> and from \<open>1e16\<close> on.
\<close>

definition float_repr :: "rat \<Rightarrow> string" where
  "float_repr x =
     (if x = 0 then ''0.0''
      else let (d, k) = shortest_from 17 1 \<bar>x\<bar>;
               all_ds = int_str d; ds = strip_zeros all_ds;
               point = int (length all_ds) + k;
               sign = (if x < 0 then ''-'' else []);
               n = int (length ds)
           in if point < - 3 \<or> 16 < point then
                (let e = point - 1; ab = int_str \<bar>e\<bar>
                 in sign @ take 1 ds @ (if 1 < n then ''.'' @ drop 1 ds else []) @ ''e''
                    @ (if e < 0 then ''-'' else ''+'') @ (if length ab < 2 then ''0'' else []) @ ab)
              else if point \<le> 0 then sign @ ''0.'' @ replicate (nat (- point)) (CHR ''0'') @ ds
              else if n \<le> point then sign @ ds @ replicate (nat (point - n)) (CHR ''0'') @ ''.0''
              else sign @ take (nat point) ds @ ''.'' @ drop (nat point) ds)"

section \<open>\<open>repr\<close> and \<open>str\<close>\<close>

definition code :: "char \<Rightarrow> nat" where
  "code c = of_char c"

definition repr_char :: "char \<Rightarrow> char \<Rightarrow> string" where
  "repr_char q c =
     (let n = code c
      in if c = q \<or> n = 92 then [char_of (92 :: nat), c]
         else if n = 10 then [char_of (92 :: nat), CHR ''n'']
         else if n = 13 then [char_of (92 :: nat), CHR ''r'']
         else if n = 9 then [char_of (92 :: nat), CHR ''t'']
         else if n < 32 \<or> 127 \<le> n \<and> n \<le> 160 \<or> n = 173 then [char_of (92 :: nat), CHR ''x''] @ hex_digits 2 n
         else [c])"

text \<open>Single quotes, unless the text has a single quote and no double quote.\<close>

definition str_repr :: "string \<Rightarrow> string" where
  "str_repr s =
     (let q = (if char_of (39 :: nat) \<in> set s \<and> char_of (34 :: nat) \<notin> set s
               then char_of (34 :: nat) else char_of (39 :: nat))
      in [q] @ concat (map (repr_char q) s) @ [q])"

fun comma_sep :: "string list \<Rightarrow> string" where
  "comma_sep [] = []"
| "comma_sep [s] = s"
| "comma_sep (s # ss) = s @ '', '' @ comma_sep ss"

fun py_repr :: "json \<Rightarrow> string" where
  "py_repr JNull = ''None''"
| "py_repr (JBool b) = (if b then ''True'' else ''False'')"
| "py_repr (JInt i) = int_str i"
| "py_repr (JFloat q) = float_repr q"
| "py_repr (JStr s) = str_repr s"
| "py_repr (JList xs) = ''['' @ comma_sep (map py_repr xs) @ '']''"
| "py_repr (JDict kvs) =
     ''{'' @ comma_sep (map (\<lambda>(k, v). str_repr k @ '': '' @ py_repr v) kvs) @ ''}''"

definition py_str :: "json \<Rightarrow> string" where
  "py_str v = (case v of JStr s \<Rightarrow> s | _ \<Rightarrow> py_repr v)"

section \<open>String methods\<close>

definition is_space :: "char \<Rightarrow> bool" where
  "is_space c \<longleftrightarrow> (let n = code c in 9 \<le> n \<and> n \<le> 13 \<or> 28 \<le> n \<and> n \<le> 32 \<or> n = 133 \<or> n = 160)"

definition strip :: "string \<Rightarrow> string" where
  "strip s = rev (dropWhile is_space (rev (dropWhile is_space s)))"

definition lower_char :: "char \<Rightarrow> char" where
  "lower_char c =
     (let n = code c
      in if 65 \<le> n \<and> n \<le> 90 \<or> 192 \<le> n \<and> n \<le> 222 \<and> n \<noteq> 215 then char_of (n + 32) else c)"

definition lower :: "string \<Rightarrow> string" where
  "lower s = map lower_char s"

text \<open>\<open>s.replace(a, b)\<close> for single characters.\<close>

definition replace_char :: "char \<Rightarrow> char \<Rightarrow> string \<Rightarrow> string" where
  "replace_char a b s = map (\<lambda>c. if c = a then b else c) s"

end
