(* ===== verification/Compat_Models.thy ===== *)
theory Compat_Models
  imports Py_Text
begin

text \<open>
  The data of the compatibility engine (\<open>app/compatibility/models.py\<close>): directions, the kinds of
  change, the verdicts, one detected \<open>Change\<close>, and the result of an analysis with its two
  counters.
\<close>

section \<open>Enumerations\<close>

datatype direction = DIR_INPUT | DIR_OUTPUT | DIR_NEUTRAL

datatype change_type =
    CT_FIELD_ADDED | CT_FIELD_REMOVED | CT_REQUIRED_FIELD_ADDED
  | CT_REQUIRED_FIELD_REMOVED | CT_TYPE_CHANGED | CT_NULLABLE_TO_NON_NULLABLE
  | CT_NON_NULLABLE_TO_NULLABLE | CT_ENUM_VALUE_ADDED | CT_ENUM_VALUE_REMOVED
  | CT_ENUM_NARROWED | CT_ARRAY_ITEM_TYPE_CHANGED | CT_CONSTRAINT_CHANGED
  | CT_CONFIG_FIELD_ADDED | CT_CONFIG_FIELD_REMOVED | CT_VALUE_CHANGED
  | CT_CONTENT_CHANGED | CT_VARIABLE_ADDED | CT_VARIABLE_REMOVED
  | CT_PROVIDER_CHANGED | CT_MODEL_IDENTIFIER_CHANGED | CT_PARAMETER_CHANGED
  | CT_MODEL_REF_CHANGED | CT_PROMPT_REF_CHANGED | CT_TOOL_ADDED
  | CT_TOOL_REMOVED | CT_DESCRIPTION_CHANGED | CT_ENDPOINT_CHANGED
  | CT_TRANSPORT_CHANGED | CT_SERVER_NAME_CHANGED | CT_BASE_URL_CHANGED
  | CT_METHOD_CHANGED | CT_AUTH_CHANGED | CT_STEP_ADDED
  | CT_STEP_REMOVED | CT_STEP_ORDER_CHANGED | CT_REQUIRED_STEP_REMOVED
  | CT_WORKFLOW_CONFIG_CHANGED | CT_RULE_ADDED | CT_RULE_REMOVED
  | CT_RULE_CHANGED

text \<open>The stored values; \<open>sort_changes\<close> orders by them.\<close>

fun change_type_value :: "change_type \<Rightarrow> string" where
  "change_type_value CT_FIELD_ADDED = ''FIELD_ADDED''"
| "change_type_value CT_FIELD_REMOVED = ''FIELD_REMOVED''"
| "change_type_value CT_REQUIRED_FIELD_ADDED = ''REQUIRED_FIELD_ADDED''"
| "change_type_value CT_REQUIRED_FIELD_REMOVED = ''REQUIRED_FIELD_REMOVED''"
| "change_type_value CT_TYPE_CHANGED = ''TYPE_CHANGED''"
| "change_type_value CT_NULLABLE_TO_NON_NULLABLE = ''NULLABLE_TO_NON_NULLABLE''"
| "change_type_value CT_NON_NULLABLE_TO_NULLABLE = ''NON_NULLABLE_TO_NULLABLE''"
| "change_type_value CT_ENUM_VALUE_ADDED = ''ENUM_VALUE_ADDED''"
| "change_type_value CT_ENUM_VALUE_REMOVED = ''ENUM_VALUE_REMOVED''"
| "change_type_value CT_ENUM_NARROWED = ''ENUM_NARROWED''"
| "change_type_value CT_ARRAY_ITEM_TYPE_CHANGED = ''ARRAY_ITEM_TYPE_CHANGED''"
| "change_type_value CT_CONSTRAINT_CHANGED = ''CONSTRAINT_CHANGED''"
| "change_type_value CT_CONFIG_FIELD_ADDED = ''CONFIG_FIELD_ADDED''"
| "change_type_value CT_CONFIG_FIELD_REMOVED = ''CONFIG_FIELD_REMOVED''"
| "change_type_value CT_VALUE_CHANGED = ''VALUE_CHANGED''"
| "change_type_value CT_CONTENT_CHANGED = ''CONTENT_CHANGED''"
| "change_type_value CT_VARIABLE_ADDED = ''VARIABLE_ADDED''"
| "change_type_value CT_VARIABLE_REMOVED = ''VARIABLE_REMOVED''"
| "change_type_value CT_PROVIDER_CHANGED = ''PROVIDER_CHANGED''"
| "change_type_value CT_MODEL_IDENTIFIER_CHANGED = ''MODEL_IDENTIFIER_CHANGED''"
| "change_type_value CT_PARAMETER_CHANGED = ''PARAMETER_CHANGED''"
| "change_type_value CT_MODEL_REF_CHANGED = ''MODEL_REF_CHANGED''"
| "change_type_value CT_PROMPT_REF_CHANGED = ''PROMPT_REF_CHANGED''"
| "change_type_value CT_TOOL_ADDED = ''TOOL_ADDED''"
| "change_type_value CT_TOOL_REMOVED = ''TOOL_REMOVED''"
| "change_type_value CT_DESCRIPTION_CHANGED = ''DESCRIPTION_CHANGED''"
| "change_type_value CT_ENDPOINT_CHANGED = ''ENDPOINT_CHANGED''"
| "change_type_value CT_TRANSPORT_CHANGED = ''TRANSPORT_CHANGED''"
| "change_type_value CT_SERVER_NAME_CHANGED = ''SERVER_NAME_CHANGED''"
| "change_type_value CT_BASE_URL_CHANGED = ''BASE_URL_CHANGED''"
| "change_type_value CT_METHOD_CHANGED = ''METHOD_CHANGED''"
| "change_type_value CT_AUTH_CHANGED = ''AUTH_CHANGED''"
| "change_type_value CT_STEP_ADDED = ''STEP_ADDED''"
| "change_type_value CT_STEP_REMOVED = ''STEP_REMOVED''"
| "change_type_value CT_STEP_ORDER_CHANGED = ''STEP_ORDER_CHANGED''"
| "change_type_value CT_REQUIRED_STEP_REMOVED = ''REQUIRED_STEP_REMOVED''"
| "change_type_value CT_WORKFLOW_CONFIG_CHANGED = ''WORKFLOW_CONFIG_CHANGED''"
| "change_type_value CT_RULE_ADDED = ''RULE_ADDED''"
| "change_type_value CT_RULE_REMOVED = ''RULE_REMOVED''"
| "change_type_value CT_RULE_CHANGED = ''RULE_CHANGED''"

datatype classification = CL_COMPATIBLE | CL_POTENTIALLY_BREAKING | CL_BREAKING

fun classification_value :: "classification \<Rightarrow> string" where
  "classification_value CL_COMPATIBLE = ''compatible''"
| "classification_value CL_POTENTIALLY_BREAKING = ''potentially_breaking''"
| "classification_value CL_BREAKING = ''breaking''"

datatype severity = SV_INFO | SV_LOW | SV_MEDIUM | SV_HIGH | SV_CRITICAL

fun severity_value :: "severity \<Rightarrow> string" where
  "severity_value SV_INFO = ''info''"
| "severity_value SV_LOW = ''low''"
| "severity_value SV_MEDIUM = ''medium''"
| "severity_value SV_HIGH = ''high''"
| "severity_value SV_CRITICAL = ''critical''"

datatype compatibility_status = CS_COMPATIBLE | CS_WARNING | CS_BREAKING

fun compatibility_status_value :: "compatibility_status \<Rightarrow> string" where
  "compatibility_status_value CS_COMPATIBLE = ''compatible''"
| "compatibility_status_value CS_WARNING = ''warning''"
| "compatibility_status_value CS_BREAKING = ''breaking''"

section \<open>Changes and results\<close>

text \<open>An absent \<open>old_value\<close> or \<open>new_value\<close> is \<open>None\<close>, the JSON null.\<close>

record change =
  ch_type :: change_type
  ch_path :: string
  ch_class :: classification
  ch_severity :: severity
  ch_message :: string
  ch_old :: json
  ch_new :: json
  ch_evidence :: json_dict

record analysis_result =
  ar_status :: compatibility_status
  ar_changes :: "change list"

definition total_changes :: "analysis_result \<Rightarrow> nat" where
  "total_changes r = length (ar_changes r)"

text \<open>\<open>counts[k] += 1\<close> on a dict that already has the key.\<close>

definition bump :: "'k \<Rightarrow> ('k \<times> nat) list \<Rightarrow> ('k \<times> nat) list" where
  "bump k counts = map (\<lambda>(l, n). (l, if l = k then Suc n else n)) counts"

definition classification_counts :: "analysis_result \<Rightarrow> (string \<times> nat) list" where
  "classification_counts r =
     foldl (\<lambda>counts change. bump (classification_value (ch_class change)) counts)
       (map (\<lambda>c. (classification_value c, 0)) [CL_COMPATIBLE, CL_POTENTIALLY_BREAKING, CL_BREAKING])
       (ar_changes r)"

definition severity_counts :: "analysis_result \<Rightarrow> (string \<times> nat) list" where
  "severity_counts r =
     foldl (\<lambda>counts change. bump (severity_value (ch_severity change)) counts)
       (map (\<lambda>s. (severity_value s, 0)) [SV_INFO, SV_LOW, SV_MEDIUM, SV_HIGH, SV_CRITICAL])
       (ar_changes r)"

section \<open>Lemmas\<close>

lemma classification_value_inj [simp]: "classification_value a = classification_value b \<longleftrightarrow> a = b"
  by (cases a; cases b) simp_all

lemma severity_value_inj [simp]: "severity_value a = severity_value b \<longleftrightarrow> a = b"
  by (cases a; cases b) simp_all

lemma foldl_bump:
  "foldl (\<lambda>counts x. bump (f x) counts) counts xs =
   map (\<lambda>(l, n). (l, n + length (filter (\<lambda>x. f x = l) xs))) counts"
  by (induction xs arbitrary: counts) (auto simp: bump_def)

text \<open>Each counter counts the changes of its verdict, and together they count every change once.\<close>

lemma classification_counts_eq:
  "classification_counts r =
   map (\<lambda>c. (classification_value c, length (filter (\<lambda>x. ch_class x = c) (ar_changes r))))
     [CL_COMPATIBLE, CL_POTENTIALLY_BREAKING, CL_BREAKING]"
  by (simp add: classification_counts_def foldl_bump flip: classification_value_inj
      del: classification_value.simps)

lemma severity_counts_eq:
  "severity_counts r =
   map (\<lambda>s. (severity_value s, length (filter (\<lambda>x. ch_severity x = s) (ar_changes r))))
     [SV_INFO, SV_LOW, SV_MEDIUM, SV_HIGH, SV_CRITICAL]"
  by (simp add: severity_counts_def foldl_bump flip: severity_value_inj del: severity_value.simps)

lemma length_filter_classes:
  "length (filter (\<lambda>x. ch_class x = CL_COMPATIBLE) xs)
   + length (filter (\<lambda>x. ch_class x = CL_POTENTIALLY_BREAKING) xs)
   + length (filter (\<lambda>x. ch_class x = CL_BREAKING) xs) = length xs"
proof (induction xs)
  case (Cons x xs)
  then show ?case by (cases "ch_class x") simp_all
qed simp

lemma length_filter_severities:
  "length (filter (\<lambda>x. ch_severity x = SV_INFO) xs)
   + length (filter (\<lambda>x. ch_severity x = SV_LOW) xs)
   + length (filter (\<lambda>x. ch_severity x = SV_MEDIUM) xs)
   + length (filter (\<lambda>x. ch_severity x = SV_HIGH) xs)
   + length (filter (\<lambda>x. ch_severity x = SV_CRITICAL) xs) = length xs"
proof (induction xs)
  case (Cons x xs)
  then show ?case by (cases "ch_severity x") simp_all
qed simp

end
