(* ===== verification/Domain_Enums.thy ===== *)
theory Domain_Enums
  imports Prelude
begin

text \<open>
  The closed enumerations shared by several components (\<open>app/domain/enums.py\<close>, the event and
  status taxonomies of \<open>app/trajectory/models.py\<close> and \<open>app/replay/models.py\<close>), each with
  the string value the code stores, and the dependency-shape rules of
  \<open>app/domain/relationship_rules.py\<close>.
\<close>

section \<open>Components and their dependencies\<close>

datatype component_type =
    C_AGENT | C_PROMPT | C_MODEL | C_PROVIDER | C_MCP_SERVER
  | C_TOOL | C_SCHEMA | C_API | C_WORKFLOW | C_POLICY

datatype component_status = ACTIVE | DEPRECATED | ARCHIVED

datatype relationship_type =
    USES_MODEL | USES_PROMPT | CALLS | BELONGS_TO | USES_SCHEMA
  | CALLS_API | CONTAINS | DEPENDS_ON | APPLIES_TO | PROVIDED_BY

text \<open>\<open>_ALLOWED_RELATIONSHIPS\<close> and \<open>is_relationship_allowed\<close>.\<close>

definition allowed_relationships :: "(component_type \<times> relationship_type \<times> component_type) list" where
  "allowed_relationships =
     [(C_AGENT, USES_MODEL, C_MODEL),
      (C_AGENT, USES_PROMPT, C_PROMPT),
      (C_AGENT, CALLS, C_TOOL),
      (C_TOOL, BELONGS_TO, C_MCP_SERVER),
      (C_TOOL, USES_SCHEMA, C_SCHEMA),
      (C_TOOL, CALLS_API, C_API),
      (C_WORKFLOW, CONTAINS, C_AGENT),
      (C_AGENT, DEPENDS_ON, C_AGENT),
      (C_POLICY, APPLIES_TO, C_AGENT),
      (C_MODEL, PROVIDED_BY, C_PROVIDER)]"

definition is_relationship_allowed :: "component_type \<Rightarrow> relationship_type \<Rightarrow> component_type \<Rightarrow> bool" where
  "is_relationship_allowed s r t \<longleftrightarrow> (s, r, t) \<in> set allowed_relationships"

text \<open>
  The relationship type determines both ends, so between two components of given types at most
  one kind of edge can exist, and only the agent-to-agent shape can close a cycle.
\<close>

fun type_rank :: "component_type \<Rightarrow> nat" where
  "type_rank C_POLICY = 4" | "type_rank C_WORKFLOW = 4"
| "type_rank C_AGENT = 3"
| "type_rank C_TOOL = 2" | "type_rank C_MODEL = 2" | "type_rank C_PROMPT = 2"
| "type_rank _ = 1"

lemma allowed_rank:
  "is_relationship_allowed s r t \<Longrightarrow> type_rank t < type_rank s \<or> s = C_AGENT \<and> t = C_AGENT"
  by (auto simp: is_relationship_allowed_def allowed_relationships_def)

lemma allowed_determines_ends:
  "is_relationship_allowed s r t \<Longrightarrow> is_relationship_allowed s' r t' \<Longrightarrow> s' = s \<and> t' = t"
  by (auto simp: is_relationship_allowed_def allowed_relationships_def)

section \<open>Trajectories\<close>

datatype event_type =
    RUN_STARTED | RUN_COMPLETED | RUN_FAILED | AGENT_STARTED | AGENT_COMPLETED
  | MODEL_REQUEST | MODEL_RESPONSE | TOOL_CALL | TOOL_RESPONSE
  | MCP_REQUEST | MCP_RESPONSE | API_REQUEST | API_RESPONSE
  | STATE_READ | STATE_WRITE | DECISION | STRUCTURED_OUTPUT | ERROR

fun event_type_value :: "event_type \<Rightarrow> string" where
  "event_type_value RUN_STARTED = ''run_started''"
| "event_type_value RUN_COMPLETED = ''run_completed''"
| "event_type_value RUN_FAILED = ''run_failed''"
| "event_type_value AGENT_STARTED = ''agent_started''"
| "event_type_value AGENT_COMPLETED = ''agent_completed''"
| "event_type_value MODEL_REQUEST = ''model_request''"
| "event_type_value MODEL_RESPONSE = ''model_response''"
| "event_type_value TOOL_CALL = ''tool_call''"
| "event_type_value TOOL_RESPONSE = ''tool_response''"
| "event_type_value MCP_REQUEST = ''mcp_request''"
| "event_type_value MCP_RESPONSE = ''mcp_response''"
| "event_type_value API_REQUEST = ''api_request''"
| "event_type_value API_RESPONSE = ''api_response''"
| "event_type_value STATE_READ = ''state_read''"
| "event_type_value STATE_WRITE = ''state_write''"
| "event_type_value DECISION = ''decision''"
| "event_type_value STRUCTURED_OUTPUT = ''structured_output''"
| "event_type_value ERROR = ''error''"

datatype trajectory_status = T_RUNNING | T_COMPLETED | T_FAILED

section \<open>Replays\<close>

datatype replay_status = R_PENDING | R_RUNNING | R_COMPLETED | R_FAILED

datatype step_kind = REUSED_EVIDENCE | SUBSTITUTED_EXECUTION | PROVIDER_EXECUTION_REQUIRED | SKIPPED

fun step_kind_value :: "step_kind \<Rightarrow> string" where
  "step_kind_value REUSED_EVIDENCE = ''reused_evidence''"
| "step_kind_value SUBSTITUTED_EXECUTION = ''substituted_execution''"
| "step_kind_value PROVIDER_EXECUTION_REQUIRED = ''provider_execution_required''"
| "step_kind_value SKIPPED = ''skipped''"

datatype step_status = ST_PENDING | ST_REUSED | ST_EXECUTED | ST_FAILED | ST_SKIPPED | ST_PROVIDER_REQUIRED

fun step_status_value :: "step_status \<Rightarrow> string" where
  "step_status_value ST_PENDING = ''pending''"
| "step_status_value ST_REUSED = ''reused''"
| "step_status_value ST_EXECUTED = ''executed''"
| "step_status_value ST_FAILED = ''failed''"
| "step_status_value ST_SKIPPED = ''skipped''"
| "step_status_value ST_PROVIDER_REQUIRED = ''provider_required''"

lemma step_kind_value_inject [simp]: "step_kind_value a = step_kind_value b \<longleftrightarrow> a = b"
  by (cases a; cases b) simp_all

lemma step_status_value_inject [simp]: "step_status_value a = step_status_value b \<longleftrightarrow> a = b"
  by (cases a; cases b) simp_all

lemma event_type_value_inject [simp]: "event_type_value a = event_type_value b \<longleftrightarrow> a = b"
  by (cases a; cases b) simp_all

section \<open>Pull-request analyses\<close>

datatype pr_analysis_status = PA_PENDING | PA_IN_PROGRESS | PA_COMPLETED | PA_PUBLISH_FAILED | PA_FAILED

end
