(* ===== verification/Errors.thy ===== *)
theory Errors
  imports Domain_Enums Py_Value
begin

text \<open>
  The domain exceptions (\<open>app/domain/exceptions.py\<close>), one constructor per class that the code
  can raise, with the class it inherits from, and the HTTP status and error code the API gives
  each of them (\<open>app/api/v1/errors.py\<close>). An exception that reaches the API and is not one of
  these is answered with 500.
\<close>

section \<open>Exceptions\<close>

text \<open>
  The base classes are datatypes of their own, so "is a \<open>ConflictError\<close>" is a constructor.
  The arguments are the data the exception carries; a \<open>detail\<close> text stays text.
\<close>

datatype not_found_error =
    ProjectNotFound uuid
  | ComponentNotFound uuid
  | ComponentVersionNotFound "uuid option" string
  | GraphComponentNotFound uuid
  | CompatibilityScanNotFound uuid
  | TrajectoryNotFound uuid
  | ReplayNotFound uuid
  | DifferentialReportNotFound uuid
  | RiskAssessmentNotFound uuid
  | GitHubRepositoryNotMapped int
  | GitHubRepositoryMappingNotFound uuid
  | GitHubPullRequestAnalysisNotFound uuid

datatype conflict_error =
    DuplicateComponent uuid component_type string
  | DuplicateComponentVersion uuid string
  | TrajectoryAlreadyExists uuid string
  | TrajectoryTerminal uuid trajectory_status
  | InvalidTrajectoryTransition uuid trajectory_status trajectory_status
  | DuplicateTrajectoryEvent uuid string
  | ReplayAlreadyExists uuid string
  | InvalidReplayTransition uuid replay_status replay_status
  | DuplicateProject uuid string
  | OrganizationAlreadyProvisioned uuid
  | WebhookDeliveryConflict string
  | ReplayNotReadyForDifferential uuid replay_status
  | DuplicateGitHubRepositoryMapping int

datatype authentication_error =
    AuthenticationRequired
  | InvalidToken string
  | ExpiredToken
  | UnknownUser
  | DisabledUser

datatype oauth_error =
    OAuthStateInvalid
  | OAuthStateStoreUnavailable
  | GitHubOAuthNotConfigured
  | MissingAuthorizationCode
  | GitHubAuthorizationDenied string
  | GitHubTokenExchangeFailed
  | GitHubIdentityLookupFailed
  | MalformedGitHubIdentity string

datatype authorization_error =
    PermissionDenied string
  | OrganizationAccessDenied
  | ProjectAccessDenied

datatype webhook_signature_error =
    MissingWebhookSignature
  | MalformedWebhookSignature
  | InvalidWebhookSignature

datatype llm_error =
    LLMProviderNotConfigured string
  | LLMProviderUnavailable string string
  | LLMProviderTimeout string rat
  | LLMInvalidResponse string string
  | LLMExplanationFailed string string

text \<open>The GitHub and configuration failures of the pull-request pipeline.\<close>

datatype github_error =
    InvalidGitHubPullRequestPayload string
  | MissingAgentABIConfiguration string
  | InvalidAgentABIConfiguration string
  | GitHubAPIUnavailable string
  | GitHubAuthenticationFailed string
  | GitHubCheckPublishFailed string
  | GitHubAnalysisHeadShaMismatch uuid string string

datatype agentabi_error =
    NotFoundError not_found_error
  | ConflictError conflict_error
  | AuthenticationError authentication_error
  | OAuthError oauth_error
  | AuthorizationError authorization_error
  | WebhookSignatureError webhook_signature_error
  | LLMError llm_error
  | GitHubError github_error
  | InvalidComponentContent component_type string
  | InvalidDependencyRelationship component_type relationship_type component_type
  | GraphUnavailable string
  | InvalidCompatibilityComparison string
  | UnsupportedCompatibilityType component_type
  | SchemaNormalizationError string
  | InvalidTrajectoryEvent string
  | TrajectoryPayloadTooLarge string nat nat
  | InvalidReplaySubstitution string
  | ReplayExecutorUnavailable uuid event_type
  | ReplayExecutionFailed uuid string
  | RateLimited int
  | RateLimiterUnavailable
  | GitHubWebhookNotConfigured
  | MissingWebhookDeliveryId
  | RiskAssessmentInputRequired

text \<open>Anything the code can raise: an exception of the language, of the database or of the domain.\<close>

datatype exn = Py py_error | IntegrityError | MultipleResultsFound | Dom agentabi_error

abbreviation raise_not_found :: "not_found_error \<Rightarrow> exn + 'a" where
  "raise_not_found e \<equiv> Inl (Dom (NotFoundError e))"

abbreviation raise_conflict :: "conflict_error \<Rightarrow> exn + 'a" where
  "raise_conflict e \<equiv> Inl (Dom (ConflictError e))"

text \<open>A computation that can only raise an exception of the language, in a context that can raise more.\<close>

definition lift_py :: "py_error + 'a \<Rightarrow> exn + 'a" where
  "lift_py m = (case m of Inl e \<Rightarrow> Inl (Py e) | Inr x \<Rightarrow> Inr x)"

lemma lift_py_simps [simp]:
  "lift_py (Inl e) = Inl (Py e)"
  "lift_py (Inr x) = Inr x"
  by (simp_all add: lift_py_def)

lemma lift_py_eq_Inr [simp]: "lift_py m = Inr x \<longleftrightarrow> m = Inr x"
  by (cases m) auto

text \<open>\<open>validate_relationship\<close> of \<open>app/domain/relationship_rules.py\<close>.\<close>

definition validate_relationship ::
  "component_type \<Rightarrow> relationship_type \<Rightarrow> component_type \<Rightarrow> exn + unit" where
  "validate_relationship source_type relationship_type target_type =
     rguard (is_relationship_allowed source_type relationship_type target_type)
       (Dom (InvalidDependencyRelationship source_type relationship_type target_type))"

section \<open>HTTP answers\<close>

datatype error_code =
    VALIDATION_ERROR | AUTHENTICATION_REQUIRED | INVALID_TOKEN | TOKEN_EXPIRED
  | AUTHORIZATION_DENIED | RESOURCE_NOT_FOUND | RATE_LIMITED | CONFLICT
  | REQUEST_TOO_LARGE | INTERNAL_ERROR | SERVICE_UNAVAILABLE | INVALID_REQUEST
  | UPSTREAM_ERROR | INVALID_WEBHOOK_SIGNATURE

text \<open>
  \<open>_DOMAIN_ERROR_MAP\<close> as Starlette reads it: the entry of the exception's own class if there is
  one, else the entry of its nearest registered base class (\<open>NotFoundError\<close>,
  \<open>ConflictError\<close>, \<open>WebhookSignatureError\<close>, or \<open>AgentABIError\<close> itself).
\<close>

fun oauth_entry :: "oauth_error \<Rightarrow> nat \<times> error_code" where
  "oauth_entry OAuthStateInvalid = (401, INVALID_TOKEN)"
| "oauth_entry (GitHubAuthorizationDenied _) = (401, INVALID_TOKEN)"
| "oauth_entry MissingAuthorizationCode = (400, INVALID_REQUEST)"
| "oauth_entry GitHubTokenExchangeFailed = (502, UPSTREAM_ERROR)"
| "oauth_entry GitHubIdentityLookupFailed = (502, UPSTREAM_ERROR)"
| "oauth_entry (MalformedGitHubIdentity _) = (502, UPSTREAM_ERROR)"
| "oauth_entry OAuthStateStoreUnavailable = (503, SERVICE_UNAVAILABLE)"
| "oauth_entry GitHubOAuthNotConfigured = (503, SERVICE_UNAVAILABLE)"

fun authorization_entry :: "authorization_error \<Rightarrow> nat \<times> error_code" where
  "authorization_entry (PermissionDenied _) = (403, AUTHORIZATION_DENIED)"
| "authorization_entry OrganizationAccessDenied = (404, RESOURCE_NOT_FOUND)"
| "authorization_entry ProjectAccessDenied = (404, RESOURCE_NOT_FOUND)"

fun llm_entry :: "llm_error \<Rightarrow> nat \<times> error_code" where
  "llm_entry (LLMProviderNotConfigured _) = (503, SERVICE_UNAVAILABLE)"
| "llm_entry (LLMProviderTimeout _ _) = (504, UPSTREAM_ERROR)"
| "llm_entry (LLMProviderUnavailable _ _) = (502, UPSTREAM_ERROR)"
| "llm_entry (LLMInvalidResponse _ _) = (502, UPSTREAM_ERROR)"
| "llm_entry (LLMExplanationFailed _ _) = (502, UPSTREAM_ERROR)"

fun github_entry :: "github_error \<Rightarrow> nat \<times> error_code" where
  "github_entry (InvalidGitHubPullRequestPayload _) = (400, INVALID_REQUEST)"
| "github_entry (MissingAgentABIConfiguration _) = (422, VALIDATION_ERROR)"
| "github_entry (InvalidAgentABIConfiguration _) = (422, VALIDATION_ERROR)"
| "github_entry (GitHubAPIUnavailable _) = (502, UPSTREAM_ERROR)"
| "github_entry (GitHubAuthenticationFailed _) = (502, UPSTREAM_ERROR)"
| "github_entry (GitHubCheckPublishFailed _) = (502, UPSTREAM_ERROR)"
| "github_entry (GitHubAnalysisHeadShaMismatch _ _ _) = (409, CONFLICT)"

fun domain_error_entry :: "agentabi_error \<Rightarrow> nat \<times> error_code" where
  "domain_error_entry (NotFoundError _) = (404, RESOURCE_NOT_FOUND)"
| "domain_error_entry (ConflictError _) = (409, CONFLICT)"
| "domain_error_entry (InvalidComponentContent _ _) = (422, VALIDATION_ERROR)"
| "domain_error_entry (InvalidDependencyRelationship _ _ _) = (422, VALIDATION_ERROR)"
| "domain_error_entry (GraphUnavailable _) = (503, SERVICE_UNAVAILABLE)"
| "domain_error_entry (InvalidCompatibilityComparison _) = (422, VALIDATION_ERROR)"
| "domain_error_entry (UnsupportedCompatibilityType _) = (422, VALIDATION_ERROR)"
| "domain_error_entry (SchemaNormalizationError _) = (422, VALIDATION_ERROR)"
| "domain_error_entry (InvalidTrajectoryEvent _) = (422, VALIDATION_ERROR)"
| "domain_error_entry (TrajectoryPayloadTooLarge _ _ _) = (422, VALIDATION_ERROR)"
| "domain_error_entry (InvalidReplaySubstitution _) = (422, VALIDATION_ERROR)"
| "domain_error_entry (ReplayExecutorUnavailable _ _) = (503, SERVICE_UNAVAILABLE)"
| "domain_error_entry (ReplayExecutionFailed _ _) = (422, VALIDATION_ERROR)"
| "domain_error_entry (OAuthError e) = oauth_entry e"
| "domain_error_entry (AuthorizationError e) = authorization_entry e"
| "domain_error_entry RateLimiterUnavailable = (503, SERVICE_UNAVAILABLE)"
| "domain_error_entry (WebhookSignatureError _) = (401, INVALID_WEBHOOK_SIGNATURE)"
| "domain_error_entry GitHubWebhookNotConfigured = (503, SERVICE_UNAVAILABLE)"
| "domain_error_entry MissingWebhookDeliveryId = (400, INVALID_REQUEST)"
| "domain_error_entry (LLMError e) = llm_entry e"
| "domain_error_entry (GitHubError e) = github_entry e"
| "domain_error_entry (AuthenticationError _) = (401, INVALID_TOKEN)"
| "domain_error_entry (RateLimited _) = (429, RATE_LIMITED)"
| "domain_error_entry RiskAssessmentInputRequired = (400, INVALID_REQUEST)"

text \<open>
  The answer to an exception that leaves a route handler (\<open>register_exception_handlers\<close>):
  \<open>handle_authentication_error\<close> refines the code of its two special cases, and what is not a
  domain exception is an internal error.
\<close>

fun http_answer :: "exn \<Rightarrow> nat \<times> error_code" where
  "http_answer (Dom e) =
     (case e of
        AuthenticationError ExpiredToken \<Rightarrow> (401, TOKEN_EXPIRED)
      | AuthenticationError AuthenticationRequired \<Rightarrow> (401, AUTHENTICATION_REQUIRED)
      | _ \<Rightarrow> domain_error_entry e)"
| "http_answer (Py _) = (500, INTERNAL_ERROR)"
| "http_answer IntegrityError = (500, INTERNAL_ERROR)"
| "http_answer MultipleResultsFound = (500, INTERNAL_ERROR)"

definition error_category_for_status :: "nat \<Rightarrow> string" where
  "error_category_for_status st =
     (if st = 504 then ''timeout''
      else if st = 502 \<or> st = 503 then ''dependency''
      else if 400 \<le> st \<and> st < 500 then ''validation''
      else ''internal'')"

section \<open>What the mapping guarantees\<close>

lemma oauth_entry_range:
  "400 \<le> fst (oauth_entry e) \<and> fst (oauth_entry e) < 505 \<and> snd (oauth_entry e) \<noteq> INTERNAL_ERROR"
  by (cases e) simp_all

lemma authorization_entry_range:
  "400 \<le> fst (authorization_entry e) \<and> fst (authorization_entry e) < 505
   \<and> snd (authorization_entry e) \<noteq> INTERNAL_ERROR"
  by (cases e) simp_all

lemma llm_entry_range:
  "400 \<le> fst (llm_entry e) \<and> fst (llm_entry e) < 505 \<and> snd (llm_entry e) \<noteq> INTERNAL_ERROR"
  by (cases e) simp_all

lemma github_entry_range:
  "400 \<le> fst (github_entry e) \<and> fst (github_entry e) < 505 \<and> snd (github_entry e) \<noteq> INTERNAL_ERROR"
  by (cases e) simp_all

lemma domain_error_entry_range:
  "400 \<le> fst (domain_error_entry e) \<and> fst (domain_error_entry e) < 505
   \<and> snd (domain_error_entry e) \<noteq> INTERNAL_ERROR"
  using oauth_entry_range authorization_entry_range llm_entry_range github_entry_range
  by (cases e) simp_all

lemma http_answer_Dom_range:
  "400 \<le> fst (http_answer (Dom e)) \<and> fst (http_answer (Dom e)) < 505
   \<and> snd (http_answer (Dom e)) \<noteq> INTERNAL_ERROR"
proof (cases e)
  case (AuthenticationError a)
  then show ?thesis by (cases a) simp_all
qed (use domain_error_entry_range [of e] in simp_all)

lemma http_answer_internal_iff: "snd (http_answer e) = INTERNAL_ERROR \<longleftrightarrow> (\<forall>d. e \<noteq> Dom d)"
  using http_answer_Dom_range by (cases e) auto

end
