(* ===== verification/Compat_Rules.thy ===== *)
theory Compat_Rules
  imports Compat_Models Errors
begin

text \<open>
  \<open>app/compatibility/rules.py\<close>: the tables that give every detected change its classification and
  severity, the direction of a constraint change, and the scan-level status. Proved here: the
  look-up succeeds for every change type except \<open>CONSTRAINT_CHANGED\<close> (which is classified by
  \<open>classify_constraint_change\<close>), and \<open>derive_status\<close> is the worst classification present.
\<close>

section \<open>The tables\<close>

definition schema_rules ::
  "((change_type \<times> direction) \<times> (classification \<times> severity)) list" where
  "schema_rules =
     [((CT_FIELD_ADDED, DIR_INPUT), (CL_COMPATIBLE, SV_INFO)),
      ((CT_FIELD_ADDED, DIR_OUTPUT), (CL_COMPATIBLE, SV_INFO)),
      ((CT_FIELD_ADDED, DIR_NEUTRAL), (CL_POTENTIALLY_BREAKING, SV_LOW)),
      ((CT_FIELD_REMOVED, DIR_INPUT), (CL_POTENTIALLY_BREAKING, SV_MEDIUM)),
      ((CT_FIELD_REMOVED, DIR_OUTPUT), (CL_BREAKING, SV_HIGH)),
      ((CT_FIELD_REMOVED, DIR_NEUTRAL), (CL_POTENTIALLY_BREAKING, SV_MEDIUM)),
      ((CT_REQUIRED_FIELD_ADDED, DIR_INPUT), (CL_BREAKING, SV_CRITICAL)),
      ((CT_REQUIRED_FIELD_ADDED, DIR_OUTPUT), (CL_COMPATIBLE, SV_INFO)),
      ((CT_REQUIRED_FIELD_ADDED, DIR_NEUTRAL), (CL_POTENTIALLY_BREAKING, SV_MEDIUM)),
      ((CT_REQUIRED_FIELD_REMOVED, DIR_INPUT), (CL_COMPATIBLE, SV_LOW)),
      ((CT_REQUIRED_FIELD_REMOVED, DIR_OUTPUT), (CL_POTENTIALLY_BREAKING, SV_MEDIUM)),
      ((CT_REQUIRED_FIELD_REMOVED, DIR_NEUTRAL), (CL_POTENTIALLY_BREAKING, SV_LOW)),
      ((CT_TYPE_CHANGED, DIR_INPUT), (CL_BREAKING, SV_HIGH)),
      ((CT_TYPE_CHANGED, DIR_OUTPUT), (CL_BREAKING, SV_HIGH)),
      ((CT_TYPE_CHANGED, DIR_NEUTRAL), (CL_BREAKING, SV_HIGH)),
      ((CT_NULLABLE_TO_NON_NULLABLE, DIR_INPUT), (CL_BREAKING, SV_HIGH)),
      ((CT_NULLABLE_TO_NON_NULLABLE, DIR_OUTPUT), (CL_COMPATIBLE, SV_INFO)),
      ((CT_NULLABLE_TO_NON_NULLABLE, DIR_NEUTRAL), (CL_POTENTIALLY_BREAKING, SV_MEDIUM)),
      ((CT_NON_NULLABLE_TO_NULLABLE, DIR_INPUT), (CL_COMPATIBLE, SV_INFO)),
      ((CT_NON_NULLABLE_TO_NULLABLE, DIR_OUTPUT), (CL_POTENTIALLY_BREAKING, SV_MEDIUM)),
      ((CT_NON_NULLABLE_TO_NULLABLE, DIR_NEUTRAL), (CL_POTENTIALLY_BREAKING, SV_LOW)),
      ((CT_ENUM_VALUE_ADDED, DIR_INPUT), (CL_COMPATIBLE, SV_INFO)),
      ((CT_ENUM_VALUE_ADDED, DIR_OUTPUT), (CL_POTENTIALLY_BREAKING, SV_MEDIUM)),
      ((CT_ENUM_VALUE_ADDED, DIR_NEUTRAL), (CL_POTENTIALLY_BREAKING, SV_LOW)),
      ((CT_ENUM_VALUE_REMOVED, DIR_INPUT), (CL_BREAKING, SV_HIGH)),
      ((CT_ENUM_VALUE_REMOVED, DIR_OUTPUT), (CL_COMPATIBLE, SV_LOW)),
      ((CT_ENUM_VALUE_REMOVED, DIR_NEUTRAL), (CL_POTENTIALLY_BREAKING, SV_MEDIUM)),
      ((CT_ENUM_NARROWED, DIR_INPUT), (CL_BREAKING, SV_HIGH)),
      ((CT_ENUM_NARROWED, DIR_OUTPUT), (CL_COMPATIBLE, SV_LOW)),
      ((CT_ENUM_NARROWED, DIR_NEUTRAL), (CL_POTENTIALLY_BREAKING, SV_MEDIUM)),
      ((CT_ARRAY_ITEM_TYPE_CHANGED, DIR_INPUT), (CL_BREAKING, SV_HIGH)),
      ((CT_ARRAY_ITEM_TYPE_CHANGED, DIR_OUTPUT), (CL_BREAKING, SV_HIGH)),
      ((CT_ARRAY_ITEM_TYPE_CHANGED, DIR_NEUTRAL), (CL_BREAKING, SV_HIGH))]"

definition tightens_when_larger :: "string list" where
  "tightens_when_larger =
     [''minimum'', ''exclusiveMinimum'', ''minLength'', ''minItems'', ''minProperties'']"

definition tightens_when_smaller :: "string list" where
  "tightens_when_smaller =
     [''maximum'', ''exclusiveMaximum'', ''maxLength'', ''maxItems'', ''maxProperties'']"

definition generic_rules :: "(change_type \<times> (classification \<times> severity)) list" where
  "generic_rules =
     [(CT_CONFIG_FIELD_ADDED, (CL_COMPATIBLE, SV_INFO)),
      (CT_CONFIG_FIELD_REMOVED, (CL_POTENTIALLY_BREAKING, SV_LOW)),
      (CT_VALUE_CHANGED, (CL_POTENTIALLY_BREAKING, SV_MEDIUM)),
      (CT_CONTENT_CHANGED, (CL_POTENTIALLY_BREAKING, SV_MEDIUM)),
      (CT_VARIABLE_ADDED, (CL_BREAKING, SV_HIGH)),
      (CT_VARIABLE_REMOVED, (CL_COMPATIBLE, SV_LOW)),
      (CT_PROVIDER_CHANGED, (CL_POTENTIALLY_BREAKING, SV_MEDIUM)),
      (CT_MODEL_IDENTIFIER_CHANGED, (CL_POTENTIALLY_BREAKING, SV_MEDIUM)),
      (CT_PARAMETER_CHANGED, (CL_POTENTIALLY_BREAKING, SV_LOW)),
      (CT_MODEL_REF_CHANGED, (CL_POTENTIALLY_BREAKING, SV_MEDIUM)),
      (CT_PROMPT_REF_CHANGED, (CL_POTENTIALLY_BREAKING, SV_MEDIUM)),
      (CT_TOOL_ADDED, (CL_COMPATIBLE, SV_INFO)),
      (CT_TOOL_REMOVED, (CL_POTENTIALLY_BREAKING, SV_MEDIUM)),
      (CT_DESCRIPTION_CHANGED, (CL_COMPATIBLE, SV_INFO)),
      (CT_ENDPOINT_CHANGED, (CL_POTENTIALLY_BREAKING, SV_MEDIUM)),
      (CT_TRANSPORT_CHANGED, (CL_POTENTIALLY_BREAKING, SV_MEDIUM)),
      (CT_SERVER_NAME_CHANGED, (CL_COMPATIBLE, SV_INFO)),
      (CT_BASE_URL_CHANGED, (CL_POTENTIALLY_BREAKING, SV_MEDIUM)),
      (CT_METHOD_CHANGED, (CL_BREAKING, SV_HIGH)),
      (CT_AUTH_CHANGED, (CL_POTENTIALLY_BREAKING, SV_MEDIUM)),
      (CT_STEP_ADDED, (CL_COMPATIBLE, SV_INFO)),
      (CT_STEP_REMOVED, (CL_POTENTIALLY_BREAKING, SV_MEDIUM)),
      (CT_STEP_ORDER_CHANGED, (CL_POTENTIALLY_BREAKING, SV_LOW)),
      (CT_REQUIRED_STEP_REMOVED, (CL_BREAKING, SV_HIGH)),
      (CT_WORKFLOW_CONFIG_CHANGED, (CL_POTENTIALLY_BREAKING, SV_LOW)),
      (CT_RULE_ADDED, (CL_POTENTIALLY_BREAKING, SV_MEDIUM)),
      (CT_RULE_REMOVED, (CL_POTENTIALLY_BREAKING, SV_MEDIUM)),
      (CT_RULE_CHANGED, (CL_POTENTIALLY_BREAKING, SV_MEDIUM))]"

section \<open>Classification\<close>

definition classify :: "change_type \<Rightarrow> direction \<Rightarrow> exn + classification \<times> severity" where
  "classify change_type direction =
     (case map_of schema_rules (change_type, direction) of
        Some rule \<Rightarrow> Inr rule
      | None \<Rightarrow>
          (case map_of generic_rules change_type of
             Some rule \<Rightarrow> Inr rule
           | None \<Rightarrow> Inl (Py KeyError)))"

text \<open>\<open>_as_numeric_pair\<close>: both numbers as doubles, or \<open>None\<close>; \<open>float\<close> of a huge integer raises.\<close>

definition as_float :: "json \<Rightarrow> (exn + rat) option" where
  "as_float v = (case v of JInt i \<Rightarrow> Some (lift_py (float_of_int i)) | JFloat q \<Rightarrow> Some (Inr q) | _ \<Rightarrow> None)"

definition as_numeric_pair :: "json \<Rightarrow> json \<Rightarrow> exn + (rat \<times> rat) option" where
  "as_numeric_pair a b =
     (case (as_float a, as_float b) of
        (Some x, Some y) \<Rightarrow> rbind x (\<lambda>p. rbind y (\<lambda>q. Inr (Some (p, q))))
      | _ \<Rightarrow> Inr None)"

text \<open>A pair is always truthy, so \<open>pair := ...\<close> in a condition asks whether it is not \<open>None\<close>.\<close>

definition unique_items_tightened :: "string \<Rightarrow> json \<Rightarrow> json \<Rightarrow> bool option" where
  "unique_items_tightened key old_value new_value =
     (if key = ''uniqueItems'' then
        if old_value = JBool False \<and> new_value = JBool True then Some True
        else if old_value = JBool True \<and> new_value = JBool False then Some False
        else None
      else None)"

definition constraint_tightened :: "string \<Rightarrow> json \<Rightarrow> json \<Rightarrow> exn + bool option" where
  "constraint_tightened key old_value new_value =
     rbind (if key \<in> set tightens_when_larger then as_numeric_pair old_value new_value else Inr None)
       (\<lambda>larger. case larger of
          Some (old_number, new_number) \<Rightarrow> Inr (Some (new_number > old_number))
        | None \<Rightarrow>
            rbind (if key \<in> set tightens_when_smaller then as_numeric_pair old_value new_value
                   else Inr None)
              (\<lambda>smaller. case smaller of
                 Some (old_number, new_number) \<Rightarrow> Inr (Some (new_number < old_number))
               | None \<Rightarrow> Inr (unique_items_tightened key old_value new_value)))"

definition classify_constraint_change :: "direction \<Rightarrow> bool option \<Rightarrow> classification \<times> severity" where
  "classify_constraint_change direction tightened =
     (case tightened of
        None \<Rightarrow> (CL_POTENTIALLY_BREAKING, SV_MEDIUM)
      | Some t \<Rightarrow>
          if direction = DIR_INPUT then
            (if t then (CL_POTENTIALLY_BREAKING, SV_MEDIUM) else (CL_COMPATIBLE, SV_INFO))
          else if direction = DIR_OUTPUT then
            (if t then (CL_COMPATIBLE, SV_LOW) else (CL_POTENTIALLY_BREAKING, SV_MEDIUM))
          else (CL_POTENTIALLY_BREAKING, SV_LOW))"

definition derive_status :: "change list \<Rightarrow> compatibility_status" where
  "derive_status changes =
     (if list_ex (\<lambda>c. ch_class c = CL_BREAKING) changes then CS_BREAKING
      else if list_ex (\<lambda>c. ch_class c = CL_POTENTIALLY_BREAKING) changes then CS_WARNING
      else CS_COMPATIBLE)"

section \<open>Lemmas\<close>

lemma classify_cases:
  "(ct = CT_CONSTRAINT_CHANGED \<and> classify ct d = Inl (Py KeyError)) \<or>
   (ct \<noteq> CT_CONSTRAINT_CHANGED \<and> (\<exists>r. classify ct d = Inr r))"
  by (cases ct; cases d) (simp_all add: classify_def schema_rules_def generic_rules_def)

lemma classify_ok: "ct \<noteq> CT_CONSTRAINT_CHANGED \<Longrightarrow> \<exists>r. classify ct d = Inr r"
  using classify_cases [of ct d] by blast

lemma derive_status_breaking_iff:
  "derive_status cs = CS_BREAKING \<longleftrightarrow> CL_BREAKING \<in> ch_class ` set cs"
proof -
  have "CL_BREAKING \<in> ch_class ` set cs \<longleftrightarrow> list_ex (\<lambda>c. ch_class c = CL_BREAKING) cs"
    by (force simp: list_ex_iff)
  then show ?thesis by (simp add: derive_status_def)
qed

lemma derive_status_compatible_iff:
  "derive_status cs = CS_COMPATIBLE \<longleftrightarrow> ch_class ` set cs \<subseteq> {CL_COMPATIBLE}"
proof -
  have "x = CL_COMPATIBLE \<longleftrightarrow> x \<noteq> CL_BREAKING \<and> x \<noteq> CL_POTENTIALLY_BREAKING" for x
    by (cases x) auto
  then show ?thesis by (auto simp: derive_status_def list_ex_iff)
qed

end
