(* ===== verification/Py_Equality.thy ===== *)
theory Py_Equality
  imports Py_Value
begin

text \<open>
  The laws of Python's \<open>==\<close> on JSON values (an equivalence on values whose dicts have distinct
  keys, a congruence for look-ups, truth and numbers), and the hash-based collections built on it:
  \<open>set(...)\<close> and \<open>dict.fromkeys(...)\<close> as duplicate-free lists in first-occurrence order,
  which raise \<open>TypeError\<close> on an unhashable element.
\<close>

section \<open>Equality is an equivalence\<close>

lemma py_eq_simps [simp]:
  "py_eq (JList xs) (JList ys) \<longleftrightarrow> list_all2 py_eq xs ys"
  "py_eq (JDict kvs) (JDict lvs) \<longleftrightarrow> length kvs = length lvs \<and> py_eq_items kvs lvs"
  by (simp_all add: py_eq_list_iff py_eq.simps(6,7))

lemma py_eq_JListE: "py_eq (JList xs) b \<Longrightarrow> (\<And>ys. b = JList ys \<Longrightarrow> list_all2 py_eq xs ys \<Longrightarrow> P) \<Longrightarrow> P"
  by (cases b) (auto simp: py_eq.simps(6) py_eq_list_iff)

lemma py_eq_JDictE:
  "py_eq (JDict kvs) b \<Longrightarrow>
   (\<And>lvs. b = JDict lvs \<Longrightarrow> length kvs = length lvs \<Longrightarrow> py_eq_items kvs lvs \<Longrightarrow> P) \<Longrightarrow> P"
  by (cases b) (auto simp: py_eq.simps(7))

lemma py_eq_num_iff: "py_num a = Some x \<Longrightarrow> py_eq a b \<longleftrightarrow> py_num b = Some x"
  by (cases a) auto

lemma py_eq_num: "py_eq a b \<Longrightarrow> py_num a = py_num b"
  by (cases a) (auto elim: py_eq_JListE py_eq_JDictE)

lemma py_eq_refl: "json_ok v \<Longrightarrow> py_eq v v"
proof (induction v rule: json_ok.induct)
  case (1 xs)
  then show ?case by (auto simp: list_all_iff list.rel_refl_strong)
next
  case (2 kvs)
  then show ?case by (fastforce simp: py_eq_items_iff list_all_iff)
qed simp_all

lemma py_eq_trans: "py_eq a b \<Longrightarrow> py_eq b c \<Longrightarrow> py_eq a c"
proof (induction a arbitrary: b c rule: json_ok.induct)
  case (1 xs)
  from "1.prems"(1) obtain ys where b: "b = JList ys" and xy: "list_all2 py_eq xs ys"
    by (rule py_eq_JListE)
  from "1.prems"(2) b obtain zs where eq: "c = JList zs" and yz: "list_all2 py_eq ys zs"
    by (auto elim: py_eq_JListE)
  have "list_all2 py_eq xs zs"
    unfolding list_all2_conv_all_nth
    using xy yz "1.IH" by (auto simp: list_all2_conv_all_nth dest: nth_mem)
  with eq show ?case by simp
next
  case (2 kvs)
  from "2.prems"(1) obtain lvs where b: "b = JDict lvs"
    and l1: "length kvs = length lvs" and i1: "py_eq_items kvs lvs"
    by (rule py_eq_JDictE)
  from "2.prems"(2) b obtain mvs where eq: "c = JDict mvs"
    and l2: "length lvs = length mvs" and i2: "py_eq_items lvs mvs"
    by (auto elim: py_eq_JDictE)
  note l = l1 l2 and i = i1 i2
  have "py_eq_items kvs mvs"
    unfolding py_eq_items_iff
  proof (clarify)
    fix k v
    assume kv: "(k, v) \<in> set kvs"
    with i obtain w where w: "map_of lvs k = Some w" "py_eq v w"
      by (auto simp: py_eq_items_iff)
    with i obtain u where u: "map_of mvs k = Some u" "py_eq w u"
      by (fastforce simp: py_eq_items_iff dest: map_of_SomeD)
    from "2.IH" [OF kv refl] w(2) u(2) have "py_eq v u" by blast
    with u(1) show "\<exists>w. map_of mvs k = Some w \<and> py_eq v w" by blast
  qed
  with eq l show ?case by simp
qed (auto simp: py_eq_num_iff)

text \<open>Equal dicts bind the same keys, to equal values.\<close>

lemma py_eq_items_keys:
  assumes "py_eq_items kvs lvs" "length kvs = length lvs"
    and "distinct (map fst kvs)" "distinct (map fst lvs)"
  shows "fst ` set kvs = fst ` set lvs"
proof -
  have sub: "fst ` set kvs \<subseteq> fst ` set lvs"
    using assms(1) by (force simp: py_eq_items_iff dest: map_of_SomeD)
  have "card (fst ` set kvs) = length kvs" "card (fst ` set lvs) = length lvs"
    using assms(3,4) by (metis distinct_card length_map set_map)+
  with sub assms(2) show ?thesis by (simp add: card_subset_eq)
qed

lemma py_eq_sym: "py_eq a b \<Longrightarrow> json_ok a \<Longrightarrow> json_ok b \<Longrightarrow> py_eq b a"
proof (induction a arbitrary: b rule: json_ok.induct)
  case (1 xs)
  from "1.prems" obtain ys where eq: "b = JList ys" and xy: "list_all2 py_eq xs ys"
    by (elim py_eq_JListE) auto
  have "list_all2 py_eq ys xs"
    unfolding list_all2_conv_all_nth
  proof (intro conjI allI impI)
    show "length ys = length xs" using xy by (simp add: list_all2_lengthD)
  next
    fix i assume i: "i < length ys"
    with xy have "i < length xs" "py_eq (xs ! i) (ys ! i)" by (auto simp: list_all2_conv_all_nth)
    with i "1.IH" "1.prems"(2,3) eq show "py_eq (ys ! i) (xs ! i)"
      by (auto simp: list_all_length)
  qed
  with eq show ?case by simp
next
  case (2 kvs)
  from "2.prems" obtain lvs where eq: "b = JDict lvs"
    and l: "length kvs = length lvs" and i: "py_eq_items kvs lvs"
    by (elim py_eq_JDictE) auto
  have d: "distinct (map fst kvs)" "distinct (map fst lvs)"
    using "2.prems" eq by auto
  have keys: "fst ` set kvs = fst ` set lvs" by (rule py_eq_items_keys [OF i l d])
  have "py_eq_items lvs kvs"
    unfolding py_eq_items_iff
  proof (clarify)
    fix k w
    assume kw: "(k, w) \<in> set lvs"
    then have "k \<in> fst ` set kvs" using keys by force
    then obtain v where kv: "(k, v) \<in> set kvs" by auto
    with i obtain w' where "map_of lvs k = Some w'" "py_eq v w'" by (auto simp: py_eq_items_iff)
    with kw d have "py_eq v w" by simp
    moreover have "json_ok v" "json_ok w"
      using "2.prems"(2,3) eq kv kw by (auto simp: list_all_iff)
    ultimately have "py_eq w v" using "2.IH" kv by blast
    with kv d show "\<exists>w'. map_of kvs k = Some w' \<and> py_eq w w'" by auto
  qed
  with eq l show ?case by simp
qed (auto simp: py_eq_num_iff)

lemma py_eq_left: "py_eq a b \<Longrightarrow> json_ok a \<Longrightarrow> json_ok b \<Longrightarrow> py_eq a c \<longleftrightarrow> py_eq b c"
  by (meson py_eq_sym py_eq_trans)

lemma py_eq_right: "py_eq b c \<Longrightarrow> json_ok b \<Longrightarrow> json_ok c \<Longrightarrow> py_eq a b \<longleftrightarrow> py_eq a c"
  by (meson py_eq_sym py_eq_trans)

lemma py_eq_str_iff [simp]: "py_eq a (JStr s) \<longleftrightarrow> a = JStr s"
  by (cases a) (auto simp: py_eq.simps(6,7))

lemma py_eq_null_iff [simp]: "py_eq a JNull \<longleftrightarrow> a = JNull"
  by (cases a) (auto simp: py_eq.simps(6,7))

lemma py_eq_bool_cong: "py_eq a b \<Longrightarrow> py_bool a = py_bool b"
proof (cases "py_num a")
  case (Some x)
  assume "py_eq a b"
  with Some have "py_num b = Some x" by (simp add: py_eq_num_iff)
  with Some show ?thesis by (cases a; cases b) (auto split: if_splits)
next
  case None
  assume "py_eq a b"
  with None show ?thesis by (cases a) (auto elim!: py_eq_JListE py_eq_JDictE)
qed

section \<open>Look-ups respect equality\<close>

lemma py_eq_lookup:
  assumes "py_eq (JDict kvs) (JDict lvs)" "dict_ok kvs" "dict_ok lvs"
  shows "rel_option py_eq (map_of kvs k) (map_of lvs k)"
proof -
  have d: "distinct (map fst kvs)" "distinct (map fst lvs)"
    using assms(2,3) by (auto simp: dict_ok_def)
  have keys: "fst ` set kvs = fst ` set lvs"
    using assms(1) by (intro py_eq_items_keys [OF _ _ d]) simp_all
  show ?thesis
  proof (cases "map_of kvs k")
    case None
    with keys have "map_of lvs k = None" by (simp add: map_of_eq_None_iff)
    with None show ?thesis by simp
  next
    case (Some v)
    then have "(k, v) \<in> set kvs" by (rule map_of_SomeD)
    with assms(1) Some show ?thesis by (force simp: py_eq_items_iff)
  qed
qed

lemma py_eq_has_key:
  "py_eq (JDict kvs) (JDict lvs) \<Longrightarrow> dict_ok kvs \<Longrightarrow> dict_ok lvs \<Longrightarrow> has_key kvs k = has_key lvs k"
  using py_eq_lookup [of kvs lvs k] by (auto simp: has_key_iff option_rel_Some1 option_rel_Some2)

lemma py_eq_dget:
  "py_eq (JDict kvs) (JDict lvs) \<Longrightarrow> dict_ok kvs \<Longrightarrow> dict_ok lvs \<Longrightarrow> py_eq (dget kvs k) (dget lvs k)"
  using py_eq_lookup [of kvs lvs k] by (auto simp: dget_def split: option.splits)

lemma py_eq_dictI:
  assumes "dict_ok kvs" "dict_ok lvs" and "\<And>k. rel_option py_eq (map_of kvs k) (map_of lvs k)"
  shows "py_eq (JDict kvs) (JDict lvs)"
proof -
  have d: "distinct (map fst kvs)" "distinct (map fst lvs)" using assms by (auto simp: dict_ok_def)
  have n: "map_of kvs k = None \<longleftrightarrow> map_of lvs k = None" for k
    using assms(3) [of k] by (cases "map_of kvs k"; cases "map_of lvs k") auto
  have "fst ` set kvs = fst ` set lvs"
    using n by (metis (no_types) equalityI map_of_eq_None_iff subsetI)
  then have "length kvs = length lvs"
    using d by (metis distinct_card length_map set_map)
  moreover have "py_eq_items kvs lvs"
    unfolding py_eq_items_iff
  proof clarify
    fix k v assume "(k, v) \<in> set kvs"
    with d have "map_of kvs k = Some v" by simp
    with assms(3) [of k] show "\<exists>w. map_of lvs k = Some w \<and> py_eq v w"
      by (cases "map_of lvs k") auto
  qed
  ultimately show ?thesis by simp
qed

lemma py_eq_dict_iff:
  "dict_ok kvs \<Longrightarrow> dict_ok lvs \<Longrightarrow>
   py_eq (JDict kvs) (JDict lvs) \<longleftrightarrow> (\<forall>k. rel_option py_eq (map_of kvs k) (map_of lvs k))"
  using py_eq_dictI py_eq_lookup by blast

lemma json_ok_dget: "dict_ok kvs \<Longrightarrow> json_ok (dget kvs k)"
  by (auto simp: dget_def split: option.splits intro: dict_ok_lookup)

lemma json_ok_dget_or: "dict_ok kvs \<Longrightarrow> json_ok d \<Longrightarrow> json_ok (dget_or kvs k d)"
  by (auto simp: dget_or_def split: option.splits intro: dict_ok_lookup)

end
