(* ===== verification/Py_Collections.thy ===== *)
theory Py_Collections
  imports Py_Equality
begin

text \<open>
  Sets and sorting as the program uses them: \<open>set(...)\<close> and \<open>dict.fromkeys(...)\<close> over
  JSON values (duplicate-free lists under \<open>==\<close>, in first-occurrence order; \<open>TypeError\<close> on an
  unhashable element), iteration over an arbitrary value, and \<open>sorted\<close> on scalars, which raises
  \<open>TypeError\<close> where Python has no \<open><\<close> between two elements.
\<close>

section \<open>Membership and sets\<close>

text \<open>\<open>x in xs\<close>.\<close>

definition py_in :: "json \<Rightarrow> json list \<Rightarrow> bool" where
  "py_in x xs \<longleftrightarrow> list_ex (py_eq x) xs"

fun hashable :: "json \<Rightarrow> bool" where
  "hashable (JList _) = False"
| "hashable (JDict _) = False"
| "hashable _ = True"

text \<open>The loop \<open>if x not in seen: seen.append(x)\<close>.\<close>

fun dedup :: "json list \<Rightarrow> json list \<Rightarrow> json list" where
  "dedup seen [] = seen"
| "dedup seen (x # xs) = dedup (if py_in x seen then seen else seen @ [x]) xs"

definition py_set :: "json list \<Rightarrow> py_error + json list" where
  "py_set xs = (if list_all hashable xs then Inr (dedup [] xs) else Inl TypeError)"

text \<open>\<open>iter(v)\<close>: a list gives its elements, a string its characters, a dict its keys.\<close>

fun py_iter :: "json \<Rightarrow> py_error + json list" where
  "py_iter (JList xs) = Inr xs"
| "py_iter (JStr s) = Inr (map (\<lambda>c. JStr [c]) s)"
| "py_iter (JDict kvs) = Inr (map (\<lambda>k. JStr k) (dkeys kvs))"
| "py_iter _ = Inl TypeError"

text \<open>\<open>set(v or [])\<close>.\<close>

definition py_set_of :: "json \<Rightarrow> py_error + json list" where
  "py_set_of v = rbind (py_iter (py_or v (JList []))) py_set"

definition set_diff :: "json list \<Rightarrow> json list \<Rightarrow> json list" where
  "set_diff xs ys = filter (\<lambda>x. \<not> py_in x ys) xs"

definition set_le :: "json list \<Rightarrow> json list \<Rightarrow> bool" where
  "set_le xs ys \<longleftrightarrow> list_all (\<lambda>x. py_in x ys) xs"

definition set_equal :: "json list \<Rightarrow> json list \<Rightarrow> bool" where
  "set_equal xs ys \<longleftrightarrow> set_le xs ys \<and> set_le ys xs"

definition set_less :: "json list \<Rightarrow> json list \<Rightarrow> bool" where
  "set_less xs ys \<longleftrightarrow> set_le xs ys \<and> \<not> set_le ys xs"

section \<open>Sorting scalars\<close>

definition str_of :: "json \<Rightarrow> string" where
  "str_of v = (case v of JStr s \<Rightarrow> s | _ \<Rightarrow> [])"

definition num_of :: "json \<Rightarrow> rat" where
  "num_of v = (case py_num v of Some q \<Rightarrow> q | None \<Rightarrow> 0)"

text \<open>\<open>sorted(xs)\<close> on scalars: strings by code point, numbers by value, no mixture.\<close>

definition py_sorted :: "json list \<Rightarrow> py_error + json list" where
  "py_sorted xs =
     (if length xs \<le> 1 then Inr xs
      else if list_all is_str xs then Inr (sort_key str_of xs)
      else if list_all (\<lambda>x. py_num x \<noteq> None) xs then Inr (sort_key num_of xs)
      else Inl TypeError)"

section \<open>Containers of any type\<close>

text \<open>\<open>x in v\<close>; a dict is asked for a key, a string for a substring.\<close>

fun py_contains :: "json \<Rightarrow> json \<Rightarrow> py_error + bool" where
  "py_contains x (JDict kvs) =
     (if hashable x then Inr (case x of JStr k \<Rightarrow> has_key kvs k | _ \<Rightarrow> False) else Inl TypeError)"
| "py_contains x (JList xs) = Inr (py_in x xs)"
| "py_contains x (JStr s) = (case x of JStr t \<Rightarrow> Inr (sublist t s) | _ \<Rightarrow> Inl TypeError)"
| "py_contains x _ = Inl TypeError"

text \<open>\<open>xs[i]\<close>: a negative index counts from the end.\<close>

definition py_index :: "json list \<Rightarrow> int \<Rightarrow> py_error + json" where
  "py_index xs i =
     (let j = (if i < 0 then i + int (length xs) else i)
      in if 0 \<le> j \<and> j < int (length xs) then Inr (xs ! nat j) else Inl IndexError)"

definition index_of :: "json \<Rightarrow> int option" where
  "index_of v = (case v of JInt i \<Rightarrow> Some i | JBool b \<Rightarrow> Some (if b then 1 else 0) | _ \<Rightarrow> None)"

text \<open>\<open>v[x]\<close>.\<close>

fun py_getitem :: "json \<Rightarrow> json \<Rightarrow> py_error + json" where
  "py_getitem (JDict kvs) x =
     (if hashable x then
        (case x of
           JStr k \<Rightarrow> (case map_of kvs k of Some v \<Rightarrow> Inr v | None \<Rightarrow> Inl KeyError)
         | _ \<Rightarrow> Inl KeyError)
      else Inl TypeError)"
| "py_getitem (JList xs) x =
     (case index_of x of Some i \<Rightarrow> py_index xs i | None \<Rightarrow> Inl TypeError)"
| "py_getitem (JStr s) x =
     (case index_of x of
        Some i \<Rightarrow> py_index (map (\<lambda>c. JStr [c]) s) i
      | None \<Rightarrow> Inl TypeError)"
| "py_getitem v x = Inl TypeError"

text \<open>\<open>sorted(set(a) | set(b))\<close>.\<close>

definition sorted_union :: "json \<Rightarrow> json \<Rightarrow> py_error + json list" where
  "sorted_union a b =
     rbind (py_iter a) (\<lambda>xs. rbind (py_set xs) (\<lambda>sx.
     rbind (py_iter b) (\<lambda>ys. rbind (py_set ys) (\<lambda>sy. py_sorted (dedup sx sy)))))"

section \<open>Lemmas\<close>

lemma py_in_iff: "py_in x xs \<longleftrightarrow> (\<exists>y \<in> set xs. py_eq x y)"
  by (auto simp: py_in_def list_ex_iff)

lemma py_in_str [simp]: "py_in (JStr s) xs \<longleftrightarrow> JStr s \<in> set xs"
  by (auto simp: py_in_iff)

lemma hashable_ok: "hashable x \<Longrightarrow> json_ok x"
  by (cases x) auto

lemma set_dedup_subset: "set (dedup seen xs) \<subseteq> set seen \<union> set xs"
proof (induction xs arbitrary: seen)
  case (Cons x xs)
  show ?case using Cons.IH [of "if py_in x seen then seen else seen @ [x]"] by auto
qed simp

lemma set_dedup_seen: "set seen \<subseteq> set (dedup seen xs)"
proof (induction xs arbitrary: seen)
  case (Cons x xs)
  show ?case using Cons.IH [of "if py_in x seen then seen else seen @ [x]"] by auto
qed simp

text \<open>No element is lost: each one is equal to one that is kept.\<close>

lemma dedup_covers:
  "x \<in> set xs \<Longrightarrow> json_ok x \<Longrightarrow> py_in x (dedup seen xs)"
proof (induction xs arbitrary: seen)
  case (Cons y xs)
  show ?case
  proof (cases "x = y")
    case True
    show ?thesis
    proof (cases "py_in y seen")
      case in_seen: True
      then show ?thesis using True set_dedup_seen [of seen xs] by (auto simp: py_in_iff)
    next
      case False
      then show ?thesis
        using True Cons.prems(2) set_dedup_seen [of "seen @ [y]" xs]
        by (auto simp: py_in_iff intro: py_eq_refl)
    qed
  next
    case False
    then show ?thesis using Cons by simp
  qed
qed simp

text \<open>No two kept elements are equal, and a list without equal elements is kept as it is.\<close>

fun pairwise_ne :: "json list \<Rightarrow> bool" where
  "pairwise_ne [] = True"
| "pairwise_ne (x # xs) = (list_all (\<lambda>y. \<not> py_eq x y \<and> \<not> py_eq y x) xs \<and> pairwise_ne xs)"

lemma pairwise_ne_append:
  "pairwise_ne (xs @ ys) \<longleftrightarrow>
   pairwise_ne xs \<and> pairwise_ne ys \<and> (\<forall>x \<in> set xs. \<forall>y \<in> set ys. \<not> py_eq x y \<and> \<not> py_eq y x)"
  by (induction xs) (auto simp: list_all_iff)

lemma pairwise_ne_dedup:
  "pairwise_ne seen \<Longrightarrow> list_all json_ok seen \<Longrightarrow> list_all json_ok xs \<Longrightarrow>
   pairwise_ne (dedup seen xs)"
proof (induction xs arbitrary: seen)
  case (Cons x xs)
  show ?case
  proof (cases "py_in x seen")
    case True
    with Cons show ?thesis by simp
  next
    case False
    then have "pairwise_ne (seen @ [x])"
      using Cons.prems by (auto simp: pairwise_ne_append py_in_iff list_all_iff dest: py_eq_sym)
    with False Cons show ?thesis by simp
  qed
qed simp

lemma dedup_id:
  "pairwise_ne (seen @ xs) \<Longrightarrow> dedup seen xs = seen @ xs"
proof (induction xs arbitrary: seen)
  case (Cons x xs)
  then have "\<not> py_in x seen" by (auto simp: pairwise_ne_append py_in_iff)
  with Cons.IH [of "seen @ [x]"] Cons.prems show ?case by simp
qed simp

lemma dedup_twice: "\<exists>ys. dedup seen xs = seen @ ys \<and> dedup seen ys = seen @ ys"
proof (induction xs arbitrary: seen)
  case (Cons x xs)
  show ?case
  proof (cases "py_in x seen")
    case False
    from Cons.IH [of "seen @ [x]"] obtain ys
      where "dedup (seen @ [x]) xs = seen @ x # ys" "dedup (seen @ [x]) ys = seen @ x # ys"
      by auto
    with False show ?thesis by (intro exI [of _ "x # ys"]) simp
  qed (simp add: Cons.IH)
qed simp

lemma dedup_idem [simp]: "dedup [] (dedup [] xs) = dedup [] xs"
  using dedup_twice [of "[]" xs] by auto

lemma pairwise_ne_mset: "mset xs = mset ys \<Longrightarrow> pairwise_ne xs \<Longrightarrow> pairwise_ne ys"
proof (induction xs arbitrary: ys)
  case (Cons x xs)
  then have "x \<in> set ys" by (metis list.set_intros(1) set_mset_mset)
  then obtain as bs where ys: "ys = as @ x # bs" by (auto simp: in_set_conv_decomp)
  with Cons.prems(1) have m: "mset xs = mset (as @ bs)" by simp
  with Cons have ne: "pairwise_ne (as @ bs)" by simp
  from m have "set xs = set as \<union> set bs" by (metis set_append set_mset_mset)
  with Cons.prems(2) ne show ?case
    by (auto simp: ys pairwise_ne_append list_all_iff)
qed simp

lemma mset_py_sorted: "py_sorted xs = Inr ys \<Longrightarrow> mset ys = mset xs"
  by (auto simp: py_sorted_def split: if_splits)

lemma set_py_sorted: "py_sorted xs = Inr ys \<Longrightarrow> set ys = set xs"
  by (drule mset_py_sorted) (metis set_mset_mset)

lemma py_sorted_idem: "py_sorted xs = Inr ys \<Longrightarrow> py_sorted ys = Inr ys"
proof -
  assume s: "py_sorted xs = Inr ys"
  have l: "length ys = length xs" using mset_py_sorted [OF s] by (metis size_mset)
  have st: "set ys = set xs" by (rule set_py_sorted [OF s])
  show ?thesis
    using s l st by (auto simp: py_sorted_def list_all_iff split: if_splits)
qed

lemma list_all_hashable_ok: "list_all hashable xs \<Longrightarrow> list_all json_ok xs"
  by (auto simp: list_all_iff intro: hashable_ok)

lemma list_all_hashable_dedup: "list_all hashable xs \<Longrightarrow> list_all hashable (dedup [] xs)"
  using set_dedup_subset [of "[]" xs] by (auto simp: list_all_iff)

lemma py_set_idem: "py_set xs = Inr ys \<Longrightarrow> mset zs = mset ys \<Longrightarrow> py_set zs = Inr zs"
proof -
  assume s: "py_set xs = Inr ys" and m: "mset zs = mset ys"
  then have h: "list_all hashable xs" and y: "ys = dedup [] xs"
    by (auto simp: py_set_def split: if_splits)
  have "pairwise_ne ys" unfolding y
    by (rule pairwise_ne_dedup) (simp_all add: list_all_hashable_ok h)
  then have "pairwise_ne zs" using m by (metis pairwise_ne_mset)
  moreover have "list_all hashable zs"
    using list_all_hashable_dedup [OF h] m y by (metis list_all_iff set_mset_mset)
  ultimately show ?thesis by (simp add: py_set_def dedup_id)
qed

lemma py_set_mem_str: "py_set xs = Inr ys \<Longrightarrow> JStr s \<in> set ys \<longleftrightarrow> JStr s \<in> set xs"
proof -
  assume "py_set xs = Inr ys"
  then have h: "list_all hashable xs" and y: "ys = dedup [] xs"
    by (auto simp: py_set_def split: if_splits)
  show ?thesis
    using set_dedup_subset [of "[]" xs] dedup_covers [of "JStr s" xs "[]"] y by auto
qed

lemma json_ok_dedup: "list_all json_ok xs \<Longrightarrow> list_all json_ok (dedup [] xs)"
  using set_dedup_subset [of "[]" xs] by (auto simp: list_all_iff)

text \<open>On text these are the ordinary sets and sorted lists of strings.\<close>

lemma py_in_map_JStr [simp]: "py_in x (map JStr ks) \<longleftrightarrow> (\<exists>k \<in> set ks. x = JStr k)"
  by (auto simp: py_in_iff)

lemma pairwise_ne_JStr: "distinct ks \<Longrightarrow> pairwise_ne (map JStr ks)"
  by (induction ks) (auto simp: list_all_iff)

lemma dedup_JStr:
  "distinct as \<Longrightarrow> \<exists>ks. dedup (map JStr as) (map JStr bs) = map JStr ks \<and> distinct ks \<and>
     set ks = set as \<union> set bs"
proof (induction bs arbitrary: as)
  case (Cons b bs)
  show ?case
  proof (cases "b \<in> set as")
    case True
    then show ?thesis using Cons.IH [OF Cons.prems] by (auto simp: image_iff)
  next
    case False
    with Cons.prems have "distinct (as @ [b])" by simp
    from Cons.IH [OF this] False show ?thesis by (auto simp: image_iff)
  qed
qed auto

lemma sort_key_JStr: "sort_key str_of (map JStr ks) = map JStr (sort ks)"
proof (rule sort_key_inj_key_eq)
  show "mset (map JStr ks) = mset (map JStr (sort ks))" by simp
  show "inj_on str_of (set (map JStr ks))" by (auto simp: inj_on_def str_of_def)
  show "sorted (map str_of (map JStr (sort ks)))" by (simp add: str_of_def comp_def)
qed

lemma py_sorted_JStr [simp]: "py_sorted (map JStr ks) = Inr (map JStr (sort ks))"
proof (cases ks rule: remdups_adj.cases)
  case (3 a b cs)
  then show ?thesis
    by (simp add: py_sorted_def is_str_def list_all_iff sort_key_JStr del: sort_key_simps map_map
        flip: list.map)
qed (simp_all add: py_sorted_def)

lemma sorted_union_JDict:
  assumes "distinct (map fst kvs)" "distinct (map fst lvs)"
  shows "sorted_union (JDict kvs) (JDict lvs) = Inr (map JStr (sorted_set (dkeys kvs @ dkeys lvs)))"
proof -
  have it: "py_set (map JStr ks) = Inr (map JStr ks)" if "distinct ks" for ks
    using that by (simp add: py_set_def list_all_iff dedup_id pairwise_ne_JStr)
  obtain ks where ks: "dedup (map JStr (dkeys kvs)) (map JStr (dkeys lvs)) = map JStr ks"
      "distinct ks" "set ks = set (dkeys kvs) \<union> set (dkeys lvs)"
    using dedup_JStr [of "dkeys kvs" "dkeys lvs"] assms by (auto simp: dkeys_def)
  have "sorted_set ks = sorted_set (dkeys kvs @ dkeys lvs)"
    by (rule sorted_set_eqI) (use ks(3) in simp)
  moreover have "sort ks = sorted_set ks"
    using ks(2) by (simp add: sorted_set_def distinct_remdups_id)
  ultimately show ?thesis
    using assms ks(1) by (simp add: sorted_union_def it dkeys_def [symmetric])
qed

lemma py_index_mem: "py_index xs i = Inr x \<Longrightarrow> x \<in> set xs"
  by (auto simp: py_index_def Let_def split: if_splits intro!: nth_mem)

lemma py_getitem_depth:
  assumes "py_getitem v x = Inr (JDict mvs)"
  shows "json_depth (JDict mvs) < json_depth v"
proof (cases v)
  case (JDict kvs)
  then obtain k where "map_of kvs k = Some (JDict mvs)"
    using assms by (auto split: json.splits option.splits if_splits)
  then show ?thesis unfolding JDict by (rule json_depth_lookup)
next
  case (JList xs)
  then have "JDict mvs \<in> set xs" using assms by (auto split: option.splits dest: py_index_mem)
  then show ?thesis unfolding JList by (rule json_depth_list)
next
  case (JStr s)
  then show ?thesis using assms by (auto split: option.splits dest!: py_index_mem)
qed (use assms in auto)

end
