(* ===== verification/Compat_Normalizer.thy ===== *)
theory Compat_Normalizer
  imports Compat_Rules Py_Collections
begin

text \<open>
  \<open>app/compatibility/schema_normalizer.py\<close>: the normal form of a JSON-Schema-like value (sorted
  duplicate-free \<open>required\<close> and \<open>type\<close> lists, a one-element \<open>type\<close> list as its element,
  duplicate-free \<open>enum\<close>), with the depth bound of 64. Proved here: which schemas have a normal
  form, that it keeps the keys and the well-formedness, and that normalizing twice is normalizing
  once.
\<close>

section \<open>The code\<close>

definition max_depth :: nat where
  "max_depth = 64"

definition normalization_depth_error :: exn where
  "normalization_depth_error =
     Dom (SchemaNormalizationError ''exceeds max normalization depth (64)'')"

text \<open>\<open>sorted(dict.fromkeys(value))\<close>.\<close>

definition sorted_unique :: "json list \<Rightarrow> exn + json list" where
  "sorted_unique xs = lift_py (rbind (py_set xs) py_sorted)"

text \<open>
  The value that \<open>_normalize_object\<close> stores for one item of the dict; \<open>rec\<close> is
  \<open>normalize_schema(_, _depth=_depth + 1)\<close>.
\<close>

definition normalize_items :: "(json \<Rightarrow> exn + json) \<Rightarrow> json_dict \<Rightarrow> exn + json_dict" where
  "normalize_items rec kvs = rmap (\<lambda>(name, v). rbind (rec v) (\<lambda>w. Inr (name, w))) kvs"

definition normalize_value :: "(json \<Rightarrow> exn + json) \<Rightarrow> string \<Rightarrow> json \<Rightarrow> exn + json" where
  "normalize_value rec key v =
     (case v of
        JList xs \<Rightarrow>
          if key = ''required'' then rbind (sorted_unique xs) (\<lambda>ys. Inr (JList ys))
          else if key = ''type'' then
            rbind (sorted_unique xs)
              (\<lambda>deduped. Inr (if length deduped = 1 then deduped ! 0 else JList deduped))
          else if key = ''items'' then rec v
          else if key = ''enum'' then Inr (JList (dedup [] xs))
          else rec v
      | JDict kvs \<Rightarrow>
          if key = ''properties'' then rbind (normalize_items rec kvs) (\<lambda>lvs. Inr (JDict lvs))
          else rec v
      | _ \<Rightarrow> rec v)"

definition normalize_object :: "(json \<Rightarrow> exn + json) \<Rightarrow> json_dict \<Rightarrow> exn + json_dict" where
  "normalize_object rec kvs =
     rmap (\<lambda>(key, v). rbind (normalize_value rec key v) (\<lambda>w. Inr (key, w))) kvs"

function normalize_schema :: "json \<Rightarrow> nat \<Rightarrow> exn + json" where
  "normalize_schema schema depth =
     (if depth > max_depth then Inl normalization_depth_error
      else
        (case schema of
           JDict kvs \<Rightarrow>
             rbind (normalize_object (\<lambda>v. normalize_schema v (depth + 1)) kvs)
               (\<lambda>normalized. Inr (JDict normalized))
         | JList xs \<Rightarrow>
             rbind (rmap (\<lambda>item. normalize_schema item (depth + 1)) xs) (\<lambda>items. Inr (JList items))
         | _ \<Rightarrow> Inr schema))"
  by pat_completeness auto
termination
  by (relation "measure (\<lambda>(v, d). Suc max_depth - d)") auto

declare normalize_schema.simps [simp del]

text \<open>
  The recursive call as a constant, so that evaluation in the simplifier unfolds it only once it
  is applied.
\<close>

definition normalize_child :: "nat \<Rightarrow> json \<Rightarrow> exn + json" where
  "normalize_child depth v = normalize_schema v (depth + 1)"

lemma normalize_schema_code [code]:
  "normalize_schema schema depth =
     (if depth > max_depth then Inl normalization_depth_error
      else
        (case schema of
           JDict kvs \<Rightarrow>
             rbind (normalize_object (normalize_child depth) kvs) (\<lambda>normalized. Inr (JDict normalized))
         | JList xs \<Rightarrow> rbind (rmap (normalize_child depth) xs) (\<lambda>items. Inr (JList items))
         | _ \<Rightarrow> Inr schema))"
  by (subst normalize_schema.simps) (simp add: normalize_child_def [abs_def] split: json.split)

lemma normalize_schema_simps:
  "depth \<le> max_depth \<Longrightarrow> normalize_schema (JDict kvs) depth =
     rbind (normalize_object (\<lambda>v. normalize_schema v (depth + 1)) kvs) (\<lambda>normalized. Inr (JDict normalized))"
  "depth \<le> max_depth \<Longrightarrow> normalize_schema (JList xs) depth =
     rbind (rmap (\<lambda>item. normalize_schema item (depth + 1)) xs) (\<lambda>items. Inr (JList items))"
  "depth \<le> max_depth \<Longrightarrow> normalize_schema JNull depth = Inr JNull"
  "depth \<le> max_depth \<Longrightarrow> normalize_schema (JBool b) depth = Inr (JBool b)"
  "depth \<le> max_depth \<Longrightarrow> normalize_schema (JInt i) depth = Inr (JInt i)"
  "depth \<le> max_depth \<Longrightarrow> normalize_schema (JFloat q) depth = Inr (JFloat q)"
  "depth \<le> max_depth \<Longrightarrow> normalize_schema (JStr s) depth = Inr (JStr s)"
  by (simp_all add: normalize_schema.simps)

lemma normalize_schema_scalar:
  "json_depth v = 0 \<Longrightarrow> depth \<le> max_depth \<Longrightarrow> normalize_schema v depth = Inr v"
  by (cases v) (simp_all add: normalize_schema_simps)

section \<open>Dicts keep their keys\<close>

lemma rmap_pair_keys:
  "rmap (\<lambda>(k, v). rbind (f k v) (\<lambda>w. Inr (k, w))) kvs = Inr lvs \<Longrightarrow> map fst lvs = map fst kvs"
  by (induction kvs arbitrary: lvs) (auto simp: rbind_eq_Inr_iff)

lemma rmap_pair_iff:
  "rmap (\<lambda>(k, v). rbind (f k v) (\<lambda>w. Inr (k, w))) kvs = Inr lvs \<longleftrightarrow>
   list_all2 (\<lambda>p q. fst q = fst p \<and> f (fst p) (snd p) = Inr (snd q)) kvs lvs"
  unfolding rmap_eq_Inr_iff
  by (rule arg_cong [where f = "\<lambda>P. list_all2 P kvs lvs"])
    (auto simp: fun_eq_iff rbind_eq_Inr_iff case_prod_unfold prod_eq_iff)

lemma normalize_object_keys:
  "normalize_object rec kvs = Inr lvs \<Longrightarrow> map fst lvs = map fst kvs"
  unfolding normalize_object_def by (rule rmap_pair_keys)

lemma normalize_object_lookup:
  assumes "normalize_object rec kvs = Inr lvs"
  shows "(map_of lvs k = None \<longleftrightarrow> map_of kvs k = None) \<and>
    (\<forall>w. map_of lvs k = Some w \<longrightarrow> (\<exists>v. map_of kvs k = Some v \<and> normalize_value rec k v = Inr w))"
  using assms
proof (induction kvs arbitrary: lvs)
  case (Cons p kvs)
  then show ?case
    by (cases p) (auto simp: normalize_object_def rbind_eq_Inr_iff)
qed (simp add: normalize_object_def)

section \<open>Normalizing twice is normalizing once\<close>

lemma sorted_unique_idem:
  assumes "sorted_unique xs = Inr ys"
  shows "sorted_unique ys = Inr ys"
proof -
  obtain zs where z: "py_set xs = Inr zs" "py_sorted zs = Inr ys"
    using assms by (auto simp: sorted_unique_def rbind_eq_Inr_iff)
  have "py_set ys = Inr ys" by (rule py_set_idem [OF z(1) mset_py_sorted [OF z(2)]])
  then show ?thesis using py_sorted_idem [OF z(2)] by (simp add: sorted_unique_def)
qed

lemma sorted_unique_hashable:
  "sorted_unique xs = Inr ys \<Longrightarrow> y \<in> set ys \<Longrightarrow> hashable y"
  using list_all_hashable_dedup [of xs]
  by (auto simp: sorted_unique_def rbind_eq_Inr_iff py_set_def list_all_iff dest!: set_py_sorted
      split: if_splits)

lemma sorted_unique_mem:
  "sorted_unique xs = Inr ys \<Longrightarrow> y \<in> set ys \<Longrightarrow> y \<in> set xs"
  using set_dedup_subset [of "[]" xs]
  by (auto simp: sorted_unique_def rbind_eq_Inr_iff py_set_def dest!: set_py_sorted split: if_splits)

lemma hashable_depth: "hashable v \<Longrightarrow> json_depth v = 0"
  by (cases v) auto

text \<open>
  One stored value: \<open>P v w\<close> says of a value and its normal form that normalizing the normal form
  changes nothing, and that it is no deeper.
\<close>

lemma normalize_value_fixpoint:
  assumes rec: "\<And>v w. json_depth v \<le> n \<Longrightarrow> rec v = Inr w \<Longrightarrow> rec w = Inr w \<and> json_depth w \<le> json_depth v"
    and scalar: "\<And>v. json_depth v = 0 \<Longrightarrow> rec v = Inr v"
    and v: "normalize_value rec key v = Inr w" and n: "json_depth v \<le> n"
    and shape: "\<And>kvs w. rec (JDict kvs) = Inr w \<Longrightarrow> is_dict w"
      "\<And>xs w. rec (JList xs) = Inr w \<Longrightarrow> is_list w"
  shows "normalize_value rec key w = Inr w \<and> json_depth w \<le> json_depth v"
proof (cases v)
  case (JList xs)
  show ?thesis
  proof (cases "key = ''required'' \<or> key = ''type''")
    case True
    then obtain ys where ys: "sorted_unique xs = Inr ys"
      and w: "w = (if key = ''type'' \<and> length ys = 1 then ys ! 0 else JList ys)"
      using v JList by (auto simp: normalize_value_def rbind_eq_Inr_iff split: if_splits)
    have hs: "\<forall>y \<in> set ys. hashable y" using sorted_unique_hashable [OF ys] by blast
    have d: "json_depth (JList ys) = 1"
      using hs by (auto simp: hashable_depth intro!: max_list_zero)
    have dv: "1 \<le> json_depth v" by (simp add: JList)
    show ?thesis
    proof (cases "key = ''type'' \<and> length ys = 1")
      case True
      then obtain y where "ys = [y]" by (auto simp: length_Suc_conv)
      with True w hs have "w = y" "hashable y" "json_depth y = 0" by (auto simp: hashable_depth)
      then have "rec w = Inr w" "json_depth w = 0" "hashable w" using scalar by auto
      then show ?thesis using True by (cases w) (simp_all add: normalize_value_def)
    next
      case False
      with w have "w = JList ys" by auto
      then show ?thesis
        using sorted_unique_idem [OF ys] \<open>key = ''required'' \<or> key = ''type''\<close> False d dv
        by (auto simp: normalize_value_def)
    qed
  next
    case False
    show ?thesis
    proof (cases "key = ''enum''")
      case True
      then have w: "w = JList (dedup [] xs)" using v JList False by (simp add: normalize_value_def)
      have "max_list (map json_depth (dedup [] xs)) \<le> max_list (map json_depth xs)"
        using set_dedup_subset [of "[]" xs] by (intro max_list_mono) auto
      then show ?thesis using True w JList by (simp add: normalize_value_def)
    next
      case enum: False
      then have "rec v = Inr w" using v JList False by (auto simp: normalize_value_def split: if_splits)
      with rec [OF n] shape(2) JList have r: "rec w = Inr w" "json_depth w \<le> json_depth v" and l: "is_list w"
        by auto
      from l obtain ys where "w = JList ys" by (auto simp: is_list_def split: json.splits)
      then show ?thesis using r False enum by (simp add: normalize_value_def)
    qed
  qed
next
  case (JDict kvs)
  show ?thesis
  proof (cases "key = ''properties''")
    case True
    then obtain lvs where l: "normalize_items rec kvs = Inr lvs" and w: "w = JDict lvs"
      using v JDict by (auto simp: normalize_value_def rbind_eq_Inr_iff)
    from l have all: "list_all2 (\<lambda>p q. fst q = fst p \<and> rec (snd p) = Inr (snd q)) kvs lvs"
      unfolding normalize_items_def rmap_pair_iff .
    have "list_all2 (\<lambda>p q. rec (snd q) = Inr (snd q) \<and> json_depth (snd q) \<le> json_depth (snd p)) kvs lvs"
      using all
    proof (rule list.rel_mono_strong)
      fix p q
      assume "p \<in> set kvs" and pq: "fst q = fst p \<and> rec (snd p) = Inr (snd q)"
      then have "json_depth (snd p) < json_depth v"
        using json_depth_dict [of "fst p" "snd p" kvs] by (simp add: JDict del: json_depth.simps)
      then show "rec (snd q) = Inr (snd q) \<and> json_depth (snd q) \<le> json_depth (snd p)"
        using rec [of "snd p" "snd q"] pq n by simp
    qed
    then have stable: "\<forall>q \<in> set lvs. rec (snd q) = Inr (snd q) \<and> (\<exists>p \<in> set kvs. json_depth (snd q) \<le> json_depth (snd p))"
      by (auto simp: list_all2_conv_all_nth in_set_conv_nth) (metis nth_mem snd_conv)+
    have "normalize_items rec lvs = Inr lvs"
      unfolding normalize_items_def rmap_pair_iff using stable by (simp add: list_all2_same)
    moreover have "json_depth w \<le> json_depth v"
      unfolding w JDict json_depth.simps Suc_le_mono case_prod_unfold
      by (rule max_list_mono) (use stable in auto)
    ultimately show ?thesis using True w by (simp add: normalize_value_def)
  next
    case False
    then have "rec v = Inr w" using v JDict by (simp add: normalize_value_def)
    with rec [OF n] shape(1) JDict have r: "rec w = Inr w" "json_depth w \<le> json_depth v" and d: "is_dict w"
      by auto
    from d obtain lvs where "w = JDict lvs" by (auto simp: is_dict_def split: json.splits)
    then show ?thesis using r False by (simp add: normalize_value_def)
  qed
qed (use v scalar in \<open>auto simp: normalize_value_def\<close>)

lemma normalize_schema_shape:
  "normalize_schema (JDict kvs) d = Inr w \<Longrightarrow> is_dict w"
  "normalize_schema (JList xs) d = Inr w \<Longrightarrow> is_list w"
  by (cases "d \<le> max_depth";
      auto simp: normalize_schema.simps rbind_eq_Inr_iff is_dict_def is_list_def)+

lemma normalize_schema_fixpoint:
  "json_depth v + d \<le> max_depth \<Longrightarrow> normalize_schema v d = Inr w \<Longrightarrow>
   normalize_schema w d = Inr w \<and> json_depth w \<le> json_depth v"
proof (induction "max_depth - d" arbitrary: v w d rule: less_induct)
  case less
  then have d: "d \<le> max_depth" by simp
  have IH: "normalize_schema w' (d + 1) = Inr w' \<and> json_depth w' \<le> json_depth v'"
    if "json_depth v' + d + 1 \<le> max_depth" "normalize_schema v' (d + 1) = Inr w'" for v' w'
    using less.hyps [of "d + 1" v' w'] that by simp
  show ?case
  proof (cases v)
    case (JDict kvs)
    let ?rec = "\<lambda>v. normalize_schema v (d + 1)"
    from less.prems(2) JDict d obtain lvs
      where l: "normalize_object ?rec kvs = Inr lvs" and w: "w = JDict lvs"
      by (auto simp: normalize_schema_simps rbind_eq_Inr_iff)
    have all: "list_all2 (\<lambda>p q. fst q = fst p \<and> normalize_value ?rec (fst p) (snd p) = Inr (snd q)) kvs lvs"
      using l unfolding normalize_object_def rmap_pair_iff .
    have "list_all2 (\<lambda>p q. normalize_value ?rec (fst q) (snd q) = Inr (snd q)
        \<and> json_depth (snd q) \<le> json_depth (snd p)) kvs lvs"
      using all
    proof (rule list.rel_mono_strong)
      fix p q
      assume p: "p \<in> set kvs"
        and pq: "fst q = fst p \<and> normalize_value ?rec (fst p) (snd p) = Inr (snd q)"
      have dp: "json_depth (snd p) + d + 1 \<le> max_depth"
        using json_depth_dict [of "fst p" "snd p" kvs] p less.prems(1)
        by (simp add: JDict del: json_depth.simps)
      show "normalize_value ?rec (fst q) (snd q) = Inr (snd q) \<and> json_depth (snd q) \<le> json_depth (snd p)"
        unfolding pq [THEN conjunct1]
      proof (rule normalize_value_fixpoint [where v = "snd p" and n = "json_depth (snd p)"])
        show "?rec w' = Inr w' \<and> json_depth w' \<le> json_depth v'"
          if "json_depth v' \<le> json_depth (snd p)" "?rec v' = Inr w'" for v' w'
          using that dp by (intro IH) simp_all
        show "normalize_value ?rec (fst p) (snd p) = Inr (snd q)" using pq by simp
      qed (use dp in \<open>auto intro: normalize_schema_scalar dest: normalize_schema_shape\<close>)
    qed
    then have stable: "\<forall>q \<in> set lvs. normalize_value ?rec (fst q) (snd q) = Inr (snd q)
        \<and> (\<exists>p \<in> set kvs. json_depth (snd q) \<le> json_depth (snd p))"
      by (auto simp: list_all2_conv_all_nth in_set_conv_nth) (metis nth_mem fst_conv snd_conv)+
    have "normalize_object ?rec lvs = Inr lvs"
      unfolding normalize_object_def rmap_pair_iff using stable by (simp add: list_all2_same)
    moreover have "json_depth w \<le> json_depth v"
      unfolding w JDict json_depth.simps Suc_le_mono case_prod_unfold
      by (rule max_list_mono) (use stable in auto)
    ultimately show ?thesis using d by (simp add: w normalize_schema_simps)
  next
    case (JList xs)
    from less.prems(2) JList d obtain ys
      where l: "rmap (\<lambda>v. normalize_schema v (d + 1)) xs = Inr ys" and w: "w = JList ys"
      by (auto simp: normalize_schema_simps rbind_eq_Inr_iff)
    have "list_all2 (\<lambda>x y. normalize_schema y (d + 1) = Inr y \<and> json_depth y \<le> json_depth x) xs ys"
      using l [unfolded rmap_eq_Inr_iff]
    proof (rule list.rel_mono_strong)
      fix x y
      assume "x \<in> set xs" and "normalize_schema x (d + 1) = Inr y"
      then show "normalize_schema y (d + 1) = Inr y \<and> json_depth y \<le> json_depth x"
        using IH [of x y] json_depth_list [of x xs] less.prems(1)
        by (simp add: JList del: json_depth.simps)
    qed
    then have stable: "\<forall>y \<in> set ys. normalize_schema y (d + 1) = Inr y
        \<and> (\<exists>x \<in> set xs. json_depth y \<le> json_depth x)"
      by (auto simp: list_all2_conv_all_nth in_set_conv_nth) (metis nth_mem)+
    have "rmap (\<lambda>v. normalize_schema v (d + 1)) ys = Inr ys"
      unfolding rmap_eq_Inr_iff using stable by (simp add: list_all2_same)
    moreover have "json_depth w \<le> json_depth v"
      unfolding w JList json_depth.simps Suc_le_mono
      by (rule max_list_mono) (use stable in auto)
    ultimately show ?thesis using d by (simp add: w normalize_schema_simps)
  qed (use less.prems(2) d in \<open>auto simp: normalize_schema_simps\<close>)
qed

section \<open>Well-formed schemas\<close>

text \<open>
  The shapes JSON Schema gives to the keywords the engine reads: names in \<open>required\<close> and
  \<open>type\<close>, scalars in \<open>enum\<close>, a dict under \<open>properties\<close>, and no integer too large for a
  double. Everything else is a nested schema or data and only its parts are constrained.
\<close>

definition names :: "json \<Rightarrow> bool" where
  "names v \<longleftrightarrow> (case v of JList xs \<Rightarrow> list_all is_str xs | _ \<Rightarrow> False)"

definition floatable :: "json \<Rightarrow> bool" where
  "floatable v \<longleftrightarrow> (case as_float v of Some (Inl _) \<Rightarrow> False | _ \<Rightarrow> True)"

fun wf_schema :: "json \<Rightarrow> bool" where
  "wf_schema (JDict kvs) =
     (distinct (map fst kvs) \<and>
      list_all (\<lambda>(k, v).
        if k = ''required'' then names v
        else if k = ''type'' then is_str v \<or> names v
        else if k = ''enum'' then (case v of JList xs \<Rightarrow> list_all hashable xs | _ \<Rightarrow> False)
        else if k = ''properties'' then
          (case v of
             JDict ps \<Rightarrow> distinct (map fst ps) \<and> list_all (\<lambda>(n, w). wf_schema w) ps
           | _ \<Rightarrow> False)
        else wf_schema v) kvs)"
| "wf_schema (JList xs) = list_all wf_schema xs"
| "wf_schema v = floatable v"

lemma sorted_unique_names:
  assumes "list_all is_str xs"
  shows "\<exists>ys. sorted_unique xs = Inr ys \<and> list_all is_str ys"
proof -
  have xs: "xs = map JStr (map str_of xs)"
    using assms by (induction xs) (auto simp: is_str_def str_of_def split: json.splits)
  obtain ks where "dedup [] (map JStr (map str_of xs)) = map JStr ks"
    using dedup_JStr [of "[]" "map str_of xs"] by auto
  then have d: "dedup [] xs = map JStr ks" using xs by metis
  have "list_all hashable xs"
    using assms by (rule list.pred_mono_strong) (auto simp: is_str_def split: json.splits)
  with d show ?thesis
    by (auto simp: sorted_unique_def py_set_def list_all_iff is_str_def)
qed

lemma names_hashable: "is_str v \<Longrightarrow> \<exists>s. v = JStr s"
  by (auto simp: is_str_def split: json.splits)

text \<open>The keyword conditions of one dict item, as \<open>wf_schema\<close> lists them.\<close>

definition wf_item :: "string \<Rightarrow> json \<Rightarrow> bool" where
  "wf_item k v \<longleftrightarrow>
     (if k = ''required'' then names v
      else if k = ''type'' then is_str v \<or> names v
      else if k = ''enum'' then (case v of JList xs \<Rightarrow> list_all hashable xs | _ \<Rightarrow> False)
      else if k = ''properties'' then
        (case v of JDict ps \<Rightarrow> distinct (map fst ps) \<and> list_all (\<lambda>(n, w). wf_schema w) ps | _ \<Rightarrow> False)
      else wf_schema v)"

lemma wf_schema_dict:
  "wf_schema (JDict kvs) \<longleftrightarrow> distinct (map fst kvs) \<and> list_all (\<lambda>(k, v). wf_item k v) kvs"
  by (simp add: wf_item_def)

lemma wf_schema_item: "wf_schema (JDict kvs) \<Longrightarrow> map_of kvs k = Some v \<Longrightarrow> wf_item k v"
  unfolding wf_schema_dict list_all_iff by (blast dest: map_of_SomeD)

lemma normalize_value_wf:
  assumes rec: "\<And>v. json_depth v \<le> json_depth u \<Longrightarrow> wf_schema v \<Longrightarrow> \<exists>w. rec v = Inr w \<and> wf_schema w"
    and str: "\<And>s. rec (JStr s) = Inr (JStr s)"
    and u: "wf_item k u"
  shows "\<exists>w. normalize_value rec k u = Inr w \<and> wf_item k w"
proof -
  consider "k = ''required'' \<or> k = ''type''" | "k = ''enum''" | "k = ''properties''"
    | "k \<notin> {''required'', ''type'', ''enum'', ''properties''}" by blast
  then show ?thesis
  proof cases
    case 1
    show ?thesis
    proof (cases u)
      case (JList xs)
      then have "list_all is_str xs" using 1 u by (auto simp: wf_item_def names_def is_str_def)
      then obtain ys where ys: "sorted_unique xs = Inr ys" "list_all is_str ys"
        using sorted_unique_names by blast
      then show ?thesis
        using 1 JList by (auto simp: normalize_value_def wf_item_def names_def list_all_length)
    next
      case (JStr s)
      then show ?thesis using 1 u str by (auto simp: normalize_value_def wf_item_def names_def)
    qed (use 1 u in \<open>auto simp: wf_item_def names_def is_str_def\<close>)
  next
    case 2
    then obtain xs where "u = JList xs" "list_all hashable xs"
      using u by (auto simp: wf_item_def split: json.splits)
    then show ?thesis using 2 list_all_hashable_dedup by (simp add: normalize_value_def wf_item_def)
  next
    case 3
    then obtain ps where ps: "u = JDict ps" "distinct (map fst ps)" "list_all (\<lambda>(n, w). wf_schema w) ps"
      using u by (auto simp: wf_item_def split: json.splits)
    have "\<exists>w. rec (snd p) = Inr w \<and> wf_schema w" if "p \<in> set ps" for p
      using that ps json_depth_dict [of "fst p" "snd p" ps]
      by (intro rec) (auto simp: list_all_iff simp del: json_depth.simps)
    then obtain f where f: "\<And>p. p \<in> set ps \<Longrightarrow> rec (snd p) = Inr (f p) \<and> wf_schema (f p)" by metis
    have "normalize_items rec ps = Inr (map (\<lambda>p. (fst p, f p)) ps)"
      unfolding normalize_items_def by (rule rmap_Inr_on) (use f in auto)
    moreover have "list_all (\<lambda>(n, w). wf_schema w) (map (\<lambda>p. (fst p, f p)) ps)"
      using f by (simp add: list_all_iff)
    ultimately show ?thesis
      using 3 ps by (simp add: normalize_value_def wf_item_def comp_def)
  next
    case 4
    then have "wf_schema u" using u by (auto simp: wf_item_def)
    moreover have "normalize_value rec k u = rec u"
      using 4 by (auto simp: normalize_value_def split: json.splits)
    ultimately show ?thesis using rec [of u] 4 by (simp add: wf_item_def)
  qed
qed

theorem normalize_schema_wf:
  "json_depth v + d \<le> max_depth \<Longrightarrow> wf_schema v \<Longrightarrow>
   \<exists>w. normalize_schema v d = Inr w \<and> wf_schema w"
proof (induction "max_depth - d" arbitrary: v d rule: less_induct)
  case less
  let ?rec = "\<lambda>v. normalize_schema v (d + 1)"
  have d: "d \<le> max_depth" using less.prems by simp
  have IH: "\<exists>w. ?rec u = Inr w \<and> wf_schema w" if "json_depth u + d < max_depth" "wf_schema u" for u
    using less.hyps [of "d + 1" u] that by simp
  show ?case
  proof (cases v)
    case (JDict kvs)
    have "\<exists>w. normalize_value ?rec (fst p) (snd p) = Inr w \<and> wf_item (fst p) w" if p: "p \<in> set kvs" for p
    proof (rule normalize_value_wf)
      have dp: "json_depth (snd p) + d < max_depth"
        using json_depth_dict [of "fst p" "snd p" kvs] p less.prems(1)
        by (simp add: JDict del: json_depth.simps)
      then show "\<exists>w. ?rec u = Inr w \<and> wf_schema w" if "json_depth u \<le> json_depth (snd p)" "wf_schema u" for u
        using IH that by simp
      show "?rec (JStr s) = Inr (JStr s)" for s using dp by (simp add: normalize_schema_simps)
      show "wf_item (fst p) (snd p)"
        using less.prems(2) p unfolding JDict wf_schema_dict by (auto simp: list_all_iff)
    qed
    then obtain f where f: "\<And>p. p \<in> set kvs \<Longrightarrow>
        normalize_value ?rec (fst p) (snd p) = Inr (f p) \<and> wf_item (fst p) (f p)" by metis
    have "normalize_object ?rec kvs = Inr (map (\<lambda>p. (fst p, f p)) kvs)"
      unfolding normalize_object_def by (rule rmap_Inr_on) (use f in auto)
    moreover have "wf_schema (JDict (map (\<lambda>p. (fst p, f p)) kvs))"
      using f less.prems(2) unfolding JDict wf_schema_dict by (auto simp: list_all_iff comp_def)
    ultimately show ?thesis using d JDict by (simp add: normalize_schema_simps)
  next
    case (JList xs)
    have "\<exists>w. ?rec x = Inr w \<and> wf_schema w" if "x \<in> set xs" for x
      using that less.prems json_depth_list [OF that]
      by (intro IH) (auto simp: JList list_all_iff simp del: json_depth.simps)
    then obtain f where f: "\<And>x. x \<in> set xs \<Longrightarrow> ?rec x = Inr (f x) \<and> wf_schema (f x)" by metis
    have "rmap ?rec xs = Inr (map f xs)" by (rule rmap_Inr_on) (use f in blast)
    then show ?thesis using d JList f by (auto simp: normalize_schema_simps list_all_iff)
  qed (use less.prems(2) d in \<open>auto simp: normalize_schema_simps\<close>)
qed

lemma names_iff: "names v \<longleftrightarrow> (\<exists>xs. v = JList xs \<and> list_all is_str xs)"
  by (cases v) (simp_all add: names_def)

lemma names_ok: "names v \<Longrightarrow> json_ok v"
  by (auto simp: names_iff is_str_iff elim!: list.pred_mono_strong)

lemma wf_item_cases:
  assumes "wf_item k v"
  obtains "names v" | s where "v = JStr s"
    | xs where "k = ''enum''" "v = JList xs" "list_all hashable xs"
    | ps where "k = ''properties''" "v = JDict ps" "distinct (map fst ps)"
        "\<And>n w. (n, w) \<in> set ps \<Longrightarrow> wf_schema w"
    | "k \<notin> {''required'', ''type'', ''enum'', ''properties''}" "wf_schema v"
proof -
  consider "k = ''required'' \<or> k = ''type''" | "k = ''enum''" | "k = ''properties''"
    | "k \<notin> {''required'', ''type'', ''enum'', ''properties''}" by blast
  then show thesis
  proof cases
    case 1
    then show thesis using assms that(1,2) by (auto simp: wf_item_def is_str_iff)
  next
    case 2
    then show thesis using assms that(3) by (auto simp: wf_item_def split: json.splits)
  next
    case 3
    then obtain ps where "v = JDict ps" "distinct (map fst ps)" "list_all (\<lambda>(n, w). wf_schema w) ps"
      using assms by (auto simp: wf_item_def split: json.splits)
    with 3 show thesis using that(4) [of ps] by (auto simp: list_all_iff)
  next
    case 4
    then show thesis using assms that(5) by (simp add: wf_item_def)
  qed
qed

lemma wf_schema_ok: "wf_schema v \<Longrightarrow> json_ok v"
proof (induction v rule: measure_induct_rule [where f = json_depth])
  case (less v)
  show ?case
  proof (cases v)
    case (JDict kvs)
    have "json_ok u" if ku: "(k, u) \<in> set kvs" for k u
    proof -
      have item: "wf_item k u"
        using less.prems ku unfolding JDict wf_schema_dict by (auto simp: list_all_iff)
      have du: "json_depth u < json_depth v" unfolding JDict by (rule json_depth_dict [OF ku])
      from item show ?thesis
      proof (cases rule: wf_item_cases)
        case 1
        then show ?thesis by (rule names_ok)
      next
        case (3 xs)
        then show ?thesis using list_all_hashable_ok by simp
      next
        case (4 ps)
        have "json_ok w" if "(n, w) \<in> set ps" for n w
          using less.IH [of w] json_depth_dict [OF that] du 4(2,4) that by auto
        then show ?thesis using 4 by (auto simp: list_all_iff)
      qed (use less.IH [OF du] in simp_all)
    qed
    then show ?thesis using less.prems by (auto simp: JDict list_all_iff)
  next
    case (JList xs)
    have "json_ok x" if "x \<in> set xs" for x
      using less.IH [of x] json_depth_list [OF that] less.prems that by (auto simp: JList list_all_iff)
    then show ?thesis by (simp add: JList list_all_iff)
  qed simp_all
qed

declare wf_schema.simps(1) [simp del]

end
