(* ===== verification/Compat_Diff.thy ===== *)
theory Compat_Diff
  imports Compat_Normalizer
begin

text \<open>
  \<open>app/compatibility/diff.py\<close>: the recursive schema comparison \<open>diff_schemas\<close> with its depth
  bound, the generic dict comparison \<open>diff_mapping\<close>, and the storage order of changes. The
  mutually recursive helpers take the recursive call as their argument \<open>rec\<close>.
\<close>

section \<open>Making a change\<close>

definition constraint_keys :: "string list" where
  "constraint_keys =
     [''minimum'', ''maximum'', ''exclusiveMinimum'', ''exclusiveMaximum'', ''minLength'',
      ''maxLength'', ''pattern'', ''minItems'', ''maxItems'', ''uniqueItems'', ''multipleOf'',
      ''minProperties'', ''maxProperties'']"

definition make_change_full ::
  "change_type \<Rightarrow> string \<Rightarrow> direction \<Rightarrow> json \<Rightarrow> json \<Rightarrow> json_dict \<Rightarrow> string option \<Rightarrow> exn + change" where
  "make_change_full change_type path direction old_value new_value evidence message =
     rbind (classify change_type direction) (\<lambda>(classification, severity).
       Inr \<lparr> ch_type = change_type, ch_path = path, ch_class = classification, ch_severity = severity,
             ch_message =
               (case message of
                  Some m \<Rightarrow> if m \<noteq> [] then m else change_type_value change_type @ '' at '' @ path
                | None \<Rightarrow> change_type_value change_type @ '' at '' @ path),
             ch_old = old_value, ch_new = new_value, ch_evidence = evidence \<rparr>)"

text \<open>The call without \<open>evidence\<close> and \<open>message\<close>, the most frequent one.\<close>

definition make_change ::
  "change_type \<Rightarrow> string \<Rightarrow> direction \<Rightarrow> json \<Rightarrow> json \<Rightarrow> exn + change" where
  "make_change change_type path direction old_value new_value =
     make_change_full change_type path direction old_value new_value [] None"

text \<open>\<open>changes.append(make_change(...))\<close> as a list to be joined to the others.\<close>

definition one_change ::
  "change_type \<Rightarrow> string \<Rightarrow> direction \<Rightarrow> json \<Rightarrow> json \<Rightarrow> exn + change list" where
  "one_change change_type path direction old_value new_value =
     rbind (make_change change_type path direction old_value new_value) (\<lambda>c. Inr [c])"

text \<open>\<open>changes.extend(first); changes.extend(second)\<close>.\<close>

definition then_changes :: "exn + change list \<Rightarrow> exn + change list \<Rightarrow> exn + change list" where
  "then_changes m n = rbind m (\<lambda>xs. rbind n (\<lambda>ys. Inr (xs @ ys)))"

section \<open>The parts of a schema node\<close>

definition is_nullable :: "json_dict \<Rightarrow> bool" where
  "is_nullable schema =
     (case dget schema ''type'' of
        JList ts \<Rightarrow> if py_in (JStr ''null'') ts then True
                    else py_bool (dget_or schema ''nullable'' (JBool False))
      | _ \<Rightarrow> py_bool (dget_or schema ''nullable'' (JBool False)))"

definition non_null_type :: "json_dict \<Rightarrow> exn + json" where
  "non_null_type schema =
     (case dget schema ''type'' of
        JList ts \<Rightarrow>
          (let remaining = filter (\<lambda>t. \<not> py_eq t (JStr ''null'')) ts
           in if remaining = [] then Inr JNull
              else if length remaining = 1 then Inr (remaining ! 0)
              else rbind (lift_py (py_sorted remaining)) (\<lambda>ts. Inr (JList ts)))
      | v \<Rightarrow> Inr v)"

definition diff_type :: "json_dict \<Rightarrow> json_dict \<Rightarrow> direction \<Rightarrow> string \<Rightarrow> exn + change list" where
  "diff_type baseline candidate direction path =
     rbind (non_null_type baseline) (\<lambda>base_type. rbind (non_null_type candidate) (\<lambda>cand_type.
       if base_type \<noteq> JNull \<and> cand_type \<noteq> JNull \<and> \<not> py_eq base_type cand_type
       then one_change CT_TYPE_CHANGED path direction base_type cand_type
       else Inr []))"

definition diff_nullable :: "json_dict \<Rightarrow> json_dict \<Rightarrow> direction \<Rightarrow> string \<Rightarrow> exn + change list" where
  "diff_nullable baseline candidate direction path =
     (if is_nullable baseline \<and> \<not> is_nullable candidate
      then one_change CT_NULLABLE_TO_NON_NULLABLE path direction JNull JNull
      else if \<not> is_nullable baseline \<and> is_nullable candidate
      then one_change CT_NON_NULLABLE_TO_NULLABLE path direction JNull JNull
      else Inr [])"

definition diff_enum :: "json \<Rightarrow> json \<Rightarrow> direction \<Rightarrow> string \<Rightarrow> exn + change list" where
  "diff_enum base_enum cand_enum direction path =
     (if base_enum = JNull \<and> cand_enum = JNull then Inr []
      else
        rbind (lift_py (py_set_of base_enum)) (\<lambda>base_set.
        rbind (lift_py (py_set_of cand_enum)) (\<lambda>cand_set.
          if set_equal base_set cand_set then Inr []
          else
            (let removed = sort_key py_str (set_diff base_set cand_set);
                 added = sort_key py_str (set_diff cand_set base_set)
             in then_changes
                  (rmap (\<lambda>v. make_change CT_ENUM_VALUE_REMOVED path direction v JNull) removed)
                  (then_changes
                    (rmap (\<lambda>v. make_change CT_ENUM_VALUE_ADDED path direction JNull v) added)
                    (if removed \<noteq> [] \<and> cand_set \<noteq> [] \<and> set_less cand_set base_set
                     then rbind
                            (make_change_full CT_ENUM_NARROWED path direction
                               (JList (sort_key py_str base_set)) (JList (sort_key py_str cand_set))
                               [(''removed'', JList removed)] None)
                            (\<lambda>c. Inr [c])
                     else Inr []))))))"

definition tightened_json :: "bool option \<Rightarrow> json" where
  "tightened_json t = (case t of None \<Rightarrow> JNull | Some b \<Rightarrow> JBool b)"

definition diff_constraint ::
  "json_dict \<Rightarrow> json_dict \<Rightarrow> direction \<Rightarrow> string \<Rightarrow> string \<Rightarrow> exn + change list" where
  "diff_constraint baseline candidate direction path key =
     (let base_value = dget baseline key; cand_value = dget candidate key
      in if py_eq base_value cand_value then Inr []
         else if base_value = JNull \<and> cand_value = JNull then Inr []
         else
           rbind (constraint_tightened key base_value cand_value) (\<lambda>tightened.
             Inr [\<lparr> ch_type = CT_CONSTRAINT_CHANGED, ch_path = path,
                    ch_class = fst (classify_constraint_change direction tightened),
                    ch_severity = snd (classify_constraint_change direction tightened),
                    ch_message = ''constraint '' @ str_repr key @ '' changed at '' @ path,
                    ch_old = base_value, ch_new = cand_value,
                    ch_evidence = [(''constraint'', JStr key), (''tightened'', tightened_json tightened)] \<rparr>]))"

definition diff_constraints ::
  "json_dict \<Rightarrow> json_dict \<Rightarrow> direction \<Rightarrow> string \<Rightarrow> exn + change list" where
  "diff_constraints baseline candidate direction path =
     rconcat (diff_constraint baseline candidate direction path) constraint_keys"

section \<open>Properties and items\<close>

definition prop_path :: "string \<Rightarrow> json \<Rightarrow> string" where
  "prop_path path name = path @ ''.properties.'' @ py_str name"

text \<open>One turn of the loop over the property names.\<close>

definition diff_property ::
  "(json \<Rightarrow> json \<Rightarrow> string \<Rightarrow> exn + change list) \<Rightarrow> json \<Rightarrow> json \<Rightarrow> json list \<Rightarrow> json list \<Rightarrow>
   direction \<Rightarrow> string \<Rightarrow> json \<Rightarrow> exn + change list" where
  "diff_property rec base_props cand_props base_required cand_required direction path name =
     rbind (lift_py (py_contains name base_props)) (\<lambda>in_base.
     rbind (lift_py (py_contains name cand_props)) (\<lambda>in_cand.
       let was_required = py_in name base_required; now_required = py_in name cand_required
       in if in_base \<and> \<not> in_cand then
            rbind (lift_py (py_getitem base_props name)) (\<lambda>old.
              one_change (if was_required then CT_REQUIRED_FIELD_REMOVED else CT_FIELD_REMOVED)
                (prop_path path name) direction old JNull)
          else if \<not> in_base \<and> in_cand then
            rbind (lift_py (py_getitem cand_props name)) (\<lambda>new.
              one_change (if now_required then CT_REQUIRED_FIELD_ADDED else CT_FIELD_ADDED)
                (prop_path path name) direction JNull new)
          else
            then_changes
              (if \<not> was_required \<and> now_required
               then one_change CT_REQUIRED_FIELD_ADDED (prop_path path name) direction JNull JNull
               else if was_required \<and> \<not> now_required
               then one_change CT_REQUIRED_FIELD_REMOVED (prop_path path name) direction JNull JNull
               else Inr [])
              (rbind (lift_py (py_getitem base_props name)) (\<lambda>old.
               rbind (lift_py (py_getitem cand_props name)) (\<lambda>new.
                 rec old new (prop_path path name))))))"

definition diff_properties ::
  "(json \<Rightarrow> json \<Rightarrow> string \<Rightarrow> exn + change list) \<Rightarrow> json_dict \<Rightarrow> json_dict \<Rightarrow> direction \<Rightarrow> string \<Rightarrow>
   exn + change list" where
  "diff_properties rec baseline candidate direction path =
     (let base_props = py_or (dget baseline ''properties'') (JDict []);
          cand_props = py_or (dget candidate ''properties'') (JDict [])
      in if \<not> py_bool base_props \<and> \<not> py_bool cand_props then Inr []
         else
           rbind (lift_py (py_set_of (dget baseline ''required''))) (\<lambda>base_required.
           rbind (lift_py (py_set_of (dget candidate ''required''))) (\<lambda>cand_required.
           rbind (lift_py (sorted_union base_props cand_props)) (\<lambda>names.
             rconcat (diff_property rec base_props cand_props base_required cand_required direction path)
               names))))"

text \<open>A type change of the item schema itself is reported as \<open>ARRAY_ITEM_TYPE_CHANGED\<close>.\<close>

definition relabel :: "direction \<Rightarrow> string \<Rightarrow> change \<Rightarrow> exn + change" where
  "relabel direction item_path change =
     (if ch_path change = item_path \<and> ch_type change = CT_TYPE_CHANGED
      then make_change CT_ARRAY_ITEM_TYPE_CHANGED (ch_path change) direction (ch_old change) (ch_new change)
      else Inr change)"

definition diff_items ::
  "(json \<Rightarrow> json \<Rightarrow> string \<Rightarrow> exn + change list) \<Rightarrow> json_dict \<Rightarrow> json_dict \<Rightarrow> direction \<Rightarrow> string \<Rightarrow>
   exn + change list" where
  "diff_items rec baseline candidate direction path =
     (let base_items = dget baseline ''items''; cand_items = dget candidate ''items'';
          item_path = path @ ''[]''
      in if base_items = JNull \<and> cand_items = JNull then Inr []
         else if base_items = JNull \<or> cand_items = JNull
         then one_change CT_ARRAY_ITEM_TYPE_CHANGED item_path direction base_items cand_items
         else rbind (rec base_items cand_items item_path) (rmap (relabel direction item_path)))"

text \<open>The body of \<open>diff_schemas\<close> below the depth check, on normalized nodes.\<close>

definition diff_nodes ::
  "(json \<Rightarrow> json \<Rightarrow> string \<Rightarrow> exn + change list) \<Rightarrow> json \<Rightarrow> json \<Rightarrow> direction \<Rightarrow> string \<Rightarrow>
   exn + change list" where
  "diff_nodes rec baseline candidate direction path =
     (case (baseline, candidate) of
        (JDict b, JDict c) \<Rightarrow>
          then_changes (diff_type b c direction path)
            (then_changes (diff_nullable b c direction path)
              (then_changes (diff_enum (dget b ''enum'') (dget c ''enum'') direction path)
                (then_changes (diff_constraints b c direction path)
                  (then_changes (diff_properties rec b c direction path)
                    (diff_items rec b c direction path)))))
      | _ \<Rightarrow>
          if \<not> py_eq baseline candidate then one_change CT_TYPE_CHANGED path direction baseline candidate
          else Inr [])"

function diff_schemas ::
  "json \<Rightarrow> json \<Rightarrow> direction \<Rightarrow> string \<Rightarrow> nat \<Rightarrow> exn + change list" where
  "diff_schemas baseline candidate direction path depth =
     (if depth > max_depth then
        rbind (make_change_full CT_TYPE_CHANGED path direction JNull JNull []
                 (Some ''schema nesting exceeds max depth (64); comparison truncated''))
          (\<lambda>c. Inr [c])
      else
        rbind (if depth = 0 then normalize_schema baseline 0 else Inr baseline) (\<lambda>baseline.
        rbind (if depth = 0 then normalize_schema candidate 0 else Inr candidate) (\<lambda>candidate.
          diff_nodes (\<lambda>b c p. diff_schemas b c direction p (depth + 1))
            baseline candidate direction path)))"
  by pat_completeness auto
termination
  by (relation "measure (\<lambda>(b, c, dir, p, d). Suc max_depth - d)") auto

declare diff_schemas.simps [simp del]

text \<open>The recursive call as a constant, for evaluation in the simplifier.\<close>

definition diff_child :: "direction \<Rightarrow> nat \<Rightarrow> json \<Rightarrow> json \<Rightarrow> string \<Rightarrow> exn + change list" where
  "diff_child direction depth b c p = diff_schemas b c direction p (depth + 1)"

lemma diff_schemas_code [code]:
  "diff_schemas baseline candidate direction path depth =
     (if depth > max_depth then
        rbind (make_change_full CT_TYPE_CHANGED path direction JNull JNull []
                 (Some ''schema nesting exceeds max depth (64); comparison truncated''))
          (\<lambda>c. Inr [c])
      else
        rbind (if depth = 0 then normalize_schema baseline 0 else Inr baseline) (\<lambda>baseline.
        rbind (if depth = 0 then normalize_schema candidate 0 else Inr candidate) (\<lambda>candidate.
          diff_nodes (diff_child direction depth) baseline candidate direction path)))"
  by (subst diff_schemas.simps) (simp add: diff_child_def [abs_def])

section \<open>Open dicts\<close>

text \<open>The three change types are the keyword arguments of \<open>diff_mapping\<close>.\<close>

record mapping_types =
  value_change_type :: change_type
  added_type :: change_type
  removed_type :: change_type

definition default_types :: mapping_types where
  "default_types = \<lparr> value_change_type = CT_VALUE_CHANGED, added_type = CT_CONFIG_FIELD_ADDED,
                     removed_type = CT_CONFIG_FIELD_REMOVED \<rparr>"

definition key_path :: "string \<Rightarrow> json \<Rightarrow> string" where
  "key_path path key = path @ ''.'' @ py_str key"

function diff_mapping :: "mapping_types \<Rightarrow> json \<Rightarrow> json \<Rightarrow> string \<Rightarrow> exn + change list" where
  "diff_mapping types baseline candidate path =
     rbind (lift_py (sorted_union baseline candidate)) (rconcat (\<lambda>key.
       rbind (lift_py (py_contains key baseline)) (\<lambda>in_base.
       rbind (lift_py (py_contains key candidate)) (\<lambda>in_cand.
         if in_base \<and> \<not> in_cand then
           rbind (lift_py (py_getitem baseline key)) (\<lambda>old.
             one_change (removed_type types) (key_path path key) DIR_NEUTRAL old JNull)
         else if \<not> in_base \<and> in_cand then
           rbind (lift_py (py_getitem candidate key)) (\<lambda>new.
             one_change (added_type types) (key_path path key) DIR_NEUTRAL JNull new)
         else
           (case (py_getitem baseline key, py_getitem candidate key) of
              (Inr (JDict old), Inr (JDict new)) \<Rightarrow>
                diff_mapping types (JDict old) (JDict new) (key_path path key)
            | (Inl e, _) \<Rightarrow> Inl (Py e)
            | (Inr old, Inl e) \<Rightarrow> Inl (Py e)
            | (Inr old, Inr new) \<Rightarrow>
                if \<not> py_eq old new
                then one_change (value_change_type types) (key_path path key) DIR_NEUTRAL old new
                else Inr [])))))"
  by pat_completeness auto
termination
  by (relation "measure (\<lambda>(t, b, c, p). json_depth b)")
    (auto intro: py_getitem_depth simp del: json_depth.simps)

declare diff_mapping.simps [simp del]

section \<open>Storage order\<close>

definition sort_changes :: "change list \<Rightarrow> change list" where
  "sort_changes changes =
     sort_key (\<lambda>c. (ch_path c, change_type_value (ch_type c), classification_value (ch_class c))) changes"

section \<open>The fields of a made change\<close>

lemma make_change_full_fields:
  "make_change_full ct p d old_v new_v ev msg = Inr c \<Longrightarrow>
   ch_type c = ct \<and> ch_path c = p \<and> ch_old c = old_v \<and> ch_new c = new_v
   \<and> classify ct d = Inr (ch_class c, ch_severity c)"
  by (auto simp: make_change_full_def rbind_eq_Inr_iff)

lemma make_change_fields:
  "make_change ct p d old_v new_v = Inr c \<Longrightarrow>
   ch_type c = ct \<and> ch_path c = p \<and> ch_old c = old_v \<and> ch_new c = new_v
   \<and> classify ct d = Inr (ch_class c, ch_severity c)"
  unfolding make_change_def by (rule make_change_full_fields)

lemma one_change_iff:
  "one_change ct p d old_v new_v = Inr cs \<longleftrightarrow> (\<exists>c. make_change ct p d old_v new_v = Inr c \<and> cs = [c])"
  by (auto simp: one_change_def rbind_eq_Inr_iff)

lemma make_change_ok [result_intros]:
  "ct \<noteq> CT_CONSTRAINT_CHANGED \<Longrightarrow> \<exists>c. make_change ct p d old_v new_v = Inr c"
  using classify_ok [of ct d] by (auto simp: make_change_def make_change_full_def)

lemma make_change_full_ok:
  "ct \<noteq> CT_CONSTRAINT_CHANGED \<Longrightarrow> \<exists>c. make_change_full ct p d old_v new_v ev msg = Inr c"
  using classify_ok [of ct d] by (auto simp: make_change_full_def)

lemma one_change_ok [result_intros]:
  "ct \<noteq> CT_CONSTRAINT_CHANGED \<Longrightarrow> \<exists>cs. one_change ct p d old_v new_v = Inr cs"
  using make_change_ok by (fastforce simp: one_change_iff)

lemma then_changes_simps [simp]:
  "then_changes (Inr []) n = n"
  "then_changes (Inl e) n = Inl e"
  by (cases n; simp add: then_changes_def)+

lemma then_changes_iff:
  "then_changes m n = Inr cs \<longleftrightarrow> (\<exists>xs ys. m = Inr xs \<and> n = Inr ys \<and> cs = xs @ ys)"
  by (auto simp: then_changes_def rbind_eq_Inr_iff)

lemma then_changes_ok [result_intros]:
  "\<exists>xs. m = Inr xs \<Longrightarrow> \<exists>ys. n = Inr ys \<Longrightarrow> \<exists>cs. then_changes m n = Inr cs"
  by (auto simp: then_changes_def)

section \<open>Every change is about a place below the compared one\<close>

text \<open>\<open>all_at P m\<close>: if \<open>m\<close> returns, every change it returns satisfies \<open>P\<close>.\<close>

definition all_at :: "(change \<Rightarrow> bool) \<Rightarrow> exn + change list \<Rightarrow> bool" where
  "all_at P m \<longleftrightarrow> (\<forall>cs. m = Inr cs \<longrightarrow> list_all P cs)"

named_theorems all_at_intros "every change returned satisfies a predicate"

lemma all_at_Inl [all_at_intros]: "all_at P (Inl e)"
  by (simp add: all_at_def)

lemma all_at_Nil [all_at_intros]: "all_at P (Inr [])"
  by (simp add: all_at_def)

lemma all_at_then [all_at_intros]: "all_at P m \<Longrightarrow> all_at P n \<Longrightarrow> all_at P (then_changes m n)"
  by (auto simp: all_at_def then_changes_iff)

lemma all_at_bind [all_at_intros]: "(\<And>x. m = Inr x \<Longrightarrow> all_at P (f x)) \<Longrightarrow> all_at P (rbind m f)"
  by (auto simp: all_at_def rbind_eq_Inr_iff)

lemma all_at_if [all_at_intros]: "(b \<Longrightarrow> all_at P m) \<Longrightarrow> (\<not> b \<Longrightarrow> all_at P n) \<Longrightarrow> all_at P (if b then m else n)"
  by simp

lemma all_at_rconcat [all_at_intros]: "(\<And>x. x \<in> set xs \<Longrightarrow> all_at P (f x)) \<Longrightarrow> all_at P (rconcat f xs)"
  by (auto simp: all_at_def list_all_iff dest!: rconcat_mem)

lemma all_at_rmap [all_at_intros]:
  "(\<And>x c. x \<in> set xs \<Longrightarrow> f x = Inr c \<Longrightarrow> P c) \<Longrightarrow> all_at P (rmap f xs)"
  by (auto simp: all_at_def list_all_iff dest!: rmap_mem)

lemma all_at_single [all_at_intros]:
  "(\<And>c. m = Inr c \<Longrightarrow> P c) \<Longrightarrow> all_at P (rbind m (\<lambda>c. Inr [c]))"
  by (auto simp: all_at_def rbind_eq_Inr_iff)

lemma all_at_one [all_at_intros]:
  "(\<And>c. make_change ct p d old_v new_v = Inr c \<Longrightarrow> P c) \<Longrightarrow> all_at P (one_change ct p d old_v new_v)"
  by (auto simp: all_at_def one_change_iff)

lemma all_at_mono: "all_at P m \<Longrightarrow> (\<And>c. P c \<Longrightarrow> Q c) \<Longrightarrow> all_at Q m"
  by (auto simp: all_at_def list_all_iff)

text \<open>
  What a schema comparison can report at a node, whatever its parts return: changes of the types
  of the schema table (or a constraint change), each classified by the rules of its direction.
\<close>

definition schema_change :: "direction \<Rightarrow> string \<Rightarrow> change \<Rightarrow> bool" where
  "schema_change d p c \<longleftrightarrow>
     prefix p (ch_path c) \<and>
     (if ch_type c = CT_CONSTRAINT_CHANGED
      then \<exists>t. (ch_class c, ch_severity c) = classify_constraint_change d t
      else map_of schema_rules (ch_type c, d) = Some (ch_class c, ch_severity c))"

lemma schema_change_prefix: "schema_change d q c \<Longrightarrow> prefix p q \<Longrightarrow> schema_change d p c"
  by (auto simp: schema_change_def intro: prefix_order.trans)

definition schema_type :: "change_type \<Rightarrow> bool" where
  "schema_type ct \<longleftrightarrow> (\<exists>r. map_of schema_rules (ct, DIR_INPUT) = Some r)"

lemma schema_type_rule: "schema_type ct \<Longrightarrow> classify ct d = Inr r \<Longrightarrow> map_of schema_rules (ct, d) = Some r"
  by (cases ct; cases d) (auto simp: schema_type_def schema_rules_def classify_def)

lemma schema_type_simps [simp]:
  "schema_type CT_TYPE_CHANGED" "schema_type CT_NULLABLE_TO_NON_NULLABLE"
  "schema_type CT_NON_NULLABLE_TO_NULLABLE" "schema_type CT_ENUM_VALUE_REMOVED"
  "schema_type CT_ENUM_VALUE_ADDED" "schema_type CT_ENUM_NARROWED" "schema_type CT_FIELD_ADDED"
  "schema_type CT_FIELD_REMOVED" "schema_type CT_REQUIRED_FIELD_ADDED"
  "schema_type CT_REQUIRED_FIELD_REMOVED" "schema_type CT_ARRAY_ITEM_TYPE_CHANGED"
  "\<not> schema_type CT_CONSTRAINT_CHANGED"
  by (simp_all add: schema_type_def schema_rules_def)

lemma schema_change_make:
  "make_change_full ct p d old_v new_v ev msg = Inr c \<Longrightarrow> schema_type ct \<Longrightarrow> prefix q p \<Longrightarrow> schema_change d q c"
  by (auto dest!: make_change_full_fields simp: schema_change_def schema_type_rule)

lemma schema_change_make':
  "make_change ct p d old_v new_v = Inr c \<Longrightarrow> schema_type ct \<Longrightarrow> prefix q p \<Longrightarrow> schema_change d q c"
  unfolding make_change_def by (rule schema_change_make)

lemma schema_change_diff_nodes:
  assumes rec: "\<And>b c q. all_at (schema_change d q) (rec b c q)"
  shows "all_at (schema_change d p) (diff_nodes rec b c d p)"
proof -
  have rec': "all_at (schema_change d p) (rec b c q)" if "prefix p q" for b c q
    by (rule all_at_mono [OF rec]) (rule schema_change_prefix [OF _ that])
  have pre: "prefix p (prop_path p n)" "prefix p (p @ r)" for n r
    by (simp_all add: prop_path_def)
  have "all_at (schema_change d p) (diff_type bs cs d p)" for bs cs
    unfolding diff_type_def by (intro all_at_intros; (erule schema_change_make schema_change_make')?; simp)
  moreover have "all_at (schema_change d p) (diff_nullable bs cs d p)" for bs cs
    unfolding diff_nullable_def by (intro all_at_intros; (erule schema_change_make schema_change_make')?; simp)
  moreover have "all_at (schema_change d p) (diff_enum x y d p)" for x y
    unfolding diff_enum_def Let_def by (intro all_at_intros; (erule schema_change_make schema_change_make')?; simp)
  moreover have "all_at (schema_change d p) (diff_constraints bs cs d p)" for bs cs
    unfolding diff_constraints_def diff_constraint_def Let_def
    by (intro all_at_intros) (auto simp: all_at_def schema_change_def rbind_eq_Inr_iff)
  moreover have "all_at (schema_change d p) (diff_properties rec bs cs d p)" for bs cs
    unfolding diff_properties_def diff_property_def Let_def
    by (intro all_at_intros rec'; (erule schema_change_make')?; simp add: pre)
  moreover have "all_at (schema_change d p) (diff_items rec bs cs d p)" for bs cs
  proof -
    have "schema_change d p x" if "relabel d (p @ ''[]'') c0 = Inr x" "schema_change d p c0" for c0 x
      using that by (auto simp: relabel_def split: if_splits intro: schema_change_make')
    note relabeled = this
    have "all_at (schema_change d p) (rbind (rec x y (p @ ''[]'')) (rmap (relabel d (p @ ''[]''))))" for x y
    proof (rule all_at_bind, rule all_at_rmap, erule relabeled)
      fix zs z
      assume "rec x y (p @ ''[]'') = Inr zs" "z \<in> set zs"
      then show "schema_change d p z"
        using rec' [of "p @ ''[]''" x y] by (simp add: all_at_def list_all_iff)
    qed
    then show ?thesis
      unfolding diff_items_def Let_def
      by (intro all_at_if) (auto intro!: all_at_intros intro: schema_change_make')
  qed
  ultimately show ?thesis
    unfolding diff_nodes_def
    by (cases b; cases c) (auto intro!: all_at_intros intro: schema_change_make')
qed

lemma schema_change_diff_schemas: "all_at (schema_change d p) (diff_schemas b c d p n)"
proof (induction "Suc max_depth - n" arbitrary: b c p n rule: less_induct)
  case less
  show ?case
  proof (cases "n > max_depth")
    case True
    then show ?thesis
      by (subst diff_schemas.simps) (auto intro!: all_at_intros schema_change_make)
  next
    case False
    then have "all_at (schema_change d q) (diff_schemas b' c' d q (n + 1))" for b' c' q
      by (intro less.hyps) simp
    with False show ?thesis
      by (subst diff_schemas.simps) (auto intro!: all_at_intros schema_change_diff_nodes)
  qed
qed

end
