(* ===== verification/Compat_Diff_Laws.thy ===== *)
theory Compat_Diff_Laws
  imports Compat_Diff
begin

text \<open>
  Laws of the comparison functions of \<open>Compat_Diff\<close>: the comparison of well-formed schemas
  raises nothing; schemas with equal normal forms have no changes; \<open>diff_mapping\<close> on dicts returns,
  and returns nothing exactly when the dicts are equal; \<open>sort_changes\<close> is a stable sorting
  permutation.
\<close>

section \<open>Comparing well-formed schemas never raises\<close>

lemma rconcat_map: "rconcat f (map g xs) = rconcat (\<lambda>x. f (g x)) xs"
  by (induction xs) auto

lemma wf_schema_floatable: "wf_schema v \<Longrightarrow> floatable v"
  by (cases v) (auto simp: floatable_def as_float_def)

lemma wf_schema_dget:
  assumes "wf_schema (JDict b)"
  shows "dget b k = JNull \<or> wf_item k (dget b k)"
  using wf_schema_item [OF assms, of k] by (auto simp: dget_def split: option.splits)

lemma wf_type_cases:
  assumes "wf_schema (JDict b)"
  obtains "dget b ''type'' = JNull" | s where "dget b ''type'' = JStr s"
    | ts where "dget b ''type'' = JList ts" "list_all is_str ts"
  using wf_schema_dget [OF assms, of "''type''"] by (auto simp: wf_item_def names_iff is_str_iff)

lemma strs_eq_map: "list_all is_str xs \<Longrightarrow> xs = map JStr (map str_of xs)"
  by (induction xs) (auto simp: is_str_iff str_of_def)

lemma non_null_type_ok:
  assumes "wf_schema (JDict b)"
  shows "\<exists>t. non_null_type b = Inr t"
  using assms
proof (cases rule: wf_type_cases)
  case (3 ts)
  let ?r = "filter (\<lambda>t. \<not> py_eq t (JStr ''null'')) ts"
  have "list_all is_str ?r" using 3 by (auto simp: list_all_iff)
  then have "\<exists>ys. py_sorted ?r = Inr ys" by (metis strs_eq_map py_sorted_JStr)
  then show ?thesis using 3 by (auto simp: non_null_type_def Let_def)
qed (simp_all add: non_null_type_def)

lemma py_set_of_hashable: "v = JNull \<or> (\<exists>xs. v = JList xs \<and> list_all hashable xs) \<Longrightarrow> \<exists>s. py_set_of v = Inr s"
  by (auto simp: py_set_of_def py_or_def py_set_def)

lemma py_set_of_JNull [simp]: "py_set_of JNull = Inr []"
  by (simp add: py_set_of_def py_or_def py_set_def)

lemma strs_hashable: "list_all is_str xs \<Longrightarrow> list_all hashable xs"
  by (erule list.pred_mono_strong) (auto simp: is_str_iff)

lemma py_set_of_names: "v = JNull \<or> names v \<Longrightarrow> \<exists>s. py_set_of v = Inr s"
  by (rule py_set_of_hashable) (auto simp: names_iff strs_hashable)

lemma diff_type_ok: "wf_schema (JDict b) \<Longrightarrow> wf_schema (JDict c) \<Longrightarrow> \<exists>cs. diff_type b c d p = Inr cs"
  using non_null_type_ok [of b] non_null_type_ok [of c] one_change_ok [of CT_TYPE_CHANGED]
  by (auto simp: diff_type_def)

lemma diff_nullable_ok: "\<exists>cs. diff_nullable b c d p = Inr cs"
  using one_change_ok [of CT_NULLABLE_TO_NON_NULLABLE] one_change_ok [of CT_NON_NULLABLE_TO_NULLABLE]
  by (simp add: diff_nullable_def)

lemma wf_enum: "wf_schema (JDict b) \<Longrightarrow>
  dget b ''enum'' = JNull \<or> (\<exists>xs. dget b ''enum'' = JList xs \<and> list_all hashable xs)"
  using wf_schema_dget [of b "''enum''"] by (auto simp: wf_item_def split: json.splits)

lemma diff_enum_ok:
  assumes "wf_schema (JDict b)" "wf_schema (JDict c)"
  shows "\<exists>cs. diff_enum (dget b ''enum'') (dget c ''enum'') d p = Inr cs"
proof -
  obtain s t where st: "py_set_of (dget b ''enum'') = Inr s" "py_set_of (dget c ''enum'') = Inr t"
    using py_set_of_hashable [OF wf_enum [OF assms(1)]] py_set_of_hashable [OF wf_enum [OF assms(2)]] by auto
  have narrowed: "\<exists>x. rbind (make_change_full CT_ENUM_NARROWED p d o1 n1 e1 m1) (\<lambda>c. Inr [c]) = Inr x"
    for o1 n1 e1 m1
    using make_change_full_ok [of CT_ENUM_NARROWED p d o1 n1 e1 m1] by auto
  show ?thesis
    unfolding diff_enum_def st lift_py_simps rbind_simps Let_def
    using narrowed by (auto intro!: then_changes_ok rmap_ok make_change_ok)
qed

lemma as_numeric_pair_ok: "floatable a \<Longrightarrow> floatable b \<Longrightarrow> \<exists>r. as_numeric_pair a b = Inr r"
  by (auto simp: as_numeric_pair_def floatable_def split: option.splits sum.splits)

lemma constraint_tightened_ok: "floatable a \<Longrightarrow> floatable b \<Longrightarrow> \<exists>r. constraint_tightened k a b = Inr r"
  using as_numeric_pair_ok [of a b] by (auto simp: constraint_tightened_def split: option.splits)

lemma wf_constraint:
  assumes "wf_schema (JDict b)" "k \<in> set constraint_keys"
  shows "floatable (dget b k)"
  using wf_schema_dget [OF assms(1), of k] assms(2)
  by (auto simp: wf_item_def constraint_keys_def floatable_def [of JNull] as_float_def
      intro: wf_schema_floatable)

lemma diff_constraints_ok:
  assumes "wf_schema (JDict b)" "wf_schema (JDict c)"
  shows "\<exists>cs. diff_constraints b c d p = Inr cs"
  unfolding diff_constraints_def
proof (rule rconcat_ok)
  fix k assume "k \<in> set constraint_keys"
  then obtain t where "constraint_tightened k (dget b k) (dget c k) = Inr t"
    using constraint_tightened_ok wf_constraint assms by blast
  then show "\<exists>y. diff_constraint b c d p k = Inr y" by (simp add: diff_constraint_def Let_def)
qed

text \<open>The value of \<open>properties\<close> in a well-formed schema: absent, or a dict of well-formed schemas.\<close>

definition props_of :: "json_dict \<Rightarrow> json_dict" where
  "props_of b = (case dget b ''properties'' of JDict ps \<Rightarrow> ps | _ \<Rightarrow> [])"

lemma wf_props:
  assumes "wf_schema (JDict b)"
  shows "py_or (dget b ''properties'') (JDict []) = JDict (props_of b)"
    and "distinct (map fst (props_of b))"
    and "map_of (props_of b) n = Some v \<Longrightarrow> wf_schema v"
  using wf_schema_dget [OF assms, of "''properties''"]
  by (auto simp: wf_item_def props_of_def py_or_def list_all_iff split: json.splits dest: map_of_SomeD)

lemma wf_required: "wf_schema (JDict b) \<Longrightarrow> dget b ''required'' = JNull \<or> names (dget b ''required'')"
  using wf_schema_dget [of b "''required''"] by (simp add: wf_item_def)

text \<open>One property of two dicts of properties.\<close>

lemma diff_property_dict:
  "map_of bs n \<noteq> None \<or> map_of cs n \<noteq> None \<Longrightarrow>
   diff_property rec (JDict bs) (JDict cs) br cr d p (JStr n) =
   (case (map_of bs n, map_of cs n) of
      (Some old, None) \<Rightarrow>
        one_change (if JStr n \<in> set br then CT_REQUIRED_FIELD_REMOVED else CT_FIELD_REMOVED)
          (prop_path p (JStr n)) d old JNull
    | (None, Some new) \<Rightarrow>
        one_change (if JStr n \<in> set cr then CT_REQUIRED_FIELD_ADDED else CT_FIELD_ADDED)
          (prop_path p (JStr n)) d JNull new
    | (Some old, Some new) \<Rightarrow>
        then_changes
          (if JStr n \<notin> set br \<and> JStr n \<in> set cr
           then one_change CT_REQUIRED_FIELD_ADDED (prop_path p (JStr n)) d JNull JNull
           else if JStr n \<in> set br \<and> JStr n \<notin> set cr
           then one_change CT_REQUIRED_FIELD_REMOVED (prop_path p (JStr n)) d JNull JNull
           else Inr [])
          (rec old new (prop_path p (JStr n)))
    | (None, None) \<Rightarrow> Inr [])"
  by (auto simp: diff_property_def has_key_iff split: option.splits)

lemma diff_properties_wf:
  assumes "wf_schema (JDict b)" "wf_schema (JDict c)"
  obtains br cr where "py_set_of (dget b ''required'') = Inr br" "py_set_of (dget c ''required'') = Inr cr"
    "diff_properties rec b c d p =
     rconcat (\<lambda>n. diff_property rec (JDict (props_of b)) (JDict (props_of c)) br cr d p (JStr n))
       (sorted_set (dkeys (props_of b) @ dkeys (props_of c)))"
proof -
  obtain br cr where r: "py_set_of (dget b ''required'') = Inr br" "py_set_of (dget c ''required'') = Inr cr"
    using py_set_of_names wf_required assms by metis
  show thesis
    by (rule that [OF r])
      (simp add: diff_properties_def Let_def r wf_props(1) [OF assms(1)] wf_props(1) [OF assms(2)]
        sorted_union_JDict wf_props(2) [OF assms(1)] wf_props(2) [OF assms(2)] rconcat_map dkeys_def)
qed

lemma diff_nodes_ok:
  assumes rec: "\<And>b c q. wf_schema b \<Longrightarrow> wf_schema c \<Longrightarrow> \<exists>cs. rec b c q = Inr cs"
    and wf: "wf_schema b" "wf_schema c"
  shows "\<exists>cs. diff_nodes rec b c d p = Inr cs"
proof (cases "\<exists>bs cs. b = JDict bs \<and> c = JDict cs")
  case False
  then show ?thesis
    using one_change_ok [of CT_TYPE_CHANGED] by (auto simp: diff_nodes_def split: json.splits)
next
  case True
  then obtain bs cs where bc: "b = JDict bs" "c = JDict cs" by blast
  note w = wf [unfolded bc]
  have props: "\<exists>xs. diff_properties rec bs cs d p = Inr xs"
  proof (rule diff_properties_wf [OF w])
    fix br cr
    assume eq: "diff_properties rec bs cs d p =
      rconcat (\<lambda>n. diff_property rec (JDict (props_of bs)) (JDict (props_of cs)) br cr d p (JStr n))
       (sorted_set (dkeys (props_of bs) @ dkeys (props_of cs)))"
    show ?thesis unfolding eq
    proof (rule rconcat_ok)
      fix n assume "n \<in> set (sorted_set (dkeys (props_of bs) @ dkeys (props_of cs)))"
      then have "map_of (props_of bs) n \<noteq> None \<or> map_of (props_of cs) n \<noteq> None"
        by (auto simp: map_of_eq_None_iff)
      then show "\<exists>y. diff_property rec (JDict (props_of bs)) (JDict (props_of cs)) br cr d p (JStr n) = Inr y"
        using wf_props(3) [OF w(1)] wf_props(3) [OF w(2)]
        by (cases "map_of (props_of bs) n"; cases "map_of (props_of cs) n")
          (auto simp: diff_property_dict intro!: then_changes_ok one_change_ok rec)
    qed
  qed
  have items: "\<exists>xs. diff_items rec bs cs d p = Inr xs"
  proof -
    let ?b = "dget bs ''items''" and ?c = "dget cs ''items''"
    have "?b = JNull \<or> wf_schema ?b" "?c = JNull \<or> wf_schema ?c"
      using wf_schema_dget [OF w(1), of "''items''"] wf_schema_dget [OF w(2), of "''items''"]
      by (auto simp: wf_item_def)
    moreover have "\<exists>ys. rmap (relabel d (p @ ''[]'')) xs = Inr ys" for xs
      by (rule rmap_ok) (use make_change_ok [of CT_ARRAY_ITEM_TYPE_CHANGED] in \<open>auto simp: relabel_def\<close>)
    ultimately show ?thesis
      using rec [of ?b ?c "p @ ''[]''"] one_change_ok [of CT_ARRAY_ITEM_TYPE_CHANGED]
      by (auto simp: diff_items_def Let_def)
  qed
  show ?thesis
    unfolding bc diff_nodes_def prod.case json.case
    by (intro then_changes_ok diff_type_ok diff_nullable_ok diff_enum_ok diff_constraints_ok props items w)
qed

lemma diff_schemas_deep:
  "n > max_depth \<Longrightarrow> diff_schemas b c d p n =
     rbind (make_change_full CT_TYPE_CHANGED p d JNull JNull []
              (Some ''schema nesting exceeds max depth (64); comparison truncated''))
       (\<lambda>c. Inr [c])"
  by (subst diff_schemas.simps) simp

lemma diff_schemas_node:
  "n \<le> max_depth \<Longrightarrow> 0 < n \<Longrightarrow>
   diff_schemas b c d p n = diff_nodes (\<lambda>b c p. diff_schemas b c d p (n + 1)) b c d p"
  by (subst diff_schemas.simps) simp

lemma diff_schemas_root:
  "diff_schemas b c d p 0 =
     rbind (normalize_schema b 0) (\<lambda>b. rbind (normalize_schema c 0) (\<lambda>c.
       diff_nodes (\<lambda>b c p. diff_schemas b c d p 1) b c d p))"
  by (subst diff_schemas.simps) simp

lemma diff_schemas_ok:
  assumes "wf_schema b" "wf_schema c" "n = 0 \<Longrightarrow> json_depth b \<le> max_depth \<and> json_depth c \<le> max_depth"
  shows "\<exists>cs. diff_schemas b c d p n = Inr cs"
  using assms
proof (induction "Suc max_depth - n" arbitrary: b c p n rule: less_induct)
  case less
  show ?case
  proof (cases "n > max_depth")
    case True
    obtain c' where "make_change_full CT_TYPE_CHANGED p d JNull JNull []
        (Some ''schema nesting exceeds max depth (64); comparison truncated'') = Inr c'"
      using make_change_full_ok [of CT_TYPE_CHANGED] by blast
    with True show ?thesis by (simp add: diff_schemas_deep)
  next
    case False
    then have rec: "\<exists>cs. diff_schemas b' c' d q (n + 1) = Inr cs" if "wf_schema b'" "wf_schema c'" for b' c' q
      using less.hyps that by simp
    show ?thesis
    proof (cases "n = 0")
      case True
      then obtain b' c' where n: "normalize_schema b 0 = Inr b'" "normalize_schema c 0 = Inr c'"
          "wf_schema b'" "wf_schema c'"
        using less.prems normalize_schema_wf [of b 0] normalize_schema_wf [of c 0] by auto
      with True show ?thesis
        using diff_nodes_ok [OF rec n(3,4)] by (simp add: diff_schemas_root)
    next
      case n: False
      with False show ?thesis
        using diff_nodes_ok [OF rec less.prems(1,2)] by (simp add: diff_schemas_node)
    qed
  qed
qed

section \<open>Equal normal forms have no changes\<close>

lemma list_all2_py_eq_strs: "list_all2 py_eq xs ys \<Longrightarrow> list_all is_str xs \<Longrightarrow> ys = xs"
  by (induction rule: list_all2_induct) (auto simp: is_str_iff)

lemma py_eq_names: "py_eq v w \<Longrightarrow> names v \<Longrightarrow> w = v"
  by (auto simp: names_iff elim!: py_eq_JListE dest: list_all2_py_eq_strs)

lemma py_eq_null_left [simp]: "py_eq JNull v \<longleftrightarrow> v = JNull"
  by simp

lemma py_eq_str_left [simp]: "py_eq (JStr s) v \<longleftrightarrow> v = JStr s"
  by simp

lemma wf_dict_ok: "wf_schema (JDict b) \<Longrightarrow> dict_ok b"
  unfolding dict_ok_def by (rule wf_schema_ok)

lemma diff_type_same:
  assumes "wf_schema (JDict b)" "dget c ''type'' = dget b ''type''"
  shows "diff_type b c d p = Inr []"
proof -
  obtain t where t: "non_null_type b = Inr t" using non_null_type_ok [OF assms(1)] by blast
  have "non_null_type c = Inr t" using t assms(2) by (simp add: non_null_type_def)
  moreover have "json_ok t"
  proof (rule wf_type_cases [OF assms(1)])
    fix ts
    assume ts: "dget b ''type'' = JList ts" "list_all is_str ts"
    define r where "r = filter (\<lambda>x. x \<noteq> JStr ''null'') ts"
    have ok: "list_all json_ok r" using ts(2) by (auto simp: r_def list_all_iff is_str_iff)
    show ?thesis
    proof (cases "length r = 1")
      case True
      then have "t = r ! 0" using t ts(1) by (auto simp: non_null_type_def Let_def r_def [symmetric] split: if_splits)
      then show ?thesis using ok True by (auto simp: length_Suc_conv)
    next
      case False
      then have "t = JNull \<or> (\<exists>ys. py_sorted r = Inr ys \<and> t = JList ys)"
        using t ts(1) by (auto simp: non_null_type_def Let_def r_def [symmetric] rbind_eq_Inr_iff split: if_splits)
      then show ?thesis using ok by (auto simp: list_all_iff dest: set_py_sorted)
    qed
  next
    fix s
    assume "dget b ''type'' = JStr s"
    then have "t = JStr s" using t by (simp add: non_null_type_def)
    then show ?thesis by simp
  qed (use t in \<open>simp add: non_null_type_def\<close>)
  ultimately show ?thesis by (simp add: diff_type_def t py_eq_refl)
qed

lemma py_set_of_equal:
  assumes "py_eq v w" "v = JNull \<or> (\<exists>xs. v = JList xs \<and> list_all hashable xs)"
    "w = JNull \<or> (\<exists>xs. w = JList xs \<and> list_all hashable xs)"
    "py_set_of v = Inr s" "py_set_of w = Inr t"
  shows "set_equal s t"
proof -
  have le: "set_le (dedup [] xs) (dedup [] ys)"
    if e: "list_all2 py_eq xs ys" and h: "list_all hashable ys" for xs ys
    unfolding set_le_def list_all_iff
  proof
    fix x assume "x \<in> set (dedup [] xs)"
    then have "x \<in> set xs" using set_dedup_subset [of "[]" xs] by auto
    then obtain y where y: "y \<in> set ys" "py_eq x y"
      using list_all2_mem [OF e] by blast
    have "py_in y (dedup [] ys)"
      using y(1) h by (intro dedup_covers hashable_ok) (auto simp: list_all_iff)
    then show "py_in x (dedup [] ys)" using y(2) by (auto simp: py_in_iff intro: py_eq_trans)
  qed
  show ?thesis
  proof (cases v)
    case (JList xs)
    then obtain ys where w: "w = JList ys" "list_all2 py_eq xs ys" using assms(1) by (auto elim: py_eq_JListE)
    have h: "list_all hashable xs" "list_all hashable ys" using assms(2,3) JList w by auto
    have "list_all2 py_eq ys xs"
      using w(2) h unfolding list_all2_conv_all_nth
      by (metis hashable_ok list_all_length py_eq_sym)
    moreover have "s = dedup [] xs" "t = dedup [] ys"
      using assms(4,5) h by (auto simp: JList w(1) py_set_of_def py_or_def py_set_def split: if_splits)
    ultimately show ?thesis using le w(2) h by (simp add: set_equal_def)
  qed (use assms in \<open>auto simp: set_equal_def set_le_def\<close>)
qed

lemma diff_enum_same:
  assumes "wf_schema (JDict b)" "wf_schema (JDict c)" "py_eq (dget b ''enum'') (dget c ''enum'')"
  shows "diff_enum (dget b ''enum'') (dget c ''enum'') d p = Inr []"
proof -
  note e = wf_enum [OF assms(1)] wf_enum [OF assms(2)]
  obtain s t where "py_set_of (dget b ''enum'') = Inr s" "py_set_of (dget c ''enum'') = Inr t"
    using py_set_of_hashable [OF e(1)] py_set_of_hashable [OF e(2)] by auto
  then show ?thesis using py_set_of_equal [OF assms(3) e] by (simp add: diff_enum_def)
qed

lemma is_nullable_same:
  assumes "dget c ''type'' = dget b ''type''" "py_eq (JDict b) (JDict c)" "dict_ok b" "dict_ok c"
  shows "is_nullable c = is_nullable b"
proof -
  have "py_bool (dget_or b ''nullable'' (JBool False)) = py_bool (dget_or c ''nullable'' (JBool False))"
    using py_eq_lookup [OF assms(2-4), of "''nullable''"]
    by (auto simp: dget_or_def option_rel_Some1 split: option.splits dest: py_eq_bool_cong)
  then show ?thesis using assms(1) by (simp add: is_nullable_def cong: json.case_cong)
qed

lemma wf_props_ok: "wf_schema (JDict b) \<Longrightarrow> dict_ok (props_of b)"
  using wf_props(2,3) [of b] wf_schema_ok
  by (auto simp: dict_ok_def list_all_iff)

lemma props_of_same:
  "py_eq (dget b ''properties'') (dget c ''properties'') \<Longrightarrow> py_eq (JDict (props_of b)) (JDict (props_of c))"
  by (cases "dget b ''properties''"; cases "dget c ''properties''") (auto simp: props_of_def py_eq.simps(6,7))

text \<open>
  The node of two equal well-formed dicts: nothing is reported, provided the recursive calls on
  equal smaller schemas report nothing.
\<close>

lemma diff_nodes_same:
  assumes eq: "py_eq b c" and wf: "wf_schema b" "wf_schema c"
    and rec: "\<And>v w q. json_depth v < json_depth b \<Longrightarrow> py_eq v w \<Longrightarrow> wf_schema v \<Longrightarrow> wf_schema w \<Longrightarrow>
      rec v w q = Inr []"
  shows "diff_nodes rec b c d p = Inr []"
proof (cases b)
  case (JDict bs)
  then obtain cs where c: "c = JDict cs" using eq by (auto elim: py_eq_JDictE)
  note w = wf [unfolded JDict c] and e = eq [unfolded JDict c]
  note ok = wf_dict_ok [OF w(1)] wf_dict_ok [OF w(2)]
  have get: "py_eq (dget bs k) (dget cs k)" for k by (rule py_eq_dget [OF e ok])
  have ty: "dget cs ''type'' = dget bs ''type''"
    using get [of "''type''"] by (cases rule: wf_type_cases [OF w(1)]) (auto elim: py_eq_JListE dest: list_all2_py_eq_strs)
  have req: "dget cs ''required'' = dget bs ''required''"
    using get [of "''required''"] wf_required [OF w(1)] by (auto dest: py_eq_names)
  have depth: "json_depth (dget bs k) < json_depth b" for k
    using json_depth_lookup [of bs k] by (auto simp: JDict dget_def split: option.splits simp del: json_depth.simps(2)) simp
  have props: "diff_properties rec bs cs d p = Inr []"
  proof (rule diff_properties_wf [OF w])
    fix br cr
    assume r: "py_set_of (dget bs ''required'') = Inr br" "py_set_of (dget cs ''required'') = Inr cr"
      and s: "diff_properties rec bs cs d p =
        rconcat (\<lambda>n. diff_property rec (JDict (props_of bs)) (JDict (props_of cs)) br cr d p (JStr n))
          (sorted_set (dkeys (props_of bs) @ dkeys (props_of cs)))"
    have br: "cr = br" using r req by simp
    have pe: "py_eq (JDict (props_of bs)) (JDict (props_of cs))"
      using get [of "''properties''"] by (rule props_of_same)
    show ?thesis unfolding s
    proof (rule rconcat_Nil_on)
      fix n assume "n \<in> set (sorted_set (dkeys (props_of bs) @ dkeys (props_of cs)))"
      then have "map_of (props_of bs) n \<noteq> None \<or> map_of (props_of cs) n \<noteq> None"
        by (auto simp: map_of_eq_None_iff)
      then obtain old new where on: "map_of (props_of bs) n = Some old" "map_of (props_of cs) n = Some new"
          "py_eq old new"
        using py_eq_lookup [OF pe wf_props_ok [OF w(1)] wf_props_ok [OF w(2)], of n]
        by (auto simp: option_rel_Some1 option_rel_Some2)
      have "json_depth old < json_depth b"
        using json_depth_lookup [OF on(1)] depth [of "''properties''"] on(1)
        by (auto simp: props_of_def simp del: json_depth.simps split: json.splits)
      then show "diff_property rec (JDict (props_of bs)) (JDict (props_of cs)) br cr d p (JStr n) = Inr []"
        using rec on wf_props(3) [OF w(1) on(1)] wf_props(3) [OF w(2) on(2)]
        by (simp add: diff_property_dict br)
    qed
  qed
  have items: "diff_items rec bs cs d p = Inr []"
    using rec [OF depth get [of "''items''"]] get [of "''items''"] wf_schema_dget [OF w(1), of "''items''"]
      wf_schema_dget [OF w(2), of "''items''"]
    by (auto simp: diff_items_def Let_def wf_item_def)
  show ?thesis
    by (simp add: JDict c diff_nodes_def diff_type_same [OF w(1) ty] diff_nullable_def
        is_nullable_same [OF ty e ok] diff_enum_same [OF w get] diff_constraints_def
        diff_constraint_def get rconcat_Nil_on props items)
next
  case (JList xs)
  then show ?thesis using eq by (auto simp: diff_nodes_def elim: py_eq_JListE)
qed (use eq in \<open>auto simp: diff_nodes_def split: json.splits\<close>)

text \<open>The same for the recursive comparison, below the root and at it.\<close>

lemma diff_schemas_same_below:
  "json_depth b + n \<le> max_depth \<Longrightarrow> 0 < n \<Longrightarrow> py_eq b c \<Longrightarrow> wf_schema b \<Longrightarrow> wf_schema c \<Longrightarrow>
   diff_schemas b c d p n = Inr []"
proof (induction "json_depth b" arbitrary: b c p n rule: less_induct)
  case less
  have "diff_nodes (\<lambda>b c p. diff_schemas b c d p (n + 1)) b c d p = Inr []"
    by (rule diff_nodes_same [OF less.prems(3-5)]) (use less in auto)
  then show ?case using less.prems by (simp add: diff_schemas_node)
qed

lemma diff_schemas_same:
  assumes "normalize_schema b 0 = Inr b'" "normalize_schema c 0 = Inr c'" "py_eq b' c'"
    and "wf_schema b" "wf_schema c" "json_depth b \<le> max_depth" "json_depth c \<le> max_depth"
  shows "diff_schemas b c d p 0 = Inr []"
proof -
  have wf: "wf_schema b'" "wf_schema c'"
    using normalize_schema_wf [of b 0] normalize_schema_wf [of c 0] assms by auto
  have depth: "json_depth b' \<le> max_depth"
    using normalize_schema_fixpoint [of b 0 b'] assms by auto
  have "diff_nodes (\<lambda>b c p. diff_schemas b c d p 1) b' c' d p = Inr []"
    by (rule diff_nodes_same [OF assms(3) wf]) (use depth in \<open>auto intro!: diff_schemas_same_below\<close>)
  then show ?thesis by (simp add: diff_schemas_root assms(1,2))
qed

section \<open>Open dicts\<close>

text \<open>One key of two dicts.\<close>

definition mapping_entry :: "mapping_types \<Rightarrow> json_dict \<Rightarrow> json_dict \<Rightarrow> string \<Rightarrow> string \<Rightarrow> exn + change list" where
  "mapping_entry t b c p k =
     (case (map_of b k, map_of c k) of
        (Some old, None) \<Rightarrow> one_change (removed_type t) (key_path p (JStr k)) DIR_NEUTRAL old JNull
      | (None, Some new) \<Rightarrow> one_change (added_type t) (key_path p (JStr k)) DIR_NEUTRAL JNull new
      | (Some old, Some new) \<Rightarrow>
          (case (old, new) of
             (JDict ob, JDict nb) \<Rightarrow> diff_mapping t (JDict ob) (JDict nb) (key_path p (JStr k))
           | _ \<Rightarrow>
               if py_eq old new then Inr []
               else one_change (value_change_type t) (key_path p (JStr k)) DIR_NEUTRAL old new)
      | (None, None) \<Rightarrow> Inl (Py KeyError))"

lemma diff_mapping_dict:
  assumes "distinct (map fst b)" "distinct (map fst c)"
  shows "diff_mapping t (JDict b) (JDict c) p =
    rconcat (mapping_entry t b c p) (sorted_set (dkeys b @ dkeys c))"
proof -
  have key: "map_of b k \<noteq> None \<or> map_of c k \<noteq> None" if "k \<in> set (sorted_set (dkeys b @ dkeys c))" for k
    using that by (auto simp: map_of_eq_None_iff)
  show ?thesis
    unfolding diff_mapping.simps [of t "JDict b" "JDict c" p] sorted_union_JDict [OF assms]
      lift_py_simps rbind_simps rconcat_map
    by (rule rconcat_cong [OF refl], drule key)
      (auto simp: mapping_entry_def has_key_iff split: option.splits json.splits)
qed

text \<open>
  The three types a mapping comparison reports with have a rule of their own (none of them is the
  constraint change), which holds for every call in the analyzer.
\<close>

definition types_ok :: "mapping_types \<Rightarrow> bool" where
  "types_ok t \<longleftrightarrow> CT_CONSTRAINT_CHANGED \<notin> {value_change_type t, added_type t, removed_type t}"

lemma diff_mapping_complete:
  "dict_ok b \<Longrightarrow> dict_ok c \<Longrightarrow> types_ok t \<Longrightarrow>
   \<exists>cs. diff_mapping t (JDict b) (JDict c) p = Inr cs \<and> (cs = [] \<longleftrightarrow> py_eq (JDict b) (JDict c))"
proof (induction "json_depth (JDict b)" arbitrary: b c p rule: less_induct)
  case less
  let ?ks = "sorted_set (dkeys b @ dkeys c)"
  have entry: "\<exists>cs. mapping_entry t b c p k = Inr cs \<and>
      (cs = [] \<longleftrightarrow> rel_option py_eq (map_of b k) (map_of c k))" if "k \<in> set ?ks" for k
  proof -
    have made: "\<exists>cs. one_change ct q DIR_NEUTRAL o1 n1 = Inr cs \<and> cs \<noteq> []"
      if "ct \<in> {value_change_type t, added_type t, removed_type t}" for ct q o1 n1
      using that less.prems(3) make_change_ok [of ct q DIR_NEUTRAL o1 n1]
      by (auto simp: one_change_iff types_ok_def)
    show ?thesis
    proof (cases "map_of b k")
      case None
      with that obtain new where "map_of c k = Some new" by (auto simp: map_of_eq_None_iff dest: weak_map_of_SomeI)
      with None made show ?thesis by (auto simp: mapping_entry_def)
    next
      case (Some old)
      show ?thesis
      proof (cases "map_of c k")
        case None
        with Some made show ?thesis by (auto simp: mapping_entry_def)
      next
        case new: (Some new)
        show ?thesis
        proof (cases "\<exists>ob nb. old = JDict ob \<and> new = JDict nb")
          case True
          then obtain ob nb where on: "old = JDict ob" "new = JDict nb" by blast
          have "dict_ok ob" "dict_ok nb"
            using dict_ok_lookup [OF less.prems(1) Some] dict_ok_lookup [OF less.prems(2) new]
            by (simp_all add: on dict_ok_def)
          moreover have "json_depth (JDict ob) < json_depth (JDict b)"
            using json_depth_lookup [OF Some] by (simp add: on)
          ultimately show ?thesis
            using less.hyps [of ob nb] less.prems(3) by (simp add: mapping_entry_def Some new on)
        next
          case False
          then have "mapping_entry t b c p k = (if py_eq old new then Inr []
              else one_change (value_change_type t) (key_path p (JStr k)) DIR_NEUTRAL old new)"
            by (auto simp: mapping_entry_def Some new split: json.splits)
          with made show ?thesis by (auto simp: Some new)
        qed
      qed
    qed
  qed
  obtain cs where cs: "rconcat (mapping_entry t b c p) ?ks = Inr cs"
    using rconcat_ok [of ?ks "mapping_entry t b c p"] entry by blast
  have "cs = [] \<longleftrightarrow> (\<forall>k \<in> set ?ks. mapping_entry t b c p k = Inr [])"
    using cs rconcat_eq_Nil_iff [of "mapping_entry t b c p" ?ks] by auto
  also have "\<dots> \<longleftrightarrow> (\<forall>k \<in> set ?ks. rel_option py_eq (map_of b k) (map_of c k))"
    by (intro ball_cong refl) (use entry in fastforce)
  also have "\<dots> \<longleftrightarrow> (\<forall>k. rel_option py_eq (map_of b k) (map_of c k))"
  proof
    assume all: "\<forall>k \<in> set ?ks. rel_option py_eq (map_of b k) (map_of c k)"
    show "\<forall>k. rel_option py_eq (map_of b k) (map_of c k)"
    proof
      fix k
      show "rel_option py_eq (map_of b k) (map_of c k)"
      proof (cases "k \<in> set ?ks")
        case False
        then have "map_of b k = None" "map_of c k = None" by (auto simp: map_of_eq_None_iff)
        then show ?thesis by simp
      qed (use all in blast)
    qed
  qed blast
  also have "\<dots> \<longleftrightarrow> py_eq (JDict b) (JDict c)"
    using py_eq_dict_iff less.prems(1,2) by blast
  finally show ?case
    using cs less.prems(1,2) by (simp add: diff_mapping_dict dict_ok_distinct)
qed

text \<open>What a mapping comparison reports, on any values.\<close>

definition mapping_change :: "mapping_types \<Rightarrow> string \<Rightarrow> change \<Rightarrow> bool" where
  "mapping_change t p c \<longleftrightarrow>
     prefix p (ch_path c) \<and> ch_type c \<in> {value_change_type t, added_type t, removed_type t}
     \<and> classify (ch_type c) DIR_NEUTRAL = Inr (ch_class c, ch_severity c)"

lemma mapping_change_make:
  "make_change ct q DIR_NEUTRAL o1 n1 = Inr c \<Longrightarrow> prefix p q \<Longrightarrow>
   ct \<in> {value_change_type t, added_type t, removed_type t} \<Longrightarrow> mapping_change t p c"
  by (auto dest!: make_change_fields simp: mapping_change_def)

lemma all_at_diff_mapping: "all_at (mapping_change t p) (diff_mapping t b c p)"
proof (induction "json_depth b" arbitrary: b c p rule: less_induct)
  case less
  let ?P = "mapping_change t p"
  have pre: "prefix p (key_path p k)" for k by (simp add: key_path_def)
  have one: "all_at ?P (one_change ct (key_path p k) DIR_NEUTRAL o1 n1)"
    if "ct \<in> {value_change_type t, added_type t, removed_type t}" for ct k o1 n1
    by (rule all_at_one) (rule mapping_change_make [OF _ pre that])
  have rec: "all_at ?P (diff_mapping t (JDict ob) c' (key_path p k))"
    if "py_getitem b k = Inr (JDict ob)" for k ob c'
    using less [OF py_getitem_depth [OF that], of "key_path p k"]
    by (rule all_at_mono) (auto simp: mapping_change_def intro: prefix_order.trans [OF pre])
  have both: "all_at ?P
     (case (py_getitem b k, py_getitem c k) of
        (Inr (JDict old), Inr (JDict new)) \<Rightarrow> diff_mapping t (JDict old) (JDict new) (key_path p k)
      | (Inl e, _) \<Rightarrow> Inl (Py e)
      | (Inr old, Inl e) \<Rightarrow> Inl (Py e)
      | (Inr old, Inr new) \<Rightarrow>
          if \<not> py_eq old new
          then one_change (value_change_type t) (key_path p k) DIR_NEUTRAL old new else Inr [])" for k
    using rec [of k] one [of "value_change_type t" k]
    by (cases "py_getitem b k"; cases "py_getitem c k")
      (auto simp: all_at_Inl all_at_Nil split: json.splits)
  show ?case
    by (subst diff_mapping.simps)
      (intro all_at_bind all_at_rconcat all_at_if both one; simp)
qed

section \<open>Storage order\<close>

definition change_key :: "change \<Rightarrow> string \<times> string \<times> string" where
  "change_key c = (ch_path c, change_type_value (ch_type c), classification_value (ch_class c))"

lemma sort_changes_key: "sort_changes cs = sort_key change_key cs"
  by (simp add: sort_changes_def change_key_def [abs_def])

lemma mset_sort_changes [simp]: "mset (sort_changes cs) = mset cs"
  by (simp add: sort_changes_key)

lemma set_sort_changes [simp]: "set (sort_changes cs) = set cs"
  by (simp add: sort_changes_key)

lemma sort_changes_Nil [simp]: "sort_changes [] = []"
  by (simp add: sort_changes_key)

lemma sort_changes_eq_Nil [simp]: "sort_changes cs = [] \<longleftrightarrow> cs = []"
  by (metis mset_sort_changes mset_zero_iff)

lemma sorted_sort_changes: "sorted (map change_key (sort_changes cs))"
  by (simp add: sort_changes_key)

end
