(* ===== verification/Compat_Analyzer.thy ===== *)
theory Compat_Analyzer
  imports Compat_Diff_Laws
begin

text \<open>
  \<open>app/compatibility/analyzer.py\<close>: the comparison of two contents of one component type, by the
  dispatch table of the nine supported types, and its ordered result with the derived status.
\<close>

section \<open>The per-type comparisons\<close>

text \<open>\<open>if baseline.get(field) != candidate.get(field): changes.append(make_change(...))\<close>.\<close>

definition field_change :: "string \<Rightarrow> change_type \<Rightarrow> json_dict \<Rightarrow> json_dict \<Rightarrow> exn + change list" where
  "field_change field change_type baseline candidate =
     (if \<not> py_eq (dget baseline field) (dget candidate field)
      then one_change change_type (''$.'' @ field) DIR_NEUTRAL (dget baseline field) (dget candidate field)
      else Inr [])"

text \<open>\<open>diff_mapping(baseline.get(field, {}), candidate.get(field, {}), path, ...)\<close>.\<close>

definition mapping_changes ::
  "mapping_types \<Rightarrow> string \<Rightarrow> json_dict \<Rightarrow> json_dict \<Rightarrow> exn + change list" where
  "mapping_changes types field baseline candidate =
     diff_mapping types (dget_or baseline field (JDict [])) (dget_or candidate field (JDict []))
       (''$.'' @ field)"

definition analyze_schema :: "json_dict \<Rightarrow> json_dict \<Rightarrow> exn + change list" where
  "analyze_schema baseline candidate =
     then_changes
       (diff_schemas (dget_or baseline ''schema_definition'' (JDict []))
          (dget_or candidate ''schema_definition'' (JDict [])) DIR_NEUTRAL ''$'' 0)
       (field_change ''schema_format'' CT_VALUE_CHANGED baseline candidate)"

definition analyze_tool :: "json_dict \<Rightarrow> json_dict \<Rightarrow> exn + change list" where
  "analyze_tool baseline candidate =
     then_changes
       (diff_schemas (dget_or baseline ''input_schema'' (JDict []))
          (dget_or candidate ''input_schema'' (JDict [])) DIR_INPUT ''$.input_schema'' 0)
       (then_changes
         (diff_schemas (dget_or baseline ''output_schema'' (JDict []))
            (dget_or candidate ''output_schema'' (JDict [])) DIR_OUTPUT ''$.output_schema'' 0)
         (field_change ''description'' CT_DESCRIPTION_CHANGED baseline candidate))"

definition analyze_mcp_server :: "json_dict \<Rightarrow> json_dict \<Rightarrow> exn + change list" where
  "analyze_mcp_server baseline candidate =
     then_changes
       (rconcat (\<lambda>(field, change_type). field_change field change_type baseline candidate)
          [(''server_name'', CT_SERVER_NAME_CHANGED), (''transport'', CT_TRANSPORT_CHANGED),
           (''endpoint'', CT_ENDPOINT_CHANGED)])
       (mapping_changes default_types ''settings'' baseline candidate)"

definition analyze_model :: "json_dict \<Rightarrow> json_dict \<Rightarrow> exn + change list" where
  "analyze_model baseline candidate =
     then_changes (field_change ''provider'' CT_PROVIDER_CHANGED baseline candidate)
       (then_changes (field_change ''model_identifier'' CT_MODEL_IDENTIFIER_CHANGED baseline candidate)
         (mapping_changes (default_types \<lparr> value_change_type := CT_PARAMETER_CHANGED \<rparr>)
            ''parameters'' baseline candidate))"

definition analyze_prompt :: "json_dict \<Rightarrow> json_dict \<Rightarrow> exn + change list" where
  "analyze_prompt baseline candidate =
     then_changes (field_change ''template'' CT_CONTENT_CHANGED baseline candidate)
       (rbind (lift_py (py_set_of (dget baseline ''variables''))) (\<lambda>base_vars.
        rbind (lift_py (py_set_of (dget candidate ''variables''))) (\<lambda>cand_vars.
          then_changes
            (rbind (lift_py (py_sorted (set_diff cand_vars base_vars)))
               (rmap (\<lambda>name. make_change CT_VARIABLE_ADDED (''$.variables.'' @ py_str name)
                  DIR_NEUTRAL JNull name)))
            (then_changes
              (rbind (lift_py (py_sorted (set_diff base_vars cand_vars)))
                 (rmap (\<lambda>name. make_change CT_VARIABLE_REMOVED (''$.variables.'' @ py_str name)
                    DIR_NEUTRAL name JNull)))
              (mapping_changes default_types ''settings'' baseline candidate)))))"

definition analyze_api :: "json_dict \<Rightarrow> json_dict \<Rightarrow> exn + change list" where
  "analyze_api baseline candidate =
     then_changes (field_change ''base_url'' CT_BASE_URL_CHANGED baseline candidate)
       (then_changes (field_change ''method'' CT_METHOD_CHANGED baseline candidate)
         (mapping_changes (default_types \<lparr> value_change_type := CT_AUTH_CHANGED \<rparr>)
            ''auth'' baseline candidate))"

section \<open>Workflow steps\<close>

definition step_key :: "json \<Rightarrow> nat \<Rightarrow> string" where
  "step_key step index =
     (case step of
        JDict kvs \<Rightarrow> py_str (py_or (py_or (dget kvs ''id'') (dget kvs ''name'')) (JInt (int index)))
      | _ \<Rightarrow> int_str (int index))"

text \<open>\<open>{step_key(s, i): s for i, s in enumerate(steps)}\<close>.\<close>

definition steps_by_key :: "json list \<Rightarrow> json_dict" where
  "steps_by_key steps =
     foldl (\<lambda>d (i, s). dput (step_key s i) s d) [] (zip [0..<length steps] steps)"

definition step_keys :: "json list \<Rightarrow> string list" where
  "step_keys steps = map (\<lambda>(i, s). step_key s i) (zip [0..<length steps] steps)"

definition step_required :: "json \<Rightarrow> bool" where
  "step_required step = (case step of JDict kvs \<Rightarrow> py_bool (dget kvs ''required'') | _ \<Rightarrow> False)"

definition step_change :: "json_dict \<Rightarrow> json_dict \<Rightarrow> string \<Rightarrow> exn + change list" where
  "step_change base_by_key cand_by_key key =
     (case (map_of base_by_key key, map_of cand_by_key key) of
        (Some old, None) \<Rightarrow>
          one_change (if step_required old then CT_REQUIRED_STEP_REMOVED else CT_STEP_REMOVED)
            (''$.definition.steps.'' @ key) DIR_NEUTRAL old JNull
      | (None, Some new) \<Rightarrow>
          one_change CT_STEP_ADDED (''$.definition.steps.'' @ key) DIR_NEUTRAL JNull new
      | _ \<Rightarrow> Inr [])"

definition diff_workflow_steps :: "json list \<Rightarrow> json list \<Rightarrow> exn + change list" where
  "diff_workflow_steps base_steps cand_steps =
     (let base_by_key = steps_by_key base_steps; cand_by_key = steps_by_key cand_steps;
          common_base_order = filter (has_key cand_by_key) (step_keys base_steps);
          common_cand_order = filter (has_key base_by_key) (step_keys cand_steps)
      in then_changes
           (rconcat (step_change base_by_key cand_by_key)
              (sorted_set (dkeys base_by_key @ dkeys cand_by_key)))
           (if common_base_order \<noteq> common_cand_order
            then one_change CT_STEP_ORDER_CHANGED ''$.definition.steps'' DIR_NEUTRAL
                   (JList (map JStr common_base_order)) (JList (map JStr common_cand_order))
            else Inr []))"

definition dict_or_empty :: "json \<Rightarrow> json_dict" where
  "dict_or_empty v = (case v of JDict kvs \<Rightarrow> kvs | _ \<Rightarrow> [])"

definition analyze_workflow :: "json_dict \<Rightarrow> json_dict \<Rightarrow> exn + change list" where
  "analyze_workflow baseline candidate =
     (let base_def = dget_or baseline ''definition'' (JDict []);
          cand_def = dget_or candidate ''definition'' (JDict []);
          types = default_types \<lparr> value_change_type := CT_WORKFLOW_CONFIG_CHANGED \<rparr>
      in case (dget (dict_or_empty base_def) ''steps'', dget (dict_or_empty cand_def) ''steps'') of
           (JList base_steps, JList cand_steps) \<Rightarrow>
             then_changes (diff_workflow_steps base_steps cand_steps)
               (diff_mapping types
                  (JDict (filter (\<lambda>(k, v). k \<noteq> ''steps'') (dict_or_empty base_def)))
                  (JDict (filter (\<lambda>(k, v). k \<noteq> ''steps'') (dict_or_empty cand_def)))
                  ''$.definition'')
         | _ \<Rightarrow>
             diff_mapping types (JDict (dict_or_empty base_def)) (JDict (dict_or_empty cand_def))
               ''$.definition'')"

definition analyze_policy :: "json_dict \<Rightarrow> json_dict \<Rightarrow> exn + change list" where
  "analyze_policy baseline candidate =
     mapping_changes
       \<lparr> value_change_type = CT_RULE_CHANGED, added_type = CT_RULE_ADDED, removed_type = CT_RULE_REMOVED \<rparr>
       ''rules'' baseline candidate"

section \<open>Agent tools\<close>

definition tool_key :: "json \<Rightarrow> string option" where
  "tool_key tool =
     (case tool of
        JDict kvs \<Rightarrow>
          (let key = py_or (dget kvs ''component_id'') (dget kvs ''name'')
           in if key \<noteq> JNull then Some (py_str key) else None)
      | _ \<Rightarrow> None)"

definition tool_keys :: "json list \<Rightarrow> string list" where
  "tool_keys tools = List.map_filter tool_key tools"

definition diff_agent_tools :: "json \<Rightarrow> json \<Rightarrow> exn + change list" where
  "diff_agent_tools base_tools cand_tools =
     rbind (lift_py (py_iter base_tools)) (\<lambda>bs. rbind (lift_py (py_iter cand_tools)) (\<lambda>cs.
       let base_keys = tool_keys bs; cand_keys = tool_keys cs
       in then_changes
            (rmap (\<lambda>key. make_change CT_TOOL_REMOVED (''$.tools.'' @ key) DIR_NEUTRAL (JStr key) JNull)
               (sorted_set (filter (\<lambda>k. k \<notin> set cand_keys) base_keys)))
            (rmap (\<lambda>key. make_change CT_TOOL_ADDED (''$.tools.'' @ key) DIR_NEUTRAL JNull (JStr key))
               (sorted_set (filter (\<lambda>k. k \<notin> set base_keys) cand_keys)))))"

definition analyze_agent :: "json_dict \<Rightarrow> json_dict \<Rightarrow> exn + change list" where
  "analyze_agent baseline candidate =
     then_changes (field_change ''model_ref'' CT_MODEL_REF_CHANGED baseline candidate)
       (then_changes (field_change ''prompt_ref'' CT_PROMPT_REF_CHANGED baseline candidate)
         (then_changes
           (diff_agent_tools (py_or (dget baseline ''tools'') (JList []))
              (py_or (dget candidate ''tools'') (JList [])))
           (mapping_changes default_types ''system_config'' baseline candidate)))"

section \<open>Dispatch\<close>

definition dispatch :: "component_type \<Rightarrow> (json_dict \<Rightarrow> json_dict \<Rightarrow> exn + change list) option" where
  "dispatch component_type =
     map_of [(C_SCHEMA, analyze_schema), (C_TOOL, analyze_tool), (C_MCP_SERVER, analyze_mcp_server),
             (C_MODEL, analyze_model), (C_PROMPT, analyze_prompt), (C_API, analyze_api),
             (C_WORKFLOW, analyze_workflow), (C_POLICY, analyze_policy), (C_AGENT, analyze_agent)]
       component_type"

definition compat_analyze :: "component_type \<Rightarrow> json_dict \<Rightarrow> json_dict \<Rightarrow> exn + analysis_result" where
  "compat_analyze component_type baseline_content candidate_content =
     (case dispatch component_type of
        None \<Rightarrow> Inl (Dom (UnsupportedCompatibilityType component_type))
      | Some compare \<Rightarrow>
          rbind (compare baseline_content candidate_content) (\<lambda>changes.
            let ordered = sort_changes changes
            in Inr \<lparr> ar_status = derive_status ordered, ar_changes = ordered \<rparr>))"

end
