(* ===== verification/Component_Content.thy ===== *)
theory Component_Content
  imports Errors Py_Text
begin

text \<open>
  \<open>app/domain/component_content.py\<close>: the declared content of each component type and its
  validation (a model class is its list of fields; what Pydantic does with them for JSON input is
  to accept a value of the declared JSON type, reject any other and any unknown field, and fill in
  the defaults), and \<open>app/domain/slugs.py\<close>.
\<close>

section \<open>Content models\<close>

datatype field_kind = F_STR | F_STR_OPT | F_STR_LIST | F_DICT | F_DICT_LIST

fun conforms :: "field_kind \<Rightarrow> json \<Rightarrow> bool" where
  "conforms F_STR v = is_str v"
| "conforms F_STR_OPT v = (is_str v \<or> v = JNull)"
| "conforms F_STR_LIST v = (case v of JList xs \<Rightarrow> list_all is_str xs | _ \<Rightarrow> False)"
| "conforms F_DICT v = is_dict v"
| "conforms F_DICT_LIST v = (case v of JList xs \<Rightarrow> list_all is_dict xs | _ \<Rightarrow> False)"

text \<open>A field: its name, its type, and its default if it may be left out.\<close>

type_synonym content_field = "string \<times> field_kind \<times> json option"

fun content_models :: "component_type \<Rightarrow> content_field list" where
  "content_models C_PROMPT =
     [(''template'', F_STR, None), (''variables'', F_STR_LIST, Some (JList [])),
      (''settings'', F_DICT, Some (JDict []))]"
| "content_models C_MODEL =
     [(''provider'', F_STR, None), (''model_identifier'', F_STR, None),
      (''parameters'', F_DICT, Some (JDict []))]"
| "content_models C_PROVIDER =
     [(''provider_type'', F_STR, None), (''base_url'', F_STR_OPT, Some JNull),
      (''settings'', F_DICT, Some (JDict []))]"
| "content_models C_MCP_SERVER =
     [(''server_name'', F_STR, None), (''transport'', F_STR, None),
      (''endpoint'', F_STR_OPT, Some JNull), (''settings'', F_DICT, Some (JDict []))]"
| "content_models C_TOOL =
     [(''input_schema'', F_DICT, None), (''output_schema'', F_DICT, None),
      (''description'', F_STR_OPT, Some JNull)]"
| "content_models C_SCHEMA =
     [(''schema_definition'', F_DICT, None),
      (''schema_format'', F_STR, Some (JStr ''json-schema''))]"
| "content_models C_API =
     [(''base_url'', F_STR, None), (''method'', F_STR, Some (JStr ''GET'')),
      (''auth'', F_DICT, Some (JDict []))]"
| "content_models C_WORKFLOW = [(''definition'', F_DICT, None)]"
| "content_models C_POLICY = [(''rules'', F_DICT, None)]"
| "content_models C_AGENT =
     [(''model_ref'', F_DICT, None), (''prompt_ref'', F_DICT, None),
      (''tools'', F_DICT_LIST, Some (JList [])), (''system_config'', F_DICT, Some (JDict []))]"

section \<open>Validation\<close>

definition field_value :: "json_dict \<Rightarrow> content_field \<Rightarrow> json option" where
  "field_value raw field =
     (case field of (name, kind, dflt) \<Rightarrow>
        (case map_of raw name of
           Some v \<Rightarrow> if conforms kind v then Some v else None
         | None \<Rightarrow> dflt))"

text \<open>
  \<open>validate_content\<close>: \<open>explain\<close> is the text of Pydantic's \<open>ValidationError\<close>. The result has every
  declared field, in the order of the model.
\<close>

definition validate_content ::
  "(component_type \<Rightarrow> json_dict \<Rightarrow> string) \<Rightarrow> component_type \<Rightarrow> json_dict \<Rightarrow> exn + json_dict" where
  "validate_content explain component_type raw_content =
     (let fields = content_models component_type
      in if list_all (\<lambda>k. k \<in> fst ` set fields) (dkeys raw_content)
            \<and> list_all (\<lambda>f. field_value raw_content f \<noteq> None) fields
         then Inr (map (\<lambda>f. (fst f, the (field_value raw_content f))) fields)
         else Inl (Dom (InvalidComponentContent component_type (explain component_type raw_content))))"

section \<open>Slugs\<close>

definition is_slug_char :: "char \<Rightarrow> bool" where
  "is_slug_char c \<longleftrightarrow> (let n = code c in 97 \<le> n \<and> n \<le> 122 \<or> 48 \<le> n \<and> n \<le> 57)"

text \<open>\<open>re.sub("[^a-z0-9]+", "-", s)\<close>: every maximal run of other characters becomes one hyphen.\<close>

fun sub_runs :: "bool \<Rightarrow> string \<Rightarrow> string" where
  "sub_runs in_run [] = []"
| "sub_runs in_run (c # cs) =
     (if is_slug_char c then c # sub_runs False cs
      else if in_run then sub_runs True cs
      else CHR ''-'' # sub_runs True cs)"

definition strip_hyphens :: "string \<Rightarrow> string" where
  "strip_hyphens s =
     rev (dropWhile (\<lambda>c. c = CHR ''-'') (rev (dropWhile (\<lambda>c. c = CHR ''-'') s)))"

definition slugify :: "string \<Rightarrow> nat \<Rightarrow> string" where
  "slugify name max_base_length =
     (let base = strip_hyphens (sub_runs False (lower (strip name)));
          base = (if base = [] then ''organization'' else base);
          cut = strip_hyphens (take max_base_length base)
      in if cut = [] then ''organization'' else cut)"

text \<open>\<open>token\<close> is \<open>uuid.uuid4()\<close>; its first eight hexadecimal digits are the suffix.\<close>

definition generate_unique_slug :: "string \<Rightarrow> uuid \<Rightarrow> string" where
  "generate_unique_slug name token = slugify name 80 @ ''-'' @ take 8 (hex_digits 32 token)"

section \<open>What validation gives\<close>

lemma content_models_distinct: "distinct (map fst (content_models ct))"
  by (cases ct) simp_all

lemma content_defaults_conform: "(n, k, Some d) \<in> set (content_models ct) \<Longrightarrow> conforms k d"
  by (cases ct) (auto simp: is_str_def is_dict_def)

text \<open>A validated content has exactly the declared fields, each of its declared type.\<close>

definition valid_content :: "component_type \<Rightarrow> json_dict \<Rightarrow> bool" where
  "valid_content ct kvs \<longleftrightarrow>
     list_all2 (\<lambda>kv f. fst kv = fst f \<and> conforms (fst (snd f)) (snd kv)) kvs (content_models ct)"

lemma validate_content_valid:
  assumes "validate_content explain ct raw = Inr kvs"
  shows "valid_content ct kvs"
proof -
  have kvs: "kvs = map (\<lambda>f. (fst f, the (field_value raw f))) (content_models ct)"
    and all: "list_all (\<lambda>f. field_value raw f \<noteq> None) (content_models ct)"
    using assms by (auto simp: validate_content_def Let_def split: if_splits)
  have "conforms (fst (snd f)) (the (field_value raw f))" if f: "f \<in> set (content_models ct)" for f
  proof -
    obtain n k d where nkd: "f = (n, k, d)" by (cases f) auto
    have "field_value raw f \<noteq> None" using all f by (auto simp: list_all_iff)
    then show ?thesis
      using f content_defaults_conform [of n k _ ct]
      by (auto simp: nkd field_value_def split: option.splits if_splits)
  qed
  then show ?thesis unfolding valid_content_def kvs by (simp add: list_all2_map1 list_all2_same)
qed

lemma valid_content_keys: "valid_content ct kvs \<Longrightarrow> map fst kvs = map fst (content_models ct)"
  unfolding valid_content_def by (induction rule: list_all2_induct) auto

text \<open>Validating a validated content changes nothing.\<close>

lemma valid_content_lookup:
  assumes "valid_content ct kvs" "(n, k, d) \<in> set (content_models ct)"
  shows "\<exists>v. map_of kvs n = Some v \<and> conforms k v"
proof -
  obtain kv where kv: "kv \<in> set kvs" "fst kv = n" "conforms k (snd kv)"
    using assms list_all2_mem [of "\<lambda>f kv. fst kv = fst f \<and> conforms (fst (snd f)) (snd kv)"
        "content_models ct" kvs "(n, k, d)"]
    by (auto simp: valid_content_def list_all2_conv_all_nth)
  have "distinct (map fst kvs)"
    using valid_content_keys [OF assms(1)] content_models_distinct by simp
  with kv have "map_of kvs n = Some (snd kv)" by (metis map_of_is_SomeI prod.collapse)
  with kv show ?thesis by blast
qed

lemma validate_content_idem:
  assumes "valid_content ct kvs"
  shows "validate_content explain ct kvs = Inr kvs"
proof -
  let ?fs = "content_models ct"
  have look: "field_value kvs f = Some (the (map_of kvs (fst f)))" if "f \<in> set ?fs" for f
    using valid_content_lookup [OF assms, of "fst f" "fst (snd f)" "snd (snd f)"] that
    by (cases f) (auto simp: field_value_def)
  have d: "distinct (map fst kvs)" using valid_content_keys [OF assms] content_models_distinct by simp
  have "map (\<lambda>f. (fst f, the (map_of kvs (fst f)))) ?fs = map (\<lambda>k. (k, the (map_of kvs k))) (map fst ?fs)"
    by simp
  also have "\<dots> = kvs"
    unfolding valid_content_keys [OF assms, symmetric] map_map
    by (rule map_idI) (use d in \<open>auto simp: comp_def\<close>)
  finally have m: "map (\<lambda>f. (fst f, the (field_value kvs f))) ?fs = kvs"
    using look by (simp cong: map_cong)
  have "list_all (\<lambda>k. k \<in> fst ` set ?fs) (dkeys kvs)"
    using valid_content_keys [OF assms] by (simp add: dkeys_def list_all_iff)
  then show ?thesis using look m by (simp add: validate_content_def Let_def list_all_iff)
qed

section \<open>What a slug looks like\<close>

definition slug_ok :: "string \<Rightarrow> bool" where
  "slug_ok s \<longleftrightarrow> s \<noteq> [] \<and> (\<forall>c \<in> set s. is_slug_char c \<or> c = CHR ''-'')
     \<and> hd s \<noteq> CHR ''-'' \<and> last s \<noteq> CHR ''-''"

lemma set_sub_runs: "c \<in> set (sub_runs b s) \<Longrightarrow> is_slug_char c \<or> c = CHR ''-''"
  by (induction b s rule: sub_runs.induct) (auto split: if_splits)

lemma set_strip_hyphens: "c \<in> set (strip_hyphens s) \<Longrightarrow> c \<in> set s"
  by (auto simp: strip_hyphens_def dest!: set_dropWhileD)

lemma last_dropWhile_rev: "dropWhile P (rev s) \<noteq> [] \<Longrightarrow> \<not> P (last (rev (dropWhile P (rev s))))"
  using hd_dropWhile [of P "rev s"] by (simp add: last_rev)

lemma strip_hyphens_ends:
  assumes "strip_hyphens s \<noteq> []"
  shows "hd (strip_hyphens s) \<noteq> CHR ''-'' \<and> last (strip_hyphens s) \<noteq> CHR ''-''"
proof -
  let ?P = "\<lambda>c. c = CHR ''-''"
  define t where "t = dropWhile ?P s"
  have s: "strip_hyphens s = rev (dropWhile ?P (rev t))" by (simp add: strip_hyphens_def t_def)
  have ne: "dropWhile ?P (rev t) \<noteq> []" using assms s by simp
  obtain us where us: "t = rev (dropWhile ?P (rev t)) @ us"
    by (metis rev_append rev_rev_ident takeWhile_dropWhile_id)
  have t: "t \<noteq> []" using ne by auto
  then have "hd t \<noteq> CHR ''-''" unfolding t_def using hd_dropWhile [of ?P s] by simp
  moreover have "hd (strip_hyphens s) = hd t" using us ne s by (metis hd_append2 rev_is_Nil_conv)
  ultimately show ?thesis using last_dropWhile_rev [OF ne] s by simp
qed

lemma length_strip_hyphens: "length (strip_hyphens s) \<le> length s"
  unfolding strip_hyphens_def by (metis dual_order.trans length_dropWhile_le length_rev)

lemma slug_ok_slugify: "slug_ok (slugify name n)"
proof -
  define b where "b = strip_hyphens (sub_runs False (lower (strip name)))"
  define b' where "b' = (if b = [] then ''organization'' else b)"
  define cut where "cut = strip_hyphens (take n b')"
  have org: "slug_ok ''organization''"
    by (simp add: slug_ok_def is_slug_char_def code_def)
  have chars: "\<forall>c \<in> set b'. is_slug_char c \<or> c = CHR ''-''"
  proof -
    have "\<forall>c \<in> set b. is_slug_char c \<or> c = CHR ''-''"
      using set_sub_runs set_strip_hyphens unfolding b_def by blast
    then show ?thesis using org by (simp add: b'_def slug_ok_def)
  qed
  have "slug_ok cut" if "cut \<noteq> []"
    unfolding slug_ok_def
    using that strip_hyphens_ends [of "take n b'"] chars
    by (auto simp: cut_def dest!: set_strip_hyphens in_set_takeD)
  moreover have "slugify name n = (if cut = [] then ''organization'' else cut)"
    by (simp add: slugify_def cut_def b'_def b_def Let_def)
  ultimately show ?thesis using org by simp
qed

lemma length_slugify: "12 \<le> n \<Longrightarrow> length (slugify name n) \<le> n"
  using length_strip_hyphens [of "take n b" for b]
  by (auto simp: slugify_def Let_def intro: le_trans)

end
