(* ===== verification/Compat_Laws.thy ===== *)
theory Compat_Laws
  imports Compat_Analyzer Component_Content
begin

text \<open>
  Laws of the compatibility analysis: it returns a result for every two validated contents of a
  supported type, finds nothing in two equal contents, misses no difference of the config-shaped
  types, and reports \<open>CRITICAL\<close> for one kind of change only.
\<close>

section \<open>The contents the analysis is given\<close>

text \<open>
  What a stored content satisfies besides \<open>valid_content\<close>: distinct keys at every depth, and for the
  schema-bearing types the shapes of \<open>wf_schema\<close> within the depth bound.
\<close>

definition schema_content_ok :: "json \<Rightarrow> bool" where
  "schema_content_ok v \<longleftrightarrow> wf_schema v \<and> json_depth v \<le> max_depth"

definition content_ok :: "component_type \<Rightarrow> json_dict \<Rightarrow> bool" where
  "content_ok ct kvs \<longleftrightarrow> valid_content ct kvs \<and> dict_ok kvs
     \<and> (ct = C_TOOL \<longrightarrow> schema_content_ok (dget_or kvs ''input_schema'' (JDict []))
                       \<and> schema_content_ok (dget_or kvs ''output_schema'' (JDict [])))
     \<and> (ct = C_SCHEMA \<longrightarrow> schema_content_ok (dget_or kvs ''schema_definition'' (JDict [])))"

lemma content_ok_simps: "content_ok ct kvs \<Longrightarrow> valid_content ct kvs" "content_ok ct kvs \<Longrightarrow> dict_ok kvs"
  by (simp_all add: content_ok_def)

lemma field_conforms:
  assumes "valid_content ct kvs" "(n, k, d) \<in> set (content_models ct)"
  shows "conforms k (dget kvs n)" and "dget_or kvs n e = dget kvs n"
  using valid_content_lookup [OF assms] by (auto simp: dget_def dget_or_def)

text \<open>A dict field of a validated content.\<close>

lemma dict_field:
  assumes "content_ok ct kvs" "(n, F_DICT, d) \<in> set (content_models ct)"
  obtains ps where "dget kvs n = JDict ps" "dget_or kvs n (JDict []) = JDict ps" "dict_ok ps"
proof -
  have "is_dict (dget kvs n)" "dget_or kvs n (JDict []) = dget kvs n"
    using field_conforms [OF _ assms(2)] assms(1) by (auto simp: content_ok_def)
  moreover have "json_ok (dget kvs n)" by (rule json_ok_dget [OF content_ok_simps(2) [OF assms(1)]])
  ultimately show thesis using that by (auto simp: is_dict_iff dict_ok_def)
qed

section \<open>Every part returns on such contents\<close>

lemma field_change_ok: "ct \<noteq> CT_CONSTRAINT_CHANGED \<Longrightarrow> \<exists>cs. field_change f ct b c = Inr cs"
  using one_change_ok [of ct] by (simp add: field_change_def)

lemma field_change_Nil:
  "ct \<noteq> CT_CONSTRAINT_CHANGED \<Longrightarrow> field_change f ct b c = Inr [] \<longleftrightarrow> py_eq (dget b f) (dget c f)"
  using make_change_ok [of ct] by (auto simp: field_change_def one_change_iff)

lemma mapping_changes_complete:
  assumes "content_ok ct b" "content_ok ct c" "(n, F_DICT, d) \<in> set (content_models ct)" "types_ok t"
  shows "\<exists>cs. mapping_changes t n b c = Inr cs \<and> (cs = [] \<longleftrightarrow> py_eq (dget b n) (dget c n))"
proof -
  obtain ps qs where "dget b n = JDict ps" "dget_or b n (JDict []) = JDict ps" "dict_ok ps"
      "dget c n = JDict qs" "dget_or c n (JDict []) = JDict qs" "dict_ok qs"
    by (metis dict_field [OF assms(1,3)] dict_field [OF assms(2,3)])
  then show ?thesis using diff_mapping_complete assms(4) by (simp add: mapping_changes_def)
qed

lemma mapping_changes_ok:
  assumes "content_ok ct b" "content_ok ct c" "(n, F_DICT, d) \<in> set (content_models ct)" "types_ok t"
  shows "\<exists>cs. mapping_changes t n b c = Inr cs"
  using mapping_changes_complete [OF assms] by blast

lemma types_ok_simps [simp]:
  "types_ok default_types"
  "types_ok (default_types \<lparr> value_change_type := CT_PARAMETER_CHANGED \<rparr>)"
  "types_ok (default_types \<lparr> value_change_type := CT_AUTH_CHANGED \<rparr>)"
  "types_ok (default_types \<lparr> value_change_type := CT_WORKFLOW_CONFIG_CHANGED \<rparr>)"
  "types_ok \<lparr> value_change_type = CT_RULE_CHANGED, added_type = CT_RULE_ADDED, removed_type = CT_RULE_REMOVED \<rparr>"
  by (simp_all add: types_ok_def default_types_def)

lemma set_diff_strs: "list_all is_str xs \<Longrightarrow> list_all is_str (set_diff xs ys)"
  by (auto simp: set_diff_def list_all_iff)

lemma py_sorted_strs_ok: "list_all is_str xs \<Longrightarrow> \<exists>ys. py_sorted xs = Inr ys"
  by (metis strs_eq_map py_sorted_JStr)

lemma variables_set:
  assumes "content_ok C_PROMPT kvs"
  obtains s where "py_set_of (dget kvs ''variables'') = Inr s" "list_all is_str s"
proof -
  have "names (dget kvs ''variables'')"
    using field_conforms(1) [OF content_ok_simps(1) [OF assms], of "''variables''" F_STR_LIST]
    by (simp add: names_def)
  then obtain xs where xs: "dget kvs ''variables'' = JList xs" "list_all is_str xs"
    by (auto simp: names_iff)
  then have "py_set_of (dget kvs ''variables'') = Inr (dedup [] xs)"
    using strs_hashable by (auto simp: py_set_of_def py_or_def py_set_def)
  moreover have "list_all is_str (dedup [] xs)"
    using xs(2) set_dedup_subset [of "[]" xs] by (auto simp: list_all_iff)
  ultimately show thesis using that by blast
qed

lemma named_changes_ok:
  assumes "list_all is_str s" "list_all is_str t" "ct \<noteq> CT_CONSTRAINT_CHANGED"
  shows "\<exists>cs. rbind (lift_py (py_sorted (set_diff s t))) (rmap (\<lambda>n. make_change ct (p n) d (o1 n) (n1 n))) = Inr cs"
  using py_sorted_strs_ok [OF set_diff_strs [OF assms(1)], of t] make_change_ok [OF assms(3)]
  by (auto intro!: rmap_ok)

lemma analyze_prompt_ok:
  assumes "content_ok C_PROMPT b" "content_ok C_PROMPT c"
  shows "\<exists>cs. analyze_prompt b c = Inr cs"
proof -
  obtain s t where "py_set_of (dget b ''variables'') = Inr s" "list_all is_str s"
      "py_set_of (dget c ''variables'') = Inr t" "list_all is_str t"
    by (metis variables_set [OF assms(1)] variables_set [OF assms(2)])
  moreover have "\<exists>cs. mapping_changes default_types ''settings'' b c = Inr cs"
    by (rule mapping_changes_ok [OF assms]) simp_all
  ultimately show ?thesis
    unfolding analyze_prompt_def
    by (intro then_changes_ok field_change_ok) (simp_all add: then_changes_ok named_changes_ok)
qed

lemma schemas_ok:
  assumes "schema_content_ok b" "schema_content_ok c"
  shows "\<exists>cs. diff_schemas b c d p 0 = Inr cs"
  using diff_schemas_ok [of b c 0 d p] assms by (simp add: schema_content_ok_def)

lemma steps_ok: "\<exists>cs. diff_workflow_steps bs cs' = Inr cs"
  unfolding diff_workflow_steps_def Let_def
  by (intro then_changes_ok rconcat_ok)
    (auto simp: step_change_def split: option.splits intro!: one_change_ok)

lemma dict_ok_filter: "dict_ok kvs \<Longrightarrow> dict_ok (filter P kvs)"
  by (auto simp: dict_ok_def list_all_iff distinct_map_filter)

lemma analyze_workflow_ok:
  assumes "content_ok C_WORKFLOW b" "content_ok C_WORKFLOW c"
  shows "\<exists>cs. analyze_workflow b c = Inr cs"
proof -
  have "(''definition'', F_DICT, None) \<in> set (content_models C_WORKFLOW)" by simp
  then obtain ps qs where d: "dget_or b ''definition'' (JDict []) = JDict ps" "dict_ok ps"
      "dget_or c ''definition'' (JDict []) = JDict qs" "dict_ok qs"
    by (metis dict_field [OF assms(1)] dict_field [OF assms(2)])
  have m: "\<exists>cs. diff_mapping (default_types \<lparr> value_change_type := CT_WORKFLOW_CONFIG_CHANGED \<rparr>)
      (JDict xs) (JDict ys) p = Inr cs" if "dict_ok xs" "dict_ok ys" for xs ys p
    using diff_mapping_complete [OF that types_ok_simps(4), of p] by blast
  show ?thesis
    unfolding analyze_workflow_def Let_def d dict_or_empty_def json.case prod.case
    using m d(2,4) by (auto split: json.splits intro!: then_changes_ok steps_ok simp: dict_ok_filter)
qed

lemma agent_tools_iter:
  assumes "content_ok C_AGENT kvs"
  shows "\<exists>ts. py_iter (py_or (dget kvs ''tools'') (JList [])) = Inr ts"
  using field_conforms(1) [OF content_ok_simps(1) [OF assms], of "''tools''" F_DICT_LIST]
  by (auto simp: py_or_def split: json.splits)

lemma analyze_agent_ok:
  assumes "content_ok C_AGENT b" "content_ok C_AGENT c"
  shows "\<exists>cs. analyze_agent b c = Inr cs"
proof -
  have "\<exists>cs. diff_agent_tools (py_or (dget b ''tools'') (JList [])) (py_or (dget c ''tools'') (JList [])) = Inr cs"
    using agent_tools_iter [OF assms(1)] agent_tools_iter [OF assms(2)]
    by (auto simp: diff_agent_tools_def Let_def intro!: then_changes_ok rmap_ok make_change_ok)
  moreover have "\<exists>cs. mapping_changes default_types ''system_config'' b c = Inr cs"
    by (rule mapping_changes_ok [OF assms]) simp_all
  ultimately show ?thesis
    unfolding analyze_agent_def by (intro then_changes_ok field_change_ok) simp_all
qed

text \<open>The types compared field by field and dict by dict: a result, and no change iff all are equal.\<close>

lemma then_changes_complete:
  "\<exists>xs. m = Inr xs \<and> (xs = [] \<longleftrightarrow> P) \<Longrightarrow> \<exists>ys. n = Inr ys \<and> (ys = [] \<longleftrightarrow> Q) \<Longrightarrow>
   \<exists>cs. then_changes m n = Inr cs \<and> (cs = [] \<longleftrightarrow> P \<and> Q)"
  by (auto simp: then_changes_def)

lemma field_change_complete:
  "ct \<noteq> CT_CONSTRAINT_CHANGED \<Longrightarrow>
   \<exists>cs. field_change f ct b c = Inr cs \<and> (cs = [] \<longleftrightarrow> py_eq (dget b f) (dget c f))"
  using field_change_ok [of ct f b c] field_change_Nil [of ct f b c] by auto

lemma analyze_model_complete:
  assumes "content_ok C_MODEL b" "content_ok C_MODEL c"
  shows "\<exists>cs. analyze_model b c = Inr cs \<and>
    (cs = [] \<longleftrightarrow> (\<forall>f \<in> set (content_models C_MODEL). py_eq (dget b (fst f)) (dget c (fst f))))"
  unfolding analyze_model_def
  using then_changes_complete [OF field_change_complete [of CT_PROVIDER_CHANGED "''provider''" b c]
    then_changes_complete [OF field_change_complete [of CT_MODEL_IDENTIFIER_CHANGED "''model_identifier''" b c]
      mapping_changes_complete [OF assms, of "''parameters''" "Some (JDict [])"
        "default_types \<lparr> value_change_type := CT_PARAMETER_CHANGED \<rparr>"]]]
  by simp

lemma analyze_api_complete:
  assumes "content_ok C_API b" "content_ok C_API c"
  shows "\<exists>cs. analyze_api b c = Inr cs \<and>
    (cs = [] \<longleftrightarrow> (\<forall>f \<in> set (content_models C_API). py_eq (dget b (fst f)) (dget c (fst f))))"
  unfolding analyze_api_def
  using then_changes_complete [OF field_change_complete [of CT_BASE_URL_CHANGED "''base_url''" b c]
    then_changes_complete [OF field_change_complete [of CT_METHOD_CHANGED "''method''" b c]
      mapping_changes_complete [OF assms, of "''auth''" "Some (JDict [])"
        "default_types \<lparr> value_change_type := CT_AUTH_CHANGED \<rparr>"]]]
  by simp

lemma analyze_mcp_server_eq: "analyze_mcp_server b c =
    then_changes (field_change ''server_name'' CT_SERVER_NAME_CHANGED b c)
     (then_changes (field_change ''transport'' CT_TRANSPORT_CHANGED b c)
      (then_changes (field_change ''endpoint'' CT_ENDPOINT_CHANGED b c)
        (mapping_changes default_types ''settings'' b c)))"
  by (simp add: analyze_mcp_server_def then_changes_def rbind_assoc)

lemma analyze_mcp_server_complete:
  assumes "content_ok C_MCP_SERVER b" "content_ok C_MCP_SERVER c"
  shows "\<exists>cs. analyze_mcp_server b c = Inr cs \<and>
    (cs = [] \<longleftrightarrow> (\<forall>f \<in> set (content_models C_MCP_SERVER). py_eq (dget b (fst f)) (dget c (fst f))))"
  unfolding analyze_mcp_server_eq
  using then_changes_complete [OF field_change_complete [of CT_SERVER_NAME_CHANGED "''server_name''" b c]
    then_changes_complete [OF field_change_complete [of CT_TRANSPORT_CHANGED "''transport''" b c]
     then_changes_complete [OF field_change_complete [of CT_ENDPOINT_CHANGED "''endpoint''" b c]
      mapping_changes_complete [OF assms, of "''settings''" "Some (JDict [])" default_types]]]]
  by simp

lemma analyze_policy_complete:
  assumes "content_ok C_POLICY b" "content_ok C_POLICY c"
  shows "\<exists>cs. analyze_policy b c = Inr cs \<and>
    (cs = [] \<longleftrightarrow> (\<forall>f \<in> set (content_models C_POLICY). py_eq (dget b (fst f)) (dget c (fst f))))"
  unfolding analyze_policy_def
  using mapping_changes_complete [OF assms, of "''rules''" None
    "\<lparr> value_change_type = CT_RULE_CHANGED, added_type = CT_RULE_ADDED, removed_type = CT_RULE_REMOVED \<rparr>"]
  by simp

section \<open>The analysis as a whole\<close>

lemma compat_analyze_iff:
  "compat_analyze ct b c = Inr r \<longleftrightarrow>
   (\<exists>compare changes. dispatch ct = Some compare \<and> compare b c = Inr changes \<and>
      r = \<lparr> ar_status = derive_status (sort_changes changes), ar_changes = sort_changes changes \<rparr>)"
  by (auto simp: compat_analyze_def Let_def rbind_eq_Inr_iff split: option.splits)

lemma dispatch_simps [simp]:
  "dispatch C_SCHEMA = Some analyze_schema" "dispatch C_TOOL = Some analyze_tool"
  "dispatch C_MCP_SERVER = Some analyze_mcp_server" "dispatch C_MODEL = Some analyze_model"
  "dispatch C_PROMPT = Some analyze_prompt" "dispatch C_API = Some analyze_api"
  "dispatch C_WORKFLOW = Some analyze_workflow" "dispatch C_POLICY = Some analyze_policy"
  "dispatch C_AGENT = Some analyze_agent" "dispatch C_PROVIDER = None"
  by (simp_all add: dispatch_def)

lemma dispatch_ok:
  assumes "dispatch ct = Some compare" "content_ok ct b" "content_ok ct c"
  shows "\<exists>cs. compare b c = Inr cs"
proof (cases ct)
  case C_TOOL
  then have "schema_content_ok (dget_or kvs ''input_schema'' (JDict []))"
      "schema_content_ok (dget_or kvs ''output_schema'' (JDict []))" if "content_ok ct kvs" for kvs
    using that by (simp_all add: content_ok_def)
  then show ?thesis
    using assms C_TOOL by (auto simp: analyze_tool_def intro!: then_changes_ok schemas_ok field_change_ok)
next
  case C_SCHEMA
  then have "schema_content_ok (dget_or kvs ''schema_definition'' (JDict []))" if "content_ok ct kvs" for kvs
    using that by (simp add: content_ok_def)
  then show ?thesis
    using assms C_SCHEMA by (auto simp: analyze_schema_def intro!: then_changes_ok schemas_ok field_change_ok)
next
  case C_PROMPT
  then show ?thesis using assms analyze_prompt_ok by simp
next
  case C_MODEL
  then show ?thesis using assms analyze_model_complete [of b c] by auto
next
  case C_API
  then show ?thesis using assms analyze_api_complete [of b c] by auto
next
  case C_MCP_SERVER
  then show ?thesis using assms analyze_mcp_server_complete [of b c] by auto
next
  case C_WORKFLOW
  then show ?thesis using assms analyze_workflow_ok by simp
next
  case C_POLICY
  then show ?thesis using assms analyze_policy_complete [of b c] by auto
next
  case C_AGENT
  then show ?thesis using assms analyze_agent_ok by simp
qed (use assms in simp)

section \<open>Nothing is found in two equal contents\<close>

lemma field_change_self: "dict_ok b \<Longrightarrow> field_change f ct b b = Inr []"
  by (simp add: field_change_def py_eq_refl json_ok_dget)

lemma mapping_changes_self:
  assumes "content_ok ct b" "(n, F_DICT, d) \<in> set (content_models ct)" "types_ok t"
  shows "mapping_changes t n b b = Inr []"
proof -
  have "py_eq (dget b n) (dget b n)"
    by (rule py_eq_refl [OF json_ok_dget [OF content_ok_simps(2) [OF assms(1)]]])
  then show ?thesis using mapping_changes_complete [OF assms(1,1,2,3)] by auto
qed

lemma schemas_self:
  assumes "schema_content_ok v"
  shows "diff_schemas v v d p 0 = Inr []"
proof -
  obtain w where w: "normalize_schema v 0 = Inr w" "wf_schema w"
    using normalize_schema_wf [of v 0] assms by (auto simp: schema_content_ok_def)
  have "py_eq w w" by (rule py_eq_refl [OF wf_schema_ok [OF w(2)]])
  then show ?thesis
    using diff_schemas_same [OF w(1) w(1)] assms by (simp add: schema_content_ok_def)
qed

lemma set_diff_self: "list_all is_str s \<Longrightarrow> set_diff s s = []"
  by (auto simp: set_diff_def list_all_iff is_str_iff filter_empty_conv)

lemma analyze_prompt_self:
  assumes "content_ok C_PROMPT b"
  shows "analyze_prompt b b = Inr []"
proof -
  obtain s where s: "py_set_of (dget b ''variables'') = Inr s" "list_all is_str s"
    by (rule variables_set [OF assms])
  have "mapping_changes default_types ''settings'' b b = Inr []"
    by (rule mapping_changes_self [OF assms]) simp_all
  moreover have "py_sorted [] = Inr []" by (simp add: py_sorted_def)
  ultimately show ?thesis
    using assms by (simp add: analyze_prompt_def field_change_self content_ok_def s set_diff_self)
qed

lemma diff_workflow_steps_same_keys:
  assumes "step_keys ss = step_keys ts"
  shows "diff_workflow_steps ss ts = Inr []"
proof -
  have fold: "fst ` set (foldl (\<lambda>d (i, s). dput (step_key s i) s d) d0 xs) =
      fst ` set d0 \<union> (\<lambda>(i, s). step_key s i) ` set xs" for d0 :: json_dict and xs
    by (induction xs arbitrary: d0) (auto simp: case_prod_unfold)
  have keys: "fst ` set (steps_by_key us) = set (step_keys us)" for us
    by (simp add: steps_by_key_def step_keys_def fold)
  have both: "map_of (steps_by_key us) k \<noteq> None \<longleftrightarrow> k \<in> set (step_keys us)" for us k
    using keys [of us] by (simp add: map_of_eq_None_iff)
  have "step_change (steps_by_key ss) (steps_by_key ts) k = Inr []" for k
    using both [of ss k] both [of ts k] assms by (auto simp: step_change_def split: option.splits)
  moreover have hk: "has_key (steps_by_key us) k \<longleftrightarrow> k \<in> set (step_keys us)" for us k
    using keys [of us] by (simp add: has_key_def)
  moreover have "filter (has_key (steps_by_key us)) (step_keys us) = step_keys us" for us
    by (simp add: hk filter_id_conv)
  moreover have "has_key (steps_by_key ts) = has_key (steps_by_key ss)"
    by (simp add: fun_eq_iff hk assms)
  ultimately show ?thesis
    by (simp add: diff_workflow_steps_def Let_def rconcat_Nil_on assms)
qed

lemma analyze_workflow_self:
  assumes "content_ok C_WORKFLOW b"
  shows "analyze_workflow b b = Inr []"
proof -
  obtain ps where d: "dget_or b ''definition'' (JDict []) = JDict ps" "dict_ok ps"
    using dict_field [OF assms, of "''definition''" None] by auto
  have m: "diff_mapping (default_types \<lparr> value_change_type := CT_WORKFLOW_CONFIG_CHANGED \<rparr>)
      (JDict xs) (JDict xs) p = Inr []" if "dict_ok xs" for xs p
    using diff_mapping_complete [OF that that types_ok_simps(4), of p] py_eq_refl [of "JDict xs"] that
    by (auto simp: dict_ok_def)
  show ?thesis
    unfolding analyze_workflow_def Let_def d dict_or_empty_def json.case prod.case
    using m d(2) by (simp add: diff_workflow_steps_same_keys dict_ok_filter split: json.splits)
qed

lemma analyze_agent_self:
  assumes "content_ok C_AGENT b"
  shows "analyze_agent b b = Inr []"
proof -
  obtain ts where "py_iter (py_or (dget b ''tools'') (JList [])) = Inr ts"
    using agent_tools_iter [OF assms] by blast
  then have "diff_agent_tools (py_or (dget b ''tools'') (JList [])) (py_or (dget b ''tools'') (JList [])) = Inr []"
    by (simp add: diff_agent_tools_def Let_def sorted_set_def then_changes_def)
  moreover have "mapping_changes default_types ''system_config'' b b = Inr []"
    by (rule mapping_changes_self [OF assms]) simp_all
  ultimately show ?thesis
    using assms by (simp add: analyze_agent_def field_change_self content_ok_def)
qed

lemma dispatch_self:
  assumes "dispatch ct = Some compare" "content_ok ct b"
  shows "compare b b = Inr []"
proof -
  have d: "dict_ok b" using assms(2) by (simp add: content_ok_def)
  have refl: "py_eq (dget b f) (dget b f)" for f by (rule py_eq_refl [OF json_ok_dget [OF d]])
  show ?thesis
  proof (cases ct)
    case C_TOOL
    with assms have "schema_content_ok (dget_or b ''input_schema'' (JDict []))"
        "schema_content_ok (dget_or b ''output_schema'' (JDict []))"
      by (simp_all add: content_ok_def)
    then show ?thesis
      using assms(1) C_TOOL d by (auto simp: analyze_tool_def schemas_self field_change_self)
  next
    case C_SCHEMA
    with assms have "schema_content_ok (dget_or b ''schema_definition'' (JDict []))"
      by (simp add: content_ok_def)
    then show ?thesis
      using assms(1) C_SCHEMA d by (auto simp: analyze_schema_def schemas_self field_change_self)
  next
    case C_PROMPT
    then show ?thesis using assms analyze_prompt_self by auto
  next
    case C_MODEL
    then show ?thesis using assms analyze_model_complete [of b b] refl by auto
  next
    case C_API
    then show ?thesis using assms analyze_api_complete [of b b] refl by auto
  next
    case C_MCP_SERVER
    then show ?thesis using assms analyze_mcp_server_complete [of b b] refl by auto
  next
    case C_WORKFLOW
    then show ?thesis using assms analyze_workflow_self by auto
  next
    case C_POLICY
    then show ?thesis using assms analyze_policy_complete [of b b] refl by auto
  next
    case C_AGENT
    then show ?thesis using assms analyze_agent_self by auto
  qed (use assms in simp)
qed

section \<open>What the analysis can report\<close>

text \<open>The schema comparisons of a component type: their direction and the path they start at.\<close>

fun schema_sites :: "component_type \<Rightarrow> (direction \<times> string) list" where
  "schema_sites C_TOOL = [(DIR_INPUT, ''$.input_schema''), (DIR_OUTPUT, ''$.output_schema'')]"
| "schema_sites C_SCHEMA = [(DIR_NEUTRAL, ''$'')]"
| "schema_sites C_AGENT = []" | "schema_sites C_PROMPT = []" | "schema_sites C_MODEL = []"
| "schema_sites C_PROVIDER = []" | "schema_sites C_MCP_SERVER = []" | "schema_sites C_API = []"
| "schema_sites C_WORKFLOW = []" | "schema_sites C_POLICY = []"

text \<open>
  A change is a schema change at one of these sites, or a change classified once and for all by
  the rules without a direction.
\<close>

definition reported_change :: "component_type \<Rightarrow> change \<Rightarrow> bool" where
  "reported_change ct c \<longleftrightarrow>
     (\<exists>(d, p) \<in> set (schema_sites ct). schema_change d p c) \<or>
     prefix ''$.'' (ch_path c) \<and> classify (ch_type c) DIR_NEUTRAL = Inr (ch_class c, ch_severity c)"

lemma reported_make:
  "make_change t q DIR_NEUTRAL o1 n1 = Inr c \<Longrightarrow> prefix ''$.'' q \<Longrightarrow> reported_change ct c"
  by (auto simp: reported_change_def dest!: make_change_fields)

lemma reported_field: "all_at (reported_change ct) (field_change f t b c)"
  unfolding field_change_def by (intro all_at_intros; (erule reported_make)?; simp)

lemma reported_diff_mapping: "prefix ''$.'' p \<Longrightarrow> all_at (reported_change ct) (diff_mapping t b c p)"
  by (rule all_at_mono [OF all_at_diff_mapping])
    (auto simp: reported_change_def mapping_change_def intro: prefix_order.trans)

lemma reported_mapping: "all_at (reported_change ct) (mapping_changes t f b c)"
  unfolding mapping_changes_def by (rule reported_diff_mapping) simp

lemma reported_schemas: "(d, p) \<in> set (schema_sites ct) \<Longrightarrow> all_at (reported_change ct) (diff_schemas b c d p n)"
  by (rule all_at_mono [OF schema_change_diff_schemas]) (auto simp: reported_change_def)

lemmas reported_intros = all_at_intros reported_field reported_mapping

lemma reported_steps: "all_at (reported_change ct) (diff_workflow_steps bs cs)"
  unfolding diff_workflow_steps_def Let_def
  by (intro all_at_then all_at_rconcat all_at_if all_at_one all_at_Nil)
    (auto simp: step_change_def intro!: all_at_intros split: option.splits elim: reported_make)

lemma reported_tools: "all_at (reported_change ct) (diff_agent_tools bs cs)"
  unfolding diff_agent_tools_def Let_def
  by (intro all_at_intros; (erule reported_make)?; simp)

lemma reported_prompt: "all_at (reported_change ct) (analyze_prompt b c)"
  unfolding analyze_prompt_def
  by (intro reported_intros; (erule reported_make)?; simp)

lemma reported_workflow: "all_at (reported_change ct) (analyze_workflow b c)"
  unfolding analyze_workflow_def Let_def
  by (auto intro!: all_at_then reported_steps reported_diff_mapping split: json.splits)

lemma reported_dispatch:
  assumes "dispatch ct = Some compare"
  shows "all_at (reported_change ct) (compare b c)"
proof (cases ct)
  case C_TOOL
  then show ?thesis
    using assms by (auto simp: analyze_tool_def intro!: all_at_then reported_schemas reported_field)
next
  case C_SCHEMA
  then show ?thesis
    using assms by (auto simp: analyze_schema_def intro!: all_at_then reported_schemas reported_field)
next
  case C_MCP_SERVER
  then show ?thesis
    using assms by (auto simp: analyze_mcp_server_eq intro!: all_at_then reported_mapping reported_field)
qed (use assms in \<open>auto simp: analyze_model_def analyze_api_def analyze_policy_def analyze_agent_def
      intro!: all_at_then reported_field reported_mapping reported_tools reported_prompt reported_workflow\<close>)

lemma analysis_changes:
  assumes "compat_analyze ct b c = Inr r" "x \<in> set (ar_changes r)"
  shows "reported_change ct x"
  using assms reported_dispatch by (auto simp: compat_analyze_iff all_at_def list_all_iff)

lemma classify_not_critical: "classify t DIR_NEUTRAL = Inr (cl, SV_CRITICAL) \<Longrightarrow> False"
  by (cases t) (simp_all add: classify_def schema_rules_def generic_rules_def)

lemma schema_rule_critical:
  "map_of schema_rules (t, d) = Some (cl, SV_CRITICAL) \<Longrightarrow>
   t = CT_REQUIRED_FIELD_ADDED \<and> d = DIR_INPUT \<and> cl = CL_BREAKING"
  by (auto simp: schema_rules_def split: if_splits)

lemma constraint_not_critical: "snd (classify_constraint_change d t) \<noteq> SV_CRITICAL"
  by (simp add: classify_constraint_change_def split: option.splits)

lemma analysis_critical:
  assumes "compat_analyze ct b c = Inr r" "x \<in> set (ar_changes r)" "ch_severity x = SV_CRITICAL"
  shows "ct = C_TOOL \<and> ch_type x = CT_REQUIRED_FIELD_ADDED \<and> ch_class x = CL_BREAKING
    \<and> prefix ''$.input_schema'' (ch_path x)"
proof -
  have "\<exists>(d, p) \<in> set (schema_sites ct). schema_change d p x"
    using analysis_changes [OF assms(1,2)] assms(3) classify_not_critical
    by (auto simp: reported_change_def)
  then obtain d p where dp: "(d, p) \<in> set (schema_sites ct)" "schema_change d p x" by auto
  have "ch_type x \<noteq> CT_CONSTRAINT_CHANGED"
    using dp(2) assms(3) constraint_not_critical by (metis schema_change_def snd_conv)
  then have "map_of schema_rules (ch_type x, d) = Some (ch_class x, SV_CRITICAL)"
    using dp(2) assms(3) by (simp add: schema_change_def)
  from schema_rule_critical [OF this] dp show ?thesis
    by (cases ct) (auto simp: schema_change_def)
qed

end
