(* ===== verification/Compat_Properties.thy ===== *)
theory Compat_Properties
  imports Compat_Laws
begin

text \<open>
  The properties of the compatibility engine, each with a concrete instance: two versions of a tool
  (\<open>tool_v1\<close>, \<open>tool_v2\<close>), of a model and of a workflow.
\<close>

section \<open>Concrete contents\<close>

definition tool_v1 :: json_dict where
  "tool_v1 =
     [(''input_schema'',
         JDict [(''type'', JStr ''object''),
                (''properties'', JDict [(''id'', JDict [(''type'', JList [JStr ''string'', JStr ''null''])])]),
                (''required'', JList [JStr ''id''])]),
      (''output_schema'', JDict [(''type'', JStr ''string'')]),
      (''description'', JNull)]"

definition tool_v2 :: json_dict where
  "tool_v2 =
     [(''input_schema'',
         JDict [(''type'', JStr ''object''),
                (''properties'',
                   JDict [(''id'', JDict [(''type'', JStr ''string'')]), (''unit'', JDict [])]),
                (''required'', JList [JStr ''unit'', JStr ''id''])]),
      (''output_schema'', JDict [(''type'', JStr ''string'')]),
      (''description'', JNull)]"

definition model_v1 :: json_dict where
  "model_v1 =
     [(''provider'', JStr ''acme''), (''model_identifier'', JStr ''m-1''),
      (''parameters'', JDict [(''temperature'', JInt 0), (''limits'', JDict [(''tokens'', JInt 10)])])]"

definition model_v2 :: json_dict where
  "model_v2 =
     [(''provider'', JStr ''acme''), (''model_identifier'', JStr ''m-1''),
      (''parameters'', JDict [(''limits'', JDict [(''tokens'', JInt 10)]), (''temperature'', JFloat 0)])]"

lemma tool_v1_ok: "content_ok C_TOOL tool_v1"
  by code_simp

lemma tool_v2_ok: "content_ok C_TOOL tool_v2"
  by code_simp

lemma model_ok: "content_ok C_MODEL model_v1 \<and> content_ok C_MODEL model_v2"
  by code_simp

definition tool_result :: analysis_result where
  "tool_result = (case compat_analyze C_TOOL tool_v1 tool_v2 of Inr r \<Rightarrow> r | Inl _ \<Rightarrow> \<lparr> ar_status = CS_COMPATIBLE, ar_changes = [] \<rparr>)"

lemma tool_result: "compat_analyze C_TOOL tool_v1 tool_v2 = Inr tool_result"
proof -
  obtain r where "compat_analyze C_TOOL tool_v1 tool_v2 = Inr r"
    using dispatch_ok [OF dispatch_simps(2) tool_v1_ok tool_v2_ok]
    by (auto simp: compat_analyze_def Let_def)
  then show ?thesis by (simp add: tool_result_def)
qed

lemma tool_result_summary:
  "map (\<lambda>c. (ch_path c, ch_type c, ch_severity c)) (ar_changes tool_result) =
     [(''$.input_schema.properties.id'', CT_NULLABLE_TO_NON_NULLABLE, SV_HIGH),
      (''$.input_schema.properties.unit'', CT_REQUIRED_FIELD_ADDED, SV_CRITICAL)]"
  unfolding tool_result_def by code_simp

section \<open>The analysis\<close>



text \<open>
  Comparing a content with itself finds nothing: the result is \<open>COMPATIBLE\<close> with no change, for
  every supported component type.
\<close>

theorem compat_analyze_self:
  assumes "content_ok ct content" "ct \<noteq> C_PROVIDER"
  shows "compat_analyze ct content content = Inr \<lparr> ar_status = CS_COMPATIBLE, ar_changes = [] \<rparr>"
proof -
  obtain compare where "dispatch ct = Some compare" using assms(2) by (cases ct) simp_all
  then show ?thesis
    using dispatch_self [OF _ assms(1)] by (simp add: compat_analyze_def Let_def derive_status_def)
qed

theorem compat_analyze_self_witness:
  "compat_analyze C_TOOL tool_v2 tool_v2 = Inr \<lparr> ar_status = CS_COMPATIBLE, ar_changes = [] \<rparr>"
  by (rule compat_analyze_self [OF tool_v2_ok]) simp

text \<open>
  For the component types compared field by field (model, API, MCP server, policy) the analysis
  misses no difference: it reports no change exactly when every declared field of the two contents
  is equal under Python's \<open>==\<close>.
\<close>

theorem compat_analyze_misses_nothing:
  assumes "content_ok ct baseline" "content_ok ct candidate"
    and "ct \<in> {C_MODEL, C_API, C_MCP_SERVER, C_POLICY}"
  shows "\<exists>r. compat_analyze ct baseline candidate = Inr r \<and>
    (ar_changes r = [] \<longleftrightarrow>
     (\<forall>f \<in> set (content_models ct). py_eq (dget baseline (fst f)) (dget candidate (fst f))))"
proof -
  let ?same = "\<forall>f \<in> set (content_models ct). py_eq (dget baseline (fst f)) (dget candidate (fst f))"
  have "\<exists>compare. dispatch ct = Some compare \<and>
      (\<exists>cs. compare baseline candidate = Inr cs \<and> (cs = [] \<longleftrightarrow> ?same))"
    using assms(3)
  proof (elim insertE)
    assume ct: "ct = C_MODEL"
    show ?thesis using analyze_model_complete assms(1,2) unfolding ct dispatch_simps by blast
  next
    assume ct: "ct = C_API"
    show ?thesis using analyze_api_complete assms(1,2) unfolding ct dispatch_simps by blast
  next
    assume ct: "ct = C_MCP_SERVER"
    show ?thesis using analyze_mcp_server_complete assms(1,2) unfolding ct dispatch_simps by blast
  next
    assume ct: "ct = C_POLICY"
    show ?thesis using analyze_policy_complete assms(1,2) unfolding ct dispatch_simps by blast
  qed simp
  then obtain compare cs where "dispatch ct = Some compare" "compare baseline candidate = Inr cs"
      "cs = [] \<longleftrightarrow> ?same"
    by blast
  then show ?thesis by (simp add: compat_analyze_def Let_def)
qed

theorem compat_analyze_misses_nothing_witness:
  "\<exists>r. compat_analyze C_MODEL model_v1 model_v2 = Inr r \<and> ar_changes r = []"
proof -
  have "\<forall>f \<in> set (content_models C_MODEL). py_eq (dget model_v1 (fst f)) (dget model_v2 (fst f))"
    by code_simp
  then show ?thesis
    using compat_analyze_misses_nothing [of C_MODEL model_v1 model_v2] model_ok by auto
qed

text \<open>
  The status of a result is the worst classification among its changes, and the changes are
  exactly those the comparison detected, in the storage order (path, type, classification).
\<close>

theorem compat_analyze_status:
  assumes "compat_analyze ct baseline candidate = Inr r"
  shows "(ar_status r = CS_BREAKING \<longleftrightarrow> CL_BREAKING \<in> ch_class ` set (ar_changes r))
    \<and> (ar_status r = CS_COMPATIBLE \<longleftrightarrow> ch_class ` set (ar_changes r) \<subseteq> {CL_COMPATIBLE})
    \<and> sorted (map change_key (ar_changes r))
    \<and> (\<exists>compare changes. dispatch ct = Some compare \<and> compare baseline candidate = Inr changes
         \<and> mset (ar_changes r) = mset changes)"
proof -
  obtain compare cs where "dispatch ct = Some compare" "compare baseline candidate = Inr cs"
      "ar_changes r = sort_changes cs" "ar_status r = derive_status (sort_changes cs)"
    using assms by (auto simp: compat_analyze_iff)
  then show ?thesis
    using sorted_sort_changes [of cs]
    by (simp add: derive_status_breaking_iff derive_status_compatible_iff)
qed

theorem compat_analyze_status_witness:
  "ar_status tool_result = CS_BREAKING \<longleftrightarrow> CL_BREAKING \<in> ch_class ` set (ar_changes tool_result)"
  using compat_analyze_status [OF tool_result] by blast

text \<open>
  The counters stored with a scan partition its changes: the classification counts and the
  severity counts each add up to the number of changes.
\<close>

theorem compat_counts_total:
  "sum_list (map snd (classification_counts r)) = total_changes r
   \<and> sum_list (map snd (severity_counts r)) = total_changes r
   \<and> map fst (classification_counts r) = [''compatible'', ''potentially_breaking'', ''breaking'']
   \<and> map fst (severity_counts r) = [''info'', ''low'', ''medium'', ''high'', ''critical'']"
  using length_filter_classes [of "ar_changes r"] length_filter_severities [of "ar_changes r"]
  by (simp add: classification_counts_eq severity_counts_eq total_changes_def)

text \<open>
  \<open>CRITICAL\<close> is reserved for one case. A change of that severity is a required field added to the
  input schema of a tool, and it is breaking.
\<close>

theorem critical_is_new_required_input:
  assumes "compat_analyze ct baseline candidate = Inr r" "change \<in> set (ar_changes r)"
    "ch_severity change = SV_CRITICAL"
  shows "ct = C_TOOL \<and> ch_type change = CT_REQUIRED_FIELD_ADDED \<and> ch_class change = CL_BREAKING
    \<and> prefix ''$.input_schema'' (ch_path change)"
  using assms by (rule analysis_critical)

theorem critical_is_new_required_input_witness:
  "ch_type (ar_changes tool_result ! 1) = CT_REQUIRED_FIELD_ADDED
   \<and> ch_class (ar_changes tool_result ! 1) = CL_BREAKING"
proof -
  have "ar_changes tool_result ! 1 \<in> set (ar_changes tool_result)"
    using arg_cong [OF tool_result_summary, of length] by (intro nth_mem) simp
  moreover have "ch_severity (ar_changes tool_result ! 1) = SV_CRITICAL"
    using arg_cong [OF tool_result_summary, of "\<lambda>l. l ! 1"]
      arg_cong [OF tool_result_summary, of length] by simp
  ultimately show ?thesis using critical_is_new_required_input [OF tool_result] by blast
qed

section \<open>Schemas and open dicts\<close>

text \<open>
  Normalizing is idempotent: within the depth bound, the normal form of a schema is its own normal
  form (and is no deeper than the schema).
\<close>

theorem normalize_idempotent:
  assumes "json_depth schema \<le> max_depth" "normalize_schema schema 0 = Inr normal"
  shows "normalize_schema normal 0 = Inr normal \<and> json_depth normal \<le> json_depth schema"
  using normalize_schema_fixpoint [of schema 0 normal] assms by simp

definition loose_schema :: json where
  "loose_schema =
     JDict [(''required'', JList [JStr ''b'', JStr ''a'', JStr ''b'']), (''type'', JList [JStr ''object'']),
            (''enum'', JList [JInt 1, JFloat 1, JBool False])]"

definition tight_schema :: json where
  "tight_schema =
     JDict [(''required'', JList [JStr ''a'', JStr ''b'']), (''type'', JStr ''object''),
            (''enum'', JList [JInt 1, JBool False])]"

lemma loose_schema_normal: "normalize_schema loose_schema 0 = Inr tight_schema"
  by code_simp

lemma tight_schema_normal: "normalize_schema tight_schema 0 = Inr tight_schema"
  by code_simp

theorem normalize_idempotent_witness: "normalize_schema tight_schema 0 = Inr tight_schema"
proof -
  have "json_depth loose_schema \<le> max_depth" by code_simp
  from normalize_idempotent [OF this loose_schema_normal] show ?thesis by blast
qed

text \<open>
  Textual differences without meaning are never reported: two well-formed schemas whose normal
  forms are equal have no changes, in any direction and at any path.
\<close>

theorem equal_normal_forms_no_changes:
  assumes "normalize_schema baseline 0 = Inr b" "normalize_schema candidate 0 = Inr c" "py_eq b c"
    and "wf_schema baseline" "wf_schema candidate"
    and "json_depth baseline \<le> max_depth" "json_depth candidate \<le> max_depth"
  shows "diff_schemas baseline candidate direction path 0 = Inr []"
  using assms by (rule diff_schemas_same)

theorem equal_normal_forms_no_changes_witness:
  "diff_schemas loose_schema tight_schema DIR_INPUT ''$'' 0 = Inr []"
proof (rule equal_normal_forms_no_changes [OF loose_schema_normal tight_schema_normal])
  show "py_eq tight_schema tight_schema" by code_simp
  show "wf_schema loose_schema" by code_simp
  show "wf_schema tight_schema" by code_simp
  show "json_depth loose_schema \<le> max_depth" by code_simp
  show "json_depth tight_schema \<le> max_depth" by code_simp
qed

text \<open>
  Whatever a schema comparison returns, every change lies below the compared path and carries the
  classification and severity that the rule tables give its type in the given direction (for a
  constraint, the one of the direction it moved in).
\<close>

theorem diff_schemas_changes:
  assumes "diff_schemas baseline candidate direction path depth = Inr changes" "change \<in> set changes"
  shows "prefix path (ch_path change) \<and>
    (if ch_type change = CT_CONSTRAINT_CHANGED
     then \<exists>tightened. (ch_class change, ch_severity change) = classify_constraint_change direction tightened
     else map_of schema_rules (ch_type change, direction) = Some (ch_class change, ch_severity change))"
  using schema_change_diff_schemas [of direction path baseline candidate depth] assms
  by (simp add: all_at_def list_all_iff schema_change_def)

definition bool_change :: change where
  "bool_change = \<lparr> ch_type = CT_TYPE_CHANGED, ch_path = ''$'', ch_class = CL_BREAKING, ch_severity = SV_HIGH,
     ch_message = ''TYPE_CHANGED at $'', ch_old = JBool True, ch_new = JBool False, ch_evidence = [] \<rparr>"

theorem diff_schemas_changes_witness:
  "map_of schema_rules (CT_TYPE_CHANGED, DIR_OUTPUT) = Some (CL_BREAKING, SV_HIGH)"
proof -
  have "diff_schemas (JBool True) (JBool False) DIR_OUTPUT ''$'' 0 = Inr [bool_change]" by code_simp
  from diff_schemas_changes [OF this, of bool_change] show ?thesis by (simp add: bool_change_def)
qed

text \<open>
  The comparison of two open dicts (settings, parameters, rules, ...) returns, and it returns no
  change exactly when the dicts are equal, whatever the order of their keys.
\<close>

theorem diff_mapping_exact:
  assumes "dict_ok baseline" "dict_ok candidate" "types_ok types"
  shows "\<exists>changes. diff_mapping types (JDict baseline) (JDict candidate) path = Inr changes
    \<and> (changes = [] \<longleftrightarrow> py_eq (JDict baseline) (JDict candidate))"
  using assms by (rule diff_mapping_complete)

theorem diff_mapping_exact_witness:
  "\<exists>changes. diff_mapping default_types (JDict [(''a'', JInt 1)]) (JDict [(''a'', JBool False)]) ''$'' = Inr changes
     \<and> changes \<noteq> []"
proof -
  have "dict_ok [(''a'', JInt 1)]" "dict_ok [(''a'', JBool False)]" by (simp_all add: dict_ok_def)
  moreover have "\<not> py_eq (JDict [(''a'', JInt 1)]) (JDict [(''a'', JBool False)])" by code_simp
  ultimately show ?thesis
    using diff_mapping_exact [of "[(''a'', JInt 1)]" "[(''a'', JBool False)]" default_types "''$''"] by auto
qed

text \<open>
  An edit of a workflow step is not seen. Two step lists with the same sequence of step keys have
  no changes, whatever the steps contain: only added, removed and reordered steps are reported.
\<close>

theorem workflow_step_edits_unseen:
  assumes "step_keys base_steps = step_keys cand_steps"
  shows "diff_workflow_steps base_steps cand_steps = Inr []"
  using assms by (rule diff_workflow_steps_same_keys)

theorem workflow_step_edits_unseen_witness:
  "diff_workflow_steps [JDict [(''id'', JStr ''pay''), (''required'', JBool True), (''agent'', JStr ''a'')]]
     [JDict [(''id'', JStr ''pay''), (''agent'', JStr ''b'')]] = Inr []"
  by (rule workflow_step_edits_unseen) code_simp

lemma rmap_make_class:
  assumes "classify ct d = Inr (cl, sv)" "rmap (\<lambda>v. make_change ct p d (f v) (g v)) xs = Inr cs"
  shows "length cs = length xs \<and> (\<forall>c \<in> set cs. ch_class c = cl \<and> ch_type c = ct)"
  using assms(2) rmap_length [OF assms(2)]
  using assms(1) by (fastforce dest: rmap_mem make_change_fields)

lemma rmap_make_ok:
  "ct \<noteq> CT_CONSTRAINT_CHANGED \<Longrightarrow> \<exists>cs. rmap (\<lambda>v. make_change ct p d (f v) (g v)) xs = Inr cs"
  by (intro rmap_ok make_change_ok)

lemma classify_enum_input:
  "classify CT_ENUM_VALUE_ADDED DIR_INPUT = Inr (CL_COMPATIBLE, SV_INFO)"
  "classify CT_ENUM_VALUE_REMOVED DIR_INPUT = Inr (CL_BREAKING, SV_HIGH)"
  by (simp_all add: classify_def schema_rules_def)

lemma py_set_of_list:
  "list_all hashable vals \<Longrightarrow> vals \<noteq> [] \<Longrightarrow> py_set_of (JList vals) = Inr (dedup [] vals) \<and> dedup [] vals \<noteq> []"
  using dedup_covers [of "hd vals" vals "[]"] hashable_ok [of "hd vals"]
  by (cases vals) (auto simp: py_set_of_def py_or_def py_set_def py_in_def)

text \<open>
  An absent \<open>enum\<close> is treated as an empty one. Introducing an enumeration on an input, which
  forbids every other value, is reported as added values only, all \<open>COMPATIBLE\<close>; dropping it, which
  allows every value, is reported as removed values, all \<open>BREAKING\<close>.
\<close>

theorem enum_presence_misjudged:
  assumes "vals \<noteq> []" "list_all hashable vals"
  shows "(\<exists>cs. diff_enum JNull (JList vals) DIR_INPUT path = Inr cs \<and> cs \<noteq> []
      \<and> (\<forall>c \<in> set cs. ch_class c = CL_COMPATIBLE \<and> ch_type c = CT_ENUM_VALUE_ADDED))
    \<and> (\<exists>cs. diff_enum (JList vals) JNull DIR_INPUT path = Inr cs \<and> cs \<noteq> []
      \<and> (\<forall>c \<in> set cs. ch_class c = CL_BREAKING \<and> ch_type c = CT_ENUM_VALUE_REMOVED))"
proof -
  define s where "s = dedup [] vals"
  have s: "py_set_of (JList vals) = Inr s" "s \<noteq> []"
    using py_set_of_list assms unfolding s_def by blast+
  obtain x t where xt: "s = x # t" using s(2) by (cases s) auto
  have d: "set_diff s [] = s" "set_diff [] s = []" "\<not> set_equal s []" "\<not> set_equal [] s"
    by (simp_all add: set_diff_def set_equal_def set_le_def py_in_def xt)
  let ?xs = "sort_key py_str s"
  have ne: "length ?xs \<noteq> 0" using s(2) by simp
  obtain adds where adds: "rmap (\<lambda>v. make_change CT_ENUM_VALUE_ADDED path DIR_INPUT JNull v) ?xs = Inr adds"
    using rmap_make_ok [of CT_ENUM_VALUE_ADDED path DIR_INPUT "\<lambda>_. JNull" "\<lambda>v. v" ?xs] by auto
  obtain rems where rems: "rmap (\<lambda>v. make_change CT_ENUM_VALUE_REMOVED path DIR_INPUT v JNull) ?xs = Inr rems"
    using rmap_make_ok [of CT_ENUM_VALUE_REMOVED path DIR_INPUT "\<lambda>v. v" "\<lambda>_. JNull" ?xs] by auto
  have "diff_enum JNull (JList vals) DIR_INPUT path = Inr adds"
    by (simp add: diff_enum_def s d adds Let_def then_changes_def)
  moreover have "diff_enum (JList vals) JNull DIR_INPUT path = Inr rems"
    by (simp add: diff_enum_def s d rems Let_def then_changes_def)
  ultimately show ?thesis
    using rmap_make_class [OF classify_enum_input(1) adds] rmap_make_class [OF classify_enum_input(2) rems] ne
    by auto
qed

theorem enum_presence_misjudged_witness:
  "\<exists>cs. diff_enum JNull (JList [JStr ''eur'']) DIR_INPUT ''$'' = Inr cs \<and> cs \<noteq> []
     \<and> (\<forall>c \<in> set cs. ch_class c = CL_COMPATIBLE \<and> ch_type c = CT_ENUM_VALUE_ADDED)"
  using enum_presence_misjudged [of "[JStr ''eur'']" "''$''"] by simp

text \<open>
  A removed output field is judged by whether it was required, the wrong way round: an optional
  one is \<open>BREAKING\<close>, one every response had to contain only \<open>POTENTIALLY_BREAKING\<close>.
\<close>

theorem removed_output_property:
  assumes "map_of base_props name = Some old" "map_of cand_props name = None"
  shows "\<exists>c. diff_property rec (JDict base_props) (JDict cand_props) base_required cand_required
        DIR_OUTPUT path (JStr name) = Inr [c]
    \<and> ch_class c = (if JStr name \<in> set base_required then CL_POTENTIALLY_BREAKING else CL_BREAKING)"
proof -
  let ?ct = "if JStr name \<in> set base_required then CT_REQUIRED_FIELD_REMOVED else CT_FIELD_REMOVED"
  have "?ct \<noteq> CT_CONSTRAINT_CHANGED" by simp
  then obtain c where c: "make_change ?ct (prop_path path (JStr name)) DIR_OUTPUT old JNull = Inr c"
    using make_change_ok by blast
  have "classify CT_REQUIRED_FIELD_REMOVED DIR_OUTPUT = Inr (CL_POTENTIALLY_BREAKING, SV_MEDIUM)"
    "classify CT_FIELD_REMOVED DIR_OUTPUT = Inr (CL_BREAKING, SV_HIGH)"
    by (simp_all add: classify_def schema_rules_def)
  then have "ch_class c = (if JStr name \<in> set base_required then CL_POTENTIALLY_BREAKING else CL_BREAKING)"
    using make_change_fields [OF c] by (auto split: if_splits)
  moreover have "diff_property rec (JDict base_props) (JDict cand_props) base_required cand_required
      DIR_OUTPUT path (JStr name) = Inr [c]"
    using c assms by (simp add: diff_property_dict one_change_def split: if_splits)
  ultimately show ?thesis by blast
qed

theorem removed_output_property_witness:
  "\<exists>c. diff_property (\<lambda>_ _ _. Inr []) (JDict [(''total'', JDict [])]) (JDict []) [JStr ''total''] [] DIR_OUTPUT ''$''
        (JStr ''total'') = Inr [c] \<and> ch_class c = CL_POTENTIALLY_BREAKING"
  using removed_output_property [of "[(''total'', JDict [])]" "''total''" "JDict []" "[]" "\<lambda>_ _ _. Inr []" "[JStr ''total'']" "[]" "''$''"]
  by simp

text \<open>
  A lower bound counts as tightened exactly when it grew, for integers a double holds exactly
  (below \<open>2^53\<close> in absolute value); from there on the narrowing to \<open>float\<close> makes the engine miss a
  tightening, so that \<open>2^53\<close> to \<open>2^53 + 1\<close> is judged a loosening.
\<close>

theorem minimum_tightened_iff:
  "(\<bar>i\<bar> < 2 ^ 53 \<and> \<bar>j\<bar> < 2 ^ 53 \<longrightarrow>
     constraint_tightened ''minimum'' (JInt i) (JInt j) = Inr (Some (j > i)))
   \<and> constraint_tightened ''minimum'' (JInt 9007199254740992) (JInt 9007199254740993) = Inr (Some False)"
proof
  show "\<bar>i\<bar> < 2 ^ 53 \<and> \<bar>j\<bar> < 2 ^ 53 \<longrightarrow>
     constraint_tightened ''minimum'' (JInt i) (JInt j) = Inr (Some (j > i))"
    by (auto simp: constraint_tightened_def tightens_when_larger_def as_numeric_pair_def as_float_def
        float_of_int_exact)
  show "constraint_tightened ''minimum'' (JInt 9007199254740992) (JInt 9007199254740993) = Inr (Some False)"
    by (simp add: constraint_tightened_def tightens_when_larger_def as_numeric_pair_def as_float_def
        float_of_int_inexact)
qed

theorem minimum_tightened_iff_witness:
  "constraint_tightened ''minimum'' (JInt 3) (JInt 4) = Inr (Some True)"
  using minimum_tightened_iff [of 3 4] by simp

end
