(* ===== verification/Redaction.thy ===== *)
theory Redaction
  imports Py_Text
begin

text \<open>
  \<open>app/trajectory/redaction.py\<close>: the redaction every recorded payload and every differential
  evidence value goes through before it is stored. Proved here: no sensitive key keeps its value at
  any depth, a payload without sensitive keys is unchanged, redaction is idempotent, and two
  payloads that differ only under sensitive keys are stored as the same value.
\<close>

section \<open>The code\<close>

definition redacted_placeholder :: string where
  "redacted_placeholder = ''***REDACTED***''"

definition default_sensitive_keys :: "string list" where
  "default_sensitive_keys =
     [''password'', ''secret'', ''token'', ''api_key'', ''apikey'', ''authorization'',
      ''access_token'', ''refresh_token'', ''client_secret'', ''jwt_secret'', ''webhook_secret'']"

definition is_sensitive :: "string \<Rightarrow> string list \<Rightarrow> bool" where
  "is_sensitive key sensitive_keys \<longleftrightarrow>
     replace_char (CHR ''-'') (CHR ''_'') (lower (strip key)) \<in> set sensitive_keys"

text \<open>\<open>sanitize\<close>; a JSON payload has no tuples, whose branch is the one of lists.\<close>

fun sanitize :: "string list \<Rightarrow> json \<Rightarrow> json" where
  "sanitize keys (JDict kvs) =
     JDict (map (\<lambda>(k, v). (k, if is_sensitive k keys then JStr redacted_placeholder
                              else sanitize keys v)) kvs)"
| "sanitize keys (JList xs) = JList (map (sanitize keys) xs)"
| "sanitize keys JNull = JNull"
| "sanitize keys (JBool b) = JBool b"
| "sanitize keys (JInt i) = JInt i"
| "sanitize keys (JFloat q) = JFloat q"
| "sanitize keys (JStr s) = JStr s"

section \<open>What redaction guarantees\<close>

text \<open>No dict at any depth binds a sensitive key to anything but the placeholder.\<close>

fun no_secrets :: "string list \<Rightarrow> json \<Rightarrow> bool" where
  "no_secrets keys (JDict kvs) =
     list_all (\<lambda>(k, v). if is_sensitive k keys then v = JStr redacted_placeholder
                        else no_secrets keys v) kvs"
| "no_secrets keys (JList xs) = list_all (no_secrets keys) xs"
| "no_secrets keys _ = True"

lemma no_secrets_sanitize: "no_secrets keys (sanitize keys v)"
  by (induction keys v rule: sanitize.induct) (auto simp: list_all_iff)

lemma sanitize_id: "no_secrets keys v \<Longrightarrow> sanitize keys v = v"
proof (induction keys v rule: sanitize.induct)
  case (1 keys kvs)
  have "(case p of (k, v) \<Rightarrow> (k, if is_sensitive k keys then JStr redacted_placeholder
            else sanitize keys v)) = p" if "p \<in> set kvs" for p
    using that "1.prems" "1.IH" [OF that] by (cases p) (auto simp: list_all_iff split: if_splits)
  then show ?case by (simp add: map_idI)
next
  case (2 keys xs)
  then show ?case by (simp add: list_all_iff map_idI)
qed simp_all

lemma sanitize_idem [simp]: "sanitize keys (sanitize keys v) = sanitize keys v"
  by (rule sanitize_id [OF no_secrets_sanitize])

lemma sanitize_keys: "map fst (map (\<lambda>(k, v). (k, f k v)) kvs) = map fst kvs"
  by (induction kvs) auto

lemma json_ok_sanitize: "json_ok v \<Longrightarrow> json_ok (sanitize keys v)"
  by (induction keys v rule: sanitize.induct)
    (auto simp: list_all_iff comp_def case_prod_unfold split: if_splits)

text \<open>
  \<open>same_public keys v w\<close>: the two values have the same shape and the same data, except that what
  is bound to a sensitive key may be anything.
\<close>

inductive same_public :: "string list \<Rightarrow> json \<Rightarrow> json \<Rightarrow> bool" for keys where
  same_public_null: "same_public keys JNull JNull"
| same_public_bool: "same_public keys (JBool b) (JBool b)"
| same_public_int: "same_public keys (JInt i) (JInt i)"
| same_public_float: "same_public keys (JFloat q) (JFloat q)"
| same_public_str: "same_public keys (JStr s) (JStr s)"
| same_public_list: "list_all2 (same_public keys) xs ys \<Longrightarrow> same_public keys (JList xs) (JList ys)"
| same_public_dict:
    "list_all2 (\<lambda>p q. fst p = fst q \<and> (is_sensitive (fst p) keys \<or> same_public keys (snd p) (snd q)))
       kvs lvs \<Longrightarrow> same_public keys (JDict kvs) (JDict lvs)"

lemma same_public_sanitize: "same_public keys v w \<Longrightarrow> sanitize keys v = sanitize keys w"
proof (induction rule: same_public.induct)
  case (same_public_list xs ys)
  then show ?case by (simp add: map_eq_map_conv) (auto elim: list_all2_mono)
next
  case (same_public_dict kvs lvs)
  then show ?case
    by (simp add: map_eq_map_conv case_prod_unfold) (auto elim!: list_all2_mono)
qed simp_all

lemma sanitize_same_public: "sanitize keys v = sanitize keys w \<Longrightarrow> same_public keys v w"
proof (induction keys v arbitrary: w rule: sanitize.induct)
  case (1 keys kvs)
  obtain lvs where w: "w = JDict lvs" using "1.prems" by (cases w) auto
  have "list_all2 (\<lambda>p q. fst p = fst q \<and> (is_sensitive (fst p) keys \<or> same_public keys (snd p) (snd q)))
          kvs lvs"
    using "1.prems" [unfolded w] "1.IH"
    by (simp add: map_eq_map_conv case_prod_unfold) (fastforce elim: list.rel_mono_strong split: if_splits)
  then show ?case unfolding w by (rule same_public_dict)
next
  case (2 keys xs)
  obtain ys where w: "w = JList ys" using "2.prems" by (cases w) auto
  have "list_all2 (same_public keys) xs ys"
    using "2.prems" [unfolded w] "2.IH"
    by (simp add: map_eq_map_conv) (auto elim: list.rel_mono_strong)
  then show ?case unfolding w by (rule same_public_list)
qed (case_tac w; simp add: same_public.intros)+

lemma sanitize_eq_iff: "sanitize keys v = sanitize keys w \<longleftrightarrow> same_public keys v w"
  using same_public_sanitize sanitize_same_public by blast

end
