(* ===== verification/Diff_Models.thy ===== *)
theory Diff_Models
  imports Redaction Py_Equality
begin

text \<open>
  The data of the differential analyzer (\<open>app/differential/models.py\<close>) and the recursive value
  comparison (\<open>app/differential/value_diff.py\<close>). Proved here: a comparison reports nothing on a
  value and itself, reports something whenever the values differ under \<open>==\<close> (within the depth
  bound), and never reports a value that holds a secret at a deeper level.
\<close>

section \<open>Data\<close>

datatype difference_type =
    DT_STEP_ADDED | DT_STEP_REMOVED | DT_STEP_STATUS_CHANGED | DT_TOOL_CHANGED
  | DT_INPUT_CHANGED | DT_OUTPUT_CHANGED | DT_ERROR_INTRODUCED | DT_ERROR_RESOLVED
  | DT_ERROR_CHANGED | DT_PROVIDER_INVOCATION_CHANGED | DT_SCHEMA_CHANGED | DT_VALUE_CHANGED
  | DT_LATENCY_CHANGED

datatype alignment_method = AM_SOURCE_EVENT_ID | AM_SEQUENCE_NUMBER | AM_COMPONENT_IDENTITY | AM_UNMATCHED

record replay_step_view =
  rs_id :: uuid
  rs_sequence_number :: int
  rs_source_event_id :: uuid
  rs_kind :: string
  rs_status :: string
  rs_component_id :: "uuid option"
  rs_component_version_id :: "uuid option"
  rs_input :: json
  rs_output :: json
  rs_error :: json
  rs_duration_ms :: "int option"

record field_difference =
  fd_type :: difference_type
  fd_path :: string
  fd_old :: json
  fd_new :: json
  fd_redacted :: bool
  fd_evidence :: json_dict

record error_difference =
  ed_type :: difference_type
  ed_baseline_present :: bool
  ed_candidate_present :: bool
  ed_baseline_category :: "string option"
  ed_candidate_category :: "string option"

text \<open>A percentage is a double, here the rational it denotes.\<close>

record latency_difference =
  ld_baseline_ms :: int
  ld_candidate_ms :: int
  ld_delta_ms :: int
  ld_percent :: "rat option"

record step_difference =
  sd_method :: alignment_method
  sd_types :: "difference_type list"
  sd_sequence_number :: "int option"
  sd_baseline :: "replay_step_view option"
  sd_candidate :: "replay_step_view option"
  sd_outputs :: "field_difference list"
  sd_error :: "error_difference option"
  sd_latency :: "latency_difference option"

record differential_summary =
  ds_total_baseline :: nat
  ds_total_candidate :: nat
  ds_matched :: nat
  ds_added :: nat
  ds_removed :: nat
  ds_changed :: nat
  ds_new_failures :: nat
  ds_resolved_failures :: nat
  ds_changed_outputs :: nat
  ds_schema_changes :: nat

record differential_report =
  dr_version :: string
  dr_steps :: "step_difference list"
  dr_summary :: differential_summary

definition total_differences :: "differential_report \<Rightarrow> nat" where
  "total_differences r = sum_list (map (\<lambda>sd. length (sd_types sd)) (dr_steps r))"

section \<open>Comparing values\<close>

definition value_max_depth :: nat where
  "value_max_depth = 64"

definition display :: "json \<Rightarrow> json" where
  "display v = sanitize default_sensitive_keys v"

definition sensitive :: "string \<Rightarrow> bool" where
  "sensitive key \<longleftrightarrow> replace_char (CHR ''-'') (CHR ''_'') (lower (strip key)) \<in> set default_sensitive_keys"

definition removed_field :: "string \<Rightarrow> json \<Rightarrow> field_difference" where
  "removed_field path v =
     \<lparr> fd_type = DT_SCHEMA_CHANGED, fd_path = path, fd_old = display v, fd_new = JNull,
       fd_redacted = False, fd_evidence = [(''reason'', JStr ''field_removed'')] \<rparr>"

definition added_field :: "string \<Rightarrow> json \<Rightarrow> field_difference" where
  "added_field path v =
     \<lparr> fd_type = DT_SCHEMA_CHANGED, fd_path = path, fd_old = JNull, fd_new = display v,
       fd_redacted = False, fd_evidence = [(''reason'', JStr ''field_added'')] \<rparr>"

definition field_path :: "string \<Rightarrow> string \<Rightarrow> string" where
  "field_path path key = path @ ''.'' @ key"

definition index_path :: "string \<Rightarrow> nat \<Rightarrow> string" where
  "index_path path i = path @ ''['' @ int_str (int i) @ '']''"

definition keys_only_in :: "json_dict \<Rightarrow> json_dict \<Rightarrow> string list" where
  "keys_only_in kvs lvs = sorted_set (filter (\<lambda>k. k \<notin> set (dkeys lvs)) (dkeys kvs))"

definition keys_in_both :: "json_dict \<Rightarrow> json_dict \<Rightarrow> string list" where
  "keys_in_both kvs lvs = sorted_set (filter (\<lambda>k. k \<in> set (dkeys lvs)) (dkeys kvs))"

text \<open>\<open>rec\<close> is \<open>diff_values(_, _, path=_, _depth=depth + 1)\<close>.\<close>

definition diff_dict ::
  "(json \<Rightarrow> json \<Rightarrow> string \<Rightarrow> field_difference list) \<Rightarrow> json_dict \<Rightarrow> json_dict \<Rightarrow> string \<Rightarrow>
   field_difference list" where
  "diff_dict rec baseline candidate path =
     map (\<lambda>key. removed_field (field_path path key) (dget baseline key)) (keys_only_in baseline candidate)
     @ map (\<lambda>key. added_field (field_path path key) (dget candidate key)) (keys_only_in candidate baseline)
     @ concat (map (\<lambda>key.
         if sensitive key then
           (if \<not> py_eq (dget baseline key) (dget candidate key)
            then [\<lparr> fd_type = DT_VALUE_CHANGED, fd_path = field_path path key,
                    fd_old = JStr redacted_placeholder, fd_new = JStr redacted_placeholder,
                    fd_redacted = True, fd_evidence = [] \<rparr>]
            else [])
         else rec (dget baseline key) (dget candidate key) (field_path path key))
       (keys_in_both baseline candidate))"

definition diff_list ::
  "(json \<Rightarrow> json \<Rightarrow> string \<Rightarrow> field_difference list) \<Rightarrow> json list \<Rightarrow> json list \<Rightarrow> string \<Rightarrow>
   field_difference list" where
  "diff_list rec baseline candidate path =
     (let common = min (length baseline) (length candidate)
      in concat (map (\<lambda>i. rec (baseline ! i) (candidate ! i) (index_path path i)) [0..<common])
         @ map (\<lambda>i. removed_field (index_path path i) (baseline ! i)) [common..<length baseline]
         @ map (\<lambda>i. added_field (index_path path i) (candidate ! i)) [common..<length candidate])"

definition diff_scalars :: "json \<Rightarrow> json \<Rightarrow> string \<Rightarrow> field_difference list" where
  "diff_scalars baseline candidate path =
     (if \<not> same_type baseline candidate then
        [\<lparr> fd_type = DT_SCHEMA_CHANGED, fd_path = path, fd_old = display baseline,
           fd_new = display candidate, fd_redacted = False,
           fd_evidence = [(''reason'', JStr ''type_changed'')] \<rparr>]
      else if \<not> py_eq baseline candidate then
        [\<lparr> fd_type = DT_VALUE_CHANGED, fd_path = path, fd_old = display baseline,
           fd_new = display candidate, fd_redacted = False, fd_evidence = [] \<rparr>]
      else [])"

function diff_values :: "nat \<Rightarrow> json \<Rightarrow> json \<Rightarrow> string \<Rightarrow> field_difference list" where
  "diff_values depth baseline candidate path =
     (if depth > value_max_depth then []
      else
        (case (baseline, candidate) of
           (JDict b, JDict c) \<Rightarrow> diff_dict (diff_values (depth + 1)) b c path
         | (JList b, JList c) \<Rightarrow> diff_list (diff_values (depth + 1)) b c path
         | _ \<Rightarrow> diff_scalars baseline candidate path))"
  by pat_completeness auto
termination
  by (relation "measure (\<lambda>(d, b, c, p). Suc value_max_depth - d)") auto

declare diff_values.simps [simp del]

text \<open>The recursive call as a constant, for evaluation in the simplifier.\<close>

definition value_child :: "nat \<Rightarrow> json \<Rightarrow> json \<Rightarrow> string \<Rightarrow> field_difference list" where
  "value_child depth b c p = diff_values (depth + 1) b c p"

lemma diff_values_code [code]:
  "diff_values depth baseline candidate path =
     (if depth > value_max_depth then []
      else
        (case (baseline, candidate) of
           (JDict b, JDict c) \<Rightarrow> diff_dict (value_child depth) b c path
         | (JList b, JList c) \<Rightarrow> diff_list (value_child depth) b c path
         | _ \<Rightarrow> diff_scalars baseline candidate path))"
  by (subst diff_values.simps) (simp add: value_child_def [abs_def] split: json.split)

lemma diff_values_node:
  assumes "depth \<le> value_max_depth"
  shows "diff_values depth (JDict bs) (JDict cs) p = diff_dict (diff_values (depth + 1)) bs cs p"
    and "diff_values depth (JList xs) (JList ys) p = diff_list (diff_values (depth + 1)) xs ys p"
    and "\<not> (is_dict b \<and> is_dict c) \<Longrightarrow> \<not> (is_list b \<and> is_list c) \<Longrightarrow>
      diff_values depth b c p = diff_scalars b c p"
  using assms by (subst diff_values.simps; auto simp: is_dict_def is_list_def split: json.splits)+

section \<open>Lemmas\<close>

lemma sensitive_iff: "sensitive k \<longleftrightarrow> is_sensitive k default_sensitive_keys"
  by (simp add: sensitive_def is_sensitive_def)

text \<open>A value compared with one equal to it: only type changes can be reported.\<close>

definition type_change_only :: "field_difference list \<Rightarrow> bool" where
  "type_change_only ds \<longleftrightarrow>
     list_all (\<lambda>d. fd_type d = DT_SCHEMA_CHANGED \<and> fd_evidence d = [(''reason'', JStr ''type_changed'')]) ds"

lemma same_keys_only:
  "fst ` set kvs = fst ` set lvs \<Longrightarrow> keys_only_in kvs lvs = []"
  by (auto simp: keys_only_in_def filter_empty_conv)

lemma py_eq_dict_keys:
  "py_eq (JDict bs) (JDict cs) \<Longrightarrow> dict_ok bs \<Longrightarrow> dict_ok cs \<Longrightarrow> fst ` set bs = fst ` set cs"
  using py_eq_items_keys [of bs cs] by (auto simp: dict_ok_def)

lemma diff_values_equal:
  "py_eq b c \<Longrightarrow> json_ok b \<Longrightarrow> json_ok c \<Longrightarrow> type_change_only (diff_values n b c p)"
proof (induction "Suc value_max_depth - n" arbitrary: n b c p rule: less_induct)
  case less
  have IH: "type_change_only (diff_values (n + 1) b' c' q)"
    if "n \<le> value_max_depth" "py_eq b' c'" "json_ok b'" "json_ok c'" for b' c' q
    using less.hyps [of "n + 1" b' c' q] that by simp
  show ?case
  proof (cases "n \<le> value_max_depth")
    case n: True
    show ?thesis
    proof (cases b)
      case (JDict bs)
      then obtain cs where c: "c = JDict cs" using less.prems(1) by (auto elim: py_eq_JDictE)
      have ok: "dict_ok bs" "dict_ok cs" using less.prems by (simp_all add: JDict c dict_ok_def)
      have e: "py_eq (JDict bs) (JDict cs)" using less.prems(1) by (simp add: JDict c)
      have k: "fst ` set bs = fst ` set cs" by (rule py_eq_dict_keys [OF e ok])
      show ?thesis
        unfolding JDict c diff_values_node(1) [OF n] diff_dict_def same_keys_only [OF k]
          same_keys_only [OF k [symmetric]]
        using IH [OF n py_eq_dget [OF e ok]] json_ok_dget ok py_eq_dget [OF e ok]
        by (auto simp: type_change_only_def list_all_iff)
    next
      case (JList xs)
      then obtain ys where c: "c = JList ys" and a: "list_all2 py_eq xs ys"
        using less.prems(1) by (auto elim: py_eq_JListE)
      have l: "length xs = length ys" using a by (rule list_all2_lengthD)
      have "type_change_only (diff_values (n + 1) (xs ! i) (ys ! i) q)" if "i < length ys" for i q
        using that less.prems l a
        by (intro IH [OF n]) (auto simp: JList c list_all2_conv_all_nth list_all_length)
      then show ?thesis
        unfolding JList c diff_values_node(2) [OF n] diff_list_def Let_def l
        by (auto simp: type_change_only_def list_all_iff)
    qed (use less.prems(1) n in \<open>auto simp: diff_values_node is_dict_def is_list_def diff_scalars_def
           type_change_only_def\<close>)
  next
    case False
    then show ?thesis by (subst diff_values.simps) (simp add: type_change_only_def)
  qed
qed

text \<open>Nothing is missed: no difference means equal under \<open>==\<close>.\<close>

lemma diff_scalars_Nil: "diff_scalars b c p = [] \<Longrightarrow> py_eq b c"
  by (auto simp: diff_scalars_def split: if_splits)

lemma diff_values_complete:
  "diff_values n b c p = [] \<Longrightarrow> json_depth b + n \<le> value_max_depth \<Longrightarrow> json_ok b \<Longrightarrow> json_ok c \<Longrightarrow> py_eq b c"
proof (induction "json_depth b" arbitrary: n b c p rule: less_induct)
  case less
  have n: "n \<le> value_max_depth" using less.prems(2) by simp
  have IH: "py_eq b' c'"
    if "json_depth b' < json_depth b" "diff_values (n + 1) b' c' q = []" "json_ok b'" "json_ok c'" for b' c' q
    using less.hyps [OF that(1,2)] that less.prems(2) by simp
  consider bs cs where "b = JDict bs" "c = JDict cs" | xs ys where "b = JList xs" "c = JList ys"
    | "\<not> (is_dict b \<and> is_dict c)" "\<not> (is_list b \<and> is_list c)"
    by (auto simp: is_dict_iff is_list_iff)
  then show ?case
  proof cases
    case (1 bs cs)
    have ok: "dict_ok bs" "dict_ok cs" using less.prems by (simp_all add: 1 dict_ok_def)
    note d = less.prems(1) [unfolded 1 diff_values_node(1) [OF n] diff_dict_def]
    have none: "keys_only_in bs cs = []" "keys_only_in cs bs = []" using d by simp_all
    have rec: "sensitive k \<and> py_eq (dget bs k) (dget cs k) \<or>
        diff_values (n + 1) (dget bs k) (dget cs k) (field_path p k) = []"
      if "k \<in> set (keys_in_both bs cs)" for k
      using d [unfolded append_is_Nil_conv, THEN conjunct2, THEN conjunct2, THEN concat_map_Nil, OF that]
      by (simp split: if_splits)
    have "rel_option py_eq (map_of bs k) (map_of cs k)" for k
    proof (cases "map_of bs k")
      case None
      then have "map_of cs k = None"
        using none(2) by (auto simp: keys_only_in_def filter_empty_conv map_of_eq_None_iff)
      with None show ?thesis by simp
    next
      case (Some v)
      then have kb: "k \<in> fst ` set bs" by (metis map_of_eq_None_iff option.distinct(1))
      then have kc: "k \<in> fst ` set cs" using none(1) by (auto simp: keys_only_in_def filter_empty_conv)
      then obtain w where w: "map_of cs k = Some w" by (metis map_of_eq_None_iff not_None_eq)
      have "k \<in> set (keys_in_both bs cs)" using kb kc by (simp add: keys_in_both_def)
      from rec [OF this] have "py_eq v w"
        using IH [of v w] json_depth_lookup [OF Some] Some w ok
        by (auto simp: dget_def 1 dict_ok_lookup simp del: json_depth.simps)
      then show ?thesis by (simp add: Some w)
    qed
    then show ?thesis using py_eq_dictI ok by (simp add: 1 del: py_eq_simps)
  next
    case (2 xs ys)
    note d = less.prems(1) [unfolded 2 diff_values_node(2) [OF n] diff_list_def Let_def]
    have l: "length xs = length ys" using d by auto
    have "py_eq (xs ! i) (ys ! i)" if "i < length ys" for i
      using d that l less.prems json_depth_list [of "xs ! i" xs]
      by (intro IH) (auto simp: 2 list_all_length simp del: json_depth.simps)
    then show ?thesis using l by (simp add: 2 list_all2_conv_all_nth)
  next
    case 3
    then show ?thesis using less.prems(1) diff_values_node(3) [OF n 3] diff_scalars_Nil by simp
  qed
qed

text \<open>What is reported holds no secret below a sensitive key of its own.\<close>

definition reports_no_secret :: "field_difference \<Rightarrow> bool" where
  "reports_no_secret d \<longleftrightarrow>
     no_secrets default_sensitive_keys (fd_old d) \<and> no_secrets default_sensitive_keys (fd_new d)"

lemma reports_no_secret_simps [simp]:
  "reports_no_secret (removed_field p v)" "reports_no_secret (added_field p v)"
  by (simp_all add: reports_no_secret_def removed_field_def added_field_def display_def no_secrets_sanitize)

lemma diff_values_no_secret: "d \<in> set (diff_values n b c p) \<Longrightarrow> reports_no_secret d"
proof (induction "Suc value_max_depth - n" arbitrary: n b c p d rule: less_induct)
  case less
  show ?case
  proof (cases "n \<le> value_max_depth")
    case n: True
    then have IH: "d' \<in> set (diff_values (n + 1) b' c' q) \<Longrightarrow> reports_no_secret d'" for b' c' q d'
      using less.hyps [of "n + 1" d' b' c' q] by simp
    consider bs cs where "b = JDict bs" "c = JDict cs" | xs ys where "b = JList xs" "c = JList ys"
      | "\<not> (is_dict b \<and> is_dict c)" "\<not> (is_list b \<and> is_list c)"
      by (auto simp: is_dict_iff is_list_iff)
    then show ?thesis
    proof cases
      case (1 bs cs)
      then show ?thesis
        using less.prems IH
        by (auto simp: diff_values_node(1) [OF n] diff_dict_def reports_no_secret_def [of "\<lparr> fd_type = _, fd_path = _, fd_old = _, fd_new = _, fd_redacted = _, fd_evidence = _ \<rparr>"]
            simp del: One_nat_def split: if_splits)
    next
      case (2 xs ys)
      then show ?thesis
        using less.prems IH by (auto simp: diff_values_node(2) [OF n] diff_list_def Let_def simp del: One_nat_def)
    next
      case 3
      then show ?thesis
        using less.prems diff_values_node(3) [OF n 3]
        by (auto simp: diff_scalars_def reports_no_secret_def display_def no_secrets_sanitize split: if_splits)
    qed
  next
    case False
    then show ?thesis using less.prems by (subst (asm) diff_values.simps) simp
  qed
qed

text \<open>
  Keys that only one side has are displayed by their value alone: under a sensitive key of their
  own a text is reported as it is.
\<close>

lemma added_key_reported:
  assumes "n \<le> value_max_depth"
  shows "diff_values n (JDict []) (JDict [(k, v)]) p = [added_field (field_path p k) v]"
    and "diff_values n (JDict [(k, v)]) (JDict []) p = [removed_field (field_path p k) v]"
  using assms
  by (simp_all add: diff_values_node diff_dict_def keys_only_in_def keys_in_both_def dkeys_def
      sorted_set_def dget_def)

end
