(* ===== verification/Alignment.thy ===== *)
theory Alignment
  imports Diff_Models
begin

text \<open>
  \<open>app/differential/alignment.py\<close>: the four-pass alignment of two runs' steps. Proved here: every step
  of either run occurs in exactly one pair, a matched pair agrees on what its method says, the pairs
  come in the documented order, and two runs of the same trajectory align perfectly.
\<close>

section \<open>Pairs\<close>

record step_pair =
  sp_method :: alignment_method
  sp_baseline :: "replay_step_view option"
  sp_candidate :: "replay_step_view option"

text \<open>\<open>StepPair.sort_key\<close>; a pair without both steps is never made (an assertion of the code).\<close>

definition pair_sort_key :: "step_pair \<Rightarrow> nat \<times> int" where
  "pair_sort_key p =
     (case sp_baseline p of
        Some b \<Rightarrow> (0, rs_sequence_number b)
      | None \<Rightarrow> (case sp_candidate p of Some c \<Rightarrow> (1, rs_sequence_number c) | None \<Rightarrow> (1, 0)))"

text \<open>\<open>{step.id: step for step in steps}\<close> and \<open>del remaining[id]\<close>.\<close>

type_synonym step_dict = "(uuid \<times> replay_step_view) list"

definition steps_by_id :: "replay_step_view list \<Rightarrow> step_dict" where
  "steps_by_id steps = foldl (\<lambda>d s. dput (rs_id s) s d) [] steps"

definition dict_del :: "uuid \<Rightarrow> step_dict \<Rightarrow> step_dict" where
  "dict_del i d = filter (\<lambda>(k, s). k \<noteq> i) d"

text \<open>\<open>_index\<close>: the first step of each key.\<close>

definition index_steps :: "(replay_step_view \<Rightarrow> 'k) \<Rightarrow> replay_step_view list \<Rightarrow> ('k \<times> replay_step_view) list" where
  "index_steps key steps =
     foldl (\<lambda>d s. if key s \<in> fst ` set d then d else d @ [(key s, s)]) [] steps"

text \<open>\<open>_group_by_component\<close>: the steps of each component, in ascending sequence order.\<close>

definition group_by_component :: "replay_step_view list \<Rightarrow> (uuid \<times> replay_step_view list) list" where
  "group_by_component steps =
     foldl (\<lambda>d s. case rs_component_id s of
              None \<Rightarrow> d
            | Some c \<Rightarrow> dput c ((case map_of d c of Some ss \<Rightarrow> ss | None \<Rightarrow> []) @ [s]) d)
       [] (sort_key rs_sequence_number steps)"

section \<open>Passes\<close>

type_synonym align_state = "step_pair list \<times> step_dict \<times> step_dict"

text \<open>The body of the three matching loops: append the pair and remove both steps.\<close>

definition take_pair ::
  "alignment_method \<Rightarrow> align_state \<Rightarrow> replay_step_view \<times> replay_step_view \<Rightarrow> align_state" where
  "take_pair method st bc =
     (case (st, bc) of ((pairs, rb, rc), (b, c)) \<Rightarrow>
        (pairs @ [\<lparr> sp_method = method, sp_baseline = Some b, sp_candidate = Some c \<rparr>],
         dict_del (rs_id b) rb, dict_del (rs_id c) rc))"

text \<open>The couples of a pass by key: the common keys in ascending order.\<close>

definition keyed_couples ::
  "(replay_step_view \<Rightarrow> 'k::linorder) \<Rightarrow> step_dict \<Rightarrow> step_dict \<Rightarrow> (replay_step_view \<times> replay_step_view) list" where
  "keyed_couples key rb rc =
     (let by_b = index_steps key (map snd rb); by_c = index_steps key (map snd rc)
      in map (\<lambda>k. (the (map_of by_b k), the (map_of by_c k)))
           (sort (filter (\<lambda>k. k \<in> fst ` set by_c) (map fst by_b))))"

definition component_couples :: "step_dict \<Rightarrow> step_dict \<Rightarrow> (replay_step_view \<times> replay_step_view) list" where
  "component_couples rb rc =
     (let by_b = group_by_component (map snd rb); by_c = group_by_component (map snd rc)
      in concat (map (\<lambda>k. zip (the (map_of by_b k)) (the (map_of by_c k)))
           (sort (filter (\<lambda>k. k \<in> fst ` set by_c) (map fst by_b)))))"

definition match_pass ::
  "alignment_method \<Rightarrow> (step_dict \<Rightarrow> step_dict \<Rightarrow> (replay_step_view \<times> replay_step_view) list) \<Rightarrow>
   align_state \<Rightarrow> align_state" where
  "match_pass method couples st =
     (case st of (pairs, rb, rc) \<Rightarrow> foldl (take_pair method) st (couples rb rc))"

definition align_steps :: "replay_step_view list \<Rightarrow> replay_step_view list \<Rightarrow> step_pair list" where
  "align_steps baseline candidate =
     (let st0 = ([], steps_by_id baseline, steps_by_id candidate);
          st1 = match_pass AM_SOURCE_EVENT_ID (keyed_couples rs_source_event_id) st0;
          st2 = match_pass AM_SEQUENCE_NUMBER (keyed_couples rs_sequence_number) st1;
          (pairs, rb, rc) = match_pass AM_COMPONENT_IDENTITY component_couples st2
      in sort_key pair_sort_key
           (pairs
            @ map (\<lambda>(k, s). \<lparr> sp_method = AM_UNMATCHED, sp_baseline = Some s, sp_candidate = None \<rparr>) rb
            @ map (\<lambda>(k, s). \<lparr> sp_method = AM_UNMATCHED, sp_baseline = None, sp_candidate = Some s \<rparr>) rc))"

section \<open>Dicts of steps\<close>

text \<open>\<open>keyed d\<close>: every step is stored under its own id, and no id twice.\<close>

definition keyed :: "step_dict \<Rightarrow> bool" where
  "keyed d \<longleftrightarrow> distinct (map fst d) \<and> (\<forall>p \<in> set d. fst p = rs_id (snd p))"

lemma set_dput: "p \<in> set (dput k v d) \<Longrightarrow> p = (k, v) \<or> p \<in> set d"
  by (induction d) (auto split: if_splits)

lemma keyed_dput: "keyed d \<Longrightarrow> keyed (dput (rs_id s) s d)"
  by (auto simp: keyed_def distinct_dput dest!: set_dput)

lemma keyed_steps_by_id: "keyed (steps_by_id steps)"
proof -
  have "keyed (foldl (\<lambda>d s. dput (rs_id s) s d) d0 steps)" if "keyed d0" for d0
    using that by (induction steps arbitrary: d0) (auto simp: keyed_dput)
  from this [of "[]"] show ?thesis by (simp add: steps_by_id_def keyed_def)
qed

lemma dput_new: "k \<notin> fst ` set d \<Longrightarrow> dput k v d = d @ [(k, v)]"
  by (induction d) (auto simp: image_iff)

lemma steps_by_id_distinct:
  assumes "distinct (map rs_id steps)"
  shows "map snd (steps_by_id steps) = steps"
proof -
  have "foldl (\<lambda>d s. dput (rs_id s) s d) d0 steps = d0 @ map (\<lambda>s. (rs_id s, s)) steps"
    if "fst ` set d0 \<inter> rs_id ` set steps = {}" for d0
    using that assms
  proof (induction steps arbitrary: d0)
    case (Cons s steps)
    then show ?case using Cons.IH [of "d0 @ [(rs_id s, s)]"] by (auto simp: dput_new)
  qed simp
  then show ?thesis by (simp add: steps_by_id_def comp_def)
qed

lemma keyed_del: "keyed d \<Longrightarrow> keyed (dict_del i d)"
  by (auto simp: keyed_def dict_del_def distinct_map_filter)

lemma keyed_ids: "keyed d \<Longrightarrow> map fst d = map rs_id (map snd d)"
  by (simp add: keyed_def)

lemma keyed_steps_distinct: "keyed d \<Longrightarrow> distinct (map snd d)"
  using keyed_ids [of d] by (metis distinct_map keyed_def)

lemma mset_del:
  assumes "keyed d" "s \<in> snd ` set d"
  shows "mset (map snd d) = add_mset s (mset (map snd (dict_del (rs_id s) d)))"
  using assms
proof (induction d)
  case (Cons p d)
  have d: "keyed d" "fst p = rs_id (snd p)" "fst p \<notin> fst ` set d"
    using Cons.prems(1) unfolding keyed_def list.map distinct.simps list.set set_map by blast+
  show ?case
  proof (cases "s = snd p")
    case True
    have "dict_del (fst p) d = d"
      unfolding dict_del_def case_prod_unfold by (rule filter_True) (use d(3) in \<open>metis imageI\<close>)
    then show ?thesis using True d(2) by (simp add: dict_del_def case_prod_unfold)
  next
    case False
    then obtain q where q: "q \<in> set d" "snd q = s" using Cons.prems(2) by auto
    then have "rs_id s \<noteq> fst p" using d by (metis imageI keyed_def)
    moreover have "s \<in> snd ` set d" using q by auto
    ultimately show ?thesis
      using Cons.IH [OF d(1)] by (auto simp: dict_del_def case_prod_unfold)
  qed
qed simp

lemma set_del: "keyed d \<Longrightarrow> s \<in> snd ` set d \<Longrightarrow> snd ` set (dict_del (rs_id s) d) = snd ` set d - {s}"
proof -
  assume a: "keyed d" "s \<in> snd ` set d"
  have "set_mset (mset (map snd d)) = insert s (snd ` set (dict_del (rs_id s) d))"
    unfolding mset_del [OF a] by simp
  moreover have "s \<notin> snd ` set (dict_del (rs_id s) d)"
    using a(1) by (force simp: dict_del_def keyed_def)
  ultimately show ?thesis by auto
qed

section \<open>What a pass does\<close>

definition baselines :: "step_pair list \<Rightarrow> replay_step_view list" where
  "baselines ps = List.map_filter sp_baseline ps"

definition candidates :: "step_pair list \<Rightarrow> replay_step_view list" where
  "candidates ps = List.map_filter sp_candidate ps"

lemma sides_append [simp]:
  "baselines (ps @ qs) = baselines ps @ baselines qs"
  "candidates (ps @ qs) = candidates ps @ candidates qs"
  by (simp_all add: baselines_def candidates_def map_filter_def)

lemma sides_simps [simp]:
  "baselines [] = []" "candidates [] = []"
  "baselines (p # ps) = (case sp_baseline p of None \<Rightarrow> baselines ps | Some b \<Rightarrow> b # baselines ps)"
  "candidates (p # ps) = (case sp_candidate p of None \<Rightarrow> candidates ps | Some c \<Rightarrow> c # candidates ps)"
  by (simp_all add: baselines_def candidates_def map_filter_simps split: option.split)

text \<open>
  The state of the alignment: every step is either in a pair or still remaining, and every pair
  satisfies \<open>P\<close>.
\<close>

definition align_inv ::
  "(step_pair \<Rightarrow> bool) \<Rightarrow> replay_step_view multiset \<Rightarrow> replay_step_view multiset \<Rightarrow> align_state \<Rightarrow> bool" where
  "align_inv P B C st \<longleftrightarrow>
     (case st of (pairs, rb, rc) \<Rightarrow>
        keyed rb \<and> keyed rc \<and> list_all P pairs
        \<and> mset (baselines pairs) + mset (map snd rb) = B
        \<and> mset (candidates pairs) + mset (map snd rc) = C)"

lemma take_pair_simp [simp]:
  "take_pair m (pairs, rb, rc) (b, c) =
     (pairs @ [\<lparr> sp_method = m, sp_baseline = Some b, sp_candidate = Some c \<rparr>],
      dict_del (rs_id b) rb, dict_del (rs_id c) rc)"
  by (simp add: take_pair_def)

lemma align_inv_take:
  assumes "align_inv P B C (pairs, rb, rc)" "b \<in> snd ` set rb" "c \<in> snd ` set rc"
    and "P \<lparr> sp_method = m, sp_baseline = Some b, sp_candidate = Some c \<rparr>"
  shows "align_inv P B C (take_pair m (pairs, rb, rc) (b, c))"
  using assms mset_del [of rb b] mset_del [of rc c]
  by (auto simp: align_inv_def keyed_del)

lemma align_inv_fold:
  assumes "align_inv P B C (pairs, rb, rc)"
    and "distinct (map fst bcs)" "distinct (map snd bcs)"
    and "set (map fst bcs) \<subseteq> snd ` set rb" "set (map snd bcs) \<subseteq> snd ` set rc"
    and "\<And>b c. (b, c) \<in> set bcs \<Longrightarrow> P \<lparr> sp_method = m, sp_baseline = Some b, sp_candidate = Some c \<rparr>"
  shows "align_inv P B C (foldl (take_pair m) (pairs, rb, rc) bcs)"
  using assms
proof (induction bcs arbitrary: pairs rb rc)
  case (Cons bc bcs)
  obtain b c where bc: "bc = (b, c)" by (cases bc)
  have k: "keyed rb" "keyed rc" using Cons.prems(1) by (auto simp: align_inv_def)
  have mem: "b \<in> snd ` set rb" "c \<in> snd ` set rc" using Cons.prems(4,5) by (auto simp: bc)
  have inv: "align_inv P B C (take_pair m (pairs, rb, rc) (b, c))"
    using Cons.prems(6) by (intro align_inv_take [OF Cons.prems(1) mem]) (simp add: bc)
  have "align_inv P B C (foldl (take_pair m)
      (pairs @ [\<lparr> sp_method = m, sp_baseline = Some b, sp_candidate = Some c \<rparr>],
       dict_del (rs_id b) rb, dict_del (rs_id c) rc) bcs)"
  proof (rule Cons.IH)
    show "set (map fst bcs) \<subseteq> snd ` set (dict_del (rs_id b) rb)"
      using Cons.prems(2,4) unfolding set_del [OF k(1) mem(1)] by (force simp: bc)
    show "set (map snd bcs) \<subseteq> snd ` set (dict_del (rs_id c) rc)"
      using Cons.prems(3,5) unfolding set_del [OF k(2) mem(2)] by (force simp: bc)
  qed (use inv Cons.prems in \<open>auto simp: bc\<close>)
  then show ?case by (simp add: bc)
qed simp

text \<open>The index of a list of steps: each entry is a step of the list under its own key, no key twice.\<close>

lemma index_steps_facts:
  "distinct (map fst (index_steps key steps))
   \<and> (\<forall>p \<in> set (index_steps key steps). snd p \<in> set steps \<and> fst p = key (snd p))
   \<and> fst ` set (index_steps key steps) = key ` set steps"
proof (induction steps rule: rev_induct)
  case (snoc s steps)
  then show ?case by (auto simp: index_steps_def image_iff)
qed (simp add: index_steps_def)

lemma index_steps_lookup:
  assumes "k \<in> fst ` set (index_steps key steps)"
  shows "the (map_of (index_steps key steps) k) \<in> set steps \<and> key (the (map_of (index_steps key steps) k)) = k"
proof -
  obtain s where "map_of (index_steps key steps) k = Some s"
    using assms by (metis map_of_eq_None_iff not_None_eq)
  then show ?thesis using index_steps_facts [of key steps] map_of_SomeD by fastforce
qed

lemma keyed_couples_facts:
  shows "distinct (map fst (keyed_couples key rb rc))" and "distinct (map snd (keyed_couples key rb rc))"
    and "set (map fst (keyed_couples key rb rc)) \<subseteq> snd ` set rb"
    and "set (map snd (keyed_couples key rb rc)) \<subseteq> snd ` set rc"
    and "(b, c) \<in> set (keyed_couples key rb rc) \<Longrightarrow> key b = key c"
    and "key ` fst ` set (keyed_couples key rb rc) = key ` snd ` set rb \<inter> key ` snd ` set rc"
proof -
  define by_b where "by_b = index_steps key (map snd rb)"
  define by_c where "by_c = index_steps key (map snd rc)"
  define ks where "ks = sort (filter (\<lambda>k. k \<in> fst ` set by_c) (map fst by_b))"
  have bcs: "keyed_couples key rb rc = map (\<lambda>k. (the (map_of by_b k), the (map_of by_c k))) ks"
    by (simp add: keyed_couples_def by_b_def by_c_def ks_def Let_def)
  have ks: "distinct ks" "set ks = fst ` set by_b \<inter> fst ` set by_c"
    using index_steps_facts [of key "map snd rb"] by (auto simp: ks_def by_b_def distinct_map_filter)
  have lb: "the (map_of by_b k) \<in> snd ` set rb \<and> key (the (map_of by_b k)) = k" if "k \<in> set ks" for k
    using that index_steps_lookup [of k key "map snd rb"] unfolding ks(2) by_b_def by auto
  have lc: "the (map_of by_c k) \<in> snd ` set rc \<and> key (the (map_of by_c k)) = k" if "k \<in> set ks" for k
    using that index_steps_lookup [of k key "map snd rc"] unfolding ks(2) by_c_def by auto
  have "inj_on (\<lambda>k. the (map_of by_b k)) (set ks)" "inj_on (\<lambda>k. the (map_of by_c k)) (set ks)"
    using lb lc by (auto intro!: inj_onI) metis+
  then show "distinct (map fst (keyed_couples key rb rc))" "distinct (map snd (keyed_couples key rb rc))"
    using ks(1) by (simp_all add: bcs comp_def distinct_map)
  show "set (map fst (keyed_couples key rb rc)) \<subseteq> snd ` set rb"
    "set (map snd (keyed_couples key rb rc)) \<subseteq> snd ` set rc"
    using lb lc by (auto simp: bcs)
  show "(b, c) \<in> set (keyed_couples key rb rc) \<Longrightarrow> key b = key c"
    using lb lc by (auto simp: bcs)
  have "key ` fst ` set (keyed_couples key rb rc) = (\<lambda>k. key (the (map_of by_b k))) ` set ks"
    by (simp add: bcs image_image)
  also have "\<dots> = set ks" using lb by simp
  also have "\<dots> = key ` snd ` set rb \<inter> key ` snd ` set rc"
  proof -
    have "fst ` set by_b = key ` snd ` set rb" "fst ` set by_c = key ` snd ` set rc"
      using index_steps_facts [of key "map snd rb", THEN conjunct2, THEN conjunct2]
        index_steps_facts [of key "map snd rc", THEN conjunct2, THEN conjunct2]
      unfolding by_b_def by_c_def set_map .
    then show ?thesis by (simp only: ks(2))
  qed
  finally show "key ` fst ` set (keyed_couples key rb rc) = key ` snd ` set rb \<inter> key ` snd ` set rc" .
qed

lemma align_inv_pass:
  assumes inv: "align_inv P B C (pairs, rb, rc)"
    and c: "distinct (map fst (couples rb rc))" "distinct (map snd (couples rb rc))"
      "set (map fst (couples rb rc)) \<subseteq> snd ` set rb" "set (map snd (couples rb rc)) \<subseteq> snd ` set rc"
      "\<And>b c. (b, c) \<in> set (couples rb rc) \<Longrightarrow> P \<lparr> sp_method = m, sp_baseline = Some b, sp_candidate = Some c \<rparr>"
  shows "align_inv P B C (match_pass m couples (pairs, rb, rc))"
  unfolding match_pass_def prod.case by (rule align_inv_fold [OF inv c])

section \<open>Grouping by component\<close>

lemma group_by_component_facts:
  "distinct (map fst (group_by_component steps))
   \<and> (\<forall>p \<in> set (group_by_component steps). set (snd p) \<subseteq> set steps
        \<and> (\<forall>s \<in> set (snd p). rs_component_id s = Some (fst p)))
   \<and> (distinct steps \<longrightarrow> (\<forall>p \<in> set (group_by_component steps). distinct (snd p)))"
proof -
  let ?f = "\<lambda>d s. case rs_component_id s of None \<Rightarrow> d
     | Some c \<Rightarrow> dput c ((case map_of d c of Some ss \<Rightarrow> ss | None \<Rightarrow> []) @ [s]) d"
  have "distinct (map fst (foldl ?f [] xs))
     \<and> (\<forall>p \<in> set (foldl ?f [] xs). set (snd p) \<subseteq> set xs \<and> (\<forall>s \<in> set (snd p). rs_component_id s = Some (fst p)))
     \<and> (distinct xs \<longrightarrow> (\<forall>p \<in> set (foldl ?f [] xs). distinct (snd p)))" for xs
  proof (induction xs rule: rev_induct)
    case (snoc x xs)
    show ?case
    proof (cases "rs_component_id x")
      case None
      then show ?thesis using snoc.IH by auto
    next
      case (Some c)
      define d where "d = foldl ?f [] xs"
      define ss where "ss = (case map_of d c of Some ss \<Rightarrow> ss | None \<Rightarrow> [])"
      have ss: "set ss \<subseteq> set xs \<and> (\<forall>s \<in> set ss. rs_component_id s = Some c) \<and> (distinct xs \<longrightarrow> distinct ss)"
        using snoc.IH unfolding ss_def d_def [symmetric]
        by (auto split: option.splits dest!: map_of_SomeD) fastforce+
      have "foldl ?f [] (xs @ [x]) = dput c (ss @ [x]) d" by (simp add: Some ss_def d_def)
      then show ?thesis
        using snoc.IH ss Some unfolding d_def [symmetric]
        by (auto simp: distinct_dput dest!: set_dput)
    qed
  qed simp
  from this [of "sort_key rs_sequence_number steps"] show ?thesis
    by (simp add: group_by_component_def)
qed

lemma distinct_concat_map:
  assumes "distinct ks" "\<And>k. k \<in> set ks \<Longrightarrow> distinct (f k)"
    and "\<And>k x. k \<in> set ks \<Longrightarrow> x \<in> set (f k) \<Longrightarrow> g x = Some k"
  shows "distinct (concat (map f ks))"
  using assms
proof (induction ks)
  case (Cons k ks)
  have "set (f k) \<inter> set (concat (map f ks)) = {}"
  proof (rule ccontr)
    assume "set (f k) \<inter> set (concat (map f ks)) \<noteq> {}"
    then obtain x l where "x \<in> set (f k)" "l \<in> set ks" "x \<in> set (f l)" by auto
    then have "g x = Some k" "g x = Some l" using Cons.prems(3) by auto
    then show False using Cons.prems(1) \<open>l \<in> set ks\<close> by simp
  qed
  then show ?case using Cons by auto
qed simp

lemma group_lookup:
  assumes "k \<in> fst ` set (group_by_component steps)" "distinct steps"
  shows "set (the (map_of (group_by_component steps) k)) \<subseteq> set steps
    \<and> (\<forall>s \<in> set (the (map_of (group_by_component steps) k)). rs_component_id s = Some k)
    \<and> distinct (the (map_of (group_by_component steps) k))"
proof -
  obtain ss where "map_of (group_by_component steps) k = Some ss"
    using assms(1) by (metis map_of_eq_None_iff not_None_eq)
  then have mem: "(k, ss) \<in> set (group_by_component steps)" and eq: "the (map_of (group_by_component steps) k) = ss"
    by (auto dest: map_of_SomeD)
  note facts = group_by_component_facts [of steps, THEN conjunct2]
  show ?thesis
    unfolding eq
    using bspec [OF facts [THEN conjunct1] mem]
      bspec [OF mp [OF facts [THEN conjunct2] assms(2)] mem] by simp
qed

lemma map_fst_concat_zip:
  "map fst (concat (map (\<lambda>k. zip (f k) (g k)) ks)) = concat (map (\<lambda>k. take (length (g k)) (f k)) ks)"
  "map snd (concat (map (\<lambda>k. zip (f k) (g k)) ks)) = concat (map (\<lambda>k. take (length (f k)) (g k)) ks)"
  by (induction ks) (simp_all add: map_fst_zip_take map_snd_zip_take min_def)

lemma component_couples_facts:
  assumes "keyed rb" "keyed rc"
  shows "distinct (map fst (component_couples rb rc))" and "distinct (map snd (component_couples rb rc))"
    and "set (map fst (component_couples rb rc)) \<subseteq> snd ` set rb"
    and "set (map snd (component_couples rb rc)) \<subseteq> snd ` set rc"
    and "(b, c) \<in> set (component_couples rb rc) \<Longrightarrow>
      rs_component_id b = rs_component_id c \<and> rs_component_id b \<noteq> None"
proof -
  define by_b where "by_b = group_by_component (map snd rb)"
  define by_c where "by_c = group_by_component (map snd rc)"
  define ks where "ks = sort (filter (\<lambda>k. k \<in> fst ` set by_c) (map fst by_b))"
  define f where "f = (\<lambda>k. the (map_of by_b k))"
  define g where "g = (\<lambda>k. the (map_of by_c k))"
  have bcs: "component_couples rb rc = concat (map (\<lambda>k. zip (f k) (g k)) ks)"
    by (simp add: component_couples_def by_b_def by_c_def ks_def f_def g_def Let_def)
  have ks: "distinct ks" "set ks = fst ` set by_b \<inter> fst ` set by_c"
    using group_by_component_facts [of "map snd rb"] by (auto simp: ks_def by_b_def distinct_map_filter)
  have fk: "set (f k) \<subseteq> snd ` set rb \<and> (\<forall>s \<in> set (f k). rs_component_id s = Some k) \<and> distinct (f k)"
    and gk: "set (g k) \<subseteq> snd ` set rc \<and> (\<forall>s \<in> set (g k). rs_component_id s = Some k) \<and> distinct (g k)"
    if "k \<in> set ks" for k
    using that group_lookup [of k "map snd rb", OF _ keyed_steps_distinct [OF assms(1)]]
      group_lookup [of k "map snd rc", OF _ keyed_steps_distinct [OF assms(2)]]
    by (simp_all add: f_def g_def by_b_def by_c_def ks(2))
  show "distinct (map fst (component_couples rb rc))"
    unfolding bcs map_fst_concat_zip
    by (rule distinct_concat_map [OF ks(1), where g = rs_component_id])
      (use fk in \<open>auto dest: in_set_takeD\<close>)
  show "distinct (map snd (component_couples rb rc))"
    unfolding bcs map_fst_concat_zip
    by (rule distinct_concat_map [OF ks(1), where g = rs_component_id])
      (use gk in \<open>auto dest: in_set_takeD\<close>)
  show "set (map fst (component_couples rb rc)) \<subseteq> snd ` set rb"
    unfolding bcs map_fst_concat_zip using fk by (fastforce dest: in_set_takeD)
  show "set (map snd (component_couples rb rc)) \<subseteq> snd ` set rc"
    unfolding bcs map_fst_concat_zip using gk by (fastforce dest: in_set_takeD)
  assume "(b, c) \<in> set (component_couples rb rc)"
  then obtain k where "k \<in> set ks" "(b, c) \<in> set (zip (f k) (g k))" unfolding bcs by auto
  then have "rs_component_id b = Some k" "rs_component_id c = Some k"
    using fk gk set_zip_leftD set_zip_rightD by metis+
  then show "rs_component_id b = rs_component_id c \<and> rs_component_id b \<noteq> None" by simp
qed

section \<open>The alignment\<close>

text \<open>What the method of a pair says of its steps.\<close>

definition valid_pair :: "step_pair \<Rightarrow> bool" where
  "valid_pair p \<longleftrightarrow>
     (case (sp_baseline p, sp_candidate p) of
        (Some b, Some c) \<Rightarrow>
          (case sp_method p of
             AM_SOURCE_EVENT_ID \<Rightarrow> rs_source_event_id b = rs_source_event_id c
           | AM_SEQUENCE_NUMBER \<Rightarrow> rs_sequence_number b = rs_sequence_number c
           | AM_COMPONENT_IDENTITY \<Rightarrow> rs_component_id b = rs_component_id c \<and> rs_component_id b \<noteq> None
           | AM_UNMATCHED \<Rightarrow> False)
      | (Some b, None) \<Rightarrow> sp_method p = AM_UNMATCHED
      | (None, Some c) \<Rightarrow> sp_method p = AM_UNMATCHED
      | (None, None) \<Rightarrow> False)"

definition start_state :: "replay_step_view list \<Rightarrow> replay_step_view list \<Rightarrow> align_state" where
  "start_state baseline candidate = ([], steps_by_id baseline, steps_by_id candidate)"

definition final_state :: "replay_step_view list \<Rightarrow> replay_step_view list \<Rightarrow> align_state" where
  "final_state baseline candidate =
     match_pass AM_COMPONENT_IDENTITY component_couples
       (match_pass AM_SEQUENCE_NUMBER (keyed_couples rs_sequence_number)
         (match_pass AM_SOURCE_EVENT_ID (keyed_couples rs_source_event_id)
           (start_state baseline candidate)))"

lemma align_steps_eq:
  "align_steps baseline candidate =
     (case final_state baseline candidate of (pairs, rb, rc) \<Rightarrow>
        sort_key pair_sort_key
          (pairs
           @ map (\<lambda>(k, s). \<lparr> sp_method = AM_UNMATCHED, sp_baseline = Some s, sp_candidate = None \<rparr>) rb
           @ map (\<lambda>(k, s). \<lparr> sp_method = AM_UNMATCHED, sp_baseline = None, sp_candidate = Some s \<rparr>) rc))"
  by (simp add: align_steps_def final_state_def start_state_def Let_def)

lemma keyed_pass_inv:
  assumes "align_inv P B C st"
    and "\<And>b c. key b = key c \<Longrightarrow> P \<lparr> sp_method = m, sp_baseline = Some b, sp_candidate = Some c \<rparr>"
  shows "align_inv P B C (match_pass m (keyed_couples key) st)"
proof -
  obtain ps rb rc where st: "st = (ps, rb, rc)" by (cases st) auto
  show ?thesis
    unfolding st
    by (rule align_inv_pass [where couples = "keyed_couples key"])
      (use assms st keyed_couples_facts [where key = key] in auto)
qed

lemma mset_steps_by_id:
  "distinct (map rs_id steps) \<Longrightarrow> image_mset snd (mset (steps_by_id steps)) = mset steps"
  by (simp add: steps_by_id_distinct flip: mset_map)

lemma align_inv_final:
  assumes "distinct (map rs_id baseline)" "distinct (map rs_id candidate)"
  shows "align_inv valid_pair (mset baseline) (mset candidate) (final_state baseline candidate)"
proof -
  let ?inv = "align_inv valid_pair (mset baseline) (mset candidate)"
  have "?inv (start_state baseline candidate)"
    using assms by (simp add: align_inv_def start_state_def keyed_steps_by_id mset_steps_by_id)
  then have "?inv (match_pass AM_SEQUENCE_NUMBER (keyed_couples rs_sequence_number)
      (match_pass AM_SOURCE_EVENT_ID (keyed_couples rs_source_event_id) (start_state baseline candidate)))"
    by (intro keyed_pass_inv) (simp_all add: valid_pair_def)
  moreover obtain ps rb rc where st: "match_pass AM_SEQUENCE_NUMBER (keyed_couples rs_sequence_number)
      (match_pass AM_SOURCE_EVENT_ID (keyed_couples rs_source_event_id) (start_state baseline candidate)) = (ps, rb, rc)"
    by (metis surj_pair)
  ultimately have inv: "?inv (ps, rb, rc)" and k: "keyed rb" "keyed rc" by (auto simp: align_inv_def)
  have valid: "valid_pair \<lparr> sp_method = AM_COMPONENT_IDENTITY, sp_baseline = Some b, sp_candidate = Some c \<rparr>"
    if "(b, c) \<in> set (component_couples rb rc)" for b c
  proof -
    have "rs_component_id b = rs_component_id c" "rs_component_id b \<noteq> None"
      using component_couples_facts(5) [OF k that] by blast+
    then show ?thesis by (simp add: valid_pair_def)
  qed
  show ?thesis
    unfolding final_state_def st
    by (rule align_inv_pass [where couples = component_couples])
      (use inv valid component_couples_facts(1-4) [OF k] in simp_all)
qed

lemma mset_map_filter: "mset (List.map_filter f xs) = mset (List.map_filter f ys)" if "mset xs = mset ys"
proof -
  have "mset (List.map_filter f zs) = image_mset (the \<circ> f) (filter_mset (\<lambda>x. f x \<noteq> None) (mset zs))" for zs
    by (simp add: map_filter_def)
  then show ?thesis using that by simp
qed

lemma sides_sort [simp]:
  "mset (baselines (sort_key f ps)) = mset (baselines ps)"
  "mset (candidates (sort_key f ps)) = mset (candidates ps)"
  unfolding baselines_def candidates_def by (rule mset_map_filter; simp)+

lemma sides_unmatched [simp]:
  "baselines (map (\<lambda>(k, s). \<lparr> sp_method = m, sp_baseline = Some s, sp_candidate = None \<rparr>) d) = map snd d"
  "candidates (map (\<lambda>(k, s). \<lparr> sp_method = m, sp_baseline = Some s, sp_candidate = None \<rparr>) d) = []"
  "baselines (map (\<lambda>(k, s). \<lparr> sp_method = m, sp_baseline = None, sp_candidate = Some s \<rparr>) d) = []"
  "candidates (map (\<lambda>(k, s). \<lparr> sp_method = m, sp_baseline = None, sp_candidate = Some s \<rparr>) d) = map snd d"
  by (induction d) auto

lemma align_steps_facts:
  assumes "distinct (map rs_id baseline)" "distinct (map rs_id candidate)"
  shows "mset (baselines (align_steps baseline candidate)) = mset baseline
    \<and> mset (candidates (align_steps baseline candidate)) = mset candidate
    \<and> list_all valid_pair (align_steps baseline candidate)
    \<and> sorted (map pair_sort_key (align_steps baseline candidate))"
proof -
  obtain ps rb rc where st: "final_state baseline candidate = (ps, rb, rc)" by (metis surj_pair)
  have inv: "align_inv valid_pair (mset baseline) (mset candidate) (ps, rb, rc)"
    using align_inv_final [OF assms] by (simp add: st)
  show ?thesis
    using inv by (auto simp: align_steps_eq st align_inv_def list_all_iff valid_pair_def)
qed

text \<open>Two runs of the same source trajectory align perfectly, each step with the one of the same event.\<close>

lemma fold_take_pair:
  "foldl (take_pair m) (ps, rb, rc) bcs =
     (ps @ map (\<lambda>(b, c). \<lparr> sp_method = m, sp_baseline = Some b, sp_candidate = Some c \<rparr>) bcs,
      filter (\<lambda>(k, s). k \<notin> rs_id ` set (map fst bcs)) rb,
      filter (\<lambda>(k, s). k \<notin> rs_id ` set (map snd bcs)) rc)"
  by (induction bcs arbitrary: ps rb rc) (auto simp: dict_del_def case_prod_unfold conj_commute)

lemma same_image_subset: "inj_on f B \<Longrightarrow> f ` A = f ` B \<Longrightarrow> A \<subseteq> B \<Longrightarrow> A = B"
  by (auto simp: inj_on_def) (metis image_iff subset_iff)

lemma align_same_trajectory:
  assumes ids: "distinct (map rs_id baseline)" "distinct (map rs_id candidate)"
    and ev: "distinct (map rs_source_event_id baseline)" "distinct (map rs_source_event_id candidate)"
    and same: "rs_source_event_id ` set baseline = rs_source_event_id ` set candidate"
  shows "list_all (\<lambda>p. sp_method p = AM_SOURCE_EVENT_ID) (align_steps baseline candidate)"
proof -
  let ?rb = "steps_by_id baseline" and ?rc = "steps_by_id candidate" and ?key = rs_source_event_id
  define bcs where "bcs = keyed_couples ?key ?rb ?rc"
  have v: "snd ` set ?rb = set baseline" "snd ` set ?rc = set candidate"
    using steps_by_id_distinct ids by (metis set_map)+
  note f = keyed_couples_facts [where key = ?key and rb = ?rb and rc = ?rc, folded bcs_def, unfolded v]
  have kb: "?key ` fst ` set bcs = ?key ` set baseline" using f(6) same by simp
  have kc: "?key ` snd ` set bcs = ?key ` set candidate"
  proof -
    have "?key ` snd ` set bcs = ?key ` fst ` set bcs" unfolding image_image using f(5) by force
    then show ?thesis using kb same by simp
  qed
  have all: "set (map fst bcs) = set baseline" "set (map snd bcs) = set candidate"
    using same_image_subset [OF _ kb] same_image_subset [OF _ kc] f(3,4) ev
    by (simp_all add: distinct_map)
  have none: "filter (\<lambda>(k, s). k \<notin> rs_id ` A) d = []" if "keyed d" "snd ` set d = A" for d :: step_dict and A
    using that(1) unfolding that(2) [symmetric] by (force simp: keyed_def filter_empty_conv)
  have "match_pass AM_SOURCE_EVENT_ID (keyed_couples ?key) (start_state baseline candidate) =
      (map (\<lambda>(b, c). \<lparr> sp_method = AM_SOURCE_EVENT_ID, sp_baseline = Some b, sp_candidate = Some c \<rparr>) bcs, [], [])"
    unfolding match_pass_def start_state_def prod.case bcs_def [symmetric] fold_take_pair all
    using none [OF keyed_steps_by_id v(1)] none [OF keyed_steps_by_id v(2)] by simp
  then have "final_state baseline candidate =
      (map (\<lambda>(b, c). \<lparr> sp_method = AM_SOURCE_EVENT_ID, sp_baseline = Some b, sp_candidate = Some c \<rparr>) bcs, [], [])"
    by (simp add: final_state_def match_pass_def keyed_couples_def component_couples_def
        index_steps_def group_by_component_def)
  then show ?thesis by (auto simp: align_steps_eq list_all_iff)
qed

end
