(* ===== verification/Diff_Analyzer.thy ===== *)
theory Diff_Analyzer
  imports Alignment
begin

text \<open>
  \<open>app/differential/analyzer.py\<close>: the comparison of two replays step by step, with its aggregate
  metrics. Proved here: what the metrics count, the balance of matched, added and removed steps, and
  that a run compared with itself has no differences.
\<close>

section \<open>The code\<close>

definition analyzer_version :: string where
  "analyzer_version = ''1''"

definition error_category :: "json \<Rightarrow> string option" where
  "error_category error =
     (case error of
        JNull \<Rightarrow> None
      | JDict kvs \<Rightarrow>
          (case sanitize default_sensitive_keys error of
             JDict sanitized \<Rightarrow>
               (let category = py_or (py_or (dget sanitized ''category'') (dget sanitized ''type''))
                                 (dget sanitized ''code'')
                in Some (if category \<noteq> JNull then py_str category else ''unknown''))
           | _ \<Rightarrow> Some ''unknown'')
      | _ \<Rightarrow> Some ''unknown'')"

definition diff_errors :: "replay_step_view \<Rightarrow> replay_step_view \<Rightarrow> error_difference option" where
  "diff_errors b c =
     (let b_present = (rs_error b \<noteq> JNull); c_present = (rs_error c \<noteq> JNull);
          b_category = error_category (rs_error b); c_category = error_category (rs_error c)
      in if \<not> b_present \<and> \<not> c_present then None
         else if b_present \<and> \<not> c_present then
           Some \<lparr> ed_type = DT_ERROR_RESOLVED, ed_baseline_present = True, ed_candidate_present = False,
                  ed_baseline_category = b_category, ed_candidate_category = None \<rparr>
         else if \<not> b_present \<and> c_present then
           Some \<lparr> ed_type = DT_ERROR_INTRODUCED, ed_baseline_present = False, ed_candidate_present = True,
                  ed_baseline_category = None, ed_candidate_category = c_category \<rparr>
         else if b_category \<noteq> c_category then
           Some \<lparr> ed_type = DT_ERROR_CHANGED, ed_baseline_present = True, ed_candidate_present = True,
                  ed_baseline_category = b_category, ed_candidate_category = c_category \<rparr>
         else None)"

text \<open>\<open>delta / b.duration_ms * 100.0\<close>: two roundings.\<close>

definition diff_latency :: "replay_step_view \<Rightarrow> replay_step_view \<Rightarrow> latency_difference option" where
  "diff_latency b c =
     (case (rs_duration_ms b, rs_duration_ms c) of
        (Some x, Some y) \<Rightarrow>
          (let delta = y - x
           in if delta = 0 then None
              else Some \<lparr> ld_baseline_ms = x, ld_candidate_ms = y, ld_delta_ms = delta,
                          ld_percent =
                            (if x > 0 then Some (round_double (round_double (of_int delta / of_int x) * 100))
                             else None) \<rparr>)
      | _ \<Rightarrow> None)"

definition diff_matched :: "alignment_method \<Rightarrow> replay_step_view \<Rightarrow> replay_step_view \<Rightarrow> step_difference" where
  "diff_matched method b c =
     (let input_diffs = diff_values 0 (rs_input b) (rs_input c) ''$.input'';
          output_diffs = diff_values 0 (rs_output b) (rs_output c) ''$.output'';
          error_diff = diff_errors b c; latency_diff = diff_latency b c
      in \<lparr> sd_method = method,
           sd_types =
             (if rs_status b \<noteq> rs_status c then [DT_STEP_STATUS_CHANGED] else [])
             @ (if rs_kind b \<noteq> rs_kind c then [DT_PROVIDER_INVOCATION_CHANGED] else [])
             @ (if rs_component_id b \<noteq> rs_component_id c
                   \<or> rs_component_version_id b \<noteq> rs_component_version_id c
                then [DT_TOOL_CHANGED] else [])
             @ (if input_diffs \<noteq> [] then [DT_INPUT_CHANGED] else [])
             @ (if output_diffs \<noteq> [] then
                  DT_OUTPUT_CHANGED #
                  (if list_ex (\<lambda>d. fd_type d = DT_SCHEMA_CHANGED) output_diffs then [DT_SCHEMA_CHANGED] else [])
                else [])
             @ (case error_diff of Some e \<Rightarrow> [ed_type e] | None \<Rightarrow> [])
             @ (case latency_diff of Some l \<Rightarrow> [DT_LATENCY_CHANGED] | None \<Rightarrow> []),
           sd_sequence_number = Some (rs_sequence_number b),
           sd_baseline = Some b, sd_candidate = Some c,
           sd_outputs = input_diffs @ output_diffs,
           sd_error = error_diff, sd_latency = latency_diff \<rparr>)"

text \<open>\<open>_diff_pair\<close>; with neither step it fails an assertion, and no pair is so (\<open>valid_pair\<close>).\<close>

definition diff_pair :: "step_pair \<Rightarrow> step_difference" where
  "diff_pair p =
     (case (sp_baseline p, sp_candidate p) of
        (None, c) \<Rightarrow>
          \<lparr> sd_method = sp_method p, sd_types = [DT_STEP_ADDED],
            sd_sequence_number = map_option rs_sequence_number c, sd_baseline = None, sd_candidate = c,
            sd_outputs = [], sd_error = None, sd_latency = None \<rparr>
      | (Some b, None) \<Rightarrow>
          \<lparr> sd_method = sp_method p, sd_types = [DT_STEP_REMOVED],
            sd_sequence_number = Some (rs_sequence_number b), sd_baseline = Some b, sd_candidate = None,
            sd_outputs = [], sd_error = None, sd_latency = None \<rparr>
      | (Some b, Some c) \<Rightarrow> diff_matched (sp_method p) b c)"

definition empty_summary :: "nat \<Rightarrow> nat \<Rightarrow> differential_summary" where
  "empty_summary total_baseline total_candidate =
     \<lparr> ds_total_baseline = total_baseline, ds_total_candidate = total_candidate, ds_matched = 0,
       ds_added = 0, ds_removed = 0, ds_changed = 0, ds_new_failures = 0, ds_resolved_failures = 0,
       ds_changed_outputs = 0, ds_schema_changes = 0 \<rparr>"

text \<open>One turn of the loop of \<open>_summarize\<close>.\<close>

definition count_step :: "differential_summary \<Rightarrow> step_difference \<Rightarrow> differential_summary" where
  "count_step s sd =
     (if sd_method sd = AM_UNMATCHED then
        (if sd_baseline sd = None then s \<lparr> ds_added := ds_added s + 1 \<rparr>
         else s \<lparr> ds_removed := ds_removed s + 1 \<rparr>)
      else
        s \<lparr> ds_matched := ds_matched s + 1,
            ds_changed := ds_changed s + (if sd_types sd \<noteq> [] then 1 else 0),
            ds_changed_outputs := ds_changed_outputs s + (if DT_OUTPUT_CHANGED \<in> set (sd_types sd) then 1 else 0),
            ds_schema_changes := ds_schema_changes s + (if DT_SCHEMA_CHANGED \<in> set (sd_types sd) then 1 else 0),
            ds_new_failures := ds_new_failures s +
              (case sd_error sd of Some e \<Rightarrow> if ed_type e = DT_ERROR_INTRODUCED then 1 else 0 | None \<Rightarrow> 0),
            ds_resolved_failures := ds_resolved_failures s +
              (case sd_error sd of Some e \<Rightarrow> if ed_type e = DT_ERROR_RESOLVED then 1 else 0 | None \<Rightarrow> 0) \<rparr>)"

definition summarize :: "nat \<Rightarrow> nat \<Rightarrow> step_difference list \<Rightarrow> differential_summary" where
  "summarize total_baseline total_candidate step_diffs =
     foldl count_step (empty_summary total_baseline total_candidate) step_diffs"

definition diff_analyze :: "replay_step_view list \<Rightarrow> replay_step_view list \<Rightarrow> differential_report" where
  "diff_analyze baseline_steps candidate_steps =
     (let step_diffs = map diff_pair (align_steps baseline_steps candidate_steps)
      in \<lparr> dr_version = analyzer_version, dr_steps = step_diffs,
           dr_summary = summarize (length baseline_steps) (length candidate_steps) step_diffs \<rparr>)"

section \<open>What the metrics count\<close>

definition count_where :: "('a \<Rightarrow> bool) \<Rightarrow> 'a list \<Rightarrow> nat" where
  "count_where P xs = length (filter P xs)"

lemma count_where_simps [simp]:
  "count_where P [] = 0"
  "count_where P (x # xs) = (if P x then 1 else 0) + count_where P xs"
  by (simp_all add: count_where_def)

lemma foldl_count_step:
  "foldl count_step s sds =
     s \<lparr> ds_added := ds_added s + count_where (\<lambda>sd. sd_method sd = AM_UNMATCHED \<and> sd_baseline sd = None) sds,
         ds_removed := ds_removed s + count_where (\<lambda>sd. sd_method sd = AM_UNMATCHED \<and> sd_baseline sd \<noteq> None) sds,
         ds_matched := ds_matched s + count_where (\<lambda>sd. sd_method sd \<noteq> AM_UNMATCHED) sds,
         ds_changed := ds_changed s + count_where (\<lambda>sd. sd_method sd \<noteq> AM_UNMATCHED \<and> sd_types sd \<noteq> []) sds,
         ds_changed_outputs := ds_changed_outputs s
           + count_where (\<lambda>sd. sd_method sd \<noteq> AM_UNMATCHED \<and> DT_OUTPUT_CHANGED \<in> set (sd_types sd)) sds,
         ds_schema_changes := ds_schema_changes s
           + count_where (\<lambda>sd. sd_method sd \<noteq> AM_UNMATCHED \<and> DT_SCHEMA_CHANGED \<in> set (sd_types sd)) sds,
         ds_new_failures := ds_new_failures s
           + count_where (\<lambda>sd. sd_method sd \<noteq> AM_UNMATCHED
               \<and> (\<exists>e. sd_error sd = Some e \<and> ed_type e = DT_ERROR_INTRODUCED)) sds,
         ds_resolved_failures := ds_resolved_failures s
           + count_where (\<lambda>sd. sd_method sd \<noteq> AM_UNMATCHED
               \<and> (\<exists>e. sd_error sd = Some e \<and> ed_type e = DT_ERROR_RESOLVED)) sds \<rparr>"
  by (induction sds arbitrary: s) (auto simp: count_step_def split: option.splits)

lemma count_where_map: "count_where P (map f xs) = count_where (\<lambda>x. P (f x)) xs"
  by (simp add: count_where_def filter_map comp_def)

lemma count_where_cong: "(\<And>x. x \<in> set xs \<Longrightarrow> P x = Q x) \<Longrightarrow> count_where P xs = count_where Q xs"
  unfolding count_where_def by (metis (mono_tags, lifting) filter_cong)

text \<open>A valid pair is unmatched exactly when one of its steps is absent.\<close>

lemma valid_pair_unmatched:
  "valid_pair p \<Longrightarrow> sp_method p = AM_UNMATCHED \<longleftrightarrow> sp_baseline p = None \<or> sp_candidate p = None"
  by (auto simp: valid_pair_def split: option.splits alignment_method.splits)

lemma valid_pair_some: "valid_pair p \<Longrightarrow> sp_baseline p \<noteq> None \<or> sp_candidate p \<noteq> None"
  by (auto simp: valid_pair_def split: option.splits)

lemma diff_pair_method [simp]: "sd_method (diff_pair p) = sp_method p"
  by (simp add: diff_pair_def diff_matched_def Let_def split: option.splits)

lemma diff_pair_sides [simp]:
  "sd_baseline (diff_pair p) = sp_baseline p"
  "sd_candidate (diff_pair p) = sp_candidate p"
  by (simp_all add: diff_pair_def diff_matched_def Let_def split: option.splits)

lemma length_sides:
  "length (baselines ps) = count_where (\<lambda>p. sp_baseline p \<noteq> None) ps"
  "length (candidates ps) = count_where (\<lambda>p. sp_candidate p \<noteq> None) ps"
  by (induction ps) (auto split: option.splits)

lemma count_split:
  "list_all valid_pair ps \<Longrightarrow>
   count_where (\<lambda>p. sp_method p \<noteq> AM_UNMATCHED) ps
     + count_where (\<lambda>p. sp_method p = AM_UNMATCHED \<and> sp_baseline p \<noteq> None) ps
     = count_where (\<lambda>p. sp_baseline p \<noteq> None) ps
   \<and> count_where (\<lambda>p. sp_method p \<noteq> AM_UNMATCHED) ps
     + count_where (\<lambda>p. sp_method p = AM_UNMATCHED \<and> sp_baseline p = None) ps
     = count_where (\<lambda>p. sp_candidate p \<noteq> None) ps"
proof (induction ps)
  case (Cons p ps)
  then show ?case using valid_pair_unmatched [of p] valid_pair_some [of p] by auto
qed simp

section \<open>A step compared with itself\<close>

lemma diff_scalars_same [simp]: "same_type v v"
  by (cases v) simp_all

lemma diff_values_self: "json_ok v \<Longrightarrow> diff_values n v v p = []"
proof (induction "Suc value_max_depth - n" arbitrary: n v p rule: less_induct)
  case less
  show ?case
  proof (cases "n \<le> value_max_depth")
    case n: True
    then have IH: "diff_values (n + 1) w w q = []" if "json_ok w" for w q
      using less.hyps [of "n + 1" w q] that by simp
    show ?thesis
    proof (cases v)
      case (JDict kvs)
      have ok: "dict_ok kvs" using less.prems by (simp add: JDict dict_ok_def)
      have "keys_only_in kvs kvs = []" by (rule same_keys_only) simp
      then show ?thesis
        unfolding JDict diff_values_node(1) [OF n] diff_dict_def
        using IH py_eq_refl json_ok_dget [OF ok] by auto
    next
      case (JList xs)
      have "diff_values (n + 1) (xs ! i) (xs ! i) q = []" if "i < length xs" for i q
        using that less.prems by (intro IH) (simp add: JList list_all_length)
      then show ?thesis unfolding JList diff_values_node(2) [OF n] diff_list_def Let_def by simp
    qed (use n less.prems in \<open>simp_all add: diff_values_node is_dict_def is_list_def diff_scalars_def\<close>)
  next
    case False
    then show ?thesis by (subst diff_values.simps) simp
  qed
qed

definition step_ok :: "replay_step_view \<Rightarrow> bool" where
  "step_ok s \<longleftrightarrow> json_ok (rs_input s) \<and> json_ok (rs_output s)"

text \<open>Two steps that agree in everything compared (they may be rows of different replays).\<close>

definition same_behaviour :: "replay_step_view \<Rightarrow> replay_step_view \<Rightarrow> bool" where
  "same_behaviour b c \<longleftrightarrow>
     rs_status b = rs_status c \<and> rs_kind b = rs_kind c \<and> rs_component_id b = rs_component_id c
     \<and> rs_component_version_id b = rs_component_version_id c \<and> rs_input b = rs_input c
     \<and> rs_output b = rs_output c \<and> rs_error b = rs_error c \<and> rs_duration_ms b = rs_duration_ms c"

lemma diff_matched_same:
  assumes "same_behaviour b c" "step_ok b"
  shows "sd_types (diff_matched m b c) = [] \<and> sd_outputs (diff_matched m b c) = []
    \<and> sd_error (diff_matched m b c) = None \<and> sd_latency (diff_matched m b c) = None"
  using assms
  by (auto simp: same_behaviour_def step_ok_def diff_matched_def Let_def diff_values_self diff_errors_def
      diff_latency_def split: option.splits)

section \<open>The report of two runs\<close>

lemma mem_sides:
  "p \<in> set ps \<Longrightarrow> sp_baseline p = Some b \<Longrightarrow> b \<in> set (baselines ps)"
  "p \<in> set ps \<Longrightarrow> sp_candidate p = Some c \<Longrightarrow> c \<in> set (candidates ps)"
  by (force simp: baselines_def candidates_def map_filter_def)+

lemma diff_analyze_simps [simp]:
  "dr_steps (diff_analyze bs cs) = map diff_pair (align_steps bs cs)"
  "dr_summary (diff_analyze bs cs) = summarize (length bs) (length cs) (map diff_pair (align_steps bs cs))"
  by (simp_all add: diff_analyze_def Let_def)

lemma summarize_counts:
  "ds_total_baseline (summarize m n sds) = m"
  "ds_total_candidate (summarize m n sds) = n"
  "ds_added (summarize m n sds) = count_where (\<lambda>sd. sd_method sd = AM_UNMATCHED \<and> sd_baseline sd = None) sds"
  "ds_removed (summarize m n sds) = count_where (\<lambda>sd. sd_method sd = AM_UNMATCHED \<and> sd_baseline sd \<noteq> None) sds"
  "ds_matched (summarize m n sds) = count_where (\<lambda>sd. sd_method sd \<noteq> AM_UNMATCHED) sds"
  "ds_changed (summarize m n sds) = count_where (\<lambda>sd. sd_method sd \<noteq> AM_UNMATCHED \<and> sd_types sd \<noteq> []) sds"
  "ds_changed_outputs (summarize m n sds) =
     count_where (\<lambda>sd. sd_method sd \<noteq> AM_UNMATCHED \<and> DT_OUTPUT_CHANGED \<in> set (sd_types sd)) sds"
  "ds_schema_changes (summarize m n sds) =
     count_where (\<lambda>sd. sd_method sd \<noteq> AM_UNMATCHED \<and> DT_SCHEMA_CHANGED \<in> set (sd_types sd)) sds"
  "ds_new_failures (summarize m n sds) =
     count_where (\<lambda>sd. sd_method sd \<noteq> AM_UNMATCHED
       \<and> (\<exists>e. sd_error sd = Some e \<and> ed_type e = DT_ERROR_INTRODUCED)) sds"
  "ds_resolved_failures (summarize m n sds) =
     count_where (\<lambda>sd. sd_method sd \<noteq> AM_UNMATCHED
       \<and> (\<exists>e. sd_error sd = Some e \<and> ed_type e = DT_ERROR_RESOLVED)) sds"
  by (simp_all add: summarize_def foldl_count_step empty_summary_def)

lemma count_where_mono: "(\<And>x. P x \<Longrightarrow> Q x) \<Longrightarrow> count_where P xs \<le> count_where Q xs"
  by (induction xs) auto

lemma count_where_le: "count_where P xs \<le> length xs"
  by (simp add: count_where_def)

lemma count_where_all: "(\<And>x. x \<in> set xs \<Longrightarrow> P x) \<Longrightarrow> count_where P xs = length xs"
  by (induction xs) auto

lemma count_where_none: "(\<And>x. x \<in> set xs \<Longrightarrow> \<not> P x) \<Longrightarrow> count_where P xs = 0"
  by (induction xs) auto

text \<open>An error introduced is reported on the step and counted as a new failure, whatever its status.\<close>

lemma diff_matched_error:
  "sd_error (diff_matched m b c) = diff_errors b c"
  "(\<exists>e. diff_errors b c = Some e \<and> ed_type e = DT_ERROR_INTRODUCED) \<longleftrightarrow> rs_error b = JNull \<and> rs_error c \<noteq> JNull"
  by (auto simp: diff_matched_def diff_errors_def Let_def)

end
