(* ===== verification/Diff_Properties.thy ===== *)
theory Diff_Properties
  imports Diff_Analyzer
begin

text \<open>
  The properties of the differential analyzer and of payload redaction, each with its application to
  a concrete input.
\<close>

section \<open>Redaction\<close>

text \<open>
  C17: redaction leaves no dict, at any depth, in which a sensitive key is bound to anything but the
  placeholder; redacting again changes nothing; and two payloads redact to the same value exactly
  when they agree outside sensitive keys, so that nothing of a secret can be read back.
\<close>

theorem sanitize_hides_secrets:
  "no_secrets keys (sanitize keys v) \<and> sanitize keys (sanitize keys v) = sanitize keys v
   \<and> (sanitize keys v = sanitize keys w \<longleftrightarrow> same_public keys v w)"
  by (simp add: no_secrets_sanitize sanitize_eq_iff)

section \<open>Comparing values\<close>



text \<open>
  No value that a comparison reports holds, under a sensitive key of its own, anything but the
  placeholder.
\<close>

theorem reported_values_redacted:
  assumes "sd \<in> set (dr_steps (diff_analyze bs cs))" "fd \<in> set (sd_outputs sd)"
  shows "no_secrets default_sensitive_keys (fd_old fd) \<and> no_secrets default_sensitive_keys (fd_new fd)"
  using assms diff_values_no_secret
  by (auto simp: diff_pair_def diff_matched_def Let_def reports_no_secret_def split: option.splits)

definition sample_step :: "uuid \<Rightarrow> uuid \<Rightarrow> int \<Rightarrow> json \<Rightarrow> json \<Rightarrow> replay_step_view" where
  "sample_step i event seq out err =
     \<lparr> rs_id = i, rs_sequence_number = seq, rs_source_event_id = event, rs_kind = ''tool_call'',
       rs_status = ''succeeded'', rs_component_id = Some 7, rs_component_version_id = Some 8,
       rs_input = JDict [(''q'', JInt 1)], rs_output = out, rs_error = err, rs_duration_ms = Some 12 \<rparr>"

text \<open>A report on one step of each run, whose outputs differ below a sensitive key.\<close>

lemma sample_report:
  "dr_steps (diff_analyze [sample_step 1 3 1 (JDict [(''headers'', JNull)]) JNull]
      [sample_step 2 3 1 (JDict [(''headers'', JDict [(''authorization'', JStr ''abc'')])]) JNull])
   = [\<lparr> sd_method = AM_SOURCE_EVENT_ID, sd_types = [DT_OUTPUT_CHANGED, DT_SCHEMA_CHANGED],
        sd_sequence_number = Some 1,
        sd_baseline = Some (sample_step 1 3 1 (JDict [(''headers'', JNull)]) JNull),
        sd_candidate = Some (sample_step 2 3 1 (JDict [(''headers'', JDict [(''authorization'', JStr ''abc'')])]) JNull),
        sd_outputs = [\<lparr> fd_type = DT_SCHEMA_CHANGED, fd_path = ''$.output.headers'', fd_old = JNull,
          fd_new = JDict [(''authorization'', JStr redacted_placeholder)], fd_redacted = False,
          fd_evidence = [(''reason'', JStr ''type_changed'')] \<rparr>],
        sd_error = None, sd_latency = None \<rparr>]"
  by code_simp

theorem reported_values_redacted_witness:
  "no_secrets default_sensitive_keys (JDict [(''authorization'', JStr redacted_placeholder)])"
proof -
  let ?fd = "\<lparr> fd_type = DT_SCHEMA_CHANGED, fd_path = ''$.output.headers'', fd_old = JNull,
    fd_new = JDict [(''authorization'', JStr redacted_placeholder)], fd_redacted = False,
    fd_evidence = [(''reason'', JStr ''type_changed'')] \<rparr>"
  show ?thesis
    using reported_values_redacted [OF _ , where fd = ?fd, unfolded sample_report] by simp
qed

text \<open>
  A key that only one side has is displayed by its value alone, so that a secret text added under
  (or removed from) a sensitive key is reported verbatim, while a change of it is masked.
\<close>

theorem added_secret_reported:
  assumes "sensitive k"
  shows "diff_values 0 (JDict []) (JDict [(k, JStr secret)]) p
      = [\<lparr> fd_type = DT_SCHEMA_CHANGED, fd_path = field_path p k, fd_old = JNull, fd_new = JStr secret,
           fd_redacted = False, fd_evidence = [(''reason'', JStr ''field_added'')] \<rparr>]
    \<and> (old \<noteq> secret \<longrightarrow> diff_values 0 (JDict [(k, JStr old)]) (JDict [(k, JStr secret)]) p
      = [\<lparr> fd_type = DT_VALUE_CHANGED, fd_path = field_path p k, fd_old = JStr redacted_placeholder,
           fd_new = JStr redacted_placeholder, fd_redacted = True, fd_evidence = [] \<rparr>])"
proof -
  have "diff_values 0 (JDict [(k, JStr old)]) (JDict [(k, JStr secret)]) p
      = [\<lparr> fd_type = DT_VALUE_CHANGED, fd_path = field_path p k, fd_old = JStr redacted_placeholder,
           fd_new = JStr redacted_placeholder, fd_redacted = True, fd_evidence = [] \<rparr>]" if "old \<noteq> secret"
    using that assms
    by (simp add: diff_values_node diff_dict_def keys_only_in_def keys_in_both_def dkeys_def
        sorted_set_def dget_def)
  then show ?thesis using added_key_reported(1) [of 0 k "JStr secret" p] by (simp add: added_field_def display_def)
qed

theorem added_secret_reported_witness:
  "fd_new (hd (diff_values 0 (JDict []) (JDict [(''Api-Key'', JStr ''hunter2'')]) ''$.input'')) = JStr ''hunter2''"
proof -
  have "sensitive ''Api-Key''" by code_simp
  then show ?thesis using added_secret_reported [of "''Api-Key''" "''hunter2''" "''$.input''"] by simp
qed

section \<open>Aligning two runs\<close>

text \<open>
  C12: the alignment of two runs is a partition: every step of either run occurs in exactly one pair; a
  pair found by source event, sequence number or component identity agrees on it, a pair of one step
  alone is \<open>UNMATCHED\<close>; and the pairs come in the order of the baseline, additions last.
\<close>

theorem align_steps_partition:
  assumes "distinct (map rs_id bs)" "distinct (map rs_id cs)"
  shows "mset (baselines (align_steps bs cs)) = mset bs
    \<and> mset (candidates (align_steps bs cs)) = mset cs
    \<and> list_all valid_pair (align_steps bs cs)
    \<and> sorted (map pair_sort_key (align_steps bs cs))"
  using assms by (rule align_steps_facts)

theorem align_steps_partition_witness:
  "mset (candidates (align_steps [sample_step 1 3 1 JNull JNull]
      [sample_step 2 4 5 JNull JNull, sample_step 6 9 1 JNull JNull]))
   = {# sample_step 2 4 5 JNull JNull, sample_step 6 9 1 JNull JNull #}"
  using align_steps_partition [of "[sample_step 1 3 1 JNull JNull]"
      "[sample_step 2 4 5 JNull JNull, sample_step 6 9 1 JNull JNull]"]
  by (simp add: sample_step_def add_mset_commute)

text \<open>Two runs of one trajectory: the same source events, each once.\<close>

definition rerun_of :: "replay_step_view list \<Rightarrow> replay_step_view list \<Rightarrow> bool" where
  "rerun_of bs cs \<longleftrightarrow>
     distinct (map rs_id bs) \<and> distinct (map rs_id cs)
     \<and> distinct (map rs_source_event_id bs) \<and> distinct (map rs_source_event_id cs)
     \<and> rs_source_event_id ` set bs = rs_source_event_id ` set cs"

lemma rerun_pairs:
  assumes "rerun_of bs cs" "p \<in> set (align_steps bs cs)"
  obtains b c where "b \<in> set bs" "c \<in> set cs" "rs_source_event_id b = rs_source_event_id c"
    "p = \<lparr> sp_method = AM_SOURCE_EVENT_ID, sp_baseline = Some b, sp_candidate = Some c \<rparr>"
proof -
  note r = assms(1) [unfolded rerun_of_def]
  have facts: "mset (baselines (align_steps bs cs)) = mset bs" "mset (candidates (align_steps bs cs)) = mset cs"
    "list_all valid_pair (align_steps bs cs)"
    using align_steps_facts r by blast+
  have m: "sp_method p = AM_SOURCE_EVENT_ID"
    using align_same_trajectory [of bs cs] r assms(2) by (simp add: list_all_iff)
  have v: "valid_pair p" using facts(3) assms(2) by (simp add: list_all_iff)
  obtain b c where bc: "sp_baseline p = Some b" "sp_candidate p = Some c"
    "rs_source_event_id b = rs_source_event_id c"
    using v m by (auto simp: valid_pair_def split: option.splits)
  show thesis
  proof (rule that [of b c])
    show "b \<in> set bs" "c \<in> set cs"
      using mem_sides [OF assms(2)] bc facts(1,2) by (metis mset_eq_setD)+
    show "p = \<lparr> sp_method = AM_SOURCE_EVENT_ID, sp_baseline = Some b, sp_candidate = Some c \<rparr>"
      using m bc by simp
  qed (rule bc(3))
qed

text \<open>
  A run compared with a rerun of the same trajectory that behaves the same, step by step, has no
  difference at all: every step is matched by its source event, and all counters of change are 0.
\<close>

theorem same_run_no_differences:
  assumes "rerun_of bs cs" "\<forall>b \<in> set bs. step_ok b"
    and "\<forall>b \<in> set bs. \<forall>c \<in> set cs. rs_source_event_id b = rs_source_event_id c \<longrightarrow> same_behaviour b c"
  shows "total_differences (diff_analyze bs cs) = 0
    \<and> dr_summary (diff_analyze bs cs) = (empty_summary (length bs) (length cs)) \<lparr> ds_matched := length bs \<rparr>"
proof -
  let ?ps = "align_steps bs cs"
  have same: "sd_types (diff_pair p) = [] \<and> sd_error (diff_pair p) = None \<and> sp_method p = AM_SOURCE_EVENT_ID
      \<and> sp_baseline p \<noteq> None" if p: "p \<in> set ?ps" for p
  proof -
    obtain b c where "b \<in> set bs" "c \<in> set cs" "rs_source_event_id b = rs_source_event_id c"
      "p = \<lparr> sp_method = AM_SOURCE_EVENT_ID, sp_baseline = Some b, sp_candidate = Some c \<rparr>"
      by (rule rerun_pairs [OF assms(1) p])
    then show ?thesis using diff_matched_same [of b c] assms(2,3) by (simp add: diff_pair_def)
  qed
  have "length (baselines ?ps) = length bs"
    using align_steps_facts [of bs cs] assms(1) by (metis rerun_of_def mset_eq_length)
  then have l: "length ?ps = length bs"
    using length_sides(1) [of ?ps] count_where_all [of ?ps "\<lambda>p. sp_baseline p \<noteq> None"] same by auto
  have "dr_summary (diff_analyze bs cs) = (empty_summary (length bs) (length cs)) \<lparr> ds_matched := length ?ps \<rparr>"
    using same
    by (simp add: summarize_def foldl_count_step count_where_map count_where_all count_where_none empty_summary_def)
  moreover have "total_differences (diff_analyze bs cs) = 0"
    using same by (simp add: total_differences_def)
  ultimately show ?thesis using l by simp
qed

theorem same_run_no_differences_witness:
  "total_differences (diff_analyze [sample_step 1 3 1 JNull JNull, sample_step 2 4 2 JNull JNull]
     [sample_step 6 4 2 JNull JNull, sample_step 5 3 1 JNull JNull]) = 0"
proof -
  have "rerun_of [sample_step 1 3 1 JNull JNull, sample_step 2 4 2 JNull JNull]
     [sample_step 6 4 2 JNull JNull, sample_step 5 3 1 JNull JNull]"
    by (auto simp: rerun_of_def sample_step_def)
  then show ?thesis
    using same_run_no_differences [of "[sample_step 1 3 1 JNull JNull, sample_step 2 4 2 JNull JNull]"
      "[sample_step 6 4 2 JNull JNull, sample_step 5 3 1 JNull JNull]"]
    by (simp add: step_ok_def same_behaviour_def sample_step_def)
qed

text \<open>
  The metrics balance: matched and removed steps are the baseline's, matched and added steps the
  candidate's; no counter of change exceeds the matched steps.
\<close>

theorem summary_balances:
  assumes "distinct (map rs_id bs)" "distinct (map rs_id cs)"
  defines "s \<equiv> dr_summary (diff_analyze bs cs)"
  shows "ds_matched s + ds_removed s = ds_total_baseline s \<and> ds_matched s + ds_added s = ds_total_candidate s
    \<and> ds_total_baseline s = length bs \<and> ds_total_candidate s = length cs
    \<and> ds_changed s \<le> ds_matched s \<and> ds_changed_outputs s \<le> ds_changed s \<and> ds_schema_changes s \<le> ds_changed s
    \<and> ds_new_failures s + ds_resolved_failures s \<le> ds_matched s"
proof -
  let ?ps = "align_steps bs cs"
  note facts = align_steps_facts [OF assms(1,2)]
  have "length (baselines ?ps) = length bs" "length (candidates ?ps) = length cs"
    using facts by (metis mset_eq_length)+
  then have l: "count_where (\<lambda>p. sp_baseline p \<noteq> None) ?ps = length bs"
    "count_where (\<lambda>p. sp_candidate p \<noteq> None) ?ps = length cs"
    using length_sides [of ?ps] by simp_all
  have disj: "count_where (\<lambda>x. P x \<and> (\<exists>e. f x = Some e \<and> ed_type e = DT_ERROR_INTRODUCED)) xs
      + count_where (\<lambda>x. P x \<and> (\<exists>e. f x = Some e \<and> ed_type e = DT_ERROR_RESOLVED)) xs \<le> count_where P xs"
    for P :: "step_pair \<Rightarrow> bool" and f xs by (induction xs) auto
  have mono: "count_where (\<lambda>x. P x \<and> t \<in> set (f x)) xs \<le> count_where (\<lambda>x. P x \<and> f x \<noteq> []) xs"
    for P :: "step_pair \<Rightarrow> bool" and f and t :: difference_type and xs by (rule count_where_mono) auto
  have le: "count_where (\<lambda>x. P x \<and> f x \<noteq> []) xs \<le> count_where P xs"
    for P :: "step_pair \<Rightarrow> bool" and f :: "step_pair \<Rightarrow> difference_type list" and xs by (rule count_where_mono) auto
  show ?thesis
    unfolding s_def diff_analyze_simps summarize_counts count_where_map diff_pair_method diff_pair_sides
    using count_split [of ?ps] facts l mono le disj by simp
qed

theorem summary_balances_witness:
  "ds_matched (dr_summary (diff_analyze [sample_step 1 3 1 JNull JNull] [sample_step 2 3 9 (JInt 1) JNull]))
   + ds_removed (dr_summary (diff_analyze [sample_step 1 3 1 JNull JNull] [sample_step 2 3 9 (JInt 1) JNull])) = 1"
  using summary_balances [of "[sample_step 1 3 1 JNull JNull]" "[sample_step 2 3 9 (JInt 1) JNull]"] by simp

text \<open>
  A matched step counts as a new failure exactly when the baseline step has no error and the
  candidate step has one: the status of either step plays no part.
\<close>

theorem new_failure_iff:
  "ds_new_failures (summarize m n (map diff_pair ps)) =
     count_where (\<lambda>p. sp_method p \<noteq> AM_UNMATCHED
       \<and> (\<exists>b c. sp_baseline p = Some b \<and> sp_candidate p = Some c \<and> rs_error b = JNull \<and> rs_error c \<noteq> JNull)) ps"
proof -
  have "(\<exists>e. sd_error (diff_pair p) = Some e \<and> ed_type e = DT_ERROR_INTRODUCED) \<longleftrightarrow>
      (\<exists>b c. sp_baseline p = Some b \<and> sp_candidate p = Some c \<and> rs_error b = JNull \<and> rs_error c \<noteq> JNull)" for p
    by (auto simp: diff_pair_def diff_matched_error split: option.splits)
  then show ?thesis by (simp add: summarize_counts count_where_map)
qed

end
