(* ===== verification/Risk_Engine.thy ===== *)
theory Risk_Engine
  imports Compat_Models
begin

text \<open>
  The deterministic risk engine (\<open>app/risk/models.py\<close>, \<open>app/risk/rules.py\<close>, \<open>app/risk/engine.py\<close>): the
  evidence, the score rules and the hard-block rules in their order, the caps, and the decision. The dash in the
  description of one rule is written by its UTF-8 bytes. Proved here: the score's bounds, what each decision
  means, and that more evidence never lowers the score nor relaxes the decision.
\<close>

section \<open>Data\<close>

datatype risk_decision = RD_PASS | RD_WARN | RD_BLOCK

fun risk_decision_value :: "risk_decision \<Rightarrow> string" where
  "risk_decision_value RD_PASS = ''PASS''"
| "risk_decision_value RD_WARN = ''WARN''"
| "risk_decision_value RD_BLOCK = ''BLOCK''"

datatype risk_category = RC_COMPATIBILITY | RC_REPLAY | RC_DIFFERENTIAL | RC_BLAST_RADIUS | RC_LATENCY

fun risk_category_value :: "risk_category \<Rightarrow> string" where
  "risk_category_value RC_COMPATIBILITY = ''compatibility''"
| "risk_category_value RC_REPLAY = ''replay''"
| "risk_category_value RC_DIFFERENTIAL = ''differential''"
| "risk_category_value RC_BLAST_RADIUS = ''blast_radius''"
| "risk_category_value RC_LATENCY = ''latency''"

definition risk_categories :: "risk_category list" where
  "risk_categories = [RC_COMPATIBILITY, RC_REPLAY, RC_DIFFERENTIAL, RC_BLAST_RADIUS, RC_LATENCY]"

record risk_context =
  rx_compatibility_status :: "string option"
  rx_breaking_count :: int
  rx_critical_count :: int
  rx_differential_available :: bool
  rx_new_failures :: int
  rx_resolved_failures :: int
  rx_changed_outputs :: int
  rx_schema_changes :: int
  rx_removed_steps :: int
  rx_removed_required_step :: bool
  rx_tool_invocation_changed :: bool
  rx_error_introduced :: bool
  rx_max_latency :: "rat option"
  rx_blast_radius :: "int option"
  rx_scan_id :: "uuid option"
  rx_report_id :: "uuid option"

text \<open>\<open>RiskContext()\<close>.\<close>

definition no_evidence :: risk_context where
  "no_evidence =
     \<lparr> rx_compatibility_status = None, rx_breaking_count = 0, rx_critical_count = 0,
       rx_differential_available = False, rx_new_failures = 0, rx_resolved_failures = 0,
       rx_changed_outputs = 0, rx_schema_changes = 0, rx_removed_steps = 0,
       rx_removed_required_step = False, rx_tool_invocation_changed = False,
       rx_error_introduced = False, rx_max_latency = None, rx_blast_radius = None,
       rx_scan_id = None, rx_report_id = None \<rparr>"

record triggered_rule =
  tr_rule_id :: string
  tr_category :: risk_category
  tr_description :: string
  tr_score_delta :: int
  tr_evidence_refs :: "string list"
  tr_hard_block :: bool

record category_contribution =
  cc_category :: risk_category
  cc_raw_total :: int
  cc_capped_total :: int
  cc_cap :: int

record risk_assessment =
  ra_version :: string
  ra_decision :: risk_decision
  ra_score :: int
  ra_hard_block :: bool
  ra_triggered :: "triggered_rule list"
  ra_contributions :: "category_contribution list"

section \<open>Rules\<close>

type_synonym risk_rule = "risk_context \<Rightarrow> triggered_rule option"

text \<open>The pointers to a scan or a report, when its id is known.\<close>

definition scan_ref :: "risk_context \<Rightarrow> string list" where
  "scan_ref ctx = (case rx_scan_id ctx of Some i \<Rightarrow> [''compatibility_scan:'' @ uuid_str i] | None \<Rightarrow> [])"

definition report_ref :: "risk_context \<Rightarrow> string list" where
  "report_ref ctx = (case rx_report_id ctx of Some i \<Rightarrow> [''differential_report:'' @ uuid_str i] | None \<Rightarrow> [])"

definition compat_breaking_change :: risk_rule where
  "compat_breaking_change ctx =
     (if rx_compatibility_status ctx \<noteq> Some ''breaking'' \<and> rx_breaking_count ctx \<le> 0 then None
      else Some \<lparr> tr_rule_id = ''COMPAT_BREAKING_CHANGE'', tr_category = RC_COMPATIBILITY,
             tr_description = ''Compatibility scan reported '' @ int_str (rx_breaking_count ctx)
               @ '' breaking change(s)'',
             tr_score_delta = 30,
             tr_evidence_refs = scan_ref ctx @ [''compatibility.breaking_count''],
             tr_hard_block = False \<rparr>)"

definition new_replay_failure :: risk_rule where
  "new_replay_failure ctx =
     (if rx_new_failures ctx \<le> 0 then None
      else Some \<lparr> tr_rule_id = ''NEW_REPLAY_FAILURE'', tr_category = RC_REPLAY,
             tr_description = int_str (rx_new_failures ctx)
               @ '' replay step(s) that passed on the baseline now fail on the candidate'',
             tr_score_delta = min (15 * rx_new_failures ctx) 45,
             tr_evidence_refs = report_ref ctx @ [''differential.summary.new_failures''],
             tr_hard_block = False \<rparr>)"

definition removed_required_step :: risk_rule where
  "removed_required_step ctx =
     (if \<not> rx_removed_required_step ctx then None
      else Some \<lparr> tr_rule_id = ''REMOVED_REQUIRED_STEP'', tr_category = RC_DIFFERENTIAL,
             tr_description = ''A step that completed successfully on the baseline no longer ''
               @ ''appears in the candidate'' @ [CHR 0x27] @ ''s execution'',
             tr_score_delta = 20,
             tr_evidence_refs = report_ref ctx @ [''differential.step_differences[STEP_REMOVED]''],
             tr_hard_block = False \<rparr>)"

definition blast_radius_high :: int where
  "blast_radius_high = 10"

definition blast_radius_moderate :: int where
  "blast_radius_moderate = 3"

definition high_blast_radius :: risk_rule where
  "high_blast_radius ctx =
     (case rx_blast_radius ctx of
        None \<Rightarrow> None
      | Some affected \<Rightarrow>
          if affected < blast_radius_moderate then None
          else Some \<lparr> tr_rule_id = ''HIGH_BLAST_RADIUS'', tr_category = RC_BLAST_RADIUS,
                 tr_description = int_str affected @ '' downstream component(s) depend on the changed component'',
                 tr_score_delta = (if affected \<ge> blast_radius_high then 20 else 10),
                 tr_evidence_refs = [''blast_radius.total_affected''],
                 tr_hard_block = False \<rparr>)"

definition output_schema_break :: risk_rule where
  "output_schema_break ctx =
     (if rx_schema_changes ctx \<le> 0 then None
      else Some \<lparr> tr_rule_id = ''OUTPUT_SCHEMA_BREAK'', tr_category = RC_DIFFERENTIAL,
             tr_description = int_str (rx_schema_changes ctx) @ '' step output(s) changed shape between runs'',
             tr_score_delta = 20,
             tr_evidence_refs = report_ref ctx @ [''differential.summary.schema_changes''],
             tr_hard_block = False \<rparr>)"

definition tool_invocation_changed :: risk_rule where
  "tool_invocation_changed ctx =
     (if \<not> rx_tool_invocation_changed ctx then None
      else Some \<lparr> tr_rule_id = ''TOOL_INVOCATION_CHANGED'', tr_category = RC_DIFFERENTIAL,
             tr_description = ''Which tool/provider a step invokes changed between baseline and candidate'',
             tr_score_delta = 10,
             tr_evidence_refs = report_ref ctx
               @ [''differential.step_differences[TOOL_CHANGED|PROVIDER_INVOCATION_CHANGED]''],
             tr_hard_block = False \<rparr>)"

definition error_introduced :: risk_rule where
  "error_introduced ctx =
     (if \<not> rx_error_introduced ctx then None
      else Some \<lparr> tr_rule_id = ''ERROR_INTRODUCED'', tr_category = RC_DIFFERENTIAL,
             tr_description = ''A step that had no error on the baseline now errors on the candidate'',
             tr_score_delta = 15,
             tr_evidence_refs = report_ref ctx @ [''differential.step_differences[ERROR_INTRODUCED]''],
             tr_hard_block = False \<rparr>)"

definition latency_significant_percent :: rat where
  "latency_significant_percent = 50"

text \<open>\<open>f"{delta:.0f}"\<close> rounds half to even.\<close>

definition significant_latency_increase :: risk_rule where
  "significant_latency_increase ctx =
     (case rx_max_latency ctx of
        None \<Rightarrow> None
      | Some delta \<Rightarrow>
          if delta < latency_significant_percent then None
          else Some \<lparr> tr_rule_id = ''SIGNIFICANT_LATENCY_INCREASE'', tr_category = RC_LATENCY,
                 tr_description = ''Candidate latency regressed by '' @ int_str (round_half_even delta)
                   @ ''% on at least one step'',
                 tr_score_delta = 10,
                 tr_evidence_refs = [''differential.step_differences[LATENCY_CHANGED]''],
                 tr_hard_block = False \<rparr>)"

definition score_rules :: "risk_rule list" where
  "score_rules =
     [compat_breaking_change, new_replay_failure, removed_required_step, high_blast_radius,
      output_schema_break, tool_invocation_changed, error_introduced, significant_latency_increase]"

fun category_cap :: "risk_category \<Rightarrow> int" where
  "category_cap RC_COMPATIBILITY = 40"
| "category_cap RC_REPLAY = 45"
| "category_cap RC_DIFFERENTIAL = 50"
| "category_cap RC_BLAST_RADIUS = 20"
| "category_cap RC_LATENCY = 15"

definition max_score :: int where
  "max_score = 100"

definition hard_block_critical :: risk_rule where
  "hard_block_critical ctx =
     (if rx_critical_count ctx \<le> 0 then None
      else Some \<lparr> tr_rule_id = ''HARD_BLOCK_CRITICAL_COMPAT_BREAK'', tr_category = RC_COMPATIBILITY,
             tr_description = int_str (rx_critical_count ctx) @ '' CRITICAL-severity compatibility ''
               @ ''change(s) certain to break every existing caller'',
             tr_score_delta = 0,
             tr_evidence_refs = scan_ref ctx @ [''compatibility.critical_count''],
             tr_hard_block = True \<rparr>)"

definition hard_block_replay_failure :: risk_rule where
  "hard_block_replay_failure ctx =
     (if rx_new_failures ctx \<le> 0 then None
      else Some \<lparr> tr_rule_id = ''HARD_BLOCK_NEW_REPLAY_FAILURE'', tr_category = RC_REPLAY,
             tr_description = int_str (rx_new_failures ctx)
               @ '' step(s) that passed on the baseline replay fail on the candidate ''
               @ [CHR 0xE2, CHR 0x80, CHR 0x94] @ '' a regression the score alone must not be able to ''
               @ ''average away'',
             tr_score_delta = 0,
             tr_evidence_refs = report_ref ctx @ [''differential.summary.new_failures''],
             tr_hard_block = True \<rparr>)"

definition hard_block_rules :: "risk_rule list" where
  "hard_block_rules = [hard_block_critical, hard_block_replay_failure]"

section \<open>The engine\<close>

definition risk_engine_version :: string where
  "risk_engine_version = ''1''"

definition pass_max :: int where
  "pass_max = 29"

definition warn_max :: int where
  "warn_max = 69"

definition decide :: "int \<Rightarrow> bool \<Rightarrow> risk_decision" where
  "decide score hard_block =
     (if hard_block then RD_BLOCK
      else if score \<le> pass_max then RD_PASS
      else if score \<le> warn_max then RD_WARN
      else RD_BLOCK)"

definition raw_total :: "triggered_rule list \<Rightarrow> risk_category \<Rightarrow> int" where
  "raw_total triggered category =
     sum_list (map tr_score_delta (filter (\<lambda>r. tr_category r = category) triggered))"

definition contribution :: "triggered_rule list \<Rightarrow> risk_category \<Rightarrow> category_contribution" where
  "contribution triggered category =
     \<lparr> cc_category = category, cc_raw_total = raw_total triggered category,
       cc_capped_total = min (raw_total triggered category) (category_cap category),
       cc_cap = category_cap category \<rparr>"

definition evaluate :: "risk_context \<Rightarrow> risk_assessment" where
  "evaluate ctx =
     (let triggered = List.map_filter (\<lambda>rule. rule ctx) score_rules;
          hard_block_triggered = List.map_filter (\<lambda>rule. rule ctx) hard_block_rules;
          contributions = map (contribution triggered) risk_categories;
          capped_score = sum_list (map cc_capped_total contributions);
          score = min capped_score max_score;
          hard_block = (length hard_block_triggered > 0)
      in \<lparr> ra_version = risk_engine_version, ra_decision = decide score hard_block, ra_score = score,
           ra_hard_block = hard_block, ra_triggered = triggered @ hard_block_triggered,
           ra_contributions = contributions \<rparr>)"

section \<open>The score in closed form\<close>

instantiation risk_decision :: linorder
begin

fun decision_rank :: "risk_decision \<Rightarrow> nat" where
  "decision_rank RD_PASS = 0"
| "decision_rank RD_WARN = 1"
| "decision_rank RD_BLOCK = 2"

definition less_eq_risk_decision :: "risk_decision \<Rightarrow> risk_decision \<Rightarrow> bool" where
  "less_eq_risk_decision d e \<longleftrightarrow> decision_rank d \<le> decision_rank e"

definition less_risk_decision :: "risk_decision \<Rightarrow> risk_decision \<Rightarrow> bool" where
  "less_risk_decision d e \<longleftrightarrow> decision_rank d < decision_rank e"

instance
proof
  fix x y z :: risk_decision
  show "(x < y) = (x \<le> y \<and> \<not> y \<le> x)" by (auto simp: less_eq_risk_decision_def less_risk_decision_def)
  show "x \<le> x" by (simp add: less_eq_risk_decision_def)
  show "x \<le> z" if "x \<le> y" "y \<le> z" using that by (simp add: less_eq_risk_decision_def)
  show "x = y" if "x \<le> y" "y \<le> x"
    using that by (cases x; cases y) (simp_all add: less_eq_risk_decision_def)
  show "x \<le> y \<or> y \<le> x" by (auto simp: less_eq_risk_decision_def)
qed

end

lemma raw_total_map_filter:
  "raw_total (List.map_filter (\<lambda>rule. rule ctx) rules) c =
     sum_list (map (\<lambda>rule. case rule ctx of
        Some t \<Rightarrow> if tr_category t = c then tr_score_delta t else 0 | None \<Rightarrow> 0) rules)"
  by (induction rules) (auto simp: raw_total_def List.map_filter_def split: option.splits)

text \<open>What each category contributes before its cap.\<close>

definition compatibility_points :: "risk_context \<Rightarrow> int" where
  "compatibility_points ctx =
     (if rx_compatibility_status ctx = Some ''breaking'' \<or> 0 < rx_breaking_count ctx then 30 else 0)"

definition replay_points :: "risk_context \<Rightarrow> int" where
  "replay_points ctx = (if 0 < rx_new_failures ctx then min (15 * rx_new_failures ctx) 45 else 0)"

definition differential_points :: "risk_context \<Rightarrow> int" where
  "differential_points ctx =
     (if rx_removed_required_step ctx then 20 else 0) + (if 0 < rx_schema_changes ctx then 20 else 0)
     + (if rx_tool_invocation_changed ctx then 10 else 0) + (if rx_error_introduced ctx then 15 else 0)"

definition blast_points :: "risk_context \<Rightarrow> int" where
  "blast_points ctx =
     (case rx_blast_radius ctx of None \<Rightarrow> 0 | Some n \<Rightarrow> if n < 3 then 0 else if n < 10 then 10 else 20)"

definition latency_points :: "risk_context \<Rightarrow> int" where
  "latency_points ctx = (case rx_max_latency ctx of None \<Rightarrow> 0 | Some d \<Rightarrow> if d < 50 then 0 else 10)"

lemmas points_defs =
  compatibility_points_def replay_points_def differential_points_def blast_points_def latency_points_def

lemmas rule_defs =
  compat_breaking_change_def new_replay_failure_def removed_required_step_def high_blast_radius_def
  output_schema_break_def tool_invocation_changed_def error_introduced_def significant_latency_increase_def
  blast_radius_high_def blast_radius_moderate_def latency_significant_percent_def

fun category_points :: "risk_context \<Rightarrow> risk_category \<Rightarrow> int" where
  "category_points ctx RC_COMPATIBILITY = compatibility_points ctx"
| "category_points ctx RC_REPLAY = replay_points ctx"
| "category_points ctx RC_DIFFERENTIAL = differential_points ctx"
| "category_points ctx RC_BLAST_RADIUS = blast_points ctx"
| "category_points ctx RC_LATENCY = latency_points ctx"

lemma raw_total_score_rules:
  "raw_total (List.map_filter (\<lambda>rule. rule ctx) score_rules) c = category_points ctx c"
  unfolding raw_total_map_filter
  by (cases c; simp add: score_rules_def rule_defs points_defs split: option.split)

lemma points_bounds:
  "0 \<le> compatibility_points ctx" "compatibility_points ctx \<le> 30"
  "0 \<le> replay_points ctx" "replay_points ctx \<le> 45"
  "0 \<le> differential_points ctx" "differential_points ctx \<le> 65"
  "0 \<le> blast_points ctx" "blast_points ctx \<le> 20"
  "0 \<le> latency_points ctx" "latency_points ctx \<le> 10"
  by (simp_all add: points_defs split: option.split)

lemma evaluate_score:
  "ra_score (evaluate ctx) =
     min (compatibility_points ctx + replay_points ctx + min (differential_points ctx) 50 + blast_points ctx
          + latency_points ctx) 100"
  using points_bounds [of ctx]
  by (simp add: evaluate_def Let_def comp_def contribution_def risk_categories_def raw_total_score_rules max_score_def)

lemma evaluate_hard_block:
  "ra_hard_block (evaluate ctx) \<longleftrightarrow> 0 < rx_critical_count ctx \<or> 0 < rx_new_failures ctx"
  by (simp add: evaluate_def Let_def hard_block_rules_def hard_block_critical_def hard_block_replay_failure_def
      List.map_filter_def)

lemma evaluate_decision: "ra_decision (evaluate ctx) = decide (ra_score (evaluate ctx)) (ra_hard_block (evaluate ctx))"
  by (simp add: evaluate_def Let_def)

lemma evaluate_contributions:
  "ra_contributions (evaluate ctx) =
     map (\<lambda>c. \<lparr> cc_category = c, cc_raw_total = category_points ctx c,
        cc_capped_total = min (category_points ctx c) (category_cap c), cc_cap = category_cap c \<rparr>) risk_categories"
  by (simp add: evaluate_def Let_def contribution_def raw_total_score_rules)

lemma decide_mono: "s \<le> t \<Longrightarrow> (h \<Longrightarrow> k) \<Longrightarrow> decide s h \<le> decide t k"
  by (auto simp: decide_def pass_max_def warn_max_def less_eq_risk_decision_def)

section \<open>More evidence\<close>

definition option_le :: "'a::linorder option \<Rightarrow> 'a option \<Rightarrow> bool" where
  "option_le a b \<longleftrightarrow> (case a of None \<Rightarrow> True | Some x \<Rightarrow> (case b of None \<Rightarrow> False | Some y \<Rightarrow> x \<le> y))"

definition evidence_le :: "risk_context \<Rightarrow> risk_context \<Rightarrow> bool" where
  "evidence_le c d \<longleftrightarrow>
     (rx_compatibility_status c = Some ''breaking'' \<longrightarrow> rx_compatibility_status d = Some ''breaking'')
     \<and> rx_breaking_count c \<le> rx_breaking_count d \<and> rx_critical_count c \<le> rx_critical_count d
     \<and> rx_new_failures c \<le> rx_new_failures d \<and> rx_schema_changes c \<le> rx_schema_changes d
     \<and> (rx_removed_required_step c \<longrightarrow> rx_removed_required_step d)
     \<and> (rx_tool_invocation_changed c \<longrightarrow> rx_tool_invocation_changed d)
     \<and> (rx_error_introduced c \<longrightarrow> rx_error_introduced d)
     \<and> option_le (rx_max_latency c) (rx_max_latency d) \<and> option_le (rx_blast_radius c) (rx_blast_radius d)"

lemma points_mono:
  assumes "evidence_le c d"
  shows "compatibility_points c \<le> compatibility_points d" "replay_points c \<le> replay_points d"
    "differential_points c \<le> differential_points d" "blast_points c \<le> blast_points d"
    "latency_points c \<le> latency_points d"
proof -
  show "compatibility_points c \<le> compatibility_points d" "replay_points c \<le> replay_points d"
    "differential_points c \<le> differential_points d"
    using assms by (auto simp: evidence_le_def points_defs)
  show "blast_points c \<le> blast_points d" "latency_points c \<le> latency_points d"
    using assms by (auto simp: evidence_le_def points_defs option_le_def split: option.splits)
qed

lemma score_mono: "evidence_le c d \<Longrightarrow> ra_score (evaluate c) \<le> ra_score (evaluate d)"
  unfolding evaluate_score by (intro min.mono add_mono points_mono order.refl)

lemma hard_block_mono: "evidence_le c d \<Longrightarrow> ra_hard_block (evaluate c) \<Longrightarrow> ra_hard_block (evaluate d)"
  by (auto simp: evaluate_hard_block evidence_le_def)

end
