(* ===== verification/Db_Rows.thy ===== *)
theory Db_Rows
  imports Compat_Models Diff_Models Errors
begin

text \<open>
  The rows of the relational store (\<open>app/models/*.py\<close>), one record per table with the columns the
  modelled services read or write. A JSON column holds a JSON value, \<open>None\<close> being the JSON null. A row
  that is only ever written and read together with its parent (the changes of a scan or of a report, the
  rule results of an assessment) is kept in a list of the parent row, in the order of \<open>order_index\<close>.
  Times at which rows were written are not modelled.
\<close>

section \<open>Tenants\<close>

datatype organization_role = OWNER | ADMIN | MEMBER

fun organization_role_value :: "organization_role \<Rightarrow> string" where
  "organization_role_value OWNER = ''owner''"
| "organization_role_value ADMIN = ''admin''"
| "organization_role_value MEMBER = ''member''"

record organization =
  og_id :: uuid
  og_name :: string
  og_slug :: string

record organization_member =
  om_organization_id :: uuid
  om_user_id :: uuid
  om_role :: organization_role

record user =
  us_id :: uuid
  us_email :: string
  us_full_name :: "string option"
  us_is_active :: bool
  us_github_user_id :: "int option"
  us_github_login :: "string option"

record project =
  pj_id :: uuid
  pj_organization_id :: uuid
  pj_name :: string
  pj_slug :: string

section \<open>Components and scans\<close>

record component_row =
  cm_id :: uuid
  cm_organization_id :: uuid
  cm_project_id :: uuid
  cm_type :: component_type
  cm_name :: string
  cm_slug :: string
  cm_description :: "string option"
  cm_status :: component_status

text \<open>\<open>sequence\<close> is an identity column: the store gives each new row the next number.\<close>

record component_version =
  cv_id :: uuid
  cv_component_id :: uuid
  cv_version :: string
  cv_sequence :: nat
  cv_content :: json_dict
  cv_checksum :: string
  cv_metadata :: json

record compatibility_scan =
  cs_id :: uuid
  cs_project_id :: uuid
  cs_component_id :: uuid
  cs_baseline_version_id :: uuid
  cs_candidate_version_id :: uuid
  cs_status :: compatibility_status
  cs_total_changes :: nat
  cs_compatible_count :: nat
  cs_potentially_breaking_count :: nat
  cs_breaking_count :: nat
  cs_severity_info_count :: nat
  cs_severity_low_count :: nat
  cs_severity_medium_count :: nat
  cs_severity_high_count :: nat
  cs_severity_critical_count :: nat
  cs_changes :: "change list"

section \<open>Trajectories and replays\<close>

record trajectory =
  tj_id :: uuid
  tj_organization_id :: uuid
  tj_project_id :: uuid
  tj_workflow_component_id :: "uuid option"
  tj_workflow_version_id :: "uuid option"
  tj_external_run_id :: "string option"
  tj_status :: trajectory_status
  tj_environment :: "string option"
  tj_correlation_id :: "string option"
  tj_trace_id :: "string option"
  tj_span_id :: "string option"
  tj_tags :: json
  tj_metadata :: json
  tj_next_sequence :: nat
  tj_error :: "string option"

record trajectory_event =
  te_id :: uuid
  te_trajectory_id :: uuid
  te_sequence_number :: nat
  te_event_type :: event_type
  te_component_id :: "uuid option"
  te_component_version_id :: "uuid option"
  te_parent_event_id :: "uuid option"
  te_correlation_id :: "string option"
  te_external_event_id :: "string option"
  te_input :: json
  te_output :: json
  te_error :: json
  te_metadata :: json
  te_duration_ms :: "int option"
  te_payload_truncated :: bool
  te_original_size :: "nat option"
  te_content_hash :: string

text \<open>One entry of the JSON column \<open>plan\<close> (\<open>_serialize_plan\<close>): enumerations by value, ids as text.\<close>

record plan_entry =
  pe_source_event_id :: string
  pe_sequence_number :: nat
  pe_event_type :: string
  pe_kind :: string
  pe_component_id :: "string option"
  pe_version_id :: "string option"
  pe_input :: json
  pe_output :: json
  pe_justification :: "string option"

record replay_run =
  rr_id :: uuid
  rr_organization_id :: uuid
  rr_project_id :: uuid
  rr_source_trajectory_id :: uuid
  rr_component_id :: uuid
  rr_baseline_version_id :: uuid
  rr_candidate_version_id :: uuid
  rr_status :: replay_status
  rr_idempotency_key :: "string option"
  rr_configuration :: json
  rr_plan :: "plan_entry list"
  rr_error :: "string option"

record replay_step =
  rp_run_id :: uuid
  rp_id :: uuid
  rp_sequence_number :: nat
  rp_source_event_id :: uuid
  rp_kind :: step_kind
  rp_status :: step_status
  rp_component_id :: "uuid option"
  rp_version_id :: "uuid option"
  rp_input :: json
  rp_output :: json
  rp_error :: json
  rp_justification :: "string option"
  rp_duration_ms :: "int option"

section \<open>Reports and assessments\<close>

record differential_change =
  dc_order_index :: nat
  dc_alignment_method :: alignment_method
  dc_difference_types :: "difference_type list"
  dc_sequence_number :: "int option"
  dc_baseline_step_id :: "uuid option"
  dc_candidate_step_id :: "uuid option"
  dc_baseline_status :: "string option"
  dc_candidate_status :: "string option"
  dc_output_differences :: "field_difference list"
  dc_error_difference :: "error_difference option"
  dc_latency_delta_ms :: "int option"
  dc_latency_percent_delta :: "rat option"

record report_row =
  rw_id :: uuid
  rw_organization_id :: uuid
  rw_project_id :: uuid
  rw_baseline_replay_id :: uuid
  rw_candidate_replay_id :: uuid
  rw_compatibility_scan_id :: "uuid option"
  rw_analyzer_version :: string
  rw_summary :: differential_summary
  rw_content_hash :: string
  rw_changes :: "differential_change list"

record rule_result =
  ru_order_index :: nat
  ru_rule_id :: string
  ru_category :: string
  ru_description :: string
  ru_score_delta :: int
  ru_evidence_refs :: "string list"
  ru_hard_block :: bool

record assessment_row =
  as_id :: uuid
  as_organization_id :: uuid
  as_project_id :: uuid
  as_compatibility_scan_id :: "uuid option"
  as_differential_report_id :: "uuid option"
  as_risk_engine_version :: string
  as_decision :: string
  as_score :: int
  as_hard_block :: bool
  as_content_hash :: string
  as_rule_results :: "rule_result list"

section \<open>The GitHub integration and the audit trail\<close>

record repository_mapping =
  gm_id :: uuid
  gm_organization_id :: uuid
  gm_project_id :: uuid
  gm_component_id :: "uuid option"
  gm_repository_id :: int
  gm_full_name :: string
  gm_installation_id :: "int option"
  gm_baseline_version :: "string option"

record pr_analysis =
  ga_id :: uuid
  ga_organization_id :: uuid
  ga_project_id :: uuid
  ga_repository_id :: int
  ga_pull_request_number :: int
  ga_head_sha :: string
  ga_base_sha :: string
  ga_delivery_id :: string
  ga_analysis_version :: string
  ga_status :: pr_analysis_status
  ga_decision :: "string option"
  ga_compatibility_scan_id :: "uuid option"
  ga_risk_assessment_id :: "uuid option"
  ga_check_run_id :: "int option"
  ga_publish_error :: "string option"
  ga_completed :: bool

datatype webhook_delivery_status = WD_PROCESSED | WD_REJECTED

record webhook_delivery =
  wd_delivery_id :: string
  wd_event_type :: string
  wd_status :: webhook_delivery_status
  wd_payload_hash :: string
  wd_request_id :: "string option"

datatype audit_action =
    LOGIN_SUCCESS | LOGIN_FAILURE | AUTHORIZATION_WAS_DENIED | PROJECT_CREATED | ORGANIZATION_CREATED
  | SCAN_TRIGGERED | REPLAY_TRIGGERED | GITHUB_WEBHOOK_PROCESSED | GITHUB_WEBHOOK_REJECTED
  | GITHUB_PR_ANALYSIS_STARTED | GITHUB_PR_ANALYSIS_COMPLETED | GITHUB_CHECK_PUBLISHED
  | GITHUB_CHECK_FAILED | KAFKA_ANALYSIS_ENQUEUED | KAFKA_ANALYSIS_STARTED | KAFKA_ANALYSIS_COMPLETED
  | KAFKA_ANALYSIS_FAILED

record audit_event =
  ae_organization_id :: "uuid option"
  ae_actor_user_id :: "uuid option"
  ae_action :: audit_action
  ae_resource_type :: "string option"
  ae_resource_id :: "string option"
  ae_request_id :: "string option"
  ae_correlation_id :: "string option"
  ae_metadata :: json

section \<open>The store\<close>

record db =
  db_organizations :: "organization list"
  db_members :: "organization_member list"
  db_users :: "user list"
  db_projects :: "project list"
  db_components :: "component_row list"
  db_versions :: "component_version list"
  db_scans :: "compatibility_scan list"
  db_trajectories :: "trajectory list"
  db_events :: "trajectory_event list"
  db_replays :: "replay_run list"
  db_steps :: "replay_step list"
  db_reports :: "report_row list"
  db_assessments :: "assessment_row list"
  db_mappings :: "repository_mapping list"
  db_analyses :: "pr_analysis list"
  db_deliveries :: "webhook_delivery list"
  db_audit :: "audit_event list"

definition empty_db :: db where
  "empty_db =
     \<lparr> db_organizations = [], db_members = [], db_users = [], db_projects = [], db_components = [],
       db_versions = [], db_scans = [], db_trajectories = [], db_events = [], db_replays = [],
       db_steps = [], db_reports = [], db_assessments = [], db_mappings = [], db_analyses = [],
       db_deliveries = [], db_audit = [] \<rparr>"

end
