(* ===== verification/Session.thy ===== *)
theory Session
  imports Db_Rows
begin

text \<open>
  The database session of a request (\<open>app/core/database.py\<close>): the committed store, what the running
  transaction sees, and the operations the repositories are made of. A session operation returns a value
  or an exception together with the session afterwards. \<open>concurrently others\<close> is a point at which other
  transactions may commit: \<open>others\<close> is what they do to the store.
\<close>

named_theorems session_simps

record txn =
  tx_committed :: db
  tx_current :: db

type_synonym 'a session = "txn \<Rightarrow> (exn + 'a) \<times> txn"

section \<open>Sequencing\<close>

definition sreturn :: "'a \<Rightarrow> 'a session" where
  "sreturn x = (\<lambda>s. (Inr x, s))"

definition sraise :: "exn \<Rightarrow> 'a session" where
  "sraise e = (\<lambda>s. (Inl e, s))"

definition slift :: "exn + 'a \<Rightarrow> 'a session" where
  "slift r = (\<lambda>s. (r, s))"

definition sbind :: "'a session \<Rightarrow> ('a \<Rightarrow> 'b session) \<Rightarrow> 'b session" where
  "sbind m f = (\<lambda>s. case m s of (Inl e, s') \<Rightarrow> (Inl e, s') | (Inr x, s') \<Rightarrow> f x s')"

definition sthen :: "'a session \<Rightarrow> 'b session \<Rightarrow> 'b session" where
  "sthen m n = sbind m (\<lambda>_. n)"

definition sguard :: "bool \<Rightarrow> exn \<Rightarrow> unit session" where
  "sguard b e = (if b then sreturn () else sraise e)"

text \<open>\<open>if x is None: raise e\<close>, else go on with the value.\<close>

definition srequire :: "exn \<Rightarrow> 'a option session \<Rightarrow> 'a session" where
  "srequire e m = sbind m (\<lambda>r. case r of None \<Rightarrow> sraise e | Some x \<Rightarrow> sreturn x)"

text \<open>\<open>try: m except IntegrityError: handler\<close>.\<close>

definition scatch_integrity :: "'a session \<Rightarrow> 'a session \<Rightarrow> 'a session" where
  "scatch_integrity m handler =
     (\<lambda>s. case m s of
        (Inl IntegrityError, s') \<Rightarrow> handler s'
      | r \<Rightarrow> r)"

section \<open>Transactions\<close>

definition scommit :: "unit session" where
  "scommit = (\<lambda>s. (Inr (), s \<lparr> tx_committed := tx_current s \<rparr>))"

definition srollback :: "unit session" where
  "srollback = (\<lambda>s. (Inr (), s \<lparr> tx_current := tx_committed s \<rparr>))"

definition concurrently :: "(db \<Rightarrow> db) \<Rightarrow> unit session" where
  "concurrently others =
     (\<lambda>s. (Inr (), \<lparr> tx_committed = others (tx_committed s), tx_current = others (tx_current s) \<rparr>))"

definition begin_txn :: "db \<Rightarrow> txn" where
  "begin_txn d = \<lparr> tx_committed = d, tx_current = d \<rparr>"

text \<open>
  \<open>get_db_session\<close>: the store after a request is what was current when the handler returned, and what
  was committed when it raised.
\<close>

definition request :: "'a session \<Rightarrow> db \<Rightarrow> (exn + 'a) \<times> db" where
  "request m d =
     (case m (begin_txn d) of
        (Inl e, s) \<Rightarrow> (Inl e, tx_committed s)
      | (Inr x, s) \<Rightarrow> (Inr x, tx_current s))"

text \<open>An attempt that is a request of its own.\<close>

definition as_request :: "'a session \<Rightarrow> 'a session" where
  "as_request m = (\<lambda>s. case request m (tx_current s) of (r, d) \<Rightarrow> (r, begin_txn d))"

section \<open>Rows\<close>

definition sread :: "(db \<Rightarrow> 'a) \<Rightarrow> 'a session" where
  "sread f = (\<lambda>s. (Inr (f (tx_current s)), s))"

definition swrite :: "(db \<Rightarrow> db) \<Rightarrow> unit session" where
  "swrite f = (\<lambda>s. (Inr (), s \<lparr> tx_current := f (tx_current s) \<rparr>))"

text \<open>\<open>scalar_one_or_none()\<close>.\<close>

fun one_or_none :: "'r list \<Rightarrow> exn + 'r option" where
  "one_or_none [] = Inr None"
| "one_or_none [r] = Inr (Some r)"
| "one_or_none (_ # _ # _) = Inl MultipleResultsFound"

definition fetch_one :: "(db \<Rightarrow> 'r list) \<Rightarrow> ('r \<Rightarrow> bool) \<Rightarrow> 'r option session" where
  "fetch_one table P = (\<lambda>s. (one_or_none (filter P (table (tx_current s))), s))"

text \<open>
  The flush of a new row: it is refused when the row clashes with a stored one (\<open>clash\<close>, the unique
  constraints of the table) or refers to a row that is not there (\<open>linked\<close>, its foreign keys).
\<close>

definition flush_row ::
  "(db \<Rightarrow> 'r list) \<Rightarrow> ('r \<Rightarrow> 'r \<Rightarrow> bool) \<Rightarrow> ('r \<Rightarrow> db \<Rightarrow> bool) \<Rightarrow> ('r \<Rightarrow> db \<Rightarrow> db) \<Rightarrow> 'r \<Rightarrow> unit session" where
  "flush_row table clash linked put row =
     (\<lambda>s. if list_ex (clash row) (table (tx_current s)) \<or> \<not> linked row (tx_current s) then (Inl IntegrityError, s)
          else (Inr (), s \<lparr> tx_current := put row (tx_current s) \<rparr>))"

text \<open>Two rows clash on a nullable key only when both have it: a null never equals a null.\<close>

definition same_key :: "'k option \<Rightarrow> 'k option \<Rightarrow> bool" where
  "same_key a b \<longleftrightarrow> a \<noteq> None \<and> a = b"

text \<open>\<open>LIMIT limit OFFSET (page - 1) * limit\<close>.\<close>

definition page_of :: "nat \<Rightarrow> nat \<Rightarrow> 'a list \<Rightarrow> 'a list" where
  "page_of page page_size xs = take page_size (drop ((page - 1) * page_size) xs)"

section \<open>Lemmas\<close>

lemma session_basic [session_simps]:
  "sreturn x s = (Inr x, s)"
  "sraise e s = (Inl e, s)"
  "slift r s = (r, s)"
  "sread f s = (Inr (f (tx_current s)), s)"
  "swrite g s = (Inr (), s \<lparr> tx_current := g (tx_current s) \<rparr>)"
  "scommit s = (Inr (), s \<lparr> tx_committed := tx_current s \<rparr>)"
  "srollback s = (Inr (), s \<lparr> tx_current := tx_committed s \<rparr>)"
  by (simp_all add: sreturn_def sraise_def slift_def sread_def swrite_def scommit_def srollback_def)

lemma begin_txn_simps [simp]:
  "tx_current (begin_txn d) = d"
  "tx_committed (begin_txn d) = d"
  by (simp_all add: begin_txn_def)

lemma sbind_simps [session_simps]:
  "m s = (Inl e, s') \<Longrightarrow> sbind m f s = (Inl e, s')"
  "m s = (Inr x, s') \<Longrightarrow> sbind m f s = f x s'"
  by (simp_all add: sbind_def)

lemma sthen_simps [session_simps]:
  "m s = (Inl e, s') \<Longrightarrow> sthen m n s = (Inl e, s')"
  "m s = (Inr x, s') \<Longrightarrow> sthen m n s = n s'"
  by (simp_all add: sthen_def sbind_def)

lemma sguard_simps [session_simps]:
  "sguard True e s = (Inr (), s)"
  "sguard False e s = (Inl e, s)"
  by (simp_all add: sguard_def session_simps)

lemma srequire_simps [session_simps]:
  "m s = (Inl e', s') \<Longrightarrow> srequire e m s = (Inl e', s')"
  "m s = (Inr None, s') \<Longrightarrow> srequire e m s = (Inl e, s')"
  "m s = (Inr (Some x), s') \<Longrightarrow> srequire e m s = (Inr x, s')"
  by (simp_all add: srequire_def sbind_def session_simps)

lemma sbind_eq_Inr:
  "sbind m f s = (Inr y, t) \<longleftrightarrow> (\<exists>x s'. m s = (Inr x, s') \<and> f x s' = (Inr y, t))"
  by (auto simp: sbind_def split: prod.splits sum.splits)

lemma sthen_eq_Inr:
  "sthen m n s = (Inr y, t) \<longleftrightarrow> (\<exists>x s'. m s = (Inr x, s') \<and> n s' = (Inr y, t))"
  by (simp add: sthen_def sbind_eq_Inr)

lemma srequire_eq_Inr:
  "srequire e m s = (Inr x, t) \<longleftrightarrow> m s = (Inr (Some x), t)"
  by (auto simp: srequire_def sbind_def session_simps split: prod.splits sum.splits option.splits)

lemma sguard_eq_Inr: "sguard b e s = (Inr u, t) \<longleftrightarrow> b \<and> t = s"
  by (auto simp: sguard_def session_simps)

lemma fetch_one_eq_Inr:
  "fetch_one table P s = (Inr r, t) \<longleftrightarrow> t = s \<and> one_or_none (filter P (table (tx_current s))) = Inr r"
  by (auto simp: fetch_one_def)

lemma one_or_none_None [simp]: "one_or_none rs = Inr None \<longleftrightarrow> rs = []"
  by (cases rs rule: one_or_none.cases) simp_all

lemma one_or_none_Some [simp]: "one_or_none rs = Inr (Some r) \<longleftrightarrow> rs = [r]"
  by (cases rs rule: one_or_none.cases) auto

lemma one_or_none_Inl: "one_or_none rs = Inl e \<longleftrightarrow> e = MultipleResultsFound \<and> 2 \<le> length rs"
  by (cases rs rule: one_or_none.cases) auto

lemma filter_single: "filter P rs = [r] \<Longrightarrow> r \<in> set rs \<and> P r"
proof -
  assume f: "filter P rs = [r]"
  have "r \<in> set (filter P rs)" unfolding f by simp
  then show "r \<in> set rs \<and> P r" by simp
qed

lemma flush_row_eq_Inr:
  "flush_row table clash linked put row s = (Inr u, t) \<longleftrightarrow>
     \<not> list_ex (clash row) (table (tx_current s)) \<and> linked row (tx_current s) \<and> t = s \<lparr> tx_current := put row (tx_current s) \<rparr>"
  by (auto simp: flush_row_def)

lemma scatch_simps [session_simps]:
  "m s = (Inr x, s') \<Longrightarrow> scatch_integrity m h s = (Inr x, s')"
  "m s = (Inl IntegrityError, s') \<Longrightarrow> scatch_integrity m h s = h s'"
  "m s = (Inl e, s') \<Longrightarrow> e \<noteq> IntegrityError \<Longrightarrow> scatch_integrity m h s = (Inl e, s')"
  by (auto simp: scatch_integrity_def split: exn.splits)

lemma same_key_sym: "same_key a b \<longleftrightarrow> same_key b a"
  by (auto simp: same_key_def)

lemma fetch_one_Some:
  assumes "fetch_one table P s = (Inr (Some r), t)"
  shows "r \<in> set (table (tx_current s)) \<and> P r"
proof -
  have "filter P (table (tx_current s)) = [r]" using assms by (simp add: fetch_one_eq_Inr)
  from filter_single [OF this] show ?thesis .
qed

lemma concurrently_id [simp]: "concurrently (\<lambda>d. d) s = (Inr (), s)"
  by (simp add: concurrently_def)

text \<open>A condition that determines the key of a table is met by one row at most.\<close>

lemma one_match:
  assumes "distinct (map key rs)" "r \<in> set rs" "P r" "\<And>x. x \<in> set rs \<Longrightarrow> P x \<Longrightarrow> key x = key r"
  shows "filter P rs = [r]"
  using assms
proof (induction rs)
  case (Cons x xs)
  show ?case
  proof (cases "x = r")
    case True
    have "\<not> P y" if y: "y \<in> set xs" for y
    proof
      assume "P y"
      then have "key y = key r" using Cons.prems(4) y by simp
      then show False using Cons.prems(1) y True by (metis distinct.simps(2) image_eqI list.simps(9) list.set_map)
    qed
    then have "filter P xs = []" by (simp add: filter_empty_conv)
    then show ?thesis using True Cons.prems(3) by simp
  next
    case False
    then have r: "r \<in> set xs" using Cons.prems(2) by simp
    have "\<not> P x"
    proof
      assume "P x"
      then have "key x = key r" using Cons.prems(4) by simp
      then show False using Cons.prems(1) r by (metis distinct.simps(2) image_eqI list.simps(9) list.set_map)
    qed
    then show ?thesis using Cons.IH [OF _ r Cons.prems(3)] Cons.prems(1,4) by simp
  qed
qed simp

section \<open>Weakest preconditions\<close>

text \<open>
  \<open>wp m Q E s\<close>: run from \<open>s\<close>, the operation returns a value and a session that satisfy \<open>Q\<close>, or raises an
  exception and leaves a session that satisfy \<open>E\<close>. It is an equation for every construct, so the simplifier
  turns a statement about a whole handler into one about the store.
\<close>

named_theorems wp_simps

definition wp :: "'a session \<Rightarrow> ('a \<Rightarrow> txn \<Rightarrow> bool) \<Rightarrow> (exn \<Rightarrow> txn \<Rightarrow> bool) \<Rightarrow> txn \<Rightarrow> bool" where
  "wp m Q E s \<longleftrightarrow> (case m s of (Inl e, t) \<Rightarrow> E e t | (Inr x, t) \<Rightarrow> Q x t)"

lemma wp_basic [wp_simps]:
  "wp (sreturn x) Q E s \<longleftrightarrow> Q x s"
  "wp (sraise e) Q E s \<longleftrightarrow> E e s"
  "wp (slift r) Q E s \<longleftrightarrow> (case r of Inl e \<Rightarrow> E e s | Inr x \<Rightarrow> Q x s)"
  "wp (sread f) Q E s \<longleftrightarrow> Q (f (tx_current s)) s"
  "wp (swrite g) U E s \<longleftrightarrow> U () (s \<lparr> tx_current := g (tx_current s) \<rparr>)"
  "wp scommit U E s \<longleftrightarrow> U () (s \<lparr> tx_committed := tx_current s \<rparr>)"
  "wp srollback U E s \<longleftrightarrow> U () (s \<lparr> tx_current := tx_committed s \<rparr>)"
  "wp (concurrently others) U E s \<longleftrightarrow>
     U () \<lparr> tx_committed = others (tx_committed s), tx_current = others (tx_current s) \<rparr>"
  by (simp_all add: wp_def session_basic concurrently_def split: sum.split)

lemma wp_sbind [wp_simps]: "wp (sbind m f) Q E s \<longleftrightarrow> wp m (\<lambda>x t. wp (f x) Q E t) E s"
  by (simp add: wp_def sbind_def split: prod.split sum.split)

lemma wp_sthen [wp_simps]: "wp (sthen m n) Q E s \<longleftrightarrow> wp m (\<lambda>_ t. wp n Q E t) E s"
  by (simp add: sthen_def wp_sbind)

lemma wp_sguard [wp_simps]: "wp (sguard b e) Q E s \<longleftrightarrow> (if b then Q () s else E e s)"
  by (simp add: sguard_def wp_basic)

lemma wp_srequire [wp_simps]:
  "wp (srequire e m) Q E s \<longleftrightarrow> wp m (\<lambda>r t. case r of None \<Rightarrow> E e t | Some x \<Rightarrow> Q x t) E s"
  unfolding srequire_def wp_sbind by (rule arg_cong [where f = "\<lambda>q. wp m q E s"]) (auto simp: wp_basic fun_eq_iff split: option.split)

lemma wp_scatch [wp_simps]:
  "wp (scatch_integrity m h) Q E s \<longleftrightarrow>
     wp m Q (\<lambda>e t. if e = IntegrityError then wp h Q E t else E e t) s"
  by (simp add: wp_def scatch_integrity_def split: prod.split sum.split exn.split)

lemma wp_fetch_one [wp_simps]:
  "wp (fetch_one table P) Q E s \<longleftrightarrow>
     (case one_or_none (filter P (table (tx_current s))) of Inl e \<Rightarrow> E e s | Inr r \<Rightarrow> Q r s)"
  by (simp add: wp_def fetch_one_def split: sum.split)

lemma wp_flush_row [wp_simps]:
  "wp (flush_row table clash linked put row) U E s \<longleftrightarrow>
     (if list_ex (clash row) (table (tx_current s)) \<or> \<not> linked row (tx_current s) then E IntegrityError s
      else U () (s \<lparr> tx_current := put row (tx_current s) \<rparr>))"
  by (simp add: wp_def flush_row_def)

lemma wp_if [wp_simps]: "wp (if b then m else n) Q E s \<longleftrightarrow> (if b then wp m Q E s else wp n Q E s)"
  by simp

lemma wp_mono:
  "wp m Q E s \<Longrightarrow> (\<And>x t. Q x t \<Longrightarrow> Q' x t) \<Longrightarrow> (\<And>e t. E e t \<Longrightarrow> E' e t) \<Longrightarrow> wp m Q' E' s"
  by (auto simp: wp_def split: prod.splits sum.splits)

lemma wp_conj: "wp m Q E s \<Longrightarrow> wp m Q' E' s \<Longrightarrow> wp m (\<lambda>x t. Q x t \<and> Q' x t) (\<lambda>e t. E e t \<and> E' e t) s"
  by (auto simp: wp_def split: prod.splits sum.splits)

lemma wp_Inr: "m s = (Inr x, t) \<Longrightarrow> wp m Q E s \<Longrightarrow> Q x t"
  by (simp add: wp_def)

lemma wp_Inl: "m s = (Inl e, t) \<Longrightarrow> wp m Q E s \<Longrightarrow> E e t"
  by (simp add: wp_def)

text \<open>Both stores of a session satisfy an invariant of the store.\<close>

definition both :: "(db \<Rightarrow> bool) \<Rightarrow> txn \<Rightarrow> bool" where
  "both I s \<longleftrightarrow> I (tx_committed s) \<and> I (tx_current s)"

lemma both_simps [simp]:
  "both I (s \<lparr> tx_current := d \<rparr>) \<longleftrightarrow> I (tx_committed s) \<and> I d"
  "both I (s \<lparr> tx_committed := d \<rparr>) \<longleftrightarrow> I d \<and> I (tx_current s)"
  "both I \<lparr> tx_committed = c, tx_current = d \<rparr> \<longleftrightarrow> I c \<and> I d"
  "both I (begin_txn d) \<longleftrightarrow> I d"
  by (simp_all add: both_def begin_txn_def)

lemma bothD: "both I s \<Longrightarrow> I (tx_committed s)" "both I s \<Longrightarrow> I (tx_current s)"
  by (simp_all add: both_def)

text \<open>What a handler does to the store of the next request.\<close>

lemma request_wp:
  "wp m (\<lambda>x t. Q x (tx_current t)) (\<lambda>e t. E e (tx_committed t)) (begin_txn d) \<Longrightarrow>
   (case request m d of (Inl e, d') \<Rightarrow> E e d' | (Inr x, d') \<Rightarrow> Q x d')"
  by (auto simp: wp_def request_def split: prod.splits sum.splits)

section \<open>Operations that only read\<close>

named_theorems readonly_intros

definition readonly :: "'a session \<Rightarrow> bool" where
  "readonly m \<longleftrightarrow> (\<forall>s. snd (m s) = s)"

lemma readonly_basic [readonly_intros]:
  "readonly (sreturn x)" "readonly (sraise e)" "readonly (slift r)" "readonly (sread f)"
  "readonly (sguard b e)" "readonly (fetch_one table P)"
  by (simp_all add: readonly_def session_basic sguard_def fetch_one_def)

lemma readonly_sbind [readonly_intros]:
  assumes "readonly m" "\<And>x. readonly (f x)"
  shows "readonly (sbind m f)"
  unfolding readonly_def
proof
  fix s
  show "snd (sbind m f s) = s"
  proof (cases "m s")
    case (Pair r t)
    then have "t = s" using assms(1) by (auto simp: readonly_def dest: spec [of _ s])
    then show ?thesis using Pair assms(2) by (cases r) (simp_all add: sbind_def readonly_def)
  qed
qed

lemma readonly_sthen [readonly_intros]: "readonly m \<Longrightarrow> readonly n \<Longrightarrow> readonly (sthen m n)"
  by (simp add: sthen_def readonly_sbind)

lemma readonly_srequire [readonly_intros]: "readonly m \<Longrightarrow> readonly (srequire e m)"
  unfolding srequire_def by (rule readonly_sbind) (simp_all add: readonly_basic split: option.split)

lemma wp_readonly: "readonly m \<Longrightarrow> (\<And>x. Q x s) \<Longrightarrow> (\<And>e. E e s) \<Longrightarrow> wp m Q E s"
  unfolding readonly_def wp_def by (drule spec [of _ s]) (auto split: prod.split sum.split)

lemma wp_sbind_readonly:
  "readonly m \<Longrightarrow> (\<And>x. wp (f x) Q E s) \<Longrightarrow> (\<And>e. E e s) \<Longrightarrow> wp (sbind m f) Q E s"
  unfolding wp_sbind by (rule wp_readonly)

lemma wp_sthen_readonly:
  "readonly m \<Longrightarrow> wp n Q E s \<Longrightarrow> (\<And>e. E e s) \<Longrightarrow> wp (sthen m n) Q E s"
  unfolding wp_sthen by (rule wp_readonly)

lemma readonly_result: "readonly m \<Longrightarrow> m s = (fst (m s), s)"
  by (metis prod.collapse readonly_def)

lemma readonly_eq: "readonly m \<Longrightarrow> m s = (r, t) \<longleftrightarrow> fst (m s) = r \<and> t = s"
  using readonly_result [of m s] by auto

lemma as_request_eq_Inr:
  "as_request m s = (Inr x, t) \<longleftrightarrow> (\<exists>u. m (begin_txn (tx_current s)) = (Inr x, u) \<and> t = begin_txn (tx_current u))"
  by (auto simp: as_request_def request_def split: prod.splits sum.splits)

lemma readonly_state: "readonly m \<Longrightarrow> m s = (r, t) \<Longrightarrow> t = s"
  unfolding readonly_def by (drule spec [of _ s]) simp

section \<open>Contracts\<close>

text \<open>
  A status column with its rules: a terminal status allows no transition, any other allows one, and a
  transition only goes down in \<open>rank\<close>.
\<close>

locale status_machine =
  fixes allowed :: "'s \<Rightarrow> 's \<Rightarrow> bool"
    and terminal :: "'s \<Rightarrow> bool"
    and rank :: "'s \<Rightarrow> nat"
  assumes terminal_final: "terminal s \<Longrightarrow> \<not> allowed s t"
    and progress: "\<not> terminal s \<Longrightarrow> \<exists>t. allowed s t"
    and descends: "allowed s t \<Longrightarrow> rank t < rank s"
begin

lemma terminal_stays: "allowed\<^sup>*\<^sup>* s t \<Longrightarrow> terminal s \<Longrightarrow> t = s"
  by (induction rule: converse_rtranclp_induct) (simp_all add: terminal_final)

lemma steps_bounded: "(allowed ^^ n) s t \<Longrightarrow> n + rank t \<le> rank s"
proof (induction n arbitrary: t)
  case (Suc n)
  then obtain u where u: "(allowed ^^ n) s u" "allowed u t" by auto
  show ?case using Suc.IH [OF u(1)] descends [OF u(2)] by simp
qed simp

lemma never_returns: "allowed\<^sup>+\<^sup>+ s t \<Longrightarrow> t \<noteq> s"
proof -
  assume "allowed\<^sup>+\<^sup>+ s t"
  then have "rank t < rank s" by (induction rule: tranclp_induct) (auto dest: descends)
  then show "t \<noteq> s" by auto
qed

lemma reaches_terminal: "\<exists>t. allowed\<^sup>*\<^sup>* s t \<and> terminal t"
proof (induction "rank s" arbitrary: s rule: less_induct)
  case less
  show ?case
  proof (cases "terminal s")
    case False
    then obtain u where u: "allowed s u" using progress by blast
    then obtain t where "allowed\<^sup>*\<^sup>* u t" "terminal t" using less [OF descends [OF u]] by blast
    then show ?thesis using u by (meson converse_rtranclp_into_rtranclp)
  qed blast
qed

end

text \<open>
  A table with unique constraints: the rows that may not stand together (\<open>clash\<close>) are told by their keys,
  and an insert appends a row with the keys given. Then no flush can break the constraints, and a query that
  fixes a key finds one row at most.
\<close>

fun no_clash :: "('r \<Rightarrow> 'r \<Rightarrow> bool) \<Rightarrow> 'r list \<Rightarrow> bool" where
  "no_clash clash [] = True"
| "no_clash clash (r # rs) = (\<not> list_ex (clash r) rs \<and> no_clash clash rs)"

lemma no_clash_filter_single:
  assumes "no_clash clash rs" "\<And>x y. P x \<Longrightarrow> P y \<Longrightarrow> clash x y"
  shows "length (filter P rs) \<le> 1"
  using assms
proof (induction rs)
  case (Cons r rs)
  have "filter P rs = []" if "P r"
    using Cons.prems(1) Cons.prems(2) [OF that] by (auto simp: filter_empty_conv list_ex_iff)
  then show ?case using Cons by auto
qed simp

lemma no_clash_unique: "no_clash clash rs \<Longrightarrow> x \<in> set rs \<Longrightarrow> y \<in> set rs \<Longrightarrow> clash x y \<Longrightarrow> clash y x \<Longrightarrow> x = y"
  by (induction rs) (auto simp: list_ex_iff)

text \<open>Changes of rows in place that keep the keys.\<close>

lemma no_clash_map:
  assumes "no_clash clash rs" "\<And>a b. clash (f a) (f b) \<longleftrightarrow> clash a b"
  shows "no_clash clash (map f rs)"
  using assms by (induction rs) (auto simp: list_ex_iff)

lemma no_clash_filter:
  assumes "no_clash clash rs" "r \<in> set rs" "P r" "\<And>x. P x \<Longrightarrow> clash x r \<and> clash r x"
  shows "filter P rs = [r]"
  using assms(1,2)
proof (induction rs)
  case (Cons x xs)
  show ?case
  proof (cases "x = r")
    case True
    then have "filter P xs = []" using Cons.prems(1) assms(4) by (auto simp: filter_empty_conv list_ex_iff)
    then show ?thesis using True assms(3) by simp
  next
    case False
    then have "r \<in> set xs" using Cons.prems(2) by simp
    moreover have "\<not> P x" using Cons.prems(1) assms(4) calculation by (auto simp: list_ex_iff)
    ultimately show ?thesis using Cons by simp
  qed
qed simp

locale unique_table =
  fixes clash :: "'r \<Rightarrow> 'r \<Rightarrow> bool"
    and table :: "db \<Rightarrow> 'r list"
    and put :: "'r \<Rightarrow> db \<Rightarrow> db"
  assumes clash_sym: "clash a b \<longleftrightarrow> clash b a"
    and put_row: "\<exists>r'. table (put r d) = table d @ [r'] \<and> (\<forall>x. clash r' x \<longleftrightarrow> clash r x)"
begin

lemma no_clash_append: "no_clash clash (rs @ [r]) \<longleftrightarrow> no_clash clash rs \<and> \<not> list_ex (clash r) rs"
  by (induction rs) (auto simp: list_ex_iff clash_sym)

lemma flush_keeps:
  assumes "flush_row table clash linked put r s = (Inr u, t)" "no_clash clash (table (tx_current s))"
  shows "no_clash clash (table (tx_current t))"
proof -
  obtain r' where r': "table (put r (tx_current s)) = table (tx_current s) @ [r']" "\<forall>x. clash r' x \<longleftrightarrow> clash r x"
    using put_row by blast
  then show ?thesis
    using assms by (auto simp: flush_row_eq_Inr no_clash_append list_ex_iff)
qed

text \<open>A row just inserted is the one a query by its key finds.\<close>

lemma flush_then_fetch:
  assumes "flush_row table clash linked put r s = (Inr u, t)" "\<And>x. P x \<Longrightarrow> clash r x"
    and "table (put r (tx_current s)) = table (tx_current s) @ [r]" "P r"
  shows "fetch_one table P t = (Inr (Some r), t)"
proof -
  have "\<not> P x" if "x \<in> set (table (tx_current s))" for x
    using assms(1,2) that by (auto simp: flush_row_eq_Inr list_ex_iff)
  then have "filter P (table (tx_current s)) = []" by (simp add: filter_empty_conv)
  then show ?thesis using assms(1,3,4) by (simp add: flush_row_eq_Inr fetch_one_def)
qed

lemma fetch_key:
  assumes "no_clash clash (table (tx_current s))" "\<And>x y. P x \<Longrightarrow> P y \<Longrightarrow> clash x y"
  shows "\<exists>r. fetch_one table P s = (Inr r, s)"
proof -
  have "length (filter P (table (tx_current s))) \<le> 1"
    using no_clash_filter_single [of clash "table (tx_current s)" P] assms by blast
  then show ?thesis
    by (cases "filter P (table (tx_current s))" rule: one_or_none.cases) (auto simp: fetch_one_def)
qed

end

text \<open>
  An operation that creates a row under a key the caller supplies: once it has succeeded, a retry (with
  whatever fresh id) returns the same result and changes nothing.
\<close>

locale retriable =
  fixes op :: "uuid \<Rightarrow> 'r session"
  assumes retry: "op i s = (Inr r, t) \<Longrightarrow> op j t = (Inr r, t)"
begin

lemma retries: "op i s = (Inr r, t) \<Longrightarrow> j \<in> set js \<Longrightarrow> op j t = (Inr r, t)"
  by (rule retry)

lemma retry_many:
  "op i s = (Inr r, t) \<Longrightarrow> fold (\<lambda>j (out, u). op j u) js (Inr r, t) = (Inr r, t)"
  by (induction js) (simp_all add: retry)

end

end
