(* ===== verification/Json_Text.thy ===== *)
theory Json_Text
  imports Errors Redaction
begin

text \<open>
  \<open>json.dumps\<close> with sorted keys and compact separators, and what the code builds on it: content
  checksums (\<open>app/domain/checksums.py\<close>), the integrity hash of an event (\<open>app/trajectory/hashing.py\<close>) and
  the payload limits (\<open>app/trajectory/payload_limits.py\<close>). The digest \<open>hashlib.sha256(...).hexdigest()\<close> of
  a text is a parameter, \<open>sha256\<close>. Proved here: the size of what is stored, and that texts of events that
  differ in their sequence number differ.
\<close>

section \<open>Serialization\<close>

definition json_escape :: "bool \<Rightarrow> char \<Rightarrow> string" where
  "json_escape ensure_ascii c =
     (let n = code c; b = char_of (92 :: nat)
      in if n = 34 \<or> n = 92 then [b, c]
         else if n = 8 then [b, CHR ''b'']
         else if n = 12 then [b, CHR ''f'']
         else if n = 10 then [b, CHR ''n'']
         else if n = 13 then [b, CHR ''r'']
         else if n = 9 then [b, CHR ''t'']
         else if n < 32 \<or> ensure_ascii \<and> 126 < n then [b, CHR ''u''] @ hex_digits 4 n
         else [c])"

definition json_str :: "bool \<Rightarrow> string \<Rightarrow> string" where
  "json_str ensure_ascii s =
     [char_of (34 :: nat)] @ concat (map (json_escape ensure_ascii) s) @ [char_of (34 :: nat)]"

fun comma_join :: "string list \<Rightarrow> string" where
  "comma_join [] = []"
| "comma_join [s] = s"
| "comma_join (s # ss) = s @ '','' @ comma_join ss"

fun json_dumps :: "bool \<Rightarrow> json \<Rightarrow> string" where
  "json_dumps ea JNull = ''null''"
| "json_dumps ea (JBool b) = (if b then ''true'' else ''false'')"
| "json_dumps ea (JInt i) = int_str i"
| "json_dumps ea (JFloat q) = float_repr q"
| "json_dumps ea (JStr s) = json_str ea s"
| "json_dumps ea (JList xs) = ''['' @ comma_join (map (json_dumps ea) xs) @ '']''"
| "json_dumps ea (JDict kvs) =
     ''{'' @ comma_join (map (\<lambda>(k, t). json_str ea k @ '':'' @ t)
       (sort_key fst (map (\<lambda>(k, v). (k, json_dumps ea v)) kvs))) @ ''}''"

section \<open>Checksums\<close>

definition canonicalize_content :: "json_dict \<Rightarrow> string" where
  "canonicalize_content content = json_dumps False (JDict content)"

definition compute_checksum :: "(string \<Rightarrow> string) \<Rightarrow> json_dict \<Rightarrow> string" where
  "compute_checksum sha256 content = sha256 (canonicalize_content content)"

definition event_content :: "uuid \<Rightarrow> nat \<Rightarrow> string \<Rightarrow> uuid option \<Rightarrow> json \<Rightarrow> json \<Rightarrow> json \<Rightarrow> json_dict" where
  "event_content trajectory_id sequence_number event_type component_version_id input output error =
     [(''trajectory_id'', JStr (uuid_str trajectory_id)),
      (''sequence_number'', JInt (int sequence_number)),
      (''event_type'', JStr event_type),
      (''component_version_id'',
         case component_version_id of Some v \<Rightarrow> JStr (uuid_str v) | None \<Rightarrow> JNull),
      (''input'', input), (''output'', output), (''error'', error)]"

definition compute_event_hash ::
  "(string \<Rightarrow> string) \<Rightarrow> uuid \<Rightarrow> nat \<Rightarrow> event_type \<Rightarrow> uuid option \<Rightarrow> json \<Rightarrow> json \<Rightarrow> json \<Rightarrow> string" where
  "compute_event_hash sha256 trajectory_id sequence_number et component_version_id input output error =
     sha256 (canonicalize_content (event_content trajectory_id sequence_number (event_type_value et)
       component_version_id input output error))"

section \<open>Payload limits\<close>

definition soft_limit_bytes :: nat where
  "soft_limit_bytes = 32768"

definition hard_limit_bytes :: nat where
  "hard_limit_bytes = 1048576"

definition truncation_preview_chars :: nat where
  "truncation_preview_chars = 2048"

definition canonical_json :: "json \<Rightarrow> string" where
  "canonical_json v = json_dumps True v"

text \<open>The text is ASCII, so its UTF-8 encoding has one byte per character.\<close>

definition canonical_size_bytes :: "json \<Rightarrow> nat" where
  "canonical_size_bytes v = length (canonical_json v)"

definition enforce_payload_limit :: "json \<Rightarrow> string \<Rightarrow> exn + (json \<times> bool \<times> nat option)" where
  "enforce_payload_limit v field_name =
     (if v = JNull then Inr (JNull, False, None)
      else
        let size = canonical_size_bytes v
        in if size \<le> soft_limit_bytes then Inr (v, False, None)
           else if size > hard_limit_bytes then Inl (Dom (TrajectoryPayloadTooLarge field_name size hard_limit_bytes))
           else Inr (JDict [(''_truncated'', JBool True),
                            (''_original_size_bytes'', JInt (int size)),
                            (''_preview'', JStr (take truncation_preview_chars (canonical_json v)))],
                     True, Some size))"

section \<open>The text of numbers\<close>

definition digits_value :: "string \<Rightarrow> int" where
  "digits_value s = foldl (\<lambda>a c. 10 * a + (int (code c) - 48)) 0 s"

lemma digit_cases: "0 \<le> n \<Longrightarrow> n < 10 \<Longrightarrow> n \<in> {0, 1, 2, 3, 4, 5, 6, 7, 8, 9 :: int}"
  unfolding insert_iff empty_iff by presburger

lemma code_digit: "0 \<le> n \<Longrightarrow> n < 10 \<Longrightarrow> int (code (''0123456789'' ! nat n)) = n + 48"
  using digit_cases [of n] by (auto simp: code_def)

lemma digits_value_int: "0 \<le> n \<Longrightarrow> digits_value (int_digits n) = n"
proof (induction n rule: int_digits.induct)
  case (1 n)
  show ?case
  proof (cases "n < 10")
    case True
    then show ?thesis using 1 by (simp add: int_digits.simps [of n] digits_value_def code_digit)
  next
    case False
    then have "digits_value (int_digits (n div 10)) = n div 10" using 1 by simp
    then show ?thesis
      using False by (simp add: int_digits.simps [of n] digits_value_def code_digit)
  qed
qed

lemma int_str_inject: "0 \<le> m \<Longrightarrow> 0 \<le> n \<Longrightarrow> int_str m = int_str n \<longleftrightarrow> m = n"
  by (auto simp: int_str_def) (metis digits_value_int)

definition printable :: "char \<Rightarrow> bool" where
  "printable c \<longleftrightarrow> 32 \<le> code c \<and> code c \<le> 126"

lemma printable_int_digits: "0 \<le> n \<Longrightarrow> list_all printable (int_digits n)"
proof (induction n rule: int_digits.induct)
  case (1 n)
  have d: "printable (''0123456789'' ! nat m)" if "0 \<le> m" "m < 10" for m
    using code_digit [OF that] that by (simp add: printable_def)
  show ?case
    using 1 d [of n] d [of "n mod 10"] by (cases "n < 10") (simp_all add: int_digits.simps [of n])
qed

lemma length_int_digits: "0 \<le> n \<Longrightarrow> n < 10 ^ k \<Longrightarrow> 0 < k \<Longrightarrow> length (int_digits n) \<le> k"
proof (induction n arbitrary: k rule: int_digits.induct)
  case (1 n)
  show ?case
  proof (cases "n < 10")
    case False
    then obtain j where k: "k = Suc j" "0 < j" using "1.prems" by (cases k; cases "k - 1") auto
    have "n div 10 < 10 ^ j" using "1.prems"(2) by (simp add: k)
    then have "length (int_digits (n div 10)) \<le> j" using 1 False k by simp
    then show ?thesis using False by (simp add: int_digits.simps [of n] k)
  qed (use "1.prems" in \<open>simp add: int_digits.simps [of n]\<close>)
qed

section \<open>Serialized payloads are printable ASCII\<close>

lemma printable_literals [simp]:
  "printable (CHR ''-'')" "printable (CHR ''.'')" "printable (CHR '','')" "printable (CHR '':'')"
  "printable (CHR ''0'')" "printable (CHR ''e'')" "printable (CHR ''+'')" "printable (CHR ''['')"
  "printable (CHR '']'')" "printable (CHR ''{'')" "printable (CHR ''}'')" "printable (CHR ''u'')"
  "printable (CHR ''b'')" "printable (CHR ''f'')" "printable (CHR ''n'')" "printable (CHR ''r'')"
  "printable (CHR ''t'')" "printable (CHR ''l'')" "printable (CHR ''a'')" "printable (CHR ''s'')"
  "printable (char_of (34 :: nat))" "printable (char_of (92 :: nat))"
  by (simp_all add: printable_def code_def)

lemma printable_int_str [simp]: "list_all printable (int_str i)"
  by (simp add: int_str_def printable_int_digits)

lemma printable_sublists:
  "list_all printable s \<Longrightarrow> list_all printable (take n s)"
  "list_all printable s \<Longrightarrow> list_all printable (drop n s)"
  "list_all printable s \<Longrightarrow> list_all printable (strip_zeros s)"
  by (auto simp: list_all_iff strip_zeros_def dest: in_set_takeD in_set_dropD set_dropWhileD)

lemma printable_replicate [simp]: "list_all printable (replicate n (CHR ''0''))"
  by (simp add: list_all_iff)

lemma printable_float_repr: "list_all printable (float_repr x)"
  by (simp add: float_repr_def Let_def printable_sublists split: prod.split)

lemma printable_hex_digit: "n < 16 \<Longrightarrow> printable (''0123456789abcdef'' ! n)"
proof -
  assume "n < 16"
  then have "n \<in> {0, 1, 2, 3, 4, 5, 6, 7, 8, 9, 10, 11, 12, 13, 14, 15}"
    unfolding insert_iff empty_iff by presburger
  then show ?thesis by (auto simp: printable_def code_def)
qed

lemma printable_hex_digits: "list_all printable (hex_digits k n)"
  by (induction k n rule: hex_digits.induct) (simp_all add: printable_hex_digit del: nth_Cons_numeral)

lemma printable_json_escape: "list_all printable (json_escape True c)"
proof -
  have "printable c" if "\<not> code c < 32" "\<not> 126 < code c" using that by (simp add: printable_def)
  moreover have "printable c" if "code c = 34 \<or> code c = 92" using that by (auto simp: printable_def)
  ultimately show ?thesis
    by (auto simp: json_escape_def Let_def printable_hex_digits)
qed

lemma printable_json_str: "list_all printable (json_str True s)"
  by (induction s) (simp_all add: json_str_def printable_json_escape)

lemma printable_comma_join: "list_all (list_all printable) ss \<Longrightarrow> list_all printable (comma_join ss)"
  by (induction ss rule: comma_join.induct) simp_all

lemma printable_json_dumps: "list_all printable (json_dumps True v)"
proof (induction "True" v rule: json_dumps.induct)
  case (6 xs)
  then have "list_all (list_all printable) (map (json_dumps True) xs)" by (simp add: list_all_iff)
  then show ?case by (simp add: printable_comma_join)
next
  case (7 kvs)
  let ?item = "\<lambda>(k, t). json_str True k @ '':'' @ t"
  have e: "list_all printable (json_dumps True v)" if "(k, v) \<in> set kvs" for k v using that 7 by auto
  have "list_all (list_all printable) (map ?item (sort_key fst (map (\<lambda>(k, v). (k, json_dumps True v)) kvs)))"
    by (auto simp: list.pred_set [of "list_all printable"] printable_json_str intro: e)
  then show ?case by (simp add: printable_comma_join)
qed (simp_all add: printable_float_repr printable_json_str)

section \<open>The size of what is stored\<close>

lemma length_json_escape: "printable c \<Longrightarrow> length (json_escape True c) \<le> 2"
  by (auto simp: json_escape_def Let_def printable_def)

lemma length_json_str: "list_all printable s \<Longrightarrow> length (json_str True s) \<le> 2 * length s + 2"
proof (induction s)
  case (Cons c s)
  then show ?case using length_json_escape [of c] by (simp add: json_str_def)
qed (simp add: json_str_def)

lemma json_str_keys:
  "json_str True ''_truncated'' = ''\"_truncated\"''"
  "json_str True ''_original_size_bytes'' = ''\"_original_size_bytes\"''"
  "json_str True ''_preview'' = ''\"_preview\"''"
  by code_simp+

lemma truncated_text:
  "canonical_json (JDict [(''_truncated'', JBool True), (''_original_size_bytes'', JInt i), (''_preview'', JStr p)])
   = ''{\"_original_size_bytes\":'' @ int_str i @ '',\"_preview\":'' @ json_str True p @ '',\"_truncated\":true}''"
  by (simp add: canonical_json_def sort_key_def json_str_keys)

lemma truncated_size:
  assumes "sz \<le> hard_limit_bytes"
  shows "canonical_size_bytes (JDict [(''_truncated'', JBool True), (''_original_size_bytes'', JInt (int sz)),
      (''_preview'', JStr (take truncation_preview_chars (canonical_json v)))]) \<le> 4200"
proof -
  let ?p = "take truncation_preview_chars (canonical_json v)"
  have "length (json_str True ?p) \<le> 2 * length ?p + 2"
    by (intro length_json_str printable_sublists(1)) (simp add: canonical_json_def printable_json_dumps)
  also have "\<dots> \<le> 4098" by (simp add: truncation_preview_chars_def)
  finally have p: "length (json_str True ?p) \<le> 4098" .
  have "length (int_str (int sz)) \<le> 7"
    using assms length_int_digits [of "int sz" 7] by (simp add: int_str_def hard_limit_bytes_def)
  then show ?thesis using p by (simp add: canonical_size_bytes_def truncated_text)
qed

section \<open>Texts of events\<close>

lemma event_text:
  "\<exists>pre post. \<forall>n. canonicalize_content (event_content tid n ety cv inp outp err) = pre @ int_str (int n) @ post"
proof -
  have "canonicalize_content (event_content tid n ety cv inp outp err) =
      (''{'' @ json_str False ''component_version_id'' @ '':''
        @ json_dumps False (case cv of Some v \<Rightarrow> JStr (uuid_str v) | None \<Rightarrow> JNull)
        @ '','' @ json_str False ''error'' @ '':'' @ json_dumps False err
        @ '','' @ json_str False ''event_type'' @ '':'' @ json_str False ety
        @ '','' @ json_str False ''input'' @ '':'' @ json_dumps False inp
        @ '','' @ json_str False ''output'' @ '':'' @ json_dumps False outp
        @ '','' @ json_str False ''sequence_number'' @ '':'')
      @ int_str (int n)
      @ ('','' @ json_str False ''trajectory_id'' @ '':'' @ json_str False (uuid_str tid) @ ''}'')" for n
    by (simp add: canonicalize_content_def event_content_def sort_key_def)
  then show ?thesis by blast
qed

lemma event_text_inject:
  "canonicalize_content (event_content tid m ety cv inp outp err)
     = canonicalize_content (event_content tid n ety cv inp outp err) \<longleftrightarrow> m = n"
  using event_text [of tid ety cv inp outp err] by (metis append_same_eq int_str_inject nat_int of_nat_0_le_iff same_append_eq)

end
