(* ===== verification/Registry.thy ===== *)
theory Registry
  imports Session Json_Text Component_Content
begin

text \<open>
  Projects, components and their versions: \<open>app/services/component_registry.py\<close> and
  \<open>app/services/project_service.py\<close> with the queries of their repositories
  (\<open>app/repositories/project_repository.py\<close>, \<open>component_repository.py\<close>,
  \<open>component_version_repository.py\<close>). The id of a new row is an argument (the store draws a fresh one),
  \<open>others\<close> is what other transactions commit between the look-up and the insert. Proved here: the unique
  keys of the tables are kept whatever happens in between, and every stored content is a validated one.
\<close>

section \<open>Queries\<close>

definition project_by_id :: "uuid \<Rightarrow> project option session" where
  "project_by_id project_id = fetch_one db_projects (\<lambda>p. pj_id p = project_id)"

definition component_by_id :: "uuid \<Rightarrow> uuid \<Rightarrow> component_row option session" where
  "component_by_id project_id component_id =
     fetch_one db_components (\<lambda>c. cm_id c = component_id \<and> cm_project_id c = project_id)"

definition component_by_slug :: "uuid \<Rightarrow> component_type \<Rightarrow> string \<Rightarrow> component_row option session" where
  "component_by_slug project_id ct slug =
     fetch_one db_components (\<lambda>c. cm_project_id c = project_id \<and> cm_type c = ct \<and> cm_slug c = slug)"

definition version_by_version :: "uuid \<Rightarrow> string \<Rightarrow> component_version option session" where
  "version_by_version component_id version =
     fetch_one db_versions (\<lambda>v. cv_component_id v = component_id \<and> cv_version v = version)"

definition version_by_id :: "uuid \<Rightarrow> component_version option session" where
  "version_by_id version_id = fetch_one db_versions (\<lambda>v. cv_id v = version_id)"

definition versions_of :: "uuid \<Rightarrow> db \<Rightarrow> component_version list" where
  "versions_of component_id d =
     rev (sort_key cv_sequence (filter (\<lambda>v. cv_component_id v = component_id) (db_versions d)))"

definition latest_version :: "uuid \<Rightarrow> component_version option session" where
  "latest_version component_id =
     sread (\<lambda>d. case versions_of component_id d of [] \<Rightarrow> None | v # _ \<Rightarrow> Some v)"

definition require_project :: "uuid \<Rightarrow> project session" where
  "require_project project_id =
     srequire (Dom (NotFoundError (ProjectNotFound project_id))) (project_by_id project_id)"

section \<open>Projects\<close>

definition project_clash :: "project \<Rightarrow> project \<Rightarrow> bool" where
  "project_clash a b \<longleftrightarrow>
     pj_id a = pj_id b \<or> pj_organization_id a = pj_organization_id b \<and> pj_slug a = pj_slug b"

definition project_linked :: "project \<Rightarrow> db \<Rightarrow> bool" where
  "project_linked p d \<longleftrightarrow> list_ex (\<lambda>g. og_id g = pj_organization_id p) (db_organizations d)"

definition put_project :: "project \<Rightarrow> db \<Rightarrow> db" where
  "put_project p d = d \<lparr> db_projects := db_projects d @ [p] \<rparr>"

definition create_project :: "(db \<Rightarrow> db) \<Rightarrow> uuid \<Rightarrow> uuid \<Rightarrow> string \<Rightarrow> string \<Rightarrow> project session" where
  "create_project others new_id organization_id name slug =
     (let row = \<lparr> pj_id = new_id, pj_organization_id = organization_id, pj_name = name, pj_slug = slug \<rparr>
      in sthen (concurrently others)
           (scatch_integrity
             (sthen (flush_row db_projects project_clash project_linked put_project row) (sthen scommit (sreturn row)))
             (sthen srollback (sraise (Dom (ConflictError (DuplicateProject organization_id slug)))))))"

definition get_project :: "uuid \<Rightarrow> project session" where
  "get_project = require_project"

definition rename_project :: "uuid \<Rightarrow> string \<Rightarrow> project \<Rightarrow> project" where
  "rename_project project_id name p = (if pj_id p = project_id then p \<lparr> pj_name := name \<rparr> else p)"

definition update_project :: "uuid \<Rightarrow> string \<Rightarrow> project session" where
  "update_project project_id name =
     sbind (get_project project_id) (\<lambda>p.
       sthen (swrite (\<lambda>d. d \<lparr> db_projects := map (rename_project project_id name) (db_projects d) \<rparr>))
         (sthen scommit (sreturn (p \<lparr> pj_name := name \<rparr>))))"

section \<open>Components\<close>

definition component_clash :: "component_row \<Rightarrow> component_row \<Rightarrow> bool" where
  "component_clash a b \<longleftrightarrow>
     cm_id a = cm_id b
     \<or> cm_project_id a = cm_project_id b \<and> cm_type a = cm_type b \<and> cm_slug a = cm_slug b"

definition component_linked :: "component_row \<Rightarrow> db \<Rightarrow> bool" where
  "component_linked c d \<longleftrightarrow>
     list_ex (\<lambda>g. og_id g = cm_organization_id c) (db_organizations d)
     \<and> list_ex (\<lambda>p. pj_id p = cm_project_id c) (db_projects d)"

definition put_component :: "component_row \<Rightarrow> db \<Rightarrow> db" where
  "put_component c d = d \<lparr> db_components := db_components d @ [c] \<rparr>"

definition create_component ::
  "(db \<Rightarrow> db) \<Rightarrow> uuid \<Rightarrow> uuid \<Rightarrow> component_type \<Rightarrow> string \<Rightarrow> string \<Rightarrow> string option \<Rightarrow> component_row session" where
  "create_component others new_id project_id ct name slug description =
     sbind (require_project project_id) (\<lambda>project.
     sbind (component_by_slug project_id ct slug) (\<lambda>existing.
     let duplicate = Dom (ConflictError (DuplicateComponent project_id ct slug));
         row = \<lparr> cm_id = new_id, cm_organization_id = pj_organization_id project, cm_project_id = project_id,
                 cm_type = ct, cm_name = name, cm_slug = slug, cm_description = description,
                 cm_status = ACTIVE \<rparr>
     in sthen (sguard (existing = None) duplicate)
          (sthen (concurrently others)
            (scatch_integrity
              (sthen (flush_row db_components component_clash component_linked put_component row) (sreturn row))
              (sthen srollback (sraise duplicate))))))"

definition get_component :: "uuid \<Rightarrow> uuid \<Rightarrow> component_row session" where
  "get_component project_id component_id =
     sthen (require_project project_id)
       (srequire (Dom (NotFoundError (ComponentNotFound component_id))) (component_by_id project_id component_id))"

section \<open>Versions\<close>

definition version_clash :: "component_version \<Rightarrow> component_version \<Rightarrow> bool" where
  "version_clash a b \<longleftrightarrow>
     cv_id a = cv_id b \<or> cv_component_id a = cv_component_id b \<and> cv_version a = cv_version b"

definition version_linked :: "component_version \<Rightarrow> db \<Rightarrow> bool" where
  "version_linked v d \<longleftrightarrow> list_ex (\<lambda>c. cm_id c = cv_component_id v) (db_components d)"

text \<open>The identity column: above every number given so far.\<close>

definition put_version :: "component_version \<Rightarrow> db \<Rightarrow> db" where
  "put_version v d =
     d \<lparr> db_versions := db_versions d @ [v \<lparr> cv_sequence := Suc (max_list (map cv_sequence (db_versions d))) \<rparr>] \<rparr>"

definition create_component_version ::
  "(string \<Rightarrow> string) \<Rightarrow> (component_type \<Rightarrow> json_dict \<Rightarrow> string) \<Rightarrow> (db \<Rightarrow> db) \<Rightarrow> uuid \<Rightarrow> uuid \<Rightarrow> uuid \<Rightarrow> string \<Rightarrow>
   json_dict \<Rightarrow> json \<Rightarrow> component_version session" where
  "create_component_version sha256 explain others new_id project_id component_id version content metadata =
     sbind (get_component project_id component_id) (\<lambda>component.
     sbind (version_by_version component_id version) (\<lambda>existing.
     let duplicate = Dom (ConflictError (DuplicateComponentVersion component_id version))
     in sthen (sguard (existing = None) duplicate)
          (sbind (slift (validate_content explain (cm_type component) content)) (\<lambda>validated.
           let row = \<lparr> cv_id = new_id, cv_component_id = component_id, cv_version = version, cv_sequence = 0,
                       cv_content = validated, cv_checksum = compute_checksum sha256 validated,
                       cv_metadata = metadata \<rparr>
           in sthen (concurrently others)
                (scatch_integrity
                  (sthen (flush_row db_versions version_clash version_linked put_version row) (sreturn row))
                  (sthen srollback (sraise duplicate)))))))"

definition get_component_version :: "uuid \<Rightarrow> uuid \<Rightarrow> string \<Rightarrow> component_version session" where
  "get_component_version project_id component_id version =
     sthen (get_component project_id component_id)
       (srequire (Dom (NotFoundError (ComponentVersionNotFound (Some component_id) version)))
         (version_by_version component_id version))"

definition get_latest_component_version :: "uuid \<Rightarrow> uuid \<Rightarrow> component_version session" where
  "get_latest_component_version project_id component_id =
     sthen (get_component project_id component_id)
       (srequire (Dom (NotFoundError (ComponentVersionNotFound (Some component_id) ''latest'')))
         (latest_version component_id))"

text \<open>A page of results, with the total before paging.\<close>

record 'a page =
  pg_items :: "'a list"
  pg_total :: nat
  pg_page :: nat
  pg_page_size :: nat

definition page_result :: "nat \<Rightarrow> nat \<Rightarrow> 'a list \<Rightarrow> 'a page" where
  "page_result n page_size xs =
     \<lparr> pg_items = page_of n page_size xs, pg_total = length xs, pg_page = n, pg_page_size = page_size \<rparr>"

definition list_component_versions :: "uuid \<Rightarrow> uuid \<Rightarrow> nat \<Rightarrow> nat \<Rightarrow> component_version page session" where
  "list_component_versions project_id component_id n page_size =
     sthen (get_component project_id component_id)
       (sread (\<lambda>d. page_result n page_size (versions_of component_id d)))"

section \<open>The tables keep their keys\<close>

interpretation projects: unique_table project_clash db_projects put_project
  by unfold_locales (auto simp: project_clash_def put_project_def)

interpretation components: unique_table component_clash db_components put_component
  by unfold_locales (auto simp: component_clash_def put_component_def)

interpretation versions: unique_table version_clash db_versions put_version
  by unfold_locales (auto simp: version_clash_def put_version_def)

text \<open>
  The invariant of the registry: the unique keys hold, references lead somewhere, and the content of a version
  has the fields its component type declares, with distinct keys at every depth.
\<close>

definition stored_content_ok :: "db \<Rightarrow> component_version \<Rightarrow> bool" where
  "stored_content_ok d v \<longleftrightarrow>
     (\<forall>c \<in> set (db_components d). cm_id c = cv_component_id v \<longrightarrow> valid_content (cm_type c) (cv_content v))
     \<and> dict_ok (cv_content v)"

definition registry_ok :: "db \<Rightarrow> bool" where
  "registry_ok d \<longleftrightarrow>
     no_clash project_clash (db_projects d) \<and> no_clash component_clash (db_components d)
     \<and> no_clash version_clash (db_versions d)
     \<and> list_all (\<lambda>v. version_linked v d \<and> stored_content_ok d v) (db_versions d)"

text \<open>What the modelled code, and any transaction running beside it, does to the registry: rows are added, never
  removed or changed in their identity.\<close>

definition registry_grows :: "(db \<Rightarrow> db) \<Rightarrow> bool" where
  "registry_grows others \<longleftrightarrow>
     (\<forall>d. registry_ok d \<longrightarrow> registry_ok (others d))
     \<and> (\<forall>d. set (db_components d) \<subseteq> set (db_components (others d)))"

lemma registry_grows_id [simp]: "registry_grows (\<lambda>d. d)"
  by (simp add: registry_grows_def)

lemma same_id_same_component:
  "no_clash component_clash cs \<Longrightarrow> a \<in> set cs \<Longrightarrow> b \<in> set cs \<Longrightarrow> cm_id a = cm_id b \<Longrightarrow> a = b"
  by (induction cs) (auto simp: list_ex_iff component_clash_def)

lemma registry_ok_put_version:
  assumes "registry_ok d" "\<not> list_ex (version_clash v) (db_versions d)" "version_linked v d" "stored_content_ok d v"
  shows "registry_ok (put_version v d)"
proof -
  let ?v = "v \<lparr> cv_sequence := Suc (max_list (map cv_sequence (db_versions d))) \<rparr>"
  have "list_ex (version_clash ?v) (db_versions d) = list_ex (version_clash v) (db_versions d)"
    by (simp add: version_clash_def [abs_def])
  then have "no_clash version_clash (db_versions (put_version v d))"
    using assms(1,2) versions.no_clash_append by (simp add: put_version_def registry_ok_def)
  then show ?thesis
    using assms by (auto simp: registry_ok_def put_version_def version_linked_def stored_content_ok_def list_all_iff)
qed

lemma registry_ok_put_component:
  assumes "registry_ok d" "\<not> list_ex (component_clash c) (db_components d)"
  shows "registry_ok (put_component c d)"
proof -
  have "cm_id c \<noteq> cv_component_id v" if "v \<in> set (db_versions d)" for v
  proof -
    have "version_linked v d" using assms(1) that by (simp add: registry_ok_def list_all_iff)
    then obtain c' where "c' \<in> set (db_components d)" "cm_id c' = cv_component_id v"
      by (auto simp: version_linked_def list_ex_iff)
    then show ?thesis using assms(2) by (auto simp: list_ex_iff component_clash_def)
  qed
  moreover have "no_clash component_clash (db_components (put_component c d))"
    using assms components.no_clash_append by (simp add: put_component_def registry_ok_def)
  ultimately show ?thesis
    using assms(1)
    by (auto simp: registry_ok_def put_component_def version_linked_def stored_content_ok_def list_all_iff)
qed

text \<open>Queries by key never find two rows.\<close>

lemma registry_queries:
  assumes "registry_ok (tx_current s)"
  shows "\<exists>r. project_by_id pid s = (Inr r, s)" "\<exists>r. component_by_id pid cid s = (Inr r, s)"
    "\<exists>r. component_by_slug pid ct slug s = (Inr r, s)" "\<exists>r. version_by_version cid ver s = (Inr r, s)"
    "\<exists>r. version_by_id vid s = (Inr r, s)"
  using assms unfolding registry_ok_def project_by_id_def component_by_id_def component_by_slug_def
    version_by_version_def version_by_id_def
  by (auto intro!: projects.fetch_key components.fetch_key versions.fetch_key
      simp: project_clash_def component_clash_def version_clash_def)

section \<open>The operations keep the registry\<close>

lemma content_defaults_ok: "(n, k, Some d) \<in> set (content_models ct) \<Longrightarrow> json_ok d"
  by (cases ct) auto

lemma validate_content_dict_ok:
  assumes "validate_content explain ct raw = Inr kvs" "dict_ok raw"
  shows "dict_ok kvs"
proof -
  have kvs: "kvs = map (\<lambda>f. (fst f, the (field_value raw f))) (content_models ct)"
    and all: "list_all (\<lambda>f. field_value raw f \<noteq> None) (content_models ct)"
    using assms(1) by (auto simp: validate_content_def Let_def split: if_splits)
  have "json_ok (the (field_value raw f))" if f: "f \<in> set (content_models ct)" for f
  proof -
    obtain n k d where nkd: "f = (n, k, d)" by (cases f) auto
    have "field_value raw f \<noteq> None" using all f by (auto simp: list_all_iff)
    then show ?thesis
      using f content_defaults_ok [of n k _ ct] dict_ok_lookup [OF assms(2)]
      by (auto simp: nkd field_value_def split: option.splits if_splits)
  qed
  moreover have "map fst kvs = map fst (content_models ct)" by (simp add: kvs)
  ultimately show ?thesis
    using content_models_distinct [of ct] by (auto simp: dict_ok_def kvs list_all_iff comp_def)
qed

lemma put_component_rows [simp]: "db_components (put_component c d) = db_components d @ [c]"
  by (simp add: put_component_def)

text \<open>The ways a creation may fail.\<close>

definition component_refusal :: "uuid \<Rightarrow> component_type \<Rightarrow> string \<Rightarrow> exn \<Rightarrow> bool" where
  "component_refusal project_id ct slug e \<longleftrightarrow>
     e = Dom (NotFoundError (ProjectNotFound project_id))
     \<or> e = Dom (ConflictError (DuplicateComponent project_id ct slug))"

lemma create_component_wp:
  assumes "both registry_ok s" "registry_grows others"
  shows "wp (create_component others i pid ct name slug descr)
    (\<lambda>c t. both registry_ok t \<and> c \<in> set (db_components (tx_current t)) \<and> cm_slug c = slug \<and> cm_type c = ct
       \<and> cm_project_id c = pid)
    (\<lambda>e t. both registry_ok t \<and> component_refusal pid ct slug e) s"
proof -
  have ok: "registry_ok (others (tx_current s))" "registry_ok (others (tx_committed s))"
    using assms by (auto simp: registry_grows_def both_def)
  obtain r where r: "project_by_id pid s = (Inr r, s)" using registry_queries assms by (blast dest: bothD)
  obtain q where q: "component_by_slug pid ct slug s = (Inr q, s)" using registry_queries assms by (blast dest: bothD)
  have p: "wp (project_by_id pid) Q E s = Q r s" for Q E by (simp add: wp_def r)
  have c: "wp (component_by_slug pid ct slug) Q E s = Q q s" for Q E by (simp add: wp_def q)
  show ?thesis
    unfolding create_component_def require_project_def Let_def wp_simps p
    using assms(1) ok registry_ok_put_component [OF ok(1)]
    by (cases r; cases q) (simp_all add: c wp_simps component_refusal_def both_def)
qed

definition version_refusal :: "uuid \<Rightarrow> uuid \<Rightarrow> string \<Rightarrow> exn \<Rightarrow> bool" where
  "version_refusal project_id component_id version e \<longleftrightarrow>
     e = Dom (NotFoundError (ProjectNotFound project_id))
     \<or> e = Dom (NotFoundError (ComponentNotFound component_id))
     \<or> e = Dom (ConflictError (DuplicateComponentVersion component_id version))
     \<or> (\<exists>ct detail. e = Dom (InvalidComponentContent ct detail))"

lemma get_component_wp:
  assumes "registry_ok (tx_current s)"
    and "\<And>c. c \<in> set (db_components (tx_current s)) \<Longrightarrow> cm_id c = cid \<Longrightarrow> cm_project_id c = pid \<Longrightarrow> Q c s"
    and "E (Dom (NotFoundError (ProjectNotFound pid))) s" "E (Dom (NotFoundError (ComponentNotFound cid))) s"
  shows "wp (get_component pid cid) Q E s"
proof -
  obtain r where r: "project_by_id pid s = (Inr r, s)" using registry_queries assms(1) by blast
  obtain q where q: "component_by_id pid cid s = (Inr q, s)" using registry_queries assms(1) by blast
  have found: "c \<in> set (db_components (tx_current s)) \<and> cm_id c = cid \<and> cm_project_id c = pid" if "q = Some c" for c
  proof -
    have "filter (\<lambda>c. cm_id c = cid \<and> cm_project_id c = pid) (db_components (tx_current s)) = [c]"
      using q that by (simp add: component_by_id_def fetch_one_def)
    from filter_single [OF this] show ?thesis by simp
  qed
  have p: "wp (project_by_id pid) Q E s = Q r s" for Q E by (simp add: wp_def r)
  have c: "wp (component_by_id pid cid) Q E s = Q q s" for Q E by (simp add: wp_def q)
  show ?thesis
    using assms(2-4) found
    by (simp add: get_component_def require_project_def wp_simps p c split: option.split)
qed

lemma create_component_version_wp:
  assumes "both registry_ok s" "registry_grows others" "dict_ok content"
  shows "wp (create_component_version sha256 explain others i pid cid version content md)
    (\<lambda>v t. both registry_ok t \<and> cv_component_id v = cid \<and> cv_version v = version
       \<and> cv_checksum v = compute_checksum sha256 (cv_content v)
       \<and> (\<exists>ct. validate_content explain ct content = Inr (cv_content v)))
    (\<lambda>e t. both registry_ok t \<and> version_refusal pid cid version e) s"
proof -
  have ok: "registry_ok (others (tx_current s))" "registry_ok (others (tx_committed s))"
    using assms by (auto simp: registry_grows_def both_def)
  have nc: "no_clash component_clash (db_components (others (tx_current s)))"
    using ok(1) by (simp add: registry_ok_def)
  have stored: "stored_content_ok (others (tx_current s)) v"
    if c: "c \<in> set (db_components (tx_current s))" "cm_id c = cid"
      and v: "validate_content explain (cm_type c) content = Inr (cv_content v)" "cv_component_id v = cid" for c v
  proof -
    have "c \<in> set (db_components (others (tx_current s)))"
      using assms(2) c(1) by (auto simp: registry_grows_def)
    then have "c' = c" if "c' \<in> set (db_components (others (tx_current s)))" "cm_id c' = cid" for c'
      using same_id_same_component [OF nc that(1)] that(2) c(2) by simp
    then show ?thesis
      using validate_content_valid [OF v(1)] validate_content_dict_ok [OF v(1) assms(3)] v(2)
      by (auto simp: stored_content_ok_def)
  qed
  have refused: "\<exists>ct' d. e = Dom (InvalidComponentContent ct' d)"
    if "validate_content explain ct content = Inl e" for ct e
    using that by (auto simp: validate_content_def Let_def split: if_splits)
  obtain q where q: "version_by_version cid version s = (Inr q, s)" using registry_queries assms by (blast dest: bothD)
  have v: "wp (version_by_version cid version) Q E s = Q q s" for Q E by (simp add: wp_def q)
  show ?thesis
    unfolding create_component_version_def wp_simps
  proof (rule get_component_wp, goal_cases)
    case (2 c)
    show ?case
      using assms(1) ok stored [OF 2(1,2)] refused [of "cm_type c"] registry_ok_put_version [OF ok(1)]
      by (simp add: v Let_def wp_simps version_refusal_def both_def split: sum.split) blast
  qed (use assms(1) in \<open>simp_all add: version_refusal_def both_def\<close>)
qed

lemma get_component_version_wp:
  assumes "registry_ok (tx_current s)"
    and "\<And>c v. c \<in> set (db_components (tx_current s)) \<Longrightarrow> cm_id c = cid \<Longrightarrow> cm_project_id c = pid \<Longrightarrow>
      v \<in> set (db_versions (tx_current s)) \<Longrightarrow> cv_component_id v = cid \<Longrightarrow> cv_version v = version \<Longrightarrow> Q v s"
    and "E (Dom (NotFoundError (ProjectNotFound pid))) s" "E (Dom (NotFoundError (ComponentNotFound cid))) s"
    and "E (Dom (NotFoundError (ComponentVersionNotFound (Some cid) version))) s"
  shows "wp (get_component_version pid cid version) Q E s"
proof -
  obtain q where q: "version_by_version cid version s = (Inr q, s)" using registry_queries assms(1) by blast
  have found: "v \<in> set (db_versions (tx_current s)) \<and> cv_component_id v = cid \<and> cv_version v = version"
    if "q = Some v" for v
  proof -
    have "filter (\<lambda>v. cv_component_id v = cid \<and> cv_version v = version) (db_versions (tx_current s)) = [v]"
      using q that by (simp add: version_by_version_def fetch_one_def)
    from filter_single [OF this] show ?thesis by simp
  qed
  have v: "wp (version_by_version cid version) Q E s = Q q s" for Q E by (simp add: wp_def q)
  show ?thesis
    unfolding get_component_version_def wp_simps
    by (rule get_component_wp [OF assms(1)]; use assms(2-5) found in \<open>simp add: v split: option.split\<close>)
qed

end
