(* ===== verification/Compat_Service.thy ===== *)
theory Compat_Service
  imports Registry Compat_Laws
begin

text \<open>
  \<open>app/services/compatibility_service.py\<close>: a scan loads two versions of a component, runs the engine on their
  contents and stores the verdict with its changes. Proved here: between two versions stored by the registry a
  scan always succeeds, and the stored row is exactly the engine's result.
\<close>

section \<open>The service\<close>

text \<open>\<open>counts[key]\<close>.\<close>

definition count_of :: "string \<Rightarrow> (string \<times> nat) list \<Rightarrow> nat" where
  "count_of key counts = the (map_of counts key)"

definition scan_row ::
  "uuid \<Rightarrow> uuid \<Rightarrow> component_row \<Rightarrow> component_version \<Rightarrow> component_version \<Rightarrow> analysis_result \<Rightarrow> compatibility_scan" where
  "scan_row new_id project_id component baseline candidate result =
     (let counts = classification_counts result; severities = severity_counts result
      in \<lparr> cs_id = new_id, cs_project_id = project_id, cs_component_id = cm_id component,
           cs_baseline_version_id = cv_id baseline, cs_candidate_version_id = cv_id candidate,
           cs_status = ar_status result, cs_total_changes = total_changes result,
           cs_compatible_count = count_of (classification_value CL_COMPATIBLE) counts,
           cs_potentially_breaking_count = count_of (classification_value CL_POTENTIALLY_BREAKING) counts,
           cs_breaking_count = count_of (classification_value CL_BREAKING) counts,
           cs_severity_info_count = count_of (severity_value SV_INFO) severities,
           cs_severity_low_count = count_of (severity_value SV_LOW) severities,
           cs_severity_medium_count = count_of (severity_value SV_MEDIUM) severities,
           cs_severity_high_count = count_of (severity_value SV_HIGH) severities,
           cs_severity_critical_count = count_of (severity_value SV_CRITICAL) severities,
           cs_changes = ar_changes result \<rparr>)"

definition put_scan :: "compatibility_scan \<Rightarrow> db \<Rightarrow> db" where
  "put_scan scan d = d \<lparr> db_scans := db_scans d @ [scan] \<rparr>"

definition different_components :: "component_version \<Rightarrow> component_version \<Rightarrow> string" where
  "different_components baseline candidate =
     ''baseline version '' @ uuid_str (cv_id baseline) @ '' (component '' @ uuid_str (cv_component_id baseline)
     @ '') and candidate version '' @ uuid_str (cv_id candidate) @ '' (component ''
     @ uuid_str (cv_component_id candidate) @ '') belong to different components''"

definition scan_from_versions ::
  "uuid \<Rightarrow> uuid \<Rightarrow> component_row \<Rightarrow> component_version \<Rightarrow> component_version \<Rightarrow> compatibility_scan session" where
  "scan_from_versions new_id project_id component baseline candidate =
     sthen (sguard (cv_component_id baseline = cv_component_id candidate)
              (Dom (InvalidCompatibilityComparison (different_components baseline candidate))))
       (sbind (slift (compat_analyze (cm_type component) (cv_content baseline) (cv_content candidate))) (\<lambda>result.
        let scan = scan_row new_id project_id component baseline candidate result
        in sthen (swrite (put_scan scan)) (sreturn scan)))"

definition run_scan :: "uuid \<Rightarrow> uuid \<Rightarrow> uuid \<Rightarrow> string \<Rightarrow> string \<Rightarrow> compatibility_scan session" where
  "run_scan new_id project_id component_id baseline_version candidate_version =
     sbind (get_component project_id component_id) (\<lambda>component.
     sbind (get_component_version project_id component_id baseline_version) (\<lambda>baseline.
     sbind (get_component_version project_id component_id candidate_version) (\<lambda>candidate.
     scan_from_versions new_id project_id component baseline candidate)))"

definition scan_by_id :: "uuid \<Rightarrow> uuid \<Rightarrow> compatibility_scan option session" where
  "scan_by_id project_id scan_id =
     fetch_one db_scans (\<lambda>s. cs_id s = scan_id \<and> cs_project_id s = project_id)"

definition get_scan :: "uuid \<Rightarrow> uuid \<Rightarrow> compatibility_scan session" where
  "get_scan project_id scan_id =
     srequire (Dom (NotFoundError (CompatibilityScanNotFound scan_id))) (scan_by_id project_id scan_id)"

section \<open>What is stored\<close>

text \<open>The row agrees with the engine's result, and its counters with its changes.\<close>

definition scan_faithful :: "compatibility_scan \<Rightarrow> bool" where
  "scan_faithful s \<longleftrightarrow>
     cs_total_changes s = length (cs_changes s)
     \<and> cs_compatible_count s = length (filter (\<lambda>c. ch_class c = CL_COMPATIBLE) (cs_changes s))
     \<and> cs_potentially_breaking_count s = length (filter (\<lambda>c. ch_class c = CL_POTENTIALLY_BREAKING) (cs_changes s))
     \<and> cs_breaking_count s = length (filter (\<lambda>c. ch_class c = CL_BREAKING) (cs_changes s))
     \<and> cs_severity_critical_count s = length (filter (\<lambda>c. ch_severity c = SV_CRITICAL) (cs_changes s))
     \<and> cs_total_changes s = cs_compatible_count s + cs_potentially_breaking_count s + cs_breaking_count s
     \<and> (cs_status s = CS_BREAKING \<longleftrightarrow> 0 < cs_breaking_count s)"

lemma count_of_classes:
  "count_of (classification_value k) (classification_counts r) = length (filter (\<lambda>c. ch_class c = k) (ar_changes r))"
  by (cases k) (simp_all add: count_of_def classification_counts_eq)

lemma count_of_severities:
  "count_of (severity_value k) (severity_counts r) = length (filter (\<lambda>c. ch_severity c = k) (ar_changes r))"
  by (cases k) (simp_all add: count_of_def severity_counts_eq)

lemma scan_row_faithful:
  assumes "compat_analyze ct b c = Inr r"
  shows "scan_faithful (scan_row i pid component vb vc r)"
proof -
  have "ar_status r = CS_BREAKING \<longleftrightarrow> (\<exists>c \<in> set (ar_changes r). ch_class c = CL_BREAKING)"
    using assms by (force simp: compat_analyze_iff derive_status_breaking_iff)
  then show ?thesis
    using length_filter_classes [of "ar_changes r"]
    by (auto simp: scan_faithful_def scan_row_def Let_def count_of_classes count_of_severities total_changes_def
        filter_empty_conv simp del: classification_value.simps severity_value.simps)
qed

text \<open>The schemas of the stored contents are JSON schemas within the depth bound (nothing checks it on entry).\<close>

definition schemas_ok :: "db \<Rightarrow> bool" where
  "schemas_ok d \<longleftrightarrow>
     (\<forall>c \<in> set (db_components d). \<forall>v \<in> set (db_versions d).
        cm_id c = cv_component_id v \<and> cm_type c \<in> {C_TOOL, C_SCHEMA} \<longrightarrow> content_ok (cm_type c) (cv_content v))"

lemma stored_content_content_ok:
  assumes "registry_ok d" "schemas_ok d" "c \<in> set (db_components d)" "v \<in> set (db_versions d)"
    "cm_id c = cv_component_id v"
  shows "content_ok (cm_type c) (cv_content v)"
proof (cases "cm_type c \<in> {C_TOOL, C_SCHEMA}")
  case False
  have "stored_content_ok d v" using assms(1,4) by (simp add: registry_ok_def list_all_iff)
  then show ?thesis using False assms(3,5) by (simp add: stored_content_ok_def content_ok_def)
qed (use assms in \<open>auto simp: schemas_ok_def\<close>)

text \<open>The ways a scan may fail.\<close>

definition scan_refusal :: "uuid \<Rightarrow> uuid \<Rightarrow> string \<Rightarrow> string \<Rightarrow> exn \<Rightarrow> bool" where
  "scan_refusal project_id component_id v w e \<longleftrightarrow>
     e = Dom (NotFoundError (ProjectNotFound project_id))
     \<or> e = Dom (NotFoundError (ComponentNotFound component_id))
     \<or> e = Dom (NotFoundError (ComponentVersionNotFound (Some component_id) v))
     \<or> e = Dom (NotFoundError (ComponentVersionNotFound (Some component_id) w))
     \<or> e = Dom (UnsupportedCompatibilityType C_PROVIDER)"

lemma compat_analyze_provider: "compat_analyze C_PROVIDER b c = Inl (Dom (UnsupportedCompatibilityType C_PROVIDER))"
  by (simp add: compat_analyze_def)

lemma compat_analyze_stored:
  assumes "content_ok ct b" "content_ok ct c" "ct \<noteq> C_PROVIDER"
  shows "\<exists>r. compat_analyze ct b c = Inr r"
proof -
  obtain compare where "dispatch ct = Some compare" using assms(3) by (cases ct) simp_all
  then show ?thesis using dispatch_ok assms(1,2) by (fastforce simp: compat_analyze_def Let_def)
qed

lemma compat_analyze_stored_self:
  assumes "content_ok ct b" "compat_analyze ct b b = Inr r"
  shows "r = \<lparr> ar_status = CS_COMPATIBLE, ar_changes = [] \<rparr>"
  using assms dispatch_self by (fastforce simp: compat_analyze_iff derive_status_def)

lemma run_scan_wp:
  assumes ok: "registry_ok (tx_current s)" "schemas_ok (tx_current s)"
  shows "wp (run_scan i pid cid bv cv)
    (\<lambda>scan t. scan_faithful scan \<and> t = s \<lparr> tx_current := put_scan scan (tx_current s) \<rparr>
       \<and> (bv = cv \<longrightarrow> cs_status scan = CS_COMPATIBLE \<and> cs_changes scan = []))
    (\<lambda>e t. t = s \<and> scan_refusal pid cid bv cv e) s"
  unfolding run_scan_def wp_simps
proof (rule get_component_wp [OF ok(1)], goal_cases)
  case (1 c)
  note c = 1
  show ?case
  proof (rule get_component_version_wp [OF ok(1)], goal_cases)
    case (1 c1 vb)
    note b = 1
    show ?case
    proof (rule get_component_version_wp [OF ok(1)], goal_cases)
      case (1 c2 vc)
      have same: "vb = vc" if "bv = cv"
      proof -
        have "no_clash version_clash (db_versions (tx_current s))" using ok(1) by (simp add: registry_ok_def)
        then show ?thesis
          by (rule no_clash_unique) (use b(4-6) 1(4-6) that in \<open>simp_all add: version_clash_def\<close>)
      qed
      have cok: "content_ok (cm_type c) (cv_content vb)" "content_ok (cm_type c) (cv_content vc)"
        using stored_content_content_ok [OF ok c(1)] b(4,5) 1(4,5) c(2) by simp_all
      show ?case
      proof (cases "cm_type c = C_PROVIDER")
        case True
        then show ?thesis
          using b(5) 1(5) by (simp add: scan_from_versions_def wp_simps compat_analyze_provider scan_refusal_def)
      next
        case False
        then obtain r where r: "compat_analyze (cm_type c) (cv_content vb) (cv_content vc) = Inr r"
          using compat_analyze_stored cok by blast
        have "ar_status r = CS_COMPATIBLE \<and> ar_changes r = []" if "bv = cv"
          using compat_analyze_stored_self [OF cok(1)] r same [OF that] by simp
        then show ?thesis
          using b(5) 1(5) scan_row_faithful [OF r]
          by (simp add: scan_from_versions_def wp_simps r Let_def) (simp add: scan_row_def Let_def)
      qed
    qed (simp_all add: scan_refusal_def)
  qed (simp_all add: scan_refusal_def)
qed (simp_all add: scan_refusal_def)

end
