(* ===== verification/Diff_Service.thy ===== *)
theory Diff_Service
  imports Registry Diff_Analyzer
begin

text \<open>
  \<open>app/services/differential_service.py\<close> with the queries it uses
  (\<open>app/repositories/differential_repository.py\<close>, \<open>replay_repository.py\<close>): two completed replays of a project
  are compared and the report is stored once per pair and analyzer version. Proved here: the stored counters
  are the analyzer's, a retry returns the stored report, and only completed replays are compared.
\<close>

section \<open>Queries\<close>

definition replay_by_id :: "uuid \<Rightarrow> uuid \<Rightarrow> replay_run option session" where
  "replay_by_id project_id replay_id =
     fetch_one db_replays (\<lambda>r. rr_id r = replay_id \<and> rr_project_id r = project_id)"

text \<open>The relationship \<open>ReplayRun.steps\<close>, ordered by sequence number.\<close>

definition steps_of :: "uuid \<Rightarrow> db \<Rightarrow> replay_step list" where
  "steps_of replay_id d = sort_key rp_sequence_number (filter (\<lambda>s. rp_run_id s = replay_id) (db_steps d))"

definition report_by_id :: "uuid \<Rightarrow> uuid \<Rightarrow> report_row option session" where
  "report_by_id project_id report_id =
     fetch_one db_reports (\<lambda>r. rw_id r = report_id \<and> rw_project_id r = project_id)"

definition report_by_key :: "uuid \<Rightarrow> uuid \<Rightarrow> uuid \<Rightarrow> string \<Rightarrow> report_row option session" where
  "report_by_key project_id baseline_replay_id candidate_replay_id version =
     fetch_one db_reports (\<lambda>r. rw_project_id r = project_id \<and> rw_baseline_replay_id r = baseline_replay_id
       \<and> rw_candidate_replay_id r = candidate_replay_id \<and> rw_analyzer_version r = version)"

section \<open>Conversions\<close>

definition to_view :: "replay_step \<Rightarrow> replay_step_view" where
  "to_view step =
     \<lparr> rs_id = rp_id step, rs_sequence_number = int (rp_sequence_number step),
       rs_source_event_id = rp_source_event_id step, rs_kind = step_kind_value (rp_kind step),
       rs_status = step_status_value (rp_status step), rs_component_id = rp_component_id step,
       rs_component_version_id = rp_version_id step, rs_input = rp_input step, rs_output = rp_output step,
       rs_error = rp_error step, rs_duration_ms = rp_duration_ms step \<rparr>"

definition to_change_record :: "nat \<Rightarrow> step_difference \<Rightarrow> differential_change" where
  "to_change_record order_index sd =
     \<lparr> dc_order_index = order_index, dc_alignment_method = sd_method sd, dc_difference_types = sd_types sd,
       dc_sequence_number = sd_sequence_number sd, dc_baseline_step_id = map_option rs_id (sd_baseline sd),
       dc_candidate_step_id = map_option rs_id (sd_candidate sd),
       dc_baseline_status = map_option rs_status (sd_baseline sd),
       dc_candidate_status = map_option rs_status (sd_candidate sd),
       dc_output_differences = sd_outputs sd, dc_error_difference = sd_error sd,
       dc_latency_delta_ms = map_option ld_delta_ms (sd_latency sd),
       dc_latency_percent_delta = Option.bind (sd_latency sd) ld_percent \<rparr>"

fun alignment_method_value :: "alignment_method \<Rightarrow> string" where
  "alignment_method_value AM_SOURCE_EVENT_ID = ''source_event_id''"
| "alignment_method_value AM_SEQUENCE_NUMBER = ''sequence_number''"
| "alignment_method_value AM_COMPONENT_IDENTITY = ''component_identity''"
| "alignment_method_value AM_UNMATCHED = ''unmatched''"

fun difference_type_value :: "difference_type \<Rightarrow> string" where
  "difference_type_value DT_STEP_ADDED = ''STEP_ADDED''"
| "difference_type_value DT_STEP_REMOVED = ''STEP_REMOVED''"
| "difference_type_value DT_STEP_STATUS_CHANGED = ''STEP_STATUS_CHANGED''"
| "difference_type_value DT_TOOL_CHANGED = ''TOOL_CHANGED''"
| "difference_type_value DT_INPUT_CHANGED = ''INPUT_CHANGED''"
| "difference_type_value DT_OUTPUT_CHANGED = ''OUTPUT_CHANGED''"
| "difference_type_value DT_ERROR_INTRODUCED = ''ERROR_INTRODUCED''"
| "difference_type_value DT_ERROR_RESOLVED = ''ERROR_RESOLVED''"
| "difference_type_value DT_ERROR_CHANGED = ''ERROR_CHANGED''"
| "difference_type_value DT_PROVIDER_INVOCATION_CHANGED = ''PROVIDER_INVOCATION_CHANGED''"
| "difference_type_value DT_SCHEMA_CHANGED = ''SCHEMA_CHANGED''"
| "difference_type_value DT_VALUE_CHANGED = ''VALUE_CHANGED''"
| "difference_type_value DT_LATENCY_CHANGED = ''LATENCY_CHANGED''"

definition canonical_report_dict :: "differential_report \<Rightarrow> json_dict" where
  "canonical_report_dict report =
     (let s = dr_summary report
      in [(''analyzer_version'', JStr (dr_version report)),
          (''summary'', JDict
             [(''total_baseline_steps'', JInt (int (ds_total_baseline s))),
              (''total_candidate_steps'', JInt (int (ds_total_candidate s))),
              (''matched_steps'', JInt (int (ds_matched s))),
              (''added_steps'', JInt (int (ds_added s))),
              (''removed_steps'', JInt (int (ds_removed s))),
              (''changed_steps'', JInt (int (ds_changed s))),
              (''new_failures'', JInt (int (ds_new_failures s))),
              (''resolved_failures'', JInt (int (ds_resolved_failures s))),
              (''changed_outputs'', JInt (int (ds_changed_outputs s))),
              (''schema_changes'', JInt (int (ds_schema_changes s)))]),
          (''step_differences'', JList (map (\<lambda>sd. JDict
             [(''alignment_method'', JStr (alignment_method_value (sd_method sd))),
              (''difference_types'', JList (map (JStr \<circ> difference_type_value) (sd_types sd))),
              (''sequence_number'', case sd_sequence_number sd of Some n \<Rightarrow> JInt n | None \<Rightarrow> JNull)])
             (dr_steps report)))])"

definition to_report_row ::
  "(string \<Rightarrow> string) \<Rightarrow> uuid \<Rightarrow> differential_report \<Rightarrow> uuid \<Rightarrow> uuid \<Rightarrow> uuid \<Rightarrow> uuid \<Rightarrow> uuid option \<Rightarrow> report_row" where
  "to_report_row sha256 new_id report organization_id project_id baseline_replay_id candidate_replay_id scan_id =
     \<lparr> rw_id = new_id, rw_organization_id = organization_id, rw_project_id = project_id,
       rw_baseline_replay_id = baseline_replay_id, rw_candidate_replay_id = candidate_replay_id,
       rw_compatibility_scan_id = scan_id, rw_analyzer_version = dr_version report,
       rw_summary = dr_summary report,
       rw_content_hash = compute_checksum sha256 (canonical_report_dict report),
       rw_changes = map (\<lambda>(i, sd). to_change_record i sd) (enumerate 0 (dr_steps report)) \<rparr>"

section \<open>The service\<close>

definition get_ready_replay :: "uuid \<Rightarrow> uuid \<Rightarrow> replay_run session" where
  "get_ready_replay project_id replay_id =
     sbind (srequire (Dom (NotFoundError (ReplayNotFound replay_id))) (replay_by_id project_id replay_id))
       (\<lambda>replay. sthen (sguard (rr_status replay = R_COMPLETED)
            (Dom (ConflictError (ReplayNotReadyForDifferential replay_id (rr_status replay)))))
          (sreturn replay))"

definition report_clash :: "report_row \<Rightarrow> report_row \<Rightarrow> bool" where
  "report_clash a b \<longleftrightarrow>
     rw_id a = rw_id b
     \<or> rw_project_id a = rw_project_id b \<and> rw_baseline_replay_id a = rw_baseline_replay_id b
       \<and> rw_candidate_replay_id a = rw_candidate_replay_id b \<and> rw_analyzer_version a = rw_analyzer_version b"

text \<open>Its scan, if one is named, must exist; its replays were just read and are never deleted.\<close>

definition report_linked :: "report_row \<Rightarrow> db \<Rightarrow> bool" where
  "report_linked r d \<longleftrightarrow>
     (case rw_compatibility_scan_id r of None \<Rightarrow> True | Some i \<Rightarrow> list_ex (\<lambda>s. cs_id s = i) (db_scans d))"

definition put_report :: "report_row \<Rightarrow> db \<Rightarrow> db" where
  "put_report r d = d \<lparr> db_reports := db_reports d @ [r] \<rparr>"

definition run_analysis ::
  "(string \<Rightarrow> string) \<Rightarrow> (db \<Rightarrow> db) \<Rightarrow> uuid \<Rightarrow> uuid \<Rightarrow> uuid \<Rightarrow> uuid option \<Rightarrow> uuid \<Rightarrow> report_row session" where
  "run_analysis sha256 others project_id baseline_replay_id candidate_replay_id scan_id new_id =
     sbind (report_by_key project_id baseline_replay_id candidate_replay_id analyzer_version) (\<lambda>existing.
     case existing of
       Some r \<Rightarrow> sreturn r
     | None \<Rightarrow>
         sbind (get_ready_replay project_id baseline_replay_id) (\<lambda>baseline_run.
         sbind (get_ready_replay project_id candidate_replay_id) (\<lambda>candidate_run.
         sbind (sread (steps_of baseline_replay_id)) (\<lambda>baseline_steps.
         sbind (sread (steps_of candidate_replay_id)) (\<lambda>candidate_steps.
         let report = diff_analyze (map to_view baseline_steps) (map to_view candidate_steps);
             row = to_report_row sha256 new_id report (rr_organization_id baseline_run) project_id
                     baseline_replay_id candidate_replay_id scan_id
         in sthen (concurrently others)
              (sthen (flush_row db_reports report_clash report_linked put_report row) (sreturn row)))))))"

definition get_report :: "uuid \<Rightarrow> uuid \<Rightarrow> report_row session" where
  "get_report project_id report_id =
     srequire (Dom (NotFoundError (DifferentialReportNotFound report_id))) (report_by_id project_id report_id)"

section \<open>A retry finds the report\<close>

interpretation reports: unique_table report_clash db_reports put_report
  by unfold_locales (auto simp: report_clash_def put_report_def)

lemma run_analysis_new:
  assumes "run_analysis sha256 others pid b c scan i s = (Inr r, t)"
  shows "report_by_key pid b c analyzer_version t = (Inr (Some r), t)"
proof -
  obtain existing s' where ex: "report_by_key pid b c analyzer_version s = (Inr existing, s')"
    using assms by (auto simp: run_analysis_def sbind_eq_Inr)
  then have s': "s' = s" by (simp add: report_by_key_def fetch_one_eq_Inr)
  show ?thesis
  proof (cases existing)
    case (Some q)
    then show ?thesis using assms ex s' by (simp add: run_analysis_def sbind_simps session_basic)
  next
    case None
    obtain u report org where fl: "flush_row db_reports report_clash report_linked put_report r u = (Inr (), t)"
      and row: "r = to_report_row sha256 i report org pid b c scan" "dr_version report = analyzer_version"
      using assms unfolding run_analysis_def
      by (simp add: sbind_simps(2) ex None s')
        (auto simp: sbind_eq_Inr sthen_eq_Inr Let_def session_basic diff_analyze_def)
    show ?thesis
      unfolding report_by_key_def
      by (rule reports.flush_then_fetch [OF fl])
        (simp_all add: report_clash_def put_report_def row to_report_row_def)
  qed
qed

interpretation report_retry: retriable "run_analysis sha256 others pid b c scan"
  for sha256 others pid b c scan
proof
  fix i j s r t
  assume "run_analysis sha256 others pid b c scan i s = (Inr r, t)"
  from run_analysis_new [OF this] show "run_analysis sha256 others pid b c scan j t = (Inr r, t)"
    by (simp add: run_analysis_def sbind_simps session_basic)
qed

end
