(* ===== verification/Risk_Service.thy ===== *)
theory Risk_Service
  imports Risk_Engine Compat_Service Diff_Service
begin

text \<open>
  \<open>app/services/risk_service.py\<close> with its repository (\<open>app/repositories/risk_repository.py\<close>): the evidence of
  an assessment is read from a stored scan and a stored report, the engine decides, and the result is stored
  once per input pair and engine version. \<open>blast\<close> is \<open>BlastRadiusService.compute\<close> (the number of
  affected components), absent when the service was built without one.
\<close>

section \<open>Evidence\<close>

definition tool_change_types :: "difference_type list" where
  "tool_change_types = [DT_TOOL_CHANGED, DT_PROVIDER_INVOCATION_CHANGED]"

definition non_successful_statuses :: "string list" where
  "non_successful_statuses = [''failed'', ''skipped'']"

text \<open>\<open>max(latency_deltas) if latency_deltas else None\<close>.\<close>

definition max_latency :: "differential_change list \<Rightarrow> rat option" where
  "max_latency changes =
     (case List.map_filter dc_latency_percent_delta changes of
        [] \<Rightarrow> None
      | d # ds \<Rightarrow> Some (foldl max d ds))"

definition build_context :: "compatibility_scan option \<Rightarrow> report_row option \<Rightarrow> int option \<Rightarrow> risk_context" where
  "build_context scan report blast_radius_total =
     (let base = no_evidence
            \<lparr> rx_compatibility_status := map_option (compatibility_status_value \<circ> cs_status) scan,
              rx_breaking_count := (case scan of Some s \<Rightarrow> int (cs_breaking_count s) | None \<Rightarrow> 0),
              rx_critical_count :=
                (case scan of Some s \<Rightarrow> int (length (filter (\<lambda>c. ch_severity c = SV_CRITICAL) (cs_changes s)))
                 | None \<Rightarrow> 0),
              rx_blast_radius := blast_radius_total,
              rx_scan_id := map_option cs_id scan \<rparr>
      in case report of
           None \<Rightarrow> base
         | Some r \<Rightarrow>
             base
               \<lparr> rx_differential_available := True,
                 rx_new_failures := int (ds_new_failures (rw_summary r)),
                 rx_resolved_failures := int (ds_resolved_failures (rw_summary r)),
                 rx_changed_outputs := int (ds_changed_outputs (rw_summary r)),
                 rx_schema_changes := int (ds_schema_changes (rw_summary r)),
                 rx_removed_steps := int (ds_removed (rw_summary r)),
                 rx_removed_required_step :=
                   list_ex (\<lambda>c. DT_STEP_REMOVED \<in> set (dc_difference_types c)
                     \<and> (case dc_baseline_status c of None \<Rightarrow> False
                        | Some st \<Rightarrow> st \<notin> set non_successful_statuses)) (rw_changes r),
                 rx_tool_invocation_changed :=
                   list_ex (\<lambda>c. list_ex (\<lambda>dt. dt \<in> set tool_change_types) (dc_difference_types c)) (rw_changes r),
                 rx_error_introduced :=
                   list_ex (\<lambda>c. DT_ERROR_INTRODUCED \<in> set (dc_difference_types c)) (rw_changes r),
                 rx_max_latency := max_latency (rw_changes r),
                 rx_report_id := Some (rw_id r) \<rparr>)"

section \<open>Rows\<close>

definition to_rule_result :: "nat \<Rightarrow> triggered_rule \<Rightarrow> rule_result" where
  "to_rule_result order_index rule =
     \<lparr> ru_order_index = order_index, ru_rule_id = tr_rule_id rule,
       ru_category = risk_category_value (tr_category rule), ru_description = tr_description rule,
       ru_score_delta = tr_score_delta rule, ru_evidence_refs = tr_evidence_refs rule,
       ru_hard_block = tr_hard_block rule \<rparr>"

definition canonical_assessment_dict :: "risk_assessment \<Rightarrow> json_dict" where
  "canonical_assessment_dict a =
     [(''risk_engine_version'', JStr (ra_version a)),
      (''decision'', JStr (risk_decision_value (ra_decision a))),
      (''score'', JInt (ra_score a)),
      (''hard_block'', JBool (ra_hard_block a)),
      (''triggered_rules'', JList (map (\<lambda>r. JDict
         [(''rule_id'', JStr (tr_rule_id r)),
          (''category'', JStr (risk_category_value (tr_category r))),
          (''score_delta'', JInt (tr_score_delta r)),
          (''hard_block'', JBool (tr_hard_block r))]) (ra_triggered a)))]"

definition to_assessment_row ::
  "(string \<Rightarrow> string) \<Rightarrow> uuid \<Rightarrow> risk_assessment \<Rightarrow> uuid \<Rightarrow> uuid \<Rightarrow> uuid option \<Rightarrow> uuid option \<Rightarrow> assessment_row" where
  "to_assessment_row sha256 new_id a organization_id project_id scan_id report_id =
     \<lparr> as_id = new_id, as_organization_id = organization_id, as_project_id = project_id,
       as_compatibility_scan_id = scan_id, as_differential_report_id = report_id,
       as_risk_engine_version = ra_version a, as_decision = risk_decision_value (ra_decision a),
       as_score = ra_score a, as_hard_block = ra_hard_block a,
       as_content_hash = compute_checksum sha256 (canonical_assessment_dict a),
       as_rule_results = map (\<lambda>(i, r). to_rule_result i r) (enumerate 0 (ra_triggered a)) \<rparr>"

section \<open>Store\<close>

text \<open>
  \<open>uq_risk_assessments_idempotency\<close>: its scan and report columns may be null, and a null equals no null.
\<close>

definition assessment_clash :: "assessment_row \<Rightarrow> assessment_row \<Rightarrow> bool" where
  "assessment_clash a b \<longleftrightarrow>
     as_id a = as_id b
     \<or> as_project_id a = as_project_id b \<and> same_key (as_compatibility_scan_id a) (as_compatibility_scan_id b)
       \<and> same_key (as_differential_report_id a) (as_differential_report_id b)
       \<and> as_risk_engine_version a = as_risk_engine_version b"

definition assessment_linked :: "assessment_row \<Rightarrow> db \<Rightarrow> bool" where
  "assessment_linked a d \<longleftrightarrow> list_ex (\<lambda>p. pj_id p = as_project_id a) (db_projects d)"

definition put_assessment :: "assessment_row \<Rightarrow> db \<Rightarrow> db" where
  "put_assessment a d = d \<lparr> db_assessments := db_assessments d @ [a] \<rparr>"

text \<open>The look-up by key: here \<open>= None\<close> is rendered as \<open>IS NULL\<close>.\<close>

definition assessment_by_key :: "uuid \<Rightarrow> uuid option \<Rightarrow> uuid option \<Rightarrow> string \<Rightarrow> assessment_row option session" where
  "assessment_by_key project_id scan_id report_id version =
     fetch_one db_assessments (\<lambda>a. as_project_id a = project_id \<and> as_compatibility_scan_id a = scan_id
       \<and> as_differential_report_id a = report_id \<and> as_risk_engine_version a = version)"

definition assessment_by_id :: "uuid \<Rightarrow> uuid \<Rightarrow> assessment_row option session" where
  "assessment_by_id project_id assessment_id =
     fetch_one db_assessments (\<lambda>a. as_id a = assessment_id \<and> as_project_id a = project_id)"

section \<open>The service\<close>

definition compute_blast_radius ::
  "(uuid \<Rightarrow> uuid \<Rightarrow> exn + nat) option \<Rightarrow> uuid \<Rightarrow> compatibility_scan option \<Rightarrow> exn + int option" where
  "compute_blast_radius blast project_id scan =
     (case (scan, blast) of
        (Some s, Some compute) \<Rightarrow>
          (case compute project_id (cs_component_id s) of
             Inr n \<Rightarrow> Inr (Some (int n))
           | Inl (Dom (GraphUnavailable _)) \<Rightarrow> Inr None
           | Inl (Dom (NotFoundError (GraphComponentNotFound _))) \<Rightarrow> Inr None
           | Inl e \<Rightarrow> Inl e)
      | _ \<Rightarrow> Inr None)"

text \<open>The loads of the optional inputs: an id that resolves to nothing in the project is refused.\<close>

definition load_scan :: "uuid \<Rightarrow> uuid option \<Rightarrow> compatibility_scan option session" where
  "load_scan project_id scan_id =
     (case scan_id of
        None \<Rightarrow> sreturn None
      | Some i \<Rightarrow> sbind (srequire (Dom (NotFoundError (CompatibilityScanNotFound i))) (scan_by_id project_id i))
                   (\<lambda>s. sreturn (Some s)))"

definition load_report :: "uuid \<Rightarrow> uuid option \<Rightarrow> report_row option session" where
  "load_report project_id report_id =
     (case report_id of
        None \<Rightarrow> sreturn None
      | Some i \<Rightarrow> sbind (srequire (Dom (NotFoundError (DifferentialReportNotFound i))) (report_by_id project_id i))
                   (\<lambda>r. sreturn (Some r)))"

definition assessment_organization :: "uuid \<Rightarrow> report_row option \<Rightarrow> uuid session" where
  "assessment_organization project_id report =
     (case report of
        Some r \<Rightarrow> sreturn (rw_organization_id r)
      | None \<Rightarrow> sbind (require_project project_id) (\<lambda>p. sreturn (pj_organization_id p)))"

definition store_assessment :: "(db \<Rightarrow> db) \<Rightarrow> assessment_row \<Rightarrow> assessment_row session" where
  "store_assessment others row =
     sthen (concurrently others)
       (sthen (flush_row db_assessments assessment_clash assessment_linked put_assessment row) (sreturn row))"

definition run_assessment ::
  "(string \<Rightarrow> string) \<Rightarrow> (uuid \<Rightarrow> uuid \<Rightarrow> exn + nat) option \<Rightarrow> (db \<Rightarrow> db) \<Rightarrow> uuid \<Rightarrow> uuid option \<Rightarrow> uuid option \<Rightarrow> uuid \<Rightarrow>
   assessment_row session" where
  "run_assessment sha256 blast others project_id scan_id report_id new_id =
     sthen (sguard (scan_id \<noteq> None \<or> report_id \<noteq> None) (Dom RiskAssessmentInputRequired))
     (sbind (assessment_by_key project_id scan_id report_id risk_engine_version) (\<lambda>existing.
      case existing of
        Some a \<Rightarrow> sreturn a
      | None \<Rightarrow>
          sbind (load_scan project_id scan_id) (\<lambda>scan.
          sbind (load_report project_id report_id) (\<lambda>report.
          sbind (slift (compute_blast_radius blast project_id scan)) (\<lambda>blast_radius_total.
          let a = evaluate (build_context scan report blast_radius_total)
          in sbind (assessment_organization project_id report) (\<lambda>organization_id.
             store_assessment others
               (to_assessment_row sha256 new_id a organization_id project_id scan_id report_id)))))))"

definition get_assessment :: "uuid \<Rightarrow> uuid \<Rightarrow> assessment_row session" where
  "get_assessment project_id assessment_id =
     srequire (Dom (NotFoundError (RiskAssessmentNotFound assessment_id))) (assessment_by_id project_id assessment_id)"

interpretation assessments: unique_table assessment_clash db_assessments put_assessment
  by unfold_locales (auto simp: assessment_clash_def put_assessment_def same_key_def)

section \<open>A retry finds the assessment\<close>

definition assessment_key :: "uuid \<Rightarrow> uuid option \<Rightarrow> uuid option \<Rightarrow> assessment_row \<Rightarrow> bool" where
  "assessment_key pid scan report a \<longleftrightarrow>
     as_project_id a = pid \<and> as_compatibility_scan_id a = scan \<and> as_differential_report_id a = report
     \<and> as_risk_engine_version a = risk_engine_version"

lemma assessment_by_key_eq:
  "assessment_by_key pid scan report risk_engine_version = fetch_one db_assessments (assessment_key pid scan report)"
  by (simp add: assessment_by_key_def assessment_key_def [abs_def])

lemma evaluate_version [simp]: "ra_version (evaluate ctx) = risk_engine_version"
  by (simp add: evaluate_def Let_def)

lemma loads_pure:
  "load_scan pid scan s = (Inr v, t) \<Longrightarrow> t = s"
  "load_report pid report s = (Inr w, t) \<Longrightarrow> t = s"
  "assessment_organization pid r s = (Inr q, t) \<Longrightarrow> t = s"
  by (auto simp: load_scan_def load_report_def assessment_organization_def require_project_def project_by_id_def
      scan_by_id_def report_by_id_def sbind_eq_Inr srequire_eq_Inr fetch_one_eq_Inr session_basic
      split: option.splits)

text \<open>An assessment that was not stored before was flushed after the others had committed.\<close>

lemma run_assessment_cases:
  assumes "run_assessment sha256 blast others pid scan report i s = (Inr a, t)"
  obtains (stored) "t = s" "filter (assessment_key pid scan report) (db_assessments (tx_current s)) = [a]"
    | (fresh) u where "filter (assessment_key pid scan report) (db_assessments (tx_current s)) = []"
        "u = \<lparr> tx_committed = others (tx_committed s), tx_current = others (tx_current s) \<rparr>"
        "flush_row db_assessments assessment_clash assessment_linked put_assessment a u = (Inr (), t)"
        "as_id a = i" "assessment_key pid scan report a"
        "scan \<noteq> None \<or> report \<noteq> None"
proof -
  have g: "scan \<noteq> None \<or> report \<noteq> None"
    using assms by (auto simp: run_assessment_def sthen_eq_Inr sguard_eq_Inr)
  obtain existing where ex: "one_or_none (filter (assessment_key pid scan report) (db_assessments (tx_current s))) = Inr existing"
    using assms by (auto simp: run_assessment_def sthen_eq_Inr sbind_eq_Inr assessment_by_key_eq fetch_one_eq_Inr sguard_eq_Inr)
  have f: "assessment_by_key pid scan report risk_engine_version s = (Inr existing, s)"
    using ex by (simp add: assessment_by_key_eq fetch_one_def)
  show thesis
  proof (cases existing)
    case (Some b)
    then have "t = s" "b = a"
      using assms g by (auto simp: run_assessment_def sthen_eq_Inr sguard_eq_Inr sbind_simps(2) f session_basic)
    then show thesis using stored ex Some by simp
  next
    case None
    obtain v w q org where
      "store_assessment others (to_assessment_row sha256 i (evaluate (build_context v w q)) org pid scan report) s
         = (Inr a, t)"
      using assms g None
      by (simp add: run_assessment_def sthen_eq_Inr sguard_eq_Inr sbind_simps(2) f)
        (auto simp: sbind_eq_Inr session_basic Let_def dest!: loads_pure)
    then have a: "a = to_assessment_row sha256 i (evaluate (build_context v w q)) org pid scan report"
      and fl: "flush_row db_assessments assessment_clash assessment_linked put_assessment a
        \<lparr> tx_committed = others (tx_committed s), tx_current = others (tx_current s) \<rparr> = (Inr (), t)"
      by (auto simp: store_assessment_def sthen_eq_Inr session_basic concurrently_def)
    have "filter (assessment_key pid scan report) (db_assessments (tx_current s)) = []" using ex None by simp
    moreover have "as_id a = i" "assessment_key pid scan report a"
      by (simp_all add: a to_assessment_row_def assessment_key_def)
    ultimately show thesis using fresh fl g by blast
  qed
qed

text \<open>
  A retry returns the stored assessment when both inputs are named, or when nothing else runs beside the
  first request.
\<close>

lemma assessment_new:
  assumes "run_assessment sha256 blast others pid scan report i s = (Inr a, t)"
    and "scan \<noteq> None \<and> report \<noteq> None \<or> others = (\<lambda>d. d)"
  shows "assessment_by_key pid scan report risk_engine_version t = (Inr (Some a), t)"
  using assms(1)
proof (cases rule: run_assessment_cases)
  case stored
  then show ?thesis by (simp add: assessment_by_key_eq fetch_one_def)
next
  case (fresh u)
  show ?thesis
  proof (cases "scan \<noteq> None \<and> report \<noteq> None")
    case True
    show ?thesis
      unfolding assessment_by_key_eq
      by (rule assessments.flush_then_fetch [OF fresh(3)])
        (use fresh(5) True in \<open>auto simp: put_assessment_def assessment_key_def assessment_clash_def same_key_def\<close>)
  next
    case False
    then have "others = (\<lambda>d. d)" using assms(2) by blast
    then have "u = s" using fresh(2) by (cases s) simp
    then show ?thesis
      using fresh(1,3,5) by (simp add: assessment_by_key_eq fetch_one_def flush_row_eq_Inr put_assessment_def)
  qed
qed

lemma assessment_again:
  assumes "run_assessment sha256 blast others pid scan report i s = (Inr a, t)"
    and "scan \<noteq> None \<and> report \<noteq> None \<or> others = (\<lambda>d. d)"
  shows "run_assessment sha256' blast' others' pid scan report j t = (Inr a, t)"
proof -
  have "scan \<noteq> None \<or> report \<noteq> None"
    using assms(1) by (auto simp: run_assessment_def sthen_eq_Inr sguard_eq_Inr)
  then show ?thesis
    using assessment_new [OF assms] by (simp add: run_assessment_def sthen_simps sbind_simps sguard_simps session_basic)
qed

interpretation assessment_retry: retriable "run_assessment sha256 blast others pid (Some scan) (Some report)"
  for sha256 blast others pid scan report
  by unfold_locales (rule assessment_again; simp)

interpretation assessment_retry_alone: retriable "run_assessment sha256 blast (\<lambda>d. d) pid scan report"
  for sha256 blast pid scan report
  by unfold_locales (rule assessment_again [OF _ disjI2 [OF refl]])

end
