(* ===== verification/Risk_Properties.thy ===== *)
theory Risk_Properties
  imports Risk_Service Compat_Properties
begin

text \<open>
  The properties of the evidence pipeline: registry, compatibility scan, risk engine and stored assessment.
\<close>

section \<open>The engine\<close>

text \<open>
  C9: the score lies between 0 and 100, no category contributes more than its cap, and the decision is
  exactly the band of the score, unless a hard block forces \<open>BLOCK\<close>; the hard block fires exactly on a
  critical change or a new replay failure.
\<close>

theorem evaluate_bands:
  fixes ctx
  defines "a \<equiv> evaluate ctx"
  shows "0 \<le> ra_score a \<and> ra_score a \<le> 100
    \<and> list_all (\<lambda>c. 0 \<le> cc_capped_total c \<and> cc_capped_total c \<le> cc_cap c) (ra_contributions a)
    \<and> (ra_hard_block a \<longleftrightarrow> 0 < rx_critical_count ctx \<or> 0 < rx_new_failures ctx)
    \<and> (ra_decision a = RD_BLOCK \<longleftrightarrow> ra_hard_block a \<or> 70 \<le> ra_score a)
    \<and> (ra_decision a = RD_PASS \<longleftrightarrow> \<not> ra_hard_block a \<and> ra_score a < 30)"
proof -
  have "0 \<le> ra_score a \<and> ra_score a \<le> 100"
    unfolding a_def evaluate_score using points_bounds [of ctx] by simp
  moreover have "list_all (\<lambda>c. 0 \<le> cc_capped_total c \<and> cc_capped_total c \<le> cc_cap c) (ra_contributions a)"
    unfolding a_def evaluate_contributions using points_bounds [of ctx] by (simp add: risk_categories_def)
  ultimately show ?thesis
    unfolding a_def evaluate_decision
    by (auto simp: evaluate_hard_block decide_def pass_max_def warn_max_def)
qed

text \<open>
  More evidence never lowers the score and never relaxes the decision (\<open>PASS\<close> below \<open>WARN\<close> below
  \<open>BLOCK\<close>).
\<close>

theorem evaluate_monotone:
  assumes "evidence_le c d"
  shows "ra_score (evaluate c) \<le> ra_score (evaluate d) \<and> ra_decision (evaluate c) \<le> ra_decision (evaluate d)"
  using score_mono [OF assms] decide_mono [OF score_mono [OF assms]] hard_block_mono [OF assms]
  by (simp add: evaluate_decision)

theorem evaluate_monotone_witness:
  "ra_decision (evaluate no_evidence) \<le> ra_decision (evaluate (no_evidence \<lparr> rx_breaking_count := 2 \<rparr>))"
  using evaluate_monotone [of no_evidence "no_evidence \<lparr> rx_breaking_count := 2 \<rparr>"]
  by (simp add: evidence_le_def no_evidence_def option_le_def)

section \<open>From a scan to a decision\<close>

lemma scan_context:
  assumes "scan_faithful scan"
  shows "compatibility_points (build_context (Some scan) None b) = (if 0 < cs_breaking_count scan then 30 else 0)"
    "replay_points (build_context (Some scan) None b) = 0"
    "differential_points (build_context (Some scan) None b) = 0"
    "latency_points (build_context (Some scan) None b) = 0"
    "rx_new_failures (build_context (Some scan) None b) = 0"
    "rx_critical_count (build_context (Some scan) None b) = int (cs_severity_critical_count scan)"
  using assms
  by (cases "cs_status scan"; auto simp: build_context_def Let_def no_evidence_def points_defs scan_faithful_def)+

text \<open>
  Assessed on a scan alone (the path of a pull request) a component is blocked exactly when the scan has
  a critical change, warned about exactly when it has a breaking one but no critical one, and passes otherwise:
  however many components depend on it, the blast radius changes no decision.
\<close>

theorem scan_alone_decision:
  assumes "scan_faithful scan"
  shows "ra_decision (evaluate (build_context (Some scan) None blast)) =
    (if 0 < cs_severity_critical_count scan then RD_BLOCK
     else if 0 < cs_breaking_count scan then RD_WARN else RD_PASS)"
  using points_bounds(7,8) [of "build_context (Some scan) None blast"]
  by (auto simp: evaluate_decision evaluate_score evaluate_hard_block scan_context [OF assms] decide_def
      pass_max_def warn_max_def)

definition sample_component :: component_row where
  "sample_component =
     \<lparr> cm_id = 3, cm_organization_id = 1, cm_project_id = 2, cm_type = C_TOOL, cm_name = ''search'',
       cm_slug = ''search'', cm_description = None, cm_status = ACTIVE \<rparr>"

definition sample_version :: "uuid \<Rightarrow> string \<Rightarrow> json_dict \<Rightarrow> component_version" where
  "sample_version i v content =
     \<lparr> cv_id = i, cv_component_id = 3, cv_version = v, cv_sequence = i, cv_content = content,
       cv_checksum = [], cv_metadata = JNull \<rparr>"

definition sample_scan :: compatibility_scan where
  "sample_scan = scan_row 9 2 sample_component (sample_version 4 ''1'' tool_v1) (sample_version 5 ''2'' tool_v2) tool_result"

lemma sample_scan_counts:
  "scan_faithful sample_scan" "cs_severity_critical_count sample_scan = 1" "cs_id sample_scan = 9"
  "cs_project_id sample_scan = 2"
proof -
  have "filter (\<lambda>c. ch_severity c = SV_CRITICAL) cs = map id (filter (\<lambda>c. ch_severity c = SV_CRITICAL) cs)" for cs
    by simp
  have "length (filter (\<lambda>c. ch_severity c = SV_CRITICAL) (ar_changes tool_result)) =
      length (filter (\<lambda>(p, t, v). v = SV_CRITICAL) (map (\<lambda>c. (ch_path c, ch_type c, ch_severity c)) (ar_changes tool_result)))"
    by (simp add: filter_map comp_def)
  also have "\<dots> = 1" unfolding tool_result_summary by simp
  finally show "cs_severity_critical_count sample_scan = 1"
    by (simp add: sample_scan_def scan_row_def Let_def count_of_severities del: severity_value.simps)
  show "scan_faithful sample_scan" unfolding sample_scan_def by (rule scan_row_faithful [OF tool_result])
  show "cs_id sample_scan = 9" "cs_project_id sample_scan = 2"
    by (simp_all add: sample_scan_def scan_row_def Let_def)
qed

theorem scan_alone_decision_witness:
  "ra_decision (evaluate (build_context (Some sample_scan) None (Some 40))) = RD_BLOCK"
  using scan_alone_decision [OF sample_scan_counts(1)] sample_scan_counts(2) by simp

text \<open>
  C20: from code to verdict: if the engine's result on two contents, stored as a scan, is assessed alone,
  \<open>BLOCK\<close> means that the component is a tool whose candidate version has a new required input field; no
  other change of any component, however breaking, blocks.
\<close>

theorem block_means_new_required_input:
  assumes "compat_analyze ct baseline candidate = Inr r"
    and "ra_decision (evaluate (build_context (Some (scan_row i pid component vb vc r)) None blast)) = RD_BLOCK"
  shows "ct = C_TOOL \<and> (\<exists>c \<in> set (ar_changes r). ch_type c = CT_REQUIRED_FIELD_ADDED
    \<and> ch_class c = CL_BREAKING \<and> prefix ''$.input_schema'' (ch_path c))"
proof -
  let ?scan = "scan_row i pid component vb vc r"
  have "0 < cs_severity_critical_count ?scan"
    using assms(2) points_bounds(7,8) [of "build_context (Some ?scan) None blast"]
    by (auto simp: evaluate_decision evaluate_score evaluate_hard_block scan_context [OF scan_row_faithful [OF assms(1)]]
        decide_def pass_max_def warn_max_def split: if_splits)
  then have "filter (\<lambda>c. ch_severity c = SV_CRITICAL) (ar_changes r) \<noteq> []"
    by (simp add: scan_row_def Let_def count_of_severities del: severity_value.simps)
  then obtain c where "c \<in> set (ar_changes r)" "ch_severity c = SV_CRITICAL" by (auto simp: filter_empty_conv)
  then show ?thesis using analysis_critical [OF assms(1)] by blast
qed

theorem block_means_new_required_input_witness:
  "\<exists>c \<in> set (ar_changes tool_result). ch_type c = CT_REQUIRED_FIELD_ADDED"
proof -
  have "ra_decision (evaluate (build_context (Some sample_scan) None None)) = RD_BLOCK"
    using points_bounds(7,8) [of "build_context (Some sample_scan) None None"]
    by (simp add: evaluate_decision evaluate_score evaluate_hard_block scan_context [OF sample_scan_counts(1)]
        sample_scan_counts decide_def)
  then show ?thesis
    using block_means_new_required_input [OF tool_result, where blast = None] unfolding sample_scan_def by blast
qed

section \<open>Stored evidence\<close>

definition sample_db :: db where
  "sample_db = empty_db
     \<lparr> db_organizations := [\<lparr> og_id = 1, og_name = ''Acme'', og_slug = ''acme'' \<rparr>],
       db_projects := [\<lparr> pj_id = 2, pj_organization_id = 1, pj_name = ''Core'', pj_slug = ''core'' \<rparr>],
       db_components := [sample_component],
       db_versions := [sample_version 4 ''1'' tool_v1, sample_version 5 ''2'' tool_v2] \<rparr>"

lemma sample_db_simps [simp]:
  "db_projects sample_db = [\<lparr> pj_id = 2, pj_organization_id = 1, pj_name = ''Core'', pj_slug = ''core'' \<rparr>]"
  "db_components sample_db = [sample_component]"
  "db_versions sample_db = [sample_version 4 ''1'' tool_v1, sample_version 5 ''2'' tool_v2]"
  "db_scans sample_db = []" "db_assessments sample_db = []"
  by (simp_all add: sample_db_def empty_db_def)

lemma sample_db_ok: "registry_ok sample_db" "schemas_ok sample_db"
proof -
  have v: "cm_type sample_component = C_TOOL" "cm_id sample_component = 3"
    "cv_content (sample_version i x c) = c" "cv_component_id (sample_version i x c) = 3" "cv_id (sample_version i x c) = i"
    "cv_version (sample_version i x c) = x" for i x c
    by (simp_all add: sample_component_def sample_version_def)
  show "schemas_ok sample_db" using tool_v1_ok tool_v2_ok by (simp add: schemas_ok_def v)
  show "registry_ok sample_db"
    using content_ok_simps [OF tool_v1_ok] content_ok_simps [OF tool_v2_ok]
    by (simp add: registry_ok_def version_linked_def stored_content_ok_def v version_clash_def)
qed

text \<open>
  C30: registering a version keeps the registry intact, whatever other transactions add in between: the
  unique keys and the references hold, and every stored content has been validated for the type of its
  component; a refusal is one of the documented ones and nothing of the failed insert remains.
\<close>

theorem create_component_version_keeps:
  assumes "registry_ok d" "registry_grows others" "dict_ok content"
  shows "case create_component_version sha256 explain others new_id pid cid version content metadata (begin_txn d) of
      (Inr v, t) \<Rightarrow> both registry_ok t \<and> cv_component_id v = cid \<and> cv_version v = version
        \<and> cv_checksum v = compute_checksum sha256 (cv_content v)
        \<and> (\<exists>ct. validate_content explain ct content = Inr (cv_content v))
    | (Inl e, t) \<Rightarrow> both registry_ok t \<and> version_refusal pid cid version e"
  using create_component_version_wp [of "begin_txn d" others content sha256 explain new_id pid cid version metadata] assms
  by (simp add: wp_def split: prod.splits sum.splits)

theorem create_component_version_keeps_witness:
  "case create_component_version id (\<lambda>_ _. []) (\<lambda>d. d) 6 2 3 ''3'' tool_v2 JNull (begin_txn sample_db) of
      (Inr v, t) \<Rightarrow> both registry_ok t \<and> cv_component_id v = 3 \<and> cv_version v = ''3''
        \<and> cv_checksum v = compute_checksum id (cv_content v)
        \<and> (\<exists>ct. validate_content (\<lambda>_ _. []) ct tool_v2 = Inr (cv_content v))
    | (Inl e, t) \<Rightarrow> both registry_ok t \<and> version_refusal 2 3 ''3'' e"
  by (rule create_component_version_keeps [OF sample_db_ok(1) registry_grows_id content_ok_simps(2) [OF tool_v2_ok]])



text \<open>
  An assessment of a scan and a report is stored once: whoever asks again, with whatever fresh id and
  whatever ran beside the first request, is given the same row, and the store is not touched.
\<close>

theorem run_assessment_once:
  assumes "run_assessment sha256 blast others pid (Some scan) (Some report) i s = (Inr a, t)"
  shows "run_assessment sha256 blast others pid (Some scan) (Some report) j t = (Inr a, t)"
  using assms by (rule assessment_retry.retry)

definition sample_report :: report_row where
  "sample_report =
     \<lparr> rw_id = 8, rw_organization_id = 1, rw_project_id = 2, rw_baseline_replay_id = 20,
       rw_candidate_replay_id = 21, rw_compatibility_scan_id = None, rw_analyzer_version = ''1'',
       rw_summary = (empty_summary 1 1) \<lparr> ds_matched := 1 \<rparr>, rw_content_hash = [], rw_changes = [] \<rparr>"

definition evidence_db :: db where
  "evidence_db = sample_db \<lparr> db_scans := [sample_scan], db_reports := [sample_report] \<rparr>"

lemma evidence_db_simps [simp]:
  "db_projects evidence_db = [\<lparr> pj_id = 2, pj_organization_id = 1, pj_name = ''Core'', pj_slug = ''core'' \<rparr>]"
  "db_scans evidence_db = [sample_scan]" "db_reports evidence_db = [sample_report]" "db_assessments evidence_db = []"
  by (simp_all add: evidence_db_def)

lemmas run_assessment_eval =
  run_assessment_def store_assessment_def load_scan_def load_report_def assessment_by_key_def fetch_one_def
  scan_by_id_def report_by_id_def sbind_def sthen_def srequire_def sguard_def session_basic
  assessment_organization_def require_project_def project_by_id_def compute_blast_radius_def Let_def
  concurrently_def flush_row_def begin_txn_def

lemma sample_assessment:
  "\<exists>a t. run_assessment sha None (\<lambda>d. d) 2 (Some 9) (Some 8) 30 (begin_txn evidence_db) = (Inr a, t)"
  by (simp add: run_assessment_eval sample_scan_counts sample_report_def assessment_linked_def to_assessment_row_def)

theorem run_assessment_once_witness:
  "\<exists>a t. run_assessment id None (\<lambda>d. d) 2 (Some 9) (Some 8) 31 t = (Inr a, t)"
  using sample_assessment run_assessment_once by blast

text \<open>
  An assessment of a scan alone is not protected in this way: its report column is null, which the unique
  key does not compare. If another request stores the same assessment between the look-up and the insert, both
  rows stay, and from then on every request for it fails with \<open>MultipleResultsFound\<close>.
\<close>

theorem concurrent_scan_assessments:
  assumes "run_assessment sha256 blast (put_assessment b) pid (Some scan) None i s = (Inr a, t)" "as_id a = i"
    and "as_project_id b = pid" "as_compatibility_scan_id b = Some scan" "as_differential_report_id b = None"
    and "as_risk_engine_version b = risk_engine_version" "i \<notin> as_id ` set (db_assessments (tx_current s))"
  shows "run_assessment sha256' blast' others pid (Some scan) None j t = (Inl MultipleResultsFound, t)"
proof -
  have "filter (assessment_key pid (Some scan) None) (db_assessments (tx_current t)) = [b, a]"
    using assms(1)
  proof (cases rule: run_assessment_cases)
    case stored
    then show ?thesis using filter_single [OF stored(2)] assms(2,7) by blast
  next
    case (fresh u)
    then show ?thesis using assms(3-6) by (simp add: flush_row_eq_Inr put_assessment_def assessment_key_def)
  qed
  then have "assessment_by_key pid (Some scan) None risk_engine_version t = (Inl MultipleResultsFound, t)"
    by (simp add: assessment_by_key_eq fetch_one_def)
  then show ?thesis by (simp add: run_assessment_def sthen_simps sbind_simps sguard_simps)
qed

theorem concurrent_scan_assessments_witness:
  "\<exists>t. run_assessment id None (\<lambda>d. d) 2 (Some 9) None 33 t = (Inl MultipleResultsFound, t)"
proof -
  let ?b = "to_assessment_row id 40 (evaluate no_evidence) 1 2 (Some 9) None"
  obtain a t where a: "run_assessment id None (put_assessment ?b) 2 (Some 9) None 30 (begin_txn evidence_db) = (Inr a, t)"
      "as_id a = 30"
    by (simp add: run_assessment_eval sample_scan_counts assessment_linked_def to_assessment_row_def
        put_assessment_def assessment_clash_def same_key_def)
  show ?thesis
    using concurrent_scan_assessments [OF a, of id None "\<lambda>d. d" 33]
    by (auto simp: to_assessment_row_def begin_txn_def)
qed

end
