(* ===== verification/Trajectory_Model.thy ===== *)
theory Trajectory_Model
  imports Session Json_Text
begin

text \<open>
  The pure parts of trajectory recording: the status rules (\<open>app/trajectory/transitions.py\<close>), the shape an
  event must have (\<open>app/trajectory/validation.py\<close>) and the payload constructors of
  \<open>app/trajectory/models.py\<close>. Proved here: a trajectory's status is a state machine, and the payloads built
  by the constructors pass the shape check of their event types.
\<close>

section \<open>Status\<close>

fun trajectory_status_value :: "trajectory_status \<Rightarrow> string" where
  "trajectory_status_value T_RUNNING = ''running''"
| "trajectory_status_value T_COMPLETED = ''completed''"
| "trajectory_status_value T_FAILED = ''failed''"

text \<open>\<open>_VALID_TRANSITIONS.get(current, frozenset())\<close>.\<close>

fun trajectory_transitions :: "trajectory_status \<Rightarrow> trajectory_status list" where
  "trajectory_transitions T_RUNNING = [T_COMPLETED, T_FAILED]"
| "trajectory_transitions T_COMPLETED = []"
| "trajectory_transitions T_FAILED = []"

definition trajectory_terminal_statuses :: "trajectory_status list" where
  "trajectory_terminal_statuses = [T_COMPLETED, T_FAILED]"

definition is_valid_trajectory_transition :: "trajectory_status \<Rightarrow> trajectory_status \<Rightarrow> bool" where
  "is_valid_trajectory_transition current target \<longleftrightarrow> target \<in> set (trajectory_transitions current)"

definition is_terminal_trajectory :: "trajectory_status \<Rightarrow> bool" where
  "is_terminal_trajectory status \<longleftrightarrow> status \<in> set trajectory_terminal_statuses"

lemma is_terminal_trajectory_iff: "is_terminal_trajectory st \<longleftrightarrow> st \<noteq> T_RUNNING"
  by (cases st) (simp_all add: is_terminal_trajectory_def trajectory_terminal_statuses_def)

lemma valid_trajectory_transition_iff:
  "is_valid_trajectory_transition a b \<longleftrightarrow> a = T_RUNNING \<and> is_terminal_trajectory b"
  by (cases a; cases b)
    (simp_all add: is_valid_trajectory_transition_def is_terminal_trajectory_def trajectory_terminal_statuses_def)

interpretation trajectory_machine: status_machine is_valid_trajectory_transition is_terminal_trajectory
    "\<lambda>st. if st = T_RUNNING then 1 else 0"
  by unfold_locales (auto simp: valid_trajectory_transition_iff is_terminal_trajectory_iff)

section \<open>The shape of an event\<close>

definition reserved_event_types :: "event_type list" where
  "reserved_event_types = [RUN_COMPLETED, RUN_FAILED]"

definition requires_invocation_id :: "event_type list" where
  "requires_invocation_id = [TOOL_CALL, TOOL_RESPONSE]"

definition requires_state_key :: "event_type list" where
  "requires_state_key = [STATE_READ, STATE_WRITE]"

definition require_input_key :: "event_type \<Rightarrow> json \<Rightarrow> string \<Rightarrow> exn + unit" where
  "require_input_key et input_payload key =
     (let refused = Dom (InvalidTrajectoryEvent (event_type_value et @ '' events require '' @ [CHR 0x27] @ key @ [CHR 0x27]
        @ '' in their input payload''))
      in case input_payload of
           JDict kvs \<Rightarrow> rguard (has_key kvs key) refused
         | _ \<Rightarrow> Inl refused)"

definition validate_event_shape :: "event_type \<Rightarrow> json \<Rightarrow> json \<Rightarrow> exn + unit" where
  "validate_event_shape et input_payload error_payload =
     rbind (rguard (et \<notin> set reserved_event_types)
        (Dom (InvalidTrajectoryEvent (event_type_value et
          @ '' must be recorded via complete_trajectory/fail_trajectory, not append_event'')))) (\<lambda>_.
     rbind (if et \<in> set requires_invocation_id then require_input_key et input_payload ''invocation_id''
            else Inr ()) (\<lambda>_.
     rbind (if et \<in> set requires_state_key then require_input_key et input_payload ''key'' else Inr ()) (\<lambda>_.
     rguard (et \<noteq> ERROR \<or> error_payload \<noteq> JNull)
       (Dom (InvalidTrajectoryEvent ''ERROR events require a non-null error payload'')))))"

lemma require_input_key_iff:
  "require_input_key et v k = Inr u \<longleftrightarrow> (\<exists>kvs. v = JDict kvs \<and> has_key kvs k)"
  by (cases v) (simp_all add: require_input_key_def)

lemma validate_event_shape_iff:
  "validate_event_shape et v err = Inr u \<longleftrightarrow>
     et \<notin> {RUN_COMPLETED, RUN_FAILED}
     \<and> (et \<in> {TOOL_CALL, TOOL_RESPONSE} \<longrightarrow> (\<exists>kvs. v = JDict kvs \<and> has_key kvs ''invocation_id''))
     \<and> (et \<in> {STATE_READ, STATE_WRITE} \<longrightarrow> (\<exists>kvs. v = JDict kvs \<and> has_key kvs ''key''))
     \<and> (et = ERROR \<longrightarrow> err \<noteq> JNull)"
  by (cases et)
    (auto simp: validate_event_shape_def reserved_event_types_def requires_invocation_id_def
      requires_state_key_def rbind_eq_Inr_iff require_input_key_iff)

lemma validate_event_shape_refusal:
  "validate_event_shape et v err = Inl e \<Longrightarrow> \<exists>d. e = Dom (InvalidTrajectoryEvent d)"
  by (auto simp: validate_event_shape_def rbind_eq_Inl_iff require_input_key_def Let_def
      split: json.splits if_splits)

section \<open>Payloads\<close>

definition drop_none :: "json_dict \<Rightarrow> json_dict" where
  "drop_none d = filter (\<lambda>(k, v). v \<noteq> JNull) d"

record model_request_payload =
  mq_messages :: "json list"
  mq_parameters :: json_dict
  mq_tools :: "json list"
  mq_structured_output :: json

definition model_request_dict :: "model_request_payload \<Rightarrow> json_dict" where
  "model_request_dict p = drop_none
     [(''messages'', JList (mq_messages p)), (''parameters'', JDict (mq_parameters p)),
      (''tools'', JList (mq_tools p)), (''structured_output'', mq_structured_output p)]"

record model_response_payload =
  ms_content :: json
  ms_tool_calls :: "json list"
  ms_structured_output :: json
  ms_finish_reason :: json
  ms_usage :: json

definition model_response_dict :: "model_response_payload \<Rightarrow> json_dict" where
  "model_response_dict p = drop_none
     [(''content'', ms_content p), (''tool_calls'', JList (ms_tool_calls p)),
      (''structured_output'', ms_structured_output p), (''finish_reason'', ms_finish_reason p),
      (''usage'', ms_usage p)]"

record tool_call_payload =
  tc_invocation_id :: string
  tc_arguments :: json_dict

definition tool_call_dict :: "tool_call_payload \<Rightarrow> json_dict" where
  "tool_call_dict p =
     [(''invocation_id'', JStr (tc_invocation_id p)), (''arguments'', JDict (tc_arguments p))]"

record tool_response_payload =
  tr_invocation_id :: string
  tr_result :: json
  tr_error :: json

definition tool_response_input :: "tool_response_payload \<Rightarrow> json_dict" where
  "tool_response_input p = [(''invocation_id'', JStr (tr_invocation_id p))]"

definition tool_response_output :: "tool_response_payload \<Rightarrow> json" where
  "tool_response_output p = (if tr_result p = JNull then JNull else JDict [(''result'', tr_result p)])"

record state_payload =
  sp_key :: string
  sp_scope :: "string option"
  sp_previous_value :: json
  sp_current_value :: json

definition state_dict :: "state_payload \<Rightarrow> json_dict" where
  "state_dict p =
     (let payload = [(''key'', JStr (sp_key p)), (''previous_value'', sp_previous_value p),
                     (''current_value'', sp_current_value p)]
      in case sp_scope p of None \<Rightarrow> payload | Some scope \<Rightarrow> dput ''scope'' (JStr scope) payload)"

lemma payloads_well_shaped:
  "validate_event_shape TOOL_CALL (JDict (tool_call_dict c)) e = Inr ()"
  "validate_event_shape TOOL_RESPONSE (JDict (tool_response_input r)) e = Inr ()"
  "et \<in> {STATE_READ, STATE_WRITE} \<Longrightarrow> validate_event_shape et (JDict (state_dict p)) e = Inr ()"
  by (auto simp: validate_event_shape_iff tool_call_dict_def tool_response_input_def state_dict_def
      has_key_iff_ex Let_def split: option.splits)

end
