(* ===== verification/Trajectory_Service.thy ===== *)
theory Trajectory_Service
  imports Registry Trajectory_Model
begin

text \<open>
  Recording of trajectories: \<open>app/services/trajectory_recorder.py\<close> with the queries and the atomic updates
  of \<open>app/repositories/trajectory_repository.py\<close>. A payload is redacted, checked, limited in size and stored
  under the next sequence number of its trajectory; the unique keys are those of the migration that creates the
  tables. \<open>others\<close> is what other transactions commit while the handler waits. Proved here: the conditions under
  which an event is stored and under which it is refused, what is stored, and that the log of a trajectory has
  no gaps.
\<close>

section \<open>Queries\<close>

definition trajectory_by_id :: "uuid \<Rightarrow> uuid \<Rightarrow> trajectory option session" where
  "trajectory_by_id project_id trajectory_id =
     fetch_one db_trajectories (\<lambda>t. tj_id t = trajectory_id \<and> tj_project_id t = project_id)"

definition trajectory_by_external_run_id :: "uuid \<Rightarrow> string \<Rightarrow> trajectory option session" where
  "trajectory_by_external_run_id project_id external_run_id =
     fetch_one db_trajectories (\<lambda>t. tj_project_id t = project_id \<and> tj_external_run_id t = Some external_run_id)"

text \<open>The relationship \<open>Trajectory.events\<close>, ordered by sequence number.\<close>

definition events_of :: "uuid \<Rightarrow> db \<Rightarrow> trajectory_event list" where
  "events_of trajectory_id d =
     sort_key te_sequence_number (filter (\<lambda>e. te_trajectory_id e = trajectory_id) (db_events d))"

definition event_by_external_id :: "uuid \<Rightarrow> string \<Rightarrow> trajectory_event option session" where
  "event_by_external_id trajectory_id external_event_id =
     fetch_one db_events
       (\<lambda>e. te_trajectory_id e = trajectory_id \<and> te_external_event_id e = Some external_event_id)"

definition count_events :: "uuid \<Rightarrow> nat session" where
  "count_events trajectory_id = sread (\<lambda>d. length (filter (\<lambda>e. te_trajectory_id e = trajectory_id) (db_events d)))"

text \<open>\<open>GROUP BY trajectory_id\<close>: an entry for each listed trajectory that has events.\<close>

definition count_events_for_trajectories :: "uuid list \<Rightarrow> (uuid \<times> nat) list session" where
  "count_events_for_trajectories trajectory_ids =
     (if trajectory_ids = [] then sreturn []
      else sread (\<lambda>d. map (\<lambda>i. (i, length (filter (\<lambda>e. te_trajectory_id e = i) (db_events d))))
        (remdups (filter (\<lambda>i. i \<in> set trajectory_ids) (map te_trajectory_id (db_events d))))))"

text \<open>\<open>UPDATE trajectories SET next_sequence = next_sequence + 1 WHERE id = ... AND status = RUNNING RETURNING next_sequence\<close>.\<close>

definition bump_sequence :: "uuid \<Rightarrow> trajectory \<Rightarrow> trajectory" where
  "bump_sequence trajectory_id t =
     (if tj_id t = trajectory_id \<and> tj_status t = T_RUNNING then t \<lparr> tj_next_sequence := tj_next_sequence t + 1 \<rparr> else t)"

definition allocate_sequence :: "uuid \<Rightarrow> nat option session" where
  "allocate_sequence trajectory_id =
     sbind (sread (\<lambda>d. filter (\<lambda>t. tj_id t = trajectory_id \<and> tj_status t = T_RUNNING) (db_trajectories d))) (\<lambda>rows.
     sthen (swrite (\<lambda>d. d \<lparr> db_trajectories := map (bump_sequence trajectory_id) (db_trajectories d) \<rparr>))
       (sreturn (case rows of [] \<Rightarrow> None | t # _ \<Rightarrow> Some (tj_next_sequence t + 1))))"

definition set_trajectory_status ::
  "uuid \<Rightarrow> trajectory_status \<Rightarrow> trajectory_status \<Rightarrow> string option \<Rightarrow> trajectory \<Rightarrow> trajectory" where
  "set_trajectory_status trajectory_id from_status to_status error t =
     (if tj_id t = trajectory_id \<and> tj_status t = from_status
      then t \<lparr> tj_status := to_status, tj_error := error \<rparr> else t)"

text \<open>\<open>UPDATE trajectories SET status = ..., error = ... WHERE id = ... AND status = from_status\<close>.\<close>

definition transition_trajectory_status ::
  "uuid \<Rightarrow> trajectory_status \<Rightarrow> trajectory_status \<Rightarrow> string option \<Rightarrow> bool session" where
  "transition_trajectory_status trajectory_id from_status to_status error =
     sbind (sread (\<lambda>d. list_ex (\<lambda>t. tj_id t = trajectory_id \<and> tj_status t = from_status) (db_trajectories d))) (\<lambda>updated.
     sthen (swrite (\<lambda>d. d \<lparr> db_trajectories :=
              map (set_trajectory_status trajectory_id from_status to_status error) (db_trajectories d) \<rparr>))
       (sreturn updated))"

section \<open>References to components\<close>

definition resolve_component_reference ::
  "uuid \<Rightarrow> uuid option \<Rightarrow> uuid option \<Rightarrow> (uuid option \<times> uuid option) session" where
  "resolve_component_reference project_id component_id component_version_id =
     (case component_version_id of
        Some vid \<Rightarrow>
          sbind (srequire (Dom (NotFoundError (ComponentVersionNotFound component_id (uuid_str vid)))) (version_by_id vid)) (\<lambda>version.
          sthen (sguard (component_id = None \<or> component_id = Some (cv_component_id version))
                   (Dom (InvalidTrajectoryEvent (''component_version_id '' @ uuid_str vid
                      @ '' does not belong to component_id '' @ (case component_id of Some c \<Rightarrow> uuid_str c | None \<Rightarrow> ''None'')))))
            (sbind (srequire (Dom (NotFoundError (ComponentNotFound (cv_component_id version))))
                     (component_by_id project_id (cv_component_id version)))
              (\<lambda>component. sreturn (Some (cm_id component), Some (cv_id version)))))
      | None \<Rightarrow>
          (case component_id of
             Some cid \<Rightarrow>
               sbind (srequire (Dom (NotFoundError (ComponentNotFound cid))) (component_by_id project_id cid))
                 (\<lambda>component. sreturn (Some (cm_id component), None))
           | None \<Rightarrow> sreturn (None, None)))"

section \<open>Starting a trajectory\<close>

text \<open>What \<open>start_trajectory\<close> is given besides the project.\<close>

record start_args =
  sa_workflow_component_id :: "uuid option"
  sa_workflow_version_id :: "uuid option"
  sa_external_run_id :: "string option"
  sa_environment :: "string option"
  sa_correlation_id :: "string option"
  sa_trace_id :: "string option"
  sa_span_id :: "string option"
  sa_tags :: json
  sa_metadata :: json

text \<open>Two values both given and different.\<close>

definition differ :: "'a option \<Rightarrow> 'a option \<Rightarrow> bool" where
  "differ declared stored \<longleftrightarrow> declared \<noteq> None \<and> stored \<noteq> None \<and> stored \<noteq> declared"

definition trajectory_conflicts :: "trajectory \<Rightarrow> uuid option \<Rightarrow> uuid option \<Rightarrow> string option \<Rightarrow> bool" where
  "trajectory_conflicts existing workflow_component_id workflow_version_id environment \<longleftrightarrow>
     differ workflow_component_id (tj_workflow_component_id existing)
     \<or> differ workflow_version_id (tj_workflow_version_id existing)
     \<or> differ environment (tj_environment existing)"

definition trajectory_clash :: "trajectory \<Rightarrow> trajectory \<Rightarrow> bool" where
  "trajectory_clash a b \<longleftrightarrow>
     tj_id a = tj_id b
     \<or> tj_project_id a = tj_project_id b \<and> same_key (tj_external_run_id a) (tj_external_run_id b)"

definition trajectory_linked :: "trajectory \<Rightarrow> db \<Rightarrow> bool" where
  "trajectory_linked t d \<longleftrightarrow> list_ex (\<lambda>p. pj_id p = tj_project_id t) (db_projects d)"

definition put_trajectory :: "trajectory \<Rightarrow> db \<Rightarrow> db" where
  "put_trajectory t d = d \<lparr> db_trajectories := db_trajectories d @ [t] \<rparr>"

definition existing_run ::
  "uuid \<Rightarrow> string \<Rightarrow> uuid option \<Rightarrow> uuid option \<Rightarrow> start_args \<Rightarrow> trajectory \<Rightarrow> trajectory session" where
  "existing_run project_id external_run_id wc wv a existing =
     sthen (sguard (\<not> trajectory_conflicts existing wc wv (sa_environment a))
              (Dom (ConflictError (TrajectoryAlreadyExists project_id external_run_id))))
       (sreturn existing)"

definition new_trajectory :: "uuid \<Rightarrow> project \<Rightarrow> uuid \<Rightarrow> uuid option \<Rightarrow> uuid option \<Rightarrow> start_args \<Rightarrow> trajectory" where
  "new_trajectory new_id project project_id wc wv a =
     \<lparr> tj_id = new_id, tj_organization_id = pj_organization_id project, tj_project_id = project_id,
       tj_workflow_component_id = wc, tj_workflow_version_id = wv, tj_external_run_id = sa_external_run_id a,
       tj_status = T_RUNNING, tj_environment = sa_environment a, tj_correlation_id = sa_correlation_id a,
       tj_trace_id = sa_trace_id a, tj_span_id = sa_span_id a, tj_tags = sa_tags a, tj_metadata = sa_metadata a,
       tj_next_sequence = 0, tj_error = None \<rparr>"

definition insert_trajectory ::
  "(db \<Rightarrow> db) \<Rightarrow> uuid \<Rightarrow> uuid option \<Rightarrow> uuid option \<Rightarrow> start_args \<Rightarrow> trajectory \<Rightarrow> trajectory session" where
  "insert_trajectory others project_id wc wv a row =
     sthen (concurrently others)
       (scatch_integrity
         (sthen (flush_row db_trajectories trajectory_clash trajectory_linked put_trajectory row) (sreturn row))
         (sthen srollback
           (case sa_external_run_id a of
              None \<Rightarrow> sraise IntegrityError
            | Some run \<Rightarrow>
                sbind (trajectory_by_external_run_id project_id run) (\<lambda>existing.
                case existing of
                  None \<Rightarrow> sraise IntegrityError
                | Some t \<Rightarrow> existing_run project_id run wc wv a t))))"

definition start_trajectory :: "(db \<Rightarrow> db) \<Rightarrow> uuid \<Rightarrow> start_args \<Rightarrow> uuid \<Rightarrow> trajectory session" where
  "start_trajectory others project_id a new_id =
     sbind (require_project project_id) (\<lambda>project.
     sbind (resolve_component_reference project_id (sa_workflow_component_id a) (sa_workflow_version_id a)) (\<lambda>(wc, wv).
     sbind (case sa_external_run_id a of
              None \<Rightarrow> sreturn None
            | Some run \<Rightarrow> trajectory_by_external_run_id project_id run) (\<lambda>existing.
     case existing of
       Some t \<Rightarrow> existing_run project_id (the (sa_external_run_id a)) wc wv a t
     | None \<Rightarrow>
         insert_trajectory others project_id wc wv a (new_trajectory new_id project project_id wc wv a))))"

definition get_trajectory :: "uuid \<Rightarrow> uuid \<Rightarrow> trajectory session" where
  "get_trajectory project_id trajectory_id =
     srequire (Dom (NotFoundError (TrajectoryNotFound trajectory_id))) (trajectory_by_id project_id trajectory_id)"

section \<open>Appending an event\<close>

record append_args =
  aa_event_type :: event_type
  aa_component_id :: "uuid option"
  aa_component_version_id :: "uuid option"
  aa_parent_event_id :: "uuid option"
  aa_correlation_id :: "string option"
  aa_external_event_id :: "string option"
  aa_input :: json
  aa_output :: json
  aa_error :: json
  aa_metadata :: json
  aa_duration_ms :: "int option"

text \<open>The payloads as they are stored, and whether any of them had to be cut.\<close>

record stored_payloads =
  sp_input :: json
  sp_output :: json
  sp_error :: json
  sp_metadata :: json
  sp_truncated :: bool
  sp_original_size :: "nat option"

text \<open>\<open>max((s for s in sizes if s is not None), default=None)\<close>.\<close>

definition max_given :: "nat option list \<Rightarrow> nat option" where
  "max_given sizes =
     (let given = List.map_filter (\<lambda>s. s) sizes in if given = [] then None else Some (max_list given))"

definition redact :: "json \<Rightarrow> json" where
  "redact v = sanitize default_sensitive_keys v"

definition limit_payloads :: "append_args \<Rightarrow> exn + stored_payloads" where
  "limit_payloads a =
     rbind (enforce_payload_limit (redact (aa_input a)) ''input'') (\<lambda>(input_stored, input_truncated, input_size).
     rbind (enforce_payload_limit (redact (aa_output a)) ''output'') (\<lambda>(output_stored, output_truncated, output_size).
     rbind (enforce_payload_limit (redact (aa_error a)) ''error'') (\<lambda>(error_stored, error_truncated, error_size).
     rbind (enforce_payload_limit (redact (aa_metadata a)) ''metadata'') (\<lambda>(metadata_stored, metadata_truncated, metadata_size).
     Inr \<lparr> sp_input = input_stored, sp_output = output_stored, sp_error = error_stored,
           sp_metadata = metadata_stored,
           sp_truncated = (input_truncated \<or> output_truncated \<or> error_truncated \<or> metadata_truncated),
           sp_original_size = max_given [input_size, output_size, error_size, metadata_size] \<rparr>))))"

definition event_hash ::
  "(string \<Rightarrow> string) \<Rightarrow> uuid \<Rightarrow> nat \<Rightarrow> event_type \<Rightarrow> uuid option \<Rightarrow> stored_payloads \<Rightarrow> string" where
  "event_hash sha256 trajectory_id sequence_number et vid p =
     compute_event_hash sha256 trajectory_id sequence_number et vid (sp_input p) (sp_output p) (sp_error p)"

definition reconcile_duplicate ::
  "(string \<Rightarrow> string) \<Rightarrow> uuid \<Rightarrow> string \<Rightarrow> event_type \<Rightarrow> uuid option \<Rightarrow> stored_payloads \<Rightarrow> trajectory_event \<Rightarrow>
   trajectory_event session" where
  "reconcile_duplicate sha256 trajectory_id external_event_id et vid p existing_event =
     (let candidate_hash = event_hash sha256 trajectory_id (te_sequence_number existing_event) et vid p
      in sthen (sguard (te_content_hash existing_event = candidate_hash)
                  (Dom (ConflictError (DuplicateTrajectoryEvent trajectory_id external_event_id))))
           (sreturn existing_event))"

definition event_clash :: "trajectory_event \<Rightarrow> trajectory_event \<Rightarrow> bool" where
  "event_clash a b \<longleftrightarrow>
     te_id a = te_id b
     \<or> te_trajectory_id a = te_trajectory_id b
       \<and> (te_sequence_number a = te_sequence_number b \<or> same_key (te_external_event_id a) (te_external_event_id b))"

definition event_linked :: "trajectory_event \<Rightarrow> db \<Rightarrow> bool" where
  "event_linked e d \<longleftrightarrow> list_ex (\<lambda>t. tj_id t = te_trajectory_id e) (db_trajectories d)"

definition put_event :: "trajectory_event \<Rightarrow> db \<Rightarrow> db" where
  "put_event e d = d \<lparr> db_events := db_events d @ [e] \<rparr>"

definition new_event ::
  "(string \<Rightarrow> string) \<Rightarrow> uuid \<Rightarrow> uuid \<Rightarrow> nat \<Rightarrow> uuid option \<Rightarrow> uuid option \<Rightarrow> append_args \<Rightarrow> stored_payloads \<Rightarrow>
   trajectory_event" where
  "new_event sha256 new_id trajectory_id sequence_number cid vid a p =
     \<lparr> te_id = new_id, te_trajectory_id = trajectory_id, te_sequence_number = sequence_number,
       te_event_type = aa_event_type a, te_component_id = cid, te_component_version_id = vid,
       te_parent_event_id = aa_parent_event_id a, te_correlation_id = aa_correlation_id a,
       te_external_event_id = aa_external_event_id a, te_input = sp_input p, te_output = sp_output p,
       te_error = sp_error p, te_metadata = sp_metadata p, te_duration_ms = aa_duration_ms a,
       te_payload_truncated = sp_truncated p, te_original_size = sp_original_size p,
       te_content_hash = event_hash sha256 trajectory_id sequence_number (aa_event_type a) vid p \<rparr>"

text \<open>The flush of the new event with its race handling (\<open>try: flush() except IntegrityError\<close>).\<close>

definition insert_event :: "trajectory_event \<Rightarrow> trajectory_event session" where
  "insert_event event =
     scatch_integrity
       (sthen (flush_row db_events event_clash event_linked put_event event) (sreturn event))
       (sthen srollback
         (case te_external_event_id event of
            None \<Rightarrow> sraise IntegrityError
          | Some ext \<Rightarrow>
              sbind (event_by_external_id (te_trajectory_id event) ext) (\<lambda>existing_event.
              case existing_event of
                None \<Rightarrow> sraise IntegrityError
              | Some e \<Rightarrow>
                  sthen (sguard (te_content_hash e = te_content_hash event)
                           (Dom (ConflictError (DuplicateTrajectoryEvent (te_trajectory_id event) ext))))
                    (sreturn e))))"

text \<open>From the allocation of the sequence number on; the update locks the trajectory until the commit.\<close>

definition record_event ::
  "(string \<Rightarrow> string) \<Rightarrow> (db \<Rightarrow> db) \<Rightarrow> uuid \<Rightarrow> uuid \<Rightarrow> uuid \<Rightarrow> uuid option \<Rightarrow> uuid option \<Rightarrow> append_args \<Rightarrow>
   stored_payloads \<Rightarrow> trajectory_event session" where
  "record_event sha256 others new_id project_id trajectory_id cid vid a p =
     sthen (concurrently others)
       (sbind (allocate_sequence trajectory_id) (\<lambda>allocated.
        case allocated of
          None \<Rightarrow>
            sbind (get_trajectory project_id trajectory_id) (\<lambda>t.
              sraise (Dom (ConflictError (TrajectoryTerminal trajectory_id (tj_status t)))))
        | Some n \<Rightarrow> insert_event (new_event sha256 new_id trajectory_id n cid vid a p)))"

definition no_such_parent :: "uuid \<Rightarrow> uuid option \<Rightarrow> string" where
  "no_such_parent trajectory_id parent =
     ''parent_event_id '' @ (case parent of Some p \<Rightarrow> uuid_str p | None \<Rightarrow> ''None'')
     @ '' is not an event of trajectory '' @ uuid_str trajectory_id"

text \<open>
  What is checked and looked up first: the resolved references, the payloads to store and the event already
  recorded under the caller's id. Nothing is written.
\<close>

definition check_append ::
  "uuid \<Rightarrow> uuid \<Rightarrow> append_args \<Rightarrow>
   (uuid option \<times> uuid option \<times> stored_payloads \<times> trajectory_event option) session" where
  "check_append project_id trajectory_id a =
     sthen (get_trajectory project_id trajectory_id)
       (sbind (sread (events_of trajectory_id)) (\<lambda>events.
        sthen (slift (validate_event_shape (aa_event_type a) (redact (aa_input a)) (redact (aa_error a))))
       (sbind (resolve_component_reference project_id (aa_component_id a) (aa_component_version_id a)) (\<lambda>(cid, vid).
        sthen (sguard (case aa_parent_event_id a of None \<Rightarrow> True | Some parent \<Rightarrow> list_ex (\<lambda>e. te_id e = parent) events)
                 (Dom (InvalidTrajectoryEvent (no_such_parent trajectory_id (aa_parent_event_id a)))))
       (sbind (slift (limit_payloads a)) (\<lambda>p.
        sbind (case aa_external_event_id a of
                 None \<Rightarrow> sreturn None
               | Some ext \<Rightarrow> event_by_external_id trajectory_id ext) (\<lambda>existing_event.
        sreturn (cid, vid, p, existing_event))))))))"

definition append_event ::
  "(string \<Rightarrow> string) \<Rightarrow> (db \<Rightarrow> db) \<Rightarrow> uuid \<Rightarrow> uuid \<Rightarrow> append_args \<Rightarrow> uuid \<Rightarrow> trajectory_event session" where
  "append_event sha256 others project_id trajectory_id a new_id =
     sbind (check_append project_id trajectory_id a) (\<lambda>(cid, vid, p, existing_event).
     case existing_event of
       Some e \<Rightarrow>
         reconcile_duplicate sha256 trajectory_id (the (aa_external_event_id a)) (aa_event_type a) vid p e
     | None \<Rightarrow> record_event sha256 others new_id project_id trajectory_id cid vid a p)"

section \<open>Reading and ending\<close>

definition list_events :: "uuid \<Rightarrow> uuid \<Rightarrow> event_type option \<Rightarrow> nat \<Rightarrow> nat \<Rightarrow> trajectory_event page session" where
  "list_events project_id trajectory_id et n page_size =
     sthen (get_trajectory project_id trajectory_id)
       (sread (\<lambda>d. page_result n page_size
          (filter (\<lambda>e. case et of None \<Rightarrow> True | Some t \<Rightarrow> te_event_type e = t) (events_of trajectory_id d))))"

definition end_trajectory ::
  "(db \<Rightarrow> db) \<Rightarrow> uuid \<Rightarrow> uuid \<Rightarrow> trajectory_status \<Rightarrow> string option \<Rightarrow> trajectory session" where
  "end_trajectory others project_id trajectory_id target_status error =
     sbind (get_trajectory project_id trajectory_id) (\<lambda>t.
     sthen (sguard (is_valid_trajectory_transition (tj_status t) target_status)
              (Dom (ConflictError (InvalidTrajectoryTransition trajectory_id (tj_status t) target_status))))
       (sthen (concurrently others)
         (sbind (transition_trajectory_status trajectory_id (tj_status t) target_status error) (\<lambda>updated.
          sbind (get_trajectory project_id trajectory_id) (\<lambda>refreshed.
          sthen (sguard updated
                   (Dom (ConflictError (InvalidTrajectoryTransition trajectory_id (tj_status refreshed) target_status))))
            (sreturn refreshed))))))"

definition complete_trajectory :: "(db \<Rightarrow> db) \<Rightarrow> uuid \<Rightarrow> uuid \<Rightarrow> trajectory session" where
  "complete_trajectory others project_id trajectory_id =
     end_trajectory others project_id trajectory_id T_COMPLETED None"

definition fail_trajectory :: "(db \<Rightarrow> db) \<Rightarrow> uuid \<Rightarrow> uuid \<Rightarrow> string option \<Rightarrow> trajectory session" where
  "fail_trajectory others project_id trajectory_id error =
     end_trajectory others project_id trajectory_id T_FAILED error"

end
