(* ===== verification/Trajectory_Laws.thy ===== *)
theory Trajectory_Laws
  imports Trajectory_Service
begin

text \<open>
  The log of a trajectory: what every stored event satisfies, that the sequence numbers of a trajectory have
  no gap, and that a recorded event is never changed and a terminal trajectory never again. The operations of
  \<open>TrajectoryRecorderService\<close>, each a request of its own with other requests committing while it runs, are
  the steps of a transition system on the store.
\<close>

section \<open>Stored payloads\<close>

definition payload_ok :: "json \<Rightarrow> bool" where
  "payload_ok v \<longleftrightarrow> canonical_size_bytes v \<le> soft_limit_bytes \<and> no_secrets default_sensitive_keys v"

definition event_ok :: "trajectory_event \<Rightarrow> bool" where
  "event_ok e \<longleftrightarrow> payload_ok (te_input e) \<and> payload_ok (te_output e) \<and> payload_ok (te_error e) \<and> payload_ok (te_metadata e)"

lemma truncation_keys_public:
  "\<not> is_sensitive ''_truncated'' default_sensitive_keys"
  "\<not> is_sensitive ''_original_size_bytes'' default_sensitive_keys"
  "\<not> is_sensitive ''_preview'' default_sensitive_keys"
  by code_simp+

lemma enforce_payload_limit_ok:
  assumes "enforce_payload_limit v f = Inr (w, tr, sz)" "no_secrets default_sensitive_keys v"
  shows "payload_ok w"
proof -
  have null: "payload_ok JNull"
    by (simp add: payload_ok_def canonical_size_bytes_def canonical_json_def soft_limit_bytes_def)
  have cut: "payload_ok (JDict [(''_truncated'', JBool True), (''_original_size_bytes'', JInt (int (canonical_size_bytes v))),
      (''_preview'', JStr (take truncation_preview_chars (canonical_json v)))])"
    if "canonical_size_bytes v \<le> hard_limit_bytes"
    using truncated_size [OF that, of v] by (simp add: payload_ok_def soft_limit_bytes_def truncation_keys_public)
  show ?thesis
    using assms null cut
    by (auto simp: enforce_payload_limit_def Let_def payload_ok_def split: if_splits)
qed

lemma limit_payloads_ok:
  assumes "limit_payloads a = Inr p"
  shows "payload_ok (sp_input p)" "payload_ok (sp_output p)" "payload_ok (sp_error p)" "payload_ok (sp_metadata p)"
  using assms enforce_payload_limit_ok no_secrets_sanitize
  by (auto simp: limit_payloads_def redact_def rbind_eq_Inr_iff)

lemma new_event_ok: "limit_payloads a = Inr p \<Longrightarrow> event_ok (new_event sha256 i tid n cid vid a p)"
  using limit_payloads_ok [of a p] by (simp add: event_ok_def new_event_def)

section \<open>The invariant\<close>

definition log_ok :: "db \<Rightarrow> bool" where
  "log_ok d \<longleftrightarrow>
     no_clash trajectory_clash (db_trajectories d) \<and> no_clash event_clash (db_events d)
     \<and> (\<forall>e \<in> set (db_events d). event_linked e d \<and> event_ok e)
     \<and> (\<forall>t \<in> set (db_trajectories d). map te_sequence_number (events_of (tj_id t) d) = [1..<Suc (tj_next_sequence t)])"

text \<open>
  What may happen to the log: trajectories stay, their events are only added at the end, their status follows
  the rules, and once it is terminal nothing changes.
\<close>

definition log_extends :: "db \<Rightarrow> db \<Rightarrow> bool" where
  "log_extends d d' \<longleftrightarrow>
     (\<forall>t \<in> set (db_trajectories d). \<exists>t' \<in> set (db_trajectories d'). tj_id t' = tj_id t
        \<and> prefix (events_of (tj_id t) d) (events_of (tj_id t) d')
        \<and> is_valid_trajectory_transition\<^sup>*\<^sup>* (tj_status t) (tj_status t')
        \<and> (is_terminal_trajectory (tj_status t) \<longrightarrow> t' = t \<and> events_of (tj_id t) d' = events_of (tj_id t) d))"

definition log_step :: "db \<Rightarrow> db \<Rightarrow> bool" where
  "log_step d d' \<longleftrightarrow> (log_ok d \<longrightarrow> log_ok d' \<and> log_extends d d')"

lemma log_extends_refl [simp]: "log_extends d d"
  by (auto simp: log_extends_def)

lemma log_extends_trans: "log_extends a b \<Longrightarrow> log_extends b c \<Longrightarrow> log_extends a c"
  unfolding log_extends_def
proof
  fix t
  assume ab: "\<forall>t \<in> set (db_trajectories a). \<exists>t' \<in> set (db_trajectories b). tj_id t' = tj_id t
        \<and> prefix (events_of (tj_id t) a) (events_of (tj_id t) b)
        \<and> is_valid_trajectory_transition\<^sup>*\<^sup>* (tj_status t) (tj_status t')
        \<and> (is_terminal_trajectory (tj_status t) \<longrightarrow> t' = t \<and> events_of (tj_id t) b = events_of (tj_id t) a)"
    and bc: "\<forall>t \<in> set (db_trajectories b). \<exists>t' \<in> set (db_trajectories c). tj_id t' = tj_id t
        \<and> prefix (events_of (tj_id t) b) (events_of (tj_id t) c)
        \<and> is_valid_trajectory_transition\<^sup>*\<^sup>* (tj_status t) (tj_status t')
        \<and> (is_terminal_trajectory (tj_status t) \<longrightarrow> t' = t \<and> events_of (tj_id t) c = events_of (tj_id t) b)"
    and t: "t \<in> set (db_trajectories a)"
  obtain u where u: "u \<in> set (db_trajectories b)" "tj_id u = tj_id t" "prefix (events_of (tj_id t) a) (events_of (tj_id t) b)"
    "is_valid_trajectory_transition\<^sup>*\<^sup>* (tj_status t) (tj_status u)"
    "is_terminal_trajectory (tj_status t) \<longrightarrow> u = t \<and> events_of (tj_id t) b = events_of (tj_id t) a"
    using ab t by blast
  obtain v where v: "v \<in> set (db_trajectories c)" "tj_id v = tj_id u" "prefix (events_of (tj_id u) b) (events_of (tj_id u) c)"
    "is_valid_trajectory_transition\<^sup>*\<^sup>* (tj_status u) (tj_status v)"
    "is_terminal_trajectory (tj_status u) \<longrightarrow> v = u \<and> events_of (tj_id u) c = events_of (tj_id u) b"
    using bc u(1) by blast
  show "\<exists>t' \<in> set (db_trajectories c). tj_id t' = tj_id t
        \<and> prefix (events_of (tj_id t) a) (events_of (tj_id t) c)
        \<and> is_valid_trajectory_transition\<^sup>*\<^sup>* (tj_status t) (tj_status t')
        \<and> (is_terminal_trajectory (tj_status t) \<longrightarrow> t' = t \<and> events_of (tj_id t) c = events_of (tj_id t) a)"
  proof (intro bexI [of _ v] conjI impI)
    show "prefix (events_of (tj_id t) a) (events_of (tj_id t) c)" using u(2,3) v(3) by (simp add: prefix_order.trans)
    show "is_valid_trajectory_transition\<^sup>*\<^sup>* (tj_status t) (tj_status v)" using u(4) v(4) by simp
  qed (use u v in auto)
qed

lemma log_step_refl [simp]: "log_step d d"
  by (simp add: log_step_def)

lemma log_step_trans: "log_step a b \<Longrightarrow> log_step b c \<Longrightarrow> log_step a c"
  unfolding log_step_def using log_extends_trans by blast

lemma sort_key_snoc:
  assumes "\<And>x. x \<in> set xs \<Longrightarrow> f x \<le> f e"
  shows "sort_key f (xs @ [e]) = sort_key f xs @ [e]"
proof (rule properties_for_sort_key)
  have "filter (\<lambda>x. f k = f x) (sort_key f xs) = filter (\<lambda>x. f k = f x) xs" for k
    using sort_key_filter_eq [of f "f k" xs] by (simp add: eq_commute)
  then show "filter (\<lambda>x. f k = f x) (sort_key f xs @ [e]) = filter (\<lambda>x. f k = f x) (xs @ [e])" for k
    by simp
qed (use assms in \<open>auto simp: sorted_append\<close>)

section \<open>The atomic steps keep it\<close>

interpretation trajectories: unique_table trajectory_clash db_trajectories put_trajectory
  by unfold_locales (auto simp: trajectory_clash_def put_trajectory_def same_key_sym)

interpretation events: unique_table event_clash db_events put_event
  by unfold_locales (auto simp: event_clash_def put_event_def same_key_sym)

lemma events_of_simps [simp]:
  "events_of i (d \<lparr> db_trajectories := ts \<rparr>) = events_of i d"
  "events_of i (put_trajectory t d) = events_of i d"
  by (simp_all add: events_of_def put_trajectory_def)

lemma log_step_put_trajectory:
  assumes "\<not> list_ex (trajectory_clash t) (db_trajectories d)" "tj_next_sequence t = 0"
  shows "log_step d (put_trajectory t d)"
  unfolding log_step_def
proof (intro impI conjI)
  assume ok: "log_ok d"
  have fresh: "tj_id u \<noteq> tj_id t" if "u \<in> set (db_trajectories d)" for u
    using assms(1) that by (auto simp: list_ex_iff trajectory_clash_def)
  have "te_trajectory_id e \<noteq> tj_id t" if "e \<in> set (db_events d)" for e
    using ok that fresh by (fastforce simp: log_ok_def event_linked_def list_ex_iff)
  then have none: "events_of (tj_id t) d = []"
    by (auto simp: events_of_def filter_empty_conv)
  have "no_clash trajectory_clash (db_trajectories (put_trajectory t d))"
    using ok assms(1) trajectories.no_clash_append by (simp add: log_ok_def put_trajectory_def)
  then show "log_ok (put_trajectory t d)"
    using ok none assms(2) by (auto simp: log_ok_def event_linked_def) (auto simp: put_trajectory_def)
  show "log_extends d (put_trajectory t d)"
    by (auto simp: log_extends_def) (auto simp: put_trajectory_def)
qed

lemma log_step_set_status:
  assumes "is_valid_trajectory_transition from_status to_status"
  shows "log_step d (d \<lparr> db_trajectories := map (set_trajectory_status i from_status to_status err) (db_trajectories d) \<rparr>)"
    (is "log_step d (d \<lparr> db_trajectories := map ?f _ \<rparr>)")
  unfolding log_step_def
proof (intro impI conjI)
  assume ok: "log_ok d"
  have clash: "trajectory_clash (?f a) (?f b) \<longleftrightarrow> trajectory_clash a b" for a b
    by (auto simp: set_trajectory_status_def trajectory_clash_def)
  have same [simp]: "tj_id (?f t) = tj_id t" "tj_next_sequence (?f t) = tj_next_sequence t" for t
    by (simp_all add: set_trajectory_status_def)
  have "no_clash trajectory_clash (map ?f (db_trajectories d))"
    by (rule no_clash_map) (use ok in \<open>simp_all add: log_ok_def clash\<close>)
  then show "log_ok (d \<lparr> db_trajectories := map ?f (db_trajectories d) \<rparr>)"
    using ok by (auto simp: log_ok_def event_linked_def list_ex_iff)
  have "?f t = t" if "is_terminal_trajectory (tj_status t)" for t
    using that assms by (auto simp: set_trajectory_status_def valid_trajectory_transition_iff is_terminal_trajectory_iff)
  moreover have "is_valid_trajectory_transition\<^sup>*\<^sup>* (tj_status t) (tj_status (?f t))" for t
    using assms by (auto simp: set_trajectory_status_def)
  ultimately show "log_extends d (d \<lparr> db_trajectories := map ?f (db_trajectories d) \<rparr>)"
    unfolding log_extends_def by (intro ballI bexI [of _ "?f _"]) auto
qed

lemma running_row:
  assumes "filter (\<lambda>t. tj_id t = i \<and> tj_status t = T_RUNNING) ts = t # us"
  shows "t \<in> set ts \<and> tj_id t = i \<and> tj_status t = T_RUNNING"
proof -
  have "t \<in> set (filter (\<lambda>t. tj_id t = i \<and> tj_status t = T_RUNNING) ts)" unfolding assms by simp
  then show ?thesis by simp
qed

lemma log_step_put_event:
  assumes t: "t \<in> set (db_trajectories d)" "tj_id t = i" "tj_status t = T_RUNNING"
    and e: "te_trajectory_id e = i" "te_sequence_number e = tj_next_sequence t + 1" "event_ok e"
    and free: "\<not> list_ex (event_clash e) (db_events d)"
  shows "log_step d (put_event e (d \<lparr> db_trajectories := map (bump_sequence i) (db_trajectories d) \<rparr>))"
    (is "log_step d ?d'")
  unfolding log_step_def
proof (intro impI conjI)
  assume ok: "log_ok d"
  have nc: "no_clash trajectory_clash (db_trajectories d)" using ok by (simp add: log_ok_def)
  have bump [simp]: "tj_id (bump_sequence i u) = tj_id u" "tj_status (bump_sequence i u) = tj_status u" for u
    by (simp_all add: bump_sequence_def)
  have clash: "trajectory_clash (bump_sequence i a) (bump_sequence i b) \<longleftrightarrow> trajectory_clash a b" for a b
    by (auto simp: bump_sequence_def trajectory_clash_def)
  have only: "u = t" if "u \<in> set (db_trajectories d)" "tj_id u = i" for u
    by (rule no_clash_unique [OF nc that(1) t(1)]) (use that t in \<open>simp_all add: trajectory_clash_def\<close>)
  have seqs: "map te_sequence_number (events_of i d) = [1..<Suc (tj_next_sequence t)]"
    using ok t by (auto simp: log_ok_def)
  have le: "te_sequence_number x \<le> te_sequence_number e" if "x \<in> set (db_events d)" "te_trajectory_id x = i" for x
  proof -
    have "te_sequence_number x \<in> set (map te_sequence_number (events_of i d))"
      using that by (simp add: events_of_def)
    then show ?thesis unfolding seqs by (auto simp: e(2))
  qed
  have own: "events_of i ?d' = events_of i d @ [e]"
    using le sort_key_snoc [of "filter (\<lambda>x. te_trajectory_id x = i) (db_events d)" te_sequence_number e]
    by (simp add: events_of_def put_event_def e(1))
  have other: "events_of j ?d' = events_of j d" if "j \<noteq> i" for j
    using that by (simp add: events_of_def put_event_def e(1))
  have rows: "db_trajectories ?d' = map (bump_sequence i) (db_trajectories d)" "db_events ?d' = db_events d @ [e]"
    by (simp_all add: put_event_def)
  have linked: "event_linked x ?d' \<longleftrightarrow> event_linked x d" for x
    by (simp add: event_linked_def rows list_ex_iff)
  show "log_ok ?d'"
    unfolding log_ok_def rows
  proof (intro conjI ballI)
    show "no_clash trajectory_clash (map (bump_sequence i) (db_trajectories d))" by (rule no_clash_map) (simp_all add: nc clash)
    show "no_clash event_clash (db_events d @ [e])"
      using ok free events.no_clash_append by (simp add: log_ok_def)
    show "event_linked x ?d'" if "x \<in> set (db_events d @ [e])" for x
      using that ok t e(1) unfolding linked by (auto simp: log_ok_def event_linked_def list_ex_iff)
    show "event_ok x" if "x \<in> set (db_events d @ [e])" for x
      using that ok e(3) by (auto simp: log_ok_def)
    fix u'
    assume "u' \<in> set (map (bump_sequence i) (db_trajectories d))"
    then obtain u where u: "u \<in> set (db_trajectories d)" "u' = bump_sequence i u" by auto
    show "map te_sequence_number (events_of (tj_id u') ?d') = [1..<Suc (tj_next_sequence u')]"
    proof (cases "tj_id u = i")
      case True
      then have "u = t" using only u by blast
      then show ?thesis using u True t(3) own seqs e(2) by (simp add: bump_sequence_def)
    next
      case False
      then show ?thesis using u other [OF False] ok by (auto simp: log_ok_def bump_sequence_def)
    qed
  qed
  show "log_extends d ?d'"
    unfolding log_extends_def
  proof
    fix u
    assume u: "u \<in> set (db_trajectories d)"
    have "bump_sequence i u = u \<and> events_of (tj_id u) ?d' = events_of (tj_id u) d" if "is_terminal_trajectory (tj_status u)"
      using that only [OF u] t(3) other by (auto simp: bump_sequence_def is_terminal_trajectory_iff)
    moreover have "prefix (events_of (tj_id u) d) (events_of (tj_id u) ?d')"
      using own other by (cases "tj_id u = i") auto
    ultimately show "\<exists>u' \<in> set (db_trajectories ?d'). tj_id u' = tj_id u
        \<and> prefix (events_of (tj_id u) d) (events_of (tj_id u) ?d')
        \<and> is_valid_trajectory_transition\<^sup>*\<^sup>* (tj_status u) (tj_status u')
        \<and> (is_terminal_trajectory (tj_status u) \<longrightarrow> u' = u \<and> events_of (tj_id u) ?d' = events_of (tj_id u) d)"
      using u rows(1) by (intro bexI [of _ "bump_sequence i u"]) auto
  qed
qed

section \<open>The operations\<close>

lemma readonly_queries [readonly_intros]:
  "readonly (project_by_id pid)" "readonly (component_by_id pid cid)" "readonly (version_by_id vid)"
  "readonly (trajectory_by_id pid tid)" "readonly (trajectory_by_external_run_id pid run)"
  "readonly (event_by_external_id tid ext)" "readonly (require_project pid)" "readonly (get_trajectory pid tid)"
  by (simp_all add: project_by_id_def component_by_id_def version_by_id_def trajectory_by_id_def
      trajectory_by_external_run_id_def event_by_external_id_def require_project_def get_trajectory_def readonly_intros)

lemma readonly_resolve [readonly_intros]: "readonly (resolve_component_reference pid cid vid)"
  by (simp add: resolve_component_reference_def readonly_intros split: option.split)

lemma readonly_existing_run [readonly_intros]: "readonly (existing_run pid run wc wv a t)"
  by (simp add: existing_run_def readonly_intros)

lemma readonly_reconcile [readonly_intros]: "readonly (reconcile_duplicate sha256 tid ext et vid p e)"
  by (simp add: reconcile_duplicate_def Let_def readonly_intros)

lemma both_trans:
  assumes "both (log_step d) s" "\<And>x. log_step x (others x)"
  shows "both (log_step d) \<lparr> tx_committed = others (tx_committed s), tx_current = others (tx_current s) \<rparr>"
  using assms by (auto simp: both_def intro: log_step_trans)

lemma insert_trajectory_wp:
  assumes "both (log_step d) s" "\<And>x. log_step x (others x)" "tj_next_sequence row = 0"
  shows "wp (insert_trajectory others pid wc wv a row) (\<lambda>_. both (log_step d)) (\<lambda>_. both (log_step d)) s"
proof -
  let ?u = "\<lparr> tx_committed = others (tx_committed s), tx_current = others (tx_current s) \<rparr>"
  have u: "both (log_step d) ?u" using both_trans assms(1,2) by blast
  have undone: "both (log_step d) (?u \<lparr> tx_current := tx_committed ?u \<rparr>)" using u by (simp add: both_def)
  have retry: "wp (case sa_external_run_id a of None \<Rightarrow> sraise IntegrityError
        | Some run \<Rightarrow> sbind (trajectory_by_external_run_id pid run) (\<lambda>existing. case existing of
            None \<Rightarrow> sraise IntegrityError | Some t \<Rightarrow> existing_run pid run wc wv a t))
      (\<lambda>_. both (log_step d)) (\<lambda>_. both (log_step d)) (?u \<lparr> tx_current := tx_committed ?u \<rparr>)"
    by (rule wp_readonly) (use undone in \<open>simp_all add: readonly_intros split: option.split\<close>)
  have "log_step d (put_trajectory row (tx_current ?u))"
    if "\<not> list_ex (trajectory_clash row) (db_trajectories (tx_current ?u))"
    using log_step_put_trajectory [OF that assms(3)] u by (auto simp: both_def intro: log_step_trans)
  then show ?thesis
    using u retry by (simp add: insert_trajectory_def wp_simps both_def)
qed

lemma start_trajectory_wp:
  assumes "both (log_step d) s" "\<And>x. log_step x (others x)"
  shows "wp (start_trajectory others pid a i) (\<lambda>_. both (log_step d)) (\<lambda>_. both (log_step d)) s"
proof -
  have known: "readonly (case sa_external_run_id a of None \<Rightarrow> sreturn None
      | Some run \<Rightarrow> trajectory_by_external_run_id pid run)"
    by (simp add: readonly_intros split: option.split)
  have fresh: "tj_next_sequence (new_trajectory i project pid wc wv a) = 0" for project wc wv
    by (simp add: new_trajectory_def)
  have new: "wp (insert_trajectory others pid wc wv a (new_trajectory i project pid wc wv a))
      (\<lambda>_. both (log_step d)) (\<lambda>_. both (log_step d)) s" for project wc wv
    by (rule insert_trajectory_wp [OF assms fresh])
  have old: "wp (existing_run pid run wc wv a t) (\<lambda>_. both (log_step d)) (\<lambda>_. both (log_step d)) s" for run wc wv t
    by (rule wp_readonly [OF readonly_existing_run]) (rule assms(1))+
  show ?thesis
    unfolding start_trajectory_def
  proof (rule wp_sbind_readonly, goal_cases)
    case (2 project)
    show ?case
    proof (rule wp_sbind_readonly, goal_cases)
      case (2 c)
      show ?case
        unfolding case_prod_unfold
        by (rule wp_sbind_readonly [OF known]) (simp_all add: assms(1) new old split: option.split)
    qed (simp_all add: readonly_intros assms(1))
  qed (simp_all add: readonly_intros assms(1))
qed

lemma map_bump_none: "filter (\<lambda>t. tj_id t = i \<and> tj_status t = T_RUNNING) ts = [] \<Longrightarrow> map (bump_sequence i) ts = ts"
  by (rule map_idI) (auto simp: bump_sequence_def filter_empty_conv)

lemma insert_event_wp:
  assumes "both (log_step d) s" "log_ok d" "event_ok e"
    and "t \<in> set (db_trajectories (tx_current s))" "tj_id t = te_trajectory_id e" "tj_status t = T_RUNNING"
    and "te_sequence_number e = tj_next_sequence t + 1"
  shows "wp (insert_event e) (\<lambda>_. both (log_step d)) (\<lambda>_. both (log_step d))
    (s \<lparr> tx_current := (tx_current s) \<lparr> db_trajectories :=
        map (bump_sequence (te_trajectory_id e)) (db_trajectories (tx_current s)) \<rparr> \<rparr>)"
    (is "wp _ _ _ (s \<lparr> tx_current := ?bumped \<rparr>)")
proof -
  have step: "log_step d (put_event e ?bumped)" if "\<not> list_ex (event_clash e) (db_events ?bumped)"
  proof (rule log_step_trans)
    show "log_step d (tx_current s)" using assms(1) by (simp add: both_def)
    show "log_step (tx_current s) (put_event e ?bumped)"
      by (rule log_step_put_event [OF assms(4,5,6) refl assms(7,3)]) (use that in simp)
  qed
  have undone: "both (log_step d) (s \<lparr> tx_current := tx_committed s \<rparr>)" using assms(1) by (simp add: both_def)
  have retry: "wp (case te_external_event_id e of None \<Rightarrow> sraise IntegrityError
        | Some ext \<Rightarrow> sbind (event_by_external_id (te_trajectory_id e) ext) (\<lambda>existing. case existing of
            None \<Rightarrow> sraise IntegrityError
          | Some x \<Rightarrow> sthen (sguard (te_content_hash x = te_content_hash e)
                (Dom (ConflictError (DuplicateTrajectoryEvent (te_trajectory_id e) ext)))) (sreturn x)))
      (\<lambda>_. both (log_step d)) (\<lambda>_. both (log_step d)) (s \<lparr> tx_current := tx_committed s \<rparr>)"
    by (rule wp_readonly) (use undone in \<open>simp_all add: readonly_intros split: option.split\<close>)
  show ?thesis
    using assms(1) step retry by (simp add: insert_event_def wp_simps both_def)
qed

lemma record_event_wp:
  assumes "both (log_step d) s" "\<And>x. log_step x (others x)" "log_ok d" "limit_payloads a = Inr p"
  shows "wp (record_event sha256 others i pid tid cid vid a p) (\<lambda>_. both (log_step d)) (\<lambda>_. both (log_step d)) s"
proof -
  let ?u = "\<lparr> tx_committed = others (tx_committed s), tx_current = others (tx_current s) \<rparr>"
  let ?rows = "filter (\<lambda>t. tj_id t = tid \<and> tj_status t = T_RUNNING) (db_trajectories (tx_current ?u))"
  have u: "both (log_step d) ?u" using both_trans assms(1,2) by blast
  show ?thesis
  proof (cases ?rows)
    case Nil
    have same: "?u \<lparr> tx_current := (tx_current ?u) \<lparr> db_trajectories :=
        map (bump_sequence tid) (db_trajectories (tx_current ?u)) \<rparr> \<rparr> = ?u"
      unfolding map_bump_none [OF Nil] by simp
    have refused: "wp (sbind (get_trajectory pid tid) (\<lambda>t. sraise (Dom (ConflictError (TrajectoryTerminal tid (tj_status t))))))
        (\<lambda>_. both (log_step d)) (\<lambda>_. both (log_step d)) ?u"
      by (rule wp_readonly) (use u in \<open>simp_all add: readonly_intros\<close>)
    show ?thesis
      using Nil same refused by (simp add: record_event_def allocate_sequence_def wp_sthen wp_sbind wp_basic)
  next
    case (Cons t ts)
    have "log_ok (tx_current ?u)" using u assms(3) by (simp add: both_def log_step_def)
    then have t: "t \<in> set (db_trajectories (tx_current ?u))" "tj_id t = tid" "tj_status t = T_RUNNING"
      using running_row [OF Cons] by simp_all
    let ?e = "new_event sha256 i tid (tj_next_sequence t + 1) cid vid a p"
    have "wp (insert_event ?e) (\<lambda>_. both (log_step d)) (\<lambda>_. both (log_step d))
      (?u \<lparr> tx_current := (tx_current ?u) \<lparr> db_trajectories :=
        map (bump_sequence (te_trajectory_id ?e)) (db_trajectories (tx_current ?u)) \<rparr> \<rparr>)"
      by (rule insert_event_wp [OF u assms(3) new_event_ok [OF assms(4)] t(1)]) (simp_all add: t new_event_def)
    then show ?thesis
      using Cons by (simp add: record_event_def allocate_sequence_def wp_sthen wp_sbind wp_basic new_event_def)
  qed
qed

lemma readonly_check_append [readonly_intros]: "readonly (check_append pid tid a)"
  by (simp add: check_append_def readonly_intros split: prod.split option.split)

lemma check_append_payloads: "check_append pid tid a s = (Inr (cid, vid, p, ex), t) \<Longrightarrow> limit_payloads a = Inr p"
  by (auto simp: check_append_def sbind_eq_Inr sthen_eq_Inr session_basic split: prod.splits)

lemma append_event_wp:
  assumes "both (log_step d) s" "\<And>x. log_step x (others x)" "log_ok d"
  shows "wp (append_event sha256 others pid tid a i) (\<lambda>_. both (log_step d)) (\<lambda>_. both (log_step d)) s"
proof -
  have old: "wp (reconcile_duplicate sha256 tid ext et vid p e) (\<lambda>_. both (log_step d)) (\<lambda>_. both (log_step d)) s"
    for ext et vid p e
    by (rule wp_readonly [OF readonly_reconcile]) (rule assms(1))+
  obtain r where r: "check_append pid tid a s = (r, s)" using readonly_result [OF readonly_check_append] by blast
  show ?thesis
  proof (cases r)
    case (Inr x)
    obtain cid vid p ex where x: "x = (cid, vid, p, ex)" by (cases x) auto
    have "wp (record_event sha256 others i pid tid cid vid a p) (\<lambda>_. both (log_step d)) (\<lambda>_. both (log_step d)) s"
      by (rule record_event_wp [OF assms check_append_payloads]) (use r Inr x in simp)
    then show ?thesis
      using old by (cases ex) (simp_all add: append_event_def wp_def sbind_def r Inr x)
  qed (use assms(1) in \<open>simp add: append_event_def wp_def sbind_def r\<close>)
qed

lemma end_trajectory_wp:
  assumes "both (log_step d) s" "\<And>x. log_step x (others x)"
  shows "wp (end_trajectory others pid tid target err) (\<lambda>_. both (log_step d)) (\<lambda>_. both (log_step d)) s"
  unfolding end_trajectory_def
proof (rule wp_sbind_readonly, goal_cases)
  case (2 t)
  let ?u = "\<lparr> tx_committed = others (tx_committed s), tx_current = others (tx_current s) \<rparr>"
  have u: "both (log_step d) ?u" using both_trans assms by blast
  let ?v = "?u \<lparr> tx_current := (tx_current ?u) \<lparr> db_trajectories :=
      map (set_trajectory_status tid (tj_status t) target err) (db_trajectories (tx_current ?u)) \<rparr> \<rparr>"
  have v: "both (log_step d) ?v" if "is_valid_trajectory_transition (tj_status t) target"
    using u log_step_set_status [OF that, of "tx_current ?u"] by (auto simp: both_def intro: log_step_trans)
  have rest: "wp (sbind (get_trajectory pid tid) (\<lambda>refreshed.
          sthen (sguard updated (Dom (ConflictError (InvalidTrajectoryTransition tid (tj_status refreshed) target))))
            (sreturn refreshed))) (\<lambda>_. both (log_step d)) (\<lambda>_. both (log_step d)) ?v"
    if "is_valid_trajectory_transition (tj_status t) target" for updated
    by (rule wp_readonly) (use v [OF that] in \<open>simp_all add: readonly_intros\<close>)
  show ?case
  proof (cases "is_valid_trajectory_transition (tj_status t) target")
    case True
    then show ?thesis
      using rest [OF True]
      by (simp add: transition_trajectory_status_def wp_sthen wp_sbind wp_basic wp_sguard)
  qed (use assms(1) in \<open>simp add: wp_sthen wp_sguard\<close>)
qed (simp_all add: readonly_intros assms(1))

section \<open>Retries\<close>

lemma resolve_frame:
  assumes "db_versions (tx_current t) = db_versions (tx_current s)" "db_components (tx_current t) = db_components (tx_current s)"
  shows "fst (resolve_component_reference pid cid vid t) = fst (resolve_component_reference pid cid vid s)"
  using assms
  by (simp add: resolve_component_reference_def version_by_id_def component_by_id_def fetch_one_def sbind_def
      srequire_def sthen_def sguard_def session_basic split: option.split sum.split)

text \<open>Without interference a new event is stored as it was built, or nothing is stored.\<close>

lemma insert_event_alone:
  assumes "insert_event e s = (Inr x, t)" "te_external_event_id e = Some ext"
    and "event_by_external_id (te_trajectory_id e) ext (s \<lparr> tx_current := tx_committed s \<rparr>)
       = (Inr None, s \<lparr> tx_current := tx_committed s \<rparr>)"
  shows "x = e \<and> flush_row db_events event_clash event_linked put_event e s = (Inr (), t)"
  using assms
  by (cases "flush_row db_events event_clash event_linked put_event e s")
    (auto simp: insert_event_def scatch_integrity_def sthen_def sbind_def session_basic
      flush_row_def split: if_splits)

lemma record_event_alone:
  assumes "record_event sha256 (\<lambda>d. d) i pid tid cid vid a p (begin_txn d) = (Inr e, t)"
    and "aa_external_event_id a = Some ext"
    and "event_by_external_id tid ext (begin_txn d) = (Inr None, begin_txn d)"
  shows "\<exists>n. e = new_event sha256 i tid n cid vid a p
    \<and> (\<exists>r rs. filter (\<lambda>t. tj_id t = tid \<and> tj_status t = T_RUNNING) (db_trajectories d) = r # rs \<and> n = tj_next_sequence r + 1)
    \<and> flush_row db_events event_clash event_linked put_event e
        (begin_txn d \<lparr> tx_current := d \<lparr> db_trajectories := map (bump_sequence tid) (db_trajectories d) \<rparr> \<rparr>) = (Inr (), t)"
proof -
  let ?s = "begin_txn d \<lparr> tx_current := d \<lparr> db_trajectories := map (bump_sequence tid) (db_trajectories d) \<rparr> \<rparr>"
  let ?rows = "filter (\<lambda>t. tj_id t = tid \<and> tj_status t = T_RUNNING) (db_trajectories d)"
  have s: "allocate_sequence tid (begin_txn d) = (Inr (case ?rows of [] \<Rightarrow> None | t # _ \<Rightarrow> Some (tj_next_sequence t + 1)), ?s)"
    by (simp add: allocate_sequence_def sbind_def sthen_def session_basic begin_txn_def)
  show ?thesis
  proof (cases ?rows)
    case Nil
    then show ?thesis
      using assms(1) by (auto simp: record_event_def sthen_def sbind_def s session_basic split: prod.splits sum.splits)
  next
    case (Cons r rs)
    let ?e = "new_event sha256 i tid (tj_next_sequence r + 1) cid vid a p"
    have ins: "insert_event ?e ?s = (Inr e, t)"
      using assms(1) Cons by (simp add: record_event_def sthen_def sbind_def s)
    have "e = ?e \<and> flush_row db_events event_clash event_linked put_event ?e ?s = (Inr (), t)"
      by (rule insert_event_alone [OF ins]) (use assms(2,3) in \<open>simp_all add: new_event_def begin_txn_def\<close>)
    then show ?thesis using Cons by blast
  qed
qed

lemma get_trajectory_bumped:
  assumes "get_trajectory pid tid (begin_txn d) = (Inr r, s)"
    and "db_trajectories d' = map (bump_sequence i) (db_trajectories d)"
  shows "\<exists>r'. get_trajectory pid tid (begin_txn d') = (Inr r', begin_txn d')"
proof -
  have same: "filter (\<lambda>t. tj_id t = tid \<and> tj_project_id t = pid) (map (bump_sequence i) ts)
      = map (bump_sequence i) (filter (\<lambda>t. tj_id t = tid \<and> tj_project_id t = pid) ts)" for ts
    by (induction ts) (simp_all add: bump_sequence_def)
  have "filter (\<lambda>t. tj_id t = tid \<and> tj_project_id t = pid) (db_trajectories d) = [r]"
    using assms(1) by (simp add: get_trajectory_def trajectory_by_id_def srequire_eq_Inr fetch_one_eq_Inr begin_txn_def)
  then show ?thesis
    using same [of "db_trajectories d"] assms(2)
    by (simp add: get_trajectory_def trajectory_by_id_def srequire_eq_Inr fetch_one_eq_Inr begin_txn_def)
qed

lemma check_append_Inr:
  assumes "check_append pid tid a s = (Inr (cid, vid, p, ex), t)"
  shows "\<exists>r. get_trajectory pid tid s = (Inr r, s)"
    and "validate_event_shape (aa_event_type a) (redact (aa_input a)) (redact (aa_error a)) = Inr ()"
    and "resolve_component_reference pid (aa_component_id a) (aa_component_version_id a) s = (Inr (cid, vid), s)"
    and "case aa_parent_event_id a of None \<Rightarrow> True | Some q \<Rightarrow> list_ex (\<lambda>x. te_id x = q) (events_of tid (tx_current s))"
    and "limit_payloads a = Inr p"
    and "(case aa_external_event_id a of None \<Rightarrow> sreturn None | Some ext \<Rightarrow> event_by_external_id tid ext) s = (Inr ex, s)"
proof -
  have known: "readonly (case aa_external_event_id a of None \<Rightarrow> sreturn None | Some ext \<Rightarrow> event_by_external_id tid ext)"
    by (simp add: readonly_intros split: option.split)
  note pure = readonly_eq [OF readonly_queries(8)] readonly_eq [OF readonly_resolve] readonly_eq [OF known]
  note run = assms [unfolded check_append_def sbind_eq_Inr sthen_eq_Inr sguard_eq_Inr session_basic case_prod_unfold pure]
  show "\<exists>r. get_trajectory pid tid s = (Inr r, s)" using run by (auto simp: pure)
  show "validate_event_shape (aa_event_type a) (redact (aa_input a)) (redact (aa_error a)) = Inr ()" using run by auto
  show "resolve_component_reference pid (aa_component_id a) (aa_component_version_id a) s = (Inr (cid, vid), s)"
    using run by (auto simp: pure)
  show "case aa_parent_event_id a of None \<Rightarrow> True | Some q \<Rightarrow> list_ex (\<lambda>x. te_id x = q) (events_of tid (tx_current s))"
    using run by auto
  show "limit_payloads a = Inr p" using run by auto
  show "(case aa_external_event_id a of None \<Rightarrow> sreturn None | Some ext \<Rightarrow> event_by_external_id tid ext) s = (Inr ex, s)"
    using run by (auto simp: pure session_basic split: option.splits)
qed

lemma check_append_again:
  assumes "check_append pid tid a (begin_txn d) = (Inr (cid, vid, p, ex), s)"
    and ext: "aa_external_event_id a = Some ext"
    and d': "d' = put_event e (d \<lparr> db_trajectories := map (bump_sequence tid) (db_trajectories d) \<rparr>)"
    and found: "event_by_external_id tid ext (begin_txn d') = (Inr (Some e), begin_txn d')"
  shows "check_append pid tid a (begin_txn d') = (Inr (cid, vid, p, Some e), begin_txn d')"
proof -
  note chk = check_append_Inr [OF assms(1)]
  note valid = chk(2) and res = chk(3) and parent = chk(4) and lim = chk(5)
  obtain r where "get_trajectory pid tid (begin_txn d) = (Inr r, begin_txn d)" using chk(1) by blast
  then obtain r' where traj: "get_trajectory pid tid (begin_txn d') = (Inr r', begin_txn d')"
    using get_trajectory_bumped [of pid tid d r "begin_txn d" d' tid] d' by (auto simp: put_event_def)
  have "fst (resolve_component_reference pid (aa_component_id a) (aa_component_version_id a) (begin_txn d'))
      = fst (resolve_component_reference pid (aa_component_id a) (aa_component_version_id a) (begin_txn d))"
    by (rule resolve_frame) (simp_all add: d' put_event_def begin_txn_def)
  then have res': "resolve_component_reference pid (aa_component_id a) (aa_component_version_id a) (begin_txn d')
      = (Inr (cid, vid), begin_txn d')"
    using res readonly_result [OF readonly_resolve] by (metis fst_conv)
  have "set (events_of tid d) \<subseteq> set (events_of tid d')"
    by (auto simp: events_of_def d' put_event_def)
  then have parent': "case aa_parent_event_id a of None \<Rightarrow> True | Some q \<Rightarrow> list_ex (\<lambda>x. te_id x = q) (events_of tid d')"
    using parent by (auto simp: list_ex_iff split: option.splits)
  show ?thesis
    using parent' found
    by (cases "aa_parent_event_id a") (simp_all add: check_append_def sthen_def sbind_def traj session_basic valid res' lim ext sguard_def)
qed

lemma append_event_retry:
  assumes "as_request (append_event sha256 (\<lambda>d. d) pid tid a i) s = (Inr e, t)" "aa_external_event_id a = Some ext"
  shows "as_request (append_event sha256 (\<lambda>d. d) pid tid a j) t = (Inr e, t)"
proof -
  define d where "d = tx_current s"
  obtain u where run: "append_event sha256 (\<lambda>d. d) pid tid a i (begin_txn d) = (Inr e, u)" and t: "t = begin_txn (tx_current u)"
    using assms(1) by (auto simp: as_request_eq_Inr d_def)
  obtain cid vid p ex where chk: "check_append pid tid a (begin_txn d) = (Inr (cid, vid, p, ex), begin_txn d)"
    using run readonly_result [OF readonly_check_append]
    by (metis (no_types, lifting) append_event_def prod_cases4 readonly_check_append readonly_state sbind_eq_Inr)
  show ?thesis
  proof (cases ex)
    case (Some x)
    then have u: "u = begin_txn d"
      using run chk readonly_state [OF readonly_reconcile] by (simp add: append_event_def sbind_def)
    then show ?thesis
      using run chk Some t by (simp add: as_request_eq_Inr append_event_def sbind_def begin_txn_def)
  next
    case None
    have look: "event_by_external_id tid ext (begin_txn d) = (Inr None, begin_txn d)"
      using check_append_Inr(6) [OF chk] assms(2) None by simp
    have rec: "record_event sha256 (\<lambda>d. d) i pid tid cid vid a p (begin_txn d) = (Inr e, u)"
      using run chk None by (simp add: append_event_def sbind_def)
    let ?d = "d \<lparr> db_trajectories := map (bump_sequence tid) (db_trajectories d) \<rparr>"
    obtain n where e: "e = new_event sha256 i tid n cid vid a p"
      and fl: "flush_row db_events event_clash event_linked put_event e (begin_txn d \<lparr> tx_current := ?d \<rparr>) = (Inr (), u)"
      using record_event_alone [OF rec assms(2) look] by blast
    have d': "tx_current u = put_event e ?d" using fl by (simp add: flush_row_eq_Inr)
    have "event_by_external_id tid ext u = (Inr (Some e), u)"
      unfolding event_by_external_id_def
      by (rule events.flush_then_fetch [OF fl])
        (simp_all add: event_clash_def e new_event_def assms(2) same_key_def put_event_def)
    then have "event_by_external_id tid ext (begin_txn (tx_current u)) = (Inr (Some e), begin_txn (tx_current u))"
      by (simp add: event_by_external_id_def fetch_one_def begin_txn_def)
    from check_append_again [OF chk assms(2) d' this]
    have "append_event sha256 (\<lambda>d. d) pid tid a j (begin_txn (tx_current u)) = (Inr e, begin_txn (tx_current u))"
      by (simp add: append_event_def sbind_def reconcile_duplicate_def sthen_def sguard_def session_basic e new_event_def)
    then show ?thesis by (simp add: as_request_eq_Inr t begin_txn_def)
  qed
qed

text \<open>
  Two transactions append the same event: the second one has looked the id up before the first commits, and
  allocates after it.
\<close>

lemma append_event_race:
  assumes first: "request (append_event sha256 (\<lambda>x. x) pid tid a i) d = (Inr e, d1)"
    and ext: "aa_external_event_id a = Some ext"
    and new: "event_by_external_id tid ext (begin_txn d) = (Inr None, begin_txn d)"
  shows "\<exists>cid vid p n. e = new_event sha256 i tid n cid vid a p
    \<and> append_event sha256 (\<lambda>_. d1) pid tid a j (begin_txn d)
      = (if event_hash sha256 tid (Suc n) (aa_event_type a) vid p = te_content_hash e then Inr e
         else Inl (Dom (ConflictError (DuplicateTrajectoryEvent tid ext))), begin_txn d1)"
proof -
  obtain u where run: "append_event sha256 (\<lambda>x. x) pid tid a i (begin_txn d) = (Inr e, u)" and d1: "d1 = tx_current u"
    using first by (auto simp: request_def split: prod.splits sum.splits)
  obtain cid vid p ex where chk: "check_append pid tid a (begin_txn d) = (Inr (cid, vid, p, ex), begin_txn d)"
    using run readonly_result [OF readonly_check_append]
    by (metis (no_types, lifting) append_event_def prod_cases4 readonly_check_append readonly_state sbind_eq_Inr)
  then have ex: "ex = None" using check_append_Inr(6) [OF chk] ext new by simp
  have rec: "record_event sha256 (\<lambda>d. d) i pid tid cid vid a p (begin_txn d) = (Inr e, u)"
    using run chk ex by (simp add: append_event_def sbind_def)
  let ?d = "d \<lparr> db_trajectories := map (bump_sequence tid) (db_trajectories d) \<rparr>"
  let ?running = "\<lambda>t. tj_id t = tid \<and> tj_status t = T_RUNNING"
  obtain n r rs where e: "e = new_event sha256 i tid n cid vid a p"
    and r: "filter ?running (db_trajectories d) = r # rs" "n = tj_next_sequence r + 1"
    and fl: "flush_row db_events event_clash event_linked put_event e (begin_txn d \<lparr> tx_current := ?d \<rparr>) = (Inr (), u)"
    using record_event_alone [OF rec ext new] by blast
  have d1': "d1 = put_event e ?d" using fl d1 by (simp add: flush_row_eq_Inr)
  have rows: "filter ?running (db_trajectories d1) = map (bump_sequence tid) (r # rs)"
  proof -
    have "filter ?running (map (bump_sequence tid) ts) = map (bump_sequence tid) (filter ?running ts)" for ts
      by (induction ts) (auto simp: bump_sequence_def)
    then show ?thesis by (simp add: d1' put_event_def r(1))
  qed
  have "?running r" using running_row [OF r(1)] by simp
  then have next_r: "tj_next_sequence (bump_sequence tid r) = n" by (simp add: bump_sequence_def r(2))
  have "event_by_external_id tid ext u = (Inr (Some e), u)"
    unfolding event_by_external_id_def
    by (rule events.flush_then_fetch [OF fl])
      (simp_all add: event_clash_def e new_event_def ext same_key_def put_event_def)
  then have look: "event_by_external_id tid ext (begin_txn d1) = (Inr (Some e), begin_txn d1)"
    by (simp add: event_by_external_id_def fetch_one_def d1)
  let ?mine = "new_event sha256 j tid (Suc n) cid vid a p"
  have "event_clash ?mine e" "e \<in> set (db_events d1)"
    by (simp_all add: event_clash_def e new_event_def ext same_key_def d1' put_event_def)
  then have clash: "list_ex (event_clash ?mine) (db_events d1)" by (auto simp: list_ex_iff)
  have alloc: "allocate_sequence tid (begin_txn d1) = (Inr (Some (Suc n)), begin_txn d1 \<lparr> tx_current := d1 \<lparr> db_trajectories :=
      map (bump_sequence tid) (db_trajectories d1) \<rparr> \<rparr>)"
    by (simp add: allocate_sequence_def sbind_def sthen_def session_basic rows next_r)
  have undo: "begin_txn d1 \<lparr> tx_current := d1 \<rparr> = begin_txn d1" by (simp add: begin_txn_def)
  have mine: "te_external_event_id ?mine = Some ext" "te_trajectory_id ?mine = tid"
    "te_content_hash ?mine = event_hash sha256 tid (Suc n) (aa_event_type a) vid p"
    by (simp_all add: new_event_def ext)
  have race: "insert_event ?mine (begin_txn d1 \<lparr> tx_current := d1 \<lparr> db_trajectories :=
      map (bump_sequence tid) (db_trajectories d1) \<rparr> \<rparr>)
    = (if event_hash sha256 tid (Suc n) (aa_event_type a) vid p = te_content_hash e then Inr e
       else Inl (Dom (ConflictError (DuplicateTrajectoryEvent tid ext))), begin_txn d1)"
    using clash look
    by (simp add: insert_event_def scatch_integrity_def sthen_def sbind_def flush_row_def session_basic mine undo
        sguard_def eq_commute)
  have "concurrently (\<lambda>_. d1) (begin_txn d) = (Inr (), begin_txn d1)"
    by (simp add: concurrently_def begin_txn_def)
  then have "append_event sha256 (\<lambda>_. d1) pid tid a j (begin_txn d)
      = (if event_hash sha256 tid (Suc n) (aa_event_type a) vid p = te_content_hash e then Inr e
         else Inl (Dom (ConflictError (DuplicateTrajectoryEvent tid ext))), begin_txn d1)"
    by (simp add: append_event_def sbind_def chk ex record_event_def sthen_def alloc race)
  then show ?thesis using e by blast
qed

interpretation append_retry: retriable
    "\<lambda>i. as_request (append_event sha256 (\<lambda>d. d) pid tid (a \<lparr> aa_external_event_id := Some ext \<rparr>) i)"
  for sha256 pid tid a ext
  by unfold_locales (rule append_event_retry, assumption, simp)

section \<open>The recorder as a transition system\<close>

text \<open>
  A step is one request served, with other steps committing at the point where its handler waits.
\<close>

inductive recorder_step :: "(string \<Rightarrow> string) \<Rightarrow> db \<Rightarrow> db \<Rightarrow> bool" for sha256 where
  start: "(\<And>x. (recorder_step sha256)\<^sup>*\<^sup>* x (others x)) \<Longrightarrow>
    request (start_trajectory others pid a i) d = (r, d') \<Longrightarrow> recorder_step sha256 d d'"
| append: "(\<And>x. (recorder_step sha256)\<^sup>*\<^sup>* x (others x)) \<Longrightarrow>
    request (append_event sha256 others pid tid aa i) d = (r', d') \<Longrightarrow> recorder_step sha256 d d'"
| finish: "(\<And>x. (recorder_step sha256)\<^sup>*\<^sup>* x (others x)) \<Longrightarrow>
    request (end_trajectory others pid tid target err) d = (r, d') \<Longrightarrow> recorder_step sha256 d d'"

lemma request_log_step:
  assumes "log_ok d \<Longrightarrow> wp m (\<lambda>_. both (log_step d)) (\<lambda>_. both (log_step d)) (begin_txn d)" "request m d = (r, d')"
  shows "log_step d d'"
proof (cases "log_ok d")
  case True
  have "wp m (\<lambda>_ t. log_step d (tx_current t)) (\<lambda>_ t. log_step d (tx_committed t)) (begin_txn d)"
    by (rule wp_mono [OF assms(1) [OF True]]) (simp_all add: both_def)
  from request_wp [OF this] show ?thesis using assms(2) by (simp split: sum.splits)
qed (simp add: log_step_def)

lemma log_step_rtranclp: "(\<lambda>x y. R x y \<and> log_step x y)\<^sup>*\<^sup>* a b \<Longrightarrow> log_step a b"
  by (induction rule: rtranclp_induct) (auto intro: log_step_trans)

lemma recorder_step_log: "recorder_step sha256 d d' \<Longrightarrow> log_step d d'"
proof (induction rule: recorder_step.induct)
  case (start others pid a i d r d')
  have o: "log_step x (others x)" for x using start(1) log_step_rtranclp by blast
  show ?case
    by (rule request_log_step [OF _ start(2)], rule start_trajectory_wp [OF _ o]) simp
next
  case (append others pid tid aa i d r' d')
  have o: "log_step x (others x)" for x using append(1) log_step_rtranclp by blast
  show ?case
    by (rule request_log_step [OF _ append(2)], rule append_event_wp [OF _ o]) simp_all
next
  case (finish others pid tid target err d r d')
  have o: "log_step x (others x)" for x using finish(1) log_step_rtranclp by blast
  show ?case
    by (rule request_log_step [OF _ finish(2)], rule end_trajectory_wp [OF _ o]) simp
qed

lemma recorder_steps_log: "(recorder_step sha256)\<^sup>*\<^sup>* d d' \<Longrightarrow> log_step d d'"
  by (induction rule: rtranclp_induct) (auto intro: log_step_trans recorder_step_log)


end
