(* ===== verification/Trajectory_Properties.thy ===== *)
theory Trajectory_Properties
  imports Trajectory_Laws
begin

text \<open>
  The properties of trajectory recording, with the requests at which they are applied: a running trajectory of
  one project and the append of a tool call to it.
\<close>

section \<open>A recorded run\<close>

definition run_project :: project where
  "run_project = \<lparr> pj_id = 2, pj_organization_id = 1, pj_name = ''Support'', pj_slug = ''support'' \<rparr>"

definition running_trajectory :: trajectory where
  "running_trajectory =
     \<lparr> tj_id = 7, tj_organization_id = 1, tj_project_id = 2, tj_workflow_component_id = None,
       tj_workflow_version_id = None, tj_external_run_id = Some ''run-1'', tj_status = T_RUNNING,
       tj_environment = Some ''prod'', tj_correlation_id = None, tj_trace_id = None, tj_span_id = None,
       tj_tags = JNull, tj_metadata = JNull, tj_next_sequence = 0, tj_error = None \<rparr>"

definition run_db :: db where
  "run_db = empty_db \<lparr> db_projects := [run_project], db_trajectories := [running_trajectory] \<rparr>"

definition tool_call_args :: append_args where
  "tool_call_args =
     \<lparr> aa_event_type = TOOL_CALL, aa_component_id = None, aa_component_version_id = None,
       aa_parent_event_id = None, aa_correlation_id = None, aa_external_event_id = Some ''evt-1'',
       aa_input = JDict [(''invocation_id'', JStr ''i1''), (''password'', JStr ''hunter2'')], aa_output = JNull,
       aa_error = JNull, aa_metadata = JNull, aa_duration_ms = None \<rparr>"

definition tool_call_payloads :: stored_payloads where
  "tool_call_payloads =
     \<lparr> sp_input = JDict [(''invocation_id'', JStr ''i1''), (''password'', JStr ''***REDACTED***'')], sp_output = JNull,
       sp_error = JNull, sp_metadata = JNull, sp_truncated = False, sp_original_size = None \<rparr>"

definition digest :: "string \<Rightarrow> string" where
  "digest t = ''sha256:'' @ t"

definition tool_call_event :: trajectory_event where
  "tool_call_event = new_event digest 30 7 1 None None tool_call_args tool_call_payloads"

definition called_db :: db where
  "called_db = put_event tool_call_event (run_db \<lparr> db_trajectories := [running_trajectory \<lparr> tj_next_sequence := 1 \<rparr>] \<rparr>)"

lemma tool_call_redacted: "redact (aa_input tool_call_args) = sp_input tool_call_payloads"
  by code_simp

lemma tool_call_size: "canonical_size_bytes (sp_input tool_call_payloads) = 50"
  by code_simp

lemma tool_call_limits: "limit_payloads tool_call_args = Inr tool_call_payloads"
proof -
  have "enforce_payload_limit (redact (aa_input tool_call_args)) ''input'' = Inr (sp_input tool_call_payloads, False, None)"
    unfolding tool_call_redacted enforce_payload_limit_def tool_call_size
    by (simp add: soft_limit_bytes_def tool_call_payloads_def)
  then show ?thesis
    by (simp add: limit_payloads_def) (simp add: tool_call_args_def tool_call_payloads_def enforce_payload_limit_def
        redact_def max_given_def map_filter_def)
qed

lemma tool_call_checked:
  "check_append 2 7 tool_call_args (begin_txn run_db) = (Inr (None, None, tool_call_payloads, None), begin_txn run_db)"
proof -
  have "validate_event_shape (aa_event_type tool_call_args) (redact (aa_input tool_call_args)) (redact (aa_error tool_call_args))
      = Inr ()"
    unfolding tool_call_redacted validate_event_shape_iff
    by (simp add: tool_call_args_def tool_call_payloads_def has_key_iff_ex)
  then show ?thesis
    by (simp add: check_append_def sthen_def sbind_def session_basic tool_call_limits)
      (simp add: tool_call_args_def get_trajectory_def trajectory_by_id_def srequire_def sbind_def fetch_one_def run_db_def
        running_trajectory_def session_basic sguard_def resolve_component_reference_def event_by_external_id_def empty_db_def)
qed

lemma tool_call_appended: "request (append_event digest (\<lambda>d. d) 2 7 tool_call_args 30) run_db = (Inr tool_call_event, called_db)"
proof -
  have "allocate_sequence 7 (begin_txn run_db) = (Inr (Some 1), begin_txn run_db \<lparr> tx_current :=
      run_db \<lparr> db_trajectories := [running_trajectory \<lparr> tj_next_sequence := 1 \<rparr>] \<rparr> \<rparr>)"
    by (simp add: allocate_sequence_def sbind_def sthen_def session_basic)
      (simp add: run_db_def running_trajectory_def bump_sequence_def)
  moreover have "\<not> list_ex (event_clash tool_call_event) (db_events run_db)" "event_linked tool_call_event
      (run_db \<lparr> db_trajectories := [running_trajectory \<lparr> tj_next_sequence := 1 \<rparr>] \<rparr>)"
    by (simp_all add: run_db_def empty_db_def event_linked_def tool_call_event_def new_event_def running_trajectory_def)
  ultimately show ?thesis
    by (simp add: request_def append_event_def sbind_def tool_call_checked record_event_def sthen_def
        insert_event_def scatch_integrity_def flush_row_def session_basic called_db_def flip: tool_call_event_def One_nat_def)
qed

lemma run_db_log_ok: "log_ok run_db"
  by (simp add: log_ok_def run_db_def empty_db_def events_of_def running_trajectory_def)

lemma called_step: "(recorder_step digest)\<^sup>*\<^sup>* run_db called_db"
  by (rule r_into_rtranclp, rule recorder_step.append [OF _ tool_call_appended]) simp

section \<open>Properties\<close>

text \<open>
  C1: Through any sequence of recorder requests, with any others committing while one is served, the events of a
  trajectory are numbered 1, 2, ... up to its counter, without a gap or a repetition, and no caller-supplied
  event id is recorded twice.
\<close>

theorem events_gapless:
  assumes "(recorder_step sha256)\<^sup>*\<^sup>* d d'" "log_ok d" "t \<in> set (db_trajectories d')"
  shows "map te_sequence_number (events_of (tj_id t) d') = [1..<Suc (tj_next_sequence t)]
    \<and> (\<forall>e \<in> set (events_of (tj_id t) d'). \<forall>f \<in> set (events_of (tj_id t) d').
         te_external_event_id e \<noteq> None \<and> te_external_event_id e = te_external_event_id f \<longrightarrow> e = f)"
proof -
  have ok: "log_ok d'" using recorder_steps_log [OF assms(1)] assms(2) by (simp add: log_step_def)
  then have nc: "no_clash event_clash (db_events d')" by (simp add: log_ok_def)
  have "e = f" if "e \<in> set (events_of (tj_id t) d')" "f \<in> set (events_of (tj_id t) d')"
    "te_external_event_id e \<noteq> None" "te_external_event_id e = te_external_event_id f" for e f
    by (rule no_clash_unique [OF nc]) (use that in \<open>auto simp: events_of_def event_clash_def same_key_def\<close>)
  then show ?thesis using ok assms(3) unfolding log_ok_def by blast
qed

theorem events_gapless_witness: "map te_sequence_number (events_of 7 called_db) = [1]"
proof -
  have "running_trajectory \<lparr> tj_next_sequence := 1 \<rparr> \<in> set (db_trajectories called_db)"
    by (simp add: called_db_def put_event_def)
  from events_gapless [OF called_step run_db_log_ok this] show ?thesis
    by (simp add: running_trajectory_def upt_rec)
qed

text \<open>
  C16: History is immutable: whatever requests follow, a trajectory keeps the events it has, in their order, and
  once it is completed or failed neither it nor its events ever change.
\<close>

theorem history_immutable:
  assumes "(recorder_step sha256)\<^sup>*\<^sup>* d d'" "log_ok d" "t \<in> set (db_trajectories d)"
  shows "prefix (events_of (tj_id t) d) (events_of (tj_id t) d')
    \<and> (is_terminal_trajectory (tj_status t) \<longrightarrow>
         t \<in> set (db_trajectories d') \<and> events_of (tj_id t) d' = events_of (tj_id t) d)"
proof -
  have "log_extends d d'" using recorder_steps_log [OF assms(1)] assms(2) by (simp add: log_step_def)
  then show ?thesis using assms(3) unfolding log_extends_def by fastforce
qed

theorem history_immutable_witness: "prefix (events_of 7 run_db) (events_of 7 called_db)"
  using history_immutable [OF called_step run_db_log_ok, of running_trajectory]
  by (simp add: run_db_def running_trajectory_def)

text \<open>
  Every payload of every recorded event is at most 32,768 bytes of canonical JSON and binds no sensitive key
  to anything but the redaction placeholder, at any depth.
\<close>

theorem stored_payloads_safe:
  assumes "(recorder_step sha256)\<^sup>*\<^sup>* d d'" "log_ok d" "db_events d = []"
    and "e \<in> set (db_events d')" "v \<in> {te_input e, te_output e, te_error e, te_metadata e}"
  shows "canonical_size_bytes v \<le> 32768 \<and> no_secrets default_sensitive_keys v"
proof -
  have "log_ok d'" using recorder_steps_log [OF assms(1)] assms(2) by (simp add: log_step_def)
  then have "event_ok e" using assms(4) unfolding log_ok_def by blast
  then have "payload_ok v" using assms(5) unfolding event_ok_def by blast
  then show ?thesis unfolding payload_ok_def soft_limit_bytes_def .
qed

theorem stored_payloads_safe_witness:
  "canonical_size_bytes (te_input tool_call_event) \<le> 32768 \<and> no_secrets default_sensitive_keys (te_input tool_call_event)"
proof (rule stored_payloads_safe [OF called_step run_db_log_ok])
  show "db_events run_db = []" by (simp add: run_db_def empty_db_def)
  show "tool_call_event \<in> set (db_events called_db)" by (simp add: called_db_def put_event_def)
  show "te_input tool_call_event \<in> {te_input tool_call_event, te_output tool_call_event, te_error tool_call_event,
      te_metadata tool_call_event}" by (rule insertI1)
qed

text \<open>
  An append that names its event is idempotent: whenever it has been accepted, every retry of it, as a
  request of its own, is answered with the same event and changes nothing in the store.
\<close>

theorem append_idempotent:
  assumes "request (append_event sha256 (\<lambda>x. x) pid tid a i) d = (Inr e, d')" "aa_external_event_id a = Some ext"
  shows "request (append_event sha256 (\<lambda>x. x) pid tid a j) d' = (Inr e, d')"
proof -
  have a: "a \<lparr> aa_external_event_id := Some ext \<rparr> = a" using assms(2) by simp
  have "as_request (append_event sha256 (\<lambda>x. x) pid tid a i) (begin_txn d) = (Inr e, begin_txn d')"
    using assms(1) by (simp add: as_request_def)
  from append_retry.retry [where a = a and ext = ext, unfolded a, OF this]
  have "as_request (append_event sha256 (\<lambda>x. x) pid tid a j) (begin_txn d') = (Inr e, begin_txn d')" .
  then show ?thesis by (simp add: as_request_def begin_txn_def split: prod.splits)
qed

theorem append_idempotent_witness:
  "request (append_event digest (\<lambda>x. x) 2 7 tool_call_args 31) called_db = (Inr tool_call_event, called_db)"
  by (rule append_idempotent [OF tool_call_appended]) (simp add: tool_call_args_def)

text \<open>
  The safety net for racing retries rejects them: when a second transaction has looked the event up before
  the first one commits, its own hash is computed over the next sequence number, so the identical event is
  answered with a conflict, although the same request sent a moment later would be answered with the event.
\<close>

theorem racing_retry_rejected:
  assumes "request (append_event sha256 (\<lambda>x. x) pid tid a i) d = (Inr e, d')"
    and "aa_external_event_id a = Some ext" "event_by_external_id tid ext (begin_txn d) = (Inr None, begin_txn d)"
    and no_collision: "\<And>text. text = (\<lambda>n. canonicalize_content (event_content tid n (event_type_value (te_event_type e))
        (te_component_version_id e) (te_input e) (te_output e) (te_error e))) \<Longrightarrow>
      sha256 (text (Suc (te_sequence_number e))) = sha256 (text (te_sequence_number e)) \<Longrightarrow>
      text (Suc (te_sequence_number e)) = text (te_sequence_number e)"
  shows "request (append_event sha256 (\<lambda>_. d') pid tid a j) d
    = (Inl (Dom (ConflictError (DuplicateTrajectoryEvent tid ext))), d')"
proof -
  obtain cid vid p n where e: "e = new_event sha256 i tid n cid vid a p"
    and race: "append_event sha256 (\<lambda>_. d') pid tid a j (begin_txn d)
      = (if event_hash sha256 tid (Suc n) (aa_event_type a) vid p = te_content_hash e then Inr e
         else Inl (Dom (ConflictError (DuplicateTrajectoryEvent tid ext))), begin_txn d')"
    using append_event_race [OF assms(1-3)] by blast
  have "event_hash sha256 tid (Suc n) (aa_event_type a) vid p \<noteq> te_content_hash e"
    using no_collision [OF refl] event_text_inject
    by (auto simp: e new_event_def event_hash_def compute_event_hash_def)
  then show ?thesis using race by (simp add: request_def)
qed

theorem racing_retry_rejected_witness:
  "request (append_event digest (\<lambda>_. called_db) 2 7 tool_call_args 31) run_db
    = (Inl (Dom (ConflictError (DuplicateTrajectoryEvent 7 ''evt-1''))), called_db)"
proof (rule racing_retry_rejected [OF tool_call_appended])
  show "event_by_external_id 7 ''evt-1'' (begin_txn run_db) = (Inr None, begin_txn run_db)"
    by (simp add: event_by_external_id_def fetch_one_def run_db_def empty_db_def)
qed (simp_all add: tool_call_args_def digest_def)

end
