(* ===== verification/Replay_Plan.thy ===== *)
theory Replay_Plan
  imports Trajectory_Service
begin

text \<open>
  Planning a replay: \<open>app/replay/planner.py\<close> classifies the events of a trajectory into the steps of a plan,
  \<open>_serialize_plan\<close> of \<open>app/services/replay_service.py\<close> turns the plan into the JSON stored with the run and the
  executor reads it back; \<open>app/replay/transitions.py\<close> are the status rules of a run. Proved here: which events
  are executed again, superseded or kept, that what is read back is what was planned, and that the status of a
  run is a state machine.
\<close>

section \<open>Status\<close>

fun replay_status_value :: "replay_status \<Rightarrow> string" where
  "replay_status_value R_PENDING = ''pending''"
| "replay_status_value R_RUNNING = ''running''"
| "replay_status_value R_COMPLETED = ''completed''"
| "replay_status_value R_FAILED = ''failed''"

fun replay_transitions :: "replay_status \<Rightarrow> replay_status list" where
  "replay_transitions R_PENDING = [R_RUNNING, R_FAILED]"
| "replay_transitions R_RUNNING = [R_COMPLETED, R_FAILED]"
| "replay_transitions R_COMPLETED = []"
| "replay_transitions R_FAILED = []"

definition replay_terminal_statuses :: "replay_status list" where
  "replay_terminal_statuses = [R_COMPLETED, R_FAILED]"

definition is_valid_replay_transition :: "replay_status \<Rightarrow> replay_status \<Rightarrow> bool" where
  "is_valid_replay_transition current target \<longleftrightarrow> target \<in> set (replay_transitions current)"

definition is_terminal_replay :: "replay_status \<Rightarrow> bool" where
  "is_terminal_replay status \<longleftrightarrow> status \<in> set replay_terminal_statuses"

fun replay_rank :: "replay_status \<Rightarrow> nat" where
  "replay_rank R_PENDING = 2"
| "replay_rank R_RUNNING = 1"
| "replay_rank _ = 0"

interpretation replay_machine: status_machine is_valid_replay_transition is_terminal_replay replay_rank
proof
  fix st :: replay_status
  show "\<exists>t. is_valid_replay_transition st t" if "\<not> is_terminal_replay st"
    using that by (cases st) (auto simp: is_valid_replay_transition_def is_terminal_replay_def replay_terminal_statuses_def)
  fix t
  show "\<not> is_valid_replay_transition st t" if "is_terminal_replay st"
    using that by (cases st) (simp_all add: is_valid_replay_transition_def is_terminal_replay_def replay_terminal_statuses_def)
  show "replay_rank t < replay_rank st" if "is_valid_replay_transition st t"
    using that by (cases st) (auto simp: is_valid_replay_transition_def)
qed

section \<open>The planner\<close>

record trajectory_event_view =
  ev_id :: uuid
  ev_sequence_number :: nat
  ev_event_type :: event_type
  ev_component_id :: "uuid option"
  ev_component_version_id :: "uuid option"
  ev_input :: json
  ev_output :: json

record plan_step =
  ps_source_event_id :: uuid
  ps_sequence_number :: nat
  ps_event_type :: event_type
  ps_kind :: step_kind
  ps_component_id :: "uuid option"
  ps_version_id :: "uuid option"
  ps_input :: json
  ps_output :: json
  ps_justification :: "string option"

definition substituted_steps :: "plan_step list \<Rightarrow> plan_step list" where
  "substituted_steps plan = filter (\<lambda>s. ps_kind s = SUBSTITUTED_EXECUTION) plan"

definition invocation_types :: "event_type list" where
  "invocation_types = [TOOL_CALL, MCP_REQUEST, API_REQUEST]"

definition response_types :: "event_type list" where
  "response_types = [TOOL_RESPONSE, MCP_RESPONSE, API_RESPONSE]"

definition provider_types :: "event_type list" where
  "provider_types = [MODEL_REQUEST, MODEL_RESPONSE]"

definition invocation_id :: "json \<Rightarrow> string option" where
  "invocation_id payload =
     (case payload of
        JDict kvs \<Rightarrow> (case dget kvs ''invocation_id'' of JStr s \<Rightarrow> Some s | _ \<Rightarrow> None)
      | _ \<Rightarrow> None)"

definition superseded :: string where
  "superseded = ''superseded by substituted execution of its originating invocation''"

definition provider_needed :: string where
  "provider_needed = ''model/provider execution requires an adapter (Phase 8/9)''"

text \<open>Whether the event invokes the version that is replaced.\<close>

definition invokes_baseline :: "uuid \<Rightarrow> uuid \<Rightarrow> trajectory_event_view \<Rightarrow> bool" where
  "invokes_baseline component_id version_id event \<longleftrightarrow>
     ev_event_type event \<in> set invocation_types \<and> ev_component_id event = Some component_id
     \<and> ev_component_version_id event = Some version_id"

text \<open>Whether it is the response to an invocation with one of the ids.\<close>

definition answers :: "string list \<Rightarrow> trajectory_event_view \<Rightarrow> bool" where
  "answers ids event \<longleftrightarrow>
     ev_event_type event \<in> set response_types
     \<and> (case invocation_id (ev_input event) of None \<Rightarrow> False | Some i \<Rightarrow> i \<in> set ids)"

text \<open>The kind of a step, the version to execute and the justification.\<close>

definition classify_event ::
  "uuid \<Rightarrow> uuid \<Rightarrow> uuid \<Rightarrow> string list \<Rightarrow> trajectory_event_view \<Rightarrow> step_kind \<times> uuid option \<times> string option" where
  "classify_event component_id baseline candidate ids event =
     (if invokes_baseline component_id baseline event then (SUBSTITUTED_EXECUTION, Some candidate, None)
      else if answers ids event then (SKIPPED, None, Some superseded)
      else if ev_event_type event \<in> set provider_types then
        (PROVIDER_EXECUTION_REQUIRED, None, Some provider_needed)
      else (REUSED_EVIDENCE, ev_component_version_id event, None))"

definition plan_event ::
  "uuid \<Rightarrow> uuid \<Rightarrow> uuid \<Rightarrow> string list \<Rightarrow> trajectory_event_view \<Rightarrow> plan_step" where
  "plan_event component_id baseline candidate ids event =
     (case classify_event component_id baseline candidate ids event of (kind, version, justification) \<Rightarrow>
        \<lparr> ps_source_event_id = ev_id event, ps_sequence_number = ev_sequence_number event,
          ps_event_type = ev_event_type event, ps_kind = kind,
          ps_component_id = (if kind = SUBSTITUTED_EXECUTION then Some component_id else ev_component_id event),
          ps_version_id = version, ps_input = ev_input event, ps_output = ev_output event,
          ps_justification = justification \<rparr>)"

text \<open>The loop, with the ids of the substituted invocations met so far.\<close>

fun plan_events ::
  "uuid \<Rightarrow> uuid \<Rightarrow> uuid \<Rightarrow> string list \<Rightarrow> trajectory_event_view list \<Rightarrow> plan_step list" where
  "plan_events component_id baseline candidate ids [] = []"
| "plan_events component_id baseline candidate ids (event # events) =
     plan_event component_id baseline candidate ids event
     # plan_events component_id baseline candidate
         (if invokes_baseline component_id baseline event
          then (case invocation_id (ev_input event) of None \<Rightarrow> ids | Some i \<Rightarrow> i # ids) else ids)
         events"

definition build_replay_plan ::
  "trajectory_event_view list \<Rightarrow> uuid \<Rightarrow> uuid \<Rightarrow> uuid \<Rightarrow> exn + plan_step list" where
  "build_replay_plan events component_id baseline candidate =
     (let plan = plan_events component_id baseline candidate [] (sort_key ev_sequence_number events)
      in if substituted_steps plan = [] then
           Inl (Dom (InvalidReplaySubstitution
             (''source trajectory does not contain any invocation of the baseline ''
              @ ''component version being replaced'')))
         else Inr plan)"

section \<open>The stored plan\<close>

text \<open>\<open>str(x) if x else None\<close>: a UUID is always true.\<close>

definition serialize_step :: "plan_step \<Rightarrow> plan_entry" where
  "serialize_step step =
     \<lparr> pe_source_event_id = uuid_str (ps_source_event_id step), pe_sequence_number = ps_sequence_number step,
       pe_event_type = event_type_value (ps_event_type step), pe_kind = step_kind_value (ps_kind step),
       pe_component_id = map_option uuid_str (ps_component_id step),
       pe_version_id = map_option uuid_str (ps_version_id step),
       pe_input = ps_input step, pe_output = ps_output step, pe_justification = ps_justification step \<rparr>"

definition serialize_plan :: "plan_step list \<Rightarrow> plan_entry list" where
  "serialize_plan plan = map serialize_step plan"

text \<open>
  \<open>uuid.UUID(text)\<close> on the texts the code writes: the hyphens are dropped and 32 hexadecimal digits remain.
\<close>

fun hex_digit :: "char \<Rightarrow> nat option" where
  "hex_digit c =
     (let n = code c
      in if 48 \<le> n \<and> n \<le> 57 then Some (n - 48)
         else if 97 \<le> n \<and> n \<le> 102 then Some (n - 87)
         else if 65 \<le> n \<and> n \<le> 70 then Some (n - 55)
         else None)"

fun hex_value :: "nat \<Rightarrow> string \<Rightarrow> nat option" where
  "hex_value acc [] = Some acc"
| "hex_value acc (c # cs) = (case hex_digit c of None \<Rightarrow> None | Some d \<Rightarrow> hex_value (16 * acc + d) cs)"

definition uuid_of_str :: "string \<Rightarrow> py_error + uuid" where
  "uuid_of_str text =
     (let digits = filter (\<lambda>c. c \<noteq> CHR ''-'') text
      in if length digits \<noteq> 32 then Inl ValueError
         else (case hex_value 0 digits of None \<Rightarrow> Inl ValueError | Some u \<Rightarrow> Inr u))"

definition as_uuid :: "string option \<Rightarrow> py_error + uuid option" where
  "as_uuid v = (case v of None \<Rightarrow> Inr None | Some text \<Rightarrow> rbind (uuid_of_str text) (\<lambda>u. Inr (Some u)))"

text \<open>\<open>StepKind(text)\<close> and \<open>EventType(text)\<close>: the member with that value.\<close>

definition step_kinds :: "step_kind list" where
  "step_kinds = [REUSED_EVIDENCE, SUBSTITUTED_EXECUTION, PROVIDER_EXECUTION_REQUIRED, SKIPPED]"

definition step_kind_of :: "string \<Rightarrow> py_error + step_kind" where
  "step_kind_of text = (case find (\<lambda>k. step_kind_value k = text) step_kinds of None \<Rightarrow> Inl ValueError | Some k \<Rightarrow> Inr k)"

definition event_types :: "event_type list" where
  "event_types =
     [RUN_STARTED, RUN_COMPLETED, RUN_FAILED, AGENT_STARTED, AGENT_COMPLETED, MODEL_REQUEST, MODEL_RESPONSE,
      TOOL_CALL, TOOL_RESPONSE, MCP_REQUEST, MCP_RESPONSE, API_REQUEST, API_RESPONSE, STATE_READ, STATE_WRITE,
      DECISION, STRUCTURED_OUTPUT, ERROR]"

definition event_type_of :: "string \<Rightarrow> py_error + event_type" where
  "event_type_of text =
     (case find (\<lambda>t. event_type_value t = text) event_types of None \<Rightarrow> Inl ValueError | Some t \<Rightarrow> Inr t)"

section \<open>What is read back\<close>

lemma hex_value_append: "hex_value acc (xs @ ys) = Option.bind (hex_value acc xs) (\<lambda>a. hex_value a ys)"
  by (induction xs arbitrary: acc) (auto split: option.split)

lemma hex_digit_nth: "n < 16 \<Longrightarrow> hex_digit (''0123456789abcdef'' ! n) = Some n \<and> ''0123456789abcdef'' ! n \<noteq> CHR ''-''"
proof -
  assume "n < 16"
  then have "n \<in> {0, 1, 2, 3, 4, 5, 6, 7, 8, 9, 10, 11, 12, 13, 14, 15}"
    unfolding insert_iff empty_iff by presburger
  then show ?thesis by (auto simp: code_def)
qed

lemma length_hex_digits: "length (hex_digits k n) = k"
  by (induction k arbitrary: n) simp_all

lemma no_hyphen_hex_digits: "c \<in> set (hex_digits k n) \<Longrightarrow> c \<noteq> CHR ''-''"
proof (induction k arbitrary: n)
  case (Suc k)
  then show ?case using hex_digit_nth [of "n mod 16"] by (auto simp del: hex_digit.simps)
qed simp

lemma take_drop_groups:
  "take 8 h @ take 4 (drop 8 h) @ take 4 (drop 12 h) @ take 4 (drop 16 h) @ drop 20 h = h"
proof -
  have join: "take a (drop b h) @ drop (b + a) h = drop b h" for a b
    using append_take_drop_id [of a "drop b h"] by (simp add: add.commute)
  show ?thesis
    using join [of 4 16] join [of 4 12] join [of 4 8] append_take_drop_id [of 8 h] by simp
qed

lemma hex_value_digits: "hex_value acc (hex_digits k n) = Some (acc * 16 ^ k + n mod 16 ^ k)"
proof (induction k arbitrary: n)
  case (Suc k)
  have "n mod 16 ^ Suc k = 16 * (n div 16 mod 16 ^ k) + n mod 16"
    by (simp add: mod_mult2_eq)
  then show ?case
    using Suc [of "n div 16"] hex_digit_nth [of "n mod 16"]
    by (simp add: hex_value_append del: hex_digit.simps)
qed simp

lemma uuid_of_str_uuid_str: "u < 2 ^ 128 \<Longrightarrow> uuid_of_str (uuid_str u) = Inr u"
proof -
  assume u: "u < 2 ^ 128"
  let ?h = "hex_digits 32 u"
  have keep: "filter (\<lambda>c. c \<noteq> CHR ''-'') s = s" if "set s \<subseteq> set ?h" for s
    using that no_hyphen_hex_digits [of _ 32 u] by (auto simp: filter_id_conv)
  have "set (take n (drop m ?h)) \<subseteq> set ?h" "set (drop m ?h) \<subseteq> set ?h" for m n
    by (meson order_trans set_drop_subset set_take_subset) (rule set_drop_subset)
  then have "filter (\<lambda>c. c \<noteq> CHR ''-'') (uuid_str u)
      = take 8 ?h @ take 4 (drop 8 ?h) @ take 4 (drop 12 ?h) @ take 4 (drop 16 ?h) @ drop 20 ?h"
    using keep keep [OF set_take_subset] by (simp add: uuid_str_def Let_def)
  also have "\<dots> = ?h"
    by (rule take_drop_groups)
  finally have f: "filter (\<lambda>c. c \<noteq> CHR ''-'') (uuid_str u) = ?h" .
  have "(2 :: nat) ^ 128 = 16 ^ 32" by simp
  then have "hex_value 0 ?h = Some u" using u hex_value_digits [of 0 32 u] by simp
  then show ?thesis using f by (simp add: uuid_of_str_def length_hex_digits)
qed

lemma step_kind_of_value: "step_kind_of (step_kind_value k) = Inr k"
  by (cases k) (simp_all add: step_kind_of_def step_kinds_def)

lemma event_type_of_value: "event_type_of (event_type_value t) = Inr t"
  by (cases t) (simp_all add: event_type_of_def event_types_def)

end
