(* ===== verification/Replay_Service.thy ===== *)
theory Replay_Service
  imports Replay_Plan Diff_Service
begin

text \<open>
  \<open>app/services/replay_service.py\<close> with the queries and the atomic update of
  \<open>app/repositories/replay_repository.py\<close> and the executor contract of \<open>app/replay/executor.py\<close>: a replay is
  planned when it is created and executed once, step by step in plan order. The session of the code has
  \<open>autoflush=False\<close>: the rows added during the execution are written by the next flush or commit.
\<close>

section \<open>Messages\<close>

text \<open>\<open>repr\<close> of an enumeration member; the names of the members are their values in capitals.\<close>

definition upper_char :: "char \<Rightarrow> char" where
  "upper_char c = (if 97 \<le> code c \<and> code c \<le> 122 then char_of (code c - 32) else c)"

definition enum_repr :: "string \<Rightarrow> string \<Rightarrow> string" where
  "enum_repr cls member = ''<'' @ cls @ ''.'' @ map upper_char member @ '': '' @ str_repr member @ ''>''"

section \<open>Executors\<close>

text \<open>\<open>ExecutionOutcome\<close>.\<close>

record execution_outcome =
  oc_status :: string
  oc_output :: json
  oc_error :: json
  oc_duration_ms :: "int option"

text \<open>
  A \<open>ReplayExecutor\<close>: which events it supports, and what a call returns or the text of what it raises. The
  number of the step a call belongs to is an argument, so that an executor with a state of its own is covered.
\<close>

record replay_executor =
  ex_supports :: "event_type \<Rightarrow> bool"
  ex_execute :: "nat \<Rightarrow> event_type \<Rightarrow> uuid option \<Rightarrow> json \<Rightarrow> string + execution_outcome"

definition find_executor :: "replay_executor list \<Rightarrow> event_type \<Rightarrow> replay_executor option" where
  "find_executor executors et = find (\<lambda>e. ex_supports e et) executors"

section \<open>Queries\<close>

definition replay_by_idempotency_key :: "uuid \<Rightarrow> string \<Rightarrow> replay_run option session" where
  "replay_by_idempotency_key project_id key =
     fetch_one db_replays (\<lambda>r. rr_project_id r = project_id \<and> rr_idempotency_key r = Some key)"

definition count_steps :: "uuid \<Rightarrow> nat session" where
  "count_steps replay_id = sread (\<lambda>d. length (filter (\<lambda>s. rp_run_id s = replay_id) (db_steps d)))"

definition set_replay_status ::
  "uuid \<Rightarrow> replay_status \<Rightarrow> replay_status \<Rightarrow> string option \<Rightarrow> replay_run \<Rightarrow> replay_run" where
  "set_replay_status replay_id from_status to_status error r =
     (if rr_id r = replay_id \<and> rr_status r = from_status then r \<lparr> rr_status := to_status, rr_error := error \<rparr> else r)"

text \<open>\<open>UPDATE replay_runs SET status = ..., error = ... WHERE id = ... AND status = from_status\<close>.\<close>

definition transition_replay_status ::
  "uuid \<Rightarrow> replay_status \<Rightarrow> replay_status \<Rightarrow> string option \<Rightarrow> bool session" where
  "transition_replay_status replay_id from_status to_status error =
     sbind (sread (\<lambda>d. list_ex (\<lambda>r. rr_id r = replay_id \<and> rr_status r = from_status) (db_replays d))) (\<lambda>applied.
     sthen (swrite (\<lambda>d. d \<lparr> db_replays := map (set_replay_status replay_id from_status to_status error) (db_replays d) \<rparr>))
       (sreturn applied))"

section \<open>Creating a replay\<close>

record replay_args =
  ra_source_trajectory_id :: uuid
  ra_baseline_version_id :: uuid
  ra_candidate_version_id :: uuid
  ra_idempotency_key :: "string option"
  ra_configuration :: json

definition replay_conflicts :: "replay_run \<Rightarrow> replay_args \<Rightarrow> bool" where
  "replay_conflicts existing a \<longleftrightarrow>
     rr_source_trajectory_id existing \<noteq> ra_source_trajectory_id a
     \<or> rr_baseline_version_id existing \<noteq> ra_baseline_version_id a
     \<or> rr_candidate_version_id existing \<noteq> ra_candidate_version_id a"

definition existing_replay :: "uuid \<Rightarrow> string \<Rightarrow> replay_args \<Rightarrow> replay_run \<Rightarrow> replay_run session" where
  "existing_replay project_id key a existing =
     sthen (sguard (\<not> replay_conflicts existing a) (Dom (ConflictError (ReplayAlreadyExists project_id key))))
       (sreturn existing)"

definition to_event_view :: "trajectory_event \<Rightarrow> trajectory_event_view" where
  "to_event_view e =
     \<lparr> ev_id = te_id e, ev_sequence_number = te_sequence_number e, ev_event_type = te_event_type e,
       ev_component_id = te_component_id e, ev_component_version_id = te_component_version_id e,
       ev_input = te_input e, ev_output = te_output e \<rparr>"

definition replay_clash :: "replay_run \<Rightarrow> replay_run \<Rightarrow> bool" where
  "replay_clash a b \<longleftrightarrow>
     rr_id a = rr_id b
     \<or> rr_project_id a = rr_project_id b \<and> same_key (rr_idempotency_key a) (rr_idempotency_key b)"

definition replay_linked :: "replay_run \<Rightarrow> db \<Rightarrow> bool" where
  "replay_linked r d \<longleftrightarrow> list_ex (\<lambda>t. tj_id t = rr_source_trajectory_id r) (db_trajectories d)"

definition put_replay :: "replay_run \<Rightarrow> db \<Rightarrow> db" where
  "put_replay r d = d \<lparr> db_replays := db_replays d @ [r] \<rparr>"

definition must_be_completed :: "trajectory \<Rightarrow> string" where
  "must_be_completed t =
     ''source trajectory '' @ uuid_str (tj_id t) @ '' must be COMPLETED to replay (status=''
     @ enum_repr ''TrajectoryStatus'' (trajectory_status_value (tj_status t)) @ '')''"

text \<open>The checks of the source and of the two versions: what the run replays, and its plan.\<close>

definition plan_replay :: "uuid \<Rightarrow> replay_args \<Rightarrow> (component_row \<times> plan_step list) session" where
  "plan_replay project_id a =
     sbind (get_trajectory project_id (ra_source_trajectory_id a)) (\<lambda>t.
     sthen (sguard (tj_status t = T_COMPLETED) (Dom (InvalidReplaySubstitution (must_be_completed t))))
     (sbind (srequire (Dom (NotFoundError (ComponentVersionNotFound None (uuid_str (ra_baseline_version_id a)))))
              (version_by_id (ra_baseline_version_id a))) (\<lambda>baseline.
     sbind (srequire (Dom (NotFoundError (ComponentVersionNotFound None (uuid_str (ra_candidate_version_id a)))))
              (version_by_id (ra_candidate_version_id a))) (\<lambda>candidate.
     sthen (sguard (cv_component_id baseline = cv_component_id candidate)
              (Dom (InvalidReplaySubstitution
                (''candidate component version must belong to the same component '' @ ''as the baseline''))))
     (sbind (srequire (Dom (NotFoundError (ComponentNotFound (cv_component_id baseline))))
              (component_by_id project_id (cv_component_id baseline))) (\<lambda>component.
     sbind (sread (events_of (ra_source_trajectory_id a))) (\<lambda>events.
     sbind (slift (build_replay_plan (map to_event_view events) (cm_id component) (cv_id baseline) (cv_id candidate)))
       (\<lambda>plan. sreturn (component, plan)))))))))"

definition new_replay :: "uuid \<Rightarrow> project \<Rightarrow> uuid \<Rightarrow> replay_args \<Rightarrow> component_row \<Rightarrow> plan_step list \<Rightarrow> replay_run" where
  "new_replay new_id project project_id a component plan =
     \<lparr> rr_id = new_id, rr_organization_id = pj_organization_id project, rr_project_id = project_id,
       rr_source_trajectory_id = ra_source_trajectory_id a, rr_component_id = cm_id component,
       rr_baseline_version_id = ra_baseline_version_id a, rr_candidate_version_id = ra_candidate_version_id a,
       rr_status = R_PENDING, rr_idempotency_key = ra_idempotency_key a, rr_configuration = ra_configuration a,
       rr_plan = serialize_plan plan, rr_error = None \<rparr>"

definition insert_replay :: "uuid \<Rightarrow> replay_args \<Rightarrow> replay_run \<Rightarrow> replay_run session" where
  "insert_replay project_id a row =
     scatch_integrity
       (sthen (flush_row db_replays replay_clash replay_linked put_replay row) (sreturn row))
       (sthen srollback
         (case ra_idempotency_key a of
            None \<Rightarrow> sraise IntegrityError
          | Some key \<Rightarrow>
              sbind (replay_by_idempotency_key project_id key) (\<lambda>existing.
              case existing of
                None \<Rightarrow> sraise IntegrityError
              | Some r \<Rightarrow> existing_replay project_id key a r)))"

definition create_replay :: "(db \<Rightarrow> db) \<Rightarrow> uuid \<Rightarrow> replay_args \<Rightarrow> uuid \<Rightarrow> replay_run session" where
  "create_replay others project_id a new_id =
     sbind (require_project project_id) (\<lambda>project.
     sbind (case ra_idempotency_key a of
              None \<Rightarrow> sreturn None
            | Some key \<Rightarrow> replay_by_idempotency_key project_id key) (\<lambda>existing.
     case existing of
       Some r \<Rightarrow> existing_replay project_id (the (ra_idempotency_key a)) a r
     | None \<Rightarrow>
         sbind (plan_replay project_id a) (\<lambda>(component, plan).
         sthen (concurrently others)
           (insert_replay project_id a (new_replay new_id project project_id a component plan)))))"

definition get_replay :: "uuid \<Rightarrow> uuid \<Rightarrow> replay_run session" where
  "get_replay project_id replay_id =
     srequire (Dom (NotFoundError (ReplayNotFound replay_id))) (replay_by_id project_id replay_id)"

definition list_steps :: "uuid \<Rightarrow> uuid \<Rightarrow> nat \<Rightarrow> nat \<Rightarrow> replay_step page session" where
  "list_steps project_id replay_id n page_size =
     sthen (get_replay project_id replay_id) (sread (\<lambda>d. page_result n page_size (steps_of replay_id d)))"

section \<open>Executing a replay\<close>

fun kind_to_status :: "step_kind \<Rightarrow> step_status" where
  "kind_to_status REUSED_EVIDENCE = ST_REUSED"
| "kind_to_status PROVIDER_EXECUTION_REQUIRED = ST_PROVIDER_REQUIRED"
| "kind_to_status SKIPPED = ST_SKIPPED"
| "kind_to_status SUBSTITUTED_EXECUTION = ST_PENDING"

text \<open>
  \<open>_KIND_TO_STATUS\<close> has no entry for a substituted step, which never asks for it. The ids in an entry are read
  when its row is built.
\<close>

definition entry_ids :: "plan_entry \<Rightarrow> py_error + uuid \<times> uuid option \<times> uuid option" where
  "entry_ids entry =
     rbind (uuid_of_str (pe_source_event_id entry)) (\<lambda>source.
     rbind (as_uuid (pe_component_id entry)) (\<lambda>component.
     rbind (as_uuid (pe_version_id entry)) (\<lambda>version. Inr (source, component, version))))"

definition finalized_step ::
  "(nat \<Rightarrow> uuid) \<Rightarrow> uuid \<Rightarrow> plan_entry \<Rightarrow> step_kind \<Rightarrow> step_status \<Rightarrow> py_error + replay_step" where
  "finalized_step new_id replay_id entry kind status =
     rbind (entry_ids entry) (\<lambda>(source, component, version).
     Inr \<lparr> rp_run_id = replay_id, rp_id = new_id (pe_sequence_number entry),
           rp_sequence_number = pe_sequence_number entry, rp_source_event_id = source, rp_kind = kind,
           rp_status = status, rp_component_id = component, rp_version_id = version,
           rp_input = pe_input entry, rp_output = (if status = ST_REUSED then pe_output entry else JNull),
           rp_error = JNull, rp_justification = pe_justification entry, rp_duration_ms = None \<rparr>)"

definition executed_step ::
  "(nat \<Rightarrow> uuid) \<Rightarrow> uuid \<Rightarrow> plan_entry \<Rightarrow> step_kind \<Rightarrow> step_status \<Rightarrow> execution_outcome \<Rightarrow> py_error + replay_step" where
  "executed_step new_id replay_id entry kind status outcome =
     rbind (entry_ids entry) (\<lambda>(source, component, version).
     Inr \<lparr> rp_run_id = replay_id, rp_id = new_id (pe_sequence_number entry),
           rp_sequence_number = pe_sequence_number entry, rp_source_event_id = source, rp_kind = kind,
           rp_status = status, rp_component_id = component, rp_version_id = version,
           rp_input = pe_input entry, rp_output = oc_output outcome, rp_error = oc_error outcome,
           rp_justification = pe_justification entry, rp_duration_ms = oc_duration_ms outcome \<rparr>)"

definition step_clash :: "replay_step \<Rightarrow> replay_step \<Rightarrow> bool" where
  "step_clash a b \<longleftrightarrow>
     rp_id a = rp_id b \<or> rp_run_id a = rp_run_id b \<and> rp_sequence_number a = rp_sequence_number b"

definition step_linked :: "replay_step \<Rightarrow> db \<Rightarrow> bool" where
  "step_linked s d \<longleftrightarrow>
     list_ex (\<lambda>r. rr_id r = rp_run_id s) (db_replays d) \<and> list_ex (\<lambda>e. te_id e = rp_source_event_id s) (db_events d)"

definition put_step :: "replay_step \<Rightarrow> db \<Rightarrow> db" where
  "put_step s d = d \<lparr> db_steps := db_steps d @ [s] \<rparr>"

text \<open>The flush of the rows added so far, in the order in which they were added.\<close>

fun flush_steps :: "replay_step list \<Rightarrow> unit session" where
  "flush_steps [] = sreturn ()"
| "flush_steps (step # steps) = sthen (flush_row db_steps step_clash step_linked put_step step) (flush_steps steps)"

text \<open>The run fails for good: the status is committed before the exception leaves the handler.\<close>

definition abort_replay :: "uuid \<Rightarrow> replay_step list \<Rightarrow> string \<Rightarrow> agentabi_error \<Rightarrow> 'a session" where
  "abort_replay replay_id pending error e =
     sthen (transition_replay_status replay_id R_RUNNING R_FAILED (Some error))
       (sthen (flush_steps pending) (sthen scommit (sraise (Dom e))))"

definition no_executor_message :: "event_type \<Rightarrow> string" where
  "no_executor_message et =
     ''no executor available for event_type='' @ enum_repr ''EventType'' (event_type_value et)"

definition bad_uuid_message :: string where
  "bad_uuid_message = ''badly formed hexadecimal UUID string''"

text \<open>The \<open>try\<close> block: the version is read and the executor called; whatever is raised is its text.\<close>

definition call_executor :: "replay_executor \<Rightarrow> plan_entry \<Rightarrow> event_type \<Rightarrow> string + execution_outcome" where
  "call_executor executor entry et =
     (case as_uuid (pe_version_id entry) of
        Inl _ \<Rightarrow> Inl bad_uuid_message
      | Inr version \<Rightarrow> ex_execute executor (pe_sequence_number entry) et version (pe_input entry))"

definition step_failed_message :: "nat \<Rightarrow> string" where
  "step_failed_message n = ''substituted execution failed at sequence '' @ int_str (int n)"

text \<open>The loop over the plan: the rows to write, and why it stopped early if it did.\<close>

fun run_steps ::
  "replay_executor list \<Rightarrow> (nat \<Rightarrow> uuid) \<Rightarrow> uuid \<Rightarrow> replay_step list \<Rightarrow> plan_entry list \<Rightarrow>
   (replay_step list \<times> string option) session" where
  "run_steps executors new_id replay_id pending [] = sreturn (pending, None)"
| "run_steps executors new_id replay_id pending (entry # rest) =
     sbind (slift (lift_py (step_kind_of (pe_kind entry)))) (\<lambda>kind.
     if kind \<noteq> SUBSTITUTED_EXECUTION then
       sbind (slift (lift_py (finalized_step new_id replay_id entry kind (kind_to_status kind)))) (\<lambda>step.
       run_steps executors new_id replay_id (pending @ [step]) rest)
     else
       sbind (slift (lift_py (event_type_of (pe_event_type entry)))) (\<lambda>et.
       case find_executor executors et of
         None \<Rightarrow> abort_replay replay_id pending (no_executor_message et) (ReplayExecutorUnavailable replay_id et)
       | Some executor \<Rightarrow>
           (case call_executor executor entry et of
              Inl text \<Rightarrow> abort_replay replay_id pending text (ReplayExecutionFailed replay_id text)
            | Inr outcome \<Rightarrow>
                let status = (if oc_status outcome = ''executed'' then ST_EXECUTED else ST_FAILED)
                in sbind (slift (lift_py (executed_step new_id replay_id entry kind status outcome))) (\<lambda>step.
                   if status = ST_FAILED
                   then sreturn (pending @ [step], Some (step_failed_message (pe_sequence_number entry)))
                   else run_steps executors new_id replay_id (pending @ [step]) rest))))"

definition execute_replay ::
  "replay_executor list \<Rightarrow> (db \<Rightarrow> db) \<Rightarrow> (nat \<Rightarrow> uuid) \<Rightarrow> uuid \<Rightarrow> uuid \<Rightarrow> replay_run session" where
  "execute_replay executors others new_id project_id replay_id =
     sbind (get_replay project_id replay_id) (\<lambda>r.
     sthen (sguard (is_valid_replay_transition (rr_status r) R_RUNNING)
              (Dom (ConflictError (InvalidReplayTransition replay_id (rr_status r) R_RUNNING))))
     (sthen (concurrently others)
     (sbind (transition_replay_status replay_id R_PENDING R_RUNNING None) (\<lambda>applied.
     if \<not> applied then
       sbind (get_replay project_id replay_id) (\<lambda>now.
         sraise (Dom (ConflictError (InvalidReplayTransition replay_id (rr_status now) R_RUNNING))))
     else
       sbind (run_steps executors new_id replay_id [] (sort_key pe_sequence_number (rr_plan r))) (\<lambda>(steps, failure_reason).
       sthen (flush_steps steps)
      (sthen (case failure_reason of
                Some reason \<Rightarrow> transition_replay_status replay_id R_RUNNING R_FAILED (Some reason)
              | None \<Rightarrow> transition_replay_status replay_id R_RUNNING R_COMPLETED None)
         (get_replay project_id replay_id)))))))"

end
