(* ===== verification/Replay_Laws.thy ===== *)
theory Replay_Laws
  imports Replay_Service Trajectory_Laws
begin

text \<open>
  What a plan says of its events, and what the execution of a run does: the handler of \<open>ReplayService\<close> is shown
  to compute \<open>interpret_plan\<close>, an interpreter of the plan that knows nothing of sessions, stored JSON or commits.
\<close>

section \<open>The plan\<close>

text \<open>The ids of the replaced invocations before a position.\<close>

definition replaced_before :: "uuid \<Rightarrow> uuid \<Rightarrow> trajectory_event_view list \<Rightarrow> nat \<Rightarrow> string \<Rightarrow> bool" where
  "replaced_before component_id baseline events i key \<longleftrightarrow>
     (\<exists>j < i. j < length events \<and> invokes_baseline component_id baseline (events ! j)
        \<and> invocation_id (ev_input (events ! j)) = Some key)"

lemma length_plan_events [simp]: "length (plan_events c b n ids es) = length es"
  by (induction es arbitrary: ids) simp_all

lemma plan_events_nth:
  "i < length es \<Longrightarrow> \<exists>ids'. plan_events c b n ids es ! i = plan_event c b n ids' (es ! i)
     \<and> (\<forall>k. k \<in> set ids' \<longleftrightarrow> k \<in> set ids \<or> replaced_before c b es i k)"
proof (induction es arbitrary: ids i)
  case (Cons e es)
  let ?ids = "if invokes_baseline c b e then (case invocation_id (ev_input e) of None \<Rightarrow> ids | Some i \<Rightarrow> i # ids) else ids"
  show ?case
  proof (cases i)
    case 0
    then show ?thesis by (intro exI [of _ ids]) (simp add: replaced_before_def)
  next
    case (Suc m)
    then obtain ids' where ids': "plan_events c b n ?ids es ! m = plan_event c b n ids' (es ! m)"
      "\<forall>k. k \<in> set ids' \<longleftrightarrow> k \<in> set ?ids \<or> replaced_before c b es m k"
      using Cons.IH [of m ?ids] Cons.prems by auto
    have "replaced_before c b (e # es) (Suc m) k \<longleftrightarrow>
        invokes_baseline c b e \<and> invocation_id (ev_input e) = Some k \<or> replaced_before c b es m k" for k
      unfolding replaced_before_def Ex_less_Suc2 by simp
    then have "\<forall>k. k \<in> set ids' \<longleftrightarrow> k \<in> set ids \<or> replaced_before c b (e # es) (Suc m) k"
      using ids'(2) by (auto split: option.splits if_splits)
    then show ?thesis using ids'(1) Suc by auto
  qed
qed simp

lemma plan_event_kind:
  "ps_kind (plan_event c b n ids e) =
     (if invokes_baseline c b e then SUBSTITUTED_EXECUTION
      else if answers ids e then SKIPPED
      else if ev_event_type e \<in> set provider_types then PROVIDER_EXECUTION_REQUIRED else REUSED_EVIDENCE)"
  by (simp add: plan_event_def classify_event_def)

lemma plan_event_fields:
  "ps_source_event_id (plan_event c b n ids e) = ev_id e"
  "ps_sequence_number (plan_event c b n ids e) = ev_sequence_number e"
  "ps_event_type (plan_event c b n ids e) = ev_event_type e"
  "ps_component_id (plan_event c b n ids e) = ev_component_id e"
  "ps_version_id (plan_event c b n ids e) =
     (case ps_kind (plan_event c b n ids e) of
        SUBSTITUTED_EXECUTION \<Rightarrow> Some n | REUSED_EVIDENCE \<Rightarrow> ev_component_version_id e | _ \<Rightarrow> None)"
  "ps_input (plan_event c b n ids e) = ev_input e"
  "ps_output (plan_event c b n ids e) = ev_output e"
  by (simp_all add: plan_event_def classify_event_def invokes_baseline_def)

section \<open>The stored plan\<close>

definition step_ids_ok :: "plan_step \<Rightarrow> bool" where
  "step_ids_ok p \<longleftrightarrow>
     ps_source_event_id p < 2 ^ 128 \<and> (\<forall>c. ps_component_id p = Some c \<longrightarrow> c < 2 ^ 128)
     \<and> (\<forall>v. ps_version_id p = Some v \<longrightarrow> v < 2 ^ 128)"

lemma as_uuid_str: "(\<And>u. v = Some u \<Longrightarrow> u < 2 ^ 128) \<Longrightarrow> as_uuid (map_option uuid_str v) = Inr v"
  by (cases v) (simp_all add: as_uuid_def uuid_of_str_uuid_str)

lemma entry_ids_serialized:
  "step_ids_ok p \<Longrightarrow> entry_ids (serialize_step p) = Inr (ps_source_event_id p, ps_component_id p, ps_version_id p)"
  by (simp add: entry_ids_def serialize_step_def step_ids_ok_def uuid_of_str_uuid_str as_uuid_str)

section \<open>An interpreter of plans\<close>

datatype replay_ending = All_Steps_Done | Step_Failed nat | No_Executor event_type | Executor_Raised string

definition evidence_row :: "(nat \<Rightarrow> uuid) \<Rightarrow> uuid \<Rightarrow> plan_step \<Rightarrow> replay_step" where
  "evidence_row new_id replay_id p =
     \<lparr> rp_run_id = replay_id, rp_id = new_id (ps_sequence_number p), rp_sequence_number = ps_sequence_number p,
       rp_source_event_id = ps_source_event_id p, rp_kind = ps_kind p, rp_status = kind_to_status (ps_kind p),
       rp_component_id = ps_component_id p, rp_version_id = ps_version_id p, rp_input = ps_input p,
       rp_output = (if ps_kind p = REUSED_EVIDENCE then ps_output p else JNull), rp_error = JNull,
       rp_justification = ps_justification p, rp_duration_ms = None \<rparr>"

definition executed_row :: "(nat \<Rightarrow> uuid) \<Rightarrow> uuid \<Rightarrow> plan_step \<Rightarrow> execution_outcome \<Rightarrow> replay_step" where
  "executed_row new_id replay_id p outcome =
     \<lparr> rp_run_id = replay_id, rp_id = new_id (ps_sequence_number p), rp_sequence_number = ps_sequence_number p,
       rp_source_event_id = ps_source_event_id p, rp_kind = ps_kind p,
       rp_status = (if oc_status outcome = ''executed'' then ST_EXECUTED else ST_FAILED),
       rp_component_id = ps_component_id p, rp_version_id = ps_version_id p, rp_input = ps_input p,
       rp_output = oc_output outcome, rp_error = oc_error outcome,
       rp_justification = ps_justification p, rp_duration_ms = oc_duration_ms outcome \<rparr>"

fun interpret_plan ::
  "replay_executor list \<Rightarrow> (nat \<Rightarrow> uuid) \<Rightarrow> uuid \<Rightarrow> plan_step list \<Rightarrow> replay_step list \<times> replay_ending" where
  "interpret_plan executors new_id replay_id [] = ([], All_Steps_Done)"
| "interpret_plan executors new_id replay_id (p # ps) =
     (if ps_kind p \<noteq> SUBSTITUTED_EXECUTION then
        apfst ((#) (evidence_row new_id replay_id p)) (interpret_plan executors new_id replay_id ps)
      else
        case find_executor executors (ps_event_type p) of
          None \<Rightarrow> ([], No_Executor (ps_event_type p))
        | Some x \<Rightarrow>
            (case ex_execute x (ps_sequence_number p) (ps_event_type p) (ps_version_id p) (ps_input p) of
               Inl text \<Rightarrow> ([], Executor_Raised text)
             | Inr outcome \<Rightarrow>
                 if oc_status outcome = ''executed'' then
                   apfst ((#) (executed_row new_id replay_id p outcome)) (interpret_plan executors new_id replay_id ps)
                 else ([executed_row new_id replay_id p outcome], Step_Failed (ps_sequence_number p))))"

text \<open>What the handler makes of the way the interpretation ends.\<close>

fun ending_status :: "replay_ending \<Rightarrow> replay_status \<times> string option" where
  "ending_status All_Steps_Done = (R_COMPLETED, None)"
| "ending_status (Step_Failed n) = (R_FAILED, Some (step_failed_message n))"
| "ending_status (No_Executor et) = (R_FAILED, Some (no_executor_message et))"
| "ending_status (Executor_Raised text) = (R_FAILED, Some text)"

fun ending_error :: "uuid \<Rightarrow> replay_ending \<Rightarrow> agentabi_error option" where
  "ending_error replay_id (No_Executor et) = Some (ReplayExecutorUnavailable replay_id et)"
| "ending_error replay_id (Executor_Raised text) = Some (ReplayExecutionFailed replay_id text)"
| "ending_error replay_id _ = None"

lemma run_steps_interpret:
  assumes "list_all step_ids_ok plan"
  shows "run_steps executors new_id rid pending (map serialize_step plan) s =
    (case interpret_plan executors new_id rid plan of (rows, ending) \<Rightarrow>
       (case ending_error rid ending of
          Some e \<Rightarrow> abort_replay rid (pending @ rows) (the (snd (ending_status ending))) e s
        | None \<Rightarrow> (Inr (pending @ rows, snd (ending_status ending)), s)))"
  using assms
proof (induction plan arbitrary: pending)
  case (Cons p plan)
  have ids: "step_ids_ok p" and rest: "list_all step_ids_ok plan" using Cons.prems by simp_all
  have kind: "step_kind_of (pe_kind (serialize_step p)) = Inr (ps_kind p)"
    and et: "event_type_of (pe_event_type (serialize_step p)) = Inr (ps_event_type p)"
    and seq: "pe_sequence_number (serialize_step p) = ps_sequence_number p"
    by (simp_all add: serialize_step_def step_kind_of_value event_type_of_value)
  have row: "finalized_step new_id rid (serialize_step p) (ps_kind p) (kind_to_status (ps_kind p)) = Inr (evidence_row new_id rid p)"
    if "ps_kind p \<noteq> SUBSTITUTED_EXECUTION"
    using that unfolding finalized_step_def entry_ids_serialized [OF ids]
    by (cases "ps_kind p") (simp_all add: evidence_row_def serialize_step_def)
  have done_row: "executed_step new_id rid (serialize_step p) (ps_kind p)
      (if oc_status oc = ''executed'' then ST_EXECUTED else ST_FAILED) oc = Inr (executed_row new_id rid p oc)" for oc
    unfolding executed_step_def entry_ids_serialized [OF ids] by (simp add: executed_row_def serialize_step_def)
  have call: "call_executor x (serialize_step p) (ps_event_type p)
      = ex_execute x (ps_sequence_number p) (ps_event_type p) (ps_version_id p) (ps_input p)" for x
    using ids by (simp add: call_executor_def serialize_step_def step_ids_ok_def as_uuid_str)
  note IH = Cons.IH [OF rest]
  show ?case
  proof (cases "ps_kind p = SUBSTITUTED_EXECUTION")
    case False
    then show ?thesis
      using IH [of "pending @ [evidence_row new_id rid p]"]
      by (cases "interpret_plan executors new_id rid plan"; cases "ending_error rid (snd (interpret_plan executors new_id rid plan))")
        (simp_all add: sbind_def session_basic kind row)
  next
    case True
    show ?thesis
    proof (cases "find_executor executors (ps_event_type p)")
      case None
      then show ?thesis using True by (simp add: sbind_def session_basic kind et)
    next
      case (Some x)
      show ?thesis
      proof (cases "ex_execute x (ps_sequence_number p) (ps_event_type p) (ps_version_id p) (ps_input p)")
        case (Inl msg)
        then show ?thesis using True Some by (simp add: sbind_def session_basic kind et call)
      next
        case (Inr oc)
        then show ?thesis
          using True Some IH [of "pending @ [executed_row new_id rid p oc]"] done_row [of oc]
          by (cases "interpret_plan executors new_id rid plan"; cases "ending_error rid (snd (interpret_plan executors new_id rid plan))")
            (simp_all add: sbind_def session_basic kind et call seq Let_def)
      qed
    qed
  qed
qed (simp add: session_basic)

section \<open>The rows\<close>

definition row_of :: "(nat \<Rightarrow> uuid) \<Rightarrow> uuid \<Rightarrow> replay_step \<Rightarrow> plan_step \<Rightarrow> bool" where
  "row_of new_id replay_id row p \<longleftrightarrow>
     rp_run_id row = replay_id \<and> rp_id row = new_id (ps_sequence_number p)
     \<and> rp_sequence_number row = ps_sequence_number p \<and> rp_source_event_id row = ps_source_event_id p"

lemma interpret_rows:
  "length (fst (interpret_plan xs new_id rid plan)) \<le> length plan
   \<and> list_all2 (row_of new_id rid) (fst (interpret_plan xs new_id rid plan))
       (take (length (fst (interpret_plan xs new_id rid plan))) plan)"
proof (induction plan)
  case (Cons p plan)
  have "row_of new_id rid (evidence_row new_id rid p) p" "row_of new_id rid (executed_row new_id rid p oc) p" for oc
    by (simp_all add: row_of_def evidence_row_def executed_row_def)
  then show ?case
    using Cons by (auto split: option.split sum.split)
qed simp

lemma interpret_status:
  "snd (interpret_plan xs new_id rid plan) = All_Steps_Done \<Longrightarrow>
     length (fst (interpret_plan xs new_id rid plan)) = length plan
     \<and> (\<forall>row \<in> set (fst (interpret_plan xs new_id rid plan)). rp_status row \<noteq> ST_FAILED)"
proof (induction plan)
  case (Cons p plan)
  have "rp_status (evidence_row new_id rid p) \<noteq> ST_FAILED"
    by (cases "ps_kind p") (simp_all add: evidence_row_def)
  then show ?case
    using Cons by (auto simp: executed_row_def split: option.splits sum.splits if_splits)
qed simp

interpretation steps: unique_table step_clash db_steps put_step
  by unfold_locales (auto simp: step_clash_def put_step_def)

interpretation replays: unique_table replay_clash db_replays put_replay
  by unfold_locales (auto simp: replay_clash_def put_replay_def same_key_sym)

lemma flush_steps_put:
  assumes "no_clash step_clash rows"
    and "\<And>row. row \<in> set rows \<Longrightarrow> \<not> list_ex (step_clash row) (db_steps (tx_current s)) \<and> step_linked row (tx_current s)"
  shows "flush_steps rows s = (Inr (), s \<lparr> tx_current := (tx_current s) \<lparr> db_steps := db_steps (tx_current s) @ rows \<rparr> \<rparr>)"
  using assms
proof (induction rows arbitrary: s)
  case (Cons row rows)
  let ?s = "s \<lparr> tx_current := put_step row (tx_current s) \<rparr>"
  have first: "flush_row db_steps step_clash step_linked put_step row s = (Inr (), ?s)"
    using Cons.prems(2) [of row] by (simp add: flush_row_def)
  have "\<not> list_ex (step_clash x) (db_steps (tx_current ?s)) \<and> step_linked x (tx_current ?s)" if x: "x \<in> set rows" for x
  proof -
    have "\<not> step_clash x row" using Cons.prems(1) x by (auto simp: list_ex_iff steps.clash_sym)
    then show ?thesis using Cons.prems(2) [of x] x by (simp add: put_step_def step_linked_def)
  qed
  then have "flush_steps rows ?s = (Inr (), ?s \<lparr> tx_current := (tx_current ?s) \<lparr> db_steps := db_steps (tx_current ?s) @ rows \<rparr> \<rparr>)"
    using Cons.IH Cons.prems(1) by simp
  then show ?case by (simp add: sthen_def sbind_def first) (simp add: put_step_def)
qed (simp add: session_basic)

section \<open>The execution\<close>

text \<open>A pending run that is about to be executed: its plan as stored, and fresh ids for its rows.\<close>

definition replay_ready :: "(nat \<Rightarrow> uuid) \<Rightarrow> uuid \<Rightarrow> db \<Rightarrow> replay_run \<Rightarrow> plan_step list \<Rightarrow> bool" where
  "replay_ready new_id project_id d r plan \<longleftrightarrow>
     r \<in> set (db_replays d) \<and> no_clash replay_clash (db_replays d) \<and> rr_project_id r = project_id
     \<and> rr_status r = R_PENDING \<and> rr_plan r = serialize_plan plan
     \<and> list_all step_ids_ok plan \<and> sorted_wrt (<) (map ps_sequence_number plan)
     \<and> (\<forall>p \<in> set plan. list_ex (\<lambda>e. te_id e = ps_source_event_id p) (db_events d))
     \<and> (\<forall>s \<in> set (db_steps d). rp_run_id s \<noteq> rr_id r \<and> rp_id s \<notin> new_id ` ps_sequence_number ` set plan)
     \<and> inj_on new_id (ps_sequence_number ` set plan)"

definition end_replay :: "uuid \<Rightarrow> replay_ending \<Rightarrow> replay_run \<Rightarrow> replay_run" where
  "end_replay replay_id ending r =
     (if rr_id r = replay_id
      then r \<lparr> rr_status := fst (ending_status ending), rr_error := snd (ending_status ending) \<rparr> else r)"

definition ended_db :: "uuid \<Rightarrow> replay_step list \<Rightarrow> replay_ending \<Rightarrow> db \<Rightarrow> db" where
  "ended_db replay_id rows ending d =
     d \<lparr> db_replays := map (end_replay replay_id ending) (db_replays d), db_steps := db_steps d @ rows \<rparr>"

lemma ready_unique: "replay_ready new_id pid d r plan \<Longrightarrow> q \<in> set (db_replays d) \<Longrightarrow> rr_id q = rr_id r \<Longrightarrow> q = r"
  unfolding replay_ready_def by (rule no_clash_unique [of replay_clash "db_replays d"]) (simp_all add: replay_clash_def)

lemma rows_no_clash:
  "list_all2 (row_of new_id rid) rows ps \<Longrightarrow> distinct (map ps_sequence_number ps) \<Longrightarrow>
   inj_on new_id (ps_sequence_number ` set ps) \<Longrightarrow> no_clash step_clash rows"
proof (induction rule: list_all2_induct)
  case (Cons row rows p ps)
  have "\<not> step_clash row x" if x: "x \<in> set rows" for x
  proof -
    obtain q where q: "q \<in> set ps" "row_of new_id rid x q" using list_all2_mem [OF Cons(2) x] by blast
    then have "ps_sequence_number q \<noteq> ps_sequence_number p" using Cons.prems(1) q(1)
      by (metis distinct.simps(2) imageI list.map(2) list.set_map)
    then have "new_id (ps_sequence_number q) \<noteq> new_id (ps_sequence_number p)"
      using inj_onD [OF Cons.prems(2), of "ps_sequence_number q" "ps_sequence_number p"] q(1) by auto
    then show ?thesis
      using q(2) Cons(1) \<open>ps_sequence_number q \<noteq> ps_sequence_number p\<close> by (simp add: step_clash_def row_of_def)
  qed
  moreover have "no_clash step_clash rows" using Cons.IH Cons.prems by simp
  ultimately show ?case by (auto simp: list_ex_iff)
qed simp

lemma ready_rows:
  assumes ready: "replay_ready new_id pid d r plan"
    and rows: "list_all2 (row_of new_id (rr_id r)) rows (take k plan)"
  shows "no_clash step_clash rows"
    and "row \<in> set rows \<Longrightarrow> \<not> list_ex (step_clash row) (db_steps d)
      \<and> list_ex (\<lambda>e. te_id e = rp_source_event_id row) (db_events d) \<and> rp_run_id row = rr_id r"
proof -
  have inj: "inj_on new_id (ps_sequence_number ` set plan)"
    and "sorted_wrt (<) (map ps_sequence_number plan)" using ready by (simp_all add: replay_ready_def)
  then have "distinct (map ps_sequence_number plan)" by (simp add: strict_sorted_iff)
  then have "distinct (map ps_sequence_number (take k plan))" by (simp flip: take_map)
  moreover have sub: "set (take k plan) \<subseteq> set plan" by (rule set_take_subset)
  then have "inj_on new_id (ps_sequence_number ` set (take k plan))" using inj by (meson image_mono inj_on_subset)
  ultimately show "no_clash step_clash rows" using rows_no_clash [OF rows] by blast
  assume "row \<in> set rows"
  then obtain p where p: "p \<in> set plan" "row_of new_id (rr_id r) row p" using list_all2_mem [OF rows] sub by blast
  have "new_id (ps_sequence_number p) \<in> new_id ` ps_sequence_number ` set plan" using p(1) by simp
  then have "\<not> step_clash row x" if "x \<in> set (db_steps d)" for x
    using ready that p(2) unfolding replay_ready_def by (auto simp: step_clash_def row_of_def)
  then show "\<not> list_ex (step_clash row) (db_steps d)
      \<and> list_ex (\<lambda>e. te_id e = rp_source_event_id row) (db_events d) \<and> rp_run_id row = rr_id r"
    using ready p by (auto simp: list_ex_iff row_of_def replay_ready_def)
qed

lemma get_replay_unique:
  assumes "no_clash replay_clash (db_replays (tx_current s))" "r \<in> set (db_replays (tx_current s))" "rr_project_id r = pid"
  shows "get_replay pid (rr_id r) s = (Inr r, s)"
proof -
  have "filter (\<lambda>q. rr_id q = rr_id r \<and> rr_project_id q = pid) (db_replays (tx_current s)) = [r]"
    by (rule no_clash_filter [OF assms(1,2)]) (use assms(3) in \<open>simp_all add: replay_clash_def\<close>)
  then show ?thesis by (simp add: get_replay_def replay_by_id_def srequire_eq_Inr fetch_one_eq_Inr)
qed

lemma transition_replay_run:
  "transition_replay_status rid a b err s =
     (Inr (list_ex (\<lambda>r. rr_id r = rid \<and> rr_status r = a) (db_replays (tx_current s))),
      s \<lparr> tx_current := (tx_current s) \<lparr> db_replays := map (set_replay_status rid a b err) (db_replays (tx_current s)) \<rparr> \<rparr>)"
  by (simp add: transition_replay_status_def sbind_def sthen_def session_basic)

lemma ended_replay:
  assumes "replay_ready new_id project_id d r plan"
  shows "\<not> list_ex (\<lambda>x. rr_id x = rr_id r \<and> rr_status x = R_PENDING) (db_replays (ended_db (rr_id r) rows ending d))"
    "is_terminal_replay (fst (ending_status ending))"
    "tx_current s = ended_db (rr_id r) rows ending d \<Longrightarrow>
     get_replay project_id (rr_id r) s = (Inr (end_replay (rr_id r) ending r), s)"
proof -
  have r: "r \<in> set (db_replays d)" "no_clash replay_clash (db_replays d)" "rr_project_id r = project_id"
    using assms by (simp_all add: replay_ready_def)
  show st: "is_terminal_replay (fst (ending_status ending))"
    by (cases ending) (simp_all add: is_terminal_replay_def replay_terminal_statuses_def)
  then have "fst (ending_status ending) \<noteq> R_PENDING" by (auto simp: is_terminal_replay_def replay_terminal_statuses_def)
  then show "\<not> list_ex (\<lambda>x. rr_id x = rr_id r \<and> rr_status x = R_PENDING) (db_replays (ended_db (rr_id r) rows ending d))"
    by (auto simp: ended_db_def list_ex_iff end_replay_def)
  assume s: "tx_current s = ended_db (rr_id r) rows ending d"
  have "no_clash replay_clash (db_replays (tx_current s))"
    unfolding s ended_db_def by simp (rule no_clash_map [OF r(2)], simp add: end_replay_def replay_clash_def)
  moreover have "end_replay (rr_id r) ending r \<in> set (db_replays (tx_current s))" using r(1) by (simp add: s ended_db_def)
  ultimately show "get_replay project_id (rr_id r) s = (Inr (end_replay (rr_id r) ending r), s)"
    using get_replay_unique [of s "end_replay (rr_id r) ending r" project_id] r(3) by (simp add: end_replay_def)
qed

text \<open>The transaction in which the steps run: the replay is claimed, nothing else has changed.\<close>

definition running_txn :: "uuid \<Rightarrow> db \<Rightarrow> txn" where
  "running_txn rid d =
     begin_txn d \<lparr> tx_current := d \<lparr> db_replays := map (set_replay_status rid R_PENDING R_RUNNING None) (db_replays d) \<rparr> \<rparr>"

lemma set_replay_status_id [simp]: "rr_id (set_replay_status rid a b err x) = rr_id x"
  by (simp add: set_replay_status_def)

lemma replay_started:
  assumes ready: "replay_ready new_id pid d r plan"
  shows "request (execute_replay executors (\<lambda>x. x) new_id pid (rr_id r)) d =
      (case sbind (run_steps executors new_id (rr_id r) [] (map serialize_step plan)) (\<lambda>(steps, failure_reason).
         sthen (flush_steps steps)
        (sthen (case failure_reason of
                Some reason \<Rightarrow> transition_replay_status (rr_id r) R_RUNNING R_FAILED (Some reason)
              | None \<Rightarrow> transition_replay_status (rr_id r) R_RUNNING R_COMPLETED None)
           (get_replay pid (rr_id r)))) (running_txn (rr_id r) d) of
         (Inl e, s) \<Rightarrow> (Inl e, tx_committed s) | (Inr x, s) \<Rightarrow> (Inr x, tx_current s))"
proof -
  have r: "r \<in> set (db_replays d)" "rr_status r = R_PENDING" "rr_project_id r = pid"
    and nc: "no_clash replay_clash (db_replays d)" and plan: "rr_plan r = serialize_plan plan"
    and sorted: "sorted_wrt (<) (map ps_sequence_number plan)"
    using ready by (simp_all add: replay_ready_def)
  have "sorted (map pe_sequence_number (serialize_plan plan))"
    using strict_sorted_imp_sorted [OF sorted] by (simp add: serialize_plan_def serialize_step_def comp_def)
  then have order: "sort_key pe_sequence_number (rr_plan r) = map serialize_step plan"
    by (simp add: plan serialize_plan_def sort_key_id_if_sorted)
  have started: "transition_replay_status (rr_id r) R_PENDING R_RUNNING None (begin_txn d) = (Inr True, running_txn (rr_id r) d)"
    using r by (auto simp: transition_replay_run list_ex_iff running_txn_def)
  have found: "get_replay pid (rr_id r) (begin_txn d) = (Inr r, begin_txn d)"
    using get_replay_unique [of "begin_txn d" r pid] nc r by simp
  show ?thesis
    by (simp add: request_def execute_replay_def sthen_def [of "sguard _ _"] sthen_def [of "concurrently _"] sthen_def [of "sreturn ()"]
        sbind_def [of "sreturn ()"] sbind_def [of "get_replay _ _"]
        sbind_def [of "sguard _ _"] sbind_def [of "concurrently _"] sbind_def [of "transition_replay_status _ _ _ _"] found
        started order r(2) is_valid_replay_transition_def sguard_def session_basic)
qed

lemma ready_flush:
  assumes ready: "replay_ready new_id pid d r plan" and rows: "list_all2 (row_of new_id (rr_id r)) rows (take (length rows) plan)"
    and same: "db_steps (tx_current u) = db_steps d" "db_events (tx_current u) = db_events d"
      "map rr_id (db_replays (tx_current u)) = map rr_id (db_replays d)"
  shows "flush_steps rows u = (Inr (), u \<lparr> tx_current := (tx_current u) \<lparr> db_steps := db_steps d @ rows \<rparr> \<rparr>)"
proof -
  have linked: "step_linked row x" if "row \<in> set rows" "db_events x = db_events d" "map rr_id (db_replays x) = map rr_id (db_replays d)" for row x
  proof -
    have "r \<in> set (db_replays d)" using ready by (simp add: replay_ready_def)
    then have "rr_id r \<in> set (map rr_id (db_replays x))" using that(3) by simp
    then show ?thesis
      using ready_rows(2) [OF ready rows that(1)] that(2) by (auto simp: step_linked_def list_ex_iff)
  qed
  then show ?thesis
    using flush_steps_put [OF ready_rows(1) [OF ready rows], of u] ready_rows(2) [OF ready rows] same by simp
qed

lemma ready_status_twice:
  assumes "replay_ready new_id pid d r plan"
  shows "map (set_replay_status (rr_id r) R_RUNNING (fst (ending_status ending)) (snd (ending_status ending)))
      (map (set_replay_status (rr_id r) R_PENDING R_RUNNING None) (db_replays d)) = map (end_replay (rr_id r) ending) (db_replays d)"
proof -
  have "rr_status r = R_PENDING" using assms by (simp add: replay_ready_def)
  then show ?thesis using ready_unique [OF assms] by (auto simp: set_replay_status_def end_replay_def)
qed

lemma execute_replay_run:
  assumes ready: "replay_ready new_id pid d r plan"
    and run: "interpret_plan executors new_id (rr_id r) plan = (rows, ending)"
  shows "request (execute_replay executors (\<lambda>x. x) new_id pid (rr_id r)) d =
    (case ending_error (rr_id r) ending of Some e \<Rightarrow> Inl (Dom e) | None \<Rightarrow> Inr (end_replay (rr_id r) ending r),
     ended_db (rr_id r) rows ending d)"
proof -
  let ?rid = "rr_id r" and ?t = "running_txn (rr_id r) d" and ?v = "ended_db (rr_id r) rows ending d"
  have ids: "list_all step_ids_ok plan" using ready by (simp add: replay_ready_def)
  have rows: "list_all2 (row_of new_id ?rid) rows (take (length rows) plan)"
    using interpret_rows [of executors new_id ?rid plan] run by simp
  note flush = ready_flush [OF ready rows] and twice = ready_status_twice [OF ready, of ending]
    and start = replay_started [OF ready, of executors] and again = ended_replay(3) [OF ready, of _ rows ending]
  have t: "tx_current ?t = d \<lparr> db_replays := map (set_replay_status ?rid R_PENDING R_RUNNING None) (db_replays d) \<rparr>"
    "tx_committed ?t = d"
    by (simp_all add: running_txn_def begin_txn_def)
  have go: "run_steps executors new_id ?rid [] (map serialize_step plan) ?t =
      (case ending_error ?rid ending of
          Some e \<Rightarrow> abort_replay ?rid rows (the (snd (ending_status ending))) e ?t
        | None \<Rightarrow> (Inr (rows, snd (ending_status ending)), ?t))"
    using run_steps_interpret [OF ids, of executors new_id ?rid "[]" ?t] run
    by (cases "ending_error ?rid ending") simp_all
  let ?u = "?t \<lparr> tx_current := (tx_current ?t) \<lparr> db_steps := db_steps d @ rows \<rparr> \<rparr>"
  have flushed: "flush_steps rows ?t = (Inr (), ?u)" using flush [of ?t] t by simp
  show ?thesis
  proof (cases "ending_error ?rid ending")
    case None
    then have last: "(case snd (ending_status ending) of
                Some reason \<Rightarrow> transition_replay_status ?rid R_RUNNING R_FAILED (Some reason)
              | None \<Rightarrow> transition_replay_status ?rid R_RUNNING R_COMPLETED None)
        = transition_replay_status ?rid R_RUNNING (fst (ending_status ending)) (snd (ending_status ending))"
      by (cases ending) simp_all
    have tr: "transition_replay_status ?rid R_RUNNING (fst (ending_status ending)) (snd (ending_status ending)) ?u
        = (Inr (list_ex (\<lambda>r. rr_id r = ?rid \<and> rr_status r = R_RUNNING) (db_replays (tx_current ?t))), ?t \<lparr> tx_current := ?v \<rparr>)"
      using twice t unfolding transition_replay_run ended_db_def by (cases d) simp
    show ?thesis
      using None again [of "?t \<lparr> tx_current := ?v \<rparr>"] by (simp add: start go sbind_def sthen_def flushed last tr)
  next
    case (Some e)
    then have failed: "fst (ending_status ending) = R_FAILED" "Some (the (snd (ending_status ending))) = snd (ending_status ending)"
      by (cases ending; simp)+
    let ?w = "?t \<lparr> tx_current := (tx_current ?t) \<lparr> db_replays := map (end_replay ?rid ending) (db_replays d) \<rparr> \<rparr>"
    have tr: "transition_replay_status ?rid R_RUNNING R_FAILED (Some (the (snd (ending_status ending)))) ?t
        = (Inr (list_ex (\<lambda>r. rr_id r = ?rid \<and> rr_status r = R_RUNNING) (db_replays (tx_current ?t))), ?w)"
      using twice failed t by (simp add: transition_replay_run)
    have "map rr_id (map (end_replay ?rid ending) rs) = map rr_id rs" for rs by (simp add: end_replay_def)
    then have "flush_steps rows ?w = (Inr (), ?w \<lparr> tx_current := (tx_current ?w) \<lparr> db_steps := db_steps d @ rows \<rparr> \<rparr>)"
      using flush [of ?w] t by simp
    then show ?thesis
      using Some by (simp add: start go abort_replay_def sbind_def sthen_def tr session_basic ended_db_def t)
  qed
qed

section \<open>A created run is ready\<close>

text \<open>Ids are 128-bit numbers.\<close>

definition ids_in_range :: "db \<Rightarrow> bool" where
  "ids_in_range d \<longleftrightarrow>
     (\<forall>e \<in> set (db_events d). te_id e < 2 ^ 128 \<and> (\<forall>c. te_component_id e = Some c \<longrightarrow> c < 2 ^ 128)
        \<and> (\<forall>v. te_component_version_id e = Some v \<longrightarrow> v < 2 ^ 128))
     \<and> (\<forall>v \<in> set (db_versions d). cv_id v < 2 ^ 128)"

lemma readonly_replay_queries [readonly_intros]:
  "readonly (replay_by_idempotency_key pid key)" "readonly (existing_replay pid key a r)" "readonly (get_replay pid rid)"
  "readonly (plan_replay pid a)"
  by (simp_all add: replay_by_idempotency_key_def existing_replay_def get_replay_def replay_by_id_def plan_replay_def
      readonly_intros)

lemma plan_replay_Inr:
  assumes "plan_replay pid a s = (Inr (component, plan), t)"
  shows "\<exists>baseline :: component_version. \<exists>candidate. candidate \<in> set (db_versions (tx_current s)) \<and> cv_id candidate = ra_candidate_version_id a
    \<and> cv_id baseline = ra_baseline_version_id a
    \<and> build_replay_plan (map to_event_view (events_of (ra_source_trajectory_id a) (tx_current s)))
        (cm_id component) (cv_id baseline) (cv_id candidate) = Inr plan
    \<and> (\<exists>tr \<in> set (db_trajectories (tx_current s)). tj_id tr = ra_source_trajectory_id a \<and> tj_status tr = T_COMPLETED)"
proof -
  have version: "v \<in> set (db_versions (tx_current s)) \<and> cv_id v = i" if "version_by_id i s = (Inr (Some v), s)" for v i
    using fetch_one_Some [OF that [unfolded version_by_id_def]] .
  have trajectory: "tr \<in> set (db_trajectories (tx_current s)) \<and> tj_id tr = i"
    if "get_trajectory pid i s = (Inr tr, s)" for tr i
    using fetch_one_Some [OF that [unfolded get_trajectory_def trajectory_by_id_def srequire_eq_Inr]] by simp
  note pure = readonly_eq [OF readonly_queries(8)] readonly_eq [OF readonly_queries(3)] readonly_eq [OF readonly_queries(2)]
  note run = assms [unfolded plan_replay_def sbind_eq_Inr sthen_eq_Inr sguard_eq_Inr session_basic srequire_eq_Inr pure]
  from run obtain tr baseline candidate where
    1: "fst (get_trajectory pid (ra_source_trajectory_id a) s) = Inr tr" and st: "tj_status tr = T_COMPLETED"
    and 2: "fst (version_by_id (ra_baseline_version_id a) s) = Inr (Some baseline)"
    and 3: "fst (version_by_id (ra_candidate_version_id a) s) = Inr (Some candidate)"
    and plan: "build_replay_plan (map to_event_view (events_of (ra_source_trajectory_id a) (tx_current s)))
        (cm_id component) (cv_id baseline) (cv_id candidate) = Inr plan"
    by auto
  have tr: "tr \<in> set (db_trajectories (tx_current s)) \<and> tj_id tr = ra_source_trajectory_id a"
    by (rule trajectory) (simp add: pure 1)
  have b: "baseline \<in> set (db_versions (tx_current s)) \<and> cv_id baseline = ra_baseline_version_id a"
    by (rule version) (simp add: pure 2)
  have c: "candidate \<in> set (db_versions (tx_current s)) \<and> cv_id candidate = ra_candidate_version_id a"
    by (rule version) (simp add: pure 3)
  show ?thesis
    by (rule exI [of _ baseline], rule exI [of _ candidate]) (use tr b c st plan in blast)
qed

lemma insert_replay_alone:
  assumes "insert_replay pid a row s = (Inr x, t)" "rr_idempotency_key row = ra_idempotency_key a"
    and "case ra_idempotency_key a of None \<Rightarrow> True
      | Some key \<Rightarrow> replay_by_idempotency_key pid key (s \<lparr> tx_current := tx_committed s \<rparr>) = (Inr None, s \<lparr> tx_current := tx_committed s \<rparr>)"
  shows "x = row \<and> flush_row db_replays replay_clash replay_linked put_replay row s = (Inr (), t)"
  using assms
  by (cases "ra_idempotency_key a")
    (auto simp: insert_replay_def scatch_integrity_def sthen_def sbind_def session_basic flush_row_def split: if_splits)

text \<open>A run that is created anew is appended to the table, with a plan of the source's events.\<close>

lemma create_replay_new:
  assumes "request (create_replay (\<lambda>x. x) pid a i) d0 = (Inr r, d)"
    and "case ra_idempotency_key a of None \<Rightarrow> True
      | Some key \<Rightarrow> replay_by_idempotency_key pid key (begin_txn d0) = (Inr None, begin_txn d0)"
  shows "\<exists>project component plan. require_project pid (begin_txn d0) = (Inr project, begin_txn d0)
    \<and> plan_replay pid a (begin_txn d0) = (Inr (component, plan), begin_txn d0)
    \<and> r = new_replay i project pid a component plan
    \<and> \<not> list_ex (replay_clash r) (db_replays d0) \<and> d = put_replay r d0"
proof -
  obtain u where run: "create_replay (\<lambda>x. x) pid a i (begin_txn d0) = (Inr r, u)" and d: "d = tx_current u"
    using assms(1) by (auto simp: request_def split: prod.splits sum.splits)
  have look: "(case ra_idempotency_key a of None \<Rightarrow> sreturn None | Some key \<Rightarrow> replay_by_idempotency_key pid key) (begin_txn d0)
      = (Inr None, begin_txn d0)"
    using assms(2) by (cases "ra_idempotency_key a") (simp_all add: session_basic)
  obtain project where project: "require_project pid (begin_txn d0) = (Inr project, begin_txn d0)"
    using run unfolding create_replay_def sbind_eq_Inr readonly_eq [OF readonly_queries(7)] by blast
  obtain component plan where plan: "plan_replay pid a (begin_txn d0) = (Inr (component, plan), begin_txn d0)"
    and ins: "insert_replay pid a (new_replay i project pid a component plan) (begin_txn d0) = (Inr r, u)"
    using run
    by (simp add: create_replay_def sbind_simps(2) project look)
      (auto simp: sbind_eq_Inr sthen_eq_Inr readonly_eq [OF readonly_replay_queries(4)])
  have "r = new_replay i project pid a component plan
      \<and> flush_row db_replays replay_clash replay_linked put_replay (new_replay i project pid a component plan) (begin_txn d0) = (Inr (), u)"
    by (rule insert_replay_alone [OF ins]) (use assms(2) in \<open>auto simp: new_replay_def begin_txn_def split: option.splits\<close>)
  then show ?thesis using project plan d by (auto simp: flush_row_eq_Inr)
qed

text \<open>Each step of the plan of an ordered log answers for the event at its place.\<close>

lemma built_plan_nth:
  assumes "build_replay_plan (map to_event_view es) c b v = Inr plan" "sorted_wrt (<) (map te_sequence_number es)"
  shows "length plan = length es" "m < length es \<Longrightarrow> \<exists>ids. plan ! m = plan_event c b v ids (to_event_view (es ! m))"
proof -
  have "sort_key ev_sequence_number (map to_event_view es) = map to_event_view es"
    by (rule sort_key_id_if_sorted) (use strict_sorted_imp_sorted [OF assms(2)] in \<open>simp add: to_event_view_def comp_def\<close>)
  then have plan: "plan = plan_events c b v [] (map to_event_view es)"
    using assms(1) by (simp add: build_replay_plan_def Let_def split: if_splits)
  then show "length plan = length es" by simp
  show "\<exists>ids. plan ! m = plan_event c b v ids (to_event_view (es ! m))" if "m < length es"
    using plan_events_nth [of m "map to_event_view es" c b v "[]"] that unfolding plan by auto
qed

lemma built_plan_step:
  assumes "build_replay_plan (map to_event_view es) c b v = Inr plan" "sorted_wrt (<) (map te_sequence_number es)" "p \<in> set plan"
  shows "\<exists>e \<in> set es. \<exists>ids. p = plan_event c b v ids (to_event_view e)"
proof -
  obtain m where m: "m < length es" "plan ! m = p"
    using assms(3) built_plan_nth(1) [OF assms(1,2)] by (auto simp: in_set_conv_nth)
  then show ?thesis using built_plan_nth(2) [OF assms(1,2) m(1)] by (intro bexI [of _ "es ! m"]) auto
qed

lemma built_plan_sequence:
  assumes "build_replay_plan (map to_event_view es) c b v = Inr plan" "sorted_wrt (<) (map te_sequence_number es)"
  shows "map ps_sequence_number plan = map te_sequence_number es"
proof (rule nth_equalityI)
  show "length (map ps_sequence_number plan) = length (map te_sequence_number es)" using built_plan_nth(1) [OF assms] by simp
  fix m
  assume "m < length (map ps_sequence_number plan)"
  then have len: "m < length es" "m < length plan" using built_plan_nth(1) [OF assms] by simp_all
  then obtain ids where "plan ! m = plan_event c b v ids (to_event_view (es ! m))"
    using built_plan_nth(2) [OF assms] by blast
  then show "map ps_sequence_number plan ! m = map te_sequence_number es ! m"
    using len by (simp add: plan_event_fields) (simp add: to_event_view_def)
qed

lemma created_ready:
  assumes created: "request (create_replay (\<lambda>x. x) pid a i) d0 = (Inr r, d)" "ra_idempotency_key a = None"
    and ok: "log_ok d0" "no_clash replay_clash (db_replays d0)" "ids_in_range d0"
    and fresh: "\<And>s. s \<in> set (db_steps d0) \<Longrightarrow> rp_run_id s \<noteq> i \<and> rp_id s \<notin> range new_id" "inj new_id"
  shows "\<exists>plan. replay_ready new_id pid d r plan
    \<and> map ps_sequence_number plan = map te_sequence_number (events_of (ra_source_trajectory_id a) d0)"
proof -
  obtain project component plan where pl: "plan_replay pid a (begin_txn d0) = (Inr (component, plan), begin_txn d0)"
    and r: "r = new_replay i project pid a component plan"
    and new: "\<not> list_ex (replay_clash r) (db_replays d0)" and d: "d = put_replay r d0"
    using create_replay_new [OF created(1)] created(2) by auto
  let ?events = "events_of (ra_source_trajectory_id a) d0"
  obtain baseline :: component_version and candidate where cand: "candidate \<in> set (db_versions d0)"
    and build: "build_replay_plan (map to_event_view ?events) (cm_id component) (cv_id baseline) (cv_id candidate) = Inr plan"
    and src: "\<exists>tr \<in> set (db_trajectories d0). tj_id tr = ra_source_trajectory_id a"
    using plan_replay_Inr [OF pl] by auto
  have seqs: "sorted_wrt (<) (map te_sequence_number ?events)"
  proof -
    obtain n where "map te_sequence_number ?events = [1..<Suc n]"
      using src ok(1) unfolding log_ok_def by metis
    then show ?thesis by (simp add: sorted_wrt_upt del: upt_Suc)
  qed
  note step = built_plan_step [OF build seqs] and same = built_plan_sequence [OF build seqs]
  have events: "e \<in> set (db_events d0)" if "e \<in> set ?events" for e using that by (simp add: events_of_def)
  have "step_ids_ok p" if p: "p \<in> set plan" for p
  proof -
    obtain e ids where e: "e \<in> set ?events" "p = plan_event (cm_id component) (cv_id baseline) (cv_id candidate) ids (to_event_view e)"
      using step [OF p] by blast
    have "te_id e < 2 ^ 128 \<and> (\<forall>c. te_component_id e = Some c \<longrightarrow> c < 2 ^ 128)
        \<and> (\<forall>v. te_component_version_id e = Some v \<longrightarrow> v < 2 ^ 128)" "cv_id candidate < 2 ^ 128"
      using ok(3) events [OF e(1)] cand by (simp_all add: ids_in_range_def)
    then show ?thesis
      unfolding step_ids_ok_def e(2) plan_event_fields
      by (cases "ps_kind (plan_event (cm_id component) (cv_id baseline) (cv_id candidate) ids (to_event_view e))")
        (simp_all add: to_event_view_def)
  qed
  moreover have "list_ex (\<lambda>e. te_id e = ps_source_event_id p) (db_events d0)" if p: "p \<in> set plan" for p
    using step [OF p] events by (auto simp: list_ex_iff plan_event_fields to_event_view_def)
  moreover have "no_clash replay_clash (db_replays d)" using new ok(2) replays.no_clash_append by (simp add: d put_replay_def)
  moreover have "r \<in> set (db_replays d)" "rr_status r = R_PENDING" "rr_plan r = serialize_plan plan" "rr_project_id r = pid" "rr_id r = i"
    by (simp_all add: d put_replay_def) (simp_all add: r new_replay_def)
  moreover have fresh': "rp_run_id s \<noteq> i \<and> rp_id s \<noteq> new_id n" if "s \<in> set (db_steps d0)" for s n
    using fresh(1) [OF that] by auto
  ultimately have "replay_ready new_id pid d r plan"
    using seqs same fresh' fresh(2) unfolding replay_ready_def
    by (auto simp: d put_replay_def list_all_iff intro: inj_on_subset)
  then show ?thesis using same by blast
qed

section \<open>Retries of a creation\<close>

lemma create_replay_retry:
  assumes "request (create_replay (\<lambda>x. x) pid a i) d0 = (Inr r, d)" "ra_idempotency_key a = Some key"
  shows "request (create_replay (\<lambda>x. x) pid a j) d = (Inr r, d)"
proof -
  obtain u where run: "create_replay (\<lambda>x. x) pid a i (begin_txn d0) = (Inr r, u)" and d: "d = tx_current u"
    using assms(1) by (auto simp: request_def split: prod.splits sum.splits)
  obtain project where project: "require_project pid (begin_txn d0) = (Inr project, begin_txn d0)"
    using run unfolding create_replay_def sbind_eq_Inr readonly_eq [OF readonly_queries(7)] by blast
  obtain found where found: "replay_by_idempotency_key pid key (begin_txn d0) = (Inr found, begin_txn d0)"
    using run
    by (simp add: create_replay_def sbind_simps(2) project assms(2))
      (auto simp: sbind_eq_Inr readonly_eq [OF readonly_replay_queries(1)])
  show ?thesis
  proof (cases found)
    case (Some q)
    then have "existing_replay pid key a q (begin_txn d0) = (Inr r, u)"
      using run by (simp add: create_replay_def sbind_simps(2) project assms(2) found)
    moreover have "u = begin_txn d0" using readonly_state [OF readonly_replay_queries(2)] calculation by blast
    ultimately show ?thesis
      using d by (simp add: request_def create_replay_def sbind_simps(2) project assms(2) found Some)
  next
    case None
    obtain component plan where r: "r = new_replay i project pid a component plan"
      and new: "\<not> list_ex (replay_clash r) (db_replays d0)" and put: "d = put_replay r d0"
      using create_replay_new [OF assms(1)] assms(2) found None project by auto
    have "fst (require_project pid (begin_txn d)) = fst (require_project pid (begin_txn d0))"
      by (simp add: require_project_def project_by_id_def srequire_def sbind_def fetch_one_def put put_replay_def
          sreturn_def sraise_def split: sum.split option.split)
    then have project': "require_project pid (begin_txn d) = (Inr project, begin_txn d)"
      using project by (simp add: readonly_eq [OF readonly_queries(7)])
    have "filter (\<lambda>q. rr_project_id q = pid \<and> rr_idempotency_key q = Some key) (db_replays d0) = []"
      using found None by (simp add: replay_by_idempotency_key_def fetch_one_def)
    then have found': "replay_by_idempotency_key pid key (begin_txn d) = (Inr (Some r), begin_txn d)"
      by (simp add: replay_by_idempotency_key_def fetch_one_def put put_replay_def) (simp add: r new_replay_def assms(2))
    show ?thesis
      by (simp add: request_def create_replay_def sbind_simps(2) project' assms(2) found')
        (simp add: existing_replay_def sthen_def sbind_def session_basic sguard_def replay_conflicts_def r new_replay_def)
  qed
qed

interpretation replay_retry: retriable
    "\<lambda>i. as_request (create_replay (\<lambda>x. x) pid (a \<lparr> ra_idempotency_key := Some key \<rparr>) i)"
  for pid a key
proof
  fix i j s r t
  assume "as_request (create_replay (\<lambda>x. x) pid (a \<lparr> ra_idempotency_key := Some key \<rparr>) i) s = (Inr r, t)"
  then obtain d where "request (create_replay (\<lambda>x. x) pid (a \<lparr> ra_idempotency_key := Some key \<rparr>) i) (tx_current s) = (Inr r, d)"
    and t: "t = begin_txn d"
    by (auto simp: as_request_def split: prod.splits)
  from create_replay_retry [OF this(1), of key j]
  show "as_request (create_replay (\<lambda>x. x) pid (a \<lparr> ra_idempotency_key := Some key \<rparr>) j) t = (Inr r, t)"
    by (simp add: as_request_def t)
qed

end
