(* ===== verification/Replay_Properties.thy ===== *)
theory Replay_Properties
  imports Replay_Laws
begin

text \<open>
  The properties of replays, with the run at which they are applied: a tool call and its response, the call
  executed again with the candidate version of the tool.
\<close>

section \<open>A replay\<close>

definition call_view :: trajectory_event_view where
  "call_view =
     \<lparr> ev_id = 30, ev_sequence_number = 1, ev_event_type = TOOL_CALL, ev_component_id = Some 4,
       ev_component_version_id = Some 5, ev_input = JDict [(''invocation_id'', JStr ''i1'')], ev_output = JNull \<rparr>"

definition answer_view :: trajectory_event_view where
  "answer_view = call_view \<lparr> ev_id := 31, ev_sequence_number := 2, ev_event_type := TOOL_RESPONSE \<rparr>"

definition call_plan :: "plan_step list" where
  "call_plan = plan_events 4 5 6 [] [call_view, answer_view]"

lemma call_plan_eq:
  "call_plan =
     [\<lparr> ps_source_event_id = 30, ps_sequence_number = 1, ps_event_type = TOOL_CALL, ps_kind = SUBSTITUTED_EXECUTION,
        ps_component_id = Some 4, ps_version_id = Some 6, ps_input = JDict [(''invocation_id'', JStr ''i1'')],
        ps_output = JNull, ps_justification = None \<rparr>,
      \<lparr> ps_source_event_id = 31, ps_sequence_number = 2, ps_event_type = TOOL_RESPONSE, ps_kind = SKIPPED,
        ps_component_id = Some 4, ps_version_id = None, ps_input = JDict [(''invocation_id'', JStr ''i1'')],
        ps_output = JNull, ps_justification = Some superseded \<rparr>]"
  by (simp add: call_plan_def call_view_def answer_view_def plan_event_def classify_event_def invokes_baseline_def
      invocation_types_def answers_def response_types_def invocation_id_def dget_def dget_or_def)



definition echo_executor :: replay_executor where
  "echo_executor =
     \<lparr> ex_supports = (\<lambda>et. et = TOOL_CALL),
       ex_execute = (\<lambda>n et v input. Inr \<lparr> oc_status = ''executed'', oc_output = input, oc_error = JNull, oc_duration_ms = Some 3 \<rparr>) \<rparr>"

definition call_run :: replay_run where
  "call_run =
     \<lparr> rr_id = 40, rr_organization_id = 1, rr_project_id = 2, rr_source_trajectory_id = 7, rr_component_id = 4,
       rr_baseline_version_id = 5, rr_candidate_version_id = 6, rr_status = R_PENDING, rr_idempotency_key = None,
       rr_configuration = JNull, rr_plan = serialize_plan call_plan, rr_error = None \<rparr>"

definition call_event :: "uuid \<Rightarrow> nat \<Rightarrow> event_type \<Rightarrow> trajectory_event" where
  "call_event i n et =
     \<lparr> te_id = i, te_trajectory_id = 7, te_sequence_number = n, te_event_type = et, te_component_id = Some 4,
       te_component_version_id = Some 5, te_parent_event_id = None, te_correlation_id = None,
       te_external_event_id = None, te_input = JDict [(''invocation_id'', JStr ''i1'')], te_output = JNull,
       te_error = JNull, te_metadata = JNull, te_duration_ms = None, te_payload_truncated = False,
       te_original_size = None, te_content_hash = ''h'' \<rparr>"

definition replay_db :: db where
  "replay_db = empty_db \<lparr> db_replays := [call_run], db_events := [call_event 30 1 TOOL_CALL, call_event 31 2 TOOL_RESPONSE] \<rparr>"

definition fresh_ids :: "nat \<Rightarrow> uuid" where
  "fresh_ids n = 100 + n"

lemma call_ready: "replay_ready fresh_ids 2 replay_db call_run call_plan"
  by (simp add: replay_ready_def replay_db_def empty_db_def call_run_def call_plan_eq call_event_def step_ids_ok_def
      fresh_ids_def inj_on_def)

section \<open>Planning\<close>



text \<open>
  What the executor reads from the stored plan is what was planned: of every step with ids of 128 bits, the
  kind, the event type and the three ids are recovered from their texts.
\<close>

theorem plan_roundtrip:
  assumes "p \<in> set plan" "step_ids_ok p"
  shows "\<exists>entry \<in> set (serialize_plan plan). step_kind_of (pe_kind entry) = Inr (ps_kind p)
    \<and> event_type_of (pe_event_type entry) = Inr (ps_event_type p)
    \<and> entry_ids entry = Inr (ps_source_event_id p, ps_component_id p, ps_version_id p)"
proof (rule bexI)
  show "serialize_step p \<in> set (serialize_plan plan)" using assms(1) by (simp add: serialize_plan_def)
  show "step_kind_of (pe_kind (serialize_step p)) = Inr (ps_kind p)
    \<and> event_type_of (pe_event_type (serialize_step p)) = Inr (ps_event_type p)
    \<and> entry_ids (serialize_step p) = Inr (ps_source_event_id p, ps_component_id p, ps_version_id p)"
    unfolding entry_ids_serialized [OF assms(2)]
    by (simp add: serialize_step_def step_kind_of_value event_type_of_value)
qed

theorem plan_roundtrip_witness:
  "\<exists>entry \<in> set (serialize_plan call_plan). entry_ids entry = Inr (31, Some 4, None)"
proof -
  let ?p = "call_plan ! 1"
  have "?p \<in> set call_plan" "step_ids_ok ?p" by (simp_all add: call_plan_eq step_ids_ok_def)
  from plan_roundtrip [OF this] show ?thesis by (auto simp: call_plan_eq)
qed

section \<open>Execution\<close>

text \<open>
  C6: The handler that executes a run implements the plan interpreter: from a pending run, with its plan in the
  store as JSON, the request answers what the interpretation of the plan ends with, appends exactly its rows and
  sets the status of the run accordingly; this holds on the error paths too, whose writes survive the exception.
\<close>

theorem execute_refines_interpreter:
  assumes "replay_ready new_id project_id d r plan"
    and "interpret_plan executors new_id (rr_id r) plan = (rows, ending)"
  shows "request (execute_replay executors (\<lambda>x. x) new_id project_id (rr_id r)) d =
    (case ending_error (rr_id r) ending of Some e \<Rightarrow> Inl (Dom e) | None \<Rightarrow> Inr (end_replay (rr_id r) ending r),
     ended_db (rr_id r) rows ending d)"
  by (rule execute_replay_run [OF assms])

lemma call_interpreted:
  "snd (interpret_plan [echo_executor] fresh_ids 40 call_plan) = All_Steps_Done"
  "snd (interpret_plan [] fresh_ids 40 call_plan) = No_Executor TOOL_CALL"
  by (simp_all add: call_plan_eq find_executor_def echo_executor_def)

theorem execute_refines_interpreter_witness:
  "fst (request (execute_replay [] (\<lambda>x. x) fresh_ids 2 40) replay_db) = Inl (Dom (ReplayExecutorUnavailable 40 TOOL_CALL))"
proof -
  have i: "rr_id call_run = 40" by (simp add: call_run_def)
  obtain rows where "interpret_plan [] fresh_ids 40 call_plan = (rows, No_Executor TOOL_CALL)"
    using call_interpreted(2) by (metis prod.collapse)
  from execute_refines_interpreter [OF call_ready, unfolded i, OF this] show ?thesis by simp
qed













text \<open>
  C28: A run is executed at most once: a second request, sent after the first or racing with it, is refused, and the
  store is what the first one left.
\<close>

theorem execute_once:
  assumes ready: "replay_ready new_id project_id d r plan"
    and first: "request (execute_replay executors (\<lambda>x. x) new_id project_id (rr_id r)) d = (answer, d')"
  shows "\<exists>st. is_terminal_replay st
    \<and> request (execute_replay executors' (\<lambda>x. x) new_id' project_id (rr_id r)) d'
        = (Inl (Dom (ConflictError (InvalidReplayTransition (rr_id r) st R_RUNNING))), d')
    \<and> request (execute_replay executors' (\<lambda>_. d') new_id' project_id (rr_id r)) d
        = (Inl (Dom (ConflictError (InvalidReplayTransition (rr_id r) st R_RUNNING))), d')"
proof -
  obtain rows ending where int: "interpret_plan executors new_id (rr_id r) plan = (rows, ending)"
    by (cases "interpret_plan executors new_id (rr_id r) plan")
  have d': "d' = ended_db (rr_id r) rows ending d"
    using execute_replay_run [OF ready int] first by simp
  have r: "r \<in> set (db_replays d)" "no_clash replay_clash (db_replays d)" "rr_project_id r = project_id" "rr_status r = R_PENDING"
    using ready by (simp_all add: replay_ready_def)
  let ?q = "end_replay (rr_id r) ending r"
  let ?st = "fst (ending_status ending)"
  note gone = ended_replay(1) [OF ready, of rows ending, folded d'] and st = ended_replay(2) [OF ready, of ending]
    and q = ended_replay(3) [OF ready, of _ rows ending, folded d']
  have q_status: "rr_status ?q = ?st" by (simp add: end_replay_def)
  have none: "map (set_replay_status (rr_id r) R_PENDING R_RUNNING None) (db_replays d') = db_replays d'"
    using gone by (intro map_idI) (auto simp: set_replay_status_def list_ex_iff)
  have bad: "\<not> is_valid_replay_transition ?st R_RUNNING"
    using replay_machine.terminal_final [OF st] .
  have p: "get_replay project_id (rr_id r) (begin_txn d) = (Inr r, begin_txn d)"
    using get_replay_unique [of "begin_txn d" r project_id] r by simp
  have again: "request (execute_replay executors' (\<lambda>x. x) new_id' project_id (rr_id r)) d'
        = (Inl (Dom (ConflictError (InvalidReplayTransition (rr_id r) ?st R_RUNNING))), d')"
    using bad by (simp add: request_def execute_replay_def sbind_def sthen_def q [of "begin_txn d'"] sguard_def session_basic q_status)
  have race: "request (execute_replay executors' (\<lambda>_. d') new_id' project_id (rr_id r)) d
        = (Inl (Dom (ConflictError (InvalidReplayTransition (rr_id r) ?st R_RUNNING))), d')"
  proof -
    have "concurrently (\<lambda>_. d') (begin_txn d) = (Inr (), begin_txn d')" by (simp add: concurrently_def begin_txn_def)
    then show ?thesis
      using gone none
      by (simp add: request_def execute_replay_def sbind_def sthen_def p r(4) sguard_def session_basic
          is_valid_replay_transition_def transition_replay_run
          q [of "begin_txn d' \<lparr> tx_current := d' \<rparr>"] q_status)
  qed
  show ?thesis using st again race by blast
qed

theorem execute_once_witness:
  "\<exists>st. is_terminal_replay st
    \<and> request (execute_replay [echo_executor] (\<lambda>x. x) fresh_ids 2 40)
        (snd (request (execute_replay [echo_executor] (\<lambda>x. x) fresh_ids 2 40) replay_db))
      = (Inl (Dom (ConflictError (InvalidReplayTransition 40 st R_RUNNING))),
         snd (request (execute_replay [echo_executor] (\<lambda>x. x) fresh_ids 2 40) replay_db))"
proof -
  have i: "rr_id call_run = 40" by (simp add: call_run_def)
  from execute_once [OF call_ready surjective_pairing, unfolded i] show ?thesis by blast
qed

end
