(* ===== verification/Authz.thy ===== *)
theory Authz
  imports Registry Redaction
begin

text \<open>
  Who may do what: the permissions of the roles (\<open>app/authz/permissions.py\<close>), the changes of a membership
  (\<open>app/authz/membership.py\<close>), the decisions of \<open>app/authz/service.py\<close> with the audit rows they leave
  (\<open>app/services/audit_service.py\<close>), and the onboarding of \<open>app/services/organization_service.py\<close>. The
  decisions are also logged, which is not modelled. Proved here: the roles form a chain, a decision reads the
  membership of the organization that owns the project, and a refusal is on record although the request fails.
\<close>

section \<open>Permissions\<close>

datatype permission =
  P_PROJECT_READ | P_PROJECT_CREATE | P_PROJECT_UPDATE | P_COMPONENT_READ | P_COMPONENT_WRITE |
  P_SCAN_READ | P_SCAN_EXECUTE | P_TRAJECTORY_READ | P_TRAJECTORY_WRITE | P_REPLAY_READ |
  P_REPLAY_EXECUTE | P_GRAPH_READ | P_GRAPH_WRITE | P_MEMBERSHIP_MANAGE | P_ORG_MANAGE |
  P_AUDIT_READ | P_DIFFERENTIAL_READ | P_DIFFERENTIAL_EXECUTE | P_RISK_READ | P_RISK_EXECUTE |
  P_GITHUB_INTEGRATION_READ | P_GITHUB_INTEGRATION_MANAGE

fun permission_value :: "permission \<Rightarrow> string" where
  "permission_value P_PROJECT_READ = ''project:read''"
| "permission_value P_PROJECT_CREATE = ''project:create''"
| "permission_value P_PROJECT_UPDATE = ''project:update''"
| "permission_value P_COMPONENT_READ = ''component:read''"
| "permission_value P_COMPONENT_WRITE = ''component:write''"
| "permission_value P_SCAN_READ = ''scan:read''"
| "permission_value P_SCAN_EXECUTE = ''scan:execute''"
| "permission_value P_TRAJECTORY_READ = ''trajectory:read''"
| "permission_value P_TRAJECTORY_WRITE = ''trajectory:write''"
| "permission_value P_REPLAY_READ = ''replay:read''"
| "permission_value P_REPLAY_EXECUTE = ''replay:execute''"
| "permission_value P_GRAPH_READ = ''graph:read''"
| "permission_value P_GRAPH_WRITE = ''graph:write''"
| "permission_value P_MEMBERSHIP_MANAGE = ''membership:manage''"
| "permission_value P_ORG_MANAGE = ''org:manage''"
| "permission_value P_AUDIT_READ = ''audit:read''"
| "permission_value P_DIFFERENTIAL_READ = ''differential:read''"
| "permission_value P_DIFFERENTIAL_EXECUTE = ''differential:execute''"
| "permission_value P_RISK_READ = ''risk:read''"
| "permission_value P_RISK_EXECUTE = ''risk:execute''"
| "permission_value P_GITHUB_INTEGRATION_READ = ''github_integration:read''"
| "permission_value P_GITHUB_INTEGRATION_MANAGE = ''github_integration:manage''"

definition member_permissions :: "permission list" where
  "member_permissions =
     [P_PROJECT_READ, P_COMPONENT_READ, P_SCAN_READ, P_TRAJECTORY_READ, P_REPLAY_READ, P_GRAPH_READ,
      P_DIFFERENTIAL_READ, P_RISK_READ, P_GITHUB_INTEGRATION_READ]"

definition admin_permissions :: "permission list" where
  "admin_permissions =
     member_permissions @
     [P_PROJECT_CREATE, P_PROJECT_UPDATE, P_COMPONENT_WRITE, P_SCAN_EXECUTE, P_TRAJECTORY_WRITE,
      P_REPLAY_EXECUTE, P_GRAPH_WRITE, P_DIFFERENTIAL_EXECUTE, P_RISK_EXECUTE,
      P_GITHUB_INTEGRATION_MANAGE, P_AUDIT_READ]"

definition owner_permissions :: "permission list" where
  "owner_permissions = admin_permissions @ [P_MEMBERSHIP_MANAGE, P_ORG_MANAGE]"

definition role_permissions :: "(string \<times> permission list) list" where
  "role_permissions =
     [(''member'', member_permissions), (''admin'', admin_permissions), (''owner'', owner_permissions)]"

definition role_has_permission :: "string option \<Rightarrow> permission \<Rightarrow> bool" where
  "role_has_permission role p =
     (case role of
        None \<Rightarrow> False
      | Some r \<Rightarrow> p \<in> set (case map_of role_permissions r of None \<Rightarrow> [] | Some ps \<Rightarrow> ps))"

section \<open>Changing a membership\<close>

definition default_denial :: string where
  "default_denial = ''You do not have permission to perform this action''"

definition permission_denied :: "string \<Rightarrow> exn" where
  "permission_denied detail = Dom (AuthorizationError (PermissionDenied detail))"

definition authorize_role_change :: "string option \<Rightarrow> string \<Rightarrow> string \<Rightarrow> bool \<Rightarrow> exn + unit" where
  "authorize_role_change actor_role target_current_role new_role is_last_owner =
     rbind (rguard (role_has_permission actor_role P_MEMBERSHIP_MANAGE) (permission_denied default_denial)) (\<lambda>_.
     rguard (\<not> (target_current_role = ''owner'' \<and> new_role \<noteq> ''owner'' \<and> is_last_owner))
       (permission_denied ''Cannot remove the organization's last owner''))"

section \<open>The audit trail\<close>

text \<open>\<open>AuditService.record\<close>: the metadata is redacted, an empty one is null.\<close>

definition audit_record ::
  "audit_action \<Rightarrow> uuid option \<Rightarrow> uuid option \<Rightarrow> string option \<Rightarrow> string option \<Rightarrow> string option \<Rightarrow> json_dict \<Rightarrow> audit_event" where
  "audit_record action organization_id actor resource_type resource_id request_id metadata =
     \<lparr> ae_organization_id = organization_id, ae_actor_user_id = actor, ae_action = action,
       ae_resource_type = resource_type, ae_resource_id = resource_id, ae_request_id = request_id,
       ae_correlation_id = None,
       ae_metadata = (if metadata = [] then JNull else sanitize default_sensitive_keys (JDict metadata)) \<rparr>"

definition put_audit :: "audit_event \<Rightarrow> db \<Rightarrow> db" where
  "put_audit e d = d \<lparr> db_audit := db_audit d @ [e] \<rparr>"

definition audit :: "audit_event \<Rightarrow> unit session" where
  "audit e = swrite (put_audit e)"

section \<open>Decisions\<close>

text \<open>\<open>AuthenticatedPrincipal\<close>: the organization is the one the token names, the role the current one there.\<close>

record principal =
  ap_user_id :: uuid
  ap_email :: string
  ap_organization_id :: "uuid option"
  ap_role :: "organization_role option"

definition member_for :: "uuid \<Rightarrow> uuid \<Rightarrow> organization_member option session" where
  "member_for user_id organization_id =
     fetch_one db_members (\<lambda>m. om_user_id m = user_id \<and> om_organization_id m = organization_id)"

definition members_of_user :: "uuid \<Rightarrow> db \<Rightarrow> organization_member list" where
  "members_of_user user_id d = filter (\<lambda>m. om_user_id m = user_id) (db_members d)"

definition denial :: "uuid \<Rightarrow> uuid \<Rightarrow> string \<Rightarrow> uuid \<Rightarrow> permission \<Rightarrow> audit_event" where
  "denial actor organization_id resource_type resource_id permission =
     audit_record AUTHORIZATION_WAS_DENIED (Some organization_id) (Some actor) (Some resource_type)
       (Some (uuid_str resource_id)) None [(''permission'', JStr (permission_value permission))]"

definition record_denial :: "uuid \<Rightarrow> uuid \<Rightarrow> string \<Rightarrow> uuid \<Rightarrow> permission \<Rightarrow> unit session" where
  "record_denial actor organization_id resource_type resource_id permission =
     sthen (audit (denial actor organization_id resource_type resource_id permission)) scommit"

definition require_role ::
  "principal \<Rightarrow> uuid \<Rightarrow> string \<Rightarrow> uuid \<Rightarrow> permission \<Rightarrow> exn \<Rightarrow> organization_member session" where
  "require_role p organization_id resource_type resource_id permission stranger =
     sbind (srequire stranger (member_for (ap_user_id p) organization_id)) (\<lambda>m.
     if role_has_permission (Some (organization_role_value (om_role m))) permission then sreturn m
     else sthen (record_denial (ap_user_id p) organization_id resource_type resource_id permission)
            (sraise (permission_denied default_denial)))"

definition authorize_organization_access :: "principal \<Rightarrow> uuid \<Rightarrow> permission \<Rightarrow> organization_member session" where
  "authorize_organization_access p organization_id permission =
     require_role p organization_id ''organization'' organization_id permission
       (Dom (AuthorizationError OrganizationAccessDenied))"

definition authorize_project_access ::
  "principal \<Rightarrow> uuid \<Rightarrow> permission \<Rightarrow> (project \<times> organization_member) session" where
  "authorize_project_access p project_id permission =
     sbind (require_project project_id) (\<lambda>project.
     sbind (require_role p (pj_organization_id project) ''project'' project_id permission
              (Dom (AuthorizationError ProjectAccessDenied)))
       (\<lambda>m. sreturn (project, m)))"

section \<open>Onboarding\<close>

definition lock_user_for_onboarding :: "uuid \<Rightarrow> user option session" where
  "lock_user_for_onboarding user_id = fetch_one db_users (\<lambda>u. us_id u = user_id)"

definition organization_clash :: "organization \<Rightarrow> organization \<Rightarrow> bool" where
  "organization_clash a b \<longleftrightarrow> og_id a = og_id b \<or> og_slug a = og_slug b"

definition put_organization :: "organization \<Rightarrow> db \<Rightarrow> db" where
  "put_organization g d = d \<lparr> db_organizations := db_organizations d @ [g] \<rparr>"

definition member_clash :: "organization_member \<Rightarrow> organization_member \<Rightarrow> bool" where
  "member_clash a b \<longleftrightarrow> om_organization_id a = om_organization_id b \<and> om_user_id a = om_user_id b"

definition member_linked :: "organization_member \<Rightarrow> db \<Rightarrow> bool" where
  "member_linked m d \<longleftrightarrow>
     list_ex (\<lambda>g. og_id g = om_organization_id m) (db_organizations d)
     \<and> list_ex (\<lambda>u. us_id u = om_user_id m) (db_users d)"

definition put_member :: "organization_member \<Rightarrow> db \<Rightarrow> db" where
  "put_member m d = d \<lparr> db_members := db_members d @ [m] \<rparr>"

record onboarding_result =
  on_organization :: organization
  on_membership :: organization_member

text \<open>
  \<open>waiting\<close> is what other transactions commit until the lock on the user's row is granted, \<open>others\<close> what they
  commit until the new organization is flushed. The membership and the audit row are flushed by the commit, the
  only statement inside the \<open>try\<close>.
\<close>

definition onboard_first_organization ::
  "(db \<Rightarrow> db) \<Rightarrow> (db \<Rightarrow> db) \<Rightarrow> uuid \<Rightarrow> uuid \<Rightarrow> uuid \<Rightarrow> string \<Rightarrow> string option \<Rightarrow> onboarding_result session" where
  "onboard_first_organization waiting others new_id token user_id name request_id =
     (let taken = Dom (ConflictError (OrganizationAlreadyProvisioned user_id));
          organization = \<lparr> og_id = new_id, og_name = name, og_slug = generate_unique_slug name token \<rparr>;
          membership = \<lparr> om_organization_id = new_id, om_user_id = user_id, om_role = OWNER \<rparr>
      in sthen (concurrently waiting)
         (sthen (srequire taken (lock_user_for_onboarding user_id))
         (sbind (sread (members_of_user user_id)) (\<lambda>existing.
          sthen (sguard (existing = []) taken)
         (sthen (concurrently others)
         (sthen (flush_row db_organizations organization_clash (\<lambda>_ _. True) put_organization organization)
         (scatch_integrity
           (sthen (flush_row db_members member_clash member_linked put_member membership)
           (sthen (audit (audit_record ORGANIZATION_CREATED (Some new_id) (Some user_id) (Some ''organization'')
                     (Some (uuid_str new_id)) request_id
                     [(''name'', JStr name), (''slug'', JStr (og_slug organization))]))
           (sthen scommit
             (sreturn \<lparr> on_organization = organization, on_membership = membership \<rparr>))))
           (sthen srollback (sraise taken)))))))))"

section \<open>What an answer says\<close>

text \<open>The text of the errors that keep a caller out; it goes into the body of the answer (\<open>_envelope\<close>).\<close>

fun not_found_text :: "not_found_error \<Rightarrow> string" where
  "not_found_text (ProjectNotFound i) = ''Project '' @ uuid_str i @ '' not found''"
| "not_found_text (ComponentNotFound i) = ''Component '' @ uuid_str i @ '' not found''"
| "not_found_text (ComponentVersionNotFound c v) =
     ''Version '' @ str_repr v @ '' not found for component ''
     @ (case c of Some i \<Rightarrow> uuid_str i | None \<Rightarrow> ''None'')"
| "not_found_text (GraphComponentNotFound i) =
     ''Component '' @ uuid_str i @ '' has not been synced into the graph yet''"
| "not_found_text (CompatibilityScanNotFound i) = ''Compatibility scan '' @ uuid_str i @ '' not found''"
| "not_found_text (TrajectoryNotFound i) = ''Trajectory '' @ uuid_str i @ '' not found''"
| "not_found_text (ReplayNotFound i) = ''Replay '' @ uuid_str i @ '' not found''"
| "not_found_text (DifferentialReportNotFound i) = ''Differential report '' @ uuid_str i @ '' not found''"
| "not_found_text (RiskAssessmentNotFound i) = ''Risk assessment '' @ uuid_str i @ '' not found''"
| "not_found_text (GitHubRepositoryNotMapped i) =
     ''GitHub repository '' @ int_str i @ '' is not mapped to a project''"
| "not_found_text (GitHubRepositoryMappingNotFound i) =
     ''GitHub repository mapping '' @ uuid_str i @ '' not found''"
| "not_found_text (GitHubPullRequestAnalysisNotFound i) =
     ''GitHub pull request analysis '' @ uuid_str i @ '' not found''"

fun authorization_text :: "authorization_error \<Rightarrow> string" where
  "authorization_text (PermissionDenied detail) = detail"
| "authorization_text OrganizationAccessDenied = ''Not found''"
| "authorization_text ProjectAccessDenied = ''Not found''"

fun refusal_text :: "agentabi_error \<Rightarrow> string option" where
  "refusal_text (NotFoundError e) = Some (not_found_text e)"
| "refusal_text (AuthorizationError e) = Some (authorization_text e)"
| "refusal_text _ = None"

section \<open>The tables of the tenants\<close>

interpretation organizations: unique_table organization_clash db_organizations put_organization
  by unfold_locales (auto simp: organization_clash_def put_organization_def)

interpretation members: unique_table member_clash db_members put_member
  by unfold_locales (auto simp: member_clash_def put_member_def)

text \<open>The unique keys hold, and a membership leads to an organization and to a user.\<close>

definition tenants_ok :: "db \<Rightarrow> bool" where
  "tenants_ok d \<longleftrightarrow>
     no_clash organization_clash (db_organizations d) \<and> no_clash project_clash (db_projects d)
     \<and> distinct (map us_id (db_users d)) \<and> no_clash member_clash (db_members d)
     \<and> list_all (\<lambda>m. member_linked m d) (db_members d)"

end
