(* ===== verification/Authz_Properties.thy ===== *)
theory Authz_Properties
  imports Authz
begin

text \<open>
  The properties of authorization and onboarding: what each role may do, when a project is open to a caller,
  that a refusal is on record, that the text of a refusal tells a stranger more than it should, and that a
  user founds one organization only.
\<close>

section \<open>Roles\<close>

lemma known_permission: "x \<in> set owner_permissions"
  by (cases x) (simp_all add: owner_permissions_def admin_permissions_def member_permissions_def)

lemma admin_permission: "x \<in> set admin_permissions \<longleftrightarrow> x \<notin> {P_MEMBERSHIP_MANAGE, P_ORG_MANAGE}"
  by (cases x) (simp_all add: admin_permissions_def member_permissions_def)

lemma member_permission:
  "x \<in> set member_permissions \<longleftrightarrow>
     drop (length (permission_value x) - 5) (permission_value x) = '':read'' \<and> x \<noteq> P_AUDIT_READ"
  by (cases x) (simp_all add: member_permissions_def)

lemma role_has_permission_iff:
  "role_has_permission role x \<longleftrightarrow>
     (role = Some ''owner'' \<and> x \<in> set owner_permissions) \<or> (role = Some ''admin'' \<and> x \<in> set admin_permissions)
     \<or> (role = Some ''member'' \<and> x \<in> set member_permissions)"
  by (auto simp: role_has_permission_def role_permissions_def split: option.split)

lemma authorize_role_change_iff:
  "authorize_role_change role cur new last_owner = Inr () \<longleftrightarrow>
     role_has_permission role P_MEMBERSHIP_MANAGE \<and> \<not> (cur = ''owner'' \<and> new \<noteq> ''owner'' \<and> last_owner)"
  by (auto simp: authorize_role_change_def rbind_eq_Inr_iff)

text \<open>
  An owner may do everything, an administrator everything but manage members and the organization, a member
  reads everything but the audit trail, and any other role nothing; and a role is changed by an owner only, never
  so that the last owner loses the role.
\<close>

theorem role_chain:
  "(role_has_permission role x \<longleftrightarrow>
      role = Some ''owner''
      \<or> (role = Some ''admin'' \<and> x \<notin> {P_MEMBERSHIP_MANAGE, P_ORG_MANAGE})
      \<or> (role = Some ''member'' \<and> drop (length (permission_value x) - 5) (permission_value x) = '':read''
         \<and> x \<noteq> P_AUDIT_READ))
   \<and> (authorize_role_change role cur new last_owner = Inr () \<longleftrightarrow>
      role = Some ''owner'' \<and> \<not> (cur = ''owner'' \<and> new \<noteq> ''owner'' \<and> last_owner))"
  unfolding authorize_role_change_iff role_has_permission_iff
  by (auto simp: known_permission admin_permission member_permission)

section \<open>Projects\<close>

lemma require_role_eq_Inr:
  "require_role p g ty i x stranger s = (Inr m, t) \<longleftrightarrow>
     t = s \<and> member_for (ap_user_id p) g s = (Inr (Some m), s)
     \<and> role_has_permission (Some (organization_role_value (om_role m))) x"
  by (auto simp: require_role_def sbind_eq_Inr srequire_eq_Inr member_for_def fetch_one_eq_Inr session_simps
      record_denial_def sthen_eq_Inr split: if_splits)

lemma member_for_iff:
  assumes "tenants_ok (tx_current s)"
  shows "member_for u g s = (Inr (Some m), s) \<longleftrightarrow>
    m \<in> set (db_members (tx_current s)) \<and> om_user_id m = u \<and> om_organization_id m = g"
proof
  assume "member_for u g s = (Inr (Some m), s)"
  then have "filter (\<lambda>m. om_user_id m = u \<and> om_organization_id m = g) (db_members (tx_current s)) = [m]"
    by (simp add: member_for_def fetch_one_eq_Inr)
  then have "m \<in> set (filter (\<lambda>m. om_user_id m = u \<and> om_organization_id m = g) (db_members (tx_current s)))" by simp
  then show "m \<in> set (db_members (tx_current s)) \<and> om_user_id m = u \<and> om_organization_id m = g" by simp
next
  assume m: "m \<in> set (db_members (tx_current s)) \<and> om_user_id m = u \<and> om_organization_id m = g"
  have "filter (\<lambda>m. om_user_id m = u \<and> om_organization_id m = g) (db_members (tx_current s)) = [m]"
    by (rule no_clash_filter [of member_clash]) (use assms m in \<open>auto simp: tenants_ok_def member_clash_def\<close>)
  then show "member_for u g s = (Inr (Some m), s)" by (simp add: member_for_def fetch_one_eq_Inr)
qed

lemma require_project_iff:
  assumes "tenants_ok (tx_current s)"
  shows "require_project i s = (Inr q, s) \<longleftrightarrow> q \<in> set (db_projects (tx_current s)) \<and> pj_id q = i"
proof
  assume "require_project i s = (Inr q, s)"
  then have "filter (\<lambda>q. pj_id q = i) (db_projects (tx_current s)) = [q]"
    by (simp add: require_project_def srequire_eq_Inr project_by_id_def fetch_one_eq_Inr)
  then have "q \<in> set (filter (\<lambda>q. pj_id q = i) (db_projects (tx_current s)))" by simp
  then show "q \<in> set (db_projects (tx_current s)) \<and> pj_id q = i" by simp
next
  assume q: "q \<in> set (db_projects (tx_current s)) \<and> pj_id q = i"
  have "filter (\<lambda>q. pj_id q = i) (db_projects (tx_current s)) = [q]"
    by (rule no_clash_filter [of project_clash]) (use assms q in \<open>auto simp: tenants_ok_def project_clash_def\<close>)
  then show "require_project i s = (Inr q, s)"
    by (simp add: require_project_def srequire_eq_Inr project_by_id_def fetch_one_eq_Inr)
qed

lemma require_project_state: "require_project i s = (r, t) \<Longrightarrow> t = s"
  by (rule readonly_state [of "require_project i"]) (simp_all add: require_project_def project_by_id_def readonly_intros)

text \<open>A small tenant: two organizations, a user in each, a project of the first.\<close>

definition tenant_db :: db where
  "tenant_db = empty_db
     \<lparr> db_organizations := [\<lparr> og_id = 1, og_name = ''Acme'', og_slug = ''acme'' \<rparr>,
                            \<lparr> og_id = 2, og_name = ''Other'', og_slug = ''other'' \<rparr>],
       db_users := [\<lparr> us_id = 7, us_email = ''a@acme'', us_full_name = None, us_is_active = True,
                      us_github_user_id = None, us_github_login = None \<rparr>,
                    \<lparr> us_id = 8, us_email = ''b@other'', us_full_name = None, us_is_active = True,
                      us_github_user_id = None, us_github_login = None \<rparr>,
                    \<lparr> us_id = 9, us_email = ''c@none'', us_full_name = None, us_is_active = True,
                      us_github_user_id = None, us_github_login = None \<rparr>],
       db_members := [\<lparr> om_organization_id = 1, om_user_id = 7, om_role = MEMBER \<rparr>,
                      \<lparr> om_organization_id = 2, om_user_id = 8, om_role = OWNER \<rparr>],
       db_projects := [\<lparr> pj_id = 5, pj_organization_id = 1, pj_name = ''Payments'', pj_slug = ''payments'' \<rparr>] \<rparr>"

lemma tenant_db_simps [simp]:
  "db_organizations tenant_db = [\<lparr> og_id = 1, og_name = ''Acme'', og_slug = ''acme'' \<rparr>,
                            \<lparr> og_id = 2, og_name = ''Other'', og_slug = ''other'' \<rparr>]"
  "db_members tenant_db = [\<lparr> om_organization_id = 1, om_user_id = 7, om_role = MEMBER \<rparr>,
                      \<lparr> om_organization_id = 2, om_user_id = 8, om_role = OWNER \<rparr>]"
  "db_projects tenant_db = [\<lparr> pj_id = 5, pj_organization_id = 1, pj_name = ''Payments'', pj_slug = ''payments'' \<rparr>]"
  "map us_id (db_users tenant_db) = [7, 8, 9]"
  by (simp_all add: tenant_db_def)

lemma list_ex_user: "list_ex (\<lambda>u. us_id u = i) us \<longleftrightarrow> i \<in> set (map us_id us)"
  by (auto simp: list_ex_iff)

lemma tenant_db_ok: "tenants_ok tenant_db"
  by (simp add: tenants_ok_def organization_clash_def project_clash_def member_clash_def member_linked_def list_ex_user)

definition caller :: "uuid \<Rightarrow> principal" where
  "caller u = \<lparr> ap_user_id = u, ap_email = ''someone'', ap_organization_id = Some 1, ap_role = Some OWNER \<rparr>"

lemma authorize_project_iff:
  assumes "tenants_ok (tx_current s)"
  shows "authorize_project_access p i x s = (Inr (q, m), t) \<longleftrightarrow>
    t = s \<and> q \<in> set (db_projects (tx_current s)) \<and> pj_id q = i
    \<and> m \<in> set (db_members (tx_current s)) \<and> om_user_id m = ap_user_id p
    \<and> om_organization_id m = pj_organization_id q
    \<and> role_has_permission (Some (organization_role_value (om_role m))) x"
proof -
  have "authorize_project_access p i x s = (Inr (q, m), t) \<longleftrightarrow>
      t = s \<and> require_project i s = (Inr q, s) \<and> member_for (ap_user_id p) (pj_organization_id q) s = (Inr (Some m), s)
      \<and> role_has_permission (Some (organization_role_value (om_role m))) x"
    by (auto simp: authorize_project_access_def sbind_eq_Inr require_role_eq_Inr session_simps
        dest: require_project_state)
  then show ?thesis
    by (auto simp: require_project_iff [OF assms] member_for_iff [OF assms])
qed

text \<open>
  C3: a caller gets at a project exactly when the store holds the project, a membership of the caller in the
  organization the project belongs to, and the role of that membership has the permission. What the token says
  of organization and role plays no part, and the decision changes nothing.
\<close>

theorem project_access_iff:
  assumes "tenants_ok (tx_current s)"
  shows "authorize_project_access p i x s = (Inr (q, m), t) \<longleftrightarrow>
    t = s \<and> q \<in> set (db_projects (tx_current s)) \<and> pj_id q = i
    \<and> m \<in> set (db_members (tx_current s)) \<and> om_user_id m = ap_user_id p
    \<and> om_organization_id m = pj_organization_id q
    \<and> role_has_permission (Some (organization_role_value (om_role m))) x"
  using assms by (rule authorize_project_iff)

theorem project_access_iff_witness:
  "authorize_project_access (caller 7) 5 P_RISK_READ (begin_txn tenant_db) =
     (Inr (hd (db_projects tenant_db), hd (db_members tenant_db)), begin_txn tenant_db)"
  by (subst project_access_iff) (simp_all add: tenant_db_ok caller_def role_has_permission_iff member_permissions_def)

section \<open>Refusals\<close>

text \<open>The store with the refusal on record.\<close>

definition denied_txn :: "audit_event \<Rightarrow> txn \<Rightarrow> txn" where
  "denied_txn e s = \<lparr> tx_committed = put_audit e (tx_current s), tx_current = put_audit e (tx_current s) \<rparr>"

lemma record_denial_run: "record_denial a g ty i x s = (Inr (), denied_txn (denial a g ty i x) s)"
  by (simp add: record_denial_def audit_def denied_txn_def session_simps)

lemma require_role_run:
  "require_role p g ty i x stranger s =
     (case one_or_none (filter (\<lambda>m. om_user_id m = ap_user_id p \<and> om_organization_id m = g) (db_members (tx_current s))) of
        Inl e \<Rightarrow> (Inl e, s)
      | Inr None \<Rightarrow> (Inl stranger, s)
      | Inr (Some m) \<Rightarrow>
          if role_has_permission (Some (organization_role_value (om_role m))) x then (Inr m, s)
          else (Inl (permission_denied default_denial), denied_txn (denial (ap_user_id p) g ty i x) s))"
  by (simp add: require_role_def member_for_def fetch_one_def sbind_def srequire_def sthen_def record_denial_run
      session_basic split: sum.split option.split)

lemma require_role_cases:
  obtains e where "require_role p g ty i x stranger s = (Inl e, s)" "e = stranger \<or> e = MultipleResultsFound"
  | m where "require_role p g ty i x stranger s = (Inr m, s)"
  | "require_role p g ty i x stranger s
       = (Inl (permission_denied default_denial), denied_txn (denial (ap_user_id p) g ty i x) s)"
proof (cases "one_or_none (filter (\<lambda>m. om_user_id m = ap_user_id p \<and> om_organization_id m = g) (db_members (tx_current s)))")
  case (Inl e)
  have "e = MultipleResultsFound" using Inl by (simp only: one_or_none_Inl)
  then show ?thesis using that(1) [of e] Inl by (simp only: require_role_run sum.case simp_thms)
next
  case (Inr r)
  show ?thesis
  proof (cases r)
    case None
    then show ?thesis using that(1) [of stranger] Inr by (simp only: require_role_run sum.case option.case simp_thms)
  next
    case (Some m)
    then have "require_role p g ty i x stranger s =
        (if role_has_permission (Some (organization_role_value (om_role m))) x then (Inr m, s)
         else (Inl (permission_denied default_denial), denied_txn (denial (ap_user_id p) g ty i x) s))"
      using Inr by (simp only: require_role_run sum.case option.case)
    then show ?thesis using that(2) [of m] that(3) by presburger
  qed
qed

lemma require_role_wp:
  "wp (require_role p g ty i x stranger) (\<lambda>_ t. t = s)
     (\<lambda>e t. e \<in> {stranger, MultipleResultsFound} \<and> t = s
        \<or> e = permission_denied default_denial \<and> t = denied_txn (denial (ap_user_id p) g ty i x) s) s"
  by (rule require_role_cases [of p g ty i x stranger s]) (simp_all add: wp_def)

lemma require_project_wp:
  "wp (require_project i) (\<lambda>q t. t = s \<and> q \<in> set (db_projects (tx_current s)) \<and> pj_id q = i)
     (\<lambda>e t. t = s \<and> e \<in> {Dom (NotFoundError (ProjectNotFound i)), MultipleResultsFound}) s"
proof (cases "one_or_none (filter (\<lambda>q. pj_id q = i) (db_projects (tx_current s)))")
  case (Inl e)
  moreover have "e = MultipleResultsFound" using Inl by (simp only: one_or_none_Inl)
  ultimately show ?thesis by (simp only: require_project_def project_by_id_def wp_simps sum.case) simp
next
  case (Inr r)
  have "q \<in> set (db_projects (tx_current s)) \<and> pj_id q = i" if "r = Some q" for q
    using Inr that filter_single [of "\<lambda>q. pj_id q = i" "db_projects (tx_current s)" q] by simp
  then show ?thesis
    using Inr by (cases r) (simp_all only: require_project_def project_by_id_def wp_simps sum.case option.case, simp_all)
qed

lemma authorize_project_access_wp:
  "wp (authorize_project_access p i x) (\<lambda>_ t. t = s)
     (\<lambda>e t. e \<noteq> permission_denied default_denial \<and> t = s
        \<or> e = permission_denied default_denial
          \<and> (\<exists>q \<in> set (db_projects (tx_current s)). pj_id q = i
               \<and> t = denied_txn (denial (ap_user_id p) (pj_organization_id q) ''project'' i x) s)) s"
  unfolding authorize_project_access_def wp_sbind
  apply (rule wp_mono [OF require_project_wp])
   apply (auto simp: wp_simps permission_denied_def)
  subgoal for q
    by (rule wp_mono [OF require_role_wp]) (auto simp: permission_denied_def wp_simps)
  done

text \<open>
  A request refused for lack of a permission fails, and yet the store holds one more audit row afterwards,
  which names the organization of the project, the caller and the permission and holds no secret. Any other
  outcome of the decision leaves the store as it was.
\<close>

theorem denial_recorded:
  "case request (authorize_project_access p i x) d of
     (Inl e, d') \<Rightarrow>
       if e = permission_denied default_denial
       then \<exists>q \<in> set (db_projects d). pj_id q = i
              \<and> d' = put_audit (denial (ap_user_id p) (pj_organization_id q) ''project'' i x) d
              \<and> no_secrets default_sensitive_keys (ae_metadata (last (db_audit d')))
       else d' = d
   | (Inr _, d') \<Rightarrow> d' = d"
proof -
  have "case request (authorize_project_access p i x) d of
      (Inl e, d') \<Rightarrow>
        e \<noteq> permission_denied default_denial \<and> d' = d
        \<or> e = permission_denied default_denial
          \<and> (\<exists>q \<in> set (db_projects d). pj_id q = i
               \<and> d' = put_audit (denial (ap_user_id p) (pj_organization_id q) ''project'' i x) d)
    | (Inr _, d') \<Rightarrow> d' = d"
    by (rule request_wp, rule wp_mono [OF authorize_project_access_wp]) (auto simp: denied_txn_def)
  then show ?thesis
    by (auto simp: put_audit_def denial_def audit_record_def no_secrets_sanitize split: prod.splits sum.splits)
qed

text \<open>
  To a caller who belongs to no organization a project that does not exist and one of another tenant are
  answered with the same status and code, and yet with different texts, and the text goes into the body: the
  answer tells whether the project exists.
\<close>

theorem existence_leaks:
  assumes "tenants_ok d" "members_of_user (ap_user_id p) d = []"
  shows "\<exists>e. request (authorize_project_access p i x) d = (Inl (Dom e), d)
     \<and> http_answer (Dom e) = (404, RESOURCE_NOT_FOUND)
     \<and> (refusal_text e = Some ''Not found'' \<longleftrightarrow> (\<exists>q \<in> set (db_projects d). pj_id q = i))"
proof (cases "\<exists>q \<in> set (db_projects d). pj_id q = i")
  case True
  then obtain q where q: "q \<in> set (db_projects d)" "pj_id q = i" by blast
  have "require_project i (begin_txn d) = (Inr q, begin_txn d)"
    using q assms(1) require_project_iff [of "begin_txn d" i q] by simp
  moreover have "member_for (ap_user_id p) (pj_organization_id q) (begin_txn d) = (Inr None, begin_txn d)"
    using assms(2) by (auto simp: member_for_def fetch_one_def members_of_user_def filter_empty_conv)
  ultimately have "request (authorize_project_access p i x) d
      = (Inl (Dom (AuthorizationError ProjectAccessDenied)), d)"
    by (simp add: request_def authorize_project_access_def require_role_def session_simps)
  then show ?thesis using True by simp
next
  case False
  then have "filter (\<lambda>q. pj_id q = i) (db_projects d) = []" by (auto simp: filter_empty_conv)
  then have "request (authorize_project_access p i x) d = (Inl (Dom (NotFoundError (ProjectNotFound i))), d)"
    by (simp add: request_def authorize_project_access_def require_project_def project_by_id_def fetch_one_def
        session_simps)
  then show ?thesis using False by simp
qed

theorem existence_leaks_witness:
  "(\<exists>e. request (authorize_project_access (caller 9) 5 P_RISK_READ) tenant_db = (Inl (Dom e), tenant_db)
      \<and> refusal_text e = Some ''Not found'')
   \<and> (\<exists>e. request (authorize_project_access (caller 9) 6 P_RISK_READ) tenant_db = (Inl (Dom e), tenant_db)
      \<and> refusal_text e \<noteq> Some ''Not found'')"
  using existence_leaks [OF tenant_db_ok, of "caller 9" 5 P_RISK_READ]
    existence_leaks [OF tenant_db_ok, of "caller 9" 6 P_RISK_READ]
  by (auto simp: caller_def members_of_user_def)

section \<open>Onboarding\<close>

lemma scatch_raise_eq_Inr:
  "scatch_integrity m (sthen srollback (sraise e)) s = (Inr x, t) \<longleftrightarrow> m s = (Inr x, t)"
  by (auto simp: scatch_integrity_def sthen_def sbind_def session_basic split: prod.splits sum.splits exn.splits)

lemma concurrently_eq:
  "concurrently f s = (r, t) \<longleftrightarrow> r = Inr () \<and> t = \<lparr> tx_committed = f (tx_committed s), tx_current = f (tx_current s) \<rparr>"
  by (auto simp: concurrently_def)

text \<open>While the lock is held nobody changes the memberships of the user.\<close>

definition respects_lock :: "uuid \<Rightarrow> (db \<Rightarrow> db) \<Rightarrow> bool" where
  "respects_lock u f \<longleftrightarrow>
     (\<forall>d. members_of_user u (f d) = members_of_user u d) \<and> (\<forall>d. tenants_ok d \<longrightarrow> tenants_ok (f d))"

lemma onboard_Inr:
  assumes "onboard_first_organization waiting others i token u name rid (begin_txn d) = (Inr r, t)"
  shows "members_of_user u (waiting d) = []
    \<and> r = \<lparr> on_organization = \<lparr> og_id = i, og_name = name, og_slug = generate_unique_slug name token \<rparr>,
            on_membership = \<lparr> om_organization_id = i, om_user_id = u, om_role = OWNER \<rparr> \<rparr>
    \<and> (\<forall>g \<in> set (db_organizations (others (waiting d))). \<not> organization_clash (on_organization r) g)
    \<and> (\<exists>e. tx_current t = put_audit e (put_member (on_membership r)
                              (put_organization (on_organization r) (others (waiting d)))))
    \<and> list_ex (\<lambda>v. us_id v = u) (db_users (others (waiting d)))"
  using assms
  by (auto simp: onboard_first_organization_def Let_def sthen_eq_Inr sbind_eq_Inr srequire_eq_Inr sguard_eq_Inr
      concurrently_eq scatch_raise_eq_Inr flush_row_eq_Inr lock_user_for_onboarding_def fetch_one_eq_Inr session_basic
      audit_def list_ex_iff member_linked_def put_organization_def)

lemma organization_fresh:
  assumes "tenants_ok d" "\<forall>g \<in> set (db_organizations d). \<not> organization_clash o' g" "m \<in> set (db_members d)"
  shows "om_organization_id m \<noteq> og_id o'"
  using assms by (force simp: tenants_ok_def list_all_iff list_ex_iff member_linked_def organization_clash_def)

lemma ball_organization_fresh:
  assumes "tenants_ok d" "\<forall>g \<in> set (db_organizations d). \<not> organization_clash o' g"
  shows "\<forall>m \<in> set (db_members d). om_organization_id m \<noteq> og_id o'"
  using organization_fresh [OF assms] by blast

lemma lock_user_unique:
  assumes "tenants_ok d"
  shows "\<exists>v. one_or_none (filter (\<lambda>v. us_id v = u) (db_users d)) = Inr v"
proof -
  have "length (filter (\<lambda>v. us_id v = u) vs) \<le> 1" if "distinct (map us_id vs)" for vs
    using that by (induction vs) (auto simp: filter_empty_conv image_iff)
  moreover have "distinct (map us_id (db_users d))" using assms unfolding tenants_ok_def by blast
  ultimately have "length (filter (\<lambda>v. us_id v = u) (db_users d)) \<le> 1" by blast
  then show ?thesis by (cases "filter (\<lambda>v. us_id v = u) (db_users d)" rule: one_or_none.cases) simp_all
qed

lemma onboard_refused:
  assumes "tenants_ok d" "members_of_user u d \<noteq> []" "respects_lock u w"
  shows "request (onboard_first_organization w f j token u name rid) d
    = (Inl (Dom (ConflictError (OrganizationAlreadyProvisioned u))), w d)"
proof -
  have ok: "tenants_ok (w d)" and some: "members_of_user u (w d) \<noteq> []"
    using assms by (simp_all add: respects_lock_def)
  obtain v where "one_or_none (filter (\<lambda>v. us_id v = u) (db_users (w d))) = Inr v"
    using lock_user_unique [OF ok] by blast
  then show ?thesis
    using some by (cases v) (simp_all add: request_def onboard_first_organization_def Let_def sthen_def sbind_def
      concurrently_def srequire_def sguard_def lock_user_for_onboarding_def fetch_one_def session_basic
      del: one_or_none_Some one_or_none_None)
qed

lemma tenants_ok_founded:
  assumes "tenants_ok d" "\<forall>g \<in> set (db_organizations d). \<not> organization_clash o' g"
    and "list_ex (\<lambda>v. us_id v = u) (db_users d)" "m = \<lparr> om_organization_id = og_id o', om_user_id = u, om_role = OWNER \<rparr>"
  shows "tenants_ok (put_audit e (put_member m (put_organization o' d)))"
  using assms(1) assms(2) assms(3) ball_organization_fresh [OF assms(1,2)] unfolding assms(4)
  by (auto simp: tenants_ok_def put_audit_def put_member_def put_organization_def organizations.no_clash_append
      members.no_clash_append list_ex_iff list_all_iff member_linked_def member_clash_def)

lemma onboarded:
  assumes "tenants_ok d" "\<forall>d. tenants_ok d \<longrightarrow> tenants_ok (waiting d)" "respects_lock u others"
    and "request (onboard_first_organization waiting others i token u name rid) d = (Inr r, d')"
  shows "tenants_ok d'" "members_of_user u (waiting d) = []" "members_of_user u d' = [on_membership r]"
    "on_membership r = \<lparr> om_organization_id = i, om_user_id = u, om_role = OWNER \<rparr>" "og_id (on_organization r) = i"
    "filter (\<lambda>m. om_organization_id m = og_id (on_organization r)) (db_members d') = [on_membership r]"
proof -
  obtain t where t: "onboard_first_organization waiting others i token u name rid (begin_txn d) = (Inr r, t)"
    "d' = tx_current t"
    using assms(4) by (auto simp: request_def split: prod.splits sum.splits)
  let ?d = "others (waiting d)"
  have ok: "tenants_ok ?d" using assms(1-3) by (simp add: respects_lock_def)
  have none: "members_of_user u ?d = []"
    using onboard_Inr [OF t(1)] assms(3) by (simp add: respects_lock_def)
  obtain e where r: "r = \<lparr> on_organization = \<lparr> og_id = i, og_name = name, og_slug = generate_unique_slug name token \<rparr>,
            on_membership = \<lparr> om_organization_id = i, om_user_id = u, om_role = OWNER \<rparr> \<rparr>"
    and fresh: "\<forall>g \<in> set (db_organizations ?d). \<not> organization_clash (on_organization r) g"
    and d': "d' = put_audit e (put_member (on_membership r) (put_organization (on_organization r) ?d))"
    and user: "list_ex (\<lambda>v. us_id v = u) (db_users ?d)"
    using onboard_Inr [OF t(1)] t(2) by blast
  show "members_of_user u d' = [on_membership r]"
    using none r by (simp add: d' members_of_user_def put_audit_def put_member_def put_organization_def)
  show "filter (\<lambda>m. om_organization_id m = og_id (on_organization r)) (db_members d') = [on_membership r]"
    using organization_fresh [OF ok fresh] r
    by (auto simp: d' put_audit_def put_member_def put_organization_def filter_empty_conv)
  show "tenants_ok d'" unfolding d' by (rule tenants_ok_founded [OF ok fresh user]) (simp add: r)
  show "members_of_user u (waiting d) = []" using onboard_Inr [OF t(1)] by blast
  show "on_membership r = \<lparr> om_organization_id = i, om_user_id = u, om_role = OWNER \<rparr>" "og_id (on_organization r) = i"
    by (simp_all add: r)
qed

text \<open>
  C23: an onboarding that succeeds gives a caller without any membership exactly one, as the owner and only member
  of a new organization; the keys and references of the tenants hold on; and every further onboarding of the same
  user is refused, whatever name is asked for, and writes nothing.
\<close>

theorem onboarding_once:
  assumes "tenants_ok d" "\<And>d. tenants_ok d \<Longrightarrow> tenants_ok (waiting d)" "respects_lock u others"
    and "request (onboard_first_organization waiting others i token u name rid) d = (Inr r, d')"
  shows "tenants_ok d'
    \<and> members_of_user u (waiting d) = [] \<and> members_of_user u d' = [on_membership r]
    \<and> om_role (on_membership r) = OWNER
    \<and> filter (\<lambda>m. om_organization_id m = og_id (on_organization r)) (db_members d') = [on_membership r]
    \<and> (\<forall>w f j token' name' rid'. respects_lock u w \<longrightarrow>
         request (onboard_first_organization w f j token' u name' rid') d'
           = (Inl (Dom (ConflictError (OrganizationAlreadyProvisioned u))), w d'))"
proof -
  have "\<forall>d. tenants_ok d \<longrightarrow> tenants_ok (waiting d)" using assms(2) by blast
  note run = onboarded [OF assms(1) this assms(3,4)]
  have "request (onboard_first_organization w f j token' u name' rid') d'
      = (Inl (Dom (ConflictError (OrganizationAlreadyProvisioned u))), w d')" if "respects_lock u w" for w f j token' name' rid'
    by (rule onboard_refused [OF run(1) _ that]) (simp add: run(3))
  then show ?thesis using run by simp
qed

lemma new_slug: "generate_unique_slug ''New'' 0 = ''new-00000000''"
  by code_simp

lemma tenant_user_9: "9 \<in> us_id ` set (db_users tenant_db)"
  by (simp add: tenant_db_def)

lemma tenant_user: "filter (\<lambda>v. us_id v = 9) (db_users tenant_db) = [db_users tenant_db ! 2]"
  by (simp add: tenant_db_def)

theorem onboarding_once_witness:
  "\<exists>r d'. request (onboard_first_organization id id 3 0 9 ''New'' None) tenant_db = (Inr r, d')
     \<and> members_of_user 9 d' = [on_membership r]
     \<and> fst (request (onboard_first_organization id id 4 1 9 ''Two'' None) d')
         = Inl (Dom (ConflictError (OrganizationAlreadyProvisioned 9)))"
proof -
  obtain r d' where run: "request (onboard_first_organization id id 3 0 9 ''New'' None) tenant_db = (Inr r, d')"
    by (simp add: request_def onboard_first_organization_def Let_def sthen_def sbind_def concurrently_def srequire_def
        sguard_def lock_user_for_onboarding_def fetch_one_def session_basic scatch_integrity_def flush_row_def
        members_of_user_def organization_clash_def new_slug member_linked_def member_clash_def put_organization_def
        audit_def list_ex_user tenant_user tenant_user_9)
  show ?thesis
    using onboarding_once [OF tenant_db_ok _ _ run] run by (auto simp: respects_lock_def)
qed

end
