(* ===== verification/Dependency_Graph.thy ===== *)
theory Dependency_Graph
  imports Registry
begin

text \<open>
  The dependency graph: the shapes of \<open>app/graph/models.py\<close>, the Cypher statements of
  \<open>app/graph/repository.py\<close> as operations on a store of nodes and edges, and
  \<open>app/services/dependency_graph.py\<close>, which copies component identities into it and manages its edges. The
  time of a synchronization is not modelled. A statement the driver cannot run raises \<open>GraphUnavailable\<close>;
  \<open>outage n\<close> is the reason when that befalls the \<open>n\<close>-th statement of an operation. Proved here: every edge of
  the store connects two nodes of one project by a relationship their types allow.
\<close>

section \<open>The store\<close>

record component_node =
  gn_component_id :: uuid
  gn_project_id :: uuid
  gn_organization_id :: uuid
  gn_component_type :: component_type
  gn_name :: string
  gn_slug :: string
  gn_version :: string
  gn_checksum :: string

record dependency_edge =
  de_component_id :: uuid
  de_component_type :: component_type
  de_name :: string
  de_slug :: string
  de_relationship_type :: relationship_type

text \<open>An edge points from the dependent to its dependency.\<close>

type_synonym stored_edge = "uuid \<times> relationship_type \<times> uuid"

record graph =
  gr_nodes :: "component_node list"
  gr_edges :: "stored_edge list"

definition empty_graph :: graph where
  "empty_graph = \<lparr> gr_nodes = [], gr_edges = [] \<rparr>"

section \<open>The statements\<close>

text \<open>\<open>MERGE (c {component_id}) SET ...\<close>.\<close>

definition upsert_component_node :: "component_node \<Rightarrow> graph \<Rightarrow> graph" where
  "upsert_component_node n g =
     (if list_ex (\<lambda>c. gn_component_id c = gn_component_id n) (gr_nodes g)
      then g \<lparr> gr_nodes := map (\<lambda>c. if gn_component_id c = gn_component_id n then n else c) (gr_nodes g) \<rparr>
      else g \<lparr> gr_nodes := gr_nodes g @ [n] \<rparr>)"

definition node_in :: "uuid \<Rightarrow> uuid \<Rightarrow> component_node \<Rightarrow> bool" where
  "node_in project_id component_id c \<longleftrightarrow> gn_component_id c = component_id \<and> gn_project_id c = project_id"

definition get_component_node :: "uuid \<Rightarrow> uuid \<Rightarrow> graph \<Rightarrow> component_node option" where
  "get_component_node project_id component_id g = find (node_in project_id component_id) (gr_nodes g)"

text \<open>\<open>DETACH DELETE\<close>.\<close>

definition delete_component_node :: "uuid \<Rightarrow> uuid \<Rightarrow> graph \<Rightarrow> graph" where
  "delete_component_node project_id component_id g =
     (if list_ex (node_in project_id component_id) (gr_nodes g)
      then g \<lparr> gr_nodes := filter (\<lambda>c. \<not> node_in project_id component_id c) (gr_nodes g),
               gr_edges := filter (\<lambda>(s, r, t). s \<noteq> component_id \<and> t \<noteq> component_id) (gr_edges g) \<rparr>
      else g)"

definition both_in :: "uuid \<Rightarrow> uuid \<Rightarrow> uuid \<Rightarrow> graph \<Rightarrow> bool" where
  "both_in project_id source_id target_id g \<longleftrightarrow>
     list_ex (node_in project_id source_id) (gr_nodes g) \<and> list_ex (node_in project_id target_id) (gr_nodes g)"

definition merge_edge :: "uuid \<Rightarrow> uuid \<Rightarrow> uuid \<Rightarrow> relationship_type \<Rightarrow> graph \<Rightarrow> graph" where
  "merge_edge project_id source_id target_id rel g =
     (if both_in project_id source_id target_id g
      then g \<lparr> gr_edges := List.insert (source_id, rel, target_id) (gr_edges g) \<rparr> else g)"

definition remove_edge :: "uuid \<Rightarrow> uuid \<Rightarrow> uuid \<Rightarrow> relationship_type \<Rightarrow> graph \<Rightarrow> graph" where
  "remove_edge project_id source_id target_id rel g =
     (if both_in project_id source_id target_id g
      then g \<lparr> gr_edges := removeAll (source_id, rel, target_id) (gr_edges g) \<rparr> else g)"

definition edge_to :: "component_node \<Rightarrow> relationship_type \<Rightarrow> dependency_edge" where
  "edge_to c rel =
     \<lparr> de_component_id = gn_component_id c, de_component_type = gn_component_type c, de_name = gn_name c,
       de_slug = gn_slug c, de_relationship_type = rel \<rparr>"

definition list_direct_dependencies :: "uuid \<Rightarrow> uuid \<Rightarrow> graph \<Rightarrow> dependency_edge list" where
  "list_direct_dependencies project_id component_id g =
     (if list_ex (node_in project_id component_id) (gr_nodes g)
      then concat (map (\<lambda>(s, rel, t). if s = component_id then map (\<lambda>c. edge_to c rel) (filter (node_in project_id t) (gr_nodes g)) else [])
             (gr_edges g))
      else [])"

definition list_direct_dependents :: "uuid \<Rightarrow> uuid \<Rightarrow> graph \<Rightarrow> dependency_edge list" where
  "list_direct_dependents project_id component_id g =
     (if list_ex (node_in project_id component_id) (gr_nodes g)
      then concat (map (\<lambda>(s, rel, t). if t = component_id then map (\<lambda>c. edge_to c rel) (filter (node_in project_id s) (gr_nodes g)) else [])
             (gr_edges g))
      else [])"

definition run_statement :: "string option \<Rightarrow> 'a \<Rightarrow> exn + 'a" where
  "run_statement outage x = (case outage of None \<Rightarrow> Inr x | Some e \<Rightarrow> Inl (Dom (GraphUnavailable e)))"

section \<open>The service\<close>

text \<open>What \<open>sync_component\<close> writes into the graph: the identity of the component with its latest version.\<close>

definition identity_node :: "component_row \<Rightarrow> component_version \<Rightarrow> component_node" where
  "identity_node c v =
     \<lparr> gn_component_id = cm_id c, gn_project_id = cm_project_id c, gn_organization_id = cm_organization_id c,
       gn_component_type = cm_type c, gn_name = cm_name c, gn_slug = cm_slug c, gn_version = cv_version v,
       gn_checksum = cv_checksum v \<rparr>"

definition sync_component :: "string option \<Rightarrow> uuid \<Rightarrow> uuid \<Rightarrow> graph \<Rightarrow> (component_node \<times> graph) session" where
  "sync_component outage project_id component_id g =
     sbind (get_component project_id component_id) (\<lambda>component.
     sbind (get_latest_component_version project_id component_id) (\<lambda>latest.
     let node = identity_node component latest
     in slift (rbind (run_statement outage (upsert_component_node node g)) (\<lambda>g'. Inr (node, g')))))"

definition require_graph_node :: "string option \<Rightarrow> uuid \<Rightarrow> uuid \<Rightarrow> graph \<Rightarrow> exn + component_node" where
  "require_graph_node outage project_id component_id g =
     rbind (run_statement outage (get_component_node project_id component_id g)) (\<lambda>n.
     case n of None \<Rightarrow> raise_not_found (GraphComponentNotFound component_id) | Some c \<Rightarrow> Inr c)"

definition create_dependency ::
  "(nat \<Rightarrow> string option) \<Rightarrow> uuid \<Rightarrow> uuid \<Rightarrow> uuid \<Rightarrow> relationship_type \<Rightarrow> graph \<Rightarrow> exn + graph" where
  "create_dependency outage project_id source_id target_id rel g =
     rbind (require_graph_node (outage 0) project_id source_id g) (\<lambda>source.
     rbind (require_graph_node (outage 1) project_id target_id g) (\<lambda>target.
     rbind (validate_relationship (gn_component_type source) rel (gn_component_type target)) (\<lambda>_.
     run_statement (outage 2) (merge_edge project_id source_id target_id rel g))))"

definition delete_dependency ::
  "(nat \<Rightarrow> string option) \<Rightarrow> uuid \<Rightarrow> uuid \<Rightarrow> uuid \<Rightarrow> relationship_type \<Rightarrow> graph \<Rightarrow> exn + graph" where
  "delete_dependency outage project_id source_id target_id rel g =
     rbind (require_graph_node (outage 0) project_id source_id g) (\<lambda>_.
     rbind (require_graph_node (outage 1) project_id target_id g) (\<lambda>_.
     run_statement (outage 2) (remove_edge project_id source_id target_id rel g)))"

definition list_dependencies :: "(nat \<Rightarrow> string option) \<Rightarrow> uuid \<Rightarrow> uuid \<Rightarrow> graph \<Rightarrow> exn + dependency_edge list" where
  "list_dependencies outage project_id component_id g =
     rbind (require_graph_node (outage 0) project_id component_id g) (\<lambda>_.
     run_statement (outage 1) (list_direct_dependencies project_id component_id g))"

definition list_dependents :: "(nat \<Rightarrow> string option) \<Rightarrow> uuid \<Rightarrow> uuid \<Rightarrow> graph \<Rightarrow> exn + dependency_edge list" where
  "list_dependents outage project_id component_id g =
     rbind (require_graph_node (outage 0) project_id component_id g) (\<lambda>_.
     run_statement (outage 1) (list_direct_dependents project_id component_id g))"

section \<open>Well-formed graphs\<close>

text \<open>
  The ids of nodes are unique, and an edge leads from a node to a node of the same project by a relationship
  the types of the two allow.
\<close>

definition edge_ok :: "component_node list \<Rightarrow> stored_edge \<Rightarrow> bool" where
  "edge_ok nodes e \<longleftrightarrow>
     (case e of (s, rel, t) \<Rightarrow>
        \<exists>a \<in> set nodes. \<exists>b \<in> set nodes. gn_component_id a = s \<and> gn_component_id b = t
          \<and> gn_project_id a = gn_project_id b
          \<and> is_relationship_allowed (gn_component_type a) rel (gn_component_type b))"

definition graph_ok :: "graph \<Rightarrow> bool" where
  "graph_ok g \<longleftrightarrow>
     distinct (map gn_component_id (gr_nodes g)) \<and> distinct (gr_edges g)
     \<and> list_all (edge_ok (gr_nodes g)) (gr_edges g)"

text \<open>A node agrees with the registry on what never changes there: project and type of its component.\<close>

definition mirrors :: "db \<Rightarrow> component_node \<Rightarrow> bool" where
  "mirrors d n \<longleftrightarrow>
     list_ex (\<lambda>c. cm_id c = gn_component_id n \<and> cm_project_id c = gn_project_id n \<and> cm_type c = gn_component_type n)
       (db_components d)"

definition graph_synced :: "db \<Rightarrow> graph \<Rightarrow> bool" where
  "graph_synced d g \<longleftrightarrow> list_all (mirrors d) (gr_nodes g)"

lemma run_statement_eq_Inr [simp]: "run_statement outage x = Inr y \<longleftrightarrow> outage = None \<and> y = x"
  by (auto simp: run_statement_def split: option.split)

lemma get_component_node_Some:
  "get_component_node p i g = Some n \<Longrightarrow> n \<in> set (gr_nodes g) \<and> gn_component_id n = i \<and> gn_project_id n = p"
  by (auto simp: get_component_node_def node_in_def find_Some_iff)

lemma require_graph_node_Inr:
  "require_graph_node outage p i g = Inr n \<longleftrightarrow> outage = None \<and> get_component_node p i g = Some n"
  by (auto simp: require_graph_node_def rbind_eq_Inr_iff split: option.splits)

lemma create_dependency_Inr:
  "create_dependency outage p s t rel g = Inr g' \<longleftrightarrow>
     (\<exists>a b. outage 0 = None \<and> outage 1 = None \<and> outage 2 = None
        \<and> get_component_node p s g = Some a \<and> get_component_node p t g = Some b
        \<and> is_relationship_allowed (gn_component_type a) rel (gn_component_type b)
        \<and> g' = merge_edge p s t rel g)"
  by (auto simp: create_dependency_def rbind_eq_Inr_iff require_graph_node_Inr validate_relationship_def)

lemma edge_okI:
  "a \<in> set ns \<Longrightarrow> b \<in> set ns \<Longrightarrow> gn_component_id a = s \<Longrightarrow> gn_component_id b = t \<Longrightarrow> gn_project_id a = gn_project_id b
   \<Longrightarrow> is_relationship_allowed (gn_component_type a) rel (gn_component_type b) \<Longrightarrow> edge_ok ns (s, rel, t)"
  unfolding edge_ok_def prod.case by blast

lemma graph_ok_merge:
  assumes "graph_ok g" "get_component_node p s g = Some a" "get_component_node p t g = Some b"
    and "is_relationship_allowed (gn_component_type a) rel (gn_component_type b)"
  shows "graph_ok (merge_edge p s t rel g)"
proof -
  have "a \<in> set (gr_nodes g) \<and> gn_component_id a = s \<and> gn_project_id a = p"
    "b \<in> set (gr_nodes g) \<and> gn_component_id b = t \<and> gn_project_id b = p"
    using get_component_node_Some assms(2,3) by blast+
  then have "edge_ok (gr_nodes g) (s, rel, t)"
    using edge_okI [of a "gr_nodes g" b s t rel] assms(4) by simp
  then show ?thesis
    using assms(1) by (auto simp: graph_ok_def merge_edge_def list_all_iff)
qed

lemma graph_ok_remove: "graph_ok g \<Longrightarrow> graph_ok (remove_edge p s t rel g)"
  by (auto simp: graph_ok_def remove_edge_def list_all_iff removeAll_filter_not_eq)

lemma edge_ok_subset:
  "edge_ok ns (s, rel, t) \<Longrightarrow> (\<And>n. n \<in> set ns \<Longrightarrow> gn_component_id n \<in> {s, t} \<Longrightarrow> n \<in> set ms) \<Longrightarrow> edge_ok ms (s, rel, t)"
  by (fastforce simp: edge_ok_def)

lemma graph_ok_delete_node:
  assumes "graph_ok g"
  shows "graph_ok (delete_component_node p i g)"
proof -
  have "edge_ok (filter (\<lambda>c. \<not> node_in p i c) (gr_nodes g)) (s, rel, t)"
    if "(s, rel, t) \<in> set (gr_edges g)" "s \<noteq> i" "t \<noteq> i" for s rel t
  proof (rule edge_ok_subset)
    show "edge_ok (gr_nodes g) (s, rel, t)" using assms that(1) by (auto simp: graph_ok_def list_all_iff)
  qed (use that in \<open>auto simp: node_in_def\<close>)
  moreover have "distinct (map gn_component_id (filter P ns))" if "distinct (map gn_component_id ns)" for P ns
    using that by (rule distinct_map_filter)
  ultimately show ?thesis using assms by (auto simp: graph_ok_def delete_component_node_def list_all_iff)
qed

lemma graph_ok_upsert:
  assumes "graph_ok g" "\<And>c. c \<in> set (gr_nodes g) \<Longrightarrow> gn_component_id c = gn_component_id n \<Longrightarrow>
      gn_project_id c = gn_project_id n \<and> gn_component_type c = gn_component_type n"
  shows "graph_ok (upsert_component_node n g)"
proof (cases "list_ex (\<lambda>c. gn_component_id c = gn_component_id n) (gr_nodes g)")
  case True
  let ?f = "\<lambda>c. if gn_component_id c = gn_component_id n then n else c"
  have ids: "map gn_component_id (map ?f ns) = map gn_component_id ns" for ns by (induction ns) simp_all
  have "edge_ok (map ?f (gr_nodes g)) (s, rel, t)" if e: "edge_ok (gr_nodes g) (s, rel, t)" for s rel t
  proof -
    obtain a b where ab: "a \<in> set (gr_nodes g)" "b \<in> set (gr_nodes g)" "gn_component_id a = s" "gn_component_id b = t"
      "gn_project_id a = gn_project_id b" "is_relationship_allowed (gn_component_type a) rel (gn_component_type b)"
      using e by (auto simp: edge_ok_def)
    have same: "gn_component_id (?f c) = gn_component_id c \<and> gn_project_id (?f c) = gn_project_id c
        \<and> gn_component_type (?f c) = gn_component_type c" if "c \<in> set (gr_nodes g)" for c
      using assms(2) [OF that] by auto
    have "?f a \<in> set (map ?f (gr_nodes g))" "?f b \<in> set (map ?f (gr_nodes g))" using ab by auto
    then show ?thesis
      by (rule edge_okI) (insert same [OF ab(1)] same [OF ab(2)] ab(3-6), auto)
  qed
  then have "edge_ok (gr_nodes g) e \<Longrightarrow> edge_ok (map ?f (gr_nodes g)) e" for e by (cases e) blast
  moreover have "\<forall>e \<in> set (gr_edges g). edge_ok (gr_nodes g) e"
    using assms(1) unfolding graph_ok_def list_all_iff by blast
  ultimately have "list_all (edge_ok (map ?f (gr_nodes g))) (gr_edges g)"
    unfolding list_all_iff by blast
  moreover have "distinct (map gn_component_id (map ?f (gr_nodes g)))" "distinct (gr_edges g)"
    using assms(1) unfolding ids graph_ok_def by blast+
  ultimately show ?thesis using True unfolding graph_ok_def upsert_component_node_def by (simp del: map_map)
next
  case False
  have "edge_ok (gr_nodes g @ [n]) (s, rel, t)" if "edge_ok (gr_nodes g) (s, rel, t)" for s rel t
    using that by (rule edge_ok_subset) simp
  then show ?thesis
    using assms(1) False by (auto simp: graph_ok_def upsert_component_node_def list_all_iff list_ex_iff)
qed

lemma graph_ok_empty: "graph_ok empty_graph"
  by (simp add: graph_ok_def empty_graph_def)

end
