(* ===== verification/Blast_Laws.thy ===== *)
theory Blast_Laws
  imports Blast_Radius
begin

text \<open>
  The search against its specification: \<open>dependent\<close> is the relation the graph answers with, the distance of a
  component is the least number of steps from the start, and the invariant of the loop says that the items
  still to come and those done are all the entries, ordered by depth.
\<close>

definition dependent :: "(uuid \<Rightarrow> exn + dependency_edge list) \<Rightarrow> uuid \<Rightarrow> uuid \<Rightarrow> bool" where
  "dependent f c c' \<longleftrightarrow> (\<exists>es. f c = Inr es \<and> c' \<in> de_component_id ` set es)"

text \<open>A path of the search: from the start, along the relation, to the component.\<close>

definition path_to :: "(uuid \<Rightarrow> uuid \<Rightarrow> bool) \<Rightarrow> uuid \<Rightarrow> uuid \<Rightarrow> nat \<Rightarrow> uuid list \<Rightarrow> bool" where
  "path_to R start c d p \<longleftrightarrow> p \<noteq> [] \<and> hd p = start \<and> last p = c \<and> length p = Suc d \<and> successively R p"

lemma path_to_start: "path_to R c c 0 [c]"
  by (simp add: path_to_def)

lemma path_to_snoc: "path_to R s c d p \<Longrightarrow> R c c' \<Longrightarrow> path_to R s c' (Suc d) (p @ [c'])"
  by (auto simp: path_to_def successively_append_iff)

lemma path_to_steps: "path_to R s c d p \<Longrightarrow> (R ^^ d) s c"
proof (induction p arbitrary: c d rule: rev_induct)
  case (snoc x xs)
  show ?case
  proof (cases "xs = []")
    case False
    then obtain d' where d: "d = Suc d'" using snoc.prems by (cases d) (auto simp: path_to_def)
    have "path_to R s (last xs) d' xs" "R (last xs) c"
      using snoc.prems False d by (auto simp: path_to_def successively_append_iff)
    then show ?thesis using snoc.IH d by auto
  qed (use snoc.prems in \<open>auto simp: path_to_def\<close>)
qed (simp add: path_to_def)

section \<open>The invariant of the loop\<close>

definition item_of :: "blast_entry \<Rightarrow> queue_item" where
  "item_of e = (be_component_id e, be_depth e, be_path e)"

definition items :: "uuid \<Rightarrow> blast_entry list \<Rightarrow> queue_item list" where
  "items start b = (start, 0, [start]) # map item_of b"

abbreviation item_depth :: "queue_item \<Rightarrow> nat" where
  "item_depth x \<equiv> fst (snd x)"

text \<open>What holds of the entries \<open>b\<close> whatever is still in the queue.\<close>

definition entries_ok :: "(uuid \<Rightarrow> uuid \<Rightarrow> bool) \<Rightarrow> uuid \<Rightarrow> nat \<Rightarrow> blast_entry list \<Rightarrow> bool" where
  "entries_ok R start m b \<longleftrightarrow>
     start \<notin> set (map be_component_id b) \<and> distinct (map be_component_id b)
     \<and> sorted (map item_depth (items start b))
     \<and> (\<forall>(c, d, p) \<in> set (items start b). d \<le> m \<and> path_to R start c d p)"

definition reached :: "uuid \<Rightarrow> blast_entry list \<Rightarrow> uuid \<Rightarrow> nat \<Rightarrow> bool" where
  "reached start b c n \<longleftrightarrow> (\<exists>(c', d, p) \<in> set (items start b). c' = c \<and> d \<le> n)"

definition search_inv :: "(uuid \<Rightarrow> uuid \<Rightarrow> bool) \<Rightarrow> uuid \<Rightarrow> nat \<Rightarrow> search \<Rightarrow> bool" where
  "search_inv R start m st \<longleftrightarrow>
     (case st of (v, q, b) \<Rightarrow>
        v = insert start (be_component_id ` set b) \<and> entries_ok R start m b
        \<and> (\<exists>done_items. items start b = done_items @ q
             \<and> (\<forall>(c, d, p) \<in> set done_items. d < m \<longrightarrow> (\<forall>c'. R c c' \<longrightarrow> reached start b c' (Suc d))))
        \<and> (\<forall>x \<in> set (items start b). q \<noteq> [] \<longrightarrow> item_depth x \<le> Suc (item_depth (hd q))))"

lemma search_inv_start: "search_inv R start m ({start}, [(start, 0, [start])], [])"
  by (auto simp: search_inv_def entries_ok_def items_def path_to_start)

text \<open>An item at the last depth is dropped.\<close>

lemma sorted_tail_depth:
  assumes "sorted (map item_depth (ds @ (c, d, p) # q))" "x \<in> set ds \<union> set q" "q \<noteq> []" "y \<in> set (ds @ (c, d, p) # q)"
    "item_depth y \<le> Suc d"
  shows "item_depth y \<le> Suc (item_depth (hd q))"
proof -
  have "d \<le> item_depth (hd q)" using assms(1,3) by (cases q) (auto simp: sorted_append)
  then show ?thesis using assms(5) by simp
qed

lemma search_inv_drop:
  assumes "search_inv R start m (v, (c, d, p) # q, b)" "m \<le> d"
  shows "search_inv R start m (v, q, b)"
proof -
  obtain ds where ds: "items start b = ds @ (c, d, p) # q"
    "\<forall>(c, d, p) \<in> set ds. d < m \<longrightarrow> (\<forall>c'. R c c' \<longrightarrow> reached start b c' (Suc d))"
    using assms(1) by (auto simp: search_inv_def)
  have srt: "sorted (map item_depth (ds @ (c, d, p) # q))"
    using assms(1) ds(1) by (simp add: search_inv_def entries_ok_def)
  have near: "item_depth x \<le> Suc (item_depth (hd q))" if "x \<in> set (items start b)" "q \<noteq> []" for x
  proof -
    have "item_depth x \<le> Suc d" using assms(1) that(1) by (auto simp: search_inv_def)
    moreover have "d \<le> item_depth (hd q)" using srt that(2) by (cases q) (auto simp: sorted_append)
    ultimately show ?thesis by simp
  qed
  have "items start b = (ds @ [(c, d, p)]) @ q" using ds(1) by simp
  moreover have "\<forall>(c, d, p) \<in> set (ds @ [(c, d, p)]). d < m \<longrightarrow> (\<forall>c'. R c c' \<longrightarrow> reached start b c' (Suc d))"
    using ds(2) assms(2) by auto
  ultimately show ?thesis
    using assms(1) near unfolding search_inv_def prod.case by blast
qed

text \<open>An item is replaced by its unseen dependents.\<close>

lemma items_append: "items start (b @ b') = items start b @ map item_of b'"
  by (simp add: items_def)

lemma item_of_entry_at: "item_of (entry_at (d + 1) (p @ [de_component_id e]) e) = item_at d p e"
  by (simp add: item_of_def entry_at_def item_at_def)

lemma reached_append: "reached start b c n \<Longrightarrow> reached start (b @ b') c n"
  by (auto simp: reached_def items_append)

lemma search_inv_expand:
  assumes inv: "search_inv R start m (v, (c, d, p) # q, b)" and "d < m"
    and es: "\<And>c'. R c c' \<longleftrightarrow> c' \<in> de_component_id ` set es"
  shows "search_inv R start m (expand d p es (v, q, b))"
proof -
  define new where "new = unseen v (sort_key de_component_id es)"
  define b' where "b' = map (\<lambda>e. entry_at (d + 1) (p @ [de_component_id e]) e) new"
  have ids: "distinct (map de_component_id new)" "de_component_id ` set new = de_component_id ` set es - v"
    using unseen_ids [of v "sort_key de_component_id es"] by (simp_all add: new_def)
  have b'_ids: "map be_component_id b' = map de_component_id new" by (simp add: b'_def entry_at_def comp_def)
  have b'_items: "map item_of b' = map (item_at d p) new"
    using item_of_entry_at by (simp add: b'_def comp_def)
  have st: "expand d p es (v, q, b) = (v \<union> de_component_id ` set es, q @ map item_of b', b @ b')"
    by (simp add: expand_eq b'_items new_def [symmetric]) (simp add: b'_def)
  obtain ds where ds: "items start b = ds @ (c, d, p) # q"
    "\<forall>(c, d, p) \<in> set ds. d < m \<longrightarrow> (\<forall>c'. R c c' \<longrightarrow> reached start b c' (Suc d))"
    using inv by (auto simp: search_inv_def)
  have v: "v = insert start (be_component_id ` set b)" and ok: "entries_ok R start m b"
    and near: "\<forall>x \<in> set (items start b). item_depth x \<le> Suc d"
    using inv by (auto simp: search_inv_def)
  have here: "path_to R start c d p" using ok ds(1) by (auto simp: entries_ok_def)
  have new_item: "\<exists>c'. x = (c', Suc d, p @ [c']) \<and> R c c'" if "x \<in> set (map item_of b')" for x
  proof -
    obtain e where e: "e \<in> set new" "x = item_at d p e" using \<open>x \<in> _\<close> unfolding b'_items by auto
    then have "R c (de_component_id e)" using ids(2) unfolding es by blast
    then show ?thesis using e(2) by (simp add: item_at_def)
  qed
  have depths: "map item_depth (map item_of b') = replicate (length new) (Suc d)"
    unfolding b'_items by (simp add: item_at_def comp_def map_replicate_const)
  have ok': "entries_ok R start m (b @ b')"
  proof -
    have "start \<notin> set (map be_component_id (b @ b'))" "distinct (map be_component_id (b @ b'))"
      using ok ids v b'_ids unfolding entries_ok_def by (auto simp: arg_cong [OF b'_ids, of set, simplified])
    moreover have "sorted (map item_depth (items start (b @ b')))"
      using ok near unfolding items_append map_append depths by (auto simp: entries_ok_def sorted_append)
    moreover have "\<forall>(c, d, p) \<in> set (items start (b @ b')). d \<le> m \<and> path_to R start c d p"
      using ok new_item path_to_snoc [OF here] \<open>d < m\<close> unfolding items_append entries_ok_def by fastforce
    ultimately show ?thesis unfolding entries_ok_def by blast
  qed
  have all_reached: "reached start (b @ b') c' (Suc d)" if "R c c'" for c'
  proof (cases "c' \<in> v")
    case True
    then have "c' \<in> fst ` set (items start b)" by (auto simp: v items_def item_of_def image_image)
    then obtain x where "x \<in> set (items start b)" "fst x = c'" by blast
    then obtain d' p' where "(c', d', p') \<in> set (items start b)" by (metis prod.collapse)
    moreover from this have "d' \<le> Suc d" using near by fastforce
    ultimately show ?thesis unfolding reached_def items_append set_append by blast
  next
    case False
    then have "c' \<in> de_component_id ` set new" using that es ids(2) by blast
    then have "(c', Suc d, p @ [c']) \<in> set (map item_of b')" unfolding b'_items by (auto simp: item_at_def)
    then show ?thesis unfolding reached_def items_append by force
  qed
  have split': "items start (b @ b') = (ds @ [(c, d, p)]) @ (q @ map item_of b')"
    by (simp add: items_append ds(1))
  have done': "\<forall>(c, d, p) \<in> set (ds @ [(c, d, p)]). d < m \<longrightarrow> (\<forall>c'. R c c' \<longrightarrow> reached start (b @ b') c' (Suc d))"
    using ds(2) reached_append all_reached by fastforce
  have near': "item_depth x \<le> Suc (item_depth (hd (q @ map item_of b')))"
    if "x \<in> set (items start (b @ b'))" "q @ map item_of b' \<noteq> []" for x
  proof -
    have "item_depth y = Suc d" if "y \<in> set (map item_of b')" for y using new_item [OF that] by auto
    then have "item_depth x \<le> Suc d"
      using that(1) near unfolding items_append set_append by (metis Un_iff order_refl)
    moreover have "d \<le> item_depth (hd (q @ map item_of b'))"
    proof (cases q)
      case Nil
      then have "hd (q @ map item_of b') \<in> set (map item_of b')" using that(2) by (simp del: set_map)
      then show ?thesis using new_item by (metis fst_conv le_SucI order_refl snd_conv)
    next
      case (Cons y ys)
      then show ?thesis using ok ds(1) by (auto simp: entries_ok_def sorted_append)
    qed
    ultimately show ?thesis by simp
  qed
  have "v \<union> de_component_id ` set es = insert start (be_component_id ` set (b @ b'))"
    using ids(2) arg_cong [OF b'_ids, of set] v by auto
  then show ?thesis
    unfolding st search_inv_def prod.case using ok' split' done' near' by blast
qed

section \<open>The search is exact\<close>

lemma bfs_inv:
  "bfs f m st = Inr b' \<Longrightarrow> search_inv (dependent f) start m st \<Longrightarrow> \<exists>v. search_inv (dependent f) start m (v, [], b')"
proof (induction f m st rule: bfs.induct)
  case (2 f m v c d p q b)
  show ?case
  proof (cases "m \<le> d")
    case True
    then show ?thesis using 2 search_inv_drop by simp
  next
    case False
    then obtain es where es: "f c = Inr es" "bfs f m (expand d p es (v, q, b)) = Inr b'"
      using "2.prems"(1) by (auto simp: rbind_eq_Inr_iff)
    have "search_inv (dependent f) start m (expand d p es (v, q, b))"
      by (rule search_inv_expand [OF "2.prems"(2)]) (use False es(1) in \<open>auto simp: dependent_def\<close>)
    then show ?thesis using "2.IH"(2) [OF False es] by blast
  qed
qed auto

lemma reached_all:
  assumes "search_inv R start m (v, [], b)" "(R ^^ n) start c" "n \<le> m"
  shows "reached start b c n"
  using assms(2,3)
proof (induction n arbitrary: c)
  case 0
  then show ?case by (simp add: reached_def items_def)
next
  case (Suc n)
  then obtain c0 where c0: "(R ^^ n) start c0" "R c0 c" by auto
  then have "reached start b c0 n" using Suc by simp
  then obtain d p where dp: "(c0, d, p) \<in> set (items start b)" "d \<le> n" by (auto simp: reached_def)
  then have "reached start b c (Suc d)" using assms(1) c0(2) Suc.prems(2) by (fastforce simp: search_inv_def)
  moreover have "Suc d \<le> Suc n" using dp(2) by simp
  ultimately show ?case unfolding reached_def by (blast intro: order_trans)
qed

text \<open>The specification: the components other than the start within \<open>m\<close> steps.\<close>

definition in_reach :: "(uuid \<Rightarrow> uuid \<Rightarrow> bool) \<Rightarrow> uuid \<Rightarrow> nat \<Rightarrow> uuid set" where
  "in_reach R start m = {c. c \<noteq> start \<and> (\<exists>n \<le> m. (R ^^ n) start c)}"

lemma bfs_exact:
  assumes "bfs f m ({start}, [(start, 0, [start])], []) = Inr b"
  shows "distinct (map be_component_id b) \<and> set (map be_component_id b) = in_reach (dependent f) start m
    \<and> sorted (map be_depth b)
    \<and> (\<forall>e \<in> set b. be_depth e = (LEAST n. (dependent f ^^ n) start (be_component_id e))
        \<and> path_to (dependent f) start (be_component_id e) (be_depth e) (be_path e))"
proof -
  let ?R = "dependent f"
  obtain v where inv: "search_inv ?R start m (v, [], b)" using bfs_inv [OF assms search_inv_start] by blast
  then have ok: "entries_ok ?R start m b" by (simp add: search_inv_def)
  have entry: "be_depth e \<le> m \<and> path_to ?R start (be_component_id e) (be_depth e) (be_path e)" if "e \<in> set b" for e
    using ok that by (auto simp: entries_ok_def items_def item_of_def)
  have found: "\<exists>e \<in> set b. be_component_id e = c \<and> be_depth e \<le> n" if "(?R ^^ n) start c" "n \<le> m" "c \<noteq> start" for n c
    using reached_all [OF inv that(1,2)] that(3) by (auto simp: reached_def items_def item_of_def)
  have "start \<notin> set (map be_component_id b)" and dist: "distinct (map be_component_id b)"
    using ok by (simp_all add: entries_ok_def)
  then have "set (map be_component_id b) = in_reach ?R start m"
    using entry found path_to_steps unfolding in_reach_def by (fastforce simp: image_iff)
  moreover have "sorted (map be_depth b)"
    using ok by (simp add: entries_ok_def items_def item_of_def comp_def)
  moreover have "be_depth e = (LEAST n. (?R ^^ n) start (be_component_id e))" if e: "e \<in> set b" for e
  proof (rule Least_equality [symmetric])
    show "(?R ^^ be_depth e) start (be_component_id e)" using entry [OF e] path_to_steps by blast
    fix n assume n: "(?R ^^ n) start (be_component_id e)"
    show "be_depth e \<le> n"
    proof (rule ccontr)
      assume "\<not> be_depth e \<le> n"
      then have "n \<le> m" "n < be_depth e" using entry [OF e] by auto
      then obtain e' where "e' \<in> set b" "be_component_id e' = be_component_id e" "be_depth e' \<le> n"
        using found [OF n] \<open>start \<notin> _\<close> e by auto
      then have "e' = e" using dist e by (auto simp: distinct_map inj_on_def)
      then show False using \<open>be_depth e' \<le> n\<close> \<open>n < be_depth e\<close> by simp
    qed
  qed
  ultimately show ?thesis using entry dist by blast
qed

end
