(* ===== verification/Blast_Properties.thy ===== *)
theory Blast_Properties
  imports Blast_Laws Risk_Service
begin

text \<open>
  The properties of the dependency graph and of the blast radius: every operation keeps the graph well formed,
  the search is exact, it ends with a bounded answer, and a graph that cannot answer never stops a risk
  assessment.
\<close>

section \<open>The graph stays well formed\<close>

lemma get_component_row:
  assumes "get_component p i s = (Inr c, t)"
  shows "c \<in> set (db_components (tx_current s)) \<and> cm_id c = i \<and> cm_project_id c = p"
proof -
  have "filter (\<lambda>c. cm_id c = i \<and> cm_project_id c = p) (db_components (tx_current s)) = [c]"
    using assms by (auto simp: get_component_def sthen_eq_Inr srequire_eq_Inr component_by_id_def fetch_one_eq_Inr
        require_project_def project_by_id_def)
  from filter_single [OF this] show ?thesis by simp
qed

lemma get_component_state: "get_component p i s = (r, t) \<Longrightarrow> t = s"
  by (rule readonly_state [of "get_component p i"])
    (simp_all add: get_component_def require_project_def project_by_id_def component_by_id_def readonly_intros)

lemma get_latest_state: "get_latest_component_version p i s = (r, t) \<Longrightarrow> t = s"
  by (rule readonly_state [of "get_latest_component_version p i"])
    (simp_all add: get_latest_component_version_def get_component_def require_project_def project_by_id_def
      component_by_id_def latest_version_def readonly_intros)

lemma sync_component_Inr:
  assumes "sync_component outage p i g s = (Inr (n, g'), t)"
  shows "t = s \<and> g' = upsert_component_node n g
    \<and> (\<exists>c \<in> set (db_components (tx_current s)). \<exists>v. cm_id c = i \<and> cm_project_id c = p \<and> n = identity_node c v)"
proof -
  obtain c v s' where "get_component p i s = (Inr c, s')" "get_latest_component_version p i s' = (Inr v, t)"
    "n = identity_node c v" "g' = upsert_component_node n g"
    using assms by (auto simp: sync_component_def sbind_eq_Inr Let_def session_basic rbind_eq_Inr_iff
        dest: get_latest_state)
  then show ?thesis using get_component_row [of p i s c s'] get_component_state get_latest_state by blast
qed

text \<open>The operations of the service on the graph, the registry being as in \<open>d\<close>.\<close>

inductive graph_step :: "db \<Rightarrow> graph \<Rightarrow> graph \<Rightarrow> bool" for d where
  synced: "graph_step d g g'" if "sync_component outage p i g (begin_txn d) = (Inr (n, g'), t)"
| created: "graph_step d g g'" if "create_dependency outages p i j rel g = Inr g'"
| removed: "graph_step d g g'" if "delete_dependency outages p i j rel g = Inr g'"

definition registry_unique :: "db \<Rightarrow> bool" where
  "registry_unique d \<longleftrightarrow> no_clash component_clash (db_components d)"

lemma mirrors_same:
  assumes "registry_unique d" "mirrors d a" "mirrors d b" "gn_component_id a = gn_component_id b"
  shows "gn_project_id a = gn_project_id b \<and> gn_component_type a = gn_component_type b"
  using assms same_id_same_component [of "db_components d"] by (fastforce simp: mirrors_def list_ex_iff registry_unique_def)

lemma mirrors_identity: "c \<in> set (db_components d) \<Longrightarrow> mirrors d (identity_node c v)"
  by (auto simp: mirrors_def identity_node_def list_ex_iff)

lemma graph_synced_upsert: "graph_synced d g \<Longrightarrow> mirrors d n \<Longrightarrow> graph_synced d (upsert_component_node n g)"
  by (auto simp: graph_synced_def upsert_component_node_def list_all_iff)

lemma delete_dependency_Inr: "delete_dependency outage p s t rel g = Inr g' \<Longrightarrow> g' = remove_edge p s t rel g"
  by (auto simp: delete_dependency_def rbind_eq_Inr_iff)

lemma graph_step_keeps:
  assumes "registry_unique d" "graph_step d g g'" "graph_ok g" "graph_synced d g"
  shows "graph_ok g' \<and> graph_synced d g'"
  using assms(2)
proof cases
  case (synced outage p i n t)
  then obtain c v where c: "c \<in> set (db_components d)" "n = identity_node c v" "g' = upsert_component_node n g"
    using sync_component_Inr [OF synced(1)] by auto
  have n: "mirrors d n" using c mirrors_identity by blast
  have "gn_project_id a = gn_project_id n \<and> gn_component_type a = gn_component_type n"
    if "a \<in> set (gr_nodes g)" "gn_component_id a = gn_component_id n" for a
    using mirrors_same [OF assms(1) _ n that(2)] assms(4) that(1) by (auto simp: graph_synced_def list_all_iff)
  then show ?thesis using graph_ok_upsert [OF assms(3)] graph_synced_upsert [OF assms(4) n] c(3) by blast
next
  case (created outages p i j rel)
  then show ?thesis
    using graph_ok_merge [OF assms(3)] assms(4)
    by (auto simp: create_dependency_Inr) (auto simp: merge_edge_def graph_synced_def)
next
  case (removed outages p i j rel)
  then have "g' = remove_edge p i j rel g" by (rule delete_dependency_Inr)
  then show ?thesis
    using graph_ok_remove [OF assms(3)] assms(4) by (simp add: remove_edge_def graph_synced_def)
qed

text \<open>
  C26: whatever the service does to a graph, the ids of its nodes stay unique, no edge is stored twice, every edge
  connects two nodes of one project by a relationship the types of the two components allow, and every node
  agrees with the registry.
\<close>

theorem graph_stays_ok:
  assumes "registry_unique d" "(graph_step d)\<^sup>*\<^sup>* empty_graph g"
  shows "graph_ok g \<and> graph_synced d g"
  using assms(2)
proof (induction rule: rtranclp_induct)
  case base
  show ?case using graph_ok_empty by (simp add: graph_synced_def empty_graph_def)
next
  case (step g g')
  then show ?case using graph_step_keeps [OF assms(1)] by blast
qed

text \<open>A registry with a tool and an agent that calls it.\<close>

definition graph_db :: db where
  "graph_db = empty_db
     \<lparr> db_projects := [\<lparr> pj_id = 1, pj_organization_id = 1, pj_name = ''P'', pj_slug = ''p'' \<rparr>],
       db_components :=
         [\<lparr> cm_id = 1, cm_organization_id = 1, cm_project_id = 1, cm_type = C_TOOL, cm_name = ''search'',
            cm_slug = ''search'', cm_description = None, cm_status = ACTIVE \<rparr>,
          \<lparr> cm_id = 2, cm_organization_id = 1, cm_project_id = 1, cm_type = C_AGENT, cm_name = ''agent'',
            cm_slug = ''agent'', cm_description = None, cm_status = ACTIVE \<rparr>],
       db_versions :=
         [\<lparr> cv_id = 3, cv_component_id = 1, cv_version = ''1'', cv_sequence = 1, cv_content = [],
            cv_checksum = ''x'', cv_metadata = JNull \<rparr>,
          \<lparr> cv_id = 4, cv_component_id = 2, cv_version = ''1'', cv_sequence = 2, cv_content = [],
            cv_checksum = ''y'', cv_metadata = JNull \<rparr>] \<rparr>"

definition tool_node :: component_node where
  "tool_node = identity_node (db_components graph_db ! 0) (db_versions graph_db ! 0)"

definition agent_node :: component_node where
  "agent_node = identity_node (db_components graph_db ! 1) (db_versions graph_db ! 1)"

lemma sync_both:
  "sync_component None 1 1 empty_graph (begin_txn graph_db)
     = (Inr (tool_node, \<lparr> gr_nodes = [tool_node], gr_edges = [] \<rparr>), begin_txn graph_db)"
  "sync_component None 1 2 \<lparr> gr_nodes = [tool_node], gr_edges = [] \<rparr> (begin_txn graph_db)
     = (Inr (agent_node, \<lparr> gr_nodes = [tool_node, agent_node], gr_edges = [] \<rparr>), begin_txn graph_db)"
  by (simp_all add: sync_component_def get_component_def get_latest_component_version_def require_project_def
      project_by_id_def component_by_id_def latest_version_def versions_of_def fetch_one_def sbind_def sthen_def
      srequire_def session_basic Let_def run_statement_def upsert_component_node_def empty_graph_def tool_node_def
      agent_node_def identity_node_def graph_db_def)

lemma sample_call_created:
  "create_dependency (\<lambda>_. None) 1 2 1 CALLS \<lparr> gr_nodes = [tool_node, agent_node], gr_edges = [] \<rparr>
     = Inr \<lparr> gr_nodes = [tool_node, agent_node], gr_edges = [(2, CALLS, 1)] \<rparr>"
  by (simp add: create_dependency_def require_graph_node_def run_statement_def get_component_node_def node_in_def
      tool_node_def agent_node_def identity_node_def graph_db_def rbind_def validate_relationship_def rguard_def
      is_relationship_allowed_def allowed_relationships_def merge_edge_def both_in_def)

theorem graph_stays_ok_witness:
  "graph_ok \<lparr> gr_nodes = [tool_node, agent_node], gr_edges = [(2, CALLS, 1)] \<rparr>
   \<and> graph_synced graph_db \<lparr> gr_nodes = [tool_node, agent_node], gr_edges = [(2, CALLS, 1)] \<rparr>"
proof (rule graph_stays_ok)
  show "registry_unique graph_db" by (simp add: registry_unique_def graph_db_def component_clash_def)
  show "(graph_step graph_db)\<^sup>*\<^sup>* empty_graph \<lparr> gr_nodes = [tool_node, agent_node], gr_edges = [(2, CALLS, 1)] \<rparr>"
    using graph_step.synced [OF sync_both(1)] graph_step.synced [OF sync_both(2)] graph_step.created [OF sample_call_created]
    by (meson rtranclp.rtrancl_into_rtrancl rtranclp.rtrancl_refl)
qed

section \<open>The search\<close>

definition stored_dependent :: "uuid \<Rightarrow> graph \<Rightarrow> uuid \<Rightarrow> uuid \<Rightarrow> bool" where
  "stored_dependent project_id g c c' \<longleftrightarrow> c' \<in> de_component_id ` set (list_direct_dependents project_id c g)"

text \<open>The source of an edge that leads to the component, both being nodes of the project.\<close>

lemma stored_dependent_iff:
  "stored_dependent p g c c' \<longleftrightarrow>
    (\<exists>rel. (c', rel, c) \<in> set (gr_edges g)) \<and> list_ex (node_in p c) (gr_nodes g) \<and> list_ex (node_in p c') (gr_nodes g)"
proof -
  define h where "h e = (case e of (s, rel, t) \<Rightarrow>
      if t = c then map (\<lambda>n. edge_to n rel) (filter (node_in p s) (gr_nodes g)) else [])" for e :: stored_edge
  have one: "c' \<in> de_component_id ` set (h (s, rel, t)) \<longleftrightarrow> t = c \<and> s = c' \<and> list_ex (node_in p c') (gr_nodes g)" for s rel t
    by (auto simp: h_def edge_to_def node_in_def list_ex_iff image_iff)
  have "c' \<in> de_component_id ` set (concat (map h es)) \<longleftrightarrow>
      (\<exists>rel. (c', rel, c) \<in> set es) \<and> list_ex (node_in p c') (gr_nodes g)" for es
  proof (induction es)
    case (Cons e es)
    then show ?case using one by (cases e) (auto simp: image_Un)
  qed simp
  moreover have "list_direct_dependents p c g
      = (if list_ex (node_in p c) (gr_nodes g) then concat (map h (gr_edges g)) else [])"
    by (simp add: list_direct_dependents_def h_def [abs_def])
  ultimately show ?thesis
    unfolding stored_dependent_def by (cases "list_ex (node_in p c) (gr_nodes g)") (simp_all del: set_concat)
qed

lemma run_None: "(\<lambda>c. run_statement None (f c)) = (\<lambda>c. Inr (f c))"
  by (simp add: run_statement_def fun_eq_iff)

lemma dependent_run:
  "dependent (\<lambda>c. Inr (list_direct_dependents p c g)) = stored_dependent p g"
  by (auto simp: dependent_def stored_dependent_def fun_eq_iff)

lemma bfs_total: "(\<And>c. \<exists>es. f c = Inr es) \<Longrightarrow> \<exists>b. bfs f m st = Inr b"
proof (induction f m st rule: bfs.induct)
  case (2 f m v c d p q b)
  obtain es where "f c = Inr es" using "2.prems" by blast
  then show ?case using 2 by simp
qed simp

lemma stored_blast_radius_run:
  "stored_blast_radius None (\<lambda>_. None) g p c m = Inr r \<longleftrightarrow>
     1 \<le> m \<and> get_component_node p c g \<noteq> None
     \<and> (\<exists>b. bfs (\<lambda>c. Inr (list_direct_dependents p c g)) (nat m) ({c}, [(c, 0, [c])], []) = Inr b
        \<and> r = \<lparr> br_component_id = c, br_max_depth = m, br_direct_dependents = filter (\<lambda>e. be_depth e = 1) b,
               br_transitive_dependents = b, br_affected_by_type = fold (\<lambda>e. add_to_group (be_component_type e) e) b [] \<rparr>)"
  by (auto simp: stored_blast_radius_def blast_radius_def run_None rbind_eq_Inr_iff run_statement_def
      split: option.splits)

lemma stored_search_runs:
  "(\<exists>r. stored_blast_radius None (\<lambda>_. None) g p c m = Inr r) \<longleftrightarrow> 1 \<le> m \<and> get_component_node p c g \<noteq> None"
  using bfs_total [of "\<lambda>c. Inr (list_direct_dependents p c g)"] by (simp add: stored_blast_radius_run)

lemma stored_search_found:
  assumes "stored_blast_radius None (\<lambda>_. None) g p c m = Inr r"
  defines "found \<equiv> br_transitive_dependents r" and "R \<equiv> stored_dependent p g"
  shows "distinct (map be_component_id found)
    \<and> set (map be_component_id found) = in_reach R c (nat m)
    \<and> sorted (map be_depth found)
    \<and> list_all (\<lambda>e. be_depth e = (LEAST n. (R ^^ n) c (be_component_id e))
                 \<and> path_to R c (be_component_id e) (be_depth e) (be_path e)) found
    \<and> br_direct_dependents r = filter (\<lambda>e. be_depth e = 1) found"
proof -
  obtain b where b: "bfs (\<lambda>c. Inr (list_direct_dependents p c g)) (nat m) ({c}, [(c, 0, [c])], []) = Inr b"
    "br_transitive_dependents r = b" "br_direct_dependents r = filter (\<lambda>e. be_depth e = 1) b"
    using assms(1) unfolding stored_blast_radius_run by auto
  show ?thesis
    using bfs_exact [OF b(1)] unfolding dependent_run list_all_iff found_def R_def b(2,3) by blast
qed

text \<open>
  C5: on a graph that answers, the search succeeds exactly for a known component and a depth of one at least, and
  then it lists the components from which the changed one is reached along at most that many edges, each once,
  with the length of a shortest path and such a path, ordered by that length; the direct ones are those at
  depth one.
\<close>

theorem blast_radius_exact:
  "((\<exists>r. stored_blast_radius None (\<lambda>_. None) g p c m = Inr r) \<longleftrightarrow> 1 \<le> m \<and> get_component_node p c g \<noteq> None)
   \<and> (case stored_blast_radius None (\<lambda>_. None) g p c m of
        Inl _ \<Rightarrow> True
      | Inr r \<Rightarrow>
          (let found = br_transitive_dependents r; R = stored_dependent p g
           in distinct (map be_component_id found)
            \<and> set (map be_component_id found) = in_reach R c (nat m)
            \<and> sorted (map be_depth found)
            \<and> list_all (\<lambda>e. be_depth e = (LEAST n. (R ^^ n) c (be_component_id e))
                         \<and> path_to R c (be_component_id e) (be_depth e) (be_path e)) found
            \<and> br_direct_dependents r = filter (\<lambda>e. be_depth e = 1) found))"
proof (rule conjI [OF stored_search_runs])
  show "case stored_blast_radius None (\<lambda>_. None) g p c m of
        Inl _ \<Rightarrow> True
      | Inr r \<Rightarrow>
          (let found = br_transitive_dependents r; R = stored_dependent p g
           in distinct (map be_component_id found)
            \<and> set (map be_component_id found) = in_reach R c (nat m)
            \<and> sorted (map be_depth found)
            \<and> list_all (\<lambda>e. be_depth e = (LEAST n. (R ^^ n) c (be_component_id e))
                         \<and> path_to R c (be_component_id e) (be_depth e) (be_path e)) found
            \<and> br_direct_dependents r = filter (\<lambda>e. be_depth e = 1) found)"
    using stored_search_found [of g p c m] by (cases "stored_blast_radius None (\<lambda>_. None) g p c m") (simp_all only: sum.case Let_def)
qed

text \<open>A tool used by two agents, one of which another agent depends on, in a circle.\<close>

definition sample_node :: "uuid \<Rightarrow> component_type \<Rightarrow> component_node" where
  "sample_node i ct = \<lparr> gn_component_id = i, gn_project_id = 1, gn_organization_id = 1, gn_component_type = ct,
     gn_name = ''c'', gn_slug = ''c'', gn_version = ''1'', gn_checksum = ''x'' \<rparr>"

definition sample_graph :: graph where
  "sample_graph =
     \<lparr> gr_nodes = [sample_node 1 C_TOOL, sample_node 2 C_AGENT, sample_node 3 C_AGENT, sample_node 4 C_AGENT],
       gr_edges = [(2, CALLS, 1), (3, CALLS, 1), (4, DEPENDS_ON, 3), (3, DEPENDS_ON, 4)] \<rparr>"

lemma sample_graph_ok: "graph_ok sample_graph"
  by (simp add: graph_ok_def sample_graph_def sample_node_def edge_ok_def is_relationship_allowed_def
      allowed_relationships_def)

text \<open>
  The search affects fewer components than the graph has nodes, so it ends with a bounded answer on every
  graph, whatever circles it has and however large the depth.
\<close>

theorem blast_radius_bounded:
  assumes "graph_ok g" "stored_blast_radius None (\<lambda>_. None) g p c m = Inr r"
  shows "total_affected r < length (gr_nodes g)"
proof -
  let ?R = "stored_dependent p g" and ?ids = "gn_component_id ` set (gr_nodes g)"
  have r: "distinct (map be_component_id (br_transitive_dependents r))"
    "set (map be_component_id (br_transitive_dependents r)) = in_reach ?R c (nat m)"
    using stored_search_found [OF assms(2)] by blast+
  have c: "c \<in> ?ids"
    using assms(2) by (auto simp: stored_blast_radius_run dest!: get_component_node_Some)
  have "in_reach ?R c (nat m) \<subseteq> ?ids - {c}"
  proof
    fix c' assume "c' \<in> in_reach ?R c (nat m)"
    then obtain n where n: "c' \<noteq> c" "(?R ^^ n) c c'" by (auto simp: in_reach_def)
    then obtain k where "n = Suc k" by (cases n) auto
    then obtain c0 where "?R c0 c'" using n(2) by auto
    then show "c' \<in> ?ids - {c}"
      using n(1) by (auto simp: stored_dependent_iff list_ex_iff node_in_def)
  qed
  then have "card (set (map be_component_id (br_transitive_dependents r))) \<le> card (?ids - {c})"
    unfolding r(2) by (rule card_mono [rotated]) simp
  also have "\<dots> < card ?ids" using c by (intro psubset_card_mono) auto
  also have "\<dots> = length (gr_nodes g)"
    using assms(1) distinct_card [of "map gn_component_id (gr_nodes g)"] by (simp add: graph_ok_def)
  finally show ?thesis
    using distinct_card [OF r(1)] by (simp add: total_affected_def)
qed

lemma sample_search:
  "stored_blast_radius None (\<lambda>_. None) sample_graph 1 1 99 = Inr r \<Longrightarrow> total_affected r = 3"
  by (simp add: stored_blast_radius_def blast_radius_def run_statement_def get_component_node_def sample_graph_def
      sample_node_def node_in_def rbind_def list_direct_dependents_def edge_to_def expand_def entry_at_def
      total_affected_def Let_def)
    auto

theorem blast_radius_bounded_witness:
  "\<exists>r. stored_blast_radius None (\<lambda>_. None) sample_graph 1 1 99 = Inr r \<and> total_affected r = 3
     \<and> total_affected r < length (gr_nodes sample_graph)"
proof -
  obtain r where r: "stored_blast_radius None (\<lambda>_. None) sample_graph 1 1 99 = Inr r"
    using stored_search_runs [of sample_graph 1 1 99]
    by (auto simp: get_component_node_def sample_graph_def sample_node_def node_in_def)
  then show ?thesis using sample_search blast_radius_bounded [OF sample_graph_ok r] by blast
qed

section \<open>The blast radius in a risk assessment\<close>

lemma bfs_error: "bfs f m st = Inl e \<Longrightarrow> \<exists>c. f c = Inl e"
proof (induction f m st rule: bfs.induct)
  case (2 f m v c d p q b)
  then show ?case
    by (auto simp: rbind_eq_Inl_iff split: if_splits)
qed simp

lemma run_statement_error: "run_statement outage x = Inl e \<Longrightarrow> \<exists>t. e = Dom (GraphUnavailable t)"
  by (auto simp: run_statement_def split: option.splits)

lemma stored_blast_radius_error:
  assumes "stored_blast_radius outage outages g p c m = Inl e" "1 \<le> m"
  shows "e = Dom (NotFoundError (GraphComponentNotFound c)) \<or> (\<exists>t. e = Dom (GraphUnavailable t))"
  using assms
  by (auto simp: stored_blast_radius_def blast_radius_def rbind_eq_Inl_iff split: option.splits
      dest!: bfs_error dest: run_statement_error)

text \<open>
  Whatever the graph holds and whenever it cannot answer, the blast radius never stops a risk assessment: it
  is the number of affected components, or it is left out of the evidence.
\<close>

theorem blast_radius_best_effort:
  "compute_blast_radius
       (Some (\<lambda>p c. rbind (stored_blast_radius outage outages g p c default_max_depth) (\<lambda>r. Inr (total_affected r)))) p scan
     = Inr (case scan of
              None \<Rightarrow> None
            | Some s \<Rightarrow>
                (case stored_blast_radius outage outages g p (cs_component_id s) default_max_depth of
                   Inl _ \<Rightarrow> None | Inr r \<Rightarrow> Some (int (total_affected r))))"
proof (cases scan)
  case (Some s)
  show ?thesis
  proof (cases "stored_blast_radius outage outages g p (cs_component_id s) default_max_depth")
    case (Inl e)
    then show ?thesis
      using stored_blast_radius_error [OF Inl] Some by (auto simp: compute_blast_radius_def default_max_depth_def)
  next
    case (Inr r)
    then show ?thesis using Some by (simp add: compute_blast_radius_def)
  qed
qed (simp add: compute_blast_radius_def)

end
