(* ===== verification/Py_Convert.thy ===== *)
theory Py_Convert
  imports Py_Collections Json_Text
begin

text \<open>
  Conversions of the language applied to parsed JSON: \<open>int(v)\<close> and \<open>dict(v)\<close>, with the exceptions they raise.
\<close>

section \<open>\<open>int(v)\<close>\<close>

definition is_digit :: "char \<Rightarrow> bool" where
  "is_digit c \<longleftrightarrow> 48 \<le> code c \<and> code c \<le> 57"

text \<open>Digits with single underscores between them.\<close>

fun digits_ok :: "string \<Rightarrow> bool" where
  "digits_ok [] = False"
| "digits_ok [c] = is_digit c"
| "digits_ok (c # d # s) = (is_digit c \<and> (if d = CHR ''_'' then digits_ok s else digits_ok (d # s)))"

definition int_of_digits :: "string \<Rightarrow> py_error + int" where
  "int_of_digits s =
     (let ds = filter (\<lambda>c. c \<noteq> CHR ''_'') s
      in if digits_ok s \<and> length ds \<le> 4300 then Inr (digits_value ds) else Inl ValueError)"

definition int_of_text :: "string \<Rightarrow> py_error + int" where
  "int_of_text text =
     (case strip text of
        [] \<Rightarrow> Inl ValueError
      | c # s \<Rightarrow>
          if c = CHR ''-'' then rbind (int_of_digits s) (\<lambda>i. Inr (- i))
          else if c = CHR ''+'' then int_of_digits s
          else int_of_digits (c # s))"

definition truncate_rat :: "rat \<Rightarrow> int" where
  "truncate_rat q = (if 0 \<le> q then \<lfloor>q\<rfloor> else \<lceil>q\<rceil>)"

fun py_int :: "json \<Rightarrow> py_error + int" where
  "py_int (JInt i) = Inr i"
| "py_int (JBool b) = Inr (if b then 1 else 0)"
| "py_int (JFloat q) = Inr (truncate_rat q)"
| "py_int (JStr s) = int_of_text s"
| "py_int _ = Inl TypeError"

section \<open>\<open>dict(v)\<close>\<close>

text \<open>
  A dict is copied; of anything else every member must be a pair. A key that is not a string would be a key no
  reader of the dict asks for, and is left out.
\<close>

definition pair_of :: "json \<Rightarrow> py_error + (json \<times> json)" where
  "pair_of v = rbind (py_iter v) (\<lambda>xs. case xs of [a, b] \<Rightarrow> Inr (a, b) | _ \<Rightarrow> Inl ValueError)"

definition put_pair :: "json \<times> json \<Rightarrow> json_dict \<Rightarrow> json_dict" where
  "put_pair p kvs = (case p of (JStr k, v) \<Rightarrow> dput k v kvs | _ \<Rightarrow> kvs)"

fun dict_from :: "json list \<Rightarrow> json_dict \<Rightarrow> py_error + json_dict" where
  "dict_from [] kvs = Inr kvs"
| "dict_from (m # ms) kvs =
     rbind (pair_of m) (\<lambda>p.
     rbind (rguard (hashable (fst p)) TypeError) (\<lambda>_. dict_from ms (put_pair p kvs)))"

fun py_dict_of :: "json \<Rightarrow> py_error + json_dict" where
  "py_dict_of (JDict kvs) = Inr kvs"
| "py_dict_of v = rbind (py_iter v) (\<lambda>members. dict_from members [])"

text \<open>The exceptions of both conversions are \<open>TypeError\<close> and \<open>ValueError\<close>.\<close>

lemma int_of_text_error: "int_of_text s = Inl e \<Longrightarrow> e = ValueError"
  by (auto simp: int_of_text_def int_of_digits_def Let_def rbind_eq_Inl_iff split: list.splits if_splits)

lemma py_int_error: "py_int v = Inl e \<Longrightarrow> e \<in> {TypeError, ValueError}"
  by (cases v) (auto dest: int_of_text_error)

lemma py_iter_error: "py_iter v = Inl e \<Longrightarrow> e = TypeError"
  by (cases v) auto

lemma pair_of_error:
  assumes "pair_of v = Inl e"
  shows "e \<in> {TypeError, ValueError}"
proof -
  from assms consider "py_iter v = Inl e" | xs :: "json list" where "(case xs of [a, b] \<Rightarrow> Inr (a, b) | _ \<Rightarrow> Inl ValueError) = Inl e"
    by (auto simp: pair_of_def rbind_eq_Inl_iff)
  then show ?thesis
  proof cases
    case (2 xs)
    then show ?thesis by (auto split: list.splits)
  qed (auto dest: py_iter_error)
qed

lemma dict_from_error: "dict_from ms kvs = Inl e \<Longrightarrow> e \<in> {TypeError, ValueError}"
  by (induction ms arbitrary: kvs) (auto simp: rbind_eq_Inl_iff dest: pair_of_error)

lemma py_dict_of_error: "py_dict_of v = Inl e \<Longrightarrow> e \<in> {TypeError, ValueError}"
  by (cases v) (auto simp: rbind_eq_Inl_iff dest: py_iter_error dict_from_error)

lemma py_getitem_JDict [simp]:
  "py_getitem (JDict kvs) (JStr k) = (case map_of kvs k of Some v \<Rightarrow> Inr v | None \<Rightarrow> Inl KeyError)"
  by simp

end
