(* ===== verification/Github_Model.thy ===== *)
theory Github_Model
  imports Py_Convert Risk_Engine Errors
begin

text \<open>
  The pure parts of the GitHub integration: the check a decision becomes (\<open>app/github/check_mapping.py\<close>,
  \<open>checks_models.py\<close>), the fields read from a \<open>pull_request\<close> event (\<open>pr_webhook_models.py\<close>) and the signature
  of a delivery (\<open>webhook_signature.py\<close>). HMAC-SHA256 and the JSON parser are parameters. The text of a check has
  one character outside Latin-1, a dash, given by its UTF-8 bytes.
\<close>

section \<open>Checks\<close>

datatype check_status = CK_QUEUED | CK_IN_PROGRESS | CK_COMPLETED

datatype check_conclusion = CC_SUCCESS | CC_NEUTRAL | CC_FAILURE

record check_run_output =
  co_title :: string
  co_summary :: string

record check_run_request =
  cq_repository_full_name :: string
  cq_head_sha :: string
  cq_name :: string
  cq_status :: check_status
  cq_output :: check_run_output
  cq_conclusion :: "check_conclusion option"
  cq_details_url :: "string option"
  cq_external_id :: "string option"

record check_run_result =
  cr_id :: int
  cr_status :: check_status
  cr_conclusion :: "check_conclusion option"

text \<open>\<open>GitHubChecksClient\<close>: what GitHub answers to a request, or the error the client makes of it.\<close>

record checks_client =
  create_check_run :: "check_run_request \<Rightarrow> exn + check_run_result"
  update_check_run :: "string \<Rightarrow> int \<Rightarrow> check_run_request \<Rightarrow> exn + check_run_result"

definition check_name :: string where
  "check_name = ''AgentABI Compatibility''"

fun decision_to_conclusion :: "risk_decision \<Rightarrow> check_conclusion" where
  "decision_to_conclusion RD_PASS = CC_SUCCESS"
| "decision_to_conclusion RD_WARN = CC_NEUTRAL"
| "decision_to_conclusion RD_BLOCK = CC_FAILURE"

definition max_top_rules :: nat where
  "max_top_rules = 5"

definition newline :: string where
  "newline = [char_of (10 :: nat)]"

definition dash :: string where
  "dash = map char_of [226 :: nat, 128, 148]"

definition tick :: string where
  "tick = [char_of (96 :: nat)]"

fun join_with :: "string \<Rightarrow> string list \<Rightarrow> string" where
  "join_with sep [] = []"
| "join_with sep [s] = s"
| "join_with sep (s # t # ss) = s @ sep @ join_with sep (t # ss)"

definition build_in_progress_output :: "string option \<Rightarrow> check_run_output" where
  "build_in_progress_output compatibility_summary =
     \<lparr> co_title = ''AgentABI analysis in progress'',
       co_summary = join_with (newline @ newline)
         (''AgentABI is running its deterministic analysis pipeline.''
          # (case compatibility_summary of Some s \<Rightarrow> if s = [] then [] else [s] | None \<Rightarrow> [])) \<rparr>"

fun decision_line :: "risk_decision \<Rightarrow> string" where
  "decision_line RD_PASS =
     ''Deterministic analysis passed: no configured AgentABI blocking or warning threshold was exceeded.''"
| "decision_line RD_WARN =
     ''AgentABI decision: WARN '' @ dash @ '' potentially risky evidence was found, but it did not cross ''
     @ ''the configured blocking threshold.''"
| "decision_line RD_BLOCK =
     ''AgentABI decision: BLOCK '' @ dash @ '' deterministic evidence indicates this change should not ''
     @ ''deploy automatically.''"

definition rule_line :: "string \<times> int \<Rightarrow> string" where
  "rule_line r =
     (case r of (rule_id, delta) \<Rightarrow>
        ''- '' @ tick @ rule_id @ tick @ '' ('' @ (if 0 \<le> delta then ''+'' else []) @ int_str delta @ '')'')"

text \<open>A line \<open>label: text\<close> when there is a text.\<close>

definition labelled :: "string \<Rightarrow> string option \<Rightarrow> string list" where
  "labelled label content =
     (case content of Some s \<Rightarrow> if s = [] then [] else [''**'' @ label @ '':** '' @ s] | None \<Rightarrow> [])"

definition build_completed_output ::
  "risk_decision \<Rightarrow> int \<Rightarrow> string \<Rightarrow> bool \<Rightarrow> (string \<times> int) list \<Rightarrow> string option \<Rightarrow> string option \<Rightarrow> string option \<Rightarrow>
   string option \<Rightarrow> check_run_output" where
  "build_completed_output decision score version hard_block top_rules compatibility differential report_url explanation =
     \<lparr> co_title = ''AgentABI decision: '' @ risk_decision_value decision @ '' (score '' @ int_str score @ ''/100)'',
       co_summary = join_with (newline @ newline)
         ([decision_line decision,
           ''**Score:** '' @ int_str score @ ''/100  '' @ [char_of (183 :: nat)] @ ''  **Engine version:** '' @ version]
          @ (if hard_block
             then [''**Hard block:** at least one hard-block rule fired independent of score.''] else [])
          @ (if top_rules = [] then []
             else [''**Top triggered rules:**'' @ newline
                   @ join_with newline (map rule_line (take max_top_rules top_rules))])
          @ labelled ''Compatibility'' compatibility
          @ labelled ''Differential'' differential
          @ labelled ''Explanation'' explanation
          @ (case report_url of
               Some u \<Rightarrow> if u = [] then [] else [''[Full AgentABI report]('' @ u @ '')'']
             | None \<Rightarrow> [])) \<rparr>"

section \<open>The event\<close>

definition supported_actions :: "string list" where
  "supported_actions = [''opened'', ''synchronize'', ''reopened'']"

record pull_request_payload =
  pw_action :: string
  pw_repository_id :: int
  pw_repository_owner :: string
  pw_repository_name :: string
  pw_repository_full_name :: string
  pw_installation_id :: "int option"
  pw_pull_request_number :: int
  pw_pull_request_url :: string
  pw_head_sha :: string
  pw_head_ref :: string
  pw_base_sha :: string
  pw_base_ref :: string
  pw_sender_id :: int
  pw_sender_login :: string

definition item :: "json \<Rightarrow> string \<Rightarrow> py_error + json" where
  "item v k = py_getitem v (JStr k)"

definition int_item :: "json \<Rightarrow> string \<Rightarrow> py_error + int" where
  "int_item v k = rbind (item v k) py_int"

definition str_item :: "json \<Rightarrow> string \<Rightarrow> py_error + string" where
  "str_item v k = rbind (item v k) (\<lambda>x. Inr (py_str x))"

text \<open>\<open>v.get(k, default)\<close>: a value that is not a dict has no such method.\<close>

fun get_attr :: "json \<Rightarrow> string \<Rightarrow> json \<Rightarrow> py_error + json" where
  "get_attr (JDict kvs) k d = Inr (dget_or kvs k d)"
| "get_attr _ k d = Inl AttributeError"

definition owner_login :: "json \<Rightarrow> py_error + string" where
  "owner_login owner =
     rbind (get_attr owner ''login'' JNull) (\<lambda>l.
     if py_bool l then Inr (py_str l) else str_item owner ''login'')"

definition installation_of :: "json_dict \<Rightarrow> py_error + int option" where
  "installation_of payload =
     (if py_bool (dget payload ''installation'')
      then rbind (item (JDict payload) ''installation'') (\<lambda>i. rbind (int_item i ''id'') (\<lambda>n. Inr (Some n)))
      else Inr None)"

text \<open>The \<open>try\<close> block, in the order of the code.\<close>

definition read_payload :: "json_dict \<Rightarrow> string \<Rightarrow> py_error + pull_request_payload" where
  "read_payload payload action =
     rbind (item (JDict payload) ''repository'') (\<lambda>repository.
     rbind (item (JDict payload) ''pull_request'') (\<lambda>pull_request.
     rbind (item (JDict payload) ''sender'') (\<lambda>sender.
     rbind (item pull_request ''head'') (\<lambda>head.
     rbind (item pull_request ''base'') (\<lambda>base.
     rbind (item repository ''owner'') (\<lambda>owner.
     rbind (int_item repository ''id'') (\<lambda>repository_id.
     rbind (owner_login owner) (\<lambda>login.
     rbind (str_item repository ''name'') (\<lambda>name.
     rbind (str_item repository ''full_name'') (\<lambda>full_name.
     rbind (installation_of payload) (\<lambda>installation_id.
     rbind (int_item pull_request ''number'') (\<lambda>number.
     rbind (get_attr pull_request ''html_url'' (JStr [])) (\<lambda>url.
     rbind (str_item head ''sha'') (\<lambda>head_sha.
     rbind (str_item head ''ref'') (\<lambda>head_ref.
     rbind (str_item base ''sha'') (\<lambda>base_sha.
     rbind (str_item base ''ref'') (\<lambda>base_ref.
     rbind (int_item sender ''id'') (\<lambda>sender_id.
     rbind (str_item sender ''login'') (\<lambda>sender_login.
     Inr \<lparr> pw_action = action, pw_repository_id = repository_id, pw_repository_owner = login,
           pw_repository_name = name, pw_repository_full_name = full_name,
           pw_installation_id = installation_id, pw_pull_request_number = number,
           pw_pull_request_url = py_str url, pw_head_sha = head_sha, pw_head_ref = head_ref,
           pw_base_sha = base_sha, pw_base_ref = base_ref, pw_sender_id = sender_id,
           pw_sender_login = sender_login \<rparr>)))))))))))))))))))"

text \<open>\<open>loads\<close> is \<open>json.loads\<close> on the raw body, \<open>explain\<close> the text of the exception.\<close>

definition parse_pull_request_event ::
  "(string \<Rightarrow> json option) \<Rightarrow> (py_error \<Rightarrow> string) \<Rightarrow> string \<Rightarrow> exn + pull_request_payload option" where
  "parse_pull_request_event loads explain raw_body =
     (let invalid = (\<lambda>detail. Inl (Dom (GitHubError (InvalidGitHubPullRequestPayload detail))))
      in case loads raw_body of
           None \<Rightarrow> invalid ''body is not valid JSON''
         | Some (JDict payload) \<Rightarrow>
             (case dget payload ''action'' of
                JStr action \<Rightarrow>
                  if action \<in> set supported_actions
                  then (case read_payload payload action of
                          Inr p \<Rightarrow> Inr (Some p)
                        | Inl e \<Rightarrow>
                            if e \<in> {KeyError, TypeError, ValueError}
                            then invalid (''pull_request payload missing/malformed required field: '' @ explain e)
                            else Inl (Py e))
                  else Inr None
              | _ \<Rightarrow> Inr None)
         | Some _ \<Rightarrow> invalid ''body is not a JSON object'')"

section \<open>The signature of a delivery\<close>

definition signature_prefix :: string where
  "signature_prefix = ''sha256=''"

definition hex_digest_length :: nat where
  "hex_digest_length = 64"

definition is_hex_digit :: "char \<Rightarrow> bool" where
  "is_hex_digit c \<longleftrightarrow> c \<in> set ''0123456789abcdefABCDEF''"

text \<open>\<open>hmac secret payload\<close> is the hexadecimal digest.\<close>

definition compute_signature :: "(string \<Rightarrow> string \<Rightarrow> string) \<Rightarrow> string \<Rightarrow> string \<Rightarrow> string" where
  "compute_signature hmac secret payload = signature_prefix @ hmac secret payload"

definition verify_signature :: "(string \<Rightarrow> string \<Rightarrow> string) \<Rightarrow> string \<Rightarrow> string \<Rightarrow> string option \<Rightarrow> bool" where
  "verify_signature hmac secret payload header =
     (case header of
        None \<Rightarrow> False
      | Some h \<Rightarrow>
          if h = [] \<or> take (length signature_prefix) h \<noteq> signature_prefix then False
          else
            let provided = drop (length signature_prefix) h;
                expected = drop (length signature_prefix) (compute_signature hmac secret payload)
            in if length provided \<noteq> hex_digest_length \<or> \<not> list_all is_hex_digit provided then False
               else lower provided = lower expected)"

text \<open>A digest: 64 lower-case hexadecimal digits.\<close>

definition digest_ok :: "string \<Rightarrow> bool" where
  "digest_ok d \<longleftrightarrow> length d = hex_digest_length \<and> list_all (\<lambda>c. c \<in> set ''0123456789abcdef'') d"

lemma lower_hex: "c \<in> set ''0123456789abcdef'' \<Longrightarrow> lower_char c = c"
  by (auto simp: lower_char_def code_def)

lemma lower_digest: "digest_ok d \<Longrightarrow> lower d = d"
  using lower_hex unfolding digest_ok_def list_all_iff lower_def by (blast intro: map_idI)

lemma length_lower: "length (lower d) = length d"
  by (simp add: lower_def)

lemma verify_prefixed:
  "verify_signature hmac secret payload (Some (signature_prefix @ d)) \<longleftrightarrow>
     length d = hex_digest_length \<and> list_all is_hex_digit d \<and> lower d = lower (hmac secret payload)"
  by (simp add: verify_signature_def compute_signature_def Let_def) (auto simp: signature_prefix_def)

lemma verify_signature_iff:
  assumes "digest_ok (hmac secret payload)"
  shows "verify_signature hmac secret payload header \<longleftrightarrow>
    (\<exists>d. header = Some (signature_prefix @ d) \<and> list_all is_hex_digit d \<and> lower d = hmac secret payload)"
proof
  assume v: "verify_signature hmac secret payload header"
  then obtain h where h: "header = Some h" "take (length signature_prefix) h = signature_prefix"
    by (auto simp: verify_signature_def split: option.splits if_splits)
  then have "h = signature_prefix @ drop (length signature_prefix) h" by (metis append_take_drop_id)
  then show "\<exists>d. header = Some (signature_prefix @ d) \<and> list_all is_hex_digit d \<and> lower d = hmac secret payload"
    using v h(1) verify_prefixed lower_digest [OF assms] by metis
next
  assume "\<exists>d. header = Some (signature_prefix @ d) \<and> list_all is_hex_digit d \<and> lower d = hmac secret payload"
  then obtain d where d: "header = Some (signature_prefix @ d)" "list_all is_hex_digit d" "lower d = hmac secret payload" by blast
  have "length d = hex_digest_length" using assms d(3) length_lower [of d] by (simp add: digest_ok_def)
  then show "verify_signature hmac secret payload header"
    unfolding d(1) verify_prefixed using d(2,3) lower_digest [OF assms] by simp
qed

lemma digest_hex: "c \<in> set ''0123456789abcdef'' \<Longrightarrow> is_hex_digit c"
  by (auto simp: is_hex_digit_def)

lemma compute_signature_verifies:
  assumes "digest_ok (hmac secret payload)"
  shows "verify_signature hmac secret payload (Some (compute_signature hmac secret payload))"
proof -
  have "list_all is_hex_digit (hmac secret payload)"
    using assms digest_hex unfolding digest_ok_def list_all_iff by blast
  then show ?thesis
    using assms lower_digest [OF assms] unfolding compute_signature_def verify_prefixed digest_ok_def by blast
qed

end
