(* ===== verification/Webhook_Service.thy ===== *)
theory Webhook_Service
  imports Github_Model Authz
begin

text \<open>
  \<open>app/services/webhook_service.py\<close>: a delivery whose signature verifies becomes a row and an audit row, once;
  a rejected one leaves an audit row only. \<open>others\<close> is what other transactions commit before the flush. Proved
  here: what each outcome does to the store.
\<close>

section \<open>The service\<close>

definition delivery_by_id :: "string \<Rightarrow> webhook_delivery option session" where
  "delivery_by_id delivery_id = fetch_one db_deliveries (\<lambda>w. wd_delivery_id w = delivery_id)"

definition delivery_clash :: "webhook_delivery \<Rightarrow> webhook_delivery \<Rightarrow> bool" where
  "delivery_clash a b \<longleftrightarrow> wd_delivery_id a = wd_delivery_id b"

definition put_delivery :: "webhook_delivery \<Rightarrow> db \<Rightarrow> db" where
  "put_delivery w d = d \<lparr> db_deliveries := db_deliveries d @ [w] \<rparr>"

datatype process_status = WH_ACCEPTED | WH_DUPLICATE

record process_result =
  wr_status :: process_status
  wr_delivery_id :: string
  wr_event_type :: string

definition process_result_of :: "process_status \<Rightarrow> string \<Rightarrow> string \<Rightarrow> process_result" where
  "process_result_of st delivery_id event_type =
     \<lparr> wr_status = st, wr_delivery_id = delivery_id, wr_event_type = event_type \<rparr>"

definition opt_json :: "string option \<Rightarrow> json" where
  "opt_json s = (case s of None \<Rightarrow> JNull | Some t \<Rightarrow> JStr t)"

definition rejection :: "string option \<Rightarrow> string option \<Rightarrow> string option \<Rightarrow> string \<Rightarrow> audit_event" where
  "rejection delivery_id event_type request_id reason =
     audit_record GITHUB_WEBHOOK_REJECTED None None (Some ''github_webhook_delivery'') delivery_id request_id
       [(''event_type'', opt_json event_type), (''reason'', JStr reason)]"

definition record_rejection :: "string option \<Rightarrow> string option \<Rightarrow> string option \<Rightarrow> string \<Rightarrow> unit session" where
  "record_rejection delivery_id event_type request_id reason =
     audit (rejection delivery_id event_type request_id reason)"

text \<open>\<open>not value\<close> of an optional text.\<close>

definition falsy :: "string option \<Rightarrow> bool" where
  "falsy s \<longleftrightarrow> s = None \<or> s = Some []"

definition reject :: "string option \<Rightarrow> string option \<Rightarrow> string option \<Rightarrow> string \<Rightarrow> exn \<Rightarrow> 'a session" where
  "reject delivery_id event_type request_id reason e =
     sthen (record_rejection delivery_id event_type request_id reason) (sthen scommit (sraise e))"

definition bad_signature :: "webhook_signature_error \<Rightarrow> exn" where
  "bad_signature e = Dom (WebhookSignatureError e)"

definition delivery_conflict :: "string \<Rightarrow> exn" where
  "delivery_conflict delivery_id = Dom (ConflictError (WebhookDeliveryConflict delivery_id))"

definition processed_row :: "string \<Rightarrow> string \<Rightarrow> string \<Rightarrow> string option \<Rightarrow> webhook_delivery" where
  "processed_row delivery_id event_type payload_hash request_id =
     \<lparr> wd_delivery_id = delivery_id, wd_event_type = event_type, wd_status = WD_PROCESSED,
       wd_payload_hash = payload_hash, wd_request_id = request_id \<rparr>"

text \<open>A stored delivery under the same id: the same one again, or another one under a used id.\<close>

definition same_delivery :: "string \<Rightarrow> string \<Rightarrow> webhook_delivery \<Rightarrow> process_result session \<Rightarrow> process_result session" where
  "same_delivery payload_hash event_type existing otherwise =
     (if wd_payload_hash existing = payload_hash
      then sreturn (process_result_of WH_DUPLICATE (wd_delivery_id existing) event_type) else otherwise)"

definition store_delivery :: "(db \<Rightarrow> db) \<Rightarrow> webhook_delivery \<Rightarrow> process_result session" where
  "store_delivery others w =
     sthen (concurrently others)
       (scatch_integrity
         (sthen (flush_row db_deliveries delivery_clash (\<lambda>_ _. True) put_delivery w)
         (sthen (audit (audit_record GITHUB_WEBHOOK_PROCESSED None None (Some ''github_webhook_delivery'')
                   (Some (wd_delivery_id w)) (wd_request_id w) [(''event_type'', JStr (wd_event_type w))]))
         (sthen scommit (sreturn (process_result_of WH_ACCEPTED (wd_delivery_id w) (wd_event_type w))))))
         (sthen srollback
           (sbind (delivery_by_id (wd_delivery_id w)) (\<lambda>existing. case existing of
              None \<Rightarrow> sraise IntegrityError
            | Some x \<Rightarrow> same_delivery (wd_payload_hash w) (wd_event_type w) x
                          (sraise (delivery_conflict (wd_delivery_id w)))))))"

definition webhook_process ::
  "(string \<Rightarrow> string \<Rightarrow> string) \<Rightarrow> (string \<Rightarrow> string) \<Rightarrow> string option \<Rightarrow> (db \<Rightarrow> db) \<Rightarrow> string \<Rightarrow> string option \<Rightarrow>
   string option \<Rightarrow> string option \<Rightarrow> string option \<Rightarrow> process_result session" where
  "webhook_process hmac sha256 secret others raw_body signature_header delivery_id event_type request_id =
     (case secret of
        None \<Rightarrow> sraise (Dom GitHubWebhookNotConfigured)
      | Some key \<Rightarrow>
          if key = [] then sraise (Dom GitHubWebhookNotConfigured)
          else if falsy signature_header
          then reject delivery_id event_type request_id ''missing_signature'' (bad_signature MissingWebhookSignature)
          else if \<not> verify_signature hmac key raw_body signature_header
          then reject delivery_id event_type request_id ''invalid_signature'' (bad_signature InvalidWebhookSignature)
          else
            (case delivery_id of
               None \<Rightarrow> sraise (Dom MissingWebhookDeliveryId)
             | Some i \<Rightarrow>
                 if i = [] then sraise (Dom MissingWebhookDeliveryId)
                 else
                   let payload_hash = sha256 raw_body;
                       event = (if falsy event_type then ''unknown'' else the event_type)
                   in sbind (delivery_by_id i) (\<lambda>existing. case existing of
                        Some x \<Rightarrow> same_delivery payload_hash event x
                                    (reject (Some i) (Some event) request_id ''delivery_id_conflict'' (delivery_conflict i))
                      | None \<Rightarrow> store_delivery others (processed_row i event payload_hash request_id))))"

interpretation deliveries: unique_table delivery_clash db_deliveries put_delivery
  by unfold_locales (auto simp: delivery_clash_def put_delivery_def)

section \<open>Outcomes\<close>

definition deliveries_ok :: "db \<Rightarrow> bool" where
  "deliveries_ok d \<longleftrightarrow> no_clash delivery_clash (db_deliveries d)"

lemma reject_run:
  "reject i ev q reason e s =
     (Inl e, \<lparr> tx_committed = put_audit (rejection i ev q reason) (tx_current s),
               tx_current = put_audit (rejection i ev q reason) (tx_current s) \<rparr>)"
  by (simp add: reject_def record_rejection_def audit_def session_simps)

lemma reject_request: "request (reject i ev q reason e) d = (Inl e, put_audit (rejection i ev q reason) d)"
  by (simp add: request_def reject_run)

lemma verified_header: "verify_signature hmac key raw h \<Longrightarrow> \<not> falsy h"
  by (cases h) (auto simp: verify_signature_def falsy_def)

text \<open>The trusted part: the signature verifies and there is a delivery id.\<close>

definition trusted_process ::
  "(string \<Rightarrow> string) \<Rightarrow> (db \<Rightarrow> db) \<Rightarrow> string \<Rightarrow> string \<Rightarrow> string option \<Rightarrow> string option \<Rightarrow> process_result session" where
  "trusted_process sha256 others raw i event_type q =
     (let event = (if falsy event_type then ''unknown'' else the event_type)
      in sbind (delivery_by_id i) (\<lambda>existing. case existing of
           Some x \<Rightarrow> same_delivery (sha256 raw) event x
                       (reject (Some i) (Some event) q ''delivery_id_conflict'' (delivery_conflict i))
         | None \<Rightarrow> store_delivery others (processed_row i event (sha256 raw) q)))"

lemma webhook_process_trusted:
  assumes "verify_signature hmac key raw h" "key \<noteq> []" "i \<noteq> []"
  shows "webhook_process hmac sha256 (Some key) others raw h (Some i) ev q = trusted_process sha256 others raw i ev q"
  using assms verified_header [OF assms(1)] by (simp add: webhook_process_def trusted_process_def Let_def)

lemma delivery_by_id_run:
  assumes "deliveries_ok (tx_current s)"
  shows "delivery_by_id i s = (Inr (find (\<lambda>w. wd_delivery_id w = i) (db_deliveries (tx_current s))), s)"
proof -
  have "one_or_none (filter (\<lambda>w. wd_delivery_id w = i) ws) = Inr (find (\<lambda>w. wd_delivery_id w = i) ws)"
    if "no_clash delivery_clash ws" for ws
    using that
  proof (induction ws)
    case (Cons w ws)
    show ?case
    proof (cases "wd_delivery_id w = i")
      case True
      then have "filter (\<lambda>w. wd_delivery_id w = i) ws = []"
        using Cons.prems by (auto simp: filter_empty_conv list_ex_iff delivery_clash_def)
      then show ?thesis using True by simp
    qed (use Cons in simp)
  qed simp
  then show ?thesis using assms by (simp add: delivery_by_id_def fetch_one_def deliveries_ok_def)
qed

lemma delivery_by_id_known:
  assumes "deliveries_ok (tx_current s)" "w \<in> set (db_deliveries (tx_current s))" "wd_delivery_id w = i"
  shows "delivery_by_id i s = (Inr (Some w), s)"
proof -
  have "filter (\<lambda>w. wd_delivery_id w = i) (db_deliveries (tx_current s)) = [w]"
    by (rule no_clash_filter [of delivery_clash]) (use assms in \<open>auto simp: deliveries_ok_def delivery_clash_def\<close>)
  then show ?thesis by (simp add: delivery_by_id_def fetch_one_def)
qed

lemma delivery_by_id_unknown:
  assumes "\<And>w. w \<in> set (db_deliveries (tx_current s)) \<Longrightarrow> wd_delivery_id w \<noteq> i"
  shows "delivery_by_id i s = (Inr None, s)"
  using assms by (auto simp: delivery_by_id_def fetch_one_def filter_empty_conv)

text \<open>A delivery already stored: nothing is written, or an audit row and a conflict.\<close>

lemma trusted_again:
  assumes "deliveries_ok d" "w \<in> set (db_deliveries d)" "wd_delivery_id w = i"
  shows "request (trusted_process sha256 others raw i ev q) d =
    (if wd_payload_hash w = sha256 raw
     then (Inr (process_result_of WH_DUPLICATE i (if falsy ev then ''unknown'' else the ev)), d)
     else (Inl (delivery_conflict i),
           put_audit (rejection (Some i) (Some (if falsy ev then ''unknown'' else the ev)) q ''delivery_id_conflict'') d))"
  using delivery_by_id_known [of "begin_txn d" w i] assms
  by (simp add: request_def trusted_process_def sbind_def same_delivery_def reject_run session_basic Let_def)

text \<open>A new delivery.\<close>

lemma store_delivery_new:
  assumes "\<And>x. x \<in> set (db_deliveries (others d)) \<Longrightarrow> wd_delivery_id x \<noteq> wd_delivery_id w"
  shows "\<exists>e. request (store_delivery others w) d =
    (Inr (process_result_of WH_ACCEPTED (wd_delivery_id w) (wd_event_type w)),
     put_audit e (put_delivery w (others d)))"
proof -
  have "\<not> list_ex (delivery_clash w) (db_deliveries (others d))"
    using assms by (fastforce simp: list_ex_iff delivery_clash_def)
  then show ?thesis
    by (simp add: request_def store_delivery_def sthen_def sbind_def concurrently_def scatch_integrity_def flush_row_def
        audit_def session_basic) blast
qed

text \<open>A delivery that lost a race against another one under the same id.\<close>

lemma store_delivery_race:
  assumes "deliveries_ok (others d)" "x \<in> set (db_deliveries (others d))" "wd_delivery_id x = wd_delivery_id w"
  shows "request (store_delivery others w) d =
    (if wd_payload_hash x = wd_payload_hash w
     then (Inr (process_result_of WH_DUPLICATE (wd_delivery_id w) (wd_event_type w)), others d)
     else (Inl (delivery_conflict (wd_delivery_id w)), others d))"
proof -
  have "list_ex (delivery_clash w) (db_deliveries (others d))"
    unfolding list_ex_iff delivery_clash_def using assms(2,3) by (intro bexI [of _ x]) simp_all
  moreover have "delivery_by_id (wd_delivery_id w) \<lparr> tx_committed = others d, tx_current = others d \<rparr>
      = (Inr (Some x), \<lparr> tx_committed = others d, tx_current = others d \<rparr>)"
    by (rule delivery_by_id_known) (use assms in simp_all)
  ultimately show ?thesis
    using assms(3)
    by (simp add: request_def store_delivery_def sthen_def sbind_def concurrently_def scatch_integrity_def flush_row_def
        session_basic same_delivery_def)
qed

end
