(* ===== verification/Webhook_Properties.thy ===== *)
theory Webhook_Properties
  imports Webhook_Service
begin

text \<open>
  The properties of the webhook: a delivery that is not signed leaves no trace but an audit row, what is stored
  was signed, and a delivery is processed once however often it is sent.
\<close>

section \<open>Unsigned deliveries\<close>

text \<open>
  A delivery whose signature does not verify, or that comes while no secret is set, is refused with 401
  (or 503), stores no delivery, and leaves at most one audit row, a rejection.
\<close>

theorem unsigned_never_stored:
  assumes "\<And>key. secret = Some key \<Longrightarrow> key \<noteq> [] \<Longrightarrow> \<not> verify_signature hmac key raw header"
  shows "\<exists>e reason. fst (request (webhook_process hmac sha256 secret others raw header i ev q) d) = Inl e
    \<and> http_answer e \<in> {(401, INVALID_WEBHOOK_SIGNATURE), (503, SERVICE_UNAVAILABLE)}
    \<and> snd (request (webhook_process hmac sha256 secret others raw header i ev q) d)
        \<in> {d, put_audit (rejection i ev q reason) d}"
proof (cases "secret = None \<or> secret = Some []")
  case True
  then show ?thesis by (auto simp: webhook_process_def request_def session_basic)
next
  case False
  then obtain key where key: "secret = Some key" "key \<noteq> []" by auto
  show ?thesis
  proof (cases "falsy header")
    case True
    then show ?thesis
      by (intro exI [of _ "bad_signature MissingWebhookSignature"] exI [of _ "''missing_signature''"])
        (simp add: key webhook_process_def reject_request bad_signature_def)
  next
    case falsy: False
    then show ?thesis
      by (intro exI [of _ "bad_signature InvalidWebhookSignature"] exI [of _ "''invalid_signature''"])
        (simp add: key assms [OF key] webhook_process_def reject_request bad_signature_def)
  qed
qed

definition plain_digest :: "string \<Rightarrow> string \<Rightarrow> string" where
  "plain_digest key body = replicate 64 (if key = ''key'' then CHR ''a'' else CHR ''b'')"

theorem unsigned_never_stored_witness:
  "\<exists>e reason. fst (request (webhook_process plain_digest (\<lambda>x. x) (Some ''key'') (\<lambda>d. d) ''body''
        (Some (compute_signature plain_digest ''other'' ''body'')) (Some ''1'') None None) empty_db) = Inl e
    \<and> http_answer e \<in> {(401, INVALID_WEBHOOK_SIGNATURE), (503, SERVICE_UNAVAILABLE)}
    \<and> snd (request (webhook_process plain_digest (\<lambda>x. x) (Some ''key'') (\<lambda>d. d) ''body''
        (Some (compute_signature plain_digest ''other'' ''body'')) (Some ''1'') None None) empty_db)
        \<in> {empty_db, put_audit (rejection (Some ''1'') None None reason) empty_db}"
proof (rule unsigned_never_stored)
  fix key :: string
  assume "Some ''key'' = Some key"
  then show "\<not> verify_signature plain_digest key ''body'' (Some (compute_signature plain_digest ''other'' ''body''))"
    by (auto simp: compute_signature_def verify_prefixed plain_digest_def lower_def lower_char_def code_def)
qed

section \<open>What is stored was signed\<close>

definition signed_only :: "(string \<Rightarrow> string \<Rightarrow> string) \<Rightarrow> (string \<Rightarrow> string) \<Rightarrow> string \<Rightarrow> db \<Rightarrow> bool" where
  "signed_only hmac sha256 key d \<longleftrightarrow>
     deliveries_ok d
     \<and> (\<forall>w \<in> set (db_deliveries d). \<exists>raw header. verify_signature hmac key raw header \<and> wd_payload_hash w = sha256 raw)"

lemma signed_only_audit [simp]: "signed_only hmac sha256 key (put_audit e d) \<longleftrightarrow> signed_only hmac sha256 key d"
  by (simp add: signed_only_def deliveries_ok_def put_audit_def)

lemma deliveries_ok_put:
  assumes "deliveries_ok d" "\<And>x. x \<in> set (db_deliveries d) \<Longrightarrow> wd_delivery_id x \<noteq> wd_delivery_id w"
  shows "deliveries_ok (put_delivery w d)"
proof -
  have "\<not> list_ex (delivery_clash w) (db_deliveries d)"
    using assms(2) by (fastforce simp: list_ex_iff delivery_clash_def)
  then show ?thesis
    using assms(1) by (simp add: deliveries_ok_def put_delivery_def deliveries.no_clash_append)
qed

lemma signed_only_put:
  assumes "signed_only hmac sha256 key d" "\<And>x. x \<in> set (db_deliveries d) \<Longrightarrow> wd_delivery_id x \<noteq> wd_delivery_id w"
    and "verify_signature hmac key raw header" "wd_payload_hash w = sha256 raw"
  shows "signed_only hmac sha256 key (put_delivery w d)"
proof -
  have "\<exists>raw header. verify_signature hmac key raw header \<and> wd_payload_hash x = sha256 raw"
    if "x \<in> set (db_deliveries (put_delivery w d))" for x
  proof (cases "x = w")
    case False
    then have "x \<in> set (db_deliveries d)" using that by (simp add: put_delivery_def)
    then show ?thesis using assms(1) unfolding signed_only_def by blast
  qed (use assms(3,4) in blast)
  moreover have "deliveries_ok d" using assms(1) by (simp add: signed_only_def)
  ultimately show ?thesis using deliveries_ok_put assms(2) unfolding signed_only_def by blast
qed

lemma trusted_keeps:
  assumes "signed_only hmac sha256 key d" "\<And>d. signed_only hmac sha256 key d \<Longrightarrow> signed_only hmac sha256 key (others d)"
    and v: "verify_signature hmac key raw header"
  shows "signed_only hmac sha256 key (snd (request (trusted_process sha256 others raw i ev q) d))"
proof -
  have ok: "deliveries_ok d" "deliveries_ok (others d)" "signed_only hmac sha256 key (others d)"
    using assms(1,2) by (auto simp: signed_only_def)
  show ?thesis
  proof (cases "\<exists>w \<in> set (db_deliveries d). wd_delivery_id w = i")
    case True
    then obtain w where "w \<in> set (db_deliveries d)" "wd_delivery_id w = i" by blast
    from trusted_again [OF ok(1) this] show ?thesis using assms(1) by simp
  next
    case False
    let ?w = "processed_row i (if falsy ev then ''unknown'' else the ev) (sha256 raw) q"
    have w: "wd_delivery_id ?w = i" "wd_payload_hash ?w = sha256 raw" by (simp_all add: processed_row_def)
    have "delivery_by_id i (begin_txn d) = (Inr None, begin_txn d)"
      by (rule delivery_by_id_unknown) (use False in auto)
    then have r: "request (trusted_process sha256 others raw i ev q) d = request (store_delivery others ?w) d"
      by (simp add: request_def trusted_process_def sbind_def Let_def)
    show ?thesis
    proof (cases "\<exists>x \<in> set (db_deliveries (others d)). wd_delivery_id x = i")
      case True
      then obtain x where x: "x \<in> set (db_deliveries (others d))" "wd_delivery_id x = wd_delivery_id ?w" using w by auto
      show ?thesis unfolding r store_delivery_race [where others = others, OF ok(2) x] using ok(3) by simp
    next
      case False
      then have new: "wd_delivery_id x \<noteq> wd_delivery_id ?w" if "x \<in> set (db_deliveries (others d))" for x
        using that w by auto
      obtain e where e: "snd (request (store_delivery others ?w) d) = put_audit e (put_delivery ?w (others d))"
        using store_delivery_new [of others d ?w] new by fastforce
      show ?thesis unfolding r e using signed_only_put [OF ok(3) new v w(2)] by simp
    qed
  qed
qed

text \<open>
  C10: whatever is sent, and whatever other requests of the same kind commit meanwhile, the store only ever holds
  deliveries whose body was signed with the secret, one per delivery id.
\<close>

theorem stored_deliveries_signed:
  assumes "signed_only hmac sha256 key d" "\<And>d. signed_only hmac sha256 key d \<Longrightarrow> signed_only hmac sha256 key (others d)"
  shows "signed_only hmac sha256 key (snd (request (webhook_process hmac sha256 (Some key) others raw header i ev q) d))"
proof (cases "key \<noteq> [] \<and> verify_signature hmac key raw header \<and> i \<noteq> None \<and> i \<noteq> Some []")
  case True
  then obtain j where j: "i = Some j" "j \<noteq> []" by (cases i) auto
  show ?thesis
    using webhook_process_trusted [of hmac key raw header j sha256 others ev q] trusted_keeps [where others = others, OF assms, of raw header j ev q]
      True j by simp
next
  case False
  then show ?thesis
    using assms(1)
    by (cases i) (auto simp: webhook_process_def reject_request, auto simp: request_def session_basic)
qed

lemma empty_signed_only [simp]: "signed_only hmac sha256 key empty_db"
  by (simp add: signed_only_def deliveries_ok_def empty_db_def)

theorem stored_deliveries_signed_witness:
  "signed_only plain_digest (\<lambda>x. x) ''key'' (snd (request (webhook_process plain_digest (\<lambda>x. x) (Some ''key'') (\<lambda>d. d)
     ''body'' (Some (compute_signature plain_digest ''key'' ''body'')) (Some ''1'') None None) empty_db))"
  by (rule stored_deliveries_signed) simp_all

section \<open>Processed once\<close>

definition delivered ::
  "(string \<Rightarrow> string \<Rightarrow> string) \<Rightarrow> (string \<Rightarrow> string) \<Rightarrow> string \<Rightarrow> (db \<Rightarrow> db) \<Rightarrow> string \<Rightarrow> string option \<Rightarrow> string \<Rightarrow>
   string option \<Rightarrow> string option \<Rightarrow> db \<Rightarrow> (exn + process_result) \<times> db" where
  "delivered hmac sha256 key others raw header i ev q =
     request (webhook_process hmac sha256 (Some key) others raw header (Some i) ev q)"

text \<open>
  C24: the first signed delivery under an id is stored and accepted. From then on a delivery under this id changes
  no stored delivery: the same body is answered as a duplicate and changes nothing at all, another body is refused
  as a conflict and leaves an audit row.
\<close>

theorem delivery_processed_once:
  assumes "verify_signature hmac key raw header" "key \<noteq> []" "i \<noteq> []" "deliveries_ok d"
    and "wd_delivery_id ` set (db_deliveries d) \<inter> {i} = {}"
    and "verify_signature hmac key raw2 header2"
  shows "case delivered hmac sha256 key (\<lambda>d. d) raw header i ev q d of
      (Inl _, _) \<Rightarrow> False
    | (Inr r, d') \<Rightarrow>
        wr_status r = WH_ACCEPTED
        \<and> db_deliveries d' = db_deliveries d @ [processed_row i (wr_event_type r) (sha256 raw) q]
        \<and> (case delivered hmac sha256 key others raw2 header2 i ev2 q2 d' of
             (Inr r2, d2) \<Rightarrow> sha256 raw2 = sha256 raw \<and> wr_status r2 = WH_DUPLICATE \<and> d2 = d'
           | (Inl e, d2) \<Rightarrow>
               sha256 raw2 \<noteq> sha256 raw \<and> http_answer e = (409, CONFLICT) \<and> db_deliveries d2 = db_deliveries d'
               \<and> length (db_audit d2) = Suc (length (db_audit d')))"
proof -
  let ?ev = "if falsy ev then ''unknown'' else the ev"
  let ?w = "processed_row i ?ev (sha256 raw) q"
  have w: "wd_delivery_id ?w = i" "wd_payload_hash ?w = sha256 raw" "wd_event_type ?w = ?ev"
    by (simp_all add: processed_row_def)
  have new: "wd_delivery_id x \<noteq> i" if "x \<in> set (db_deliveries d)" for x
    using assms(5) that by auto
  have "delivery_by_id i (begin_txn d) = (Inr None, begin_txn d)"
    by (rule delivery_by_id_unknown) (use new in simp)
  then have "delivered hmac sha256 key (\<lambda>d. d) raw header i ev q d = request (store_delivery (\<lambda>d. d) ?w) d"
    using webhook_process_trusted [OF assms(1-3)]
    by (simp add: delivered_def) (simp add: request_def trusted_process_def sbind_def Let_def)
  then obtain e where first: "delivered hmac sha256 key (\<lambda>d. d) raw header i ev q d
      = (Inr (process_result_of WH_ACCEPTED i ?ev), put_audit e (put_delivery ?w d))"
    using store_delivery_new [of "\<lambda>d. d" d ?w] new w by auto
  let ?d = "put_audit e (put_delivery ?w d)"
  have ok: "deliveries_ok ?d"
    using deliveries_ok_put [of d ?w] assms(4) new w(1) by (simp add: deliveries_ok_def put_audit_def)
  have mem: "?w \<in> set (db_deliveries ?d)" by (simp add: put_audit_def put_delivery_def)
  have again: "delivered hmac sha256 key others raw2 header2 i ev2 q2 ?d = request (trusted_process sha256 others raw2 i ev2 q2) ?d"
    using webhook_process_trusted [OF assms(6,2,3)] by (simp add: delivered_def)
  show ?thesis
    unfolding first prod.case sum.case again trusted_again [OF ok mem w(1)] w(2)
    by (simp add: process_result_of_def put_audit_def put_delivery_def delivery_conflict_def)
qed

theorem delivery_processed_once_witness:
  "case delivered plain_digest (\<lambda>x. x) ''key'' (\<lambda>d. d) ''body''
          (Some (compute_signature plain_digest ''key'' ''body'')) ''1'' None None empty_db of
      (Inl _, _) \<Rightarrow> False
    | (Inr r, d') \<Rightarrow>
        wr_status r = WH_ACCEPTED
        \<and> db_deliveries d' = db_deliveries empty_db @ [processed_row ''1'' (wr_event_type r) ''body'' None]
        \<and> (case delivered plain_digest (\<lambda>x. x) ''key'' (\<lambda>d. d) ''more''
                  (Some (compute_signature plain_digest ''key'' ''more'')) ''1'' None None d' of
             (Inr r2, d2) \<Rightarrow> ''more'' = ''body'' \<and> wr_status r2 = WH_DUPLICATE \<and> d2 = d'
           | (Inl e, d2) \<Rightarrow>
               ''more'' \<noteq> ''body'' \<and> http_answer e = (409, CONFLICT) \<and> db_deliveries d2 = db_deliveries d'
               \<and> length (db_audit d2) = Suc (length (db_audit d')))"
proof (rule delivery_processed_once)
  have "digest_ok (plain_digest ''key'' b)" for b
    by (simp add: digest_ok_def plain_digest_def hex_digest_length_def list_all_iff)
  then show "verify_signature plain_digest ''key'' b (Some (compute_signature plain_digest ''key'' b))" for b
    by (rule compute_signature_verifies)
  then show "verify_signature plain_digest ''key'' ''more'' (Some (compute_signature plain_digest ''key'' ''more''))" .
qed (simp_all add: deliveries_ok_def empty_db_def)

end
