(* ===== verification/Events.thy ===== *)
theory Events
  imports Py_Convert
begin

text \<open>
  The events of the analysis pipeline: the envelope every message has (\<open>app/events/envelope.py\<close>), the three event
  types with their payloads (\<open>analysis_events.py\<close>), how the handling of a message may fail (\<open>errors.py\<close>) and where
  an event is sent (\<open>publisher.py\<close>, \<open>kafka_publisher.py\<close>). \<open>loads\<close> is \<open>json.loads\<close> on the bytes of a message, \<open>None\<close>
  when they are not JSON; \<open>explain\<close> is the text of an exception of the language. The id and the time of an event are
  arguments.
\<close>

section \<open>Failures\<close>

datatype event_error =
    TransientEventProcessing string
  | PermanentEventProcessing string
  | MalformedEventPayload string
  | UnknownEventType string
  | UnsupportedEventVersion string int int

section \<open>The envelope\<close>

record envelope =
  en_event_id :: string
  en_event_type :: string
  en_event_version :: int
  en_occurred_at :: string
  en_correlation_id :: string
  en_project_id :: "string option"
  en_organization_id :: "string option"
  en_payload :: json_dict
  en_metadata :: "(string \<times> string) list"

definition analysis_requested :: string where
  "analysis_requested = ''github.pr.analysis.requested''"

definition analysis_completed :: string where
  "analysis_completed = ''github.pr.analysis.completed''"

definition analysis_failed :: string where
  "analysis_failed = ''github.pr.analysis.failed''"

definition supported_event_versions :: "(string \<times> int) list" where
  "supported_event_versions = [(analysis_requested, 1), (analysis_completed, 1), (analysis_failed, 1)]"

definition build_envelope ::
  "string \<Rightarrow> string \<Rightarrow> string \<Rightarrow> json_dict \<Rightarrow> string \<Rightarrow> string option \<Rightarrow> string option \<Rightarrow> (string \<times> string) list \<Rightarrow>
   event_error + envelope" where
  "build_envelope new_id now event_type payload correlation_id project_id organization_id metadata =
     (case map_of supported_event_versions event_type of
        None \<Rightarrow> Inl (UnknownEventType event_type)
      | Some version \<Rightarrow>
          Inr \<lparr> en_event_id = new_id, en_event_type = event_type, en_event_version = version, en_occurred_at = now,
                en_correlation_id = correlation_id, en_project_id = project_id, en_organization_id = organization_id,
                en_payload = payload, en_metadata = metadata \<rparr>)"

definition json_of_text :: "string option \<Rightarrow> json" where
  "json_of_text s = (case s of None \<Rightarrow> JNull | Some t \<Rightarrow> JStr t)"

text \<open>\<open>dataclasses.asdict\<close>.\<close>

definition envelope_dict :: "envelope \<Rightarrow> json_dict" where
  "envelope_dict e =
     [(''event_id'', JStr (en_event_id e)), (''event_type'', JStr (en_event_type e)),
      (''event_version'', JInt (en_event_version e)), (''occurred_at'', JStr (en_occurred_at e)),
      (''correlation_id'', JStr (en_correlation_id e)), (''project_id'', json_of_text (en_project_id e)),
      (''organization_id'', json_of_text (en_organization_id e)), (''payload'', JDict (en_payload e)),
      (''metadata'', JDict (map (\<lambda>(k, v). (k, JStr v)) (en_metadata e)))]"

definition serialize_envelope :: "envelope \<Rightarrow> string" where
  "serialize_envelope e = json_dumps True (JDict (envelope_dict e))"

text \<open>A required text, integer or dict, and a text that may be missing or null.\<close>

definition text_of :: "json_dict \<Rightarrow> string \<Rightarrow> py_error + string" where
  "text_of data k = rbind (py_getitem (JDict data) (JStr k)) (\<lambda>v. Inr (py_str v))"

definition int_of_field :: "json_dict \<Rightarrow> string \<Rightarrow> py_error + int" where
  "int_of_field data k = rbind (py_getitem (JDict data) (JStr k)) py_int"

definition dict_of_field :: "json_dict \<Rightarrow> string \<Rightarrow> py_error + json_dict" where
  "dict_of_field data k = rbind (py_getitem (JDict data) (JStr k)) py_dict_of"

definition optional_text :: "json_dict \<Rightarrow> string \<Rightarrow> string option" where
  "optional_text data k = (if dget data k = JNull then None else Some (py_str (dget data k)))"

definition read_envelope :: "json_dict \<Rightarrow> py_error + envelope" where
  "read_envelope data =
     rbind (text_of data ''event_id'') (\<lambda>event_id.
     rbind (text_of data ''event_type'') (\<lambda>event_type.
     rbind (int_of_field data ''event_version'') (\<lambda>version.
     rbind (text_of data ''occurred_at'') (\<lambda>occurred_at.
     rbind (text_of data ''correlation_id'') (\<lambda>correlation_id.
     rbind (dict_of_field data ''payload'') (\<lambda>payload.
     rbind (if py_bool (dget data ''metadata'') then py_dict_of (dget data ''metadata'') else Inr []) (\<lambda>metadata.
     Inr \<lparr> en_event_id = event_id, en_event_type = event_type, en_event_version = version,
           en_occurred_at = occurred_at, en_correlation_id = correlation_id,
           en_project_id = optional_text data ''project_id'',
           en_organization_id = optional_text data ''organization_id'', en_payload = payload,
           en_metadata = map (\<lambda>(k, v). (k, py_str v)) metadata \<rparr>)))))))"

definition caught :: "py_error \<Rightarrow> bool" where
  "caught e \<longleftrightarrow> e \<in> {KeyError, TypeError, ValueError}"

definition deserialize_envelope ::
  "(string \<Rightarrow> json option) \<Rightarrow> (py_error \<Rightarrow> string) \<Rightarrow> string \<Rightarrow> event_error + envelope" where
  "deserialize_envelope loads explain raw =
     (case loads raw of
        None \<Rightarrow> Inl (MalformedEventPayload ''event body is not valid JSON'')
      | Some (JDict data) \<Rightarrow>
          (case read_envelope data of
             Inr e \<Rightarrow> Inr e
           | Inl x \<Rightarrow> Inl (MalformedEventPayload (''event envelope missing/malformed field: '' @ explain x)))
      | Some _ \<Rightarrow> Inl (MalformedEventPayload ''event body is not a JSON object''))"

definition validate_event_version :: "envelope \<Rightarrow> event_error + unit" where
  "validate_event_version e =
     (case map_of supported_event_versions (en_event_type e) of
        None \<Rightarrow> Inl (UnknownEventType (en_event_type e))
      | Some expected \<Rightarrow>
          rguard (en_event_version e = expected) (UnsupportedEventVersion (en_event_type e) (en_event_version e) expected))"

section \<open>Payloads\<close>

definition partition_key :: "int \<Rightarrow> int \<Rightarrow> string" where
  "partition_key repository_id number = int_str repository_id @ '':'' @ int_str number"

record requested_payload =
  qp_analysis_id :: string
  qp_project_id :: string
  qp_repository_id :: int
  qp_pull_request_number :: int
  qp_head_sha :: string
  qp_base_sha :: string
  qp_component_id :: "string option"
  qp_baseline_version :: json

definition common_payload :: "string \<Rightarrow> string \<Rightarrow> int \<Rightarrow> int \<Rightarrow> string \<Rightarrow> json_dict" where
  "common_payload analysis_id project_id repository_id number head_sha =
     [(''github_pr_analysis_id'', JStr analysis_id), (''project_id'', JStr project_id),
      (''github_repository_id'', JInt repository_id), (''pull_request_number'', JInt number),
      (''head_sha'', JStr head_sha)]"

text \<open>The three builders differ in the type and the last fields; \<open>extra\<close> are those.\<close>

definition build_analysis_event ::
  "string \<Rightarrow> string \<Rightarrow> string \<Rightarrow> string \<Rightarrow> string \<Rightarrow> string \<Rightarrow> int \<Rightarrow> int \<Rightarrow> string \<Rightarrow> json_dict \<Rightarrow> string \<Rightarrow>
   event_error + envelope" where
  "build_analysis_event new_id now event_type analysis_id project_id organization_id repository_id number head_sha extra
      correlation_id =
     build_envelope new_id now event_type (common_payload analysis_id project_id repository_id number head_sha @ extra)
       correlation_id (Some project_id) (Some organization_id) [(''partition_key'', partition_key repository_id number)]"

definition build_analysis_requested_event ::
  "string \<Rightarrow> string \<Rightarrow> string \<Rightarrow> string \<Rightarrow> string \<Rightarrow> int \<Rightarrow> int \<Rightarrow> string \<Rightarrow> string \<Rightarrow> string option \<Rightarrow> string option \<Rightarrow> string \<Rightarrow>
   event_error + envelope" where
  "build_analysis_requested_event new_id now analysis_id project_id organization_id repository_id number head_sha base_sha
      component_id baseline_version correlation_id =
     build_analysis_event new_id now analysis_requested analysis_id project_id organization_id repository_id number head_sha
       [(''base_sha'', JStr base_sha), (''component_id'', json_of_text component_id),
        (''baseline_version'', json_of_text baseline_version)] correlation_id"

definition build_analysis_completed_event ::
  "string \<Rightarrow> string \<Rightarrow> string \<Rightarrow> string \<Rightarrow> string \<Rightarrow> int \<Rightarrow> int \<Rightarrow> string \<Rightarrow> string \<Rightarrow> string \<Rightarrow> int \<Rightarrow> string \<Rightarrow>
   event_error + envelope" where
  "build_analysis_completed_event new_id now analysis_id project_id organization_id repository_id number head_sha
      assessment_id decision score correlation_id =
     build_analysis_event new_id now analysis_completed analysis_id project_id organization_id repository_id number head_sha
       [(''risk_assessment_id'', JStr assessment_id), (''decision'', JStr decision), (''score'', JInt score)] correlation_id"

definition build_analysis_failed_event ::
  "string \<Rightarrow> string \<Rightarrow> string \<Rightarrow> string \<Rightarrow> string \<Rightarrow> int \<Rightarrow> int \<Rightarrow> string \<Rightarrow> string \<Rightarrow> int \<Rightarrow> string \<Rightarrow> event_error + envelope" where
  "build_analysis_failed_event new_id now analysis_id project_id organization_id repository_id number head_sha
      error_category retry_count correlation_id =
     build_analysis_event new_id now analysis_failed analysis_id project_id organization_id repository_id number head_sha
       [(''error_category'', JStr error_category), (''retry_count'', JInt retry_count)] correlation_id"

definition read_requested_payload :: "json_dict \<Rightarrow> py_error + requested_payload" where
  "read_requested_payload p =
     rbind (text_of p ''github_pr_analysis_id'') (\<lambda>analysis_id.
     rbind (text_of p ''project_id'') (\<lambda>project_id.
     rbind (int_of_field p ''github_repository_id'') (\<lambda>repository_id.
     rbind (int_of_field p ''pull_request_number'') (\<lambda>number.
     rbind (text_of p ''head_sha'') (\<lambda>head_sha.
     rbind (text_of p ''base_sha'') (\<lambda>base_sha.
     Inr \<lparr> qp_analysis_id = analysis_id, qp_project_id = project_id, qp_repository_id = repository_id,
           qp_pull_request_number = number, qp_head_sha = head_sha, qp_base_sha = base_sha,
           qp_component_id = optional_text p ''component_id'',
           qp_baseline_version = dget p ''baseline_version'' \<rparr>))))))"

definition parse_analysis_requested_payload ::
  "(py_error \<Rightarrow> string) \<Rightarrow> envelope \<Rightarrow> event_error + requested_payload" where
  "parse_analysis_requested_payload explain e =
     (case read_requested_payload (en_payload e) of
        Inr p \<Rightarrow> Inr p
      | Inl x \<Rightarrow> Inl (MalformedEventPayload (en_event_type e @ '' payload missing/malformed field: '' @ explain x)))"

section \<open>Sending\<close>

definition resolve_topic :: "string \<Rightarrow> string \<Rightarrow> string \<Rightarrow> event_error + string" where
  "resolve_topic event_type request_topic result_topic =
     (if event_type = analysis_requested then Inr request_topic
      else if event_type \<in> {analysis_completed, analysis_failed} then Inr result_topic
      else Inl (UnknownEventType event_type))"

text \<open>\<open>producer topic key value\<close> is what the broker makes of a message: accepted, or an error of Kafka.\<close>

definition publish_event ::
  "(string \<Rightarrow> string \<Rightarrow> string \<Rightarrow> string option) \<Rightarrow> string \<Rightarrow> string \<Rightarrow> envelope \<Rightarrow> event_error + unit" where
  "publish_event producer request_topic result_topic e =
     rbind (resolve_topic (en_event_type e) request_topic result_topic) (\<lambda>topic.
     case producer topic (case map_of (en_metadata e) ''partition_key'' of Some k \<Rightarrow> k | None \<Rightarrow> en_event_id e)
            (serialize_envelope e) of
       None \<Rightarrow> Inr ()
     | Some reason \<Rightarrow> Inl (TransientEventProcessing (''Kafka publish failed: '' @ reason)))"

section \<open>Lemmas\<close>

text \<open>Reading raises nothing that is not caught.\<close>

lemma field_errors:
  "text_of data k = Inl e \<Longrightarrow> caught e" "int_of_field data k = Inl e \<Longrightarrow> caught e" "dict_of_field data k = Inl e \<Longrightarrow> caught e"
  by (auto simp: caught_def text_of_def int_of_field_def dict_of_field_def rbind_eq_Inl_iff split: option.splits
      dest: py_int_error py_dict_of_error)

lemma metadata_error: "(if b then py_dict_of v else Inr []) = Inl e \<Longrightarrow> caught e"
  by (auto simp: caught_def split: if_splits dest: py_dict_of_error)

lemma read_envelope_error: "read_envelope data = Inl e \<Longrightarrow> caught e"
  unfolding read_envelope_def rbind_eq_Inl_iff by (auto dest: field_errors metadata_error)

lemma read_requested_payload_error: "read_requested_payload p = Inl e \<Longrightarrow> caught e"
  unfolding read_requested_payload_def rbind_eq_Inl_iff by (auto dest: field_errors)

end
