(* ===== verification/Kafka_Consumer.thy ===== *)
theory Kafka_Consumer
  imports Events
begin

text \<open>
  \<open>app/kafka/consumer.py\<close>: the loop over the messages. \<open>'w\<close> is the world the handler, the commit of the offset and
  the dead-letter topic act on. Proved here: how the loop over the attempts at one message unfolds.
\<close>

text \<open>What a handler, or the broker, may raise: a failure of event processing, or any other exception.\<close>

datatype failure = Ev event_error | Other exn

record 'w consumer =
  handle :: "envelope \<Rightarrow> 'w \<Rightarrow> (failure + unit) \<times> 'w"
  commit_offset :: "'w \<Rightarrow> (failure + unit) \<times> 'w"
  dlq_publish :: "(string \<Rightarrow> string \<Rightarrow> nat \<Rightarrow> 'w \<Rightarrow> (failure + unit) \<times> 'w) option"

definition max_transient_retries :: nat where
  "max_transient_retries = 3"

text \<open>A failure to publish to the dead-letter topic is logged only.\<close>

definition to_dlq :: "'w consumer \<Rightarrow> string \<Rightarrow> string \<Rightarrow> nat \<Rightarrow> 'w \<Rightarrow> 'w" where
  "to_dlq c raw category retry_count w =
     (case dlq_publish c of None \<Rightarrow> w | Some p \<Rightarrow> snd (p raw category retry_count w))"

text \<open>The body of the \<open>try\<close>.\<close>

definition handle_and_commit :: "'w consumer \<Rightarrow> envelope \<Rightarrow> 'w \<Rightarrow> (failure + unit) \<times> 'w" where
  "handle_and_commit c e w =
     (case handle c e w of
        (Inl f, w') \<Rightarrow> (Inl f, w')
      | (Inr _, w') \<Rightarrow> commit_offset c w')"

definition give_up :: "'w consumer \<Rightarrow> string \<Rightarrow> string \<Rightarrow> nat \<Rightarrow> 'w \<Rightarrow> (failure + unit) \<times> 'w" where
  "give_up c raw category retry_count w = commit_offset c (to_dlq c raw category retry_count w)"

function dispatch_with_retry :: "'w consumer \<Rightarrow> string \<Rightarrow> envelope \<Rightarrow> nat \<Rightarrow> 'w \<Rightarrow> (failure + unit) \<times> 'w" where
  "dispatch_with_retry c raw e attempt w =
     (case handle_and_commit c e w of
        (Inr _, w') \<Rightarrow> (Inr (), w')
      | (Inl (Other x), w') \<Rightarrow> (Inl (Other x), w')
      | (Inl (Ev (UnsupportedEventVersion t g x)), w') \<Rightarrow> give_up c raw ''unsupported_event_version'' attempt w'
      | (Inl (Ev (TransientEventProcessing t)), w') \<Rightarrow>
          if max_transient_retries < Suc attempt
          then give_up c raw ''transient_retries_exhausted'' (Suc attempt) w'
          else dispatch_with_retry c raw e (Suc attempt) w'
      | (Inl (Ev _), w') \<Rightarrow> give_up c raw ''permanent_processing_error'' attempt w')"
  by pat_completeness auto

termination
  by (relation "measure (\<lambda>(c, raw, e, attempt, w). Suc max_transient_retries - attempt)")
    (auto simp: max_transient_retries_def)

declare dispatch_with_retry.simps [simp del]

definition process_one ::
  "(string \<Rightarrow> json option) \<Rightarrow> (py_error \<Rightarrow> string) \<Rightarrow> 'w consumer \<Rightarrow> string \<Rightarrow> 'w \<Rightarrow> (failure + unit) \<times> 'w" where
  "process_one loads explain c raw w =
     (case deserialize_envelope loads explain raw of
        Inl _ \<Rightarrow> give_up c raw ''malformed_payload'' 0 w
      | Inr e \<Rightarrow> dispatch_with_retry c raw e 0 w)"

text \<open>The messages in order, until an exception leaves the loop; with the messages not processed.\<close>

fun run_forever ::
  "(string \<Rightarrow> json option) \<Rightarrow> (py_error \<Rightarrow> string) \<Rightarrow> 'w consumer \<Rightarrow> string list \<Rightarrow> 'w \<Rightarrow> (failure option \<times> string list) \<times> 'w" where
  "run_forever loads explain c [] w = ((None, []), w)"
| "run_forever loads explain c (raw # raws) w =
     (case process_one loads explain c raw w of
        (Inl f, w') \<Rightarrow> ((Some f, raw # raws), w')
      | (Inr _, w') \<Rightarrow> run_forever loads explain c raws w')"

text \<open>The record sent to the dead-letter topic (\<open>_dlq_publish\<close> of \<open>app/kafka/worker.py\<close>), with its key.\<close>

definition dlq_record ::
  "(string \<Rightarrow> json option) \<Rightarrow> (py_error \<Rightarrow> string) \<Rightarrow> string \<Rightarrow> string \<Rightarrow> nat \<Rightarrow> string \<times> json_dict" where
  "dlq_record loads explain raw category retry_count =
     (let e = (case deserialize_envelope loads explain raw of Inr e \<Rightarrow> Some e | Inl _ \<Rightarrow> None)
      in (case e of Some x \<Rightarrow> en_event_id x | None \<Rightarrow> ''unknown'',
          [(''original_event_id'', json_of_text (map_option en_event_id e)),
           (''original_event_type'', json_of_text (map_option en_event_type e)),
           (''original_event_version'', case e of Some x \<Rightarrow> JInt (en_event_version x) | None \<Rightarrow> JNull),
           (''failure_category'', JStr category), (''retry_count'', JInt (int retry_count)),
           (''correlation_id'', json_of_text (map_option en_correlation_id e))]))"

section \<open>Counting\<close>

text \<open>The same consumer, counting the calls of the handler and the commits.\<close>

definition counted :: "'w consumer \<Rightarrow> (nat \<times> nat \<times> 'w) consumer" where
  "counted c =
     \<lparr> handle = (\<lambda>e (n, k, w). case handle c e w of (r, w') \<Rightarrow> (r, (Suc n, k, w'))),
       commit_offset = (\<lambda>(n, k, w). case commit_offset c w of (r, w') \<Rightarrow> (r, (n, Suc k, w'))),
       dlq_publish = map_option (\<lambda>p raw category retries (n, k, w).
         case p raw category retries w of (r, w') \<Rightarrow> (r, (n, k, w'))) (dlq_publish c) \<rparr>"

lemma counted_simps:
  "handle (counted c) e (n, k, w) = (fst (handle c e w), (Suc n, k, snd (handle c e w)))"
  "commit_offset (counted c) (n, k, w) = (fst (commit_offset c w), (n, Suc k, snd (commit_offset c w)))"
  "to_dlq (counted c) raw category r (n, k, w) = (n, k, to_dlq c raw category r w)"
  by (auto simp: counted_def to_dlq_def split: prod.split option.split)

lemma give_up_counted:
  "give_up (counted c) raw category r (n, k, w)
     = (fst (give_up c raw category r w), (n, Suc k, snd (give_up c raw category r w)))"
  by (simp add: give_up_def counted_simps)

lemma handle_and_commit_counted:
  "handle_and_commit (counted c) e (n, k, w) =
     (fst (handle_and_commit c e w),
      (Suc n, (case fst (handle c e w) of Inl _ \<Rightarrow> k | Inr _ \<Rightarrow> Suc k), snd (handle_and_commit c e w)))"
  by (cases "handle c e w") (simp add: handle_and_commit_def counted_simps split: sum.split)

text \<open>The number of attempts, whatever the handler does, when the broker takes commits.\<close>

definition commits_succeed :: "'w consumer \<Rightarrow> bool" where
  "commits_succeed c \<longleftrightarrow> (\<forall>w. fst (commit_offset c w) = Inr ())"

lemma handle_and_commit_ok:
  assumes "commits_succeed c"
  shows "fst (handle_and_commit c e w) = fst (handle c e w)"
  using assms by (cases "handle c e w") (auto simp: handle_and_commit_def commits_succeed_def split: sum.split)

lemma dispatch_counted:
  assumes "commits_succeed c"
  shows "\<exists>r n' k' w'. dispatch_with_retry (counted c) raw e attempt (n, k, w) = (r, (n', k', w'))
    \<and> n < n' \<and> n' \<le> n + Suc (max_transient_retries - attempt)
    \<and> (r = Inr () \<and> k' = Suc k \<or> (\<exists>x. r = Inl (Other x)) \<and> k' = k)"
proof (induction "Suc max_transient_retries - attempt" arbitrary: attempt n k w rule: less_induct)
  case less
  have h: "handle_and_commit (counted c) e (n, k, w) =
     (fst (handle c e w),
      (Suc n, (case fst (handle c e w) of Inl _ \<Rightarrow> k | Inr _ \<Rightarrow> Suc k), snd (handle_and_commit c e w)))"
    by (simp add: handle_and_commit_counted handle_and_commit_ok [OF assms])
  have g: "fst (give_up c raw category r w) = Inr ()" for category r w
    using assms by (simp add: give_up_def commits_succeed_def)
  show ?case
  proof (cases "fst (handle c e w)")
    case (Inr u)
    then show ?thesis by (subst dispatch_with_retry.simps) (simp add: h)
  next
    case (Inl f)
    show ?thesis
    proof (cases "\<exists>t. f = Ev (TransientEventProcessing t)")
      case True
      then obtain t where f: "f = Ev (TransientEventProcessing t)" by blast
      show ?thesis
      proof (cases "max_transient_retries < Suc attempt")
        case True
        then show ?thesis by (subst dispatch_with_retry.simps) (simp add: h Inl f give_up_counted g)
      next
        case False
        then have "Suc max_transient_retries - Suc attempt < Suc max_transient_retries - attempt" by simp
        from less [OF this, of "Suc n" k "snd (handle_and_commit c e w)"]
        show ?thesis
          using False by (subst dispatch_with_retry.simps) (auto simp: h Inl f)
      qed
    next
      case False
      then show ?thesis
        by (subst dispatch_with_retry.simps)
          (auto simp: h Inl give_up_counted g split: failure.split event_error.split)
    qed
  qed
qed

end
