(* ===== verification/Repository_Mapping.thy ===== *)
theory Repository_Mapping
  imports Registry
begin

text \<open>
  \<open>app/services/github_repository_mapping_service.py\<close> with its repository: which project, component and baseline
  a GitHub repository is analysed against. \<open>others\<close> is what other transactions commit before the flush.
\<close>

definition mapping_by_repository :: "int \<Rightarrow> repository_mapping option session" where
  "mapping_by_repository github_repository_id = fetch_one db_mappings (\<lambda>m. gm_repository_id m = github_repository_id)"

definition mapping_by_id :: "uuid \<Rightarrow> uuid \<Rightarrow> repository_mapping option session" where
  "mapping_by_id project_id mapping_id = fetch_one db_mappings (\<lambda>m. gm_id m = mapping_id \<and> gm_project_id m = project_id)"

definition mapping_clash :: "repository_mapping \<Rightarrow> repository_mapping \<Rightarrow> bool" where
  "mapping_clash a b \<longleftrightarrow> gm_id a = gm_id b \<or> gm_repository_id a = gm_repository_id b"

definition mapping_linked :: "repository_mapping \<Rightarrow> db \<Rightarrow> bool" where
  "mapping_linked m d \<longleftrightarrow>
     list_ex (\<lambda>p. pj_id p = gm_project_id m) (db_projects d)
     \<and> (case gm_component_id m of None \<Rightarrow> True | Some i \<Rightarrow> list_ex (\<lambda>c. cm_id c = i) (db_components d))"

definition put_mapping :: "repository_mapping \<Rightarrow> db \<Rightarrow> db" where
  "put_mapping m d = d \<lparr> db_mappings := db_mappings d @ [m] \<rparr>"

definition create_mapping ::
  "(db \<Rightarrow> db) \<Rightarrow> uuid \<Rightarrow> uuid \<Rightarrow> int \<Rightarrow> string \<Rightarrow> int option \<Rightarrow> uuid option \<Rightarrow> string option \<Rightarrow> repository_mapping session" where
  "create_mapping others new_id project_id github_repository_id full_name installation_id component_id baseline_version =
     sbind (require_project project_id) (\<lambda>project.
     let mapping = \<lparr> gm_id = new_id, gm_organization_id = pj_organization_id project, gm_project_id = project_id,
                     gm_component_id = component_id, gm_repository_id = github_repository_id,
                     gm_full_name = full_name, gm_installation_id = installation_id,
                     gm_baseline_version = baseline_version \<rparr>
     in sthen (concurrently others)
        (sthen (scatch_integrity (flush_row db_mappings mapping_clash mapping_linked put_mapping mapping)
                 (sthen srollback
                   (sraise (Dom (ConflictError (DuplicateGitHubRepositoryMapping github_repository_id))))))
        (sthen scommit (sreturn mapping))))"

text \<open>The newest first; rows are stored in the order in which they were created.\<close>

definition list_mappings :: "uuid \<Rightarrow> repository_mapping list session" where
  "list_mappings project_id = sread (\<lambda>d. rev (filter (\<lambda>m. gm_project_id m = project_id) (db_mappings d)))"

definition remove_mapping :: "uuid \<Rightarrow> db \<Rightarrow> db" where
  "remove_mapping mapping_id d = d \<lparr> db_mappings := filter (\<lambda>m. gm_id m \<noteq> mapping_id) (db_mappings d) \<rparr>"

definition delete_mapping :: "uuid \<Rightarrow> uuid \<Rightarrow> unit session" where
  "delete_mapping project_id mapping_id =
     sbind (srequire (Dom (NotFoundError (GitHubRepositoryMappingNotFound mapping_id))) (mapping_by_id project_id mapping_id))
       (\<lambda>m. sthen (swrite (remove_mapping (gm_id m))) scommit)"

interpretation mappings: unique_table mapping_clash db_mappings put_mapping
  by unfold_locales (auto simp: mapping_clash_def put_mapping_def)

section \<open>One mapping per repository\<close>

definition mappings_ok :: "db \<Rightarrow> bool" where
  "mappings_ok d \<longleftrightarrow> no_clash mapping_clash (db_mappings d)"

lemma no_clash_filtered: "no_clash clash rs \<Longrightarrow> no_clash clash (filter P rs)"
  by (induction rs) (auto simp: list_ex_iff)

lemma delete_mapping_keeps:
  "mappings_ok (tx_current s) \<Longrightarrow> delete_mapping p i s = (Inr u, t) \<Longrightarrow> mappings_ok (tx_current t)"
  by (auto simp: delete_mapping_def sbind_eq_Inr srequire_eq_Inr sthen_eq_Inr mapping_by_id_def fetch_one_eq_Inr
      session_basic remove_mapping_def mappings_ok_def no_clash_filtered)

lemma create_mapping_Inr:
  assumes "create_mapping others i p r nm inst c b s = (Inr m, t)"
  shows "\<exists>u. flush_row db_mappings mapping_clash mapping_linked put_mapping m
      \<lparr> tx_committed = others (tx_committed s), tx_current = others (tx_current s) \<rparr> = (Inr (), u)
    \<and> t = u \<lparr> tx_committed := tx_current u \<rparr> \<and> gm_repository_id m = r \<and> gm_project_id m = p \<and> gm_component_id m = c"
proof -
  obtain pj where pj: "require_project p s = (Inr pj, s)"
    using assms by (auto simp: create_mapping_def sbind_eq_Inr require_project_def project_by_id_def srequire_eq_Inr
        fetch_one_eq_Inr)
  show ?thesis
    using assms
    by (auto simp: create_mapping_def sbind_def pj Let_def sthen_def concurrently_def session_basic
        scatch_integrity_def flush_row_def split: if_splits exn.splits)
qed

lemma create_mapping_keeps:
  assumes "mappings_ok (others (tx_current s))" "create_mapping others i p r nm inst c b s = (Inr m, t)"
  shows "mappings_ok (tx_current t) \<and> mapping_by_repository r t = (Inr (Some m), t)"
proof -
  let ?o = "\<lparr> tx_committed = others (tx_committed s), tx_current = others (tx_current s) \<rparr>"
  obtain u where u: "flush_row db_mappings mapping_clash mapping_linked put_mapping m ?o = (Inr (), u)"
    "t = u \<lparr> tx_committed := tx_current u \<rparr>" "gm_repository_id m = r"
    using create_mapping_Inr [OF assms(2)] by blast
  have "mappings_ok (tx_current u)"
    using mappings.flush_keeps [OF u(1)] assms(1) by (simp add: mappings_ok_def)
  moreover have "fetch_one db_mappings (\<lambda>m. gm_repository_id m = r) u = (Inr (Some m), u)"
    by (rule mappings.flush_then_fetch [OF u(1)]) (use u(3) in \<open>auto simp: mapping_clash_def put_mapping_def\<close>)
  ultimately show ?thesis
    using u(2) by (simp add: mapping_by_repository_def fetch_one_def)
qed

text \<open>A component that does not exist is refused, as if the repository were mapped already.\<close>

lemma create_mapping_unknown_component:
  assumes "project_by_id p (begin_txn d) = (Inr (Some pj), begin_txn d)"
    "\<not> list_ex (\<lambda>k. cm_id k = c) (db_components (others d))"
  shows "request (create_mapping others i p r nm inst (Some c) b) d
    = (Inl (Dom (ConflictError (DuplicateGitHubRepositoryMapping r))), others d)"
proof -
  have pj: "require_project p (begin_txn d) = (Inr pj, begin_txn d)"
    using assms(1) by (simp add: require_project_def srequire_simps)
  show ?thesis
    using assms(2)
    by (simp add: request_def create_mapping_def pj Let_def sthen_def sbind_def concurrently_def
        scatch_integrity_def flush_row_def mapping_linked_def session_basic)
qed

end
