(* ===== verification/Pr_Analysis.thy ===== *)
theory Pr_Analysis
  imports Github_Model Risk_Service Authz Repository_Mapping
begin

text \<open>
  \<open>app/services/github_pr_analysis_service.py\<close> with its repository: one analysis per pull request, commit and
  version of the analysis; it is started by a delivery, run once, and its outcome is published as a check. \<open>client\<close>
  is the GitHub client, \<open>others\<close> what other transactions commit before the flush of a new row. Times, spans and
  counters are not modelled.
\<close>

section \<open>Rows\<close>

definition analysis_version :: string where
  "analysis_version = ''1''"

definition terminal_analysis :: "pr_analysis_status \<Rightarrow> bool" where
  "terminal_analysis st \<longleftrightarrow> st \<in> {PA_COMPLETED, PA_FAILED}"

definition analysis_by_key :: "int \<Rightarrow> int \<Rightarrow> string \<Rightarrow> string \<Rightarrow> pr_analysis option session" where
  "analysis_by_key repository_id number sha version =
     fetch_one db_analyses (\<lambda>a. ga_repository_id a = repository_id \<and> ga_pull_request_number a = number
       \<and> ga_head_sha a = sha \<and> ga_analysis_version a = version)"

definition analysis_by_id :: "uuid \<Rightarrow> uuid \<Rightarrow> pr_analysis option session" where
  "analysis_by_id project_id analysis_id =
     fetch_one db_analyses (\<lambda>a. ga_id a = analysis_id \<and> ga_project_id a = project_id)"

definition analysis_clash :: "pr_analysis \<Rightarrow> pr_analysis \<Rightarrow> bool" where
  "analysis_clash a b \<longleftrightarrow>
     ga_id a = ga_id b
     \<or> ga_repository_id a = ga_repository_id b \<and> ga_pull_request_number a = ga_pull_request_number b
       \<and> ga_head_sha a = ga_head_sha b \<and> ga_analysis_version a = ga_analysis_version b"

definition analysis_linked :: "pr_analysis \<Rightarrow> db \<Rightarrow> bool" where
  "analysis_linked a d \<longleftrightarrow> list_ex (\<lambda>p. pj_id p = ga_project_id a) (db_projects d)"

definition put_analysis :: "pr_analysis \<Rightarrow> db \<Rightarrow> db" where
  "put_analysis a d = d \<lparr> db_analyses := db_analyses d @ [a] \<rparr>"

text \<open>A flush of changed columns: the row is the one with the id, and the object in memory changes with it.\<close>

definition update_analysis :: "uuid \<Rightarrow> (pr_analysis \<Rightarrow> pr_analysis) \<Rightarrow> db \<Rightarrow> db" where
  "update_analysis i f d = d \<lparr> db_analyses := map (\<lambda>a. if ga_id a = i then f a else a) (db_analyses d) \<rparr>"

definition save :: "(pr_analysis \<Rightarrow> pr_analysis) \<Rightarrow> pr_analysis \<Rightarrow> pr_analysis session" where
  "save f a = sthen (swrite (update_analysis (ga_id a) f)) (sreturn (f a))"

text \<open>\<open>session.get\<close> by a nullable id.\<close>

definition get_row :: "(db \<Rightarrow> 'r list) \<Rightarrow> ('r \<Rightarrow> uuid) \<Rightarrow> uuid option \<Rightarrow> 'r option session" where
  "get_row table key i = (case i of None \<Rightarrow> sreturn None | Some k \<Rightarrow> fetch_one table (\<lambda>r. key r = k))"

text \<open>\<open>try: m except Exception as e: h\<close>.\<close>

definition scatch :: "'a session \<Rightarrow> (exn \<Rightarrow> 'a session) \<Rightarrow> 'a session" where
  "scatch m h = (\<lambda>s. case m s of (Inl e, t) \<Rightarrow> h e t | (Inr x, t) \<Rightarrow> (Inr x, t))"

section \<open>Starting an analysis\<close>

abbreviation github_exn :: "github_error \<Rightarrow> exn" where
  "github_exn e \<equiv> Dom (GitHubError e)"

definition not_mapped :: "int \<Rightarrow> exn" where
  "not_mapped repository_id = Dom (NotFoundError (GitHubRepositoryNotMapped repository_id))"

definition no_component_configured :: "string \<Rightarrow> exn" where
  "no_component_configured full_name =
     github_exn (MissingAgentABIConfiguration (''repository '' @ full_name
       @ '' is mapped to a project but has no component_id configured''))"

definition new_analysis :: "uuid \<Rightarrow> repository_mapping \<Rightarrow> pull_request_payload \<Rightarrow> string \<Rightarrow> pr_analysis" where
  "new_analysis new_id m p delivery_id =
     \<lparr> ga_id = new_id, ga_organization_id = gm_organization_id m, ga_project_id = gm_project_id m,
       ga_repository_id = pw_repository_id p, ga_pull_request_number = pw_pull_request_number p,
       ga_head_sha = pw_head_sha p, ga_base_sha = pw_base_sha p, ga_delivery_id = delivery_id,
       ga_analysis_version = analysis_version, ga_status = PA_PENDING, ga_decision = None,
       ga_compatibility_scan_id = None, ga_risk_assessment_id = None, ga_check_run_id = None,
       ga_publish_error = None, ga_completed = False \<rparr>"

text \<open>\<open>_start_or_get\<close>: the analysis, and whether it is new.\<close>

definition start_or_get ::
  "(db \<Rightarrow> db) \<Rightarrow> uuid \<Rightarrow> pull_request_payload \<Rightarrow> string \<Rightarrow> string option \<Rightarrow> (pr_analysis \<times> bool) session" where
  "start_or_get others new_id p delivery_id request_id =
     sbind (srequire (not_mapped (pw_repository_id p)) (mapping_by_repository (pw_repository_id p))) (\<lambda>m.
     sthen (sguard (gm_component_id m \<noteq> None) (no_component_configured (pw_repository_full_name p)))
     (sbind (analysis_by_key (pw_repository_id p) (pw_pull_request_number p) (pw_head_sha p) analysis_version) (\<lambda>existing.
      case existing of
        Some a \<Rightarrow> sreturn (a, False)
      | None \<Rightarrow>
          let a = new_analysis new_id m p delivery_id
          in sthen (concurrently others)
             (sthen (flush_row db_analyses analysis_clash analysis_linked put_analysis a)
             (sthen (audit (audit_record GITHUB_PR_ANALYSIS_STARTED (Some (gm_organization_id m)) None
                       (Some ''github_pr_analysis'') (Some (uuid_str new_id)) request_id
                       [(''project_id'', JStr (uuid_str (gm_project_id m))),
                        (''github_repository_id'', JInt (pw_repository_id p)),
                        (''pull_request_number'', JInt (pw_pull_request_number p)),
                        (''head_sha'', JStr (pw_head_sha p))]))
             (sthen scommit (sreturn (a, True))))))))"

definition start_analysis ::
  "(db \<Rightarrow> db) \<Rightarrow> uuid \<Rightarrow> pull_request_payload \<Rightarrow> string \<Rightarrow> string option \<Rightarrow> pr_analysis session" where
  "start_analysis others new_id p delivery_id request_id =
     sbind (start_or_get others new_id p delivery_id request_id) (\<lambda>(a, created). sreturn a)"

definition get_repository_mapping :: "int \<Rightarrow> repository_mapping option session" where
  "get_repository_mapping github_repository_id = mapping_by_repository github_repository_id"

section \<open>Reading\<close>

definition get_analysis :: "uuid \<Rightarrow> uuid \<Rightarrow> pr_analysis session" where
  "get_analysis project_id analysis_id =
     srequire (Dom (NotFoundError (GitHubPullRequestAnalysisNotFound analysis_id))) (analysis_by_id project_id analysis_id)"

text \<open>The newest first; rows are stored in the order in which they were created.\<close>

definition list_analyses :: "uuid \<Rightarrow> int option \<Rightarrow> nat \<Rightarrow> nat \<Rightarrow> pr_analysis page session" where
  "list_analyses project_id number page page_size =
     sread (\<lambda>d. page_result page page_size
       (rev (filter (\<lambda>a. ga_project_id a = project_id \<and> (case number of None \<Rightarrow> True | Some n \<Rightarrow> ga_pull_request_number a = n))
          (db_analyses d))))"

section \<open>The evidence\<close>

text \<open>A mapping whose component was deleted has none: the look-up by a null id finds nothing (\<open>0\<close> stands for it).\<close>

definition mapped_component :: "repository_mapping \<Rightarrow> uuid session" where
  "mapped_component m =
     (case gm_component_id m of
        Some i \<Rightarrow> sreturn i
      | None \<Rightarrow> sthen (require_project (gm_project_id m)) (sraise (Dom (NotFoundError (ComponentNotFound 0)))))"

definition on_missing_version :: "'a session \<Rightarrow> string \<Rightarrow> 'a session" where
  "on_missing_version m detail =
     scatch m (\<lambda>e. case e of
       Dom (NotFoundError (ComponentVersionNotFound _ _)) \<Rightarrow> sraise (github_exn (MissingAgentABIConfiguration detail))
     | _ \<Rightarrow> sraise e)"

definition no_version_registered :: "uuid \<Rightarrow> string" where
  "no_version_registered component_id =
     ''no baseline_version configured and no ComponentVersion registered yet for component '' @ uuid_str component_id"

definition no_candidate_registered :: "uuid \<Rightarrow> string \<Rightarrow> string" where
  "no_candidate_registered component_id sha =
     ''no ComponentVersion registered with version='' @ str_repr sha @ '' for component '' @ uuid_str component_id
     @ ''; register one before triggering PR analysis''"

definition baseline_of :: "repository_mapping \<Rightarrow> uuid \<Rightarrow> string session" where
  "baseline_of m component_id =
     (case gm_baseline_version m of
        Some (c # cs) \<Rightarrow> sreturn (c # cs)
      | _ \<Rightarrow> on_missing_version
              (sbind (get_latest_component_version (gm_project_id m) component_id) (\<lambda>v. sreturn (cv_version v)))
              (no_version_registered component_id))"

definition run_compatibility :: "uuid \<Rightarrow> repository_mapping \<Rightarrow> string \<Rightarrow> compatibility_scan session" where
  "run_compatibility scan_id m sha =
     sbind (mapped_component m) (\<lambda>component_id.
     sbind (baseline_of m component_id) (\<lambda>baseline_version.
     on_missing_version (run_scan scan_id (gm_project_id m) component_id baseline_version sha)
       (no_candidate_registered component_id sha)))"

text \<open>The body of the \<open>try\<close>: a scan and its assessment, the risk service being built without a graph.\<close>

definition gather_evidence ::
  "(string \<Rightarrow> string) \<Rightarrow> (db \<Rightarrow> db) \<Rightarrow> uuid \<Rightarrow> uuid \<Rightarrow> repository_mapping \<Rightarrow> string \<Rightarrow>
   (compatibility_scan \<times> assessment_row) session" where
  "gather_evidence sha256 others scan_id assessment_id m sha =
     sbind (run_compatibility scan_id m sha) (\<lambda>scan.
     sbind (run_assessment sha256 None others (gm_project_id m) (Some (cs_id scan)) None assessment_id) (\<lambda>a.
     sreturn (scan, a)))"

section \<open>Publishing\<close>

fun orchestratable :: "exn \<Rightarrow> bool" where
  "orchestratable (Dom (GitHubError (GitHubAPIUnavailable _))) = True"
| "orchestratable (Dom (GitHubError (GitHubAuthenticationFailed _))) = True"
| "orchestratable (Dom (GitHubError (GitHubCheckPublishFailed _))) = True"
| "orchestratable _ = False"

fun publish_failure_text :: "exn \<Rightarrow> string" where
  "publish_failure_text (Dom (GitHubError (GitHubAPIUnavailable t))) = t"
| "publish_failure_text (Dom (GitHubError (GitHubAuthenticationFailed t))) = t"
| "publish_failure_text (Dom (GitHubError (GitHubCheckPublishFailed t))) = t"
| "publish_failure_text _ = []"

definition compatibility_summary :: "compatibility_scan \<Rightarrow> string" where
  "compatibility_summary scan =
     (if cs_status scan = CS_COMPATIBLE then int_str (int (cs_total_changes scan)) @ '' change(s), all compatible.''
      else int_str (int (cs_total_changes scan)) @ '' change(s) '' @ dash @ '' ''
        @ int_str (int (cs_breaking_count scan)) @ '' breaking, ''
        @ int_str (int (cs_potentially_breaking_count scan)) @ '' potentially breaking.'')"

text \<open>\<open>RiskDecision(value)\<close>.\<close>

definition risk_decision_of :: "string \<Rightarrow> exn + risk_decision" where
  "risk_decision_of v =
     (case find (\<lambda>d. risk_decision_value d = v) [RD_PASS, RD_WARN, RD_BLOCK] of
        Some d \<Rightarrow> Inr d
      | None \<Rightarrow> Inl (Py ValueError))"

definition check_request ::
  "repository_mapping \<Rightarrow> pr_analysis \<Rightarrow> check_status \<Rightarrow> check_run_output \<Rightarrow> check_conclusion option \<Rightarrow> check_run_request" where
  "check_request m a st output conclusion =
     \<lparr> cq_repository_full_name = gm_full_name m, cq_head_sha = ga_head_sha a, cq_name = check_name, cq_status = st,
       cq_output = output, cq_conclusion = conclusion, cq_details_url = None, cq_external_id = Some (uuid_str (ga_id a)) \<rparr>"

definition publish_in_progress :: "checks_client \<Rightarrow> repository_mapping \<Rightarrow> pr_analysis \<Rightarrow> pr_analysis session" where
  "publish_in_progress client m a =
     (case create_check_run client (check_request m a CK_IN_PROGRESS (build_in_progress_output None) None) of
        Inl e \<Rightarrow> if orchestratable e then sreturn a else sraise e
      | Inr r \<Rightarrow>
          sbind (save (\<lambda>a. a \<lparr> ga_check_run_id := Some (cr_id r) \<rparr>) a) (\<lambda>a. sthen scommit (sreturn a)))"

definition completed_request ::
  "repository_mapping \<Rightarrow> pr_analysis \<Rightarrow> compatibility_scan \<Rightarrow> assessment_row \<Rightarrow> risk_decision \<Rightarrow> check_run_request" where
  "completed_request m a scan assessment decision =
     check_request m a CK_COMPLETED
       (build_completed_output decision (as_score assessment) (as_risk_engine_version assessment)
         (as_hard_block assessment) (map (\<lambda>r. (ru_rule_id r, ru_score_delta r)) (as_rule_results assessment))
         (Some (compatibility_summary scan)) None None None)
       (Some (decision_to_conclusion decision))"

definition send_completed :: "checks_client \<Rightarrow> repository_mapping \<Rightarrow> pr_analysis \<Rightarrow> check_run_request \<Rightarrow> exn + check_run_result" where
  "send_completed client m a req =
     (case ga_check_run_id a of
        Some i \<Rightarrow> update_check_run client (gm_full_name m) i req
      | None \<Rightarrow> create_check_run client req)"

definition analysis_audit ::
  "audit_action \<Rightarrow> repository_mapping \<Rightarrow> pr_analysis \<Rightarrow> json_dict \<Rightarrow> audit_event" where
  "analysis_audit action m a metadata =
     audit_record action (Some (gm_organization_id m)) None (Some ''github_pr_analysis'') (Some (uuid_str (ga_id a))) None
       ((''project_id'', JStr (uuid_str (gm_project_id m))) # metadata)"

definition max_publish_error :: nat where
  "max_publish_error = 500"

definition publish_result ::
  "checks_client \<Rightarrow> repository_mapping \<Rightarrow> pr_analysis \<Rightarrow> compatibility_scan \<Rightarrow> assessment_row \<Rightarrow> pr_analysis session" where
  "publish_result client m a scan assessment =
     sbind (slift (risk_decision_of (as_decision assessment))) (\<lambda>decision.
     case send_completed client m a (completed_request m a scan assessment decision) of
       Inl e \<Rightarrow>
         if orchestratable e then
           sbind (save (\<lambda>a. a \<lparr> ga_status := PA_PUBLISH_FAILED,
                             ga_publish_error := Some (take max_publish_error (publish_failure_text e)) \<rparr>) a) (\<lambda>a.
           sthen (audit (analysis_audit GITHUB_CHECK_FAILED m a
                   [(''risk_assessment_id'', JStr (uuid_str (as_id assessment))), (''decision'', JStr (as_decision assessment))]))
           (sthen scommit (sreturn a)))
         else sraise e
     | Inr r \<Rightarrow>
         sbind (save (\<lambda>a. a \<lparr> ga_check_run_id := Some (cr_id r), ga_status := PA_COMPLETED \<rparr>) a) (\<lambda>a.
         sthen (audit (analysis_audit GITHUB_CHECK_PUBLISHED m a
                 [(''check_run_id'', JInt (cr_id r)), (''decision'', JStr (as_decision assessment))]))
         (sthen scommit (sreturn a))))"

section \<open>Running an analysis\<close>

text \<open>The evidence of an analysis whose check could not be published.\<close>

definition stored_evidence :: "pr_analysis \<Rightarrow> (compatibility_scan \<times> assessment_row) option session" where
  "stored_evidence a =
     (if ga_status a = PA_PUBLISH_FAILED \<and> ga_risk_assessment_id a \<noteq> None
      then sbind (get_row db_scans cs_id (ga_compatibility_scan_id a)) (\<lambda>scan.
           sbind (get_row db_assessments as_id (ga_risk_assessment_id a)) (\<lambda>assessment.
           sreturn (case (scan, assessment) of (Some x, Some y) \<Rightarrow> Some (x, y) | _ \<Rightarrow> None)))
      else sreturn None)"

text \<open>
  The handler of the \<open>try\<close>. A refused flush leaves the session unusable until it is rolled back, so the handler
  itself fails then (that error is not told from the refused flush).
\<close>

definition fail_analysis :: "pr_analysis \<Rightarrow> exn \<Rightarrow> 'a session" where
  "fail_analysis a e =
     (if e = IntegrityError then sraise e
      else sthen (save (\<lambda>a. a \<lparr> ga_status := PA_FAILED \<rparr>) a) (sthen scommit (sraise e)))"

definition complete_analysis ::
  "checks_client \<Rightarrow> repository_mapping \<Rightarrow> pr_analysis \<Rightarrow> compatibility_scan \<Rightarrow> assessment_row \<Rightarrow> pr_analysis session" where
  "complete_analysis client m a scan assessment =
     sbind (save (\<lambda>a. a \<lparr> ga_compatibility_scan_id := Some (cs_id scan), ga_risk_assessment_id := Some (as_id assessment),
                       ga_decision := Some (as_decision assessment), ga_status := PA_COMPLETED, ga_completed := True \<rparr>) a) (\<lambda>a.
     sthen (audit (analysis_audit GITHUB_PR_ANALYSIS_COMPLETED m a
             [(''risk_assessment_id'', JStr (uuid_str (as_id assessment))), (''decision'', JStr (as_decision assessment))]))
     (sthen scommit (publish_result client m a scan assessment)))"

definition run_pipeline ::
  "(string \<Rightarrow> string) \<Rightarrow> checks_client \<Rightarrow> (db \<Rightarrow> db) \<Rightarrow> uuid \<Rightarrow> uuid \<Rightarrow> repository_mapping \<Rightarrow> pr_analysis \<Rightarrow> pr_analysis session" where
  "run_pipeline sha256 client others scan_id assessment_id m a =
     sbind (save (\<lambda>a. a \<lparr> ga_status := PA_IN_PROGRESS \<rparr>) a) (\<lambda>a.
     sthen scommit
     (sbind (publish_in_progress client m a) (\<lambda>a.
      sbind (scatch (gather_evidence sha256 others scan_id assessment_id m (ga_head_sha a)) (fail_analysis a)) (\<lambda>(scan, assessment).
      complete_analysis client m a scan assessment))))"

definition run_pr_analysis ::
  "(string \<Rightarrow> string) \<Rightarrow> checks_client \<Rightarrow> (db \<Rightarrow> db) \<Rightarrow> uuid \<Rightarrow> uuid \<Rightarrow> uuid \<Rightarrow> uuid \<Rightarrow> string \<Rightarrow> pr_analysis session" where
  "run_pr_analysis sha256 client others scan_id assessment_id project_id analysis_id expected =
     sbind (get_analysis project_id analysis_id) (\<lambda>a.
     if ga_head_sha a \<noteq> expected
     then sraise (github_exn (GitHubAnalysisHeadShaMismatch analysis_id expected (ga_head_sha a)))
     else if terminal_analysis (ga_status a) then sreturn a
     else
       sbind (srequire (not_mapped (ga_repository_id a)) (mapping_by_repository (ga_repository_id a))) (\<lambda>m.
       sbind (stored_evidence a) (\<lambda>evidence.
       case evidence of
         Some (scan, assessment) \<Rightarrow> publish_result client m a scan assessment
       | None \<Rightarrow> run_pipeline sha256 client others scan_id assessment_id m a)))"

definition analyze_pull_request ::
  "(string \<Rightarrow> string) \<Rightarrow> checks_client \<Rightarrow> (db \<Rightarrow> db) \<Rightarrow> uuid \<Rightarrow> uuid \<Rightarrow> uuid \<Rightarrow> pull_request_payload \<Rightarrow> string \<Rightarrow>
   string option \<Rightarrow> pr_analysis session" where
  "analyze_pull_request sha256 client others new_id scan_id assessment_id p delivery_id request_id =
     sbind (start_or_get others new_id p delivery_id request_id) (\<lambda>(a, created).
     if created
     then run_pr_analysis sha256 client others scan_id assessment_id (ga_project_id a) (ga_id a) (ga_head_sha a)
     else sreturn a)"

interpretation analyses: unique_table analysis_clash db_analyses put_analysis
  by unfold_locales (auto simp: analysis_clash_def put_analysis_def)

end
