(* ===== verification/Kafka_Handler.thy ===== *)
theory Kafka_Handler
  imports Kafka_Consumer Pr_Analysis Replay_Plan
begin

text \<open>
  \<open>app/kafka/analysis_handler.py\<close> and the session around it (\<open>app/kafka/worker.py\<close>): an event that requests an
  analysis runs it, and its result is announced by another event. \<open>publisher\<close> is the event publisher, absent or not;
  \<open>resolve\<close> is how the database driver reads the text of an id; \<open>stamp\<close> gives a new event its id and time. A handler
  operation returns the failure it classifies, if any, and the events it sent; any other exception leaves it.
\<close>

type_synonym publisher = "envelope \<Rightarrow> event_error + unit"

type_synonym handled = "(event_error option \<times> envelope list) session"

section \<open>Announcing\<close>

text \<open>The text of the exceptions the handler classifies.\<close>

fun refused_text :: "exn \<Rightarrow> string" where
  "refused_text (Dom (NotFoundError e)) = not_found_text e"
| "refused_text (Dom (GitHubError (GitHubAnalysisHeadShaMismatch i expected actual))) =
     ''analysis '' @ uuid_str i @ '' is pinned to head_sha='' @ str_repr actual @ '', not '' @ str_repr expected
     @ '' '' @ dash @ '' refusing to process''"
| "refused_text (Dom (GitHubError (MissingAgentABIConfiguration t))) = t"
| "refused_text e = publish_failure_text e"

text \<open>A transient failure to send is logged; another one leaves the handler.\<close>

definition announce :: "publisher option \<Rightarrow> event_error + envelope \<Rightarrow> event_error option \<Rightarrow> handled" where
  "announce publisher event outcome =
     (case publisher of
        None \<Rightarrow> sreturn (outcome, [])
      | Some p \<Rightarrow>
          (case rbind event (\<lambda>e. rbind (p e) (\<lambda>_. Inr e)) of
             Inr e \<Rightarrow> sreturn (outcome, [e])
           | Inl (TransientEventProcessing _) \<Rightarrow> sreturn (outcome, [])
           | Inl f \<Rightarrow> sreturn (Some f, [])))"

definition publish_failure ::
  "publisher option \<Rightarrow> string \<times> string \<Rightarrow> requested_payload \<Rightarrow> string \<Rightarrow> string \<Rightarrow> event_error option \<Rightarrow> handled" where
  "publish_failure publisher stamp p organization_id category outcome =
     announce publisher
       (build_analysis_failed_event (fst stamp) (snd stamp) (qp_analysis_id p) (qp_project_id p) organization_id
         (qp_repository_id p) (qp_pull_request_number p) (qp_head_sha p) category 0 (qp_analysis_id p)) outcome"

definition publish_completed ::
  "publisher option \<Rightarrow> string \<times> string \<Rightarrow> requested_payload \<Rightarrow> pr_analysis \<Rightarrow> string \<Rightarrow> handled" where
  "publish_completed publisher stamp p a organization_id =
     (if publisher = None then sreturn (None, [])
      else sbind (get_row db_assessments as_id (ga_risk_assessment_id a)) (\<lambda>assessment.
        announce publisher
          (build_analysis_completed_event (fst stamp) (snd stamp) (qp_analysis_id p) (qp_project_id p) organization_id
            (qp_repository_id p) (qp_pull_request_number p) (ga_head_sha a)
            (case ga_risk_assessment_id a of Some i \<Rightarrow> uuid_str i | None \<Rightarrow> ''None'')
            (case ga_decision a of Some t \<Rightarrow> t | None \<Rightarrow> [])
            (case assessment of Some y \<Rightarrow> as_score y | None \<Rightarrow> 0) (ga_delivery_id a)) None))"

section \<open>The handler\<close>

text \<open>The \<open>except\<close> clauses, in the order of the code.\<close>

definition refused :: "publisher option \<Rightarrow> string \<times> string \<Rightarrow> requested_payload \<Rightarrow> string \<Rightarrow> exn \<Rightarrow> handled" where
  "refused publisher stamp p organization_id e =
     (let permanent = Some (PermanentEventProcessing (refused_text e))
      in case e of
           Dom (GitHubError (GitHubAnalysisHeadShaMismatch _ _ _)) \<Rightarrow> sreturn (permanent, [])
         | Dom (NotFoundError (GitHubPullRequestAnalysisNotFound _)) \<Rightarrow> sreturn (permanent, [])
         | Dom (NotFoundError (GitHubRepositoryNotMapped _)) \<Rightarrow> sreturn (permanent, [])
         | Dom (GitHubError (MissingAgentABIConfiguration _)) \<Rightarrow>
             publish_failure publisher stamp p organization_id ''missing_configuration'' permanent
         | Dom (GitHubError (GitHubAuthenticationFailed _)) \<Rightarrow>
             publish_failure publisher stamp p organization_id ''github_publish_failed'' permanent
         | Dom (GitHubError (GitHubCheckPublishFailed _)) \<Rightarrow>
             publish_failure publisher stamp p organization_id ''github_publish_failed'' permanent
         | Dom (GitHubError (GitHubAPIUnavailable _)) \<Rightarrow> sreturn (Some (TransientEventProcessing (refused_text e)), [])
         | _ \<Rightarrow> sraise e)"

text \<open>\<open>try: m\<close>, the outcome as a value.\<close>

definition attempt :: "'a session \<Rightarrow> (exn + 'a) session" where
  "attempt m = (\<lambda>s. case m s of (r, t) \<Rightarrow> (Inr r, t))"

definition handle_requested ::
  "(uuid \<Rightarrow> uuid \<Rightarrow> string \<Rightarrow> pr_analysis session) \<Rightarrow> (string \<Rightarrow> exn + uuid) \<Rightarrow> publisher option \<Rightarrow> string \<times> string \<Rightarrow>
   requested_payload \<Rightarrow> string \<Rightarrow> handled" where
  "handle_requested pipeline resolve publisher stamp p organization_id =
     sbind (attempt (sbind (slift (resolve (qp_project_id p))) (\<lambda>project_id.
                     sbind (slift (resolve (qp_analysis_id p))) (\<lambda>analysis_id.
                     pipeline project_id analysis_id (qp_head_sha p))))) (\<lambda>r.
     case r of
       Inl e \<Rightarrow> refused publisher stamp p organization_id e
     | Inr a \<Rightarrow>
         if ga_status a = PA_COMPLETED \<and> ga_risk_assessment_id a \<noteq> None
         then publish_completed publisher stamp p a organization_id
         else sreturn (None, []))"

definition handle_event ::
  "(uuid \<Rightarrow> uuid \<Rightarrow> string \<Rightarrow> pr_analysis session) \<Rightarrow> (string \<Rightarrow> exn + uuid) \<Rightarrow> (py_error \<Rightarrow> string) \<Rightarrow> publisher option \<Rightarrow>
   string \<times> string \<Rightarrow> envelope \<Rightarrow> handled" where
  "handle_event pipeline resolve explain publisher stamp e =
     (if en_event_type e \<noteq> analysis_requested
      then sreturn (Some (PermanentEventProcessing (''unexpected event_type '' @ str_repr (en_event_type e))), [])
      else
        case rbind (validate_event_version e) (\<lambda>_. parse_analysis_requested_payload explain e) of
          Inl f \<Rightarrow> sreturn (Some f, [])
        | Inr p \<Rightarrow>
            handle_requested pipeline resolve publisher stamp p
              (case en_organization_id e of Some t \<Rightarrow> t | None \<Rightarrow> []))"

section \<open>The worker\<close>

text \<open>What the worker acts on: the store, the events sent and the number of offsets committed.\<close>

record world =
  wo_db :: db
  wo_sent :: "envelope list"
  wo_committed :: nat

text \<open>A session of its own for each event: committed when the handler returns, rolled back when it raises.\<close>

definition session_scoped :: "(envelope \<Rightarrow> handled) \<Rightarrow> envelope \<Rightarrow> world \<Rightarrow> (failure + unit) \<times> world" where
  "session_scoped handler e w =
     (case handler e (begin_txn (wo_db w)) of
        (Inl x, s) \<Rightarrow> (Inl (Other x), w \<lparr> wo_db := tx_committed s \<rparr>)
      | (Inr (Some f, sent), s) \<Rightarrow> (Inl (Ev f), w \<lparr> wo_db := tx_committed s, wo_sent := wo_sent w @ sent \<rparr>)
      | (Inr (None, sent), s) \<Rightarrow> (Inr (), w \<lparr> wo_db := tx_current s, wo_sent := wo_sent w @ sent \<rparr>))"

definition worker ::
  "(uuid \<Rightarrow> uuid \<Rightarrow> string \<Rightarrow> pr_analysis session) \<Rightarrow> (string \<Rightarrow> exn + uuid) \<Rightarrow> (py_error \<Rightarrow> string) \<Rightarrow> publisher option \<Rightarrow>
   string \<times> string \<Rightarrow> (string \<Rightarrow> string \<Rightarrow> nat \<Rightarrow> world \<Rightarrow> (failure + unit) \<times> world) option \<Rightarrow> world consumer" where
  "worker pipeline resolve explain publisher stamp dlq =
     \<lparr> handle = session_scoped (handle_event pipeline resolve explain publisher stamp),
       commit_offset = (\<lambda>w. (Inr (), w \<lparr> wo_committed := Suc (wo_committed w) \<rparr>)),
       dlq_publish = dlq \<rparr>"

section \<open>The webhook's side\<close>

text \<open>
  \<open>_dispatch_pr_analysis\<close> of \<open>app/api/v1/github_webhook.py\<close> with a broker: the analysis is started, announced and the
  announcement recorded. \<open>app/api/v1/github_webhook.py\<close> logs every exception of it; the answer to the delivery
  has been decided before.
\<close>

definition request_event ::
  "string \<times> string \<Rightarrow> pr_analysis \<Rightarrow> repository_mapping option \<Rightarrow> string \<Rightarrow> event_error + envelope" where
  "request_event stamp a m correlation_id =
     build_analysis_requested_event (fst stamp) (snd stamp) (uuid_str (ga_id a)) (uuid_str (ga_project_id a))
       (uuid_str (ga_organization_id a)) (ga_repository_id a) (ga_pull_request_number a) (ga_head_sha a) (ga_base_sha a)
       (case m of Some x \<Rightarrow> map_option uuid_str (gm_component_id x) | None \<Rightarrow> None)
       (case m of Some x \<Rightarrow> gm_baseline_version x | None \<Rightarrow> None) correlation_id"

definition enqueue_analysis ::
  "(db \<Rightarrow> db) \<Rightarrow> publisher \<Rightarrow> string \<times> string \<Rightarrow> string \<Rightarrow> uuid \<Rightarrow> pull_request_payload \<Rightarrow> string \<Rightarrow> string option \<Rightarrow>
   (event_error option \<times> envelope list) session" where
  "enqueue_analysis others publisher stamp topic new_id p delivery_id request_id =
     sbind (start_analysis others new_id p delivery_id request_id) (\<lambda>a.
     sbind (get_repository_mapping (ga_repository_id a)) (\<lambda>m.
     case rbind (request_event stamp a m (case request_id of Some (c # cs) \<Rightarrow> c # cs | _ \<Rightarrow> delivery_id))
            (\<lambda>e. rbind (publisher e) (\<lambda>_. Inr e)) of
       Inl f \<Rightarrow> sreturn (Some f, [])
     | Inr e \<Rightarrow>
         sthen (audit (audit_record KAFKA_ANALYSIS_ENQUEUED (Some (ga_organization_id a)) None (Some ''github_pr_analysis'')
                  (Some (uuid_str (ga_id a))) request_id
                  [(''project_id'', JStr (uuid_str (ga_project_id a))), (''head_sha'', JStr (ga_head_sha a)),
                   (''topic'', JStr topic)]))
         (sthen scommit (sreturn (None, [e])))))"

end
