(* ===== verification/Pr_Laws.thy ===== *)
theory Pr_Laws
  imports Pr_Analysis
begin

text \<open>
  Lemmas on the analysis of a pull request: the rules of its operations, what gathering the evidence does to the
  store, and the invariant of the analyses: what a finished analysis says was decided by a stored assessment of
  the scan it names.
\<close>

section \<open>Rules of the operations\<close>

lemma wp_save [wp_simps]:
  "wp (save f a) Q E s \<longleftrightarrow> Q (f a) (s \<lparr> tx_current := update_analysis (ga_id a) f (tx_current s) \<rparr>)"
  by (simp add: save_def wp_simps)

lemma wp_scatch_all [wp_simps]: "wp (scatch m h) Q E s \<longleftrightarrow> wp m Q (\<lambda>e t. wp (h e) Q E t) s"
  by (auto simp: wp_def scatch_def split: prod.splits sum.splits)

lemma wp_audit [wp_simps]: "wp (audit e) U E s \<longleftrightarrow> U () (s \<lparr> tx_current := put_audit e (tx_current s) \<rparr>)"
  by (simp add: audit_def wp_simps)

lemma save_run: "save f a s = (Inr (f a), s \<lparr> tx_current := update_analysis (ga_id a) f (tx_current s) \<rparr>)"
  by (simp add: save_def sthen_def sbind_def session_basic)

lemma analyses_readonly [readonly_intros]:
  "readonly (analysis_by_key r n sha v)" "readonly (analysis_by_id p i)" "readonly (get_analysis p i)"
  "readonly (mapping_by_repository r)"
  by (simp_all add: analysis_by_key_def analysis_by_id_def get_analysis_def mapping_by_repository_def readonly_intros)

lemma get_row_readonly [readonly_intros]: "readonly (get_row table key i)"
  by (simp add: get_row_def readonly_intros split: option.split)

lemma stored_evidence_readonly [readonly_intros]: "readonly (stored_evidence a)"
  by (simp add: stored_evidence_def readonly_intros)

lemma get_analysis_eq_Inr:
  "get_analysis p i s = (Inr a, t) \<longleftrightarrow>
     t = s \<and> filter (\<lambda>a. ga_id a = i \<and> ga_project_id a = p) (db_analyses (tx_current s)) = [a]"
  by (auto simp: get_analysis_def srequire_eq_Inr analysis_by_id_def fetch_one_eq_Inr)

lemma get_analysis_known:
  assumes "no_clash analysis_clash (db_analyses (tx_current s))" "a \<in> set (db_analyses (tx_current s))"
  shows "get_analysis (ga_project_id a) (ga_id a) s = (Inr a, s)"
  unfolding get_analysis_eq_Inr
  by (rule conjI [OF refl no_clash_filter [OF assms]]) (auto simp: analysis_clash_def)

section \<open>What gathering the evidence changes\<close>

lemma get_component_readonly [readonly_intros]: "readonly (get_component p i)"
  by (simp add: get_component_def require_project_def project_by_id_def component_by_id_def readonly_intros)

lemma versions_readonly [readonly_intros]:
  "readonly (get_latest_component_version p i)" "readonly (get_component_version p i v)"
  by (simp_all add: get_latest_component_version_def get_component_version_def latest_version_def
      version_by_version_def readonly_intros)

lemma run_scan_frame:
  "wp (run_scan i p c v w)
     (\<lambda>scan t. t = s \<lparr> tx_current := put_scan scan (tx_current s) \<rparr>) (\<lambda>e t. t = s) s"
  unfolding run_scan_def
  by (intro wp_sbind_readonly readonly_intros) (simp_all add: scan_from_versions_def wp_simps Let_def split: sum.split)

lemma mapped_component_readonly [readonly_intros]: "readonly (mapped_component m)"
  by (simp add: mapped_component_def require_project_def project_by_id_def readonly_intros split: option.split)

lemma scatch_readonly [readonly_intros]:
  assumes "readonly m" "\<And>e. readonly (h e)"
  shows "readonly (scatch m h)"
proof -
  have "snd (scatch m h s) = s" for s
    using assms unfolding readonly_def scatch_def
    by (cases "m s"; cases "fst (m s)") (auto dest: spec [of _ s])
  then show ?thesis by (simp add: readonly_def)
qed

lemma on_missing_version_readonly [readonly_intros]: "readonly m \<Longrightarrow> readonly (on_missing_version m detail)"
  unfolding on_missing_version_def
  by (rule scatch_readonly) (auto split: exn.split agentabi_error.split not_found_error.split intro: readonly_basic)

lemma baseline_of_readonly [readonly_intros]: "readonly (baseline_of m c)"
  by (auto simp: baseline_of_def split: option.split list.split intro!: readonly_intros)

lemma on_missing_version_wp:
  "wp m Q (\<lambda>e t. E t) s \<Longrightarrow> wp (on_missing_version m detail) Q (\<lambda>e t. E t) s"
  by (auto simp: on_missing_version_def wp_simps elim!: wp_mono split: exn.split agentabi_error.split not_found_error.split)

lemma run_compatibility_frame:
  "wp (run_compatibility i m sha)
     (\<lambda>scan t. t = s \<lparr> tx_current := put_scan scan (tx_current s) \<rparr>) (\<lambda>e t. t = s) s"
  unfolding run_compatibility_def
  by (intro wp_sbind_readonly readonly_intros on_missing_version_wp run_scan_frame) simp_all

definition after_others :: "(db \<Rightarrow> db) \<Rightarrow> txn \<Rightarrow> txn" where
  "after_others others s = \<lparr> tx_committed = others (tx_committed s), tx_current = others (tx_current s) \<rparr>"

lemma loads_readonly [readonly_intros]:
  "readonly (load_scan p i)" "readonly (load_report p j)" "readonly (assessment_organization p r)"
  "readonly (assessment_by_key p i j v)"
  by (simp_all add: load_scan_def load_report_def assessment_organization_def assessment_by_key_def scan_by_id_def
      report_by_id_def require_project_def project_by_id_def readonly_intros split: option.split)

lemma run_assessment_frame:
  "wp (run_assessment sha256 blast others p scan report i)
     (\<lambda>a t. as_compatibility_scan_id a = scan \<and> a \<in> set (db_assessments (tx_current t))
        \<and> (t = s \<or> t = (after_others others s) \<lparr> tx_current := put_assessment a (others (tx_current s)) \<rparr>))
     (\<lambda>e t. t = s \<or> t = after_others others s) s"
  (is "wp _ ?Q ?E s")
proof -
  have store: "wp (store_assessment others (to_assessment_row sha256 i x org p scan report)) ?Q ?E s" for x org
    by (simp add: store_assessment_def wp_simps after_others_def put_assessment_def to_assessment_row_def)
  have compute: "wp (sbind (load_scan p scan) (\<lambda>sc.
          sbind (load_report p report) (\<lambda>r.
          sbind (slift (compute_blast_radius blast p sc)) (\<lambda>b.
          let a = evaluate (build_context sc r b)
          in sbind (assessment_organization p r) (\<lambda>org.
             store_assessment others (to_assessment_row sha256 i a org p scan report)))))) ?Q ?E s"
    unfolding Let_def by (intro wp_sbind_readonly readonly_intros store) simp_all
  show ?thesis
  proof (cases "one_or_none (filter (assessment_key p scan report) (db_assessments (tx_current s)))")
    case (Inl e)
    then show ?thesis by (simp add: run_assessment_def assessment_by_key_eq wp_simps)
  next
    case (Inr existing)
    show ?thesis
    proof (cases existing)
      case None
      then show ?thesis
        using Inr compute unfolding run_assessment_def assessment_by_key_eq wp_sthen wp_sguard
        by (subst wp_sbind) (simp add: wp_fetch_one)
    next
      case (Some a)
      then have "filter (assessment_key p scan report) (db_assessments (tx_current s)) = [a]" using Inr by simp
      from filter_single [OF this] show ?thesis
        using Inr Some by (simp add: run_assessment_def assessment_by_key_eq wp_simps assessment_key_def)
    qed
  qed
qed

section \<open>The invariant of the analyses\<close>

definition evidence_of :: "db \<Rightarrow> pr_analysis \<Rightarrow> bool" where
  "evidence_of d a \<longleftrightarrow>
     list_ex (\<lambda>y. ga_risk_assessment_id a = Some (as_id y) \<and> ga_decision a = Some (as_decision y)
        \<and> ga_compatibility_scan_id a \<noteq> None \<and> as_compatibility_scan_id y = ga_compatibility_scan_id a) (db_assessments d)"

definition analyses_ok :: "db \<Rightarrow> bool" where
  "analyses_ok d \<longleftrightarrow>
     no_clash analysis_clash (db_analyses d)
     \<and> (\<forall>a \<in> set (db_analyses d). ga_status a \<in> {PA_COMPLETED, PA_PUBLISH_FAILED} \<longrightarrow> evidence_of d a)"

text \<open>What the other transactions may do: they keep the invariant and the stored assessments.\<close>

definition analyses_keep :: "(db \<Rightarrow> db) \<Rightarrow> bool" where
  "analyses_keep others \<longleftrightarrow> (\<forall>d. analyses_ok d \<longrightarrow> analyses_ok (others d))"

lemma analyses_ok_frame:
  assumes "analyses_ok d" "db_analyses d' = db_analyses d" "set (db_assessments d) \<subseteq> set (db_assessments d')"
  shows "analyses_ok d'"
  using assms unfolding analyses_ok_def evidence_of_def list_ex_iff by (metis subsetD)

lemma analyses_ok_puts [simp]:
  "analyses_ok (put_audit e d) \<longleftrightarrow> analyses_ok d"
  "analyses_ok (put_scan scan d) \<longleftrightarrow> analyses_ok d"
  by (simp_all add: analyses_ok_def evidence_of_def put_audit_def put_scan_def)

lemma analyses_ok_put_assessment: "analyses_ok d \<Longrightarrow> analyses_ok (put_assessment a d)"
  by (rule analyses_ok_frame) (auto simp: put_assessment_def)

text \<open>A change of the other columns of one row.\<close>

definition keeps_keys :: "(pr_analysis \<Rightarrow> pr_analysis) \<Rightarrow> bool" where
  "keeps_keys f \<longleftrightarrow>
     (\<forall>a. ga_id (f a) = ga_id a \<and> ga_repository_id (f a) = ga_repository_id a
        \<and> ga_pull_request_number (f a) = ga_pull_request_number a \<and> ga_head_sha (f a) = ga_head_sha a
        \<and> ga_analysis_version (f a) = ga_analysis_version a)"

lemma analyses_ok_update:
  assumes ok: "analyses_ok d" and f: "keeps_keys f"
    and row: "\<And>a. a \<in> set (db_analyses d) \<Longrightarrow> ga_id a = i \<Longrightarrow>
      ga_status (f a) \<in> {PA_COMPLETED, PA_PUBLISH_FAILED} \<Longrightarrow> evidence_of d (f a)"
  shows "analyses_ok (update_analysis i f d)"
proof -
  let ?g = "\<lambda>a. if ga_id a = i then f a else a"
  have "no_clash analysis_clash (map ?g (db_analyses d))"
    by (rule no_clash_map) (use ok f in \<open>auto simp: analyses_ok_def analysis_clash_def keeps_keys_def\<close>)
  moreover have "evidence_of (update_analysis i f d) b \<longleftrightarrow> evidence_of d b" for b
    by (simp add: evidence_of_def update_analysis_def)
  ultimately show ?thesis
    using ok row by (auto simp: analyses_ok_def update_analysis_def)
qed

lemma evidence_of_columns [simp]:
  "evidence_of d (a \<lparr> ga_status := st \<rparr>) \<longleftrightarrow> evidence_of d a"
  "evidence_of d (a \<lparr> ga_check_run_id := c \<rparr>) \<longleftrightarrow> evidence_of d a"
  "evidence_of d (a \<lparr> ga_publish_error := e \<rparr>) \<longleftrightarrow> evidence_of d a"
  by (simp_all add: evidence_of_def)

definition rows_decided :: "db \<Rightarrow> uuid \<Rightarrow> bool" where
  "rows_decided d i \<longleftrightarrow> (\<forall>a \<in> set (db_analyses d). ga_id a = i \<longrightarrow> evidence_of d a)"

lemma publish_result_keeps:
  assumes "both analyses_ok s" "rows_decided (tx_current s) (ga_id a)"
  shows "wp (publish_result client m a scan y) (\<lambda>_ t. both analyses_ok t) (\<lambda>_ t. both analyses_ok t) s"
proof -
  have ok: "analyses_ok (tx_current s)" "analyses_ok (tx_committed s)" using assms(1) by (simp_all add: both_def)
  have upd: "analyses_ok (update_analysis (ga_id a) f (tx_current s))"
    if "keeps_keys f" "\<And>x. evidence_of (tx_current s) (f x) \<longleftrightarrow> evidence_of (tx_current s) x" for f
    using ok(1) that(1) by (rule analyses_ok_update) (use assms(2) that(2) in \<open>auto simp: rows_decided_def\<close>)
  show ?thesis
  proof (cases "risk_decision_of (as_decision y)")
    case (Inl e)
    then show ?thesis using assms(1) by (simp add: publish_result_def wp_simps)
  next
    case (Inr decision)
    show ?thesis
    proof (cases "send_completed client m a (completed_request m a scan y decision)")
      case (Inl e)
      show ?thesis
        using Inr Inl assms(1) upd
        by (cases "orchestratable e") (simp_all add: publish_result_def wp_simps both_def keeps_keys_def)
    next
      case r: (Inr r)
      show ?thesis using Inr r upd by (simp add: publish_result_def wp_simps both_def keeps_keys_def)
    qed
  qed
qed

lemma complete_analysis_keeps:
  assumes "both analyses_ok s" "y \<in> set (db_assessments (tx_current s))" "as_compatibility_scan_id y = Some (cs_id scan)"
  shows "wp (complete_analysis client m a scan y) (\<lambda>_ t. both analyses_ok t) (\<lambda>_ t. both analyses_ok t) s"
proof -
  let ?f = "\<lambda>a. a \<lparr> ga_compatibility_scan_id := Some (cs_id scan), ga_risk_assessment_id := Some (as_id y),
                   ga_decision := Some (as_decision y), ga_status := PA_COMPLETED, ga_completed := True \<rparr>"
  let ?e = "\<lambda>b. analysis_audit GITHUB_PR_ANALYSIS_COMPLETED m b
    [(''risk_assessment_id'', JStr (uuid_str (as_id y))), (''decision'', JStr (as_decision y))]"
  let ?d = "update_analysis (ga_id a) ?f (tx_current s)"
  have ev: "evidence_of (tx_current s) (?f x)" for x
    using assms(2,3) by (auto simp: evidence_of_def list_ex_iff)
  have ok: "analyses_ok ?d"
    by (rule analyses_ok_update) (use assms(1) ev in \<open>auto simp: both_def keeps_keys_def\<close>)
  have dec: "rows_decided (put_audit e ?d) (ga_id (?f a))" for e
    using ev by (auto simp: rows_decided_def update_analysis_def put_audit_def evidence_of_def)
  show ?thesis
    unfolding complete_analysis_def wp_sbind wp_save wp_sthen wp_audit wp_basic
    by (rule publish_result_keeps) (use ok dec in \<open>simp_all add: both_def\<close>)
qed

lemma update_open:
  assumes "analyses_ok d" "keeps_keys f" "\<And>x. ga_status (f x) \<notin> {PA_COMPLETED, PA_PUBLISH_FAILED}"
  shows "analyses_ok (update_analysis i f d)"
  using assms(1,2) by (rule analyses_ok_update) (use assms(3) in blast)

lemma gather_evidence_keeps:
  assumes "both analyses_ok s" "analyses_keep others"
  shows "wp (gather_evidence sha256 others i j m sha)
    (\<lambda>(scan, y) t. both analyses_ok t \<and> y \<in> set (db_assessments (tx_current t)) \<and> as_compatibility_scan_id y = Some (cs_id scan))
    (\<lambda>_ t. both analyses_ok t) s"
  unfolding gather_evidence_def wp_sbind
proof (rule wp_mono [OF run_compatibility_frame], goal_cases)
  case (1 scan t)
  have t: "both analyses_ok t" "both analyses_ok (after_others others t)"
    using assms by (simp_all add: 1 both_def analyses_keep_def after_others_def)
  show ?case
  proof (rule wp_mono [OF run_assessment_frame], goal_cases)
    case (1 a u)
    then have "both analyses_ok u"
      using t analyses_ok_put_assessment by (auto simp: both_def after_others_def)
    then show ?case using 1 by (simp add: wp_simps)
  qed (use t in auto)
qed (use assms(1) in simp)

lemma publish_in_progress_keeps:
  assumes "both analyses_ok s" "\<And>x. x \<in> set (db_analyses (tx_current s)) \<Longrightarrow> ga_id x = ga_id a \<Longrightarrow> ga_status x = PA_IN_PROGRESS"
  shows "wp (publish_in_progress client m a)
    (\<lambda>b t. both analyses_ok t \<and> ga_id b = ga_id a \<and> ga_head_sha b = ga_head_sha a) (\<lambda>_ t. both analyses_ok t) s"
proof -
  have "analyses_ok (update_analysis (ga_id a) (\<lambda>a. a \<lparr> ga_check_run_id := c \<rparr>) (tx_current s))" for c
    by (rule analyses_ok_update) (use assms in \<open>auto simp: both_def keeps_keys_def\<close>)
  then show ?thesis
    using assms(1) by (simp add: publish_in_progress_def wp_simps both_def split: sum.split)
qed

lemma run_pipeline_keeps:
  assumes "both analyses_ok s" "analyses_keep others"
  shows "wp (run_pipeline sha256 client others i j m a) (\<lambda>_ t. both analyses_ok t) (\<lambda>_ t. both analyses_ok t) s"
proof -
  let ?f = "\<lambda>a. a \<lparr> ga_status := PA_IN_PROGRESS \<rparr>"
  let ?d = "update_analysis (ga_id a) ?f (tx_current s)"
  have ok: "analyses_ok ?d"
    by (rule update_open) (use assms(1) in \<open>auto simp: both_def keeps_keys_def\<close>)
  show ?thesis
    unfolding run_pipeline_def wp_sbind wp_save wp_sthen wp_basic
  proof (rule wp_mono [OF publish_in_progress_keeps], goal_cases)
    case (3 b t)
    then have t: "both analyses_ok t" by simp
    show ?case
      unfolding wp_scatch_all
    proof (rule wp_mono [OF gather_evidence_keeps [OF t assms(2)]], goal_cases)
      case (1 r u)
      then show ?case by (cases r) (simp add: complete_analysis_keeps)
    next
      case (2 e u)
      have "analyses_ok (update_analysis (ga_id b) (\<lambda>a. a \<lparr> ga_status := PA_FAILED \<rparr>) (tx_current u))"
        by (rule update_open) (use 2 in \<open>auto simp: both_def keeps_keys_def\<close>)
      then show ?case using 2 by (simp add: fail_analysis_def wp_simps both_def)
    qed
  qed (use ok in \<open>auto simp: both_def update_analysis_def\<close>)
qed

lemma run_pr_analysis_keeps:
  assumes "both analyses_ok s" "analyses_keep others"
  shows "wp (run_pr_analysis sha256 client others i j p k sha) (\<lambda>_ t. both analyses_ok t) (\<lambda>_ t. both analyses_ok t) s"
proof (cases "get_analysis p k s")
  case (Pair r t)
  then have t: "t = s" by (rule readonly_state [OF analyses_readonly(3)])
  show ?thesis
  proof (cases r)
    case (Inl e)
    then show ?thesis using Pair t assms(1) by (simp add: run_pr_analysis_def wp_def sbind_def)
  next
    case (Inr a)
    then have a: "get_analysis p k s = (Inr a, s)" using Pair t by simp
    then have mem: "a \<in> set (db_analyses (tx_current s))"
      unfolding get_analysis_eq_Inr using filter_single by fastforce
    have ok: "analyses_ok (tx_current s)" using assms(1) by (simp add: both_def)
    have dec: "rows_decided (tx_current s) (ga_id a)" if "ga_status a = PA_PUBLISH_FAILED"
    proof -
      have "x = a" if "x \<in> set (db_analyses (tx_current s))" "ga_id x = ga_id a" for x
        by (rule no_clash_unique [of analysis_clash]) (use ok mem that in \<open>auto simp: analyses_ok_def analysis_clash_def\<close>)
      then show ?thesis using ok mem that by (auto simp: analyses_ok_def rows_decided_def)
    qed
    have go: "wp (case ev of Some (scan, y) \<Rightarrow> publish_result client m a scan y
                   | None \<Rightarrow> run_pipeline sha256 client others i j m a)
        (\<lambda>_ t. both analyses_ok t) (\<lambda>_ t. both analyses_ok t) s"
      if "ev \<noteq> None \<Longrightarrow> ga_status a = PA_PUBLISH_FAILED" for ev m
      using that publish_result_keeps [OF assms(1) dec] run_pipeline_keeps [OF assms] by (cases ev) auto
    have ev: "wp (sbind (stored_evidence a) (\<lambda>evidence. case evidence of
           Some (scan, y) \<Rightarrow> publish_result client m a scan y
         | None \<Rightarrow> run_pipeline sha256 client others i j m a))
        (\<lambda>_ t. both analyses_ok t) (\<lambda>_ t. both analyses_ok t) s" for m
    proof (cases "ga_status a = PA_PUBLISH_FAILED")
      case True
      then show ?thesis by (intro wp_sbind_readonly readonly_intros go) (use assms(1) in auto)
    next
      case False
      then show ?thesis using go [of None m] by (simp add: stored_evidence_def wp_simps)
    qed
    show ?thesis
      unfolding run_pr_analysis_def wp_sbind
      by (simp add: wp_def [of "get_analysis p k"] a wp_if wp_basic assms(1))
        (auto simp: assms(1) intro!: wp_sbind_readonly [unfolded wp_sbind] wp_sbind_readonly readonly_intros ev)
  qed
qed

end
