(* ===== verification/Pr_Properties.thy ===== *)
theory Pr_Properties
  imports Pr_Laws Checks_Client Risk_Properties
begin

text \<open>
  The properties of the analysis of pull requests: a published decision was taken by a stored assessment, the
  client is only asked about the commit of the analysis, evidence is gathered once, a start can be repeated, and a
  request to GitHub ends after a bounded number of attempts.
\<close>

section \<open>Decisions are backed by evidence\<close>

lemma start_or_get_keeps:
  assumes "both analyses_ok s" "analyses_keep others"
  shows "wp (start_or_get others i p dl q) (\<lambda>_ t. both analyses_ok t) (\<lambda>_ t. both analyses_ok t) s"
proof -
  have ok: "analyses_ok (others (tx_current s))" "analyses_ok (others (tx_committed s))"
    using assms by (auto simp: both_def analyses_keep_def)
  have new: "analyses_ok (put_analysis (new_analysis i m p dl) d)"
    if "analyses_ok d" "\<not> list_ex (analysis_clash (new_analysis i m p dl)) (db_analyses d)" for m d
    using that by (auto simp: analyses_ok_def put_analysis_def analyses.no_clash_append evidence_of_def new_analysis_def)
  show ?thesis
    unfolding start_or_get_def
  proof (rule wp_sbind_readonly)
    show "readonly (srequire (not_mapped (pw_repository_id p)) (mapping_by_repository (pw_repository_id p)))"
      by (intro readonly_intros)
  next
    fix m
    show "wp (sthen (sguard (gm_component_id m \<noteq> None) (no_component_configured (pw_repository_full_name p)))
       (sbind (analysis_by_key (pw_repository_id p) (pw_pull_request_number p) (pw_head_sha p) analysis_version) (\<lambda>existing.
        case existing of Some a \<Rightarrow> sreturn (a, False)
        | None \<Rightarrow>
          let a = new_analysis i m p dl
          in sthen (concurrently others)
             (sthen (flush_row db_analyses analysis_clash analysis_linked put_analysis a)
             (sthen (audit (audit_record GITHUB_PR_ANALYSIS_STARTED (Some (gm_organization_id m)) None
                       (Some ''github_pr_analysis'') (Some (uuid_str i)) q
                       [(''project_id'', JStr (uuid_str (gm_project_id m))),
                        (''github_repository_id'', JInt (pw_repository_id p)),
                        (''pull_request_number'', JInt (pw_pull_request_number p)),
                        (''head_sha'', JStr (pw_head_sha p))]))
             (sthen scommit (sreturn (a, True)))))))) (\<lambda>_ t. both analyses_ok t) (\<lambda>_ t. both analyses_ok t) s"
      using assms(1) ok new
      by (intro wp_sthen_readonly wp_sbind_readonly readonly_intros)
        (auto simp: wp_simps Let_def both_def split: option.split)
  qed (use assms(1) in auto)
qed

lemma analyze_keeps:
  assumes "both analyses_ok s" "analyses_keep others"
  shows "wp (analyze_pull_request sha256 client others i j k p dl q) (\<lambda>_ t. both analyses_ok t) (\<lambda>_ t. both analyses_ok t) s"
  unfolding analyze_pull_request_def wp_sbind
  by (rule wp_mono [OF start_or_get_keeps [OF assms]])
    (auto simp: wp_basic intro: run_pr_analysis_keeps [OF _ assms(2)])

lemma request_both:
  "wp m (\<lambda>_ t. both I t) (\<lambda>_ t. both I t) (begin_txn d) \<Longrightarrow> I (snd (request m d))"
  by (auto simp: wp_def request_def both_def split: prod.splits sum.splits)

text \<open>
  C2: however a delivery is analysed, at once or later in a worker, and whatever the client answers, an analysis
  that is completed or waits for its check names a scan and an assessment of that scan in the store, and its
  decision is the one of that assessment; and there is one analysis per commit.
\<close>

theorem decisions_backed:
  assumes "analyses_ok d" "analyses_keep others"
  shows "analyses_ok (snd (request (analyze_pull_request sha256 client others i j k p dl q) d))
    \<and> analyses_ok (snd (request (start_analysis others i p dl q) d))
    \<and> analyses_ok (snd (request (run_pr_analysis sha256 client others j k pid aid sha) d))"
proof (intro conjI request_both [where I = analyses_ok])
  have ok: "both analyses_ok (begin_txn d)" using assms(1) by simp
  show "wp (analyze_pull_request sha256 client others i j k p dl q) (\<lambda>_ t. both analyses_ok t) (\<lambda>_ t. both analyses_ok t)
     (begin_txn d)" by (rule analyze_keeps [OF ok assms(2)])
  show "wp (run_pr_analysis sha256 client others j k pid aid sha) (\<lambda>_ t. both analyses_ok t) (\<lambda>_ t. both analyses_ok t)
     (begin_txn d)" by (rule run_pr_analysis_keeps [OF ok assms(2)])
  show "wp (start_analysis others i p dl q) (\<lambda>_ t. both analyses_ok t) (\<lambda>_ t. both analyses_ok t) (begin_txn d)"
    unfolding start_analysis_def wp_sbind
    by (rule wp_mono [OF start_or_get_keeps [OF ok assms(2)]]) (auto simp: wp_basic)
qed

text \<open>A project with a mapped repository, an analysis whose check failed, and a client.\<close>

definition sample_mapping :: repository_mapping where
  "sample_mapping =
     \<lparr> gm_id = 50, gm_organization_id = 1, gm_project_id = 2, gm_component_id = Some 3, gm_repository_id = 7,
       gm_full_name = ''acme/core'', gm_installation_id = None, gm_baseline_version = None \<rparr>"

definition sample_pull_request :: pull_request_payload where
  "sample_pull_request =
     \<lparr> pw_action = ''opened'', pw_repository_id = 7, pw_repository_owner = ''acme'', pw_repository_name = ''core'',
       pw_repository_full_name = ''acme/core'', pw_installation_id = None, pw_pull_request_number = 12,
       pw_pull_request_url = [], pw_head_sha = ''2'', pw_head_ref = ''dev'', pw_base_sha = ''1'', pw_base_ref = ''main'',
       pw_sender_id = 1, pw_sender_login = ''ann'' \<rparr>"

definition sample_analysis :: pr_analysis where
  "sample_analysis = new_analysis 60 sample_mapping sample_pull_request ''d1''"

definition mapped_db :: db where
  "mapped_db = sample_db \<lparr> db_mappings := [sample_mapping], db_analyses := [sample_analysis] \<rparr>"

definition failing_client :: checks_client where
  "failing_client =
     \<lparr> create_check_run = (\<lambda>r. Inl (Dom (GitHubError (GitHubAPIUnavailable ''down'')))),
       update_check_run = (\<lambda>n i r. Inl (Dom (GitHubError (GitHubAPIUnavailable ''down'')))) \<rparr>"

lemma mapped_db_simps [simp]:
  "db_analyses mapped_db = [sample_analysis]" "db_mappings mapped_db = [sample_mapping]"
  "db_projects mapped_db = db_projects sample_db" "db_components mapped_db = [sample_component]"
  "db_versions mapped_db = db_versions sample_db" "db_scans mapped_db = []" "db_assessments mapped_db = []"
  by (simp_all add: mapped_db_def)

lemma mapped_db_ok: "analyses_ok mapped_db"
  by (simp add: analyses_ok_def sample_analysis_def new_analysis_def)

lemma analyses_keep_id [simp]: "analyses_keep (\<lambda>d. d)"
  by (simp add: analyses_keep_def)

theorem decisions_backed_witness:
  "analyses_ok (snd (request (analyze_pull_request id failing_client (\<lambda>d. d) 61 62 63 sample_pull_request ''d2'' None) mapped_db))
    \<and> analyses_ok (snd (request (start_analysis (\<lambda>d. d) 61 sample_pull_request ''d2'' None) mapped_db))
    \<and> analyses_ok (snd (request (run_pr_analysis id failing_client (\<lambda>d. d) 62 63 2 60 ''2'') mapped_db))"
  by (rule decisions_backed [OF mapped_db_ok analyses_keep_id])

section \<open>Only about its commit\<close>

definition agree_on :: "string \<Rightarrow> uuid \<Rightarrow> checks_client \<Rightarrow> checks_client \<Rightarrow> bool" where
  "agree_on sha i c c' \<longleftrightarrow>
     (\<forall>r. cq_head_sha r = sha \<and> cq_name r = check_name \<and> cq_external_id r = Some (uuid_str i) \<longrightarrow>
        create_check_run c r = create_check_run c' r
        \<and> (\<forall>n k. update_check_run c n k r = update_check_run c' n k r))"

lemma agree_request:
  assumes "agree_on (ga_head_sha a) (ga_id a) c c'"
  shows "create_check_run c (check_request m a st out con) = create_check_run c' (check_request m a st out con)"
    "update_check_run c n k (check_request m a st out con) = update_check_run c' n k (check_request m a st out con)"
  using assms by (simp_all add: agree_on_def check_request_def)

lemma publish_result_agree:
  "agree_on (ga_head_sha a) (ga_id a) c c' \<Longrightarrow> publish_result c m a scan y = publish_result c' m a scan y"
  by (simp add: publish_result_def send_completed_def completed_request_def agree_request cong: option.case_cong)

lemma sbind_run_cong:
  "m s = m' s \<Longrightarrow> (\<And>x t. m' s = (Inr x, t) \<Longrightarrow> f x t = f' x t) \<Longrightarrow> sbind m f s = sbind m' f' s"
  by (simp add: sbind_def split: prod.split sum.split)

definition decided_row :: "compatibility_scan \<Rightarrow> assessment_row \<Rightarrow> pr_analysis \<Rightarrow> pr_analysis" where
  "decided_row scan y a =
     a \<lparr> ga_compatibility_scan_id := Some (cs_id scan), ga_risk_assessment_id := Some (as_id y),
        ga_decision := Some (as_decision y), ga_status := PA_COMPLETED, ga_completed := True \<rparr>"

lemma decided_row_keys [simp]:
  "ga_id (decided_row scan y a) = ga_id a" "ga_head_sha (decided_row scan y a) = ga_head_sha a"
  "ga_status (decided_row scan y a) = PA_COMPLETED" "ga_check_run_id (decided_row scan y a) = ga_check_run_id a"
  "ga_project_id (decided_row scan y a) = ga_project_id a"
  by (simp_all add: decided_row_def)

definition decided_store :: "repository_mapping \<Rightarrow> pr_analysis \<Rightarrow> compatibility_scan \<Rightarrow> assessment_row \<Rightarrow> db \<Rightarrow> db" where
  "decided_store m a scan y d =
     put_audit (analysis_audit GITHUB_PR_ANALYSIS_COMPLETED m (decided_row scan y a)
         [(''risk_assessment_id'', JStr (uuid_str (as_id y))), (''decision'', JStr (as_decision y))])
       (update_analysis (ga_id a) (decided_row scan y) d)"

lemma complete_analysis_run:
  "complete_analysis c m a scan y s
     = publish_result c m (decided_row scan y a) scan y (begin_txn (decided_store m a scan y (tx_current s)))"
  by (cases s) (simp add: complete_analysis_def sbind_def save_run sthen_def audit_def session_basic decided_store_def
      decided_row_def [abs_def] begin_txn_def)

lemma complete_analysis_agree:
  "agree_on (ga_head_sha a) (ga_id a) c c' \<Longrightarrow> complete_analysis c m a scan y s = complete_analysis c' m a scan y s"
  unfolding complete_analysis_run using publish_result_agree [of "decided_row scan y a" c c' m scan y] by simp

lemma publish_in_progress_keys:
  "publish_in_progress c m a s = (Inr b, t) \<Longrightarrow> ga_head_sha b = ga_head_sha a \<and> ga_id b = ga_id a"
  by (auto simp: publish_in_progress_def sbind_eq_Inr save_run sthen_eq_Inr session_basic split: sum.splits if_splits)

lemma run_pipeline_agree:
  assumes "agree_on (ga_head_sha a) (ga_id a) c c'"
  shows "run_pipeline sha256 c others j k m a s = run_pipeline sha256 c' others j k m a s"
proof -
  have "publish_in_progress c m b = publish_in_progress c' m b" if "ga_head_sha b = ga_head_sha a" "ga_id b = ga_id a" for b
    using assms that agree_request(1) [of b c c' m CK_IN_PROGRESS "build_in_progress_output None" None]
    by (simp add: publish_in_progress_def)
  then show ?thesis
    unfolding run_pipeline_def sthen_def using assms
    by (intro sbind_run_cong refl)
      (auto simp: save_run intro!: sbind_run_cong complete_analysis_agree split: prod.split dest: publish_in_progress_keys)
qed

text \<open>
  C25: the client is consulted about nothing but the commit, the name and the id of the analysis: two clients that
  agree on those requests are not told apart, whatever they answer about other commits.
\<close>

theorem only_about_its_commit:
  assumes "agree_on sha i client client'"
  shows "run_pr_analysis sha256 client others j k pid i sha s = run_pr_analysis sha256 client' others j k pid i sha s"
  unfolding run_pr_analysis_def
proof (rule sbind_run_cong [OF refl], goal_cases)
  case (1 a t)
  then have a: "ga_id a = i" unfolding get_analysis_eq_Inr using filter_single by fastforce
  show ?case
  proof (cases "ga_head_sha a = sha")
    case True
    then have agree: "agree_on (ga_head_sha a) (ga_id a) client client'" using assms a by simp
    show ?thesis
      using True
      by (auto intro!: sbind_run_cong simp: publish_result_agree [OF agree] run_pipeline_agree [OF agree] split: option.split)
  qed simp
qed

text \<open>A client that answers about one commit only.\<close>

definition choosy_client :: "string \<Rightarrow> checks_client" where
  "choosy_client sha = failing_client
     \<lparr> create_check_run := (\<lambda>r. if cq_head_sha r = sha then Inr \<lparr> cr_id = 9, cr_status = cq_status r, cr_conclusion = cq_conclusion r \<rparr>
                             else create_check_run failing_client r) \<rparr>"

theorem only_about_its_commit_witness:
  "run_pr_analysis id failing_client (\<lambda>d. d) 62 63 2 60 ''2'' (begin_txn mapped_db)
     = run_pr_analysis id (choosy_client ''3'') (\<lambda>d. d) 62 63 2 60 ''2'' (begin_txn mapped_db)"
  by (rule only_about_its_commit) (simp add: agree_on_def choosy_client_def)

section \<open>Evidence is gathered once\<close>

definition same_evidence :: "db \<Rightarrow> db \<Rightarrow> bool" where
  "same_evidence d d' \<longleftrightarrow> db_scans d' = db_scans d \<and> db_assessments d' = db_assessments d"

lemma same_evidence_simps [simp]:
  "same_evidence d (update_analysis i f d') \<longleftrightarrow> same_evidence d d'"
  "same_evidence d (put_audit e d') \<longleftrightarrow> same_evidence d d'"
  "same_evidence d d"
  by (simp_all add: same_evidence_def update_analysis_def put_audit_def)

lemma publish_result_same_evidence:
  assumes "both (same_evidence d) s"
  shows "wp (publish_result client m a scan y) (\<lambda>_ t. both (same_evidence d) t) (\<lambda>_ t. both (same_evidence d) t) s"
  using assms by (simp add: publish_result_def wp_simps both_def split: sum.split)

lemma get_row_found:
  assumes "r \<in> set (table (tx_current s))" "get_row table key (Some (key r)) s = (Inr q, t)"
  shows "q \<noteq> None"
proof
  assume "q = None"
  then have "filter (\<lambda>x. key x = key r) (table (tx_current s)) = []" using assms(2) by (simp add: get_row_def fetch_one_eq_Inr)
  then show False using assms(1) by (auto simp: filter_empty_conv)
qed

lemma wp_known: "m s = (Inr x, s) \<Longrightarrow> wp (sbind m f) Q E s \<longleftrightarrow> wp (f x) Q E s"
  by (simp add: wp_def sbind_def)

lemma own_analysis_found:
  assumes "analyses_ok d" "a \<in> set (db_analyses d)" "get_analysis pid (ga_id a) (begin_txn d) = (Inr y, t)"
  shows "y = a"
proof -
  have "y \<in> set (db_analyses d) \<and> ga_id y = ga_id a"
    using assms(3) unfolding get_analysis_eq_Inr using filter_single by fastforce
  then show ?thesis
    using assms(1,2) no_clash_unique [of analysis_clash "db_analyses d" y a] by (auto simp: analyses_ok_def analysis_clash_def)
qed

lemma unpublished_evidence_found:
  assumes "analyses_ok d" "a \<in> set (db_analyses d)" "ga_status a = PA_PUBLISH_FAILED"
    and "x \<in> set (db_scans d)" "ga_compatibility_scan_id a = Some (cs_id x)"
    and "stored_evidence a (begin_txn d) = (Inr ev, t)"
  shows "ev \<noteq> None"
proof -
  let ?s = "begin_txn d"
  have "evidence_of d a" using assms(1-3) by (auto simp: analyses_ok_def)
  then obtain y where y: "y \<in> set (db_assessments d)" "ga_risk_assessment_id a = Some (as_id y)"
    by (auto simp: evidence_of_def list_ex_iff)
  obtain q r u where qr: "get_row db_scans cs_id (Some (cs_id x)) ?s = (Inr q, u)"
    "get_row db_assessments as_id (Some (as_id y)) ?s = (Inr r, t)" "ev = (case (q, r) of (Some x, Some y) \<Rightarrow> Some (x, y) | _ \<Rightarrow> None)"
    using assms(3,5,6) y(2) by (auto simp: stored_evidence_def sbind_eq_Inr session_basic
        readonly_eq [OF get_row_readonly])
  then show ?thesis
    using get_row_found [of x db_scans ?s cs_id] get_row_found [of y db_assessments ?s as_id] assms(4) y(1) by auto
qed

lemma republish_same_evidence:
  assumes "analyses_ok d" "a \<in> set (db_analyses d)" "ga_status a = PA_PUBLISH_FAILED"
    and "x \<in> set (db_scans d)" "ga_compatibility_scan_id a = Some (cs_id x)"
  shows "wp (sbind (stored_evidence a) (\<lambda>ev. case ev of Some (x, z) \<Rightarrow> publish_result client m a x z
     | None \<Rightarrow> run_pipeline sha256 client others j k m a))
    (\<lambda>_. both (same_evidence d)) (\<lambda>_. both (same_evidence d)) (begin_txn d)"
proof (cases "stored_evidence a (begin_txn d)")
  case (Pair q u)
  then have u: "u = begin_txn d" by (rule readonly_state [OF stored_evidence_readonly])
  show ?thesis
  proof (cases q)
    case (Inl e)
    then show ?thesis using Pair u by (simp add: wp_def sbind_def)
  next
    case (Inr ev)
    then obtain v z where "ev = Some (v, z)"
      using unpublished_evidence_found [OF assms] Pair by fastforce
    then show ?thesis
      using Pair Inr u publish_result_same_evidence [of d "begin_txn d" client m a v z] assms(3)
      by (simp add: wp_def sbind_def)
  qed
qed

text \<open>
  C18: once an analysis has its evidence, running it again, by a repeated event or to publish its check at last,
  gathers none: scans and assessments stay as they are. A completed or failed analysis is left alone altogether.
\<close>

theorem evidence_gathered_once:
  assumes "analyses_ok d" "a \<in> set (db_analyses d)"
    and "ga_status a \<in> {PA_COMPLETED, PA_FAILED}
      \<or> ga_status a = PA_PUBLISH_FAILED \<and> (\<exists>x \<in> set (db_scans d). ga_compatibility_scan_id a = Some (cs_id x))"
  shows "same_evidence d (snd (request (run_pr_analysis sha256 client others j k pid (ga_id a) sha) d))
    \<and> (ga_status a \<in> {PA_COMPLETED, PA_FAILED} \<longrightarrow>
         snd (request (run_pr_analysis sha256 client others j k pid (ga_id a) sha) d) = d)"
proof -
  let ?s = "begin_txn d"
  let ?I = "\<lambda>t. both (same_evidence d) t \<and> (ga_status a \<in> {PA_COMPLETED, PA_FAILED} \<longrightarrow> t = ?s)"
  have "wp (run_pr_analysis sha256 client others j k pid (ga_id a) sha) (\<lambda>_. ?I) (\<lambda>_. ?I) ?s"
  proof (cases "get_analysis pid (ga_id a) ?s")
    case (Pair r t)
    then have t: "t = ?s" by (rule readonly_state [OF analyses_readonly(3)])
    show ?thesis
    proof (cases r)
      case (Inl e)
      then show ?thesis using Pair t by (simp add: run_pr_analysis_def wp_def sbind_def)
    next
      case (Inr y)
      then have y: "get_analysis pid (ga_id a) ?s = (Inr a, ?s)"
        using Pair t own_analysis_found [OF assms(1,2)] by blast
      show ?thesis
      proof (cases "terminal_analysis (ga_status a)")
        case True
        then show ?thesis by (simp add: run_pr_analysis_def wp_def sbind_def y session_basic)
      next
        case False
        then obtain x where pf: "ga_status a = PA_PUBLISH_FAILED"
          and x: "x \<in> set (db_scans d)" "ga_compatibility_scan_id a = Some (cs_id x)"
          using assms(3) by (auto simp: terminal_analysis_def)
        have "wp (sbind (srequire (not_mapped (ga_repository_id a)) (mapping_by_repository (ga_repository_id a)))
            (\<lambda>m. sbind (stored_evidence a) (\<lambda>ev. case ev of Some (x, z) \<Rightarrow> publish_result client m a x z
             | None \<Rightarrow> run_pipeline sha256 client others j k m a))) (\<lambda>_. both (same_evidence d)) (\<lambda>_. both (same_evidence d)) ?s"
          by (intro wp_sbind_readonly [OF _ republish_same_evidence [OF assms(1,2) pf x]] readonly_intros) simp
        then show ?thesis
          unfolding run_pr_analysis_def wp_known [where m = "get_analysis pid (ga_id a)", OF y]
          using False pf by (cases "ga_head_sha a = sha") (simp_all add: wp_basic)
      qed
    qed
  qed
  then show ?thesis
    by (auto simp: request_def both_def wp_def split: prod.splits sum.splits)
qed

definition passed :: assessment_row where
  "passed = to_assessment_row id 40 (evaluate no_evidence) 1 2 (Some 9) None"

definition unpublished_analysis :: pr_analysis where
  "unpublished_analysis = sample_analysis
     \<lparr> ga_status := PA_PUBLISH_FAILED, ga_compatibility_scan_id := Some 9, ga_risk_assessment_id := Some 40,
        ga_decision := Some (as_decision passed) \<rparr>"

definition unpublished_db :: db where
  "unpublished_db = mapped_db \<lparr> db_analyses := [unpublished_analysis], db_scans := [sample_scan], db_assessments := [passed] \<rparr>"

lemma unpublished_ids [simp]:
  "ga_id unpublished_analysis = 60" "ga_status unpublished_analysis = PA_PUBLISH_FAILED" "cs_id sample_scan = 9"
  "ga_compatibility_scan_id unpublished_analysis = Some 9"
  by (simp_all add: unpublished_analysis_def sample_analysis_def new_analysis_def sample_scan_counts)

lemma unpublished_db_ok: "analyses_ok unpublished_db"
  by (simp add: analyses_ok_def unpublished_db_def evidence_of_def)
    (simp add: unpublished_analysis_def passed_def to_assessment_row_def)

theorem evidence_gathered_once_witness:
  "same_evidence unpublished_db (snd (request (run_pr_analysis id failing_client (\<lambda>d. d) 62 63 2 60 ''2'') unpublished_db))"
proof -
  have "unpublished_analysis \<in> set (db_analyses unpublished_db)" "sample_scan \<in> set (db_scans unpublished_db)"
    by (simp_all add: unpublished_db_def)
  then have "same_evidence unpublished_db
      (snd (request (run_pr_analysis id failing_client (\<lambda>d. d) 62 63 2 (ga_id unpublished_analysis) ''2'') unpublished_db))"
    by (intro evidence_gathered_once [OF unpublished_db_ok, THEN conjunct1]) (auto intro!: bexI [of _ sample_scan])
  then show ?thesis by simp
qed

section \<open>A start can be repeated\<close>

lemma start_again:
  assumes "start_analysis (\<lambda>d. d) i p dl q s = (Inr a, t)"
  shows "start_analysis (\<lambda>d. d) j p dl q t = (Inr a, t)"
proof -
  let ?key = "\<lambda>a. ga_repository_id a = pw_repository_id p \<and> ga_pull_request_number a = pw_pull_request_number p
       \<and> ga_head_sha a = pw_head_sha p \<and> ga_analysis_version a = analysis_version"
  obtain created where run: "start_or_get (\<lambda>d. d) i p dl q s = (Inr (a, created), t)"
    using assms by (auto simp: start_analysis_def sbind_eq_Inr session_basic)
  then obtain m where m: "filter (\<lambda>m. gm_repository_id m = pw_repository_id p) (db_mappings (tx_current s)) = [m]"
      "gm_component_id m \<noteq> None"
    by (auto simp: start_or_get_def sbind_eq_Inr srequire_eq_Inr mapping_by_repository_def fetch_one_eq_Inr sthen_eq_Inr sguard_eq_Inr)
  have mp: "mapping_by_repository (pw_repository_id p) u = (Inr (Some m), u)"
    if "db_mappings (tx_current u) = db_mappings (tx_current s)" for u
    using m that by (simp add: mapping_by_repository_def fetch_one_def)
  have "db_mappings (tx_current t) = db_mappings (tx_current s)
      \<and> analysis_by_key (pw_repository_id p) (pw_pull_request_number p) (pw_head_sha p) analysis_version t = (Inr (Some a), t)"
  proof (cases "one_or_none (filter ?key (db_analyses (tx_current s)))")
    case (Inl e)
    then show ?thesis using run m mp [of s]
      by (simp add: start_or_get_def sbind_def srequire_def session_basic sthen_def sguard_def analysis_by_key_def fetch_one_def)
  next
    case (Inr existing)
    then have f: "analysis_by_key (pw_repository_id p) (pw_pull_request_number p) (pw_head_sha p) analysis_version s = (Inr existing, s)"
      by (simp add: analysis_by_key_def fetch_one_def)
    show ?thesis
    proof (cases existing)
      case (Some b)
      then show ?thesis using run m mp [of s] f
        by (simp add: start_or_get_def sbind_def srequire_def session_basic sthen_def sguard_def)
    next
      case None
      let ?a = "new_analysis i m p dl"
      have "a = ?a" "\<exists>e. tx_current t = put_audit e (put_analysis ?a (tx_current s))"
        using run m mp [of s] f None
        by (auto simp: start_or_get_def sbind_def srequire_def session_basic sthen_def sguard_def Let_def flush_row_def
            audit_def split: if_splits)
      then show ?thesis
        using Inr None by (auto simp: analysis_by_key_def fetch_one_def put_audit_def put_analysis_def new_analysis_def)
    qed
  qed
  then show ?thesis
    using m mp [of t] by (simp add: start_analysis_def start_or_get_def sbind_def srequire_def session_basic sthen_def sguard_def)
qed

interpretation analysis_start: retriable "\<lambda>i. start_analysis (\<lambda>d. d) i p dl q"
  for p dl q
  by unfold_locales (rule start_again)

text \<open>
  A pull request announced again for the same commit, by however many deliveries, is the same analysis, and the
  repetition changes nothing.
\<close>

theorem start_idempotent:
  assumes "start_analysis (\<lambda>d. d) i p dl q s = (Inr a, t)"
  shows "fold (\<lambda>j (out, u). start_analysis (\<lambda>d. d) j p dl q u) js (Inr a, t) = (Inr a, t)"
  using assms by (rule analysis_start.retry_many)

lemma sample_start: "\<exists>a t. start_analysis (\<lambda>d. d) 61 sample_pull_request ''d1'' None (begin_txn mapped_db) = (Inr a, t)"
  by (simp add: start_analysis_def start_or_get_def sbind_def srequire_def session_basic sthen_def sguard_def
      mapping_by_repository_def analysis_by_key_def fetch_one_def sample_mapping_def sample_pull_request_def
      sample_analysis_def new_analysis_def)

theorem start_idempotent_witness:
  "\<exists>a t. fold (\<lambda>j (out, u). start_analysis (\<lambda>d. d) j sample_pull_request ''d1'' None u) [70, 71] (Inr a, t) = (Inr a, t)"
  using sample_start start_idempotent by blast

section \<open>The client\<close>

lemma settle_error: "settle st r = Inl e \<Longrightarrow> orchestratable e"
  by (auto simp: settle_def split: if_splits option.splits)

lemma settle_result: "settle st r = Inr x \<Longrightarrow> r = Some x \<and> st < 400"
  by (auto simp: settle_def split: if_splits option.splits)

definition to_retry :: "transport_outcome \<Rightarrow> bool" where
  "to_retry x \<longleftrightarrow> (case x of Network_failure \<Rightarrow> True | Answered st _ \<Rightarrow> 500 \<le> st)"

lemma attempts_outcome:
  "snd (attempts transport ns) \<le> length ns
   \<and> (\<forall>k < length ns. k < snd (attempts transport ns) - 1 \<longrightarrow> to_retry (transport (ns ! k)))
   \<and> (case fst (attempts transport ns) of
        Inl e \<Rightarrow> orchestratable e
      | Inr r \<Rightarrow> 0 < snd (attempts transport ns)
          \<and> (\<exists>st < 400. transport (ns ! (snd (attempts transport ns) - 1)) = Answered st (Some r)))"
proof (induction ns)
  case Nil
  then show ?case by (simp add: api_unavailable_def)
next
  case (Cons n ns)
  obtain r k where rk: "attempts transport ns = (r, k)" by (cases "attempts transport ns")
  show ?case
  proof (cases "to_retry (transport n)")
    case True
    then have "attempts transport (n # ns) = (r, Suc k)"
      by (auto simp: rk to_retry_def split: transport_outcome.splits)
    then show ?thesis
      using Cons.IH True rk by (auto simp: nth_Cons split: sum.splits nat.splits)
  next
    case False
    then obtain st x where "transport n = Answered st x" "st < 500" by (auto simp: to_retry_def split: transport_outcome.splits)
    then show ?thesis
      using settle_error [of st x] settle_result [of st x] by (auto split: sum.split)
  qed
qed

text \<open>
  C32: a request to GitHub makes three attempts at most, each but the last after a failure of the network or of the
  server; it ends in the result of the last attempt, which GitHub accepted, or in one of the three errors the
  publishing of a check expects, never in another one.
\<close>

theorem send_bounded:
  "let n = snd (send token transport)
   in n \<le> 3 \<and> (\<forall>k. Suc k < n \<longrightarrow> to_retry (transport k))
    \<and> (case fst (send token transport) of
         Inl e \<Rightarrow> orchestratable e
       | Inr r \<Rightarrow> (\<exists>st < 400. transport (n - 1) = Answered st (Some r)))"
proof (cases "get_token token")
  case (Inl e)
  then have "orchestratable e" by (auto simp: get_token_def split: option.splits list.splits)
  then show ?thesis using Inl by (simp add: send_def)
next
  case (Inr t)
  let ?ns = "[0 ..< Suc max_retries]"
  have ns: "length ?ns = 3" by (simp add: max_retries_def)
  have nth: "k < 3 \<Longrightarrow> ?ns ! k = k" for k by (simp add: max_retries_def nth_append less_Suc_eq numeral_3_eq_3 del: upt_Suc)
  have r: "send token transport = attempts transport ?ns" using Inr by (simp add: send_def)
  show ?thesis
    using attempts_outcome [of transport ?ns] nth unfolding ns r Let_def
    by (auto split: sum.splits)
qed

definition sample_transport :: "nat \<Rightarrow> transport_outcome" where
  "sample_transport n =
     (if n = 0 then Network_failure else if n = 1 then Answered 502 None
      else Answered 201 (Some \<lparr> cr_id = 77, cr_status = CK_COMPLETED, cr_conclusion = Some CC_SUCCESS \<rparr>))"

lemma sample_sent: "snd (send (Some ''t'') sample_transport) = 3"
  by (simp add: send_def get_token_def max_retries_def sample_transport_def settle_def upt_conv_Cons)

theorem send_bounded_witness:
  "to_retry (sample_transport 0) \<and> to_retry (sample_transport 1) \<and> snd (send (Some ''t'') sample_transport) = 3"
  using send_bounded [of "Some ''t''" sample_transport] by (simp add: sample_sent Let_def)

end
