(* ===== verification/Pr_Defects.thy ===== *)
theory Pr_Defects
  imports Pr_Properties
begin

text \<open>
  Two defects of the analysis of pull requests: by default the candidate is compared with itself, and a check that
  fails in an unforeseen way is lost for good.
\<close>

section \<open>Registered rows are found\<close>

lemma get_component_known:
  assumes "registry_ok (tx_current s)" "c \<in> set (db_components (tx_current s))"
    and "p \<in> set (db_projects (tx_current s))" "pj_id p = cm_project_id c"
  shows "get_component (cm_project_id c) (cm_id c) s = (Inr c, s)"
proof -
  have ok: "no_clash project_clash (db_projects (tx_current s))" "no_clash component_clash (db_components (tx_current s))"
    using assms(1) by (simp_all add: registry_ok_def)
  have "filter (\<lambda>q. pj_id q = cm_project_id c) (db_projects (tx_current s)) = [p]"
    by (rule no_clash_filter [OF ok(1) assms(3)]) (use assms(4) in \<open>auto simp: project_clash_def\<close>)
  moreover have "filter (\<lambda>x. cm_id x = cm_id c \<and> cm_project_id x = cm_project_id c) (db_components (tx_current s)) = [c]"
    by (rule no_clash_filter [OF ok(2) assms(2)]) (auto simp: component_clash_def)
  ultimately show ?thesis
    by (simp add: get_component_def require_project_def project_by_id_def component_by_id_def sthen_def sbind_def
        srequire_def fetch_one_def session_basic)
qed

lemma get_component_version_known:
  assumes "registry_ok (tx_current s)" "get_component p i s = (Inr c, s)"
    and "v \<in> set (db_versions (tx_current s))" "cv_component_id v = i"
  shows "get_component_version p i (cv_version v) s = (Inr v, s)"
proof -
  have "no_clash version_clash (db_versions (tx_current s))" using assms(1) by (simp add: registry_ok_def)
  then have "filter (\<lambda>x. cv_component_id x = i \<and> cv_version x = cv_version v) (db_versions (tx_current s)) = [v]"
    by (rule no_clash_filter [OF _ assms(3)]) (use assms(4) in \<open>auto simp: version_clash_def\<close>)
  then show ?thesis
    by (simp add: get_component_version_def assms(2) sthen_def sbind_def srequire_def version_by_version_def fetch_one_def
        session_basic)
qed

lemma last_sort_key:
  assumes "v \<in> set xs" "\<And>w. w \<in> set xs \<Longrightarrow> w \<noteq> v \<Longrightarrow> f w < (f v :: nat)"
  shows "\<exists>zs. rev (sort_key f xs) = v # zs"
proof -
  let ?ys = "sort_key f xs"
  have ne: "?ys \<noteq> []" using assms(1) by (metis list.set_cases set_sort empty_iff set_empty)
  then obtain zs x where ys: "?ys = zs @ [x]" by (metis rev_exhaust)
  have x: "x \<in> set xs" using ys by (metis in_set_conv_decomp set_sort)
  have "x = v"
  proof (rule ccontr)
    assume "x \<noteq> v"
    then have "v \<in> set zs" using assms(1) ys by (metis Un_iff empty_iff empty_set set_ConsD set_append set_sort)
    moreover have "sorted (map f (zs @ [x]))" using sorted_sort_key [of f xs] unfolding ys .
    ultimately have "f v \<le> f x" by (auto simp: sorted_append)
    then show False using assms(2) [OF x \<open>x \<noteq> v\<close>] by simp
  qed
  then show ?thesis using ys by simp
qed

lemma get_latest_known:
  assumes "get_component p i s = (Inr c, s)" "v \<in> set (db_versions (tx_current s))" "cv_component_id v = i"
    and "\<And>w. w \<in> set (db_versions (tx_current s)) \<Longrightarrow> cv_component_id w = i \<Longrightarrow> w \<noteq> v \<Longrightarrow> cv_sequence w < cv_sequence v"
  shows "get_latest_component_version p i s = (Inr v, s)"
proof -
  obtain zs where "versions_of i (tx_current s) = v # zs"
    unfolding versions_of_def
    using last_sort_key [of v "filter (\<lambda>v. cv_component_id v = i) (db_versions (tx_current s))" cv_sequence] assms(2-4) by auto
  then show ?thesis
    by (simp add: get_latest_component_version_def assms(1) sthen_def sbind_def srequire_def latest_version_def session_basic)
qed

section \<open>The candidate is its own baseline\<close>

text \<open>
  The state in which continuous integration leaves the registry: the version of the pull request's commit, which
  the analysis needs, is the one registered last, and the mapping names no baseline.
\<close>

definition candidate_registered_last :: "db \<Rightarrow> repository_mapping \<Rightarrow> component_row \<Rightarrow> component_version \<Rightarrow> bool" where
  "candidate_registered_last d m c v \<longleftrightarrow>
     registry_ok d \<and> schemas_ok d
     \<and> c \<in> set (db_components d) \<and> cm_type c \<noteq> C_PROVIDER \<and> (\<exists>p \<in> set (db_projects d). pj_id p = cm_project_id c)
     \<and> gm_component_id m = Some (cm_id c) \<and> gm_project_id m = cm_project_id c \<and> gm_baseline_version m = None
     \<and> v \<in> set (db_versions d) \<and> cv_component_id v = cm_id c
     \<and> (\<forall>w \<in> set (db_versions d). cv_component_id w = cm_id c \<longrightarrow> w \<noteq> v \<longrightarrow> cv_sequence w < cv_sequence v)"

definition unused_ids :: "db \<Rightarrow> uuid \<Rightarrow> uuid \<Rightarrow> bool" where
  "unused_ids d j k \<longleftrightarrow>
     (\<forall>x \<in> set (db_scans d). cs_id x \<noteq> j)
     \<and> (\<forall>a \<in> set (db_assessments d). as_id a \<noteq> k \<and> as_compatibility_scan_id a \<noteq> Some j)"

lemma run_compatibility_latest:
  assumes "candidate_registered_last (tx_current s) m c v"
  shows "\<exists>scan. run_compatibility j m (cv_version v) s = (Inr scan, s \<lparr> tx_current := put_scan scan (tx_current s) \<rparr>)
    \<and> cs_id scan = j \<and> cs_project_id scan = gm_project_id m \<and> cs_changes scan = [] \<and> cs_status scan = CS_COMPATIBLE
    \<and> scan_faithful scan"
proof -
  have ok: "registry_ok (tx_current s)" "schemas_ok (tx_current s)" "c \<in> set (db_components (tx_current s))"
    "v \<in> set (db_versions (tx_current s))" "cv_component_id v = cm_id c" "cm_type c \<noteq> C_PROVIDER"
    "gm_component_id m = Some (cm_id c)" "gm_project_id m = cm_project_id c" "gm_baseline_version m = None"
    using assms by (simp_all add: candidate_registered_last_def)
  obtain p where p: "p \<in> set (db_projects (tx_current s))" "pj_id p = cm_project_id c"
    using assms by (auto simp: candidate_registered_last_def)
  have c: "get_component (cm_project_id c) (cm_id c) s = (Inr c, s)" by (rule get_component_known [OF ok(1,3) p])
  have gv: "get_component_version (cm_project_id c) (cm_id c) (cv_version v) s = (Inr v, s)"
    by (rule get_component_version_known [OF ok(1) c ok(4,5)])
  have gl: "get_latest_component_version (cm_project_id c) (cm_id c) s = (Inr v, s)"
    by (rule get_latest_known [OF c ok(4,5)]) (use assms in \<open>auto simp: candidate_registered_last_def\<close>)
  have cok: "content_ok (cm_type c) (cv_content v)"
    using stored_content_content_ok [OF ok(1,2,3,4)] ok(5) by simp
  obtain r where r: "compat_analyze (cm_type c) (cv_content v) (cv_content v) = Inr r"
    using compat_analyze_stored [OF cok cok ok(6)] by blast
  then have empty: "r = \<lparr> ar_status = CS_COMPATIBLE, ar_changes = [] \<rparr>" by (rule compat_analyze_stored_self [OF cok])
  let ?scan = "scan_row j (cm_project_id c) c v v r"
  have "run_compatibility j m (cv_version v) s = (Inr ?scan, s \<lparr> tx_current := put_scan ?scan (tx_current s) \<rparr>)"
    using r
    by (simp add: run_compatibility_def mapped_component_def baseline_of_def ok(7-9) on_missing_version_def scatch_def
        sbind_def session_basic gl run_scan_def c gv scan_from_versions_def sthen_def sguard_def Let_def)
  moreover have "scan_faithful ?scan" by (rule scan_row_faithful [OF r])
  ultimately show ?thesis
    by (intro exI [of _ ?scan]) (simp add: scan_row_def Let_def empty ok(8))
qed

lemma compatible_passes:
  assumes "scan_faithful scan" "cs_changes scan = []"
  shows "ra_decision (evaluate (build_context (Some scan) None None)) = RD_PASS"
    "ra_score (evaluate (build_context (Some scan) None None)) = 0"
proof -
  have "cs_breaking_count scan = 0" "cs_severity_critical_count scan = 0"
    using assms by (simp_all add: scan_faithful_def)
  then show "ra_score (evaluate (build_context (Some scan) None None)) = 0"
    "ra_decision (evaluate (build_context (Some scan) None None)) = RD_PASS"
    using scan_context [OF assms(1), of None]
    by (simp_all add: evaluate_decision evaluate_score evaluate_hard_block decide_def pass_max_def points_defs
        build_context_def Let_def no_evidence_def)
qed

lemma gather_latest:
  assumes reg: "candidate_registered_last (tx_current s) m c v" and fresh: "unused_ids (tx_current s) j k"
  shows "\<exists>scan a t. gather_evidence sha256 (\<lambda>d. d) j k m (cv_version v) s = (Inr (scan, a), t)
    \<and> cs_changes scan = [] \<and> cs_status scan = CS_COMPATIBLE \<and> as_decision a = ''PASS'' \<and> as_score a = 0
    \<and> tx_current t = put_assessment a (put_scan scan (tx_current s))"
proof -
  obtain scan where scan: "run_compatibility j m (cv_version v) s = (Inr scan, s \<lparr> tx_current := put_scan scan (tx_current s) \<rparr>)"
    "cs_id scan = j" "cs_project_id scan = gm_project_id m" "cs_changes scan = []" "cs_status scan = CS_COMPATIBLE"
    "scan_faithful scan"
    using run_compatibility_latest [OF reg] by blast
  obtain p where p: "p \<in> set (db_projects (tx_current s))" "pj_id p = gm_project_id m"
    using reg by (auto simp: candidate_registered_last_def)
  have "no_clash project_clash (db_projects (tx_current s))"
    using reg by (simp add: candidate_registered_last_def registry_ok_def)
  then have pj: "filter (\<lambda>q. pj_id q = gm_project_id m) (db_projects (tx_current s)) = [p]"
    by (rule no_clash_filter [OF _ p(1)]) (use p(2) in \<open>auto simp: project_clash_def\<close>)
  let ?a = "to_assessment_row sha256 k (evaluate (build_context (Some scan) None None)) (pj_organization_id p)
      (gm_project_id m) (Some j) None"
  have keys: "filter (\<lambda>a. as_project_id a = gm_project_id m \<and> as_compatibility_scan_id a = Some j
       \<and> as_differential_report_id a = None \<and> as_risk_engine_version a = risk_engine_version)
       (db_assessments (tx_current s)) = []"
    using fresh by (auto simp: unused_ids_def filter_empty_conv)
  have scans: "filter (\<lambda>x. cs_id x = j \<and> cs_project_id x = gm_project_id m) (db_scans (tx_current s)) = []"
    using fresh by (auto simp: unused_ids_def filter_empty_conv)
  have free: "\<not> list_ex (assessment_clash ?a) (db_assessments (tx_current s))"
    using fresh by (auto simp: unused_ids_def list_ex_iff assessment_clash_def to_assessment_row_def same_key_def)
  have linked: "assessment_linked ?a d" if "db_projects d = db_projects (tx_current s)" for d
    using p that by (auto simp: assessment_linked_def to_assessment_row_def list_ex_iff)
  have "run_assessment sha256 None (\<lambda>d. d) (gm_project_id m) (Some j) None k
      (s \<lparr> tx_current := put_scan scan (tx_current s) \<rparr>)
    = (Inr ?a, s \<lparr> tx_current := put_assessment ?a (put_scan scan (tx_current s)) \<rparr>)"
    using free linked
    by (simp add: run_assessment_def store_assessment_def load_scan_def load_report_def assessment_by_key_def fetch_one_def
        scan_by_id_def sbind_def sthen_def srequire_def sguard_def session_basic assessment_organization_def
        require_project_def project_by_id_def compute_blast_radius_def Let_def flush_row_def put_scan_def
        keys scans scan(2,3) pj)
  then have "gather_evidence sha256 (\<lambda>d. d) j k m (cv_version v) s
      = (Inr (scan, ?a), s \<lparr> tx_current := put_assessment ?a (put_scan scan (tx_current s)) \<rparr>)"
    by (simp add: gather_evidence_def sbind_def scan(1,2) session_basic)
  then show ?thesis
    using scan compatible_passes [OF scan(6,4)]
    by (intro exI [of _ scan] exI [of _ ?a]) (simp add: to_assessment_row_def)
qed

text \<open>
  As long as the mapping names no baseline, every pull request passes: its commit must be registered as a version
  before the analysis, so that version is the latest one, the default baseline, and the candidate is compared with
  itself. Whatever it breaks, the scan has no change, the score is zero and the decision \<open>PASS\<close>.
\<close>

theorem default_baseline_always_passes:
  assumes "candidate_registered_last d m c v" "unused_ids d j k"
  shows "\<exists>scan a t. gather_evidence sha256 (\<lambda>d. d) j k m (cv_version v) (begin_txn d) = (Inr (scan, a), t)
    \<and> cs_changes scan = [] \<and> cs_status scan = CS_COMPATIBLE \<and> as_decision a = ''PASS'' \<and> as_score a = 0"
  using gather_latest [of "begin_txn d" m c v j k sha256] assms by auto

lemma sample_registered_last:
  "candidate_registered_last mapped_db sample_mapping sample_component (sample_version 5 ''2'' tool_v2)"
proof -
  have "registry_ok mapped_db \<longleftrightarrow> registry_ok sample_db" "schemas_ok mapped_db \<longleftrightarrow> schemas_ok sample_db"
    by (simp_all add: registry_ok_def schemas_ok_def mapped_db_def version_linked_def stored_content_ok_def)
  then show ?thesis
    using sample_db_ok
    by (simp add: candidate_registered_last_def sample_component_def sample_mapping_def) (auto simp: sample_version_def)
qed

lemma sample_fresh: "unused_ids mapped_db 62 63"
  by (simp add: unused_ids_def)

text \<open>The tool gained a required input field in the version of the pull request, which blocks a deployment.\<close>

theorem default_baseline_always_passes_witness:
  "\<exists>scan a t. gather_evidence id (\<lambda>d. d) 62 63 sample_mapping ''2'' (begin_txn mapped_db) = (Inr (scan, a), t)
    \<and> cs_changes scan = [] \<and> cs_status scan = CS_COMPATIBLE \<and> as_decision a = ''PASS'' \<and> as_score a = 0"
  using default_baseline_always_passes [OF sample_registered_last sample_fresh, of id] by (simp add: sample_version_def)

section \<open>A check is lost\<close>

lemma gather_evidence_rows:
  assumes "gather_evidence sha256 (\<lambda>d. d) j k m sha s = (Inr r, t)"
  shows "db_analyses (tx_current t) = db_analyses (tx_current s)"
proof -
  have "wp (gather_evidence sha256 (\<lambda>d. d) j k m sha)
      (\<lambda>_ t. db_analyses (tx_current t) = db_analyses (tx_current s)) (\<lambda>_ _. True) s"
    unfolding gather_evidence_def wp_sbind
    by (rule wp_mono [OF run_compatibility_frame], rule wp_mono [OF run_assessment_frame])
      (auto simp: wp_basic put_scan_def put_assessment_def after_others_def)
  then show ?thesis using assms by (simp add: wp_def)
qed

definition marked :: "pr_analysis \<Rightarrow> db \<Rightarrow> db" where
  "marked a d = update_analysis (ga_id a) (\<lambda>a. a \<lparr> ga_status := PA_IN_PROGRESS \<rparr>) d"

lemma update_analysis_rows:
  "db_analyses (update_analysis i f d) = map (\<lambda>a. if ga_id a = i then f a else a) (db_analyses d)"
  by (simp add: update_analysis_def)

text \<open>The run, up to the answer about the completed check.\<close>

lemma run_to_publish:
  assumes row: "no_clash analysis_clash (db_analyses d)" "a \<in> set (db_analyses d)" "ga_status a = PA_PENDING"
    and m: "filter (\<lambda>m. gm_repository_id m = ga_repository_id a) (db_mappings d) = [m]"
    and silent: "create_check_run client (check_request m (a \<lparr> ga_status := PA_IN_PROGRESS \<rparr>) CK_IN_PROGRESS
        (build_in_progress_output None) None) = Inl e0" "orchestratable e0"
    and evidence: "gather_evidence sha256 others j k m (ga_head_sha a) (begin_txn (marked a d)) = (Inr (scan, y), t)"
  shows "run_pr_analysis sha256 client others j k (ga_project_id a) (ga_id a) (ga_head_sha a) (begin_txn d)
    = complete_analysis client m (a \<lparr> ga_status := PA_IN_PROGRESS \<rparr>) scan y t"
proof -
  have a: "get_analysis (ga_project_id a) (ga_id a) (begin_txn d) = (Inr a, begin_txn d)"
    by (rule get_analysis_known) (use row in simp_all)
  have mp: "mapping_by_repository (ga_repository_id a) (begin_txn d) = (Inr (Some m), begin_txn d)"
    using m by (simp add: mapping_by_repository_def fetch_one_def)
  have s: "\<lparr> tx_committed = marked a d, tx_current = marked a d \<rparr> = begin_txn (marked a d)" by (simp add: begin_txn_def)
  have "run_pipeline sha256 client others j k m a (begin_txn d)
      = complete_analysis client m (a \<lparr> ga_status := PA_IN_PROGRESS \<rparr>) scan y t"
    unfolding run_pipeline_def
    by (simp add: sbind_def save_run sthen_def session_basic publish_in_progress_def silent scatch_def
        marked_def [symmetric] begin_txn_def [symmetric] evidence)
      (simp add: begin_txn_def marked_def [symmetric] evidence [unfolded begin_txn_def])
  then show ?thesis
    using row(3) by (simp add: run_pr_analysis_def sbind_def a mp srequire_def session_basic terminal_analysis_def
        stored_evidence_def)
qed

lemma risk_decision_of_value: "risk_decision_of (risk_decision_value dec) = Inr dec"
  by (cases dec) (simp_all add: risk_decision_of_def)

text \<open>
  The evidence is committed with the status \<open>COMPLETED\<close> before the check is published. If the publishing then
  ends in an error the code does not foresee, or the worker stops, the analysis stays completed without a check,
  and no repetition of it, with whatever client, publishes one.
\<close>

theorem check_lost:
  assumes "no_clash analysis_clash (db_analyses d)" "a \<in> set (db_analyses d)" "ga_status a = PA_PENDING" "ga_check_run_id a = None"
    and "filter (\<lambda>m. gm_repository_id m = ga_repository_id a) (db_mappings d) = [m]"
    and "\<And>r. cq_status r = CK_IN_PROGRESS \<Longrightarrow> create_check_run client r = Inl e0" "orchestratable e0"
    and "gather_evidence sha256 (\<lambda>d. d) j k m (ga_head_sha a) (begin_txn (marked a d)) = (Inr (scan, y), t)"
    and "as_decision y = risk_decision_value dec"
    and "\<And>r. cq_status r = CK_COMPLETED \<Longrightarrow> create_check_run client r = Inl e" "\<not> orchestratable e"
  shows "\<exists>b d'. request (run_pr_analysis sha256 client (\<lambda>d. d) j k (ga_project_id a) (ga_id a) (ga_head_sha a)) d = (Inl e, d')
    \<and> b \<in> set (db_analyses d') \<and> ga_id b = ga_id a \<and> ga_status b = PA_COMPLETED \<and> ga_check_run_id b = None
    \<and> (\<forall>client' others j' k'. request (run_pr_analysis sha256 client' others j' k' (ga_project_id a) (ga_id a) (ga_head_sha a)) d'
         = (Inr b, d'))"
proof -
  let ?a = "a \<lparr> ga_status := PA_IN_PROGRESS \<rparr>" and ?f = "\<lambda>a. a \<lparr> ga_status := PA_IN_PROGRESS \<rparr>"
  let ?b = "decided_row scan y ?a"
  let ?d = "decided_store m ?a scan y (tx_current t)"
  have ids: "ga_id ?a = ga_id a" "ga_head_sha ?a = ga_head_sha a" "ga_project_id ?a = ga_project_id a"
    "ga_check_run_id ?a = None"
    using assms(4) by simp_all
  have "run_pr_analysis sha256 client (\<lambda>d. d) j k (ga_project_id a) (ga_id a) (ga_head_sha a) (begin_txn d)
      = complete_analysis client m ?a scan y t"
    by (rule run_to_publish [OF assms(1-3,5) _ assms(7,8)]) (simp add: assms(6) check_request_def)
  also have "\<dots> = (Inl e, begin_txn ?d)"
    using assms(10) by (simp add: complete_analysis_run publish_result_def assms(9,11) risk_decision_of_value sbind_def
        session_basic send_completed_def ids completed_request_def check_request_def)
  finally have run: "request (run_pr_analysis sha256 client (\<lambda>d. d) j k (ga_project_id a) (ga_id a) (ga_head_sha a)) d
      = (Inl e, ?d)" by (simp add: request_def)
  have rows: "db_analyses ?d = map (\<lambda>x. if ga_id x = ga_id a then decided_row scan y (?f x) else x) (db_analyses d)"
    using gather_evidence_rows [OF assms(8)]
    by (simp add: decided_store_def put_audit_def update_analysis_rows marked_def)
  have b: "?b \<in> set (db_analyses ?d)" unfolding rows using assms(2) by force
  have clash: "no_clash analysis_clash (db_analyses ?d)"
    unfolding rows by (rule no_clash_map [OF assms(1)]) (auto simp: analysis_clash_def decided_row_def)
  have "get_analysis (ga_project_id a) (ga_id a) (begin_txn ?d) = (Inr ?b, begin_txn ?d)"
    using get_analysis_known [of "begin_txn ?d" ?b] clash b by simp
  then have "request (run_pr_analysis sha256 client' others j' k' (ga_project_id a) (ga_id a) (ga_head_sha a)) ?d = (Inr ?b, ?d)"
    for client' others j' k'
    by (simp add: request_def run_pr_analysis_def sbind_def terminal_analysis_def session_basic)
  then show ?thesis using run b ids by (intro exI [of _ ?b] exI [of _ ?d]) simp
qed

definition broken_client :: checks_client where
  "broken_client = failing_client
     \<lparr> create_check_run := (\<lambda>r. if cq_status r = CK_COMPLETED then Inl (Py OverflowError) else create_check_run failing_client r) \<rparr>"

theorem check_lost_witness:
  "\<exists>b d'. request (run_pr_analysis id broken_client (\<lambda>d. d) 62 63 2 60 ''2'') mapped_db = (Inl (Py OverflowError), d')
    \<and> b \<in> set (db_analyses d') \<and> ga_id b = 60 \<and> ga_status b = PA_COMPLETED \<and> ga_check_run_id b = None
    \<and> (\<forall>client' others j' k'. request (run_pr_analysis id client' others j' k' 2 60 ''2'') d' = (Inr b, d'))"
proof -
  have a: "ga_id sample_analysis = 60" "ga_project_id sample_analysis = 2" "ga_head_sha sample_analysis = ''2''"
    "ga_repository_id sample_analysis = 7" "ga_status sample_analysis = PA_PENDING" "ga_check_run_id sample_analysis = None"
    by (simp_all add: sample_analysis_def new_analysis_def sample_mapping_def sample_pull_request_def)
  have "candidate_registered_last (marked sample_analysis mapped_db) sample_mapping sample_component (sample_version 5 ''2'' tool_v2)"
    using sample_registered_last
    by (simp add: candidate_registered_last_def marked_def update_analysis_def registry_ok_def schemas_ok_def
        version_linked_def stored_content_ok_def)
  moreover have "unused_ids (marked sample_analysis mapped_db) 62 63" by (simp add: unused_ids_def marked_def update_analysis_def)
  ultimately obtain scan y t where ev: "gather_evidence id (\<lambda>d. d) 62 63 sample_mapping ''2''
      (begin_txn (marked sample_analysis mapped_db)) = (Inr (scan, y), t)" "as_decision y = risk_decision_value RD_PASS"
    using gather_latest [of "begin_txn (marked sample_analysis mapped_db)" sample_mapping sample_component
        "sample_version 5 ''2'' tool_v2" 62 63 id] by (auto simp: sample_version_def)
  have client: "create_check_run broken_client r =
      (if cq_status r = CK_COMPLETED then Inl (Py OverflowError) else Inl (Dom (GitHubError (GitHubAPIUnavailable ''down''))))" for r
    by (simp add: broken_client_def failing_client_def)
  have m: "gm_repository_id sample_mapping = 7" by (simp add: sample_mapping_def)
  show ?thesis
    using check_lost [of mapped_db sample_analysis sample_mapping broken_client
        "Dom (GitHubError (GitHubAPIUnavailable ''down''))" id 62 63 scan y t RD_PASS "Py OverflowError"]
    by (simp add: a ev client m)
qed

section \<open>Without a broker nothing is published again\<close>

text \<open>
  Analysed at once, without a broker, an analysis that exists already is returned as it is, in whatever state: a check
  that could not be published is never published by a later delivery, and an analysis that was interrupted stays so.
\<close>

lemma inline_never_runs_again:
  assumes "filter (\<lambda>m. gm_repository_id m = pw_repository_id p) (db_mappings d) = [m]" "gm_component_id m \<noteq> None"
    and "filter (\<lambda>a. ga_repository_id a = pw_repository_id p \<and> ga_pull_request_number a = pw_pull_request_number p
      \<and> ga_head_sha a = pw_head_sha p \<and> ga_analysis_version a = analysis_version) (db_analyses d) = [a]"
  shows "request (analyze_pull_request sha256 client others i j k p dl q) d = (Inr a, d)"
  using assms
  by (simp add: request_def analyze_pull_request_def start_or_get_def sbind_def srequire_def sthen_def sguard_def
      mapping_by_repository_def analysis_by_key_def fetch_one_def session_basic)

end
