(* ===== verification/Kafka_Properties.thy ===== *)
theory Kafka_Properties
  imports Kafka_Handler Pr_Defects
begin

text \<open>
  The properties of the worker: a message is tried a bounded number of times and committed once, what the webhook
  announces is what the worker runs, no message is ever tried twice, and an exception the handler does not know stops
  the worker.
\<close>

section \<open>Bounded attempts\<close>


lemma worker_commits: "commits_succeed (worker pipeline resolve explain publisher stamp dlq)"
  by (simp add: commits_succeed_def worker_def)



section \<open>From the webhook to the worker\<close>

text \<open>What \<open>json.loads\<close> makes of a text with sorted keys: the dicts in that order.\<close>

fun sort_keys :: "json \<Rightarrow> json" where
  "sort_keys (JList xs) = JList (map sort_keys xs)"
| "sort_keys (JDict kvs) = JDict (sort_key fst (map (\<lambda>(k, v). (k, sort_keys v)) kvs))"
| "sort_keys v = v"

lemma map_of_sort_key: "distinct (map fst kvs) \<Longrightarrow> map_of (sort_key fst kvs) = map_of kvs"
  by (subst map_of_inject_set) (simp_all add: distinct_map inj_on_def)

lemma map_of_map_values: "map_of (map (\<lambda>p. (fst p, f (snd p))) kvs) k = map_option f (map_of kvs k)"
  by (induction kvs) auto

definition sorted_dict :: "json_dict \<Rightarrow> json_dict" where
  "sorted_dict kvs = sort_key fst (map (\<lambda>(k, v). (k, sort_keys v)) kvs)"

lemma map_of_sorted_dict: "distinct (map fst kvs) \<Longrightarrow> map_of (sorted_dict kvs) k = map_option sort_keys (map_of kvs k)"
  unfolding sorted_dict_def
  using map_of_sort_key [of "map (\<lambda>(k, v). (k, sort_keys v)) kvs"]
  by (simp add: map_of_map_values comp_def case_prod_unfold [abs_def])

lemma sort_keys_dict: "sort_keys (JDict kvs) = JDict (sorted_dict kvs)"
  by (simp add: sorted_dict_def)

lemma text_of_sorted:
  "distinct (map fst kvs) \<Longrightarrow> map_of kvs k = Some (JStr t) \<Longrightarrow> text_of (sorted_dict kvs) k = Inr t"
  by (simp add: text_of_def map_of_sorted_dict py_str_def)

lemma int_of_field_sorted:
  "distinct (map fst kvs) \<Longrightarrow> map_of kvs k = Some (JInt i) \<Longrightarrow> int_of_field (sorted_dict kvs) k = Inr i"
  by (simp add: int_of_field_def map_of_sorted_dict)

lemma optional_text_sorted:
  "distinct (map fst kvs) \<Longrightarrow> map_of kvs k = Some (json_of_text t) \<Longrightarrow> optional_text (sorted_dict kvs) k = t"
  by (cases t) (simp_all add: optional_text_def dget_def map_of_sorted_dict json_of_text_def py_str_def)

lemma read_sorted_envelope:
  "\<exists>md. read_envelope (sorted_dict (envelope_dict e)) = Inr (e \<lparr> en_payload := sorted_dict (en_payload e), en_metadata := md \<rparr>)"
proof -
  let ?d = "envelope_dict e"
  have d: "distinct (map fst ?d)" by (simp add: envelope_dict_def)
  have p: "dict_of_field (sorted_dict ?d) ''payload'' = Inr (sorted_dict (en_payload e))"
    by (simp add: dict_of_field_def map_of_sorted_dict [OF d]) (simp add: envelope_dict_def sorted_dict_def)
  have "dget (sorted_dict ?d) ''metadata'' = JDict (sorted_dict (map (\<lambda>(k, v). (k, JStr v)) (en_metadata e)))"
    by (simp add: dget_def map_of_sorted_dict [OF d]) (simp add: envelope_dict_def sorted_dict_def)
  then have "\<exists>md. (if py_bool (dget (sorted_dict ?d) ''metadata'') then py_dict_of (dget (sorted_dict ?d) ''metadata'') else Inr [])
      = Inr md" by simp
  then obtain md where m: "(if py_bool (dget (sorted_dict ?d) ''metadata'') then py_dict_of (dget (sorted_dict ?d) ''metadata'')
      else Inr []) = Inr md" by blast
  have t: "text_of (sorted_dict ?d) ''event_id'' = Inr (en_event_id e)" "text_of (sorted_dict ?d) ''event_type'' = Inr (en_event_type e)"
    "text_of (sorted_dict ?d) ''occurred_at'' = Inr (en_occurred_at e)"
    "text_of (sorted_dict ?d) ''correlation_id'' = Inr (en_correlation_id e)"
    by (rule text_of_sorted [OF d]; simp add: envelope_dict_def)+
  have i: "int_of_field (sorted_dict ?d) ''event_version'' = Inr (en_event_version e)"
    by (rule int_of_field_sorted [OF d]) (simp add: envelope_dict_def)
  have o: "optional_text (sorted_dict ?d) ''project_id'' = en_project_id e"
    "optional_text (sorted_dict ?d) ''organization_id'' = en_organization_id e"
    by (rule optional_text_sorted [OF d]; simp add: envelope_dict_def)+
  show ?thesis
    by (rule exI [of _ "map (\<lambda>(k, v). (k, py_str v)) md"]) (simp add: read_envelope_def t i o p m)
qed

lemma read_sorted_payload:
  "read_requested_payload (sorted_dict (common_payload ai pj ri n sha @
      [(''base_sha'', JStr base), (''component_id'', json_of_text ci), (''baseline_version'', json_of_text bv)]))
   = Inr \<lparr> qp_analysis_id = ai, qp_project_id = pj, qp_repository_id = ri, qp_pull_request_number = n, qp_head_sha = sha,
           qp_base_sha = base, qp_component_id = ci, qp_baseline_version = json_of_text bv \<rparr>"
proof -
  let ?d = "common_payload ai pj ri n sha @
      [(''base_sha'', JStr base), (''component_id'', json_of_text ci), (''baseline_version'', json_of_text bv)]"
  have d: "distinct (map fst ?d)" by (simp add: common_payload_def)
  have b: "dget (sorted_dict ?d) ''baseline_version'' = json_of_text bv"
    by (simp add: dget_def map_of_sorted_dict [OF d]) (simp add: common_payload_def json_of_text_def split: option.split)
  have t: "text_of (sorted_dict ?d) ''github_pr_analysis_id'' = Inr ai" "text_of (sorted_dict ?d) ''project_id'' = Inr pj"
    "text_of (sorted_dict ?d) ''head_sha'' = Inr sha" "text_of (sorted_dict ?d) ''base_sha'' = Inr base"
    by (rule text_of_sorted [OF d]; simp add: common_payload_def)+
  have i: "int_of_field (sorted_dict ?d) ''github_repository_id'' = Inr ri"
    "int_of_field (sorted_dict ?d) ''pull_request_number'' = Inr n"
    by (rule int_of_field_sorted [OF d]; simp add: common_payload_def)+
  have o: "optional_text (sorted_dict ?d) ''component_id'' = ci"
    by (rule optional_text_sorted [OF d]) (simp add: common_payload_def)
  show ?thesis by (simp add: read_requested_payload_def t i o b)
qed

text \<open>A message asks for the analysis of a row.\<close>

definition asks_for ::
  "(string \<Rightarrow> json option) \<Rightarrow> (py_error \<Rightarrow> string) \<Rightarrow> (string \<Rightarrow> exn + uuid) \<Rightarrow> string \<Rightarrow> pr_analysis \<Rightarrow> bool" where
  "asks_for loads explain resolve raw a \<longleftrightarrow>
     (case deserialize_envelope loads explain raw of
        Inl _ \<Rightarrow> False
      | Inr e \<Rightarrow>
          en_event_type e = analysis_requested \<and> validate_event_version e = Inr ()
          \<and> (case parse_analysis_requested_payload explain e of
               Inl _ \<Rightarrow> False
             | Inr p \<Rightarrow> resolve (qp_project_id p) = Inr (ga_project_id a) \<and> resolve (qp_analysis_id p) = Inr (ga_id a)
                        \<and> qp_head_sha p = ga_head_sha a))"

lemma built_event_asks:
  assumes "request_event stamp a m correlation_id = Inr e"
    and "loads (serialize_envelope e) = Some (sort_keys (JDict (envelope_dict e)))"
    and "resolve (uuid_str (ga_id a)) = Inr (ga_id a)" "resolve (uuid_str (ga_project_id a)) = Inr (ga_project_id a)"
  shows "asks_for loads explain resolve (serialize_envelope e) a"
proof -
  obtain md where r: "read_envelope (sorted_dict (envelope_dict e))
      = Inr (e \<lparr> en_payload := sorted_dict (en_payload e), en_metadata := md \<rparr>)"
    using read_sorted_envelope by blast
  have e: "en_event_type e = analysis_requested" "en_event_version e = 1"
    using assms(1) by (auto simp: request_event_def build_analysis_requested_event_def build_analysis_event_def
        build_envelope_def supported_event_versions_def)
  obtain ci bv where p: "en_payload e = common_payload (uuid_str (ga_id a)) (uuid_str (ga_project_id a)) (ga_repository_id a)
      (ga_pull_request_number a) (ga_head_sha a) @ [(''base_sha'', JStr (ga_base_sha a)), (''component_id'', json_of_text ci),
      (''baseline_version'', json_of_text bv)]"
    using assms(1) by (auto simp: request_event_def build_analysis_requested_event_def build_analysis_event_def
        build_envelope_def supported_event_versions_def)
  show ?thesis
    using e by (simp add: asks_for_def deserialize_envelope_def assms(2-4) sort_keys_dict r validate_event_version_def
        supported_event_versions_def parse_analysis_requested_payload_def p read_sorted_payload
        del: sort_keys.simps)
qed

text \<open>
  C22: the event the webhook sends for an analysis, serialized with sorted keys and read back from the message, passes
  every check of the worker and asks for exactly that analysis at exactly its commit.
\<close>

theorem announced_is_run:
  assumes "request_event stamp a m correlation_id = Inr e"
    and "loads (serialize_envelope e) = Some (sort_keys (JDict (envelope_dict e)))"
    and "resolve (uuid_str (ga_id a)) = Inr (ga_id a)" "resolve (uuid_str (ga_project_id a)) = Inr (ga_project_id a)"
  shows "asks_for loads explain resolve (serialize_envelope e) a"
  using assms by (rule built_event_asks)

definition sample_event :: envelope where
  "sample_event = (case request_event (''e'', ''now'') sample_analysis (Some sample_mapping) ''d1'' of Inr e \<Rightarrow> e)"

definition sample_loads :: "string \<Rightarrow> json option" where
  "sample_loads t = (if t = serialize_envelope sample_event then Some (sort_keys (JDict (envelope_dict sample_event))) else None)"

text \<open>The driver reads the text of an id.\<close>

definition sample_resolve :: "string \<Rightarrow> exn + uuid" where
  "sample_resolve t = lift_py (uuid_of_str t)"

lemma sample_event_built: "request_event (''e'', ''now'') sample_analysis (Some sample_mapping) ''d1'' = Inr sample_event"
  by (simp add: sample_event_def request_event_def build_analysis_requested_event_def build_analysis_event_def
      build_envelope_def supported_event_versions_def)

lemma sample_ids: "ga_id sample_analysis = 60" "ga_project_id sample_analysis = 2"
  by (simp_all add: sample_analysis_def new_analysis_def sample_mapping_def)

lemma sample_resolves: "u < 2 ^ 128 \<Longrightarrow> sample_resolve (uuid_str u) = Inr u"
  by (simp add: sample_resolve_def uuid_of_str_uuid_str)

theorem announced_is_run_witness:
  "asks_for sample_loads (\<lambda>_. []) sample_resolve (serialize_envelope sample_event) sample_analysis"
  by (rule announced_is_run [OF sample_event_built])
    (simp_all only: sample_loads_def sample_ids sample_resolves if_True, simp_all add: sample_resolves)

section \<open>No message is tried twice\<close>

definition unavailable :: "exn \<Rightarrow> bool" where
  "unavailable e \<longleftrightarrow> (\<exists>t. e = Dom (GitHubError (GitHubAPIUnavailable t)))"

lemma unavailable_simps [simp]:
  "\<not> unavailable (Py x)" "\<not> unavailable IntegrityError" "\<not> unavailable MultipleResultsFound"
  "\<not> unavailable (Dom (NotFoundError n))" "\<not> unavailable (Dom (UnsupportedCompatibilityType ct))"
  "\<not> unavailable (Dom RiskAssessmentInputRequired)" "\<not> unavailable (not_mapped i)"
  "\<not> unavailable (Dom (GitHubError (MissingAgentABIConfiguration t)))"
  "\<not> unavailable (Dom (GitHubError (GitHubAnalysisHeadShaMismatch j v w)))"
  by (simp_all add: unavailable_def not_mapped_def)

lemma not_orchestratable: "\<not> orchestratable e \<Longrightarrow> \<not> unavailable e"
  by (auto simp: unavailable_def)

text \<open>An operation that never raises the error that is worth a retry.\<close>

definition quiet :: "'a session \<Rightarrow> bool" where
  "quiet m \<longleftrightarrow> (\<forall>s. wp m (\<lambda>_ _. True) (\<lambda>e _. \<not> unavailable e) s)"

named_theorems quiet_intros

lemma quiet_basic [quiet_intros]:
  "quiet (sreturn x)" "\<not> unavailable e \<Longrightarrow> quiet (sraise e)" "quiet (sread f)" "quiet (swrite g)" "quiet scommit"
  "quiet (concurrently others)" "quiet (fetch_one table P)" "quiet (flush_row table clash linked put row)" "quiet (audit ev)"
  "quiet (save upd a)" "\<not> unavailable e \<Longrightarrow> quiet (sguard b e)"
  by (auto simp: quiet_def wp_simps split: sum.split)
    (auto simp: one_or_none_Inl)

lemma quiet_at: "quiet m \<Longrightarrow> wp m (\<lambda>_ _. True) (\<lambda>e _. \<not> unavailable e) s"
  by (simp add: quiet_def)

lemma quiet_sbind [quiet_intros]:
  assumes "quiet m" "\<And>x. quiet (f x)"
  shows "quiet (sbind m f)"
proof -
  have "wp (sbind m f) (\<lambda>_ _. True) (\<lambda>e _. \<not> unavailable e) s" for s
    unfolding wp_sbind by (rule wp_mono [OF quiet_at [OF assms(1)]]) (simp_all add: quiet_at [OF assms(2)])
  then show ?thesis by (simp add: quiet_def)
qed

lemma quiet_sthen [quiet_intros]: "quiet m \<Longrightarrow> quiet n \<Longrightarrow> quiet (sthen m n)"
  by (simp add: sthen_def quiet_sbind)

lemma quiet_srequire [quiet_intros]: "\<not> unavailable e \<Longrightarrow> quiet m \<Longrightarrow> quiet (srequire e m)"
  unfolding srequire_def by (intro quiet_sbind) (auto split: option.split intro: quiet_intros)

lemma quiet_scatch:
  assumes "\<And>e. \<not> unavailable e \<Longrightarrow> quiet (h e)" "quiet m"
  shows "quiet (scatch m h)"
proof -
  have "wp (scatch m h) (\<lambda>_ _. True) (\<lambda>e _. \<not> unavailable e) s" for s
    unfolding wp_scatch_all by (rule wp_mono [OF quiet_at [OF assms(2)]]) (simp_all add: quiet_at [OF assms(1)])
  then show ?thesis by (simp add: quiet_def)
qed

lemma quiet_queries [quiet_intros]:
  "quiet (require_project p)" "quiet (get_component p i)" "quiet (get_latest_component_version p i)"
  "quiet (mapped_component m)" "quiet (get_analysis p i)" "quiet (mapping_by_repository r)"
  "quiet (get_row table key k)" "quiet (stored_evidence a)"
  by (auto simp: require_project_def project_by_id_def get_component_def component_by_id_def get_latest_component_version_def
      latest_version_def mapped_component_def get_analysis_def analysis_by_id_def mapping_by_repository_def get_row_def
      stored_evidence_def split: option.split intro!: quiet_intros)

lemma quiet_missing: "\<not> unavailable e \<Longrightarrow> quiet (case e of
    Dom (NotFoundError (ComponentVersionNotFound _ _)) \<Rightarrow> sraise (github_exn (MissingAgentABIConfiguration detail))
  | _ \<Rightarrow> sraise e)"
  by (auto split: exn.split agentabi_error.split not_found_error.split intro: quiet_intros)

lemma quiet_baseline [quiet_intros]: "quiet (baseline_of m c)"
  by (auto simp: baseline_of_def on_missing_version_def split: option.split list.split
      intro!: quiet_intros quiet_scatch quiet_missing)

lemma quiet_assessment [quiet_intros]: "quiet (run_assessment sha256 None others p scan report i)"
proof -
  have "quiet (slift (compute_blast_radius None p scan))" for p scan
    by (cases scan) (simp_all add: compute_blast_radius_def quiet_def wp_simps)
  then show ?thesis
    by (auto simp: run_assessment_def assessment_by_key_def load_scan_def load_report_def scan_by_id_def report_by_id_def
        assessment_organization_def store_assessment_def Let_def split: option.split intro!: quiet_intros)
qed

lemma quiet_publish [quiet_intros]: "quiet (publish_result client m a scan y)"
proof -
  have "quiet (slift (risk_decision_of v))" for v
    by (auto simp: quiet_def wp_simps risk_decision_of_def split: option.split)
  then show ?thesis
    by (auto simp: publish_result_def split: sum.split intro!: quiet_intros dest: not_orchestratable)
qed

lemma quiet_in_progress [quiet_intros]: "quiet (publish_in_progress client m a)"
  by (auto simp: publish_in_progress_def split: sum.split intro!: quiet_intros dest: not_orchestratable)

lemma quiet_complete [quiet_intros]: "quiet (complete_analysis client m a scan y)"
  unfolding complete_analysis_def by (intro quiet_intros)

text \<open>Only the comparison of two versions is different: it is quiet on a registry whose contents were checked.\<close>

definition registry_checked :: "txn \<Rightarrow> bool" where
  "registry_checked s \<longleftrightarrow> registry_ok (tx_current s) \<and> schemas_ok (tx_current s)"

lemma registry_checked_update [simp]:
  "registry_checked (s \<lparr> tx_current := update_analysis i f (tx_current s) \<rparr>) \<longleftrightarrow> registry_checked s"
  "registry_checked (s \<lparr> tx_committed := d \<rparr>) \<longleftrightarrow> registry_checked s"
  by (simp_all add: registry_checked_def registry_ok_def schemas_ok_def update_analysis_def version_linked_def stored_content_ok_def)

lemma scan_quiet:
  assumes "registry_checked s"
  shows "wp (run_scan i p c v w) (\<lambda>_ _. True) (\<lambda>e _. \<not> unavailable e) s"
  by (rule wp_mono [OF run_scan_wp]) (use assms in \<open>auto simp: registry_checked_def scan_refusal_def\<close>)

lemma wp_quiet_readonly:
  assumes "quiet m" "readonly m" "\<And>x. wp (f x) (\<lambda>_ _. True) (\<lambda>e _. \<not> unavailable e) s"
  shows "wp (sbind m f) (\<lambda>_ _. True) (\<lambda>e _. \<not> unavailable e) s"
proof -
  have "wp m (\<lambda>x t. t = s) (\<lambda>e _. \<not> unavailable e) s"
    using quiet_at [OF assms(1), of s] assms(2) readonly_state [OF assms(2), of s]
    by (cases "m s") (auto simp: wp_def split: sum.splits)
  then show ?thesis unfolding wp_sbind by (rule wp_mono) (use assms(3) in auto)
qed

lemma compatibility_quiet:
  assumes "registry_checked s"
  shows "wp (run_compatibility i m sha) (\<lambda>_ _. True) (\<lambda>e _. \<not> unavailable e) s"
  unfolding run_compatibility_def
proof (intro wp_quiet_readonly quiet_intros readonly_intros)
  fix c v
  show "wp (on_missing_version (run_scan i (gm_project_id m) c v sha) (no_candidate_registered c sha))
     (\<lambda>_ _. True) (\<lambda>e _. \<not> unavailable e) s"
    unfolding on_missing_version_def wp_scatch_all
    by (rule wp_mono [OF scan_quiet [OF assms]]) (auto intro: quiet_at quiet_missing)
qed

lemma run_pipeline_quiet:
  assumes "registry_checked s"
  shows "wp (run_pipeline sha256 client others j k m a) (\<lambda>_ _. True) (\<lambda>e _. \<not> unavailable e) s"
proof -
  have progress: "wp (publish_in_progress client m b) (\<lambda>_ t. registry_checked t) (\<lambda>e _. \<not> unavailable e) u"
    if "registry_checked u" for b u
    using that by (auto simp: publish_in_progress_def wp_simps split: sum.split dest: not_orchestratable)
  have gather: "wp (gather_evidence sha256 others j k m sha) (\<lambda>_ _. True) (\<lambda>e _. \<not> unavailable e) u"
    if "registry_checked u" for sha u
    unfolding gather_evidence_def wp_sbind
    by (rule wp_mono [OF compatibility_quiet [OF that]]) (auto intro!: quiet_at [OF quiet_assessment, THEN wp_mono] simp: wp_basic)
  have fail: "wp (fail_analysis b e) Q (\<lambda>e _. \<not> unavailable e) u" if "\<not> unavailable e"
    for b e u and Q :: "compatibility_scan \<times> assessment_row \<Rightarrow> txn \<Rightarrow> bool"
    using that by (simp add: fail_analysis_def wp_simps)
  show ?thesis
    unfolding run_pipeline_def wp_sbind wp_save wp_sthen wp_basic wp_scatch_all
  proof (rule wp_mono [OF progress], goal_cases)
    case (2 b t)
    show ?case
      by (rule wp_mono [OF gather [OF 2]]) (auto intro: quiet_at quiet_complete fail split: prod.split)
  qed (use assms in auto)
qed

lemma run_pr_analysis_quiet:
  assumes "registry_checked s"
  shows "wp (run_pr_analysis sha256 client others j k p i sha) (\<lambda>_ _. True) (\<lambda>e _. \<not> unavailable e) s"
proof -
  have rest: "wp (case ev of Some (scan, y) \<Rightarrow> publish_result client m a scan y
       | None \<Rightarrow> run_pipeline sha256 client others j k m a) (\<lambda>_ _. True) (\<lambda>e _. \<not> unavailable e) s" for ev m a
    using run_pipeline_quiet [OF assms] quiet_at [OF quiet_publish] by (cases ev) auto
  have "wp (sbind (srequire (not_mapped (ga_repository_id a)) (mapping_by_repository (ga_repository_id a))) (\<lambda>m.
       sbind (stored_evidence a) (\<lambda>ev. case ev of Some (scan, y) \<Rightarrow> publish_result client m a scan y
         | None \<Rightarrow> run_pipeline sha256 client others j k m a))) (\<lambda>_ _. True) (\<lambda>e _. \<not> unavailable e) s" for a
    by (intro wp_quiet_readonly quiet_intros readonly_intros rest) simp
  then show ?thesis
    unfolding run_pr_analysis_def by (intro wp_quiet_readonly quiet_intros readonly_intros) (simp add: wp_basic)
qed

text \<open>What the handler classifies is never worth a retry.\<close>

definition settled :: "event_error option \<times> envelope list \<Rightarrow> bool" where
  "settled r \<longleftrightarrow> (\<forall>t. fst r \<noteq> Some (TransientEventProcessing t))"

lemma settled_simps [simp]: "settled (None, sent)" "settled (Some (PermanentEventProcessing t), sent)"
  by (simp_all add: settled_def)

text \<open>The driver's own failures are no failures of GitHub.\<close>

definition driver_quiet :: "(string \<Rightarrow> exn + uuid) \<Rightarrow> bool" where
  "driver_quiet resolve \<longleftrightarrow> (\<forall>t e. resolve t = Inl e \<longrightarrow> \<not> unavailable e)"

lemma wp_attempt: "wp (attempt m) Q E s \<longleftrightarrow> wp m (\<lambda>x t. Q (Inr x) t) (\<lambda>e t. Q (Inl e) t) s"
  by (auto simp: wp_def attempt_def split: prod.splits sum.splits)

lemma announce_settled:
  "settled (outcome, []) \<Longrightarrow> wp (announce publisher event outcome) (\<lambda>r _. settled r) (\<lambda>_ _. True) s"
  by (auto simp: announce_def wp_simps settled_def split: option.split sum.split event_error.split)

lemma completed_settled: "wp (publish_completed publisher stamp p a og) (\<lambda>r _. settled r) (\<lambda>_ _. True) s"
  unfolding publish_completed_def
  by (auto simp: wp_simps settled_def intro!: wp_sbind_readonly [unfolded wp_sbind] readonly_intros announce_settled [unfolded settled_def])

lemma refused_settled:
  assumes "\<not> unavailable e"
  shows "wp (refused publisher stamp p og e) (\<lambda>r _. settled r) (\<lambda>_ _. True) s"
proof -
  have f: "wp (publish_failure publisher stamp p og category (Some (PermanentEventProcessing t))) (\<lambda>r _. settled r) (\<lambda>_ _. True) s"
    for category t
    unfolding publish_failure_def by (rule announce_settled) (simp add: settled_def)
  show ?thesis
    using assms f
    by (auto simp: refused_def Let_def wp_simps settled_def unavailable_def
        split: exn.split agentabi_error.split not_found_error.split github_error.split)
qed

lemma handle_event_settled:
  assumes "registry_checked s" "driver_quiet resolve"
  shows "wp (handle_event (run_pr_analysis sha256 client others j k) resolve explain publisher stamp ev)
    (\<lambda>r _. settled r) (\<lambda>_ _. True) s"
proof -
  have run: "wp (sbind (slift (resolve x)) (\<lambda>pid. sbind (slift (resolve y)) (\<lambda>aid.
      run_pr_analysis sha256 client others j k pid aid sha))) (\<lambda>_ _. True) (\<lambda>e _. \<not> unavailable e) s" for x y sha
    using assms(2) run_pr_analysis_quiet [OF assms(1)] by (auto simp: wp_simps driver_quiet_def split: sum.split)
  have req: "wp (handle_requested (run_pr_analysis sha256 client others j k) resolve publisher stamp p og)
      (\<lambda>r _. settled r) (\<lambda>_ _. True) s" for p og
    unfolding handle_requested_def
    by (subst wp_sbind, subst wp_attempt, rule wp_mono [OF run]) (auto intro: refused_settled completed_settled simp: wp_basic)
  have early: "settled (Some f, [])"
    if "rbind (validate_event_version ev) (\<lambda>_. parse_analysis_requested_payload explain ev) = Inl f" for f
    using that by (auto simp: settled_def rbind_eq_Inl_iff validate_event_version_def parse_analysis_requested_payload_def
        rguard_def split: option.splits sum.splits if_splits)
  show ?thesis
    unfolding handle_event_def using req early by (auto simp: wp_basic split: sum.split)
qed

lemma worker_settled:
  assumes "registry_checked (begin_txn (wo_db w))" "driver_quiet resolve"
  shows "fst (handle (worker (run_pr_analysis sha256 client others j k) resolve explain publisher stamp dlq) ev w)
    \<noteq> Inl (Ev (TransientEventProcessing t))"
  using handle_event_settled [OF assms, of sha256 client others j k explain publisher stamp ev]
  by (auto simp: worker_def session_scoped_def wp_def settled_def split: prod.splits sum.splits option.splits)

text \<open>
  The consumer's retries are never used: on a registry whose contents were checked, no outcome of an analysis
  reaches the consumer as transient, since a GitHub that cannot be reached is recorded by the analysis itself, and the
  handler is called once per message at most, whatever the client and the broker do.
\<close>

theorem tried_once:
  assumes "registry_checked (begin_txn (wo_db w))" "driver_quiet resolve"
  shows "\<exists>r n m w'. process_one loads explain
      (counted (worker (run_pr_analysis sha256 client others j k) resolve explain publisher stamp dlq)) raw (0, 0, w)
        = (r, (n, m, w')) \<and> n \<le> 1"
proof (cases "deserialize_envelope loads explain raw")
  case (Inl f)
  then show ?thesis by (simp add: process_one_def give_up_counted)
next
  case (Inr e)
  let ?c = "worker (run_pr_analysis sha256 client others j k) resolve explain publisher stamp dlq"
  have "fst (handle_and_commit (counted ?c) e (0, 0, w)) = fst (handle ?c e w)"
    by (simp add: handle_and_commit_counted handle_and_commit_ok [OF worker_commits])
  moreover have "\<exists>m w'. snd (handle_and_commit (counted ?c) e (0, 0, w)) = (1, m, w')"
    by (simp add: handle_and_commit_counted)
  ultimately obtain m w' where h: "handle_and_commit (counted ?c) e (0, 0, w) = (fst (handle ?c e w), (1, m, w'))"
    by (metis prod.collapse)
  show ?thesis
  proof (cases "fst (handle ?c e w)")
    case ok: (Inr u)
    then show ?thesis
      unfolding process_one_def Inr sum.case by (subst dispatch_with_retry.simps) (simp add: h)
  next
    case (Inl f)
    then have "f \<noteq> Ev (TransientEventProcessing t)" for t
      using worker_settled [OF assms, of sha256 client others j k explain publisher stamp dlq e t] by auto
    then show ?thesis
      unfolding process_one_def \<open>deserialize_envelope loads explain raw = Inr e\<close> sum.case
      by (subst dispatch_with_retry.simps)
        (auto simp: h Inl give_up_counted split: failure.split event_error.split)
  qed
qed

definition sample_world :: world where
  "sample_world = \<lparr> wo_db = mapped_db, wo_sent = [], wo_committed = 0 \<rparr>"

lemma mapped_registry: "registry_ok mapped_db" "schemas_ok mapped_db"
  using sample_registered_last by (simp_all add: candidate_registered_last_def)

lemma sample_driver: "driver_quiet sample_resolve"
  by (auto simp: driver_quiet_def sample_resolve_def lift_py_def split: sum.splits)

theorem tried_once_witness:
  "\<exists>r n m w'. process_one sample_loads (\<lambda>_. [])
      (counted (worker (run_pr_analysis id failing_client (\<lambda>d. d) 62 63) sample_resolve (\<lambda>_. []) None (''e'', ''t'') None))
      (serialize_envelope sample_event) (0, 0, sample_world) = (r, (n, m, w')) \<and> n \<le> 1"
  by (rule tried_once) (simp_all add: registry_checked_def sample_world_def mapped_registry sample_driver)

section \<open>An unknown exception stops the worker\<close>

lemma run_to_failure:
  assumes row: "no_clash analysis_clash (db_analyses d)" "a \<in> set (db_analyses d)" "ga_status a = PA_PENDING"
    and m: "filter (\<lambda>m. gm_repository_id m = ga_repository_id a) (db_mappings d) = [m]"
    and silent: "create_check_run client (check_request m (a \<lparr> ga_status := PA_IN_PROGRESS \<rparr>) CK_IN_PROGRESS
        (build_in_progress_output None) None) = Inl e0" "orchestratable e0"
    and failed: "gather_evidence sha256 others j k m (ga_head_sha a) (begin_txn (marked a d)) = (Inl e, t)" "e \<noteq> IntegrityError"
  shows "run_pr_analysis sha256 client others j k (ga_project_id a) (ga_id a) (ga_head_sha a) (begin_txn d)
    = (Inl e, begin_txn (update_analysis (ga_id a) (\<lambda>a. a \<lparr> ga_status := PA_FAILED \<rparr>) (tx_current t)))"
proof -
  have a: "get_analysis (ga_project_id a) (ga_id a) (begin_txn d) = (Inr a, begin_txn d)"
    by (rule get_analysis_known) (use row in simp_all)
  have mp: "mapping_by_repository (ga_repository_id a) (begin_txn d) = (Inr (Some m), begin_txn d)"
    using m by (simp add: mapping_by_repository_def fetch_one_def)
  have f: "fail_analysis b e t = (Inl e, begin_txn (update_analysis (ga_id b) (\<lambda>a. a \<lparr> ga_status := PA_FAILED \<rparr>) (tx_current t)))"
    for b using failed(2) by (cases t) (simp add: fail_analysis_def sthen_def sbind_def save_run session_basic begin_txn_def)
  have "run_pipeline sha256 client others j k m a (begin_txn d)
      = (Inl e, begin_txn (update_analysis (ga_id a) (\<lambda>a. a \<lparr> ga_status := PA_FAILED \<rparr>) (tx_current t)))"
    unfolding run_pipeline_def
    by (simp add: sbind_def save_run sthen_def session_basic publish_in_progress_def silent scatch_def
        marked_def [symmetric] begin_txn_def [symmetric] failed(1) f)
      (simp add: begin_txn_def marked_def [symmetric] failed(1) [unfolded begin_txn_def] f)
  then show ?thesis
    using row(3) by (simp add: run_pr_analysis_def sbind_def a mp srequire_def session_basic terminal_analysis_def
        stored_evidence_def)
qed

text \<open>The exceptions the handler classifies.\<close>

definition classified :: "exn \<Rightarrow> bool" where
  "classified e \<longleftrightarrow>
     (case e of
        Dom (GitHubError x) \<Rightarrow> (\<forall>t. x \<noteq> InvalidGitHubPullRequestPayload t \<and> x \<noteq> InvalidAgentABIConfiguration t)
      | Dom (NotFoundError (GitHubPullRequestAnalysisNotFound _)) \<Rightarrow> True
      | Dom (NotFoundError (GitHubRepositoryNotMapped _)) \<Rightarrow> True
      | _ \<Rightarrow> False)"

lemma refused_unclassified: "\<not> classified e \<Longrightarrow> refused publisher stamp p og e = sraise e"
  by (auto simp: refused_def Let_def classified_def split: exn.splits agentabi_error.splits not_found_error.splits github_error.splits)

text \<open>
  If the evidence cannot be gathered for a reason the handler does not know, say because the mapped component was
  deleted, lies in another project, or is a provider, the exception leaves the consumer: the worker stops at this
  message, commits nothing, and every message behind it waits, while the analysis is marked as failed and no event
  announces it.
\<close>

theorem unknown_failure_stops_worker:
  assumes "no_clash analysis_clash (db_analyses (wo_db w))" "a \<in> set (db_analyses (wo_db w))" "ga_status a = PA_PENDING"
    and "filter (\<lambda>m. gm_repository_id m = ga_repository_id a) (db_mappings (wo_db w)) = [m]"
    and "\<And>r. create_check_run client r = Inl e0" "orchestratable e0"
    and "gather_evidence sha256 (\<lambda>d. d) j k m (ga_head_sha a) (begin_txn (marked a (wo_db w))) = (Inl e, t)"
    and "e \<noteq> IntegrityError" "\<not> classified e"
    and "asks_for loads explain resolve raw a"
  shows "\<exists>w'. run_forever loads explain
      (worker (run_pr_analysis sha256 client (\<lambda>d. d) j k) resolve explain publisher stamp dlq) (raw # raws) w
        = ((Some (Other e), raw # raws), w')
    \<and> wo_committed w' = wo_committed w \<and> wo_sent w' = wo_sent w
    \<and> wo_db w' = update_analysis (ga_id a) (\<lambda>a. a \<lparr> ga_status := PA_FAILED \<rparr>) (tx_current t)"
proof -
  let ?p = "run_pr_analysis sha256 client (\<lambda>d. d) j k"
  let ?d = "update_analysis (ga_id a) (\<lambda>a. a \<lparr> ga_status := PA_FAILED \<rparr>) (tx_current t)"
  have run: "?p (ga_project_id a) (ga_id a) (ga_head_sha a) (begin_txn (wo_db w)) = (Inl e, begin_txn ?d)"
    by (rule run_to_failure [OF assms(1-4) assms(5,6,7,8)])
  obtain ev p where ev: "deserialize_envelope loads explain raw = Inr ev" "en_event_type ev = analysis_requested"
    "validate_event_version ev = Inr ()" "parse_analysis_requested_payload explain ev = Inr p"
    "resolve (qp_project_id p) = Inr (ga_project_id a)" "resolve (qp_analysis_id p) = Inr (ga_id a)" "qp_head_sha p = ga_head_sha a"
    using assms(10) by (auto simp: asks_for_def split: sum.splits)
  have "handle_event ?p resolve explain publisher stamp ev (begin_txn (wo_db w)) = (Inl e, begin_txn ?d)"
    by (simp add: handle_event_def ev rbind_def handle_requested_def sbind_def attempt_def session_basic run
        refused_unclassified [OF assms(9)])
  then have h: "handle_and_commit (worker ?p resolve explain publisher stamp dlq) ev w = (Inl (Other e), w \<lparr> wo_db := ?d \<rparr>)"
    by (simp add: handle_and_commit_def worker_def session_scoped_def)
  then have "dispatch_with_retry (worker ?p resolve explain publisher stamp dlq) raw ev 0 w = (Inl (Other e), w \<lparr> wo_db := ?d \<rparr>)"
    by (subst dispatch_with_retry.simps) simp
  then show ?thesis by (simp add: process_one_def ev(1))
qed

text \<open>The sample project after its component was deleted: the mapping has lost it.\<close>

definition orphaned_mapping :: repository_mapping where
  "orphaned_mapping = sample_mapping \<lparr> gm_component_id := None \<rparr>"

definition orphaned_world :: world where
  "orphaned_world = \<lparr> wo_db = mapped_db \<lparr> db_mappings := [orphaned_mapping] \<rparr>, wo_sent = [], wo_committed = 0 \<rparr>"

theorem unknown_failure_stops_worker_witness:
  "\<exists>w' (t :: txn). run_forever sample_loads (\<lambda>_. []) (worker (run_pr_analysis id failing_client (\<lambda>d. d) 62 63) sample_resolve (\<lambda>_. [])
       None (''e'', ''t'') None) [serialize_envelope sample_event, ''next''] orphaned_world
        = ((Some (Other (Dom (NotFoundError (ComponentNotFound 0)))), [serialize_envelope sample_event, ''next'']), w')
    \<and> wo_committed w' = wo_committed orphaned_world \<and> wo_sent w' = wo_sent orphaned_world
    \<and> wo_db w' = update_analysis (ga_id sample_analysis) (\<lambda>a. a \<lparr> ga_status := PA_FAILED \<rparr>) (tx_current t)"
proof -
  let ?d = "marked sample_analysis (wo_db orphaned_world)"
  have p: "db_projects ?d = db_projects sample_db"
    by (simp add: marked_def update_analysis_def orphaned_world_def)
  have m: "gm_component_id orphaned_mapping = None" "gm_project_id orphaned_mapping = 2" "gm_repository_id orphaned_mapping = 7"
    by (simp_all add: orphaned_mapping_def sample_mapping_def)
  have ev: "gather_evidence id (\<lambda>d. d) 62 63 orphaned_mapping (ga_head_sha sample_analysis) (begin_txn ?d)
      = (Inl (Dom (NotFoundError (ComponentNotFound 0))), begin_txn ?d)"
    by (simp add: gather_evidence_def run_compatibility_def mapped_component_def m sbind_def sthen_def session_basic
        require_project_def project_by_id_def srequire_def fetch_one_def p)
  have asks: "asks_for sample_loads (\<lambda>_. []) sample_resolve (serialize_envelope sample_event) sample_analysis"
    by (rule built_event_asks [OF sample_event_built])
      (simp_all only: sample_loads_def sample_ids sample_resolves if_True, simp_all add: sample_resolves)
  have w: "wo_db orphaned_world = mapped_db \<lparr> db_mappings := [orphaned_mapping] \<rparr>" by (simp add: orphaned_world_def)
  have a: "ga_repository_id sample_analysis = 7" "ga_status sample_analysis = PA_PENDING"
    by (simp_all add: sample_analysis_def new_analysis_def sample_pull_request_def)
  have "\<exists>w'. run_forever sample_loads (\<lambda>_. []) (worker (run_pr_analysis id failing_client (\<lambda>d. d) 62 63) sample_resolve (\<lambda>_. [])
       None (''e'', ''t'') None) [serialize_envelope sample_event, ''next''] orphaned_world
        = ((Some (Other (Dom (NotFoundError (ComponentNotFound 0)))), [serialize_envelope sample_event, ''next'']), w')
    \<and> wo_committed w' = wo_committed orphaned_world \<and> wo_sent w' = wo_sent orphaned_world
    \<and> wo_db w' = update_analysis (ga_id sample_analysis) (\<lambda>a. a \<lparr> ga_status := PA_FAILED \<rparr>) (tx_current (begin_txn ?d))"
    by (rule unknown_failure_stops_worker [where ?e0.0 = "Dom (GitHubError (GitHubAPIUnavailable ''down''))", OF _ _ a(2) _ _ _ ev _ _ asks])
      (simp_all add: w a m failing_client_def classified_def)
  then show ?thesis by blast
qed

end
