(* ===== verification/Webhook_Route.thy ===== *)
theory Webhook_Route
  imports Kafka_Handler Webhook_Service
begin

text \<open>
  The webhook endpoint (\<open>app/api/v1/github_webhook.py\<close>): a delivery is processed, and an accepted announcement of a
  pull request is analysed at once or, with a broker, queued; whatever goes wrong then is logged. Proved here: the
  answer does not depend on the analysis, and a delivery that is not accepted starts none.
\<close>

record route_settings =
  ws_secret :: "string option"
  ws_kafka_enabled :: bool
  ws_request_topic :: string

text \<open>What the endpoint is given besides: the digests, the JSON parser, the client, the publisher and fresh values.\<close>

record route_env =
  we_hmac :: "string \<Rightarrow> string \<Rightarrow> string"
  we_sha256 :: "string \<Rightarrow> string"
  we_loads :: "string \<Rightarrow> json option"
  we_explain :: "py_error \<Rightarrow> string"
  we_client :: checks_client
  we_publisher :: publisher
  we_stamp :: "string \<times> string"
  we_ids :: "uuid \<times> uuid \<times> uuid"
  we_others :: "db \<Rightarrow> db"

definition swallow :: "'a session \<Rightarrow> unit session" where
  "swallow m = (\<lambda>s. (Inr (), snd (m s)))"

definition dispatch_pr_analysis ::
  "route_env \<Rightarrow> route_settings \<Rightarrow> string \<Rightarrow> string \<Rightarrow> string option \<Rightarrow> unit session" where
  "dispatch_pr_analysis env settings raw_body delivery_id request_id =
     (case parse_pull_request_event (we_loads env) (we_explain env) raw_body of
        Inl e \<Rightarrow> sreturn ()
      | Inr None \<Rightarrow> sreturn ()
      | Inr (Some p) \<Rightarrow>
          (case we_ids env of (i, j, k) \<Rightarrow>
             if ws_kafka_enabled settings
             then swallow (enqueue_analysis (we_others env) (we_publisher env) (we_stamp env) (ws_request_topic settings) i p
                    delivery_id request_id)
             else swallow (analyze_pull_request (we_sha256 env) (we_client env) (we_others env) i j k p delivery_id request_id)))"

definition github_webhook ::
  "route_env \<Rightarrow> route_settings \<Rightarrow> string \<Rightarrow> string option \<Rightarrow> string option \<Rightarrow> string option \<Rightarrow> string option \<Rightarrow>
   process_result session" where
  "github_webhook env settings raw_body signature delivery_id event_type request_id =
     sbind (webhook_process (we_hmac env) (we_sha256 env) (ws_secret settings) (we_others env) raw_body signature delivery_id
              event_type request_id) (\<lambda>result.
     if wr_status result = WH_ACCEPTED \<and> wr_event_type result = ''pull_request''
     then sthen (dispatch_pr_analysis env settings raw_body (wr_delivery_id result) request_id) (sreturn result)
     else sreturn result)"

lemma dispatch_returns: "\<exists>t. dispatch_pr_analysis env settings raw i q s = (Inr (), t)"
  by (auto simp: dispatch_pr_analysis_def swallow_def session_basic split: sum.split option.split prod.split)

lemma answer_independent:
  "fst (request (github_webhook env settings raw h i ev q) d)
     = fst (request (webhook_process (we_hmac env) (we_sha256 env) (ws_secret settings) (we_others env) raw h i ev q) d)"
proof (cases "webhook_process (we_hmac env) (we_sha256 env) (ws_secret settings) (we_others env) raw h i ev q (begin_txn d)")
  case (Pair r t)
  show ?thesis
  proof (cases r)
    case (Inl e)
    then show ?thesis using Pair by (simp add: request_def github_webhook_def sbind_def)
  next
    case (Inr x)
    obtain u where "dispatch_pr_analysis env settings raw (wr_delivery_id x) q t = (Inr (), u)"
      using dispatch_returns by blast
    then show ?thesis
      using Pair Inr by (simp add: request_def github_webhook_def sbind_def sthen_def session_basic)
  qed
qed

text \<open>A delivery that is a duplicate starts nothing, whatever became of the analysis of the first one.\<close>

lemma duplicate_starts_nothing:
  assumes "webhook_process (we_hmac env) (we_sha256 env) (ws_secret settings) (we_others env) raw h i ev q (begin_txn d)
      = (Inr x, t)" "wr_status x = WH_DUPLICATE"
  shows "request (github_webhook env settings raw h i ev q) d = (Inr x, tx_current t)"
  using assms by (simp add: request_def github_webhook_def sbind_def session_basic)

end
