(* ===== verification/Base64.thy ===== *)
theory Base64
  imports Py_Text
begin

text \<open>
  \<open>base64.urlsafe_b64encode\<close> and \<open>urlsafe_b64decode\<close> of the language, as \<open>app/auth/jwt.py\<close> uses them, and
  \<open>str.split\<close> at a character. The decoder is the lenient one: it accepts both alphabets, skips what is in none of
  them and stops at a complete padding. Proved here: what was encoded is decoded, with the padding taken off and
  put on again.
\<close>

section \<open>The alphabet\<close>

definition alphabet :: string where
  "alphabet = ''ABCDEFGHIJKLMNOPQRSTUVWXYZabcdefghijklmnopqrstuvwxyz0123456789-_''"

definition b64_char :: "nat \<Rightarrow> char" where
  "b64_char n = alphabet ! n"

text \<open>The decoder translates \<open>-\<close> and \<open>_\<close> to the characters of the standard alphabet, which it takes as well.\<close>

definition b64_index :: "char \<Rightarrow> nat option" where
  "b64_index c =
     (if c = CHR ''+'' then Some 62 else if c = CHR ''/'' then Some 63
      else map_of (zip alphabet [0 ..< 64]) c)"

lemma length_alphabet: "length alphabet = 64"
  by (simp add: alphabet_def)

lemma distinct_alphabet: "distinct alphabet"
  by (simp add: alphabet_def)

lemma b64_char_in: "n < 64 \<Longrightarrow> b64_char n \<in> set alphabet"
  by (simp add: b64_char_def length_alphabet)

lemma alphabet_chars:
  "list_all (\<lambda>c. c \<notin> {CHR ''='', CHR ''.'', CHR ''+'', CHR ''/''} \<and> code c < 128) alphabet"
  by code_simp

lemma b64_char_special:
  assumes "n < 64"
  shows "b64_char n \<noteq> CHR ''='' \<and> b64_char n \<noteq> CHR ''.'' \<and> b64_char n \<noteq> CHR ''+'' \<and> b64_char n \<noteq> CHR ''/''
    \<and> code (b64_char n) < 128"
  using alphabet_chars b64_char_in [OF assms] by (auto simp: list_all_iff)

lemma b64_index_char [simp]:
  assumes "n < 64"
  shows "b64_index (b64_char n) = Some n"
proof -
  have "map_of (zip alphabet [0 ..< 64]) (alphabet ! n) = Some ([0 ..< 64] ! n)"
    using assms by (intro map_of_zip_nth) (simp_all add: length_alphabet distinct_alphabet)
  then show ?thesis using b64_char_special [OF assms] assms by (simp add: b64_index_def b64_char_def)
qed

section \<open>Encoding and decoding\<close>

fun urlsafe_b64encode :: "string \<Rightarrow> string" where
  "urlsafe_b64encode [] = []"
| "urlsafe_b64encode [a] = [b64_char (code a div 4), b64_char (code a mod 4 * 16), CHR ''='', CHR ''='']"
| "urlsafe_b64encode [a, b] =
     [b64_char (code a div 4), b64_char (code a mod 4 * 16 + code b div 16), b64_char (code b mod 16 * 4), CHR ''='']"
| "urlsafe_b64encode (a # b # c # s) =
     b64_char (code a div 4) # b64_char (code a mod 4 * 16 + code b div 16)
       # b64_char (code b mod 16 * 4 + code c div 64) # b64_char (code c mod 64) # urlsafe_b64encode s"

text \<open>
  The decoder of \<open>binascii\<close>: \<open>quad\<close> is the position in the current group of four characters, \<open>left\<close> the bits of it
  not yet in a byte, \<open>pads\<close> the padding characters seen.
\<close>

fun a2b :: "nat \<Rightarrow> nat \<Rightarrow> nat \<Rightarrow> string \<Rightarrow> py_error + string" where
  "a2b quad left pads [] = (if quad = 0 then Inr [] else Inl ValueError)"
| "a2b quad left pads (c # s) =
     (if c = CHR ''=''
      then if quad < 2 then a2b quad left pads s
           else if 4 \<le> quad + Suc pads then Inr []
           else a2b quad left (Suc pads) s
      else case b64_index c of
        None \<Rightarrow> a2b quad left pads s
      | Some d \<Rightarrow>
          if quad = 0 then a2b 1 d 0 s
          else if quad = 1 then rbind (a2b 2 (d mod 16) 0 s) (\<lambda>r. Inr (char_of (left * 4 + d div 16) # r))
          else if quad = 2 then rbind (a2b 3 (d mod 4) 0 s) (\<lambda>r. Inr (char_of (left * 16 + d div 4) # r))
          else rbind (a2b 0 0 0 s) (\<lambda>r. Inr (char_of (left * 64 + d) # r)))"

definition urlsafe_b64decode :: "string \<Rightarrow> py_error + string" where
  "urlsafe_b64decode s = (if list_ex (\<lambda>c. 128 \<le> code c) s then Inl ValueError else a2b 0 0 0 s)"

lemma a2b_error: "a2b q l p s = Inl e \<Longrightarrow> e = ValueError"
  by (induction q l p s rule: a2b.induct) (auto simp: rbind_eq_Inl_iff split: if_splits option.splits)

lemma urlsafe_b64decode_error: "urlsafe_b64decode s = Inl e \<Longrightarrow> e = ValueError"
  by (auto simp: urlsafe_b64decode_def dest: a2b_error split: if_splits)

section \<open>Round trip\<close>

lemma code_less [simp]: "code c < 256"
  unfolding code_def by (metis mod_less_divisor of_char_mod_256 zero_less_numeral)

lemma char_of_code [simp]: "char_of (code c) = c"
  by (simp add: code_def)

lemma sextets [simp]:
  "code a div 4 < 64" "code a mod 4 * 16 < 64" "code a mod 4 * 16 + code b div 16 < 64" "code b mod 16 * 4 < 64"
  "code b mod 16 * 4 + code c div 64 < 64" "code c mod 64 < 64"
  using code_less [of a] code_less [of b] code_less [of c] by linarith+

lemma a2b_step [simp]:
  assumes "d < 64"
  shows "a2b 0 l p (b64_char d # s) = a2b 1 d 0 s"
    "a2b (Suc 0) l p (b64_char d # s) = rbind (a2b 2 (d mod 16) 0 s) (\<lambda>r. Inr (char_of (l * 4 + d div 16) # r))"
    "a2b 2 l p (b64_char d # s) = rbind (a2b 3 (d mod 4) 0 s) (\<lambda>r. Inr (char_of (l * 16 + d div 4) # r))"
    "a2b 3 l p (b64_char d # s) = rbind (a2b 0 0 0 s) (\<lambda>r. Inr (char_of (l * 64 + d) # r))"
  using b64_char_special [OF assms] assms by simp_all

lemma a2b_padding [simp]: "a2b 2 l 0 ''=='' = Inr []" "a2b 3 l 0 ''='' = Inr []"
  by simp_all

lemma code_digits [simp]:
  "code a div 16 div 16 = 0" "code a div 64 div 4 = 0" "code a div 16 mod 16 = code a div 16" "code a div 64 mod 4 = code a div 64"
proof -
  have "code a div 16 < 16" "code a div 64 < 4" using code_less [of a] by linarith+
  then show "code a div 16 div 16 = 0" "code a div 64 div 4 = 0" "code a div 16 mod 16 = code a div 16"
    "code a div 64 mod 4 = code a div 64" by simp_all
qed

lemma a2b_encode: "a2b 0 0 0 (urlsafe_b64encode s) = Inr s"
  by (induction s rule: urlsafe_b64encode.induct) (simp_all del: a2b.simps(2))

text \<open>\<open>.rstrip(b"=")\<close>, and the padding the length asks for.\<close>

definition strip_padding :: "string \<Rightarrow> string" where
  "strip_padding s = rev (dropWhile (\<lambda>c. c = CHR ''='') (rev s))"

definition padding :: "string \<Rightarrow> string" where
  "padding s = replicate ((4 - length s mod 4) mod 4) (CHR ''='')"

lemma strip_padding_Cons [simp]:
  "c \<noteq> CHR ''='' \<Longrightarrow> strip_padding (c # s) = c # strip_padding s"
  by (auto simp: strip_padding_def dropWhile_append dropWhile_eq_Nil_conv)

lemma strip_pads [simp]: "strip_padding [] = []" "strip_padding ''='' = []" "strip_padding ''=='' = []"
  by (simp_all add: strip_padding_def)

lemma padding_simps:
  "padding [] = []" "padding [x, y] = ''==''" "padding [x, y, z] = ''=''" "padding (x # y # z # u # s) = padding s"
proof -
  have "Suc (Suc (Suc (Suc (length s)))) mod 4 = length s mod 4" by presburger
  then show "padding (x # y # z # u # s) = padding s" by (simp add: padding_def)
qed (simp_all add: padding_def numeral_2_eq_2)

lemma b64_char_not_pad [simp]: "n < 64 \<Longrightarrow> b64_char n \<noteq> CHR ''=''"
  using b64_char_special by blast

lemma padding_restored: "strip_padding (urlsafe_b64encode s) @ padding (strip_padding (urlsafe_b64encode s)) = urlsafe_b64encode s"
  by (induction s rule: urlsafe_b64encode.induct) (simp_all add: padding_simps)

lemma encoded_in_alphabet: "set (urlsafe_b64encode s) \<subseteq> insert (CHR ''='') (set alphabet)"
  by (induction s rule: urlsafe_b64encode.induct) (simp_all add: b64_char_in subset_insertI2)

lemma encoded_chars:
  assumes "c \<in> set (urlsafe_b64encode s)"
  shows "c \<noteq> CHR ''.'' \<and> code c < 128"
proof -
  have "code (CHR ''='') < 128" by code_simp
  moreover have "c = CHR ''='' \<or> c \<in> set alphabet" using assms encoded_in_alphabet by blast
  ultimately show ?thesis using alphabet_chars by (auto simp: list_all_iff)
qed

lemma strip_padding_chars: "c \<in> set (strip_padding s) \<Longrightarrow> c \<in> set s"
  unfolding strip_padding_def by (metis set_dropWhileD set_rev)

section \<open>\<open>str.split\<close>\<close>

fun split_at :: "char \<Rightarrow> string \<Rightarrow> string list" where
  "split_at sep [] = [[]]"
| "split_at sep (c # s) =
     (if c = sep then [] # split_at sep s
      else case split_at sep s of [] \<Rightarrow> [[c]] | t # ts \<Rightarrow> (c # t) # ts)"

lemma split_at_append [simp]: "sep \<notin> set s \<Longrightarrow> split_at sep (s @ sep # t) = s # split_at sep t"
  by (induction s) auto

lemma split_at_single [simp]: "sep \<notin> set s \<Longrightarrow> split_at sep s = [s]"
  by (induction s) auto

fun join_at :: "char \<Rightarrow> string list \<Rightarrow> string" where
  "join_at sep [] = []"
| "join_at sep [s] = s"
| "join_at sep (s # ss) = s @ sep # join_at sep ss"

lemma split_at_not_Nil [simp]: "split_at sep s \<noteq> []"
  by (induction s) (auto split: list.splits)

lemma join_split [simp]: "join_at sep (split_at sep s) = s"
proof (induction s)
  case (Cons c s)
  obtain t ts where "split_at sep s = t # ts" by (cases "split_at sep s") auto
  then show ?case using Cons.IH by (cases ts) auto
qed simp

lemma split_at_parts: "p \<in> set (split_at sep s) \<Longrightarrow> sep \<notin> set p"
  by (induction s arbitrary: p) (fastforce split: if_splits list.splits)+

end
