(* ===== verification/Py_Uuid.thy ===== *)
theory Py_Uuid
  imports Replay_Plan Py_Convert
begin

text \<open>
  \<open>uuid.UUID(text)\<close> on any text: the prefixes \<open>urn:\<close> and \<open>uuid:\<close>, braces at the ends and hyphens are taken off, 32
  characters must remain, and \<open>int(hex, 16)\<close> reads them, with what that conversion permits besides digits. Proved
  here: a printed identifier is read back.
\<close>

section \<open>Reading\<close>

text \<open>\<open>text.replace(p, "")\<close>.\<close>

function remove_all :: "string \<Rightarrow> string \<Rightarrow> string" where
  "remove_all p [] = []"
| "remove_all p (c # s) =
     (if p \<noteq> [] \<and> take (length p) (c # s) = p then remove_all p (drop (length p) (c # s)) else c # remove_all p s)"
  by pat_completeness auto
termination
  by (relation "measure (\<lambda>(p, s). length s)") (auto simp: drop_Cons' split: if_splits)

definition brace :: "char \<Rightarrow> bool" where
  "brace c \<longleftrightarrow> c = CHR ''{'' \<or> c = CHR ''}''"

definition strip_braces :: "string \<Rightarrow> string" where
  "strip_braces s = rev (dropWhile brace (rev (dropWhile brace s)))"

text \<open>Hexadecimal digits with single underscores between them.\<close>

fun hex_ok :: "string \<Rightarrow> bool" where
  "hex_ok [] = False"
| "hex_ok [c] = (hex_digit c \<noteq> None)"
| "hex_ok (c # d # s) = (hex_digit c \<noteq> None \<and> (if d = CHR ''_'' then hex_ok s else hex_ok (d # s)))"

definition after_prefix :: "string \<Rightarrow> string" where
  "after_prefix s =
     (case s of
        c # x # r \<Rightarrow>
          if c = CHR ''0'' \<and> (x = CHR ''x'' \<or> x = CHR ''X'')
          then (case r of d # t \<Rightarrow> if d = CHR ''_'' then t else r | [] \<Rightarrow> r)
          else s
      | _ \<Rightarrow> s)"

definition hex_int :: "string \<Rightarrow> py_error + int" where
  "hex_int text =
     (let t = strip text;
          negative = (t \<noteq> [] \<and> hd t = CHR ''-'');
          digits = after_prefix (if t \<noteq> [] \<and> hd t \<in> {CHR ''-'', CHR ''+''} then tl t else t)
      in if hex_ok digits
         then (case hex_value 0 (filter (\<lambda>c. c \<noteq> CHR ''_'') digits) of
                 Some n \<Rightarrow> Inr (if negative then - int n else int n) | None \<Rightarrow> Inl ValueError)
         else Inl ValueError)"

definition py_uuid :: "string \<Rightarrow> py_error + uuid" where
  "py_uuid text =
     (let digits = filter (\<lambda>c. c \<noteq> CHR ''-'') (strip_braces (remove_all ''uuid:'' (remove_all ''urn:'' text)))
      in rbind (rguard (length digits = 32) ValueError) (\<lambda>_.
         rbind (hex_int digits) (\<lambda>i.
         rbind (rguard (0 \<le> i \<and> i < 2 ^ 128) ValueError) (\<lambda>_. Inr (nat i)))))"

lemma py_uuid_error: "py_uuid s = Inl e \<Longrightarrow> e = ValueError"
  by (auto simp: py_uuid_def hex_int_def Let_def rbind_eq_Inl_iff split: if_splits option.splits)

section \<open>A printed identifier\<close>

lemma remove_all_absent: "p \<noteq> [] \<Longrightarrow> hd p \<notin> set s \<Longrightarrow> remove_all p s = s"
  by (induction s) (auto simp: take_Cons' neq_Nil_conv)

lemma dropWhile_none:
  assumes "\<And>c. c \<in> set s \<Longrightarrow> \<not> P c"
  shows "rev (dropWhile P (rev (dropWhile P s))) = s"
proof -
  have "dropWhile P xs = xs" if "set xs \<subseteq> set s" for xs using that assms by (cases xs) auto
  then show ?thesis by simp
qed

lemma strip_braces_absent: "(\<And>c. c \<in> set s \<Longrightarrow> \<not> brace c) \<Longrightarrow> strip_braces s = s"
  unfolding strip_braces_def by (rule dropWhile_none)

definition hex_char :: "char \<Rightarrow> bool" where
  "hex_char c \<longleftrightarrow> c \<in> set ''0123456789abcdef''"

lemma hex_char_simps:
  assumes "hex_char c"
  shows "c \<noteq> CHR ''u'' \<and> \<not> brace c \<and> \<not> is_space c \<and> c \<noteq> CHR ''-'' \<and> c \<noteq> CHR ''+'' \<and> c \<noteq> CHR ''_'' \<and> c \<noteq> CHR ''x''
    \<and> c \<noteq> CHR ''X'' \<and> hex_digit c \<noteq> None"
proof -
  have "list_all (\<lambda>c. c \<noteq> CHR ''u'' \<and> \<not> brace c \<and> \<not> is_space c \<and> c \<noteq> CHR ''-'' \<and> c \<noteq> CHR ''+'' \<and> c \<noteq> CHR ''_''
    \<and> c \<noteq> CHR ''x'' \<and> c \<noteq> CHR ''X'' \<and> hex_digit c \<noteq> None) ''0123456789abcdef''" by code_simp
  then show ?thesis using assms unfolding hex_char_def list_all_iff by blast
qed

lemma hex_digits_chars: "c \<in> set (hex_digits k n) \<Longrightarrow> hex_char c"
proof (induction k arbitrary: n)
  case (Suc k)
  have "''0123456789abcdef'' ! (n mod 16) \<in> set ''0123456789abcdef''" by (rule nth_mem) simp
  moreover have "c \<in> set (hex_digits k (n div 16)) \<or> c = ''0123456789abcdef'' ! (n mod 16)" using Suc.prems by (simp add: disj_commute)
  ultimately show ?case using Suc.IH unfolding hex_char_def by blast
qed simp

lemma hex_ok_digits: "s \<noteq> [] \<Longrightarrow> (\<And>c. c \<in> set s \<Longrightarrow> hex_char c) \<Longrightarrow> hex_ok s"
  by (induction s rule: hex_ok.induct) (use hex_char_simps in \<open>auto simp del: hex_digit.simps\<close>)

lemma hex_int_digits:
  assumes "s \<noteq> []" "\<And>c. c \<in> set s \<Longrightarrow> hex_char c" "hex_value 0 s = Some n"
  shows "hex_int s = Inr (int n)"
proof -
  have c: "c \<noteq> CHR ''_''" "\<not> is_space c" "c \<noteq> CHR ''-''" "c \<noteq> CHR ''+''" "c \<noteq> CHR ''x''" "c \<noteq> CHR ''X''" if "c \<in> set s" for c
    using hex_char_simps [OF assms(2) [OF that]] by blast+
  have "strip s = s" unfolding strip_def by (rule dropWhile_none) (rule c(2))
  moreover have "after_prefix s = s" using c(5, 6) by (auto simp: after_prefix_def split: list.splits)
  moreover have "hd s \<noteq> CHR ''-''" "hd s \<noteq> CHR ''+''" using c(3, 4) [of "hd s"] assms(1) by auto
  moreover have "filter (\<lambda>c. c \<noteq> CHR ''_'') s = s" using c(1) by (simp add: filter_id_conv)
  ultimately show ?thesis using hex_ok_digits [OF assms(1, 2)] assms(1, 3) by (simp add: hex_int_def Let_def)
qed

lemma uuid_str_chars: "c \<in> set (uuid_str u) \<Longrightarrow> hex_char c \<or> c = CHR ''-''"
  unfolding uuid_str_def Let_def by (auto dest!: in_set_takeD in_set_dropD dest: hex_digits_chars)

lemma py_uuid_uuid_str:
  assumes "u < 2 ^ 128"
  shows "py_uuid (uuid_str u) = Inr u"
proof -
  let ?d = "filter (\<lambda>c. c \<noteq> CHR ''-'') (uuid_str u)"
  have c: "c \<noteq> CHR ''u'' \<and> \<not> brace c" if "c \<in> set (uuid_str u)" for c
    using uuid_str_chars [OF that] hex_char_simps [of c] by (auto simp: brace_def)
  then have "CHR ''u'' \<notin> set (uuid_str u)" by blast
  then have s: "remove_all ''uuid:'' (remove_all ''urn:'' (uuid_str u)) = uuid_str u"
    by (simp add: remove_all_absent)
  have d: "length ?d = 32" "hex_value 0 ?d = Some u"
    using uuid_of_str_uuid_str [OF assms] by (auto simp: uuid_of_str_def Let_def split: if_splits option.splits)
  moreover have "hex_char c" if "c \<in> set ?d" for c using that uuid_str_chars by auto
  ultimately have "hex_int ?d = Inr (int u)" by (intro hex_int_digits) auto
  then show ?thesis using c d assms by (simp add: py_uuid_def s strip_braces_absent Let_def)
qed

end
