(* ===== verification/Token.thy ===== *)
theory Token
  imports Base64 Py_Uuid Authz
begin

text \<open>
  Who a request comes from: the signed tokens (\<open>app/auth/jwt.py\<close>, \<open>app/auth/claims.py\<close>) and the dependency that
  turns one into a caller (\<open>app/api/deps/auth.py\<close>). \<open>mac key text\<close> is the HMAC-SHA256 digest, \<open>loads\<close> the JSON
  parser, which answers \<open>None\<close> to what is no JSON; \<open>now\<close> is the clock in seconds.
\<close>

section \<open>Claims\<close>

record jwt_claims =
  jc_sub :: string
  jc_iss :: string
  jc_aud :: string
  jc_iat :: int
  jc_exp :: int
  jc_org_id :: "string option"

definition to_payload :: "jwt_claims \<Rightarrow> json_dict" where
  "to_payload c =
     [(''sub'', JStr (jc_sub c)), (''iss'', JStr (jc_iss c)), (''aud'', JStr (jc_aud c)),
      (''iat'', JInt (jc_iat c)), (''exp'', JInt (jc_exp c))]
     @ (case jc_org_id c of None \<Rightarrow> [] | Some i \<Rightarrow> [(''org_id'', JStr i)])"

text \<open>The names in the order of their sorted list.\<close>

definition required_claim_keys :: "string list" where
  "required_claim_keys = [''aud'', ''exp'', ''iat'', ''iss'', ''sub'']"

section \<open>Tokens\<close>

abbreviation bad_token :: "string \<Rightarrow> exn" where
  "bad_token detail \<equiv> Dom (AuthenticationError (InvalidToken detail))"

abbreviation expired_token :: exn where
  "expired_token \<equiv> Dom (AuthenticationError ExpiredToken)"

definition token_header :: json_dict where
  "token_header = [(''alg'', JStr ''HS256''), (''typ'', JStr ''JWT'')]"

text \<open>\<open>json.dumps\<close> of a dict of scalars, its keys in their order.\<close>

definition dumps_in_order :: "json_dict \<Rightarrow> string" where
  "dumps_in_order kvs = ''{'' @ comma_join (map (\<lambda>(k, v). json_str True k @ '':'' @ json_dumps True v) kvs) @ ''}''"

definition b64url_encode :: "string \<Rightarrow> string" where
  "b64url_encode data = strip_padding (urlsafe_b64encode data)"

definition b64url_decode :: "string \<Rightarrow> exn + string" where
  "b64url_decode data =
     (case urlsafe_b64decode (data @ padding data) of
        Inl _ \<Rightarrow> Inl (bad_token ''token is not valid base64url'')
      | Inr raw \<Rightarrow> Inr raw)"

definition signing_input :: "string \<Rightarrow> string \<Rightarrow> string" where
  "signing_input header payload = header @ ''.'' @ payload"

definition encode_token ::
  "(string \<Rightarrow> string \<Rightarrow> string) \<Rightarrow> string \<Rightarrow> string \<Rightarrow> string \<Rightarrow> string \<Rightarrow> string \<Rightarrow> int \<Rightarrow> string option \<Rightarrow> int \<Rightarrow> exn + string" where
  "encode_token mac subject secret algorithm issuer audience expires_in organization_id now =
     (if algorithm \<noteq> ''HS256'' then Inl (bad_token (''unsupported signing algorithm '' @ str_repr algorithm))
      else
        let claims = \<lparr> jc_sub = subject, jc_iss = issuer, jc_aud = audience, jc_iat = now, jc_exp = now + expires_in,
                       jc_org_id = organization_id \<rparr>;
            header_segment = b64url_encode (dumps_in_order token_header);
            payload_segment = b64url_encode (dumps_in_order (to_payload claims));
            signature = mac secret (signing_input header_segment payload_segment)
        in Inr (header_segment @ ''.'' @ payload_segment @ ''.'' @ b64url_encode signature))"

definition parse_json_segment :: "(string \<Rightarrow> json option) \<Rightarrow> string \<Rightarrow> string \<Rightarrow> exn + json_dict" where
  "parse_json_segment loads segment what =
     rbind (b64url_decode segment) (\<lambda>raw.
     case loads raw of
       None \<Rightarrow> Inl (bad_token (''token '' @ what @ '' is not valid JSON''))
     | Some (JDict kvs) \<Rightarrow> Inr kvs
     | Some _ \<Rightarrow> Inl (bad_token (''token '' @ what @ '' must be a JSON object'')))"

definition missing_claims :: "json_dict \<Rightarrow> string list" where
  "missing_claims payload = filter (\<lambda>k. \<not> has_key payload k) required_claim_keys"

definition numeric_claim :: "json_dict \<Rightarrow> string \<Rightarrow> exn + int" where
  "numeric_claim payload k =
     (case py_int (dget payload k) of
        Inl _ \<Rightarrow> Inl (bad_token ''token has non-numeric iat/exp claims'')
      | Inr i \<Rightarrow> Inr i)"

definition read_claims :: "json_dict \<Rightarrow> string \<Rightarrow> string \<Rightarrow> int \<Rightarrow> exn + jwt_claims" where
  "read_claims payload issuer audience now =
     rbind (rguard (missing_claims payload = [])
       (bad_token (''token is missing required claims: '' @ py_repr (JList (map JStr (missing_claims payload)))))) (\<lambda>_.
     rbind (rguard (dget payload ''iss'' = JStr issuer) (bad_token ''token issuer does not match'')) (\<lambda>_.
     rbind (rguard (dget payload ''aud'' = JStr audience) (bad_token ''token audience does not match'')) (\<lambda>_.
     rbind (numeric_claim payload ''exp'') (\<lambda>expires_at.
     rbind (numeric_claim payload ''iat'') (\<lambda>issued_at.
     rbind (rguard (now < expires_at) expired_token) (\<lambda>_.
     Inr \<lparr> jc_sub = py_str (dget payload ''sub''), jc_iss = py_str (dget payload ''iss''),
           jc_aud = py_str (dget payload ''aud''), jc_iat = issued_at, jc_exp = expires_at,
           jc_org_id = (case dget payload ''org_id'' of JNull \<Rightarrow> None | v \<Rightarrow> Some (py_str v)) \<rparr>))))))"

definition ascii :: "string \<Rightarrow> bool" where
  "ascii s \<longleftrightarrow> list_all (\<lambda>c. code c < 128) s"

definition decode_token ::
  "(string \<Rightarrow> string \<Rightarrow> string) \<Rightarrow> (string \<Rightarrow> json option) \<Rightarrow> string \<Rightarrow> string \<Rightarrow> string \<Rightarrow> string \<Rightarrow> string \<Rightarrow> int \<Rightarrow> exn + jwt_claims" where
  "decode_token mac loads token secret algorithm issuer audience now =
     (case split_at (CHR ''.'') token of
        [header_segment, payload_segment, signature_segment] \<Rightarrow>
          rbind (parse_json_segment loads header_segment ''header'') (\<lambda>header.
          rbind (rguard (dget header ''alg'' = JStr ''HS256'' \<and> algorithm = ''HS256'')
            (bad_token ''unsupported or mismatched signing algorithm'')) (\<lambda>_.
          rbind (rguard (ascii (signing_input header_segment payload_segment)) (Py ValueError)) (\<lambda>_.
          rbind (b64url_decode signature_segment) (\<lambda>signature.
          rbind (rguard (signature = mac secret (signing_input header_segment payload_segment))
            (bad_token ''signature verification failed'')) (\<lambda>_.
          rbind (parse_json_segment loads payload_segment ''payload'') (\<lambda>payload.
          read_claims payload issuer audience now))))))
      | _ \<Rightarrow> Inl (bad_token ''token is not a three-part JWS compact serialization''))"

section \<open>The caller\<close>

record auth_settings =
  st_jwt_secret :: string
  st_jwt_algorithm :: string
  st_jwt_issuer :: string
  st_jwt_audience :: string

text \<open>A stray \<open>ValueError\<close> of the decoding becomes an invalid token.\<close>

definition decode_credentials ::
  "(string \<Rightarrow> string \<Rightarrow> string) \<Rightarrow> (string \<Rightarrow> json option) \<Rightarrow> auth_settings \<Rightarrow> int \<Rightarrow> string \<Rightarrow> exn + jwt_claims" where
  "decode_credentials mac loads st now token =
     (case decode_token mac loads token (st_jwt_secret st) (st_jwt_algorithm st) (st_jwt_issuer st) (st_jwt_audience st) now of
        Inl (Py ValueError) \<Rightarrow> Inl (bad_token ''Invalid authentication token'')
      | r \<Rightarrow> r)"

definition user_by_id :: "uuid \<Rightarrow> user option session" where
  "user_by_id i = fetch_one db_users (\<lambda>u. us_id u = i)"

definition claimed_organization :: "jwt_claims \<Rightarrow> uuid option" where
  "claimed_organization c =
     (case jc_org_id c of
        None \<Rightarrow> None
      | Some t \<Rightarrow> (case py_uuid t of Inl _ \<Rightarrow> None | Inr i \<Rightarrow> Some i))"

definition current_role :: "uuid \<Rightarrow> uuid option \<Rightarrow> organization_role option session" where
  "current_role user_id organization_id =
     (case organization_id of
        None \<Rightarrow> sreturn None
      | Some g \<Rightarrow> sbind (member_for user_id g) (\<lambda>m. sreturn (map_option om_role m)))"

definition get_current_user ::
  "(string \<Rightarrow> string \<Rightarrow> string) \<Rightarrow> (string \<Rightarrow> json option) \<Rightarrow> auth_settings \<Rightarrow> int \<Rightarrow> string option \<Rightarrow> principal session" where
  "get_current_user mac loads st now credentials =
     (case credentials of
        None \<Rightarrow> sraise (Dom (AuthenticationError AuthenticationRequired))
      | Some [] \<Rightarrow> sraise (Dom (AuthenticationError AuthenticationRequired))
      | Some token \<Rightarrow>
          sbind (slift (decode_credentials mac loads st now token)) (\<lambda>claims.
          sbind (slift (case py_uuid (jc_sub claims) of
                          Inl _ \<Rightarrow> Inl (bad_token ''token subject is not a valid user id'') | Inr i \<Rightarrow> Inr i)) (\<lambda>user_id.
          sbind (srequire (Dom (AuthenticationError UnknownUser)) (user_by_id user_id)) (\<lambda>u.
          sthen (sguard (us_is_active u) (Dom (AuthenticationError DisabledUser)))
         (sbind (current_role (us_id u) (claimed_organization claims)) (\<lambda>role.
          sreturn \<lparr> ap_user_id = us_id u, ap_email = us_email u, ap_organization_id = claimed_organization claims,
                    ap_role = role \<rparr>))))))"

end
