(* ===== verification/Token_Properties.thy ===== *)
theory Token_Properties
  imports Token Authz_Properties
begin

text \<open>
  The properties of tokens: what was issued is accepted until it expires, what is accepted was signed with the
  secret and names issuer and audience, and the caller it stands for is read from the store, not from the token.
\<close>

section \<open>Segments\<close>

lemma segment_chars: "c \<in> set (b64url_encode s) \<Longrightarrow> c \<noteq> CHR ''.'' \<and> code c < 128"
  unfolding b64url_encode_def using strip_padding_chars encoded_chars by blast

lemma segment_no_dot: "CHR ''.'' \<notin> set (b64url_encode s)"
  using segment_chars by blast

lemma segment_decoded [simp]: "b64url_decode (b64url_encode s) = Inr s"
proof -
  have "\<not> list_ex (\<lambda>c. 128 \<le> code c) (urlsafe_b64encode s)"
    using encoded_chars by (fastforce simp: list_ex_iff)
  then show ?thesis
    by (simp add: b64url_decode_def b64url_encode_def padding_restored urlsafe_b64decode_def a2b_encode)
qed

lemma segments_ascii: "ascii (signing_input (b64url_encode s) (b64url_encode t))"
proof -
  have "code (CHR ''.'') < 128" by code_simp
  then show ?thesis using segment_chars by (auto simp: ascii_def signing_input_def list_all_iff)
qed

text \<open>The parser reads back what was written.\<close>

definition reads_back :: "(string \<Rightarrow> json option) \<Rightarrow> json_dict \<Rightarrow> bool" where
  "reads_back loads kvs \<longleftrightarrow> loads (dumps_in_order kvs) = Some (JDict kvs)"

lemma parse_segment_written:
  "reads_back loads kvs \<Longrightarrow> parse_json_segment loads (b64url_encode (dumps_in_order kvs)) what = Inr kvs"
  by (simp add: parse_json_segment_def reads_back_def)

section \<open>Issued tokens\<close>

definition issued_claims :: "string \<Rightarrow> string \<Rightarrow> string \<Rightarrow> int \<Rightarrow> string option \<Rightarrow> int \<Rightarrow> jwt_claims" where
  "issued_claims subject issuer audience expires_in organization_id now =
     \<lparr> jc_sub = subject, jc_iss = issuer, jc_aud = audience, jc_iat = now, jc_exp = now + expires_in,
       jc_org_id = organization_id \<rparr>"

lemma payload_fields:
  "missing_claims (to_payload c) = []"
  "dget (to_payload c) ''iss'' = JStr (jc_iss c)" "dget (to_payload c) ''aud'' = JStr (jc_aud c)"
  "dget (to_payload c) ''sub'' = JStr (jc_sub c)" "dget (to_payload c) ''exp'' = JInt (jc_exp c)"
  "dget (to_payload c) ''iat'' = JInt (jc_iat c)"
  "dget (to_payload c) ''org_id'' = (case jc_org_id c of None \<Rightarrow> JNull | Some i \<Rightarrow> JStr i)"
  by (simp_all add: missing_claims_def required_claim_keys_def to_payload_def dget_def has_key_iff split: option.split)

lemma read_written_claims:
  "read_claims (to_payload c) (jc_iss c) (jc_aud c) now = (if now < jc_exp c then Inr c else Inl expired_token)"
  by (simp add: read_claims_def payload_fields numeric_claim_def py_str_def split: option.split)

definition both_read_back :: "(string \<Rightarrow> json option) \<Rightarrow> jwt_claims \<Rightarrow> bool" where
  "both_read_back loads c \<longleftrightarrow> reads_back loads token_header \<and> reads_back loads (to_payload c)"

lemma token_header_alg: "dget token_header ''alg'' = JStr ''HS256''"
  by (simp add: token_header_def dget_def)

lemma issued_token_parts:
  assumes "encode_token mac sub secret algorithm iss aud ttl org t0 = Inr token"
  defines "h \<equiv> b64url_encode (dumps_in_order token_header)"
    and "p \<equiv> b64url_encode (dumps_in_order (to_payload (issued_claims sub iss aud ttl org t0)))"
  shows "algorithm = ''HS256''" "split_at (CHR ''.'') token = [h, p, b64url_encode (mac secret (signing_input h p))]"
proof -
  have t: "algorithm = ''HS256'' \<and> token = h @ CHR ''.'' # p @ CHR ''.'' # b64url_encode (mac secret (signing_input h p))"
    using assms(1) by (auto simp: encode_token_def issued_claims_def h_def p_def Let_def split: if_splits)
  then show "algorithm = ''HS256''" by blast
  show "split_at (CHR ''.'') token = [h, p, b64url_encode (mac secret (signing_input h p))]"
    using t by (simp add: segment_no_dot h_def p_def)
qed

lemma issued_token_decoded:
  assumes "encode_token mac sub secret algorithm iss aud ttl org t0 = Inr token"
    and "both_read_back loads (issued_claims sub iss aud ttl org t0)"
  shows "decode_token mac loads token secret algorithm iss aud now =
    (if now < t0 + ttl then Inr (issued_claims sub iss aud ttl org t0) else Inl expired_token)"
  using assms(2) read_written_claims [of "issued_claims sub iss aud ttl org t0" now] issued_token_parts [OF assms(1)]
    segments_ascii
  by (simp add: decode_token_def both_read_back_def parse_segment_written token_header_alg) (simp add: issued_claims_def)

lemma issued_token_other_secret:
  assumes "encode_token mac sub secret algorithm iss aud ttl org t0 = Inr token"
    and "both_read_back loads (issued_claims sub iss aud ttl org t0)" "\<forall>text. mac other text \<noteq> mac secret text"
  shows "decode_token mac loads token other algorithm iss aud now = Inl (bad_token ''signature verification failed'')"
proof -
  let ?c = "issued_claims sub iss aud ttl org t0"
  let ?h = "b64url_encode (dumps_in_order token_header)" and ?p = "b64url_encode (dumps_in_order (to_payload ?c))"
  have t: "algorithm = ''HS256''" "split_at (CHR ''.'') token = [?h, ?p, b64url_encode (mac secret (signing_input ?h ?p))]"
    by (rule issued_token_parts [OF assms(1)])+
  have "mac secret (signing_input ?h ?p) \<noteq> mac other (signing_input ?h ?p)" using assms(3) by metis
  then show ?thesis
    using assms(2) t segments_ascii
    by (simp add: decode_token_def both_read_back_def parse_segment_written token_header_alg)
qed


section \<open>Accepted tokens\<close>

lemma decode_token_signed:
  assumes "decode_token mac loads token secret algorithm iss aud now = Inr c"
  obtains h p g payload where "token = h @ ''.'' @ p @ ''.'' @ g" "b64url_decode g = Inr (mac secret (signing_input h p))"
    "algorithm = ''HS256''" "parse_json_segment loads p ''payload'' = Inr payload" "read_claims payload iss aud now = Inr c"
proof -
  obtain h p g where s: "split_at (CHR ''.'') token = [h, p, g]"
    using assms by (auto simp: decode_token_def split: list.splits)
  then have "join_at (CHR ''.'') [h, p, g] = token" by (metis join_split)
  then have "token = h @ ''.'' @ p @ ''.'' @ g" by simp
  moreover obtain payload where "b64url_decode g = Inr (mac secret (signing_input h p))"
    "algorithm = ''HS256''" "parse_json_segment loads p ''payload'' = Inr payload" "read_claims payload iss aud now = Inr c"
    using assms by (auto simp: decode_token_def s rbind_eq_Inr_iff)
  ultimately show ?thesis by (rule that)
qed

lemma read_claims_checked:
  "read_claims payload iss aud now = Inr c \<Longrightarrow> jc_iss c = iss \<and> jc_aud c = aud \<and> now < jc_exp c"
  by (auto simp: read_claims_def rbind_eq_Inr_iff py_str_def)

text \<open>
  A token that is accepted carries the digest, under the secret, of its own first two parts, whatever algorithm
  its header may name besides; the claims taken from it name the issuer and the audience asked for and have not
  expired.
\<close>

theorem accepted_token_signed:
  assumes "decode_token mac loads token secret algorithm iss aud now = Inr c"
  shows "algorithm = ''HS256'' \<and> jc_iss c = iss \<and> jc_aud c = aud \<and> now < jc_exp c
    \<and> (\<exists>h p g. token = h @ ''.'' @ p @ ''.'' @ g \<and> b64url_decode g = Inr (mac secret (signing_input h p)))"
proof -
  obtain h p g payload where "token = h @ ''.'' @ p @ ''.'' @ g" "b64url_decode g = Inr (mac secret (signing_input h p))"
    "algorithm = ''HS256''" "read_claims payload iss aud now = Inr c"
    using assms by (rule decode_token_signed)
  then show ?thesis using read_claims_checked by blast
qed

section \<open>The caller of a token\<close>

text \<open>What the store says now about a user and an organization.\<close>

definition live_caller :: "db \<Rightarrow> uuid \<Rightarrow> uuid option \<Rightarrow> exn + principal" where
  "live_caller d u g =
     (case find (\<lambda>x. us_id x = u) (db_users d) of
        None \<Rightarrow> Inl (Dom (AuthenticationError UnknownUser))
      | Some x \<Rightarrow>
          if us_is_active x
          then Inr \<lparr> ap_user_id = u, ap_email = us_email x, ap_organization_id = g,
                     ap_role = Option.bind g (\<lambda>o'.
                       map_option om_role (find (\<lambda>m. om_user_id m = u \<and> om_organization_id m = o') (db_members d))) \<rparr>
          else Inl (Dom (AuthenticationError DisabledUser)))"

lemma filter_Cons_find: "filter P xs = x # ys \<Longrightarrow> find P xs = Some x"
  by (induction xs) (auto split: if_splits)

lemma one_or_none_find: "length (filter P xs) \<le> 1 \<Longrightarrow> one_or_none (filter P xs) = Inr (find P xs)"
proof (cases "filter P xs")
  case (Cons x ys)
  moreover assume "length (filter P xs) \<le> 1"
  ultimately show ?thesis using filter_Cons_find [OF Cons] by simp
qed (auto simp: find_None_iff2 filter_empty_conv)

lemma fetch_one_find:
  "length (filter P (table (tx_current s))) \<le> 1 \<Longrightarrow> fetch_one table P s = (Inr (find P (table (tx_current s))), s)"
  by (simp add: fetch_one_def one_or_none_find)

lemma user_by_id_find:
  assumes "tenants_ok (tx_current s)"
  shows "user_by_id u s = (Inr (find (\<lambda>x. us_id x = u) (db_users (tx_current s))), s)"
proof -
  have "length (filter (\<lambda>x. us_id x = u) xs) \<le> 1" if "distinct (map us_id xs)" for xs
    using that by (induction xs) (force simp: filter_empty_conv image_iff)+
  then show ?thesis unfolding user_by_id_def by (rule fetch_one_find) (use assms in \<open>simp add: tenants_ok_def\<close>)
qed

lemma member_for_find:
  assumes "tenants_ok (tx_current s)"
  shows "member_for u g s = (Inr (find (\<lambda>m. om_user_id m = u \<and> om_organization_id m = g) (db_members (tx_current s))), s)"
  unfolding member_for_def
  by (rule fetch_one_find, rule no_clash_filter_single [of member_clash])
    (use assms in \<open>auto simp: tenants_ok_def member_clash_def\<close>)

lemma current_role_find:
  assumes "tenants_ok (tx_current s)"
  shows "current_role u g s = (Inr (Option.bind g (\<lambda>o'.
    map_option om_role (find (\<lambda>m. om_user_id m = u \<and> om_organization_id m = o') (db_members (tx_current s))))), s)"
  by (simp add: current_role_def sbind_def member_for_find [OF assms] session_basic split: option.split)

text \<open>The caller of a token whose claims were read: nothing of it but the two identifiers plays a part.\<close>

lemma get_current_user_run:
  assumes "tenants_ok (tx_current s)" "token \<noteq> []"
    and "decode_credentials mac loads st now token = Inr c" "py_uuid (jc_sub c) = Inr u"
  shows "get_current_user mac loads st now (Some token) s = (live_caller (tx_current s) u (claimed_organization c), s)"
proof -
  let ?d = "tx_current s" and ?g = "claimed_organization c"
  obtain a as where token: "token = a # as" using assms(2) by (cases token) auto
  have run: "get_current_user mac loads st now (Some token) s =
      sbind (srequire (Dom (AuthenticationError UnknownUser)) (user_by_id u)) (\<lambda>u.
      sthen (sguard (us_is_active u) (Dom (AuthenticationError DisabledUser)))
     (sbind (current_role (us_id u) ?g) (\<lambda>role.
      sreturn \<lparr> ap_user_id = us_id u, ap_email = us_email u, ap_organization_id = ?g, ap_role = role \<rparr>))) s"
    using assms(3,4) by (simp add: get_current_user_def token sbind_def slift_def)
  show ?thesis
  proof (cases "find (\<lambda>x. us_id x = u) (db_users ?d)")
    case None
    then show ?thesis unfolding run
      by (simp add: sbind_def srequire_def user_by_id_find [OF assms(1)] live_caller_def session_basic)
  next
    case (Some x)
    then have "us_id x = u" by (auto simp: find_Some_iff)
    then show ?thesis using Some unfolding run
      by (simp add: sbind_def srequire_def sthen_def sguard_def user_by_id_find [OF assms(1)]
          current_role_find [OF assms(1)] live_caller_def session_basic)
  qed
qed

lemma caller_is_live_run:
  assumes "encode_token mac (uuid_str u) (st_jwt_secret st) (st_jwt_algorithm st) (st_jwt_issuer st) (st_jwt_audience st)
      ttl (map_option uuid_str g) t0 = Inr token"
    and "both_read_back loads (issued_claims (uuid_str u) (st_jwt_issuer st) (st_jwt_audience st) ttl (map_option uuid_str g) t0)"
    and "u < 2 ^ 128" "\<And>i. g = Some i \<Longrightarrow> i < 2 ^ 128" "tenants_ok (tx_current s)"
  shows "get_current_user mac loads st now (Some token) s =
    (if now < t0 + ttl then live_caller (tx_current s) u g else Inl expired_token, s)"
proof -
  let ?c = "issued_claims (uuid_str u) (st_jwt_issuer st) (st_jwt_audience st) ttl (map_option uuid_str g) t0"
  have d: "decode_token mac loads token (st_jwt_secret st) (st_jwt_algorithm st) (st_jwt_issuer st) (st_jwt_audience st) now
      = (if now < t0 + ttl then Inr ?c else Inl expired_token)"
    by (rule issued_token_decoded [OF assms(1,2)])
  have token: "token \<noteq> []" using issued_token_parts(2) [OF assms(1)] by auto
  show ?thesis
  proof (cases "now < t0 + ttl")
    case True
    moreover have "claimed_organization ?c = g"
      using assms(4) by (auto simp: claimed_organization_def issued_claims_def py_uuid_uuid_str split: option.split)
    moreover have "py_uuid (jc_sub ?c) = Inr u" using py_uuid_uuid_str [OF assms(3)] by (simp add: issued_claims_def)
    ultimately show ?thesis using get_current_user_run [OF assms(5) token] d by (simp add: decode_credentials_def)
  next
    case False
    moreover obtain a as where "token = a # as" using token by (cases token) auto
    ultimately show ?thesis using d
      by (simp add: get_current_user_def decode_credentials_def sbind_def slift_def)
  qed
qed

text \<open>
  C31: a token issued for a user stands for what the store says of that user at the moment it is presented: before its
  expiry the caller has the user's id and current address, and the role of the user's current membership, if there is
  one, in the organization the token names; it is refused if the user is gone or disabled, and as expired later.
  The store stays as it is.
\<close>

theorem caller_is_live:
  assumes "encode_token mac (uuid_str u) (st_jwt_secret st) (st_jwt_algorithm st) (st_jwt_issuer st) (st_jwt_audience st)
      ttl (map_option uuid_str g) t0 = Inr token"
    and "both_read_back loads (issued_claims (uuid_str u) (st_jwt_issuer st) (st_jwt_audience st) ttl (map_option uuid_str g) t0)"
    and "u < 2 ^ 128" "\<And>i. g = Some i \<Longrightarrow> i < 2 ^ 128" "tenants_ok (tx_current s)"
  shows "get_current_user mac loads st now (Some token) s =
    (if now < t0 + ttl then live_caller (tx_current s) u g else Inl expired_token, s)"
  using assms by (rule caller_is_live_run)

section \<open>A sample token\<close>

text \<open>User 7 of the sample tenant, issued at second 1000 for one hour.\<close>

definition sample_settings :: auth_settings where
  "sample_settings = \<lparr> st_jwt_secret = ''k'', st_jwt_algorithm = ''HS256'', st_jwt_issuer = ''agentabi'', st_jwt_audience = ''api'' \<rparr>"

definition sample_mac :: "string \<Rightarrow> string \<Rightarrow> string" where
  "sample_mac key text = key"

abbreviation sample_claims :: jwt_claims where
  "sample_claims \<equiv> issued_claims (uuid_str 7) ''agentabi'' ''api'' 3600 (Some (uuid_str 1)) 1000"

definition sample_parser :: "string \<Rightarrow> json option" where
  "sample_parser text =
     (if text = dumps_in_order token_header then Some (JDict token_header)
      else if text = dumps_in_order (to_payload sample_claims) then Some (JDict (to_payload sample_claims))
      else None)"

definition sample_token :: string where
  "sample_token =
     (case encode_token sample_mac (uuid_str 7) ''k'' ''HS256'' ''agentabi'' ''api'' 3600 (Some (uuid_str 1)) 1000 of
        Inr t \<Rightarrow> t | Inl _ \<Rightarrow> [])"

lemma sample_token_issued:
  "encode_token sample_mac (uuid_str 7) ''k'' ''HS256'' ''agentabi'' ''api'' 3600 (Some (uuid_str 1)) 1000 = Inr sample_token"
  by (simp add: sample_token_def encode_token_def Let_def)

lemma sample_texts_differ: "dumps_in_order (to_payload sample_claims) \<noteq> dumps_in_order token_header"
  by (simp add: dumps_in_order_def to_payload_def token_header_def issued_claims_def json_str_def json_escape_def code_def Let_def)

lemma sample_reads_back: "both_read_back sample_parser sample_claims"
  using sample_texts_differ by (simp add: both_read_back_def reads_back_def sample_parser_def)


theorem accepted_token_signed_witness:
  "jc_aud sample_claims = ''api'' \<and> 4599 < jc_exp sample_claims
   \<and> (\<exists>h p g. sample_token = h @ ''.'' @ p @ ''.'' @ g \<and> b64url_decode g = Inr (sample_mac ''k'' (signing_input h p)))"
proof -
  have "decode_token sample_mac sample_parser sample_token ''k'' ''HS256'' ''agentabi'' ''api'' 4599 = Inr sample_claims"
    using issued_token_decoded [OF sample_token_issued sample_reads_back, of 4599] by simp
  then show ?thesis using accepted_token_signed by blast
qed

theorem caller_is_live_witness:
  "get_current_user sample_mac sample_parser sample_settings 4599 (Some sample_token) (begin_txn tenant_db)
     = (Inr \<lparr> ap_user_id = 7, ap_email = ''a@acme'', ap_organization_id = Some 1, ap_role = Some MEMBER \<rparr>, begin_txn tenant_db)
   \<and> fst (get_current_user sample_mac sample_parser sample_settings 4600 (Some sample_token) (begin_txn tenant_db))
     = Inl expired_token"
proof -
  have "get_current_user sample_mac sample_parser sample_settings now (Some sample_token) (begin_txn tenant_db) =
      (if now < 1000 + 3600 then live_caller tenant_db 7 (Some 1) else Inl expired_token, begin_txn tenant_db)" for now
    using caller_is_live [of sample_mac 7 sample_settings 3600 "Some 1" 1000 sample_token sample_parser "begin_txn tenant_db" now]
      sample_token_issued sample_reads_back tenant_db_ok
    by (simp add: sample_settings_def)
  moreover have "live_caller tenant_db 7 (Some 1) =
      Inr \<lparr> ap_user_id = 7, ap_email = ''a@acme'', ap_organization_id = Some 1, ap_role = Some MEMBER \<rparr>"
    by (simp add: live_caller_def tenant_db_def)
  ultimately show ?thesis by simp
qed

text \<open>
  The refusals tell their reasons apart: the text of the exception, which becomes the body of the answer, names the
  check that failed.
\<close>

lemma token_refusals_differ:
  "decode_token sample_mac sample_parser sample_token ''other'' ''HS256'' ''agentabi'' ''api'' 4599
     = Inl (bad_token ''signature verification failed'')"
  "decode_token sample_mac sample_parser sample_token ''k'' ''HS256'' ''elsewhere'' ''api'' 4599
     = Inl (bad_token ''token issuer does not match'')"
proof -
  show "decode_token sample_mac sample_parser sample_token ''other'' ''HS256'' ''agentabi'' ''api'' 4599
      = Inl (bad_token ''signature verification failed'')"
    by (rule issued_token_other_secret [OF sample_token_issued sample_reads_back]) (simp add: sample_mac_def)
  show "decode_token sample_mac sample_parser sample_token ''k'' ''HS256'' ''elsewhere'' ''api'' 4599
      = Inl (bad_token ''token issuer does not match'')"
    using issued_token_parts [OF sample_token_issued] sample_reads_back segments_ascii
    by (simp add: decode_token_def both_read_back_def parse_segment_written token_header_alg read_claims_def payload_fields)
      (simp add: issued_claims_def)
qed

end
