(* ===== verification/Oauth_State.thy ===== *)
theory Oauth_State
  imports Session
begin

text \<open>
  \<open>app/auth/oauth_state.py\<close>: the states of the login flow, each to be consumed once and in time. \<open>sha256\<close> is the hex
  digest; a store maps the hashed state to its expiry. The Redis store is what \<open>SET NX EX\<close> and \<open>GETDEL\<close> do to such a
  map: an entry is gone from its expiry on. Proved here, for both stores from one contract: a state is accepted
  at most as often as it was saved, and never at or after its expiry.
\<close>

type_synonym state_store = "string \<rightharpoonup> int"

definition hash_state :: "(string \<Rightarrow> string) \<Rightarrow> string \<Rightarrow> string" where
  "hash_state sha256 state = ''oauth_state:'' @ sha256 state"

section \<open>The two stores\<close>

definition memory_save :: "(string \<Rightarrow> string) \<Rightarrow> int \<Rightarrow> int \<Rightarrow> string \<Rightarrow> state_store \<Rightarrow> state_store" where
  "memory_save sha256 ttl now state m = m(hash_state sha256 state \<mapsto> now + ttl)"

definition memory_consume :: "(string \<Rightarrow> string) \<Rightarrow> int \<Rightarrow> string \<Rightarrow> state_store \<Rightarrow> bool \<times> state_store" where
  "memory_consume sha256 now state m =
     (let key = hash_state sha256 state
      in case m key of
           None \<Rightarrow> (False, m(key := None))
         | Some expires_at \<Rightarrow> (now < expires_at, m(key := None)))"

definition redis_get :: "int \<Rightarrow> string \<Rightarrow> state_store \<Rightarrow> int option" where
  "redis_get now key m = (case m key of Some e \<Rightarrow> if now < e then Some e else None | None \<Rightarrow> None)"

definition redis_save :: "(string \<Rightarrow> string) \<Rightarrow> int \<Rightarrow> int \<Rightarrow> string \<Rightarrow> state_store \<Rightarrow> state_store" where
  "redis_save sha256 ttl now state m =
     (let key = hash_state sha256 state
      in if redis_get now key m = None then m(key \<mapsto> now + ttl) else m)"

definition redis_consume :: "(string \<Rightarrow> string) \<Rightarrow> int \<Rightarrow> string \<Rightarrow> state_store \<Rightarrow> bool \<times> state_store" where
  "redis_consume sha256 now state m =
     (let key = hash_state sha256 state in (redis_get now key m \<noteq> None, m(key := None)))"

text \<open>A store that cannot be reached raises, and nothing is known to have changed.\<close>

definition reachable_or :: "bool \<Rightarrow> 'a \<times> 'm \<Rightarrow> 'm \<Rightarrow> (exn + 'a) \<times> 'm" where
  "reachable_or up r m =
     (if up then (Inr (fst r), snd r) else (Inl (Dom (OAuthError OAuthStateStoreUnavailable)), m))"

section \<open>Any sequence of requests\<close>

datatype state_request = Save string | Consume string

text \<open>The states accepted, each with the time, in a sequence of timed requests.\<close>

fun accepted ::
  "(int \<Rightarrow> string \<Rightarrow> 'm \<Rightarrow> 'm) \<Rightarrow> (int \<Rightarrow> string \<Rightarrow> 'm \<Rightarrow> bool \<times> 'm) \<Rightarrow> (int \<times> state_request) list \<Rightarrow> 'm \<Rightarrow> (int \<times> string) list" where
  "accepted save consume [] m = []"
| "accepted save consume ((t, Save s) # rs) m = accepted save consume rs (save t s m)"
| "accepted save consume ((t, Consume s) # rs) m =
     (case consume t s m of (ok, m') \<Rightarrow> (if ok then [(t, s)] else []) @ accepted save consume rs m')"

definition saves_of :: "(string \<Rightarrow> 'k) \<Rightarrow> 'k \<Rightarrow> (int \<times> state_request) list \<Rightarrow> (int \<times> state_request) list" where
  "saves_of key k rs = filter (\<lambda>(t, r). case r of Save s \<Rightarrow> key s = k | Consume _ \<Rightarrow> False) rs"

definition accepts_of :: "(string \<Rightarrow> 'k) \<Rightarrow> 'k \<Rightarrow> (int \<times> string) list \<Rightarrow> (int \<times> string) list" where
  "accepts_of key k as = filter (\<lambda>(t, s). key s = k) as"

lemma saves_of_simps [simp]:
  "saves_of key k [] = []"
  "saves_of key k ((t, Save s) # rs) = (if key s = k then [(t, Save s)] else []) @ saves_of key k rs"
  "saves_of key k ((t, Consume s) # rs) = saves_of key k rs"
  by (simp_all add: saves_of_def)

lemma accepts_of_simps [simp]:
  "accepts_of key k [] = []"
  "accepts_of key k ((t, s) # as) = (if key s = k then [(t, s)] else []) @ accepts_of key k as"
  by (simp_all add: accepts_of_def)

section \<open>The contract\<close>

text \<open>
  \<open>expiry m k\<close> is when the state under the key \<open>k\<close> expires, if it is there. A save may add its own key only, for its
  time to live; an accepted state is there and not expired; a consumed one is gone.
\<close>

locale one_time_states =
  fixes key :: "string \<Rightarrow> 'k"
    and ttl :: int
    and save :: "int \<Rightarrow> string \<Rightarrow> 'm \<Rightarrow> 'm"
    and consume :: "int \<Rightarrow> string \<Rightarrow> 'm \<Rightarrow> bool \<times> 'm"
    and expiry :: "'m \<Rightarrow> 'k \<Rightarrow> int option"
  assumes saved: "expiry (save t s m) k = Some e \<Longrightarrow> expiry m k = Some e \<or> k = key s \<and> e = t + ttl"
    and accepted_live: "consume t s m = (True, m') \<Longrightarrow> \<exists>e. expiry m (key s) = Some e \<and> t < e"
    and consumed: "consume t s m = (ok, m') \<Longrightarrow> expiry m' (key s) = None"
    and kept: "consume t s m = (ok, m') \<Longrightarrow> expiry m' k = Some e \<Longrightarrow> expiry m k = Some e"
begin

lemma accepts_bounded:
  "length (accepts_of key k (accepted save consume rs m))
     \<le> length (saves_of key k rs) + (if expiry m k = None then 0 else 1)"
proof (induction rs arbitrary: m)
  case (Cons r rs)
  obtain t q where r: "r = (t, q)" by (cases r)
  show ?case
  proof (cases q)
    case (Save s)
    have "expiry (save t s m) k = None" if "expiry m k = None" "k \<noteq> key s"
      using saved [of t s m k] that by (cases "expiry (save t s m) k") auto
    then show ?thesis using Cons [of "save t s m"] by (auto simp: r Save split: if_splits)
  next
    case (Consume s)
    obtain ok m' where c: "consume t s m = (ok, m')" by (cases "consume t s m")
    have "expiry m' k = None" if "expiry m k = None"
      using kept [OF c] that by (cases "expiry m' k") auto
    moreover have "expiry m (key s) \<noteq> None" if ok
      using accepted_live c that by fastforce
    ultimately show ?thesis
      using Cons [of m'] consumed [OF c] by (auto simp: r Consume c split: if_splits)
  qed
qed simp

lemma accepts_in_time:
  assumes "(t, s) \<in> set (accepted save consume rs m)"
  shows "(\<exists>e. expiry m (key s) = Some e \<and> t < e) \<or> (\<exists>t0 s0. (t0, Save s0) \<in> set rs \<and> key s0 = key s \<and> t < t0 + ttl)"
  using assms
proof (induction rs arbitrary: m)
  case (Cons r rs)
  obtain u q where r: "r = (u, q)" by (cases r)
  show ?case
  proof (cases q)
    case (Save x)
    then have "(t, s) \<in> set (accepted save consume rs (save u x m))" using Cons.prems by (simp add: r)
    from Cons.IH [OF this] show ?thesis using saved [of u x m "key s"] by (auto simp: r Save) blast
  next
    case (Consume x)
    obtain ok m' where c: "consume u x m = (ok, m')" by (cases "consume u x m")
    then consider "ok" "t = u" "s = x" | "(t, s) \<in> set (accepted save consume rs m')"
      using Cons.prems by (auto simp: r Consume split: if_splits)
    then show ?thesis
    proof cases
      case 1
      then show ?thesis using accepted_live c by auto
    next
      case 2
      then show ?thesis using Cons.IH [OF 2] kept [OF c] by (auto simp: r)
    qed
  qed
qed simp

end

interpretation memory_states: one_time_states "hash_state sha256" ttl "memory_save sha256 ttl" "memory_consume sha256" "\<lambda>m k. m k"
  by unfold_locales (auto simp: memory_save_def memory_consume_def Let_def split: if_splits option.splits)

interpretation redis_states: one_time_states "hash_state sha256" ttl "redis_save sha256 ttl" "redis_consume sha256" "\<lambda>m k. m k"
  by unfold_locales (auto simp: redis_save_def redis_consume_def redis_get_def Let_def split: if_splits option.splits)

end
