(* ===== verification/Login.thy ===== *)
theory Login
  imports Oauth_State Token Webhook_Service
begin

text \<open>
  \<open>app/services/github_oauth_service.py\<close> with the client it calls (\<open>app/github/oauth_client.py\<close>) and the queries on
  users: a callback whose state is consumed becomes a user, a token and an audit row. What the HTTP library makes of
  a request to GitHub is an argument.
\<close>

section \<open>The client\<close>

record github_identity =
  gi_user_id :: int
  gi_login :: string
  gi_email :: string

text \<open>An answer that was accepted has a body, or none that is JSON; everything else is an HTTP error.\<close>

datatype http_outcome = Http_error | Not_json | Body json

abbreviation exchange_failed :: exn where
  "exchange_failed \<equiv> Dom (OAuthError GitHubTokenExchangeFailed)"

text \<open>\<open>body.get(...)\<close>, of which only dicts have one.\<close>

definition body_dict :: "json \<Rightarrow> exn + json_dict" where
  "body_dict v = (case v of JDict kvs \<Rightarrow> Inr kvs | _ \<Rightarrow> Inl (Py AttributeError))"

definition read_access_token :: "json \<Rightarrow> exn + string" where
  "read_access_token body =
     rbind (body_dict body) (\<lambda>kvs.
     case (dget kvs ''access_token'', dget kvs ''token_type'') of
       (JStr t, JStr _) \<Rightarrow> if t = [] then Inl exchange_failed else Inr t
     | _ \<Rightarrow> Inl exchange_failed)"

definition exchange_code :: "http_outcome \<Rightarrow> exn + string" where
  "exchange_code outcome =
     (case outcome of Body v \<Rightarrow> read_access_token v | _ \<Rightarrow> Inl exchange_failed)"

definition primary_verified :: "json \<Rightarrow> string option" where
  "primary_verified entry =
     (case entry of
        JDict kvs \<Rightarrow>
          (case dget kvs ''email'' of
             JStr e \<Rightarrow> if dget kvs ''primary'' = JBool True \<and> dget kvs ''verified'' = JBool True then Some e else None
           | _ \<Rightarrow> None)
      | _ \<Rightarrow> None)"

fun first_primary :: "json list \<Rightarrow> string option" where
  "first_primary [] = None"
| "first_primary (e # es) = (case primary_verified e of None \<Rightarrow> first_primary es | Some m \<Rightarrow> Some m)"

definition select_primary_verified_email :: "json \<Rightarrow> string option" where
  "select_primary_verified_email entries = (case entries of JList es \<Rightarrow> first_primary es | _ \<Rightarrow> None)"

text \<open>The address is that of the profile unless it is falsy; then the list of addresses is asked for.\<close>

definition identity_email :: "json_dict \<Rightarrow> http_outcome \<Rightarrow> exn + json" where
  "identity_email user emails =
     (if py_bool (dget user ''email'') then Inr (dget user ''email'')
      else case emails of
        Http_error \<Rightarrow> Inl (Dom (OAuthError GitHubIdentityLookupFailed))
      | Not_json \<Rightarrow> Inl (Dom (OAuthError (MalformedGitHubIdentity ''GitHub identity response is malformed'')))
      | Body v \<Rightarrow> Inr (case select_primary_verified_email v of Some e \<Rightarrow> JStr e | None \<Rightarrow> JNull))"

text \<open>\<open>isinstance(v, int)\<close>, which a boolean passes; an address that is no text is taken by its text.\<close>

definition int_like :: "json \<Rightarrow> int option" where
  "int_like v = (case v of JInt i \<Rightarrow> Some i | JBool b \<Rightarrow> Some (if b then 1 else 0) | _ \<Rightarrow> None)"

definition read_identity :: "json_dict \<Rightarrow> json \<Rightarrow> exn + github_identity" where
  "read_identity user email =
     (case (int_like (dget user ''id''), dget user ''login'') of
        (Some i, JStr login) \<Rightarrow>
          if py_bool email
          then Inr \<lparr> gi_user_id = i, gi_login = login, gi_email = py_str email \<rparr>
          else Inl (Dom (OAuthError (MalformedGitHubIdentity ''GitHub account has no public or verified email available'')))
      | _ \<Rightarrow> Inl (Dom (OAuthError (MalformedGitHubIdentity ''GitHub user response is missing id/login''))))"

definition fetch_identity :: "http_outcome \<Rightarrow> http_outcome \<Rightarrow> exn + github_identity" where
  "fetch_identity profile emails =
     (case profile of
        Http_error \<Rightarrow> Inl (Dom (OAuthError GitHubIdentityLookupFailed))
      | Not_json \<Rightarrow> Inl (Dom (OAuthError (MalformedGitHubIdentity ''GitHub identity response is malformed'')))
      | Body v \<Rightarrow>
          rbind (body_dict v) (\<lambda>user. rbind (identity_email user emails) (\<lambda>email. read_identity user email)))"

section \<open>Users\<close>

definition user_clash :: "user \<Rightarrow> user \<Rightarrow> bool" where
  "user_clash a b \<longleftrightarrow>
     us_id a = us_id b \<or> us_email a = us_email b \<or> same_key (us_github_user_id a) (us_github_user_id b)"

definition put_user :: "user \<Rightarrow> db \<Rightarrow> db" where
  "put_user u d = d \<lparr> db_users := db_users d @ [u] \<rparr>"

definition user_by_github_id :: "int \<Rightarrow> user option session" where
  "user_by_github_id i = fetch_one db_users (\<lambda>u. us_github_user_id u = Some i)"

definition github_user :: "uuid \<Rightarrow> github_identity \<Rightarrow> user" where
  "github_user new_id g =
     \<lparr> us_id = new_id, us_email = gi_email g, us_full_name = None, us_is_active = True,
       us_github_user_id = Some (gi_user_id g), us_github_login = Some (gi_login g) \<rparr>"

definition create_from_github :: "uuid \<Rightarrow> github_identity \<Rightarrow> user session" where
  "create_from_github new_id g =
     sthen (flush_row db_users user_clash (\<lambda>_ _. True) put_user (github_user new_id g)) (sreturn (github_user new_id g))"

lemma same_key_commute: "same_key a b \<longleftrightarrow> same_key b a"
  by (auto simp: same_key_def)

interpretation users: unique_table user_clash db_users put_user
  by unfold_locales (simp_all add: user_clash_def put_user_def same_key_commute eq_commute)

section \<open>The login\<close>

definition login_url :: "(string \<times> string \<Rightarrow> string) \<Rightarrow> string \<Rightarrow> string \<Rightarrow> string \<Rightarrow> string" where
  "login_url urlencoded client_id redirect_uri state =
     ''https://github.com/login/oauth/authorize?''
     @ concat (map (\<lambda>(i, p). (if i = (0 :: nat) then [] else ''&'') @ urlencoded p)
         (zip [0 ..< 5] [(''client_id'', client_id), (''redirect_uri'', redirect_uri), (''scope'', ''read:user user:email''),
           (''state'', state), (''allow_signup'', ''true'')]))"

text \<open>The state saved and the address the browser is sent to; \<open>fresh\<close> is the random state.\<close>

definition start_login ::
  "(string \<Rightarrow> 'm \<Rightarrow> (exn + unit) \<times> 'm) \<Rightarrow> (string \<Rightarrow> string) \<Rightarrow> string \<Rightarrow> 'm \<Rightarrow> (exn + string \<times> string) \<times> 'm" where
  "start_login save url fresh m =
     (case save fresh m of
        (Inl e, m') \<Rightarrow> (Inl e, m')
      | (Inr _, m') \<Rightarrow> (Inr (url fresh, fresh), m'))"

record callback_result =
  cb_access_token :: string
  cb_user_id :: uuid
  cb_email :: string
  cb_organization_id :: "uuid option"
  cb_role :: "organization_role option"
  cb_requires_onboarding :: bool

record oauth_client =
  exchanged :: "string \<Rightarrow> exn + string"
  identified :: "string \<Rightarrow> exn + github_identity"

definition login_failure :: "string \<Rightarrow> audit_event" where
  "login_failure reason = audit_record LOGIN_FAILURE None None None None None [(''reason'', JStr reason)]"

definition record_login_failure :: "string \<Rightarrow> unit session" where
  "record_login_failure reason = sthen (audit (login_failure reason)) scommit"

definition find_or_create_user :: "(db \<Rightarrow> db) \<Rightarrow> uuid \<Rightarrow> github_identity \<Rightarrow> user session" where
  "find_or_create_user others new_id g =
     sbind (user_by_github_id (gi_user_id g)) (\<lambda>u. case u of
       Some u \<Rightarrow> sreturn u
     | None \<Rightarrow>
         sthen (concurrently others)
           (sbind (create_from_github new_id g) (\<lambda>u. sthen scommit (sreturn u))))"

text \<open>A token names an organization only for the member of exactly one.\<close>

definition sole_membership :: "organization_member list \<Rightarrow> organization_member option" where
  "sole_membership ms = (case ms of [m] \<Rightarrow> Some m | _ \<Rightarrow> None)"

definition login_success :: "user \<Rightarrow> uuid option \<Rightarrow> github_identity \<Rightarrow> audit_event" where
  "login_success u organization_id g =
     audit_record LOGIN_SUCCESS organization_id (Some (us_id u)) (Some ''user'') (Some (uuid_str (us_id u))) None
       [(''github_login'', JStr (gi_login g))]"

definition issue_login ::
  "(string \<Rightarrow> string \<Rightarrow> string) \<Rightarrow> auth_settings \<Rightarrow> int \<Rightarrow> int \<Rightarrow> user \<Rightarrow> github_identity \<Rightarrow> callback_result session" where
  "issue_login mac st expire_minutes now u g =
     sbind (sread (members_of_user (us_id u))) (\<lambda>ms.
     let m = sole_membership ms; organization_id = map_option om_organization_id m
     in sbind (slift (encode_token mac (uuid_str (us_id u)) (st_jwt_secret st) (st_jwt_algorithm st) (st_jwt_issuer st)
                 (st_jwt_audience st) (expire_minutes * 60) (map_option uuid_str organization_id) now)) (\<lambda>token.
        sthen (audit (login_success u organization_id g))
          (sreturn \<lparr> cb_access_token = token, cb_user_id = us_id u, cb_email = us_email u,
                     cb_organization_id = organization_id, cb_role = map_option om_role m,
                     cb_requires_onboarding = (ms = []) \<rparr>)))"

definition trusted_callback ::
  "(string \<Rightarrow> string \<Rightarrow> string) \<Rightarrow> auth_settings \<Rightarrow> int \<Rightarrow> int \<Rightarrow> oauth_client \<Rightarrow> (db \<Rightarrow> db) \<Rightarrow> uuid \<Rightarrow> string option \<Rightarrow>
   string option \<Rightarrow> callback_result session" where
  "trusted_callback mac st expire_minutes now client others new_id grant error =
     (if \<not> falsy error
      then sthen (record_login_failure ''authorization_denied'')
             (sraise (Dom (OAuthError (GitHubAuthorizationDenied ''GitHub authorization was denied''))))
      else if falsy grant then sraise (Dom (OAuthError MissingAuthorizationCode))
      else
        sbind (slift (rbind (exchanged client (the grant)) (identified client))) (\<lambda>g.
        sbind (find_or_create_user others new_id g) (\<lambda>u. issue_login mac st expire_minutes now u g)))"

definition handle_callback ::
  "(string \<Rightarrow> string \<Rightarrow> string) \<Rightarrow> auth_settings \<Rightarrow> int \<Rightarrow> int \<Rightarrow> oauth_client \<Rightarrow> (string \<Rightarrow> 'm \<Rightarrow> (exn + bool) \<times> 'm) \<Rightarrow> (db \<Rightarrow> db) \<Rightarrow>
   uuid \<Rightarrow> string option \<Rightarrow> string option \<Rightarrow> string option \<Rightarrow> 'm \<Rightarrow> callback_result session \<times> 'm" where
  "handle_callback mac st expire_minutes now client consume others new_id grant state error m =
     (let (r, m') = (if falsy state then (Inr False, m) else consume (the state) m)
      in (case r of
            Inl e \<Rightarrow> sraise e
          | Inr False \<Rightarrow> sthen (record_login_failure ''invalid_state'') (sraise (Dom (OAuthError OAuthStateInvalid)))
          | Inr True \<Rightarrow> trusted_callback mac st expire_minutes now client others new_id grant error, m'))"

end
