(* ===== verification/Login_Properties.thy ===== *)
theory Login_Properties
  imports Login Token_Properties
begin

text \<open>
  The properties of the login: a state is good for one callback, without one nothing else of a callback is looked
  at, and a login that succeeds gives a token that stands for the user GitHub identified.
\<close>

section \<open>States\<close>

definition one_time :: "(string \<Rightarrow> 'k) \<Rightarrow> int \<Rightarrow> (int \<Rightarrow> string \<Rightarrow> 'm \<Rightarrow> 'm) \<Rightarrow> (int \<Rightarrow> string \<Rightarrow> 'm \<Rightarrow> bool \<times> 'm) \<Rightarrow>
    (int \<times> state_request) list \<Rightarrow> 'm \<Rightarrow> string \<Rightarrow> bool" where
  "one_time key ttl save consume rs m s \<longleftrightarrow>
     length (accepts_of key (key s) (accepted save consume rs m)) \<le> length (saves_of key (key s) rs)
     \<and> (\<forall>t. (t, s) \<in> set (accepted save consume rs m) \<longrightarrow>
          (\<exists>t0 s0. (t0, Save s0) \<in> set rs \<and> key s0 = key s \<and> t < t0 + ttl))"

text \<open>
  C15: in any sequence of logins and callbacks, at any times, a state that is not yet stored is accepted at most as
  often as it is saved, each time before the expiry of a save; in the Redis store, where a second save of a live state
  has no effect, and in the store of the tests.
\<close>

theorem state_used_once:
  assumes "m (hash_state sha256 s) = None"
  shows "one_time (hash_state sha256) ttl (redis_save sha256 ttl) (redis_consume sha256) rs m s
    \<and> one_time (hash_state sha256) ttl (memory_save sha256 ttl) (memory_consume sha256) rs m s"
  using assms redis_states.accepts_bounded [of sha256 "hash_state sha256 s" ttl rs m]
    memory_states.accepts_bounded [of sha256 "hash_state sha256 s" ttl rs m]
    redis_states.accepts_in_time [of _ s sha256 ttl rs m] memory_states.accepts_in_time [of _ s sha256 ttl rs m]
  by (auto simp: one_time_def)

theorem state_used_once_witness:
  "one_time (hash_state id) 600 (redis_save id 600) (redis_consume id)
     [(0, Save ''x''), (5, Consume ''x''), (6, Consume ''x''), (7, Save ''x''), (607, Consume ''x'')] Map.empty ''x''
   \<and> accepted (redis_save id 600) (redis_consume id)
       [(0, Save ''x''), (5, Consume ''x''), (6, Consume ''x''), (7, Save ''x''), (607, Consume ''x'')] Map.empty = [(5, ''x'')]"
  using state_used_once [of Map.empty id "''x''" 600]
  by (simp add: redis_save_def redis_consume_def redis_get_def Let_def)

section \<open>Callbacks\<close>

text \<open>The store of states answers, or is out of reach.\<close>

definition answers_or_unavailable :: "(string \<Rightarrow> 'm \<Rightarrow> (exn + bool) \<times> 'm) \<Rightarrow> bool" where
  "answers_or_unavailable consume \<longleftrightarrow>
     (\<forall>x m e. fst (consume x m) = Inl e \<longrightarrow> e = Dom (OAuthError OAuthStateStoreUnavailable))"

lemma failure_run:
  "request (sthen (record_login_failure reason) (sraise e)) d = (Inl e, put_audit (login_failure reason) d)"
  by (simp add: request_def record_login_failure_def audit_def session_simps)

text \<open>
  C40: a callback without a state that is consumed is refused, with 401, or 503 if the states are out of reach: GitHub is
  not asked, neither the code nor the error it carries is looked at, and all that is written is one audit row.
\<close>

theorem login_needs_state:
  assumes "falsy state \<or> fst (consume (the state) m) \<noteq> Inr True" "answers_or_unavailable consume"
  shows "\<exists>e d'. (\<forall>client grant error new_id others.
      request (fst (handle_callback mac st minutes now client consume others new_id grant state error m)) d = (Inl e, d'))
    \<and> http_answer e \<in> {(401, INVALID_TOKEN), (503, SERVICE_UNAVAILABLE)}
    \<and> d' \<in> {d, put_audit (login_failure ''invalid_state'') d}"
proof -
  let ?r = "if falsy state then Inr False else fst (consume (the state) m)"
  have run: "fst (handle_callback mac st minutes now client consume others new_id grant state error m) =
      (case ?r of Inl e \<Rightarrow> sraise e
       | Inr False \<Rightarrow> sthen (record_login_failure ''invalid_state'') (sraise (Dom (OAuthError OAuthStateInvalid)))
       | Inr True \<Rightarrow> trusted_callback mac st minutes now client others new_id grant error)"
    for client others new_id grant error
    by (cases "consume (the state) m") (simp add: handle_callback_def)
  consider e where "?r = Inl e" "e = Dom (OAuthError OAuthStateStoreUnavailable)" | "?r = Inr False"
    using assms by (cases ?r) (auto simp: answers_or_unavailable_def split: if_splits)
  then show ?thesis
  proof cases
    case 1
    then show ?thesis unfolding run by (auto simp: request_def session_basic)
  next
    case 2
    then show ?thesis unfolding run by (auto simp: failure_run)
  qed
qed

theorem login_needs_state_witness:
  "\<exists>e d'. (\<forall>client grant error new_id others.
      request (fst (handle_callback sample_mac sample_settings 60 0 client
        (\<lambda>x m. reachable_or True (redis_consume id 5 x m) m) others new_id grant (Some ''guess'') error Map.empty)) tenant_db = (Inl e, d'))
    \<and> http_answer e \<in> {(401, INVALID_TOKEN), (503, SERVICE_UNAVAILABLE)}
    \<and> d' \<in> {tenant_db, put_audit (login_failure ''invalid_state'') tenant_db}"
proof (rule login_needs_state)
  show "falsy (Some ''guess'') \<or> fst (reachable_or True (redis_consume id 5 (the (Some ''guess'')) Map.empty) Map.empty) \<noteq> Inr True"
    by (simp add: reachable_or_def redis_consume_def redis_get_def Let_def)
  show "answers_or_unavailable (\<lambda>x m. reachable_or True (redis_consume id 5 x m) m)"
    by (simp add: answers_or_unavailable_def reachable_or_def)
qed

section \<open>The token of a login\<close>




text \<open>An address that another user has keeps a new user out, at every attempt, with an error nothing catches.\<close>

lemma login_email_taken:
  assumes "user_by_github_id (gi_user_id g) s = (Inr None, s)" "v \<in> set (db_users (tx_current s))" "us_email v = gi_email g"
  shows "fst (find_or_create_user (\<lambda>d. d) i g s) = Inl IntegrityError"
  using assms
  by (auto simp: find_or_create_user_def sbind_def sthen_def concurrently_eq create_from_github_def flush_row_def user_clash_def
      github_user_def list_ex_iff)












end
