(* ===== verification/Rate_Limit.thy ===== *)
theory Rate_Limit
  imports Json_Text Base64 Py_Convert Session
begin

text \<open>
  \<open>app/core/rate_limit.py\<close> and \<open>app/api/deps/rate_limit.py\<close>: fixed windows counted in Redis, or in a dict by the
  limiter of the tests, and the identity a request is counted under. Times are seconds on one clock, that of
  the API and of Redis; a Redis counter is its value with its expiry, and is gone from then on.
\<close>

section \<open>Counters\<close>

definition window_index :: "int \<Rightarrow> rat \<Rightarrow> int" where
  "window_index window now = \<lfloor>now / of_int window\<rfloor>"

definition build_key :: "string \<Rightarrow> string \<Rightarrow> int \<Rightarrow> rat \<Rightarrow> string" where
  "build_key bucket identity window now =
     ''rate:'' @ bucket @ '':'' @ identity @ '':'' @ int_str (window_index window now)"

definition retry_after_seconds :: "int \<Rightarrow> rat \<Rightarrow> int" where
  "retry_after_seconds window now =
     max 1 (truncate_rat (of_int window - (now - of_int (window * window_index window now))))"

record rate_limit_result =
  rl_allowed :: bool
  rl_limit :: int
  rl_remaining :: int
  rl_retry_after :: int

definition rate_limit_result_of :: "int \<Rightarrow> int \<Rightarrow> int \<Rightarrow> rat \<Rightarrow> rate_limit_result" where
  "rate_limit_result_of current limit window now =
     \<lparr> rl_allowed = current \<le> limit, rl_limit = limit, rl_remaining = max 0 (limit - current),
       rl_retry_after = retry_after_seconds window now \<rparr>"

type_synonym counters = "string \<rightharpoonup> int \<times> rat"

text \<open>The script: \<open>INCR\<close>, which starts a missing key at 0, and \<open>EXPIRE\<close> by the request that created it.\<close>

definition fixed_window_script :: "string \<Rightarrow> int \<Rightarrow> rat \<Rightarrow> counters \<Rightarrow> int \<times> counters" where
  "fixed_window_script key window now m =
     (case m key of
        Some (n, expires_at) \<Rightarrow>
          if now < expires_at
          then (n + 1, m(key \<mapsto> (n + 1, if n + 1 = 1 then now + of_int window else expires_at)))
          else (1, m(key \<mapsto> (1, now + of_int window)))
      | None \<Rightarrow> (1, m(key \<mapsto> (1, now + of_int window))))"

definition redis_check :: "string \<Rightarrow> int \<Rightarrow> int \<Rightarrow> rat \<Rightarrow> counters \<Rightarrow> rate_limit_result \<times> counters" where
  "redis_check key limit window now m =
     (let (current, m') = fixed_window_script key window now m
      in (rate_limit_result_of current limit window now, m'))"

definition memory_check ::
  "string \<Rightarrow> int \<Rightarrow> int \<Rightarrow> rat \<Rightarrow> (string \<rightharpoonup> int) \<Rightarrow> rate_limit_result \<times> (string \<rightharpoonup> int)" where
  "memory_check key limit window now m =
     (let current = (case m key of Some n \<Rightarrow> n | None \<Rightarrow> 0) + 1
      in (rate_limit_result_of current limit window now, m(key \<mapsto> current)))"

text \<open>A limiter whose Redis is out of reach raises, and nothing is known to be counted.\<close>

definition guarded_check ::
  "bool \<Rightarrow> string \<Rightarrow> int \<Rightarrow> int \<Rightarrow> rat \<Rightarrow> counters \<Rightarrow> (exn + rate_limit_result) \<times> counters" where
  "guarded_check up key limit window now m =
     (if up then map_prod Inr id (redis_check key limit window now m)
      else (Inl (Dom RateLimiterUnavailable), m))"

definition enforce ::
  "(string \<Rightarrow> int \<Rightarrow> int \<Rightarrow> rat \<Rightarrow> 'm \<Rightarrow> (exn + rate_limit_result) \<times> 'm) \<Rightarrow> string \<Rightarrow> string \<Rightarrow> int \<Rightarrow> int \<Rightarrow> rat \<Rightarrow> 'm \<Rightarrow>
   (exn + unit) \<times> 'm" where
  "enforce check bucket identity limit window now m =
     (case check (build_key bucket identity window now) limit window now m of
        (Inl e, m') \<Rightarrow> (Inl e, m')
      | (Inr r, m') \<Rightarrow>
          (if rl_allowed r then Inr () else Inl (Dom (RateLimited (rl_retry_after r))), m'))"

section \<open>Identities\<close>

text \<open>\<open>header\<close> is the value of \<open>X-Forwarded-For\<close>, \<open>peer\<close> the address of the TCP connection.\<close>

definition hops_of :: "string \<Rightarrow> string list" where
  "hops_of header = filter (\<lambda>hop. hop \<noteq> []) (map strip (split_at (CHR '','') header))"

definition get_client_identity :: "int \<Rightarrow> string option \<Rightarrow> string option \<Rightarrow> string" where
  "get_client_identity trusted_proxy_count header peer =
     (let direct = (case peer of Some host \<Rightarrow> host | None \<Rightarrow> ''unknown'')
      in case header of
           Some h \<Rightarrow>
             (let hops = hops_of h; trusted_index = int (length hops) - trusted_proxy_count
              in if 0 < trusted_proxy_count \<and> h \<noteq> [] \<and> 0 \<le> trusted_index \<and> trusted_index < int (length hops)
                 then hops ! nat trusted_index else direct)
         | None \<Rightarrow> direct)"

definition rate_limit_by_client ::
  "bool \<Rightarrow> int \<Rightarrow> string option \<Rightarrow> string option \<Rightarrow> string \<Rightarrow> int \<Rightarrow> int \<Rightarrow> rat \<Rightarrow> counters \<Rightarrow> (exn + unit) \<times> counters" where
  "rate_limit_by_client up trusted_proxy_count header peer bucket limit window now m =
     enforce (guarded_check up) bucket (get_client_identity trusted_proxy_count header peer) limit window now m"

definition rate_limit_by_user ::
  "bool \<Rightarrow> uuid \<Rightarrow> string \<Rightarrow> int \<Rightarrow> int \<Rightarrow> rat \<Rightarrow> counters \<Rightarrow> (exn + unit) \<times> counters" where
  "rate_limit_by_user up user_id bucket limit window now m =
     enforce (guarded_check up) bucket (uuid_str user_id) limit window now m"

section \<open>The contract of a limiter\<close>

text \<open>The requests let through, in a sequence of requests each with its key and time.\<close>

fun let_through ::
  "(string \<Rightarrow> rat \<Rightarrow> 'm \<Rightarrow> bool \<times> 'm) \<Rightarrow> (string \<times> rat) list \<Rightarrow> 'm \<Rightarrow> (string \<times> rat) list" where
  "let_through check [] m = []"
| "let_through check ((k, t) # rs) m =
     (case check k t m of (ok, m') \<Rightarrow> (if ok then [(k, t)] else []) @ let_through check rs m')"

text \<open>
  \<open>counted m k\<close> is what the store counts for a key and \<open>lasts m k e\<close> says that it does so until the time \<open>e\<close>.
\<close>

locale fixed_window =
  fixes limit :: int
    and window :: int
    and check :: "string \<Rightarrow> rat \<Rightarrow> 'm \<Rightarrow> bool \<times> 'm"
    and counted :: "'m \<Rightarrow> string \<Rightarrow> int"
    and lasts :: "'m \<Rightarrow> string \<Rightarrow> rat \<Rightarrow> bool"
  assumes decided: "check k t m = (ok, m') \<Longrightarrow> lasts m k e \<Longrightarrow> t < e \<Longrightarrow> ok \<longleftrightarrow> counted m k < limit"
    and incremented: "check k t m = (ok, m') \<Longrightarrow> lasts m k e \<Longrightarrow> t < e \<Longrightarrow> e \<le> t + of_int window \<Longrightarrow>
      counted m' k = counted m k + 1 \<and> lasts m' k e"
    and untouched: "check k t m = (ok, m') \<Longrightarrow> k' \<noteq> k \<Longrightarrow> counted m' k' = counted m k' \<and> (lasts m' k' e \<longleftrightarrow> lasts m k' e)"
begin

lemma let_through_key:
  assumes "\<And>t. (k, t) \<in> set rs \<Longrightarrow> t < e \<and> e \<le> t + of_int window" "lasts m k e"
  shows "filter (\<lambda>r. fst r = k) (let_through check rs m) = take (nat (limit - counted m k)) (filter (\<lambda>r. fst r = k) rs)"
  using assms
proof (induction rs arbitrary: m)
  case (Cons r rs)
  obtain k' t where r: "r = (k', t)" by (cases r)
  obtain ok m' where c: "check k' t m = (ok, m')" by (cases "check k' t m")
  show ?case
  proof (cases "k' = k")
    case True
    then have t: "t < e" "e \<le> t + of_int window" using Cons.prems(1) [of t] by (auto simp: r)
    have next_: "counted m' k = counted m k + 1" "lasts m' k e"
      using incremented [OF c [unfolded True] Cons.prems(2) t] by simp_all
    have ok: "ok \<longleftrightarrow> counted m k < limit" using decided [OF c [unfolded True] Cons.prems(2) t(1)] .
    show ?thesis
      using Cons.IH [OF _ next_(2)] Cons.prems(1) ok
      by (cases "counted m k < limit")
        (auto simp: r True c [unfolded True] next_(1) take_Cons' nat_diff_distrib intro: arg_cong [where f = "\<lambda>n. take n _"])
  next
    case False
    then have "counted m' k = counted m k" "lasts m' k e" using untouched [OF c, of k e] Cons.prems(2) by auto
    then show ?thesis using Cons.IH [of m'] Cons.prems(1) False by (auto simp: r c)
  qed
qed simp

end

interpretation redis_window: fixed_window limit window
    "\<lambda>k t m. map_prod rl_allowed id (redis_check k limit window t m)"
    "\<lambda>m k. case m k of Some (n, _) \<Rightarrow> n | None \<Rightarrow> 0"
    "\<lambda>m k e. case m k of Some (n, expires_at) \<Rightarrow> 1 \<le> n \<and> e \<le> expires_at | None \<Rightarrow> True"
  by unfold_locales
    (auto simp: redis_check_def fixed_window_script_def rate_limit_result_of_def Let_def split: option.splits if_splits)

interpretation memory_window: fixed_window limit window
    "\<lambda>k t m. map_prod rl_allowed id (memory_check k limit window t m)"
    "\<lambda>m k. case m k of Some n \<Rightarrow> n | None \<Rightarrow> 0" "\<lambda>m k e. True"
  by unfold_locales (auto simp: memory_check_def rate_limit_result_of_def Let_def split: option.splits)

end
