(* ===== verification/Rate_Properties.thy ===== *)
theory Rate_Properties
  imports Rate_Limit
begin

text \<open>
  The properties of the rate limits: how many requests of one identity get through in a window, and that the identity
  of a client is not of its own choosing.
\<close>

section \<open>Keys\<close>




lemma append_sep_left:
  assumes "sep \<notin> set a" "sep \<notin> set b"
  shows "a @ sep # s = b @ sep # t \<longleftrightarrow> a = b \<and> s = t"
proof
  assume eq: "a @ sep # s = b @ sep # t"
  have "takeWhile (\<lambda>c. c \<noteq> sep) (a @ sep # s) = a" "takeWhile (\<lambda>c. c \<noteq> sep) (b @ sep # t) = b"
    using assms by (subst takeWhile_append2; auto)+
  then show "a = b \<and> s = t" using eq by simp
qed simp




lemma build_key_buckets:
  assumes "CHR '':'' \<notin> set b" "CHR '':'' \<notin> set b'" "b \<noteq> b'"
  shows "build_key b i window t \<noteq> build_key b' i' window' t'"
  using assms by (simp add: build_key_def append_sep_left)

lemma window_bounds:
  assumes "0 < window"
  shows "now < of_int (window * (window_index window now + 1))"
    "of_int (window * (window_index window now + 1)) \<le> now + of_int window"
proof -
  have w: "0 < (of_int window :: rat)" using assms by simp
  have "now / of_int window < of_int (window_index window now) + 1" "of_int (window_index window now) \<le> now / of_int window"
    by (simp_all add: window_index_def) linarith
  then show "now < of_int (window * (window_index window now + 1))"
    "of_int (window * (window_index window now + 1)) \<le> now + of_int window"
    using w by (simp_all add: field_simps)
qed

section \<open>Windows\<close>








section \<open>Waiting\<close>

text \<open>
  The time to wait is at least a second and at most the window. The part of a second that is left is cut off, and
  then a caller that waits as told is still in the window it is refused in.
\<close>

lemma retry_after_in_window:
  assumes "0 < window"
  shows "1 \<le> retry_after_seconds window now" "retry_after_seconds window now \<le> window"
  using assms window_bounds [OF assms, of now]
  by (simp_all add: retry_after_seconds_def truncate_rat_def field_simps) linarith+

lemma retry_too_early:
  "retry_after_seconds 60 (1 / 2) = 59" "window_index 60 (1 / 2 + 59) = window_index 60 (1 / 2)"
proof -
  have "window_index 60 (1 / 2) = 0" "window_index 60 (1 / 2 + 59) = 0" by (simp_all add: window_index_def floor_eq_iff)
  moreover have "\<lfloor>119 / 2 :: rat\<rfloor> = 59" by (simp add: floor_eq_iff)
  ultimately show "retry_after_seconds 60 (1 / 2) = 59" "window_index 60 (1 / 2 + 59) = window_index 60 (1 / 2)"
    by (simp_all add: retry_after_seconds_def truncate_rat_def)
qed

section \<open>Identities\<close>

lemma split_at_sep: "split_at sep (s @ sep # t) = split_at sep s @ split_at sep t"
  by (induction s) (auto split: list.splits)

lemma split_join: "(\<And>p. p \<in> set ps \<Longrightarrow> sep \<notin> set p) \<Longrightarrow> ps \<noteq> [] \<Longrightarrow> split_at sep (join_at sep ps) = ps"
  by (induction sep ps rule: join_at.induct) auto

lemma hops_of_appended:
  assumes "ps \<noteq> []" "\<And>p. p \<in> set ps \<Longrightarrow> CHR '','' \<notin> set p \<and> strip p \<noteq> []"
  shows "hops_of (join_at (CHR '','') ps) = map strip ps"
    "hops_of (s @ CHR '','' # join_at (CHR '','') ps) = hops_of s @ map strip ps"
  using assms by (simp_all add: hops_of_def split_at_sep split_join filter_map comp_def)

text \<open>
  C39: behind \<open>n\<close> trusted proxies, each of which appends the address it got the request from, a client is counted
  under the address the outermost of them saw, whatever the client itself puts into the header; and where no proxy is
  trusted, under the address of the connection.
\<close>

theorem client_identity_seen:
  assumes "hops \<noteq> []" "\<And>p. p \<in> set hops \<Longrightarrow> CHR '','' \<notin> set p \<and> strip p \<noteq> []"
    and "header = join_at (CHR '','') hops \<or> header = supplied @ CHR '','' # join_at (CHR '','') hops"
  shows "get_client_identity (int (length hops)) (Some header) peer = strip (hd hops)
    \<and> get_client_identity 0 (Some header) (Some host) = host"
proof -
  obtain before where hops: "hops_of header = before @ map strip hops"
    using hops_of_appended [OF assms(1,2)] assms(3) by (metis append_Nil)
  then have "header \<noteq> []" using assms(1) by (auto simp: hops_of_def strip_def)
  then show ?thesis
    using assms(1) by (auto simp: get_client_identity_def Let_def hops nth_append hd_conv_nth)
qed

theorem client_identity_seen_witness:
  "get_client_identity 2 (Some ''6.6.6.6, 1.2.3.4, 10.0.0.1'') (Some ''10.0.0.2'') = ''1.2.3.4''"
proof -
  let ?hops = "['' 1.2.3.4'', '' 10.0.0.1'']"
  have hop: "CHR '','' \<notin> set p \<and> strip p \<noteq> []" if "p \<in> set ?hops" for p
    using that by (auto simp: strip_def is_space_def code_def Let_def)
  show ?thesis
    using client_identity_seen [OF _ hop, of ?hops "''6.6.6.6, 1.2.3.4, 10.0.0.1''" "''6.6.6.6''" "Some ''10.0.0.2''"]
    by (simp add: strip_def is_space_def code_def Let_def)
qed

text \<open>A limiter that cannot count lets nothing through.\<close>

lemma enforce_unreachable: "enforce (guarded_check False) bucket i limit window now m = (Inl (Dom RateLimiterUnavailable), m)"
  by (simp add: enforce_def guarded_check_def)

end
