(* ===== verification/Body_Limit.thy ===== *)
theory Body_Limit
  imports Py_Convert Errors
begin

text \<open>
  \<open>app/core/request_size.py\<close>: the limit on request bodies. A request is its headers, in order, and the messages the
  server hands to the application one by one; an application that is refused a message sees an exception, which the
  middleware turns into the answer 413.
\<close>

datatype asgi_message = Http_Request nat | Other_Message

text \<open>\<open>int(b)\<close> of bytes: as for text, but the white space is that of ASCII.\<close>

definition int_of_bytes :: "string \<Rightarrow> py_error + int" where
  "int_of_bytes b =
     (if list_ex (\<lambda>c. code c \<in> {28, 29, 30, 31, 133, 160}) b then Inl ValueError else int_of_text b)"

text \<open>\<open>dict(headers).get(...)\<close>: of several headers of one name the last is kept.\<close>

definition header_value :: "string \<Rightarrow> (string \<times> string) list \<Rightarrow> string option" where
  "header_value name headers = map_of (rev headers) name"

definition declared_too_large :: "int \<Rightarrow> (string \<times> string) list \<Rightarrow> bool" where
  "declared_too_large max_bytes headers =
     (case header_value ''content-length'' headers of
        None \<Rightarrow> False
      | Some b \<Rightarrow> (case int_of_bytes b of Inr n \<Rightarrow> max_bytes < n | Inl _ \<Rightarrow> False))"

text \<open>\<open>_receive_with_limit\<close>: the message and the new total, or \<open>_RequestTooLarge\<close>.\<close>

definition receive_with_limit :: "int \<Rightarrow> int \<Rightarrow> asgi_message \<Rightarrow> (asgi_message \<times> int) option" where
  "receive_with_limit max_bytes seen message =
     (case message of
        Http_Request body \<Rightarrow>
          (let seen' = seen + int body in if max_bytes < seen' then None else Some (message, seen'))
      | Other_Message \<Rightarrow> Some (message, seen))"

text \<open>What an application that reads on gets, and whether it is cut off.\<close>

fun received :: "int \<Rightarrow> int \<Rightarrow> asgi_message list \<Rightarrow> asgi_message list \<times> bool" where
  "received max_bytes seen [] = ([], False)"
| "received max_bytes seen (m # ms) =
     (case receive_with_limit max_bytes seen m of
        None \<Rightarrow> ([], True)
      | Some (m', seen') \<Rightarrow> (case received max_bytes seen' ms of (got, stopped) \<Rightarrow> (m' # got, stopped)))"

datatype http_exchange = Too_Large | Passed_On "asgi_message list"

text \<open>The answer 413, before the application is called or from inside its reading, or all messages passed on.\<close>

definition limit_request :: "int \<Rightarrow> (string \<times> string) list \<Rightarrow> asgi_message list \<Rightarrow> http_exchange" where
  "limit_request max_bytes headers messages =
     (if declared_too_large max_bytes headers then Too_Large
      else case received max_bytes 0 messages of (got, stopped) \<Rightarrow> if stopped then Too_Large else Passed_On got)"

fun body_bytes :: "asgi_message list \<Rightarrow> int" where
  "body_bytes [] = 0"
| "body_bytes (Http_Request n # ms) = int n + body_bytes ms"
| "body_bytes (Other_Message # ms) = body_bytes ms"

lemma body_bytes_nonneg: "0 \<le> body_bytes ms"
  by (induction ms rule: body_bytes.induct) auto

lemma received_chunk:
  "received max_bytes seen (Http_Request n # ms) =
     (if max_bytes < seen + int n then ([], True) else apfst (Cons (Http_Request n)) (received max_bytes (seen + int n) ms))"
  "received max_bytes seen (Other_Message # ms) = apfst (Cons Other_Message) (received max_bytes seen ms)"
  by (simp_all add: receive_with_limit_def Let_def split: prod.split)

lemma received_bounded: "seen \<le> max_bytes \<Longrightarrow> seen + body_bytes (fst (received max_bytes seen ms)) \<le> max_bytes"
proof (induction ms arbitrary: seen)
  case (Cons m ms)
  then show ?case
    using Cons.IH [of "seen + int n" for n] by (cases m) (auto simp: received_chunk add.assoc simp del: received.simps(2))
qed simp

lemma received_whole: "\<not> snd (received max_bytes seen ms) \<Longrightarrow> fst (received max_bytes seen ms) = ms"
proof (induction ms arbitrary: seen)
  case (Cons m ms)
  then show ?case by (cases m) (auto simp: received_chunk simp del: received.simps(2) split: if_splits)
qed simp

lemma received_stopped: "seen \<le> max_bytes \<Longrightarrow> snd (received max_bytes seen ms) \<longleftrightarrow> max_bytes < seen + body_bytes ms"
proof (induction ms arbitrary: seen)
  case (Cons m ms)
  show ?case
  proof (cases m)
    case (Http_Request n)
    then show ?thesis
      using Cons.IH [of "seen + int n"] body_bytes_nonneg [of ms]
      by (auto simp: received_chunk add.assoc simp del: received.simps(2))
  next
    case Other_Message
    then show ?thesis using Cons by (simp add: received_chunk del: received.simps(2))
  qed
qed simp

text \<open>
  C36: whatever its headers declare, a request is passed on exactly as it is when its body is within the limit and no
  longer body is declared, and is answered with 413 otherwise; the application never gets more bytes than the limit.
\<close>

theorem body_limit_exact:
  assumes "0 \<le> max_bytes"
  shows "limit_request max_bytes headers messages =
      (if declared_too_large max_bytes headers \<or> max_bytes < body_bytes messages then Too_Large else Passed_On messages)
    \<and> body_bytes (fst (received max_bytes 0 messages)) \<le> max_bytes"
  using assms received_bounded [of 0 max_bytes messages] received_stopped [of 0 max_bytes messages] received_whole [of max_bytes 0 messages]
  by (auto simp: limit_request_def split: prod.split)

theorem body_limit_exact_witness:
  "limit_request 10 [(''content-length'', ''4'')] [Http_Request 4, Http_Request 7] = Too_Large
   \<and> limit_request 10 [(''content-length'', ''4'')] [Http_Request 4, Http_Request 6] = Passed_On [Http_Request 4, Http_Request 6]"
proof -
  have "\<not> declared_too_large 10 [(''content-length'', ''4'')]"
    by (simp add: declared_too_large_def header_value_def int_of_bytes_def int_of_text_def strip_def is_space_def
        int_of_digits_def is_digit_def digits_value_def code_def Let_def)
  then show ?thesis using body_limit_exact [of 10 "[(''content-length'', ''4'')]"] by simp
qed

end
