(* ===== verification/Listings.thy ===== *)
theory Listings
  imports Compat_Service Risk_Service Replay_Service Trajectory_Service Authz
begin

text \<open>
  The listings of the services and of their repositories: a page of the rows of one project, or of one organization,
  the newest first. Rows are stored in the order in which they were created.
\<close>

definition newest_first :: "(db \<Rightarrow> 'r list) \<Rightarrow> ('r \<Rightarrow> bool) \<Rightarrow> nat \<Rightarrow> nat \<Rightarrow> 'r page session" where
  "newest_first table P page page_size = sread (\<lambda>d. page_result page page_size (rev (filter P (table d))))"

text \<open>A filter of a query string: absent, or the value a column must have.\<close>

definition given :: "'k option \<Rightarrow> 'k \<Rightarrow> bool" where
  "given wanted x \<longleftrightarrow> (case wanted of None \<Rightarrow> True | Some k \<Rightarrow> x = k)"

definition list_components :: "uuid \<Rightarrow> component_type option \<Rightarrow> nat \<Rightarrow> nat \<Rightarrow> component_row page session" where
  "list_components project_id ct page page_size =
     sthen (require_project project_id)
       (newest_first db_components (\<lambda>c. cm_project_id c = project_id \<and> given ct (cm_type c)) page page_size)"

definition list_scans :: "uuid \<Rightarrow> uuid option \<Rightarrow> nat \<Rightarrow> nat \<Rightarrow> compatibility_scan page session" where
  "list_scans project_id component_id page page_size =
     newest_first db_scans (\<lambda>c. cs_project_id c = project_id \<and> given component_id (cs_component_id c)) page page_size"

definition list_reports :: "uuid \<Rightarrow> nat \<Rightarrow> nat \<Rightarrow> report_row page session" where
  "list_reports project_id page page_size = newest_first db_reports (\<lambda>r. rw_project_id r = project_id) page page_size"

definition list_assessments :: "uuid \<Rightarrow> nat \<Rightarrow> nat \<Rightarrow> assessment_row page session" where
  "list_assessments project_id page page_size =
     newest_first db_assessments (\<lambda>a. as_project_id a = project_id) page page_size"

definition list_trajectories :: "uuid \<Rightarrow> trajectory_status option \<Rightarrow> nat \<Rightarrow> nat \<Rightarrow> trajectory page session" where
  "list_trajectories project_id status page page_size =
     sthen (require_project project_id)
       (newest_first db_trajectories (\<lambda>t. tj_project_id t = project_id \<and> given status (tj_status t)) page page_size)"

definition list_replays :: "uuid \<Rightarrow> replay_status option \<Rightarrow> nat \<Rightarrow> nat \<Rightarrow> replay_run page session" where
  "list_replays project_id status page page_size =
     sthen (require_project project_id)
       (newest_first db_replays (\<lambda>r. rr_project_id r = project_id \<and> given status (rr_status r)) page page_size)"

text \<open>\<open>GROUP BY replay_run_id\<close>: an entry for each listed replay that has steps.\<close>

definition count_steps_for_replays :: "uuid list \<Rightarrow> (uuid \<times> nat) list session" where
  "count_steps_for_replays replay_ids =
     (if replay_ids = [] then sreturn []
      else sread (\<lambda>d. map (\<lambda>i. (i, length (filter (\<lambda>s. rp_run_id s = i) (db_steps d))))
        (remdups (filter (\<lambda>i. i \<in> set replay_ids) (map rp_run_id (db_steps d))))))"

definition list_projects :: "uuid \<Rightarrow> nat \<Rightarrow> nat \<Rightarrow> project page session" where
  "list_projects organization_id page page_size =
     newest_first db_projects (\<lambda>p. pj_organization_id p = organization_id) page page_size"

definition list_audit_events :: "uuid \<Rightarrow> audit_action option \<Rightarrow> nat \<Rightarrow> nat \<Rightarrow> audit_event page session" where
  "list_audit_events organization_id action page page_size =
     newest_first db_audit (\<lambda>e. ae_organization_id e = Some organization_id \<and> given action (ae_action e)) page page_size"

section \<open>What a listing gives\<close>

lemma readonly_newest_first [readonly_intros]: "readonly (newest_first table P page page_size)"
  by (simp add: newest_first_def readonly_intros)

lemma set_page_of: "x \<in> set (page_of page page_size xs) \<Longrightarrow> x \<in> set xs"
  unfolding page_of_def by (meson in_set_dropD in_set_takeD)

lemma newest_first_rows:
  assumes "newest_first table P page page_size s = (Inr p, t)" "x \<in> set (pg_items p)"
  shows "x \<in> set (table (tx_current s)) \<and> P x"
proof -
  have "pg_items p = page_of page page_size (rev (filter P (table (tx_current s))))"
    using assms(1) by (auto simp: newest_first_def session_basic page_result_def)
  then have "x \<in> set (rev (filter P (table (tx_current s))))" using assms(2) set_page_of by metis
  then show ?thesis by simp
qed

text \<open>The pages of a listing, one after the other, are the whole listing.\<close>

lemma pages_cover: "concat (map (\<lambda>n. page_of (Suc n) page_size xs) [0 ..< k]) = take (k * page_size) xs"
proof (induction k)
  case (Suc k)
  have "take (page_size + k * page_size) xs = take (k * page_size) xs @ take page_size (drop (k * page_size) xs)"
    by (metis add.commute take_add)
  then show ?case using Suc by (simp add: page_of_def)
qed simp

end
