(* ===== verification/Explanation.thy ===== *)
theory Explanation
  imports Compat_Service
begin

text \<open>
  \<open>app/llm/\<close>, \<open>app/services/explanation_service.py\<close>, \<open>app/providers/\<close>: the changes of a scan as evidence for a language
  model, cut to a bound, and its answer, accepted only when it cites that evidence. The exchange with the model is a
  parameter; \<open>ellipsis\<close> is the character the code puts where it cuts, which is outside the text of the model.
\<close>

section \<open>Evidence\<close>

record evidence_item =
  ei_kind :: string
  ei_reference_id :: string
  ei_summary :: string
  ei_detail :: string

record bounded_evidence =
  be_items :: "evidence_item list"
  be_truncated :: bool
  be_original_count :: nat

definition max_evidence_items :: nat where
  "max_evidence_items = 25"

definition max_detail_chars :: nat where
  "max_detail_chars = 500"

definition max_summary_chars :: nat where
  "max_summary_chars = 200"

definition clip_text :: "char \<Rightarrow> nat \<Rightarrow> string \<Rightarrow> string" where
  "clip_text ellipsis n s = (if n < length s then take (n - 1) s @ [ellipsis] else s)"

definition clip :: "char \<Rightarrow> evidence_item \<Rightarrow> evidence_item" where
  "clip ellipsis item =
     (let summary = clip_text ellipsis max_summary_chars (ei_summary item);
          detail = clip_text ellipsis max_detail_chars (ei_detail item)
      in if summary = ei_summary item \<and> detail = ei_detail item then item
         else \<lparr> ei_kind = ei_kind item, ei_reference_id = ei_reference_id item, ei_summary = summary, ei_detail = detail \<rparr>)"

definition bound_evidence :: "char \<Rightarrow> nat \<Rightarrow> evidence_item list \<Rightarrow> bounded_evidence" where
  "bound_evidence ellipsis max_items items =
     (let clipped = map (clip ellipsis) (take max_items items)
      in \<lparr> be_items = clipped, be_truncated = length clipped < length items, be_original_count = length items \<rparr>)"

section \<open>Requests and answers\<close>

record explanation_request =
  er_subject :: string
  er_baseline_label :: string
  er_candidate_label :: string
  er_evidence :: "evidence_item list"
  er_allowed_reference_ids :: "string set"
  er_truncated :: bool
  er_correlation_id :: string

record evidence_reference =
  ev_reference_id :: string
  ev_note :: string

record explanation_response =
  ex_summary :: string
  ex_key_findings :: "string list"
  ex_likely_impact :: "string list"
  ex_remediation_steps :: "string list"
  ex_evidence_references :: "evidence_reference list"
  ex_limitations :: "string list"
  ex_provider :: string
  ex_model :: string

type_synonym llm_provider = "explanation_request \<Rightarrow> exn + explanation_response"

text \<open>The ids an answer cites without leave, which the service and the provider both look for.\<close>

definition unknown_references :: "evidence_reference list \<Rightarrow> string set \<Rightarrow> string list" where
  "unknown_references references allowed = filter (\<lambda>i. i \<notin> allowed) (map ev_reference_id references)"

definition validate_references :: "string \<Rightarrow> evidence_reference list \<Rightarrow> string set \<Rightarrow> exn + unit" where
  "validate_references provider references allowed =
     (let invalid = unknown_references references allowed
      in if invalid = [] then Inr ()
         else Inl (Dom (LLMError (LLMInvalidResponse provider
           (''response cited unknown evidence reference(s): '' @ py_repr (JList (map JStr invalid)))))))"

section \<open>The service\<close>

definition explain_items ::
  "char \<Rightarrow> llm_provider \<Rightarrow> string \<Rightarrow> string \<Rightarrow> string \<Rightarrow> evidence_item list \<Rightarrow> string \<Rightarrow> exn + explanation_response" where
  "explain_items ellipsis provider subject baseline candidate items correlation_id =
     (let bounded = bound_evidence ellipsis max_evidence_items items;
          allowed = set (map ei_reference_id (be_items bounded))
      in rbind (provider \<lparr> er_subject = subject, er_baseline_label = baseline, er_candidate_label = candidate,
           er_evidence = be_items bounded, er_allowed_reference_ids = allowed, er_truncated = be_truncated bounded,
           er_correlation_id = correlation_id \<rparr>) (\<lambda>response.
         rbind (validate_references ''unknown'' (ex_evidence_references response) allowed) (\<lambda>_. Inr response)))"

definition change_detail :: "change \<Rightarrow> string" where
  "change_detail c =
     ''path='' @ ch_path c @ ''; classification='' @ classification_value (ch_class c)
     @ ''; severity='' @ severity_value (ch_severity c)
     @ (if ch_old c = JNull then [] else ''; old='' @ py_repr (ch_old c))
     @ (if ch_new c = JNull then [] else ''; new='' @ py_repr (ch_new c))"

definition change_reference :: "nat \<Rightarrow> change \<Rightarrow> string" where
  "change_reference index c = ''change:'' @ int_str (int index) @ '':'' @ change_type_value (ch_type c)"

definition change_evidence :: "nat \<times> change \<Rightarrow> evidence_item" where
  "change_evidence = (\<lambda>(index, c).
     \<lparr> ei_kind = ''compatibility_change'', ei_reference_id = change_reference index c, ei_summary = ch_message c,
       ei_detail = change_detail c \<rparr>)"

definition explain_compatibility_changes ::
  "char \<Rightarrow> llm_provider \<Rightarrow> string \<Rightarrow> string \<Rightarrow> string \<Rightarrow> change list \<Rightarrow> string \<Rightarrow> exn + explanation_response" where
  "explain_compatibility_changes ellipsis provider subject baseline candidate changes correlation_id =
     explain_items ellipsis provider subject baseline candidate (map change_evidence (enumerate 0 changes)) correlation_id"

definition explain_scan :: "char \<Rightarrow> llm_provider \<Rightarrow> string \<Rightarrow> uuid \<Rightarrow> uuid \<Rightarrow> explanation_response session" where
  "explain_scan ellipsis provider correlation_id project_id scan_id =
     sbind (get_scan project_id scan_id) (\<lambda>scan.
     slift (explain_compatibility_changes ellipsis provider
       (''compatibility scan '' @ uuid_str scan_id @ '' of component '' @ uuid_str (cs_component_id scan))
       (uuid_str (cs_baseline_version_id scan)) (uuid_str (cs_candidate_version_id scan)) (cs_changes scan) correlation_id))"

section \<open>The provider\<close>

text \<open>What comes back from OpenAI: one of the exceptions of its SDK, in the order they are caught, or the text.\<close>

datatype openai_answer =
    API_Timeout | API_Connection_Failed | API_Not_Authenticated | API_Rate_Limited | API_Status int | API_Other
  | API_Output "string option"

fun read_strings :: "json \<Rightarrow> string list option" where
  "read_strings (JList []) = Some []"
| "read_strings (JList (JStr s # vs)) = map_option (Cons s) (read_strings (JList vs))"
| "read_strings _ = None"

text \<open>\<open>extra="forbid"\<close>: these keys, each of its type, and no other.\<close>

definition read_reference :: "json \<Rightarrow> evidence_reference option" where
  "read_reference v =
     (case v of
        JDict kvs \<Rightarrow>
          (case (map_of kvs ''reference_id'', map_of kvs ''note'') of
             (Some (JStr i), Some (JStr n)) \<Rightarrow>
               if set (map fst kvs) \<subseteq> {''reference_id'', ''note''} then Some \<lparr> ev_reference_id = i, ev_note = n \<rparr> else None
           | _ \<Rightarrow> None)
      | _ \<Rightarrow> None)"

fun read_references :: "json \<Rightarrow> evidence_reference list option" where
  "read_references (JList []) = Some []"
| "read_references (JList (v # vs)) =
     (case read_reference v of None \<Rightarrow> None | Some r \<Rightarrow> map_option (Cons r) (read_references (JList vs)))"
| "read_references _ = None"

definition explanation_keys :: "string list" where
  "explanation_keys = [''summary'', ''key_findings'', ''likely_impact'', ''remediation_steps'', ''evidence_references'', ''limitations'']"

definition read_explanation :: "string \<Rightarrow> string \<Rightarrow> json_dict \<Rightarrow> explanation_response option" where
  "read_explanation provider model kvs =
     (let field = (\<lambda>k. case map_of kvs k of Some v \<Rightarrow> read_strings v | None \<Rightarrow> None)
      in if set (map fst kvs) \<subseteq> set explanation_keys
         then (case (map_of kvs ''summary'', field ''key_findings'', field ''likely_impact'', field ''remediation_steps'',
                     Option.bind (map_of kvs ''evidence_references'') read_references, field ''limitations'') of
                 (Some (JStr summary), Some findings, Some impact, Some steps, Some references, Some limits) \<Rightarrow>
                   Some \<lparr> ex_summary = summary, ex_key_findings = findings, ex_likely_impact = impact, ex_remediation_steps = steps,
                     ex_evidence_references = references, ex_limitations = limits, ex_provider = provider, ex_model = model \<rparr>
               | _ \<Rightarrow> None)
         else None)"

definition provider_name :: string where
  "provider_name = ''openai''"

definition parse_response :: "(string \<Rightarrow> json option) \<Rightarrow> string \<Rightarrow> string option \<Rightarrow> exn + explanation_response" where
  "parse_response loads model output =
     (let mismatch = Inl (Dom (LLMError (LLMInvalidResponse provider_name ''response did not match expected schema'')))
      in if output = None \<or> output = Some []
         then Inl (Dom (LLMError (LLMInvalidResponse provider_name ''empty or refused response'')))
         else (case loads (the output) of
                 Some (JDict kvs) \<Rightarrow> (case read_explanation provider_name model kvs of Some r \<Rightarrow> Inr r | None \<Rightarrow> mismatch)
               | _ \<Rightarrow> mismatch))"

definition user_payload :: "explanation_request \<Rightarrow> json" where
  "user_payload r = JDict
     [(''subject'', JStr (er_subject r)), (''baseline_label'', JStr (er_baseline_label r)),
      (''candidate_label'', JStr (er_candidate_label r)), (''truncated'', JBool (er_truncated r)),
      (''evidence'', JList (map (\<lambda>item. JDict
         [(''kind'', JStr (ei_kind item)), (''reference_id'', JStr (ei_reference_id item)),
          (''summary'', JStr (ei_summary item)), (''detail'', JStr (ei_detail item))]) (er_evidence r)))]"

definition openai_explain ::
  "(string \<Rightarrow> json option) \<Rightarrow> (string \<Rightarrow> json \<Rightarrow> openai_answer) \<Rightarrow> string option \<Rightarrow> string \<Rightarrow> rat \<Rightarrow> llm_provider" where
  "openai_explain loads send api_key model timeout_seconds asked =
     (let failed = (\<lambda>detail. Inl (Dom (LLMError (LLMExplanationFailed provider_name detail))))
      in if api_key = None \<or> api_key = Some [] then Inl (Dom (LLMError (LLMProviderNotConfigured provider_name)))
         else (case send model (user_payload asked) of
                 API_Timeout \<Rightarrow> Inl (Dom (LLMError (LLMProviderTimeout provider_name timeout_seconds)))
               | API_Connection_Failed \<Rightarrow> Inl (Dom (LLMError (LLMProviderUnavailable provider_name ''connection error'')))
               | API_Not_Authenticated \<Rightarrow> failed ''authentication failed''
               | API_Rate_Limited \<Rightarrow> failed ''provider rate limit exceeded''
               | API_Status n \<Rightarrow> failed (''upstream status '' @ int_str n)
               | API_Other \<Rightarrow> failed ''unexpected provider error''
               | API_Output output \<Rightarrow>
                   rbind (parse_response loads model output) (\<lambda>r.
                   rbind (validate_references provider_name (ex_evidence_references r) (er_allowed_reference_ids asked))
                     (\<lambda>_. Inr r))))"

text \<open>The provider of the tests, with the requests it got.\<close>

definition fake_explain ::
  "string \<Rightarrow> explanation_request list \<Rightarrow> explanation_request \<Rightarrow> (exn + explanation_response) \<times> explanation_request list" where
  "fake_explain mode calls asked =
     (if mode = ''timeout'' then Inl (Dom (LLMError (LLMProviderTimeout ''fake'' 30)))
      else if mode = ''error'' then Inl (Dom (LLMError (LLMExplanationFailed ''fake'' ''simulated provider failure'')))
      else Inr
        \<lparr> ex_summary = ''Fake explanation of '' @ er_subject asked @ ''.'',
          ex_key_findings = [int_str (int (length (er_evidence asked))) @ '' evidence item(s) supplied.''],
          ex_likely_impact = [''Impact described only from supplied evidence.''],
          ex_remediation_steps = [''Review the cited evidence directly.''],
          ex_evidence_references =
            (if mode = ''invalid_reference'' then [\<lparr> ev_reference_id = ''not-a-real-id'', ev_note = ''fabricated'' \<rparr>]
             else map (\<lambda>item. \<lparr> ev_reference_id = ei_reference_id item, ev_note = [] \<rparr>) (er_evidence asked)),
          ex_limitations =
            (if er_truncated asked then [''Evidence was truncated before this explanation was generated.''] else []),
          ex_provider = ''fake'', ex_model = ''fake-model'' \<rparr>,
      calls @ [asked])"

section \<open>What is asked and what is answered\<close>

lemma length_clip_text: "0 < n \<Longrightarrow> length (clip_text e n s) = min (length s) n"
  by (simp add: clip_text_def)

lemma clip_fields [simp]:
  "ei_kind (clip e i) = ei_kind i" "ei_reference_id (clip e i) = ei_reference_id i"
  "ei_summary (clip e i) = clip_text e max_summary_chars (ei_summary i)"
  "ei_detail (clip e i) = clip_text e max_detail_chars (ei_detail i)"
  by (auto simp: clip_def Let_def)

text \<open>A request never carries more than the bounds, whatever the scan holds, and what fits is passed on as it is.\<close>

lemma bound_evidence_bounds:
  assumes "b = bound_evidence e n items"
  shows "length (be_items b) = min n (length items)"
    "map ei_reference_id (be_items b) = take n (map ei_reference_id items)"
    "list_all (\<lambda>i. length (ei_summary i) \<le> 200 \<and> length (ei_detail i) \<le> 500) (be_items b)"
    "be_truncated b \<longleftrightarrow> n < length items"
  using assms
  by (auto simp: bound_evidence_def Let_def take_map list_all_iff length_clip_text max_summary_chars_def max_detail_chars_def)

lemma bound_evidence_fits:
  "length items \<le> n \<Longrightarrow> list_all (\<lambda>i. length (ei_summary i) \<le> 200 \<and> length (ei_detail i) \<le> 500) items \<Longrightarrow>
   be_items (bound_evidence e n items) = items"
  by (auto simp: bound_evidence_def Let_def list_all_iff clip_def clip_text_def max_summary_chars_def max_detail_chars_def
      intro!: map_idI)

abbreviation cited :: "explanation_response \<Rightarrow> string set" where
  "cited r \<equiv> ev_reference_id ` set (ex_evidence_references r)"

lemma validate_references_iff: "validate_references p refs allowed = Inr u \<longleftrightarrow> ev_reference_id ` set refs \<subseteq> allowed"
  by (auto simp: validate_references_def unknown_references_def Let_def filter_empty_conv)

text \<open>What a provider owes: it cites what it was given.\<close>

locale explanation_provider =
  fixes ask :: "explanation_request \<Rightarrow> exn + explanation_response"
  assumes grounded: "er_allowed_reference_ids r = ei_reference_id ` set (er_evidence r) \<Longrightarrow> ask r = Inr x \<Longrightarrow>
    cited x \<subseteq> er_allowed_reference_ids r"
begin

text \<open>Then the check of the service refuses nothing: its answer is that of the provider.\<close>

lemma service_check_redundant:
  "\<exists>r. explain_items e ask subject baseline candidate items c = ask r
     \<and> er_evidence r = be_items (bound_evidence e max_evidence_items items)"
proof -
  let ?b = "bound_evidence e max_evidence_items items"
  let ?r = "\<lparr> er_subject = subject, er_baseline_label = baseline, er_candidate_label = candidate, er_evidence = be_items ?b,
    er_allowed_reference_ids = set (map ei_reference_id (be_items ?b)), er_truncated = be_truncated ?b, er_correlation_id = c \<rparr>"
  have "explain_items e ask subject baseline candidate items c = ask ?r"
  proof (cases "ask ?r")
    case (Inr x)
    then have "cited x \<subseteq> set (map ei_reference_id (be_items ?b))" using grounded [of ?r x] by simp
    then have "validate_references ''unknown'' (ex_evidence_references x) (set (map ei_reference_id (be_items ?b))) = Inr ()"
      by (simp add: validate_references_iff)
    then show ?thesis using Inr by (simp add: explain_items_def Let_def)
  qed (simp add: explain_items_def Let_def)
  then show ?thesis by (intro exI [of _ ?r]) simp
qed

end

interpretation openai: explanation_provider "openai_explain loads send api_key model timeout"
  for loads send api_key model timeout
  by unfold_locales
    (auto simp: openai_explain_def Let_def rbind_eq_Inr_iff validate_references_iff split: if_splits openai_answer.splits)

interpretation fake: explanation_provider "\<lambda>r. fst (fake_explain ''success'' calls r)" for calls
  by unfold_locales (auto simp: fake_explain_def image_image)

lemma explain_items_eq_Inr:
  assumes "explain_items e ask subject baseline candidate items c = Inr x"
  shows "cited x \<subseteq> set (take max_evidence_items (map ei_reference_id items))"
proof -
  have "cited x \<subseteq> set (map ei_reference_id (be_items (bound_evidence e max_evidence_items items)))"
    using assms by (auto simp: explain_items_def Let_def rbind_eq_Inr_iff validate_references_iff simp del: set_map)
  then show ?thesis by (simp only: bound_evidence_bounds(2) [OF refl])
qed

lemma change_references:
  "map ei_reference_id (map change_evidence (enumerate 0 cs)) = map (\<lambda>(n, c). change_reference n c) (enumerate 0 cs)"
  by (simp add: change_evidence_def split_def comp_def)

lemma first_references:
  "set (take k (map (\<lambda>(n, c). change_reference n c) (enumerate 0 cs))) =
   (\<lambda>n. change_reference n (cs ! n)) ` {..<min k (length cs)}"
proof -
  have "take k (map (\<lambda>(n, c). change_reference n c) (enumerate 0 cs)) =
      map (\<lambda>n. change_reference n (cs ! n)) [0..<min k (length cs)]"
    by (rule nth_equalityI) (simp_all add: nth_enumerate_eq)
  then show ?thesis by (simp add: atLeast0LessThan)
qed

lemma readonly_explain_scan [readonly_intros]: "readonly (explain_scan e ask c pid i)"
  by (simp add: explain_scan_def get_scan_def scan_by_id_def readonly_intros)

text \<open>
  C33: whatever the model answers, an explanation that is returned cites changes of that scan only, by their place among the
  first 25; the scan is one of the project, and nothing is written.
\<close>

theorem explanation_grounded:
  assumes "explain_scan e ask c pid i s = (Inr x, s')"
  shows "s' = s \<and> (\<exists>scan \<in> set (db_scans (tx_current s)). cs_id scan = i \<and> cs_project_id scan = pid
    \<and> (\<forall>r \<in> cited x. \<exists>n < min 25 (length (cs_changes scan)). r = change_reference n (cs_changes scan ! n)))"
proof -
  obtain scan t subject b k where scan: "get_scan pid i s = (Inr scan, t)"
    and x: "explain_compatibility_changes e ask subject b k (cs_changes scan) c = Inr x"
    using assms by (auto simp: explain_scan_def sbind_eq_Inr session_basic)
  have "cited x \<subseteq> (\<lambda>n. change_reference n (cs_changes scan ! n)) ` {..<min 25 (length (cs_changes scan))}"
    using explain_items_eq_Inr [OF x [unfolded explain_compatibility_changes_def]]
    by (simp only: change_references first_references max_evidence_items_def)
  then have "\<forall>r \<in> cited x. \<exists>n < min 25 (length (cs_changes scan)). r = change_reference n (cs_changes scan ! n)"
    by blast
  moreover have "filter (\<lambda>s. cs_id s = i \<and> cs_project_id s = pid) (db_scans (tx_current s)) = [scan]"
    using scan by (auto simp: get_scan_def scan_by_id_def srequire_def sbind_def fetch_one_def session_basic
        split: list.splits option.splits sum.splits prod.splits)
  then have "scan \<in> set (filter (\<lambda>s. cs_id s = i \<and> cs_project_id s = pid) (db_scans (tx_current s)))" by simp
  moreover have "s' = s" by (rule readonly_state [OF readonly_explain_scan assms])
  ultimately show ?thesis by auto
qed

definition told_change :: change where
  "told_change = \<lparr> ch_type = CT_FIELD_ADDED, ch_path = ''a'', ch_class = CL_COMPATIBLE, ch_severity = SV_INFO, ch_message = ''new'',
     ch_old = JNull, ch_new = JNull, ch_evidence = [] \<rparr>"

definition told_scan :: compatibility_scan where
  "told_scan = \<lparr> cs_id = 1, cs_project_id = 5, cs_component_id = 2, cs_baseline_version_id = 3, cs_candidate_version_id = 4,
     cs_status = CS_COMPATIBLE, cs_total_changes = 1, cs_compatible_count = 1, cs_potentially_breaking_count = 0,
     cs_breaking_count = 0, cs_severity_info_count = 1, cs_severity_low_count = 0, cs_severity_medium_count = 0,
     cs_severity_high_count = 0, cs_severity_critical_count = 0, cs_changes = [told_change] \<rparr>"

definition told_db :: db where
  "told_db = empty_db \<lparr> db_scans := [told_scan] \<rparr>"

theorem explanation_grounded_witness:
  "\<exists>x. explain_scan (CHR ''~'') (\<lambda>r. fst (fake_explain ''success'' [] r)) ''c'' 5 1 (begin_txn told_db) = (Inr x, begin_txn told_db)
     \<and> cited x \<noteq> {} \<and> cited x \<subseteq> {change_reference 0 told_change}"
proof -
  have scan: "get_scan 5 1 (begin_txn told_db) = (Inr told_scan, begin_txn told_db)"
    by (simp add: get_scan_def scan_by_id_def srequire_def sbind_def fetch_one_def session_basic told_db_def told_scan_def begin_txn_def)
  obtain x where x: "explain_scan (CHR ''~'') (\<lambda>r. fst (fake_explain ''success'' [] r)) ''c'' 5 1 (begin_txn told_db)
      = (Inr x, begin_txn told_db)" "cited x \<noteq> {}"
    by (simp add: explain_scan_def sbind_def scan slift_def explain_compatibility_changes_def explain_items_def Let_def fake_explain_def
        validate_references_def unknown_references_def image_image told_scan_def change_evidence_def max_evidence_items_def
        bound_evidence_def del: One_nat_def)
  show ?thesis using explanation_grounded [OF x(1)] x by (auto simp: told_db_def told_scan_def begin_txn_def)
qed

text \<open>
  The service expects the worst change first; the route passes them as they are stored, by path, and what lies behind the
  first 25 is not told. So a scan may be breaking while everything the model is shown of it is compatible.
\<close>

lemma breaking_change_untold:
  "\<exists>cs. sort_changes cs = cs \<and> derive_status cs = CS_BREAKING
     \<and> list_all (\<lambda>c. ch_class c = CL_COMPATIBLE) (take max_evidence_items cs)
     \<and> (\<forall>c \<in> set cs. ch_class c = CL_BREAKING \<longrightarrow> ch_severity c = SV_CRITICAL)"
proof -
  let ?mild = "\<lparr> ch_type = CT_FIELD_ADDED, ch_path = ''a'', ch_class = CL_COMPATIBLE, ch_severity = SV_INFO, ch_message = [],
      ch_old = JNull, ch_new = JNull, ch_evidence = [] \<rparr>"
  let ?bad = "?mild \<lparr> ch_path := ''b'', ch_class := CL_BREAKING, ch_severity := SV_CRITICAL \<rparr>"
  let ?cs = "replicate 25 ?mild @ [?bad]"
  have "sorted (map change_key ?cs)" by (simp add: sorted_append change_key_def)
  then have "sort_changes ?cs = ?cs" by (simp only: sort_changes_key sort_key_id_if_sorted)
  moreover have "derive_status ?cs = CS_BREAKING" "take max_evidence_items ?cs = replicate 25 ?mild"
    by (simp_all add: max_evidence_items_def derive_status_def)
  moreover have "list_all (\<lambda>c. ch_class c = CL_COMPATIBLE) (replicate 25 ?mild)" by (simp add: list_all_iff)
  ultimately show ?thesis by (intro exI [of _ ?cs]) (auto simp: list_all_iff)
qed

end
