(* ===== verification/Routes.thy ===== *)
theory Routes
  imports Listings Rate_Limit Token Blast_Radius Diff_Service Repository_Mapping Pr_Analysis Explanation
begin

text \<open>
  The routes of \<open>app/api/v1/\<close> under \<open>/projects/{project_id}\<close>, with the dependencies each declares. FastAPI resolves
  the dependencies of a route in their order (who is calling, whether the caller may, the rate limit) before it looks
  at the parameters of the handler, and turns every exception into an answer. A request is the route with its parsed
  parameters; texts that do not parse as the declared types are refused before and not modelled.
\<close>

section \<open>Requests\<close>

datatype component_route =
    Create_Component component_type string string "string option"
  | List_Components "component_type option" int int
  | Get_Component uuid
  | Create_Version uuid string json_dict json
  | List_Versions uuid int int
  | Read_Version uuid string

datatype scan_route =
    Create_Scan uuid string string
  | List_Scans "uuid option" int int
  | Get_Scan uuid
  | Get_Scan_Changes uuid
  | Explain_Scan uuid

datatype trajectory_route =
    Start_Trajectory start_args
  | List_Trajectories "trajectory_status option" int int
  | Get_Trajectory uuid
  | Append_Event uuid append_args
  | List_Events uuid "event_type option" int int
  | Complete_Trajectory uuid
  | Fail_Trajectory uuid "string option"

datatype replay_route =
    Create_Replay replay_args
  | List_Replays "replay_status option" int int
  | Get_Replay uuid
  | Execute_Replay uuid
  | List_Steps uuid int int

datatype report_route =
    Create_Report uuid uuid "uuid option"
  | Get_Report uuid
  | List_Reports int int

datatype assessment_route =
    Create_Assessment "uuid option" "uuid option"
  | Get_Assessment uuid
  | List_Assessments int int

datatype repository_route =
    Create_Mapping int string "int option" "uuid option" "string option"
  | List_Mappings
  | Delete_Mapping uuid

datatype analysis_route =
    List_Analyses "int option" int int
  | Get_Analysis uuid

datatype project_route =
    Get_Project
  | Update_Project string

datatype graph_route =
    Sync_Component uuid
  | Create_Dependency uuid uuid relationship_type
  | Delete_Dependency uuid uuid relationship_type
  | List_Dependencies uuid
  | List_Dependents uuid
  | Get_Blast_Radius uuid int

datatype route =
    Components component_route
  | Scans scan_route
  | Trajectories trajectory_route
  | Replays replay_route
  | Reports report_route
  | Assessments assessment_route
  | Repositories repository_route
  | Analyses analysis_route
  | Project project_route
  | Graph graph_route

text \<open>What each route asks of the caller.\<close>

fun components_permission :: "component_route \<Rightarrow> permission" where
  "components_permission (Create_Component _ _ _ _) = P_COMPONENT_WRITE"
| "components_permission (List_Components _ _ _) = P_COMPONENT_READ"
| "components_permission (Get_Component _) = P_COMPONENT_READ"
| "components_permission (Create_Version _ _ _ _) = P_COMPONENT_WRITE"
| "components_permission (List_Versions _ _ _) = P_COMPONENT_READ"
| "components_permission (Read_Version _ _) = P_COMPONENT_READ"

fun scans_permission :: "scan_route \<Rightarrow> permission" where
  "scans_permission (Create_Scan _ _ _) = P_SCAN_EXECUTE"
| "scans_permission (List_Scans _ _ _) = P_SCAN_READ"
| "scans_permission (Get_Scan _) = P_SCAN_READ"
| "scans_permission (Get_Scan_Changes _) = P_SCAN_READ"
| "scans_permission (Explain_Scan _) = P_SCAN_EXECUTE"

fun trajectories_permission :: "trajectory_route \<Rightarrow> permission" where
  "trajectories_permission (Start_Trajectory _) = P_TRAJECTORY_WRITE"
| "trajectories_permission (List_Trajectories _ _ _) = P_TRAJECTORY_READ"
| "trajectories_permission (Get_Trajectory _) = P_TRAJECTORY_READ"
| "trajectories_permission (Append_Event _ _) = P_TRAJECTORY_WRITE"
| "trajectories_permission (List_Events _ _ _ _) = P_TRAJECTORY_READ"
| "trajectories_permission (Complete_Trajectory _) = P_TRAJECTORY_WRITE"
| "trajectories_permission (Fail_Trajectory _ _) = P_TRAJECTORY_WRITE"

fun replays_permission :: "replay_route \<Rightarrow> permission" where
  "replays_permission (Create_Replay _) = P_REPLAY_EXECUTE"
| "replays_permission (List_Replays _ _ _) = P_REPLAY_READ"
| "replays_permission (Get_Replay _) = P_REPLAY_READ"
| "replays_permission (Execute_Replay _) = P_REPLAY_EXECUTE"
| "replays_permission (List_Steps _ _ _) = P_REPLAY_READ"

fun reports_permission :: "report_route \<Rightarrow> permission" where
  "reports_permission (Create_Report _ _ _) = P_DIFFERENTIAL_EXECUTE"
| "reports_permission (Get_Report _) = P_DIFFERENTIAL_READ"
| "reports_permission (List_Reports _ _) = P_DIFFERENTIAL_READ"

fun assessments_permission :: "assessment_route \<Rightarrow> permission" where
  "assessments_permission (Create_Assessment _ _) = P_RISK_EXECUTE"
| "assessments_permission (Get_Assessment _) = P_RISK_READ"
| "assessments_permission (List_Assessments _ _) = P_RISK_READ"

fun repositories_permission :: "repository_route \<Rightarrow> permission" where
  "repositories_permission (Create_Mapping _ _ _ _ _) = P_GITHUB_INTEGRATION_MANAGE"
| "repositories_permission List_Mappings = P_GITHUB_INTEGRATION_READ"
| "repositories_permission (Delete_Mapping _) = P_GITHUB_INTEGRATION_MANAGE"

fun analyses_permission :: "analysis_route \<Rightarrow> permission" where
  "analyses_permission (List_Analyses _ _ _) = P_GITHUB_INTEGRATION_READ"
| "analyses_permission (Get_Analysis _) = P_GITHUB_INTEGRATION_READ"

fun project_permission :: "project_route \<Rightarrow> permission" where
  "project_permission Get_Project = P_PROJECT_READ"
| "project_permission (Update_Project _) = P_PROJECT_UPDATE"

fun graph_permission :: "graph_route \<Rightarrow> permission" where
  "graph_permission (Sync_Component _) = P_GRAPH_WRITE"
| "graph_permission (Create_Dependency _ _ _) = P_GRAPH_WRITE"
| "graph_permission (Delete_Dependency _ _ _) = P_GRAPH_WRITE"
| "graph_permission (List_Dependencies _) = P_GRAPH_READ"
| "graph_permission (List_Dependents _) = P_GRAPH_READ"
| "graph_permission (Get_Blast_Radius _ _) = P_GRAPH_READ"

fun route_permission :: "route \<Rightarrow> permission" where
  "route_permission (Components r) = components_permission r"
| "route_permission (Scans r) = scans_permission r"
| "route_permission (Trajectories r) = trajectories_permission r"
| "route_permission (Replays r) = replays_permission r"
| "route_permission (Reports r) = reports_permission r"
| "route_permission (Assessments r) = assessments_permission r"
| "route_permission (Repositories r) = repositories_permission r"
| "route_permission (Analyses r) = analyses_permission r"
| "route_permission (Project r) = project_permission r"
| "route_permission (Graph r) = graph_permission r"

text \<open>The rate limit of a route, by the bucket it counts in.\<close>

fun scans_bucket :: "scan_route \<Rightarrow> string option" where
  "scans_bucket (Create_Scan _ _ _) = Some ''scan''"
| "scans_bucket (Explain_Scan _) = Some ''scan''"
| "scans_bucket _ = None"

fun trajectories_bucket :: "trajectory_route \<Rightarrow> string option" where
  "trajectories_bucket (Start_Trajectory _) = Some ''trajectory_write''"
| "trajectories_bucket (Append_Event _ _) = Some ''trajectory_write''"
| "trajectories_bucket _ = None"

fun replays_bucket :: "replay_route \<Rightarrow> string option" where
  "replays_bucket (Create_Replay _) = Some ''replay''"
| "replays_bucket (Execute_Replay _) = Some ''replay''"
| "replays_bucket _ = None"

fun reports_bucket :: "report_route \<Rightarrow> string option" where
  "reports_bucket (Create_Report _ _ _) = Some ''differential''"
| "reports_bucket _ = None"

fun assessments_bucket :: "assessment_route \<Rightarrow> string option" where
  "assessments_bucket (Create_Assessment _ _) = Some ''risk''"
| "assessments_bucket _ = None"

fun route_bucket :: "route \<Rightarrow> string option" where
  "route_bucket (Scans r) = scans_bucket r"
| "route_bucket (Trajectories r) = trajectories_bucket r"
| "route_bucket (Replays r) = replays_bucket r"
| "route_bucket (Reports r) = reports_bucket r"
| "route_bucket (Assessments r) = assessments_bucket r"
| "route_bucket _ = None"

section \<open>Validation\<close>

definition sized :: "nat \<Rightarrow> nat \<Rightarrow> string \<Rightarrow> bool" where
  "sized a b s \<longleftrightarrow> a \<le> length s \<and> length s \<le> b"

definition at_most :: "nat \<Rightarrow> string option \<Rightarrow> bool" where
  "at_most b s \<longleftrightarrow> (case s of None \<Rightarrow> True | Some t \<Rightarrow> length t \<le> b)"

definition page_ok :: "int \<Rightarrow> int \<Rightarrow> int \<Rightarrow> bool" where
  "page_ok largest page page_size \<longleftrightarrow> 1 \<le> page \<and> 1 \<le> page_size \<and> page_size \<le> largest"

text \<open>The slug pattern: letters, digits and hyphens, the first and the last no hyphen.\<close>

definition matches_slug_pattern :: "string \<Rightarrow> bool" where
  "matches_slug_pattern s \<longleftrightarrow>
     s \<noteq> [] \<and> list_all (\<lambda>c. is_slug_char c \<or> c = CHR ''-'') s \<and> is_slug_char (hd s) \<and> is_slug_char (last s)"

definition start_args_ok :: "start_args \<Rightarrow> bool" where
  "start_args_ok a \<longleftrightarrow>
     at_most 255 (sa_external_run_id a) \<and> at_most 100 (sa_environment a) \<and> at_most 255 (sa_correlation_id a)
     \<and> at_most 255 (sa_trace_id a) \<and> at_most 255 (sa_span_id a)"

fun components_valid :: "component_route \<Rightarrow> bool" where
  "components_valid (Create_Component _ name slug _) \<longleftrightarrow> sized 1 255 name \<and> sized 1 150 slug \<and> matches_slug_pattern slug"
| "components_valid (List_Components _ page page_size) \<longleftrightarrow> page_ok 100 page page_size"
| "components_valid (Create_Version _ version _ _) \<longleftrightarrow> sized 1 50 version"
| "components_valid (List_Versions _ page page_size) \<longleftrightarrow> page_ok 100 page page_size"
| "components_valid _ \<longleftrightarrow> True"

fun scans_valid :: "scan_route \<Rightarrow> bool" where
  "scans_valid (Create_Scan _ baseline candidate) \<longleftrightarrow> sized 1 50 baseline \<and> sized 1 50 candidate"
| "scans_valid (List_Scans _ page page_size) \<longleftrightarrow> page_ok 100 page page_size"
| "scans_valid _ \<longleftrightarrow> True"

fun trajectories_valid :: "trajectory_route \<Rightarrow> bool" where
  "trajectories_valid (Start_Trajectory a) \<longleftrightarrow> start_args_ok a"
| "trajectories_valid (List_Trajectories _ page page_size) \<longleftrightarrow> page_ok 100 page page_size"
| "trajectories_valid (Append_Event _ a) \<longleftrightarrow> at_most 255 (aa_correlation_id a) \<and> at_most 255 (aa_external_event_id a)"
| "trajectories_valid (List_Events _ _ page page_size) \<longleftrightarrow> page_ok 200 page page_size"
| "trajectories_valid _ \<longleftrightarrow> True"

fun replays_valid :: "replay_route \<Rightarrow> bool" where
  "replays_valid (Create_Replay a) \<longleftrightarrow> at_most 255 (ra_idempotency_key a)"
| "replays_valid (List_Replays _ page page_size) \<longleftrightarrow> page_ok 100 page page_size"
| "replays_valid (List_Steps _ page page_size) \<longleftrightarrow> page_ok 200 page page_size"
| "replays_valid _ \<longleftrightarrow> True"

fun assessments_valid :: "assessment_route \<Rightarrow> bool" where
  "assessments_valid (Create_Assessment scan_id report_id) \<longleftrightarrow> scan_id \<noteq> None \<or> report_id \<noteq> None"
| "assessments_valid _ \<longleftrightarrow> True"

fun repositories_valid :: "repository_route \<Rightarrow> bool" where
  "repositories_valid (Create_Mapping repository name installation _ version) \<longleftrightarrow>
     0 < repository \<and> sized 1 255 name \<and> (case installation of None \<Rightarrow> True | Some i \<Rightarrow> 0 < i) \<and> at_most 50 version"
| "repositories_valid _ \<longleftrightarrow> True"

fun project_valid :: "project_route \<Rightarrow> bool" where
  "project_valid (Update_Project name) \<longleftrightarrow> sized 1 255 name"
| "project_valid _ \<longleftrightarrow> True"

fun graph_valid :: "graph_route \<Rightarrow> bool" where
  "graph_valid (Get_Blast_Radius _ depth) \<longleftrightarrow> 1 \<le> depth \<and> depth \<le> 50"
| "graph_valid _ \<longleftrightarrow> True"

fun route_valid :: "route \<Rightarrow> bool" where
  "route_valid (Components r) \<longleftrightarrow> components_valid r"
| "route_valid (Scans r) \<longleftrightarrow> scans_valid r"
| "route_valid (Trajectories r) \<longleftrightarrow> trajectories_valid r"
| "route_valid (Replays r) \<longleftrightarrow> replays_valid r"
| "route_valid (Assessments r) \<longleftrightarrow> assessments_valid r"
| "route_valid (Repositories r) \<longleftrightarrow> repositories_valid r"
| "route_valid (Project r) \<longleftrightarrow> project_valid r"
| "route_valid (Graph r) \<longleftrightarrow> graph_valid r"
| "route_valid _ \<longleftrightarrow> True"

section \<open>Answers\<close>

datatype answer =
    A_Component component_row
  | A_Components "component_row page"
  | A_Version component_version
  | A_Versions "component_version page"
  | A_Scan compatibility_scan
  | A_Scans "compatibility_scan page"
  | A_Changes "change list"
  | A_Explanation explanation_response
  | A_Trajectory trajectory nat
  | A_Trajectories "(trajectory \<times> nat) page"
  | A_Event trajectory_event
  | A_Events "trajectory_event page"
  | A_Replay replay_run nat
  | A_Replays "(replay_run \<times> nat) page"
  | A_Steps "replay_step page"
  | A_Report report_row
  | A_Reports "report_row page"
  | A_Assessment assessment_row
  | A_Assessments "assessment_row page"
  | A_Mapping repository_mapping
  | A_Mappings "repository_mapping list"
  | A_Analysis pr_analysis
  | A_Analyses "pr_analysis page"
  | A_Project project
  | A_Node component_node
  | A_Edges "dependency_edge list"
  | A_Blast blast_result
  | A_Projects "project page"
  | A_Audit_Events "audit_event page"
  | A_Nothing

datatype outcome = Answered answer | Raised exn | Unprocessable | Database_Error

text \<open>\<open>counts.get(row.id, 0)\<close> beside each row of a page.\<close>

definition with_counts :: "('r \<Rightarrow> uuid) \<Rightarrow> (uuid \<times> nat) list \<Rightarrow> 'r page \<Rightarrow> ('r \<times> nat) page" where
  "with_counts key counts p =
     \<lparr> pg_items = map (\<lambda>r. (r, case map_of counts (key r) of Some n \<Rightarrow> n | None \<Rightarrow> 0)) (pg_items p),
       pg_total = pg_total p, pg_page = pg_page p, pg_page_size = pg_page_size p \<rparr>"

section \<open>Handlers\<close>

text \<open>
  What the handlers are given besides the request: the hash, the texts of Pydantic's errors, what other transactions
  commit meanwhile, new identifiers, the registered executors, whether the graph's statements run, which offsets and
  limits the database takes, and what explains (with the correlation id and the character that marks a cut).
\<close>

record api_env =
  en_sha256 :: "string \<Rightarrow> string"
  en_explain :: "component_type \<Rightarrow> json_dict \<Rightarrow> string"
  en_others :: "db \<Rightarrow> db"
  en_new_id :: uuid
  en_new_ids :: "nat \<Rightarrow> uuid"
  en_executors :: "replay_executor list"
  en_outage :: "nat \<Rightarrow> string option"
  en_outages :: "uuid \<Rightarrow> string option"
  en_accepts :: "int \<Rightarrow> int \<Rightarrow> bool"
  en_provider :: llm_provider
  en_correlation_id :: string
  en_ellipsis :: char

type_synonym stores = "txn \<times> graph"

type_synonym handler = "stores \<Rightarrow> outcome \<times> stores"

definition from_session :: "('a \<Rightarrow> answer) \<Rightarrow> 'a session \<Rightarrow> handler" where
  "from_session f m =
     (\<lambda>(s, g). case m s of (Inl e, s') \<Rightarrow> (Raised e, s', g) | (Inr x, s') \<Rightarrow> (Answered (f x), s', g))"

definition from_graph :: "(graph \<Rightarrow> exn + answer \<times> graph) \<Rightarrow> handler" where
  "from_graph f =
     (\<lambda>(s, g). case f g of Inl e \<Rightarrow> (Raised e, s, g) | Inr (a, g') \<Rightarrow> (Answered a, s, g'))"

text \<open>A listing: the numbers become the offset and the limit of a query, which the database may refuse.\<close>

definition paged :: "api_env \<Rightarrow> int \<Rightarrow> int \<Rightarrow> (nat \<Rightarrow> nat \<Rightarrow> handler) \<Rightarrow> handler" where
  "paged env page page_size h =
     (if en_accepts env ((page - 1) * page_size) page_size then h (nat page) (nat page_size)
      else (\<lambda>w. (Database_Error, w)))"

definition trajectory_answer :: "trajectory session \<Rightarrow> handler" where
  "trajectory_answer m =
     from_session (\<lambda>(t, n). A_Trajectory t n)
       (sbind m (\<lambda>t. sbind (count_events (tj_id t)) (\<lambda>n. sreturn (t, n))))"

definition replay_answer :: "replay_run session \<Rightarrow> handler" where
  "replay_answer m =
     from_session (\<lambda>(r, n). A_Replay r n)
       (sbind m (\<lambda>r. sbind (count_steps (rr_id r)) (\<lambda>n. sreturn (r, n))))"

definition sync_handler :: "string option \<Rightarrow> uuid \<Rightarrow> uuid \<Rightarrow> handler" where
  "sync_handler outage project_id component_id =
     (\<lambda>(s, g). case sync_component outage project_id component_id g s of
        (Inl e, s') \<Rightarrow> (Raised e, s', g)
      | (Inr (n, g'), s') \<Rightarrow> (Answered (A_Node n), s', g'))"

text \<open>How the risk service asks for the size of a blast radius, at the default depth.\<close>

definition blast_size :: "api_env \<Rightarrow> graph \<Rightarrow> uuid \<Rightarrow> uuid \<Rightarrow> exn + nat" where
  "blast_size env g project_id component_id =
     rbind (stored_blast_radius (en_outage env 0) (en_outages env) g project_id component_id 10)
       (\<lambda>r. Inr (length (br_transitive_dependents r)))"

definition assess_handler :: "api_env \<Rightarrow> uuid \<Rightarrow> uuid option \<Rightarrow> uuid option \<Rightarrow> handler" where
  "assess_handler env project_id scan_id report_id =
     (\<lambda>(s, g). from_session A_Assessment
        (run_assessment (en_sha256 env) (Some (blast_size env g)) (en_others env) project_id scan_id report_id (en_new_id env))
        (s, g))"

text \<open>\<open>latest\<close> in the path is taken for the newest version, never for a version of that name.\<close>

definition read_version :: "uuid \<Rightarrow> uuid \<Rightarrow> string \<Rightarrow> component_version session" where
  "read_version project_id component_id version =
     (if version = ''latest'' then get_latest_component_version project_id component_id
      else get_component_version project_id component_id version)"

end
