(* ===== verification/Api.thy ===== *)
theory Api
  imports Routes
begin

text \<open>
  What each route runs once its dependencies let the request through, and the whole exchange: authentication,
  authorization, rate limit, validation, the handler, and the end of the session (\<open>get_db_session\<close>).
\<close>

section \<open>The handlers\<close>

fun handle_components :: "api_env \<Rightarrow> uuid \<Rightarrow> component_route \<Rightarrow> handler" where
  "handle_components env pid (Create_Component ct name slug description) =
     from_session A_Component (create_component (en_others env) (en_new_id env) pid ct name slug description)"
| "handle_components env pid (List_Components ct page page_size) =
     paged env page page_size (\<lambda>n m. from_session A_Components (list_components pid ct n m))"
| "handle_components env pid (Get_Component cid) = from_session A_Component (get_component pid cid)"
| "handle_components env pid (Create_Version cid version content metadata) =
     from_session A_Version
       (create_component_version (en_sha256 env) (en_explain env) (en_others env) (en_new_id env) pid cid version content metadata)"
| "handle_components env pid (List_Versions cid page page_size) =
     paged env page page_size (\<lambda>n m. from_session A_Versions (list_component_versions pid cid n m))"
| "handle_components env pid (Read_Version cid version) = from_session A_Version (read_version pid cid version)"

fun handle_scans :: "api_env \<Rightarrow> uuid \<Rightarrow> scan_route \<Rightarrow> handler" where
  "handle_scans env pid (Create_Scan cid baseline candidate) =
     from_session A_Scan (run_scan (en_new_id env) pid cid baseline candidate)"
| "handle_scans env pid (List_Scans cid page page_size) =
     paged env page page_size (\<lambda>n m. from_session A_Scans (list_scans pid cid n m))"
| "handle_scans env pid (Get_Scan i) = from_session A_Scan (get_scan pid i)"
| "handle_scans env pid (Get_Scan_Changes i) = from_session (\<lambda>c. A_Changes (cs_changes c)) (get_scan pid i)"
| "handle_scans env pid (Explain_Scan i) =
     from_session A_Explanation (explain_scan (en_ellipsis env) (en_provider env) (en_correlation_id env) pid i)"

fun handle_trajectories :: "api_env \<Rightarrow> uuid \<Rightarrow> trajectory_route \<Rightarrow> handler" where
  "handle_trajectories env pid (Start_Trajectory a) = trajectory_answer (start_trajectory (en_others env) pid a (en_new_id env))"
| "handle_trajectories env pid (List_Trajectories status page page_size) =
     paged env page page_size (\<lambda>n m. from_session A_Trajectories
       (sbind (list_trajectories pid status n m) (\<lambda>p.
        sbind (count_events_for_trajectories (map tj_id (pg_items p))) (\<lambda>counts. sreturn (with_counts tj_id counts p)))))"
| "handle_trajectories env pid (Get_Trajectory i) = trajectory_answer (get_trajectory pid i)"
| "handle_trajectories env pid (Append_Event i a) =
     from_session A_Event (append_event (en_sha256 env) (en_others env) pid i a (en_new_id env))"
| "handle_trajectories env pid (List_Events i et page page_size) =
     paged env page page_size (\<lambda>n m. from_session A_Events (list_events pid i et n m))"
| "handle_trajectories env pid (Complete_Trajectory i) = trajectory_answer (complete_trajectory (en_others env) pid i)"
| "handle_trajectories env pid (Fail_Trajectory i error) = trajectory_answer (fail_trajectory (en_others env) pid i error)"

fun handle_replays :: "api_env \<Rightarrow> uuid \<Rightarrow> replay_route \<Rightarrow> handler" where
  "handle_replays env pid (Create_Replay a) = replay_answer (create_replay (en_others env) pid a (en_new_id env))"
| "handle_replays env pid (List_Replays status page page_size) =
     paged env page page_size (\<lambda>n m. from_session A_Replays
       (sbind (list_replays pid status n m) (\<lambda>p.
        sbind (count_steps_for_replays (map rr_id (pg_items p))) (\<lambda>counts. sreturn (with_counts rr_id counts p)))))"
| "handle_replays env pid (Get_Replay i) = replay_answer (get_replay pid i)"
| "handle_replays env pid (Execute_Replay i) =
     replay_answer (execute_replay (en_executors env) (en_others env) (en_new_ids env) pid i)"
| "handle_replays env pid (List_Steps i page page_size) =
     paged env page page_size (\<lambda>n m. from_session A_Steps (list_steps pid i n m))"

fun handle_reports :: "api_env \<Rightarrow> uuid \<Rightarrow> report_route \<Rightarrow> handler" where
  "handle_reports env pid (Create_Report b c scan_id) =
     from_session A_Report (run_analysis (en_sha256 env) (en_others env) pid b c scan_id (en_new_id env))"
| "handle_reports env pid (Get_Report i) = from_session A_Report (get_report pid i)"
| "handle_reports env pid (List_Reports page page_size) =
     paged env page page_size (\<lambda>n m. from_session A_Reports (list_reports pid n m))"

fun handle_assessments :: "api_env \<Rightarrow> uuid \<Rightarrow> assessment_route \<Rightarrow> handler" where
  "handle_assessments env pid (Create_Assessment scan_id report_id) = assess_handler env pid scan_id report_id"
| "handle_assessments env pid (Get_Assessment i) = from_session A_Assessment (get_assessment pid i)"
| "handle_assessments env pid (List_Assessments page page_size) =
     paged env page page_size (\<lambda>n m. from_session A_Assessments (list_assessments pid n m))"

fun handle_repositories :: "api_env \<Rightarrow> uuid \<Rightarrow> repository_route \<Rightarrow> handler" where
  "handle_repositories env pid (Create_Mapping repository name installation cid version) =
     from_session A_Mapping
       (create_mapping (en_others env) (en_new_id env) pid repository name installation cid version)"
| "handle_repositories env pid List_Mappings = from_session A_Mappings (list_mappings pid)"
| "handle_repositories env pid (Delete_Mapping i) = from_session (\<lambda>_. A_Nothing) (delete_mapping pid i)"

fun handle_analyses :: "api_env \<Rightarrow> uuid \<Rightarrow> analysis_route \<Rightarrow> handler" where
  "handle_analyses env pid (List_Analyses number page page_size) =
     paged env page page_size (\<lambda>n m. from_session A_Analyses (list_analyses pid number n m))"
| "handle_analyses env pid (Get_Analysis i) = from_session A_Analysis (get_analysis pid i)"

fun handle_project :: "api_env \<Rightarrow> uuid \<Rightarrow> project_route \<Rightarrow> handler" where
  "handle_project env pid Get_Project = from_session A_Project (get_project pid)"
| "handle_project env pid (Update_Project name) = from_session A_Project (update_project pid name)"

fun handle_dependency_graph :: "api_env \<Rightarrow> uuid \<Rightarrow> graph_route \<Rightarrow> handler" where
  "handle_dependency_graph env pid (Sync_Component cid) = sync_handler (en_outage env 0) pid cid"
| "handle_dependency_graph env pid (Create_Dependency source target rel) =
     from_graph (\<lambda>g. rbind (create_dependency (en_outage env) pid source target rel g) (\<lambda>g'. Inr (A_Nothing, g')))"
| "handle_dependency_graph env pid (Delete_Dependency source target rel) =
     from_graph (\<lambda>g. rbind (delete_dependency (en_outage env) pid source target rel g) (\<lambda>g'. Inr (A_Nothing, g')))"
| "handle_dependency_graph env pid (List_Dependencies cid) =
     from_graph (\<lambda>g. rbind (list_dependencies (en_outage env) pid cid g) (\<lambda>es. Inr (A_Edges es, g)))"
| "handle_dependency_graph env pid (List_Dependents cid) =
     from_graph (\<lambda>g. rbind (list_dependents (en_outage env) pid cid g) (\<lambda>es. Inr (A_Edges es, g)))"
| "handle_dependency_graph env pid (Get_Blast_Radius cid depth) =
     from_graph (\<lambda>g. rbind (stored_blast_radius (en_outage env 0) (en_outages env) g pid cid depth) (\<lambda>r. Inr (A_Blast r, g)))"

fun handle :: "api_env \<Rightarrow> uuid \<Rightarrow> route \<Rightarrow> handler" where
  "handle env pid (Components r) = handle_components env pid r"
| "handle env pid (Scans r) = handle_scans env pid r"
| "handle env pid (Trajectories r) = handle_trajectories env pid r"
| "handle env pid (Replays r) = handle_replays env pid r"
| "handle env pid (Reports r) = handle_reports env pid r"
| "handle env pid (Assessments r) = handle_assessments env pid r"
| "handle env pid (Repositories r) = handle_repositories env pid r"
| "handle env pid (Analyses r) = handle_analyses env pid r"
| "handle env pid (Project r) = handle_project env pid r"
| "handle env pid (Graph r) = handle_dependency_graph env pid r"

section \<open>The dependencies\<close>

text \<open>\<open>who\<close> is \<open>get_current_user\<close> on the request's credentials; \<open>limits\<close> gives the quota and the window of a bucket.\<close>

definition require_project_permission :: "principal session \<Rightarrow> permission \<Rightarrow> uuid \<Rightarrow> principal session" where
  "require_project_permission who permission project_id =
     sbind who (\<lambda>p. sthen (authorize_project_access p project_id permission) (sreturn p))"

definition rate_dependency ::
  "bool \<Rightarrow> (string \<Rightarrow> int \<times> int) \<Rightarrow> rat \<Rightarrow> string option \<Rightarrow> uuid \<Rightarrow> counters \<Rightarrow> (exn + unit) \<times> counters" where
  "rate_dependency up limits now bucket user_id m =
     (case bucket of
        None \<Rightarrow> (Inr (), m)
      | Some b \<Rightarrow> (case limits b of (limit, window) \<Rightarrow> rate_limit_by_user up user_id b limit window now m))"

definition respond ::
  "api_env \<Rightarrow> principal session \<Rightarrow> (uuid \<Rightarrow> counters \<Rightarrow> (exn + unit) \<times> counters) \<Rightarrow> uuid \<Rightarrow> route \<Rightarrow> stores \<Rightarrow> counters \<Rightarrow>
   (outcome \<times> stores) \<times> counters" where
  "respond env who limiter project_id r w m =
     (case require_project_permission who (route_permission r) project_id (fst w) of
        (Inl e, s) \<Rightarrow> ((Raised e, s, snd w), m)
      | (Inr p, s) \<Rightarrow>
          (case limiter (ap_user_id p) m of
             (Inl e, m') \<Rightarrow> ((Raised e, s, snd w), m')
           | (Inr _, m') \<Rightarrow>
               (if route_valid r then handle env project_id r (s, snd w) else (Unprocessable, s, snd w), m')))"

text \<open>The session is committed when the handler answers and rolled back when anything is raised.\<close>

definition close_session :: "outcome \<Rightarrow> txn \<Rightarrow> db" where
  "close_session out s = (case out of Answered _ \<Rightarrow> tx_current s | _ \<Rightarrow> tx_committed s)"

definition exchange ::
  "api_env \<Rightarrow> principal session \<Rightarrow> (uuid \<Rightarrow> counters \<Rightarrow> (exn + unit) \<times> counters) \<Rightarrow> uuid \<Rightarrow> route \<Rightarrow> db \<Rightarrow> graph \<Rightarrow> counters \<Rightarrow>
   outcome \<times> db \<times> graph \<times> counters" where
  "exchange env who limiter project_id r d g m =
     (case respond env who limiter project_id r (begin_txn d, g) m of
        ((out, s, g'), m') \<Rightarrow> (out, close_session out s, g', m'))"

end
