(* ===== verification/Api_Laws.thy ===== *)
theory Api_Laws
  imports Api Authz_Properties Pr_Laws Replay_Laws Trajectory_Laws Blast_Laws Rate_Properties
begin

text \<open>
  What the routes that read have in common: they leave the store and the graph as they are, ask for a permission every
  member has, and answer with rows of the project in the path only.
\<close>

section \<open>Routes that read\<close>

fun is_get :: "route \<Rightarrow> bool" where
  "is_get (Components (Create_Component _ _ _ _)) = False"
| "is_get (Components (Create_Version _ _ _ _)) = False"
| "is_get (Scans (Create_Scan _ _ _)) = False"
| "is_get (Scans (Explain_Scan _)) = False"
| "is_get (Trajectories (Start_Trajectory _)) = False"
| "is_get (Trajectories (Append_Event _ _)) = False"
| "is_get (Trajectories (Complete_Trajectory _)) = False"
| "is_get (Trajectories (Fail_Trajectory _ _)) = False"
| "is_get (Replays (Create_Replay _)) = False"
| "is_get (Replays (Execute_Replay _)) = False"
| "is_get (Reports (Create_Report _ _ _)) = False"
| "is_get (Assessments (Create_Assessment _ _)) = False"
| "is_get (Repositories (Create_Mapping _ _ _ _ _)) = False"
| "is_get (Repositories (Delete_Mapping _)) = False"
| "is_get (Project (Update_Project _)) = False"
| "is_get (Graph (Sync_Component _)) = False"
| "is_get (Graph (Create_Dependency _ _ _)) = False"
| "is_get (Graph (Delete_Dependency _ _ _)) = False"
| "is_get (Analyses (List_Analyses _ _ _)) = True"
| "is_get _ = True"

lemma members_read: "route_permission r \<in> set member_permissions \<longleftrightarrow> is_get r"
  by (cases r rule: is_get.cases) (simp_all add: member_permissions_def)

lemma admins_may: "route_permission r \<in> set admin_permissions"
  by (cases r rule: is_get.cases) (simp_all add: admin_permissions_def member_permissions_def)

lemma readonly_reads [readonly_intros]:
  "readonly (list_components p ct n k)" "readonly (list_component_versions p c n k)" "readonly (read_version p c v)"
  "readonly (list_scans p ci n k)" "readonly (get_scan p i)" "readonly (list_trajectories p ts n k)"
  "readonly (list_events p i et n k)" "readonly (list_replays p rs n k)" "readonly (list_steps p i n k)"
  "readonly (get_report p i)" "readonly (list_reports p n k)" "readonly (get_assessment p i)" "readonly (list_assessments p n k)"
  "readonly (list_mappings p)" "readonly (list_analyses p num n k)" "readonly (get_project p)"
  by (simp_all add: list_components_def list_component_versions_def read_version_def list_scans_def get_scan_def scan_by_id_def
      list_trajectories_def list_events_def list_replays_def list_steps_def get_report_def report_by_id_def list_reports_def
      get_assessment_def assessment_by_id_def list_assessments_def list_mappings_def list_analyses_def get_project_def
      readonly_intros)

lemma readonly_counts [readonly_intros]:
  "readonly (count_events i)" "readonly (count_events_for_trajectories is)"
  "readonly (count_steps i)" "readonly (count_steps_for_replays is)"
  by (simp_all add: count_events_def count_events_for_trajectories_def count_steps_def count_steps_for_replays_def readonly_intros)

lemma from_session_readonly: "readonly m \<Longrightarrow> snd (from_session f m w) = w"
  by (auto simp: from_session_def split: prod.split sum.split dest: readonly_state)

lemma answers_readonly:
  "readonly m \<Longrightarrow> snd (trajectory_answer m w) = w" "readonly n \<Longrightarrow> snd (replay_answer n w) = w"
  by (simp_all add: trajectory_answer_def replay_answer_def from_session_readonly readonly_intros)

lemma from_graph_same: "(\<And>g a g'. f g = Inr (a, g') \<Longrightarrow> g' = g) \<Longrightarrow> snd (from_graph f w) = w"
  by (auto simp: from_graph_def split: prod.split sum.split)

lemma paged_state: "(\<And>n k. snd (h n k w) = w) \<Longrightarrow> snd (paged env page page_size h w) = w"
  by (simp add: paged_def)

lemma get_changes_nothing: "is_get r \<Longrightarrow> snd (handle env p r w) = w"
  by (cases r rule: is_get.cases)
    (auto simp: from_session_readonly answers_readonly readonly_intros rbind_eq_Inr_iff intro!: paged_state from_graph_same)

section \<open>Rows of a project\<close>

definition component_of :: "db \<Rightarrow> uuid \<Rightarrow> component_row \<Rightarrow> bool" where
  "component_of d p c \<longleftrightarrow> c \<in> set (db_components d) \<and> cm_project_id c = p"

definition version_of :: "db \<Rightarrow> uuid \<Rightarrow> component_version \<Rightarrow> bool" where
  "version_of d p v \<longleftrightarrow> v \<in> set (db_versions d) \<and> (\<exists>c. component_of d p c \<and> cm_id c = cv_component_id v)"

definition scan_of :: "db \<Rightarrow> uuid \<Rightarrow> compatibility_scan \<Rightarrow> bool" where
  "scan_of d p c \<longleftrightarrow> c \<in> set (db_scans d) \<and> cs_project_id c = p"

definition trajectory_of :: "db \<Rightarrow> uuid \<Rightarrow> trajectory \<Rightarrow> bool" where
  "trajectory_of d p t \<longleftrightarrow> t \<in> set (db_trajectories d) \<and> tj_project_id t = p"

definition event_of :: "db \<Rightarrow> uuid \<Rightarrow> trajectory_event \<Rightarrow> bool" where
  "event_of d p e \<longleftrightarrow> e \<in> set (db_events d) \<and> (\<exists>t. trajectory_of d p t \<and> tj_id t = te_trajectory_id e)"

definition replay_of :: "db \<Rightarrow> uuid \<Rightarrow> replay_run \<Rightarrow> bool" where
  "replay_of d p r \<longleftrightarrow> r \<in> set (db_replays d) \<and> rr_project_id r = p"

definition step_of :: "db \<Rightarrow> uuid \<Rightarrow> replay_step \<Rightarrow> bool" where
  "step_of d p s \<longleftrightarrow> s \<in> set (db_steps d) \<and> (\<exists>r. replay_of d p r \<and> rr_id r = rp_run_id s)"

definition report_of :: "db \<Rightarrow> uuid \<Rightarrow> report_row \<Rightarrow> bool" where
  "report_of d p r \<longleftrightarrow> r \<in> set (db_reports d) \<and> rw_project_id r = p"

definition assessment_of :: "db \<Rightarrow> uuid \<Rightarrow> assessment_row \<Rightarrow> bool" where
  "assessment_of d p a \<longleftrightarrow> a \<in> set (db_assessments d) \<and> as_project_id a = p"

definition mapping_of :: "db \<Rightarrow> uuid \<Rightarrow> repository_mapping \<Rightarrow> bool" where
  "mapping_of d p m \<longleftrightarrow> m \<in> set (db_mappings d) \<and> gm_project_id m = p"

definition analysis_of :: "db \<Rightarrow> uuid \<Rightarrow> pr_analysis \<Rightarrow> bool" where
  "analysis_of d p a \<longleftrightarrow> a \<in> set (db_analyses d) \<and> ga_project_id a = p"

definition node_of :: "graph \<Rightarrow> uuid \<Rightarrow> uuid \<Rightarrow> bool" where
  "node_of g p i \<longleftrightarrow> list_ex (node_in p i) (gr_nodes g)"

text \<open>
  Everything in an answer is of the project; no reading route of a project answers with a listing of an organization or
  an explanation.
\<close>

fun answer_of :: "db \<Rightarrow> graph \<Rightarrow> uuid \<Rightarrow> answer \<Rightarrow> bool" where
  "answer_of d g p (A_Component c) \<longleftrightarrow> component_of d p c"
| "answer_of d g p (A_Components cs) \<longleftrightarrow> list_all (component_of d p) (pg_items cs)"
| "answer_of d g p (A_Version v) \<longleftrightarrow> version_of d p v"
| "answer_of d g p (A_Versions vs) \<longleftrightarrow> list_all (version_of d p) (pg_items vs)"
| "answer_of d g p (A_Scan c) \<longleftrightarrow> scan_of d p c"
| "answer_of d g p (A_Scans cs) \<longleftrightarrow> list_all (scan_of d p) (pg_items cs)"
| "answer_of d g p (A_Changes ch) \<longleftrightarrow> (\<exists>c. scan_of d p c \<and> cs_changes c = ch)"
| "answer_of d g p (A_Trajectory t n) \<longleftrightarrow> trajectory_of d p t"
| "answer_of d g p (A_Trajectories ts) \<longleftrightarrow> list_all (\<lambda>(t, n). trajectory_of d p t) (pg_items ts)"
| "answer_of d g p (A_Event e) \<longleftrightarrow> event_of d p e"
| "answer_of d g p (A_Events es) \<longleftrightarrow> list_all (event_of d p) (pg_items es)"
| "answer_of d g p (A_Replay r n) \<longleftrightarrow> replay_of d p r"
| "answer_of d g p (A_Replays rs) \<longleftrightarrow> list_all (\<lambda>(r, n). replay_of d p r) (pg_items rs)"
| "answer_of d g p (A_Steps ss) \<longleftrightarrow> list_all (step_of d p) (pg_items ss)"
| "answer_of d g p (A_Report r) \<longleftrightarrow> report_of d p r"
| "answer_of d g p (A_Reports rs) \<longleftrightarrow> list_all (report_of d p) (pg_items rs)"
| "answer_of d g p (A_Assessment a) \<longleftrightarrow> assessment_of d p a"
| "answer_of d g p (A_Assessments as) \<longleftrightarrow> list_all (assessment_of d p) (pg_items as)"
| "answer_of d g p (A_Mapping m) \<longleftrightarrow> mapping_of d p m"
| "answer_of d g p (A_Mappings ms) \<longleftrightarrow> list_all (mapping_of d p) ms"
| "answer_of d g p (A_Analysis a) \<longleftrightarrow> analysis_of d p a"
| "answer_of d g p (A_Analyses as) \<longleftrightarrow> list_all (analysis_of d p) (pg_items as)"
| "answer_of d g p (A_Project q) \<longleftrightarrow> q \<in> set (db_projects d) \<and> pj_id q = p"
| "answer_of d g p (A_Node n) \<longleftrightarrow> gn_project_id n = p"
| "answer_of d g p (A_Edges es) \<longleftrightarrow> list_all (\<lambda>e. node_of g p (de_component_id e)) es"
| "answer_of d g p (A_Blast r) \<longleftrightarrow> list_all (\<lambda>e. node_of g p (be_component_id e)) (br_transitive_dependents r)"
| "answer_of d g p (A_Explanation x) \<longleftrightarrow> False"
| "answer_of d g p (A_Projects qs) \<longleftrightarrow> False"
| "answer_of d g p (A_Audit_Events es) \<longleftrightarrow> False"
| "answer_of d g p A_Nothing \<longleftrightarrow> True"

section \<open>What a query yields\<close>

definition yields :: "'a session \<Rightarrow> (db \<Rightarrow> 'a \<Rightarrow> bool) \<Rightarrow> bool" where
  "yields m Q \<longleftrightarrow> (\<forall>s x t. m s = (Inr x, t) \<longrightarrow> t = s \<and> Q (tx_current s) x)"

named_theorems yields_intros

lemma yieldsD: "yields m Q \<Longrightarrow> m s = (Inr x, t) \<Longrightarrow> t = s \<and> Q (tx_current s) x"
  by (simp add: yields_def)

lemma yields_row: "yields (srequire e (fetch_one table P)) (\<lambda>d r. r \<in> set (table d) \<and> P r)"
  unfolding yields_def srequire_eq_Inr by (metis fetch_one_Some fetch_one_eq_Inr)

lemma yields_newest: "yields (newest_first table P n k) (\<lambda>d p. list_all (\<lambda>r. r \<in> set (table d) \<and> P r) (pg_items p))"
  unfolding yields_def list_all_iff using newest_first_rows readonly_state [OF readonly_newest_first] by metis

lemma yields_sread: "yields (sread f) (\<lambda>d y. y = f d)"
  by (simp add: yields_def session_basic)

lemma yields_sthen: "yields m R \<Longrightarrow> yields n S \<Longrightarrow> (\<And>d x y. R d x \<Longrightarrow> S d y \<Longrightarrow> Q d y) \<Longrightarrow> yields (sthen m n) Q"
  unfolding yields_def sthen_eq_Inr by metis

lemma yields_sbind: "yields m R \<Longrightarrow> (\<And>x. yields (f x) (S x)) \<Longrightarrow> (\<And>d x y. R d x \<Longrightarrow> S x d y \<Longrightarrow> Q d y) \<Longrightarrow> yields (sbind m f) Q"
  unfolding yields_def sbind_eq_Inr by metis

lemma yields_mono: "yields m R \<Longrightarrow> (\<And>d x. R d x \<Longrightarrow> Q d x) \<Longrightarrow> yields m Q"
  unfolding yields_def by blast

lemma page_rows: "(\<And>x. x \<in> set xs \<Longrightarrow> P x) \<Longrightarrow> list_all P (pg_items (page_result n k xs))"
  unfolding list_all_iff page_result_def by (auto dest: set_page_of)

lemma yields_readonly: "readonly m \<Longrightarrow> yields m (\<lambda>_ _. True)"
  unfolding yields_def by (metis readonly_state)

lemma yields_sreturn: "yields (sreturn x) (\<lambda>_ y. y = x)"
  by (simp add: yields_def session_basic)

lemma from_session_yields:
  assumes "yields m Q" "fst (from_session f m (s, g)) = Answered a"
  obtains x where "a = f x" "Q (tx_current s) x"
  using assms by (auto simp: from_session_def split: prod.splits sum.splits dest: yieldsD)

section \<open>What the services yield\<close>

lemma yields_project: "yields (require_project p) (\<lambda>d q. q \<in> set (db_projects d) \<and> pj_id q = p)"
  unfolding require_project_def project_by_id_def by (rule yields_row)

lemma yields_component: "yields (get_component p i) (\<lambda>d c. component_of d p c \<and> cm_id c = i)"
  unfolding get_component_def component_by_id_def component_of_def
  by (rule yields_sthen [OF yields_project yields_row]) auto

lemma yields_latest: "yields (srequire e (latest_version c)) (\<lambda>d v. v \<in> set (db_versions d) \<and> cv_component_id v = c)"
proof -
  have "v \<in> set (db_versions d) \<and> cv_component_id v = c" if "versions_of c d = v # vs" for v vs d
  proof -
    have "v \<in> set (versions_of c d)" using that by simp
    then show ?thesis by (simp add: versions_of_def)
  qed
  then show ?thesis
    unfolding yields_def srequire_eq_Inr latest_version_def by (auto simp: session_basic split: list.splits)
qed

lemma yields_version: "yields (read_version p c v) (\<lambda>d x. version_of d p x)"
proof -
  have named: "yields (get_component_version p c v) (\<lambda>d x. version_of d p x)"
    unfolding get_component_version_def version_by_version_def
    by (rule yields_sthen [OF yields_component yields_row]) (auto simp: version_of_def)
  have "yields (get_latest_component_version p c) (\<lambda>d x. version_of d p x)"
    unfolding get_latest_component_version_def
    by (rule yields_sthen [OF yields_component yields_latest]) (auto simp: version_of_def)
  then show ?thesis using named by (simp add: read_version_def)
qed

lemma yields_components: "yields (list_components p ct n k) (\<lambda>d cs. list_all (component_of d p) (pg_items cs))"
  unfolding list_components_def
  by (rule yields_sthen [OF yields_project yields_newest]) (auto simp: component_of_def list_all_iff)

lemma yields_versions: "yields (list_component_versions p c n k) (\<lambda>d vs. list_all (version_of d p) (pg_items vs))"
  unfolding list_component_versions_def
proof (rule yields_sthen [OF yields_component yields_sread])
  fix d :: db and x :: component_row and y :: "component_version page"
  assume "component_of d p x \<and> cm_id x = c" "y = page_result n k (versions_of c d)"
  then show "list_all (version_of d p) (pg_items y)"
    by (auto simp: version_of_def versions_of_def intro!: page_rows)
qed

lemma yields_scan: "yields (get_scan p i) (\<lambda>d c. scan_of d p c)"
  unfolding get_scan_def scan_by_id_def by (rule yields_mono [OF yields_row]) (simp add: scan_of_def)

lemma yields_scans: "yields (list_scans p ci n k) (\<lambda>d cs. list_all (scan_of d p) (pg_items cs))"
  unfolding list_scans_def by (rule yields_mono [OF yields_newest]) (auto simp: scan_of_def list_all_iff)

lemma yields_trajectory: "yields (get_trajectory p i) (\<lambda>d t. trajectory_of d p t \<and> tj_id t = i)"
  unfolding get_trajectory_def trajectory_by_id_def by (rule yields_mono [OF yields_row]) (simp add: trajectory_of_def)

lemma yields_trajectories: "yields (list_trajectories p ts n k) (\<lambda>d xs. list_all (trajectory_of d p) (pg_items xs))"
  unfolding list_trajectories_def
  by (rule yields_sthen [OF yields_project yields_newest]) (auto simp: trajectory_of_def list_all_iff)

lemma yields_events: "yields (list_events p i et n k) (\<lambda>d es. list_all (event_of d p) (pg_items es))"
  unfolding list_events_def
proof (rule yields_sthen [OF yields_trajectory yields_sread])
  fix d :: db and t :: trajectory and y :: "trajectory_event page"
  let ?es = "filter (\<lambda>e. case et of None \<Rightarrow> True | Some t \<Rightarrow> te_event_type e = t) (events_of i d)"
  assume "trajectory_of d p t \<and> tj_id t = i" "y = page_result n k ?es"
  then show "list_all (event_of d p) (pg_items y)"
    by (auto simp: event_of_def events_of_def intro!: page_rows)
qed

lemma yields_replay: "yields (get_replay p i) (\<lambda>d r. replay_of d p r \<and> rr_id r = i)"
  unfolding get_replay_def replay_by_id_def by (rule yields_mono [OF yields_row]) (simp add: replay_of_def)

lemma yields_replays: "yields (list_replays p rs n k) (\<lambda>d xs. list_all (replay_of d p) (pg_items xs))"
  unfolding list_replays_def
  by (rule yields_sthen [OF yields_project yields_newest]) (auto simp: replay_of_def list_all_iff)

lemma yields_steps: "yields (list_steps p i n k) (\<lambda>d ss. list_all (step_of d p) (pg_items ss))"
  unfolding list_steps_def
proof (rule yields_sthen [OF yields_replay yields_sread])
  fix d :: db and r :: replay_run and y :: "replay_step page"
  assume "replay_of d p r \<and> rr_id r = i" "y = page_result n k (steps_of i d)"
  then show "list_all (step_of d p) (pg_items y)"
    by (auto simp: step_of_def steps_of_def intro!: page_rows)
qed

lemma yields_report: "yields (get_report p i) (\<lambda>d r. report_of d p r)"
  unfolding get_report_def report_by_id_def by (rule yields_mono [OF yields_row]) (simp add: report_of_def)

lemma yields_reports: "yields (list_reports p n k) (\<lambda>d rs. list_all (report_of d p) (pg_items rs))"
  unfolding list_reports_def by (rule yields_mono [OF yields_newest]) (auto simp: report_of_def list_all_iff)

lemma yields_assessment: "yields (get_assessment p i) (\<lambda>d a. assessment_of d p a)"
  unfolding get_assessment_def assessment_by_id_def by (rule yields_mono [OF yields_row]) (simp add: assessment_of_def)

lemma yields_assessments: "yields (list_assessments p n k) (\<lambda>d as. list_all (assessment_of d p) (pg_items as))"
  unfolding list_assessments_def by (rule yields_mono [OF yields_newest]) (auto simp: assessment_of_def list_all_iff)

lemma yields_mappings: "yields (list_mappings p) (\<lambda>d ms. list_all (mapping_of d p) ms)"
  unfolding list_mappings_def by (rule yields_mono [OF yields_sread]) (auto simp: mapping_of_def list_all_iff)

lemma yields_analysis: "yields (get_analysis p i) (\<lambda>d a. analysis_of d p a)"
  unfolding get_analysis_def analysis_by_id_def by (rule yields_mono [OF yields_row]) (simp add: analysis_of_def)

lemma yields_analyses: "yields (list_analyses p num n k) (\<lambda>d as. list_all (analysis_of d p) (pg_items as))"
  unfolding list_analyses_def
proof (rule yields_mono [OF yields_sread])
  fix d :: db and y :: "pr_analysis page"
  let ?as = "rev (filter (\<lambda>a. ga_project_id a = p \<and> (case num of None \<Rightarrow> True | Some n \<Rightarrow> ga_pull_request_number a = n)) (db_analyses d))"
  assume "y = page_result n k ?as"
  then show "list_all (analysis_of d p) (pg_items y)"
    by (auto simp: analysis_of_def intro!: page_rows)
qed

section \<open>What the graph yields\<close>

lemma direct_in_project:
  "e \<in> set (list_direct_dependencies p c g) \<Longrightarrow> node_of g p (de_component_id e)"
  "e \<in> set (list_direct_dependents p c g) \<Longrightarrow> node_of g p (de_component_id e)"
  by (auto simp: list_direct_dependencies_def list_direct_dependents_def edge_to_def node_of_def list_ex_iff node_in_def
      split: if_splits)

lemma bfs_nodes:
  assumes "\<And>c es e. f c = Inr es \<Longrightarrow> e \<in> set es \<Longrightarrow> Q (de_component_id e)"
  shows "bfs f m st = Inr b \<Longrightarrow> list_all (\<lambda>e. Q (be_component_id e)) (snd (snd st)) \<Longrightarrow> list_all (\<lambda>e. Q (be_component_id e)) b"
  using assms
proof (induction f m st arbitrary: b rule: bfs.induct)
  case (2 f m v c d path q entries)
  show ?case
  proof (cases "m \<le> d")
    case True
    then show ?thesis using 2 by simp
  next
    case False
    then obtain es where es: "f c = Inr es" "bfs f m (expand d path es (v, q, entries)) = Inr b"
      using "2.prems"(1) by (auto simp: rbind_eq_Inr_iff)
    have "set (unseen w xs) \<subseteq> set xs" for w xs by (induction w xs rule: unseen.induct) auto
    then have "list_all (\<lambda>e. Q (be_component_id e)) (snd (snd (expand d path es (v, q, entries))))"
      using "2.prems"(2,3) es(1) by (fastforce simp: expand_eq list_all_iff entry_at_def)
    then show ?thesis using "2.IH"(2) [OF False es(1)] es(2) "2.prems"(3) by simp
  qed
qed simp

lemma blast_in_project:
  assumes "stored_blast_radius o1 o2 g p c m = Inr r"
  shows "list_all (\<lambda>e. node_of g p (be_component_id e)) (br_transitive_dependents r)"
proof -
  obtain b where b: "bfs (\<lambda>c. run_statement (o2 c) (list_direct_dependents p c g)) (nat m) ({c}, [(c, 0, [c])], []) = Inr b"
    "br_transitive_dependents r = b"
    using assms by (auto simp: stored_blast_radius_def blast_radius_def rbind_eq_Inr_iff split: if_splits option.splits)
  show ?thesis unfolding b(2)
    by (rule bfs_nodes [OF _ b(1)]) (auto simp: run_statement_def direct_in_project split: option.splits)
qed

lemma readonly_get_current_user: "readonly (get_current_user mac loads st now creds)"
  by (auto simp: get_current_user_def user_by_id_def current_role_def member_for_def intro!: readonly_intros
      split: option.split list.split)

end
