(* ===== verification/Api_Properties.thy ===== *)
theory Api_Properties
  imports Api_Laws Token_Properties
begin

text \<open>
  The properties of the routes as a whole: who can change anything through them, and what a read gives to whom.
\<close>

section \<open>Answers of reads\<close>

lemma yields_counted:
  assumes "yields m Q" "\<And>x. readonly (c x)"
  shows "yields (sbind m (\<lambda>x. sbind (c x) (\<lambda>n. sreturn (x, n)))) (\<lambda>d (x, n). Q d x)"
proof (rule yields_sbind [OF assms(1), where S = "\<lambda>x _ (y, n). y = x"])
  show "yields (sbind (c x) (\<lambda>n. sreturn (x, n))) (\<lambda>_ (y, n). y = x)" for x
    by (rule yields_sbind [OF yields_readonly [OF assms(2)] yields_sreturn]) simp
qed auto

lemma items_with_counts: "list_all (\<lambda>(x, n). P x) (pg_items (with_counts key counts p)) \<longleftrightarrow> list_all P (pg_items p)"
  by (simp add: with_counts_def list.pred_map comp_def)

lemma yields_page_counted:
  assumes "yields m (\<lambda>d p. list_all (P d) (pg_items p))" "\<And>p. readonly (c p)"
  shows "yields (sbind m (\<lambda>p. sbind (c p) (\<lambda>counts. sreturn (with_counts key counts p)))) (\<lambda>d p. list_all (\<lambda>(x, n). P d x) (pg_items p))"
proof (rule yields_sbind [OF assms(1), where S = "\<lambda>p _ q. \<exists>counts. q = with_counts key counts p"])
  show "yields (sbind (c p) (\<lambda>counts. sreturn (with_counts key counts p))) (\<lambda>_ q. \<exists>counts. q = with_counts key counts p)" for p
    by (rule yields_sbind [OF yields_readonly [OF assms(2)] yields_sreturn]) auto
qed (auto simp: items_with_counts)

definition stays_within :: "handler \<Rightarrow> uuid \<Rightarrow> bool" where
  "stays_within h p \<longleftrightarrow> (\<forall>s g a. fst (h (s, g)) = Answered a \<longrightarrow> answer_of (tx_current s) g p a)"

named_theorems answers_intros

lemma answers_session:
  "yields m Q \<Longrightarrow> (\<And>d g x. Q d x \<Longrightarrow> answer_of d g p (f x)) \<Longrightarrow> stays_within (from_session f m) p"
  unfolding stays_within_def by (metis from_session_yields)

lemma answers_paged [answers_intros]: "(\<And>n k. stays_within (h n k) p) \<Longrightarrow> stays_within (paged env page page_size h) p"
  by (simp add: stays_within_def paged_def)

lemma answers_graph:
  "(\<And>g a g'. f g = Inr (a, g') \<Longrightarrow> (\<And>d. answer_of d g p a)) \<Longrightarrow> stays_within (from_graph f) p"
  by (auto simp: stays_within_def from_graph_def split: sum.splits prod.splits)

lemmas yields_rows = yields_project [folded get_project_def] yields_component yields_version yields_components yields_versions
  yields_scan yields_scans yields_trajectory yields_events yields_replay yields_steps yields_report yields_reports
  yields_assessment yields_assessments yields_mappings yields_analysis yields_analyses
  yields_page_counted [OF yields_trajectories readonly_counts(2)] yields_page_counted [OF yields_replays readonly_counts(4)]
  yields_counted [OF yields_trajectory readonly_counts(1)] yields_counted [OF yields_replay readonly_counts(3)]

lemma answers_rows [answers_intros]:
  "stays_within (from_session A_Component (get_component p i)) p"
  "stays_within (from_session A_Components (list_components p ct n k)) p"
  "stays_within (from_session A_Version (read_version p i v)) p"
  "stays_within (from_session A_Versions (list_component_versions p i n k)) p"
  "stays_within (from_session A_Scan (get_scan p i)) p"
  "stays_within (from_session (\<lambda>c. A_Changes (cs_changes c)) (get_scan p i)) p"
  "stays_within (from_session A_Scans (list_scans p ci n k)) p"
  "stays_within (from_session A_Events (list_events p i et n k)) p"
  "stays_within (from_session A_Steps (list_steps p i n k)) p"
  "stays_within (from_session A_Report (get_report p i)) p"
  "stays_within (from_session A_Reports (list_reports p n k)) p"
  "stays_within (from_session A_Assessment (get_assessment p i)) p"
  "stays_within (from_session A_Assessments (list_assessments p n k)) p"
  "stays_within (from_session A_Mappings (list_mappings p)) p"
  "stays_within (from_session A_Analysis (get_analysis p i)) p"
  "stays_within (from_session A_Analyses (list_analyses p num n k)) p"
  "stays_within (from_session A_Project (get_project p)) p"
  by (rule answers_session, rule yields_rows, (simp; blast?))+

lemma answers_counted [answers_intros]:
  "stays_within (trajectory_answer (get_trajectory p i)) p"
  "stays_within (replay_answer (get_replay p i)) p"
  "stays_within (from_session A_Trajectories (sbind (list_trajectories p ts n k) (\<lambda>x.
     sbind (count_events_for_trajectories (map tj_id (pg_items x))) (\<lambda>counts. sreturn (with_counts tj_id counts x))))) p"
  "stays_within (from_session A_Replays (sbind (list_replays p rs n k) (\<lambda>x.
     sbind (count_steps_for_replays (map rr_id (pg_items x))) (\<lambda>counts. sreturn (with_counts rr_id counts x))))) p"
  unfolding trajectory_answer_def replay_answer_def by (rule answers_session, rule yields_rows, auto)+

lemma answers_nodes [answers_intros]:
  "stays_within (from_graph (\<lambda>g. rbind (list_dependencies o1 p c g) (\<lambda>es. Inr (A_Edges es, g)))) p"
  "stays_within (from_graph (\<lambda>g. rbind (list_dependents o1 p c g) (\<lambda>es. Inr (A_Edges es, g)))) p"
  "stays_within (from_graph (\<lambda>g. rbind (stored_blast_radius o2 o3 g p c m) (\<lambda>r. Inr (A_Blast r, g)))) p"
  by (rule answers_graph, auto simp: rbind_eq_Inr_iff list_dependencies_def list_dependents_def run_statement_def list_all_iff
      direct_in_project blast_in_project split: option.splits dest: blast_in_project)+

lemma get_answers: "is_get r \<Longrightarrow> stays_within (handle env p r) p"
  by (cases r rule: is_get.cases) (auto intro!: answers_intros)

section \<open>The decision\<close>

text \<open>The role in which a user belongs to the organization of a project.\<close>

definition holds_role :: "db \<Rightarrow> uuid \<Rightarrow> uuid \<Rightarrow> organization_role \<Rightarrow> bool" where
  "holds_role d user project_id role \<longleftrightarrow>
     (\<exists>q \<in> set (db_projects d). pj_id q = project_id \<and>
       (\<exists>mb \<in> set (db_members d). om_user_id mb = user \<and> om_organization_id mb = pj_organization_id q \<and> om_role mb = role))"

lemma role_allows:
  "role_has_permission (Some (organization_role_value role)) (route_permission r) \<longleftrightarrow> role \<in> {OWNER, ADMIN} \<or> is_get r"
  by (cases role) (auto simp: role_has_permission_iff known_permission admins_may members_read)

text \<open>
  The three ways a request fares with the dependencies before the rate limit: no caller or no access, a refusal on
  record, or a caller whose role allows the route.
\<close>

lemma permission_cases:
  assumes "tenants_ok d" "readonly who"
  obtains e where "require_project_permission who x i (begin_txn d) = (Inl e, begin_txn d)"
  | p :: principal and o' where "require_project_permission who x i (begin_txn d) =
      (Inl (permission_denied default_denial), denied_txn (denial (ap_user_id p) o' ''project'' i x) (begin_txn d))"
  | p role where "require_project_permission who x i (begin_txn d) = (Inr p, begin_txn d)" "fst (who (begin_txn d)) = Inr p"
      "holds_role d (ap_user_id p) i role" "role_has_permission (Some (organization_role_value role)) x"
proof (cases "fst (who (begin_txn d))")
  case (Inl e)
  then have "who (begin_txn d) = (Inl e, begin_txn d)" using readonly_eq [OF assms(2)] by simp
  then show ?thesis using that(1) [of e] by (simp add: require_project_permission_def sbind_def)
next
  case (Inr p)
  then have who: "who (begin_txn d) = (Inr p, begin_txn d)" using readonly_eq [OF assms(2)] by simp
  obtain a t where a: "authorize_project_access p i x (begin_txn d) = (a, t)" by (cases "authorize_project_access p i x (begin_txn d)")
  have run: "require_project_permission who x i (begin_txn d) = (case a of Inl e \<Rightarrow> Inl e | Inr _ \<Rightarrow> Inr p, t)"
    by (simp add: require_project_permission_def sbind_def sthen_def who a session_basic split: sum.split)
  show ?thesis
  proof (cases a)
    case (Inl e)
    then have "e \<noteq> permission_denied default_denial \<and> t = begin_txn d \<or> e = permission_denied default_denial
        \<and> (\<exists>q :: project. t = denied_txn (denial (ap_user_id p) (pj_organization_id q) ''project'' i x) (begin_txn d))"
      using authorize_project_access_wp [of p i x "begin_txn d"] a by (auto simp: wp_def)
    then consider "t = begin_txn d" | q :: project where "e = permission_denied default_denial"
        "t = denied_txn (denial (ap_user_id p) (pj_organization_id q) ''project'' i x) (begin_txn d)" by blast
    then show ?thesis
    proof cases
      case 1
      then show ?thesis using that(1) [of e] run Inl by simp
    next
      case (2 q)
      then show ?thesis using that(2) [of p "pj_organization_id q"] run Inl by simp
    qed
  next
    case (Inr y)
    then obtain q mb where y: "a = Inr (q, mb)" by (cases y) auto
    then have "t = begin_txn d \<and> holds_role d (ap_user_id p) i (om_role mb)
        \<and> role_has_permission (Some (organization_role_value (om_role mb))) x"
      using authorize_project_iff [of "begin_txn d" p i x q mb t] assms(1) a
      by (auto simp: holds_role_def begin_txn_def)
    then show ?thesis using that(3) [of p "om_role mb"] run y \<open>fst (who (begin_txn d)) = Inr p\<close> by simp
  qed
qed

section \<open>Who can change anything\<close>

definition unchanged_or_denied :: "uuid \<Rightarrow> db \<Rightarrow> db \<Rightarrow> bool" where
  "unchanged_or_denied i d d' \<longleftrightarrow> d' = d \<or> (\<exists>u o' x. d' = put_audit (denial u o' ''project'' i x) d)"

lemma close_begin [simp]: "close_session out (begin_txn d) = d"
  by (simp add: close_session_def begin_txn_def split: outcome.split)

lemma close_denied: "close_session (Raised e) (denied_txn a (begin_txn d)) = put_audit a d"
  by (simp add: close_session_def denied_txn_def begin_txn_def)

lemma exchange_cases:
  assumes "tenants_ok d" "readonly who" "exchange env who limiter i r d g m = (out, d', g', m')"
  obtains (refused) e where "out = Raised e" "g' = g" "m' = m" "unchanged_or_denied i d d'"
  | (limited) p :: principal and e where "limiter (ap_user_id p) m = (Inl e, m')" "out = Raised e" "d' = d" "g' = g"
  | (invalid) p where "fst (who (begin_txn d)) = Inr p" "limiter (ap_user_id p) m = (Inr (), m')" "out = Unprocessable" "d' = d" "g' = g"
  | (handled) p role s where "fst (who (begin_txn d)) = Inr p" "holds_role d (ap_user_id p) i role"
      "role \<in> {OWNER, ADMIN} \<or> is_get r" "limiter (ap_user_id p) m = (Inr (), m')"
      "handle env i r (begin_txn d, g) = (out, s, g')" "d' = close_session out s"
proof (rule permission_cases [OF assms(1,2), of "route_permission r" i])
  fix e
  assume "require_project_permission who (route_permission r) i (begin_txn d) = (Inl e, begin_txn d)"
  then show thesis using assms(3) refused [of e] by (simp add: exchange_def respond_def unchanged_or_denied_def)
next
  fix p :: principal and o'
  assume "require_project_permission who (route_permission r) i (begin_txn d) = (Inl (permission_denied default_denial),
    denied_txn (denial (ap_user_id p) o' ''project'' i (route_permission r)) (begin_txn d))"
  then show thesis using assms(3) refused [of "permission_denied default_denial"]
    by (auto simp: exchange_def respond_def unchanged_or_denied_def close_denied)
next
  fix p role
  assume p: "require_project_permission who (route_permission r) i (begin_txn d) = (Inr p, begin_txn d)"
    "fst (who (begin_txn d)) = Inr p" "holds_role d (ap_user_id p) i role"
    "role_has_permission (Some (organization_role_value role)) (route_permission r)"
  obtain l m2 where l: "limiter (ap_user_id p) m = (l, m2)" by (cases "limiter (ap_user_id p) m")
  show thesis
  proof (cases l)
    case (Inl e)
    then show ?thesis using assms(3) p(1) l limited [of p e] by (simp add: exchange_def respond_def)
  next
    case (Inr u)
    then have l': "limiter (ap_user_id p) m = (Inr (), m2)" using l by simp
    show ?thesis
    proof (cases "route_valid r")
      case True
      obtain out2 s g2 where h: "handle env i r (begin_txn d, g) = (out2, s, g2)" by (rule prod_cases3)
      have "out2 = out" "g2 = g'" "m2 = m'" "d' = close_session out s"
        using assms(3) True by (auto simp: exchange_def respond_def p(1) l' h)
      then show ?thesis using handled [OF p(2,3) _ _ _] p(4) role_allows l' h by metis
    next
      case False
      then have "out = Unprocessable" "d' = d" "g' = g" "m2 = m'"
        using assms(3) by (simp_all add: exchange_def respond_def p(1) l')
      then show ?thesis using invalid [OF p(2)] l' by metis
    qed
  qed
qed

text \<open>
  C4: whatever the route and its parameters, a request changes neither the store, but for the row that records a
  refusal, nor the graph, unless the caller of its token is at this moment an owner or an administrator of the
  organization the project belongs to.
\<close>

theorem only_admins_change:
  assumes "tenants_ok d"
    and "exchange env (get_current_user mac loads st now creds) limiter i r d g m = (out, d', g', m')"
  shows "g' = g \<and> unchanged_or_denied i d d'
    \<or> (\<exists>p. fst (get_current_user mac loads st now creds (begin_txn d)) = Inr p
        \<and> (holds_role d (ap_user_id p) i OWNER \<or> holds_role d (ap_user_id p) i ADMIN))"
  using assms(1) readonly_get_current_user assms(2)
proof (rule exchange_cases)
  fix p role s
  assume h: "fst (get_current_user mac loads st now creds (begin_txn d)) = Inr p" "holds_role d (ap_user_id p) i role"
    "role \<in> {OWNER, ADMIN} \<or> is_get r" "handle env i r (begin_txn d, g) = (out, s, g')" "d' = close_session out s"
  show ?thesis
  proof (cases "is_get r")
    case True
    then show ?thesis using h(4,5) get_changes_nothing [of r env i "(begin_txn d, g)"] by (simp add: unchanged_or_denied_def)
  next
    case False
    then show ?thesis using h(1,2,3) by auto
  qed
qed (auto simp: unchanged_or_denied_def)

text \<open>
  C7: a route that reads answers with rows and nodes of the project in its path only, to members of the organization
  of that project only, and changes nothing.
\<close>

theorem reads_stay_in_project:
  assumes "tenants_ok d" "is_get r"
    and "exchange env (get_current_user mac loads st now creds) limiter i r d g m = (Answered a, d', g', m')"
  shows "answer_of d g i a \<and> d' = d \<and> g' = g
    \<and> (\<exists>p role. fst (get_current_user mac loads st now creds (begin_txn d)) = Inr p \<and> holds_role d (ap_user_id p) i role)"
  using assms(1) readonly_get_current_user assms(3)
proof (rule exchange_cases)
  fix p role s
  assume h: "fst (get_current_user mac loads st now creds (begin_txn d)) = Inr p" "holds_role d (ap_user_id p) i role"
    "handle env i r (begin_txn d, g) = (Answered a, s, g')" "d' = close_session (Answered a) s"
  have "s = begin_txn d" "g' = g" using h(3) get_changes_nothing [OF assms(2), of env i "(begin_txn d, g)"] by simp_all
  moreover have "answer_of (tx_current (begin_txn d)) g i a"
    using get_answers [OF assms(2), of env i] h(3) unfolding stays_within_def by (metis fst_conv)
  ultimately show ?thesis using h by (auto simp: begin_txn_def close_session_def)
qed simp_all


section \<open>Samples\<close>

definition sample_env :: api_env where
  "sample_env =
     \<lparr> en_sha256 = id, en_explain = (\<lambda>_ _. []), en_others = id, en_new_id = 50, en_new_ids = id, en_executors = [],
       en_outage = (\<lambda>_. None), en_outages = (\<lambda>_. None), en_accepts = (\<lambda>offset limit. 0 \<le> offset \<and> 0 \<le> limit),
       en_provider = (\<lambda>r. fst (fake_explain ''success'' [] r)), en_correlation_id = [], en_ellipsis = CHR ''~'' \<rparr>"

abbreviation sample_who :: "principal session" where
  "sample_who \<equiv> get_current_user sample_mac sample_parser sample_settings 4599 (Some sample_token)"

abbreviation member_7 :: principal where
  "member_7 \<equiv> \<lparr> ap_user_id = 7, ap_email = ''a@acme'', ap_organization_id = Some 1, ap_role = Some MEMBER \<rparr>"

lemma sample_who_run: "sample_who (begin_txn tenant_db) = (Inr member_7, begin_txn tenant_db)"
proof -
  have "sample_who (begin_txn tenant_db) = (live_caller tenant_db 7 (Some 1), begin_txn tenant_db)"
    using caller_is_live_run [of sample_mac 7 sample_settings 3600 "Some 1" 1000 sample_token sample_parser "begin_txn tenant_db" 4599]
      sample_token_issued sample_reads_back tenant_db_ok
    by (simp add: sample_settings_def)
  then show ?thesis by (simp add: live_caller_def tenant_db_def)
qed

theorem only_admins_change_witness:
  "\<exists>out d' g' m'. exchange sample_env sample_who (\<lambda>u m. (Inr (), m)) 5 (Project (Update_Project ''Mine'')) tenant_db empty_graph Map.empty
      = (out, d', g', m') \<and> g' = empty_graph \<and> unchanged_or_denied 5 tenant_db d'"
proof -
  obtain out d' g' m' where run: "exchange sample_env sample_who (\<lambda>u m. (Inr (), m)) 5 (Project (Update_Project ''Mine'')) tenant_db
      empty_graph Map.empty = (out, d', g', m')" using prod_cases4 by blast
  have "\<not> holds_role tenant_db 7 5 OWNER" "\<not> holds_role tenant_db 7 5 ADMIN" by (auto simp: holds_role_def)
  then show ?thesis using only_admins_change [OF tenant_db_ok run] run by (simp add: sample_who_run)
qed

lemma sample_access: "require_project_permission sample_who P_PROJECT_READ 5 (begin_txn tenant_db) = (Inr member_7, begin_txn tenant_db)"
proof -
  have "authorize_project_access member_7 5 P_PROJECT_READ (begin_txn tenant_db) =
      (Inr (hd (db_projects tenant_db), hd (db_members tenant_db)), begin_txn tenant_db)"
    by (subst authorize_project_iff) (simp_all add: tenant_db_ok role_has_permission_iff member_permissions_def)
  then show ?thesis by (simp add: require_project_permission_def sbind_def sthen_def sample_who_run session_basic)
qed

theorem reads_stay_in_project_witness:
  "exchange sample_env sample_who (\<lambda>u m. (Inr (), m)) 5 (Project Get_Project) tenant_db empty_graph Map.empty
     = (Answered (A_Project (hd (db_projects tenant_db))), tenant_db, empty_graph, Map.empty)
   \<and> answer_of tenant_db empty_graph 5 (A_Project (hd (db_projects tenant_db)))"
proof -
  have run: "exchange sample_env sample_who (\<lambda>u m. (Inr (), m)) 5 (Project Get_Project) tenant_db empty_graph Map.empty
     = (Answered (A_Project (hd (db_projects tenant_db))), tenant_db, empty_graph, Map.empty)"
    by (simp add: exchange_def respond_def sample_access from_session_def get_project_def require_project_def project_by_id_def
        srequire_def sbind_def fetch_one_def session_basic)
  show ?thesis using reads_stay_in_project [OF tenant_db_ok _ run] run by simp
qed


section \<open>What the routes leave open\<close>

text \<open>Routes that write and yet count in no bucket; listings that take any page; and a version hidden by its name.\<close>

lemma unlimited_writes:
  "\<forall>r \<in> {Components (Create_Component ct name slug description), Components (Create_Version i v content metadata), Trajectories (Complete_Trajectory i),
      Trajectories (Fail_Trajectory i error), Repositories (Create_Mapping n full inst c b), Repositories (Delete_Mapping i), Project (Update_Project name), Graph (Sync_Component i),
      Graph (Create_Dependency i j rel), Graph (Delete_Dependency i j rel)}. \<not> is_get r \<and> route_bucket r = None"
  by simp

lemma unbounded_pages:
  "route_valid (Reports (List_Reports page page_size))" "route_valid (Assessments (List_Assessments page page_size))"
  "route_valid (Analyses (List_Analyses number page page_size))"
  by simp_all

lemma latest_hides_version:
  "read_version p c ''latest'' = get_latest_component_version p c" "sized 1 50 ''latest''"
  by (simp_all add: read_version_def sized_def)

end
