(* ===== verification/Org_Api.thy ===== *)
theory Org_Api
  imports Api_Properties
begin

text \<open>
  The routes that are not under a project: those of an organization (\<open>api/v1/projects.py\<close>, \<open>audit_events.py\<close>), the
  founding of one's own (\<open>organizations.py\<close>) and the account (\<open>auth.py\<close>); and what they give to whom.
\<close>

section \<open>The routes of an organization\<close>

datatype organization_route =
    List_Projects int int
  | Create_Project string string
  | List_Audit_Events "audit_action option" int int

fun organization_permission :: "organization_route \<Rightarrow> permission" where
  "organization_permission (List_Projects _ _) = P_PROJECT_READ"
| "organization_permission (Create_Project _ _) = P_PROJECT_CREATE"
| "organization_permission (List_Audit_Events _ _ _) = P_AUDIT_READ"

fun organization_valid :: "organization_route \<Rightarrow> bool" where
  "organization_valid (List_Projects page page_size) \<longleftrightarrow> page_ok 100 page page_size"
| "organization_valid (Create_Project name slug) \<longleftrightarrow> sized 1 255 name \<and> sized 1 100 slug \<and> matches_slug_pattern slug"
| "organization_valid (List_Audit_Events _ page page_size) \<longleftrightarrow> page_ok 100 page page_size"

fun handle_organization :: "api_env \<Rightarrow> uuid \<Rightarrow> organization_route \<Rightarrow> handler" where
  "handle_organization env oid (List_Projects page page_size) =
     paged env page page_size (\<lambda>n m. from_session A_Projects (list_projects oid n m))"
| "handle_organization env oid (Create_Project name slug) =
     from_session A_Project (create_project (en_others env) (en_new_id env) oid name slug)"
| "handle_organization env oid (List_Audit_Events action page page_size) =
     paged env page page_size (\<lambda>n m. from_session A_Audit_Events (list_audit_events oid action n m))"

definition require_organization_permission :: "principal session \<Rightarrow> permission \<Rightarrow> uuid \<Rightarrow> principal session" where
  "require_organization_permission who permission organization_id =
     sbind who (\<lambda>p. sthen (authorize_organization_access p organization_id permission) (sreturn p))"

definition organization_exchange ::
  "api_env \<Rightarrow> principal session \<Rightarrow> uuid \<Rightarrow> organization_route \<Rightarrow> db \<Rightarrow> outcome \<times> db" where
  "organization_exchange env who oid r d =
     (case require_organization_permission who (organization_permission r) oid (begin_txn d) of
        (Inl e, s) \<Rightarrow> (Raised e, close_session (Raised e) s)
      | (Inr _, s) \<Rightarrow>
          if organization_valid r
          then (case handle_organization env oid r (s, empty_graph) of (out, s', _) \<Rightarrow> (out, close_session out s'))
          else (Unprocessable, close_session Unprocessable s))"

section \<open>The account\<close>

text \<open>\<open>GET /auth/me\<close>: the caller, and whether the caller belongs to no organization.\<close>

definition get_me :: "principal session \<Rightarrow> (principal \<times> bool) session" where
  "get_me who = sbind who (\<lambda>p. sbind (sread (members_of_user (ap_user_id p))) (\<lambda>ms. sreturn (p, ms = [])))"


definition found_organization ::
  "principal session \<Rightarrow> (uuid \<Rightarrow> counters \<Rightarrow> (exn + unit) \<times> counters) \<Rightarrow> string \<Rightarrow> (principal \<Rightarrow> 'a session) \<Rightarrow> db \<Rightarrow> counters \<Rightarrow>
   ((exn option + 'a) \<times> db) \<times> counters" where
  "found_organization who limiter name create d m =
     (case who (begin_txn d) of
        (Inl e, _) \<Rightarrow> ((Inl (Some e), d), m)
      | (Inr p, _) \<Rightarrow>
          (case limiter (ap_user_id p) m of
             (Inl e, m') \<Rightarrow> ((Inl (Some e), d), m')
           | (Inr _, m') \<Rightarrow>
               if sized 1 255 name
               then (case request (create p) d of (Inl e, d') \<Rightarrow> ((Inl (Some e), d'), m') | (Inr x, d') \<Rightarrow> ((Inr x, d'), m'))
               else ((Inl None, d), m')))"

section \<open>What an organization shows\<close>

fun organization_answer_of :: "db \<Rightarrow> uuid \<Rightarrow> answer \<Rightarrow> bool" where
  "organization_answer_of d i (A_Projects qs) \<longleftrightarrow> list_all (\<lambda>q. q \<in> set (db_projects d) \<and> pj_organization_id q = i) (pg_items qs)"
| "organization_answer_of d i (A_Audit_Events es) \<longleftrightarrow>
     list_all (\<lambda>e. e \<in> set (db_audit d) \<and> ae_organization_id e = Some i) (pg_items es)"
| "organization_answer_of d i _ \<longleftrightarrow> False"

definition belongs_to :: "db \<Rightarrow> uuid \<Rightarrow> uuid \<Rightarrow> organization_role \<Rightarrow> bool" where
  "belongs_to d user organization_id role \<longleftrightarrow>
     (\<exists>mb \<in> set (db_members d). om_user_id mb = user \<and> om_organization_id mb = organization_id \<and> om_role mb = role)"

lemma require_organization_Inr:
  assumes "tenants_ok d" "readonly who" "require_organization_permission who x oid (begin_txn d) = (Inr p, t)"
  obtains role where "t = begin_txn d" "fst (who (begin_txn d)) = Inr p" "belongs_to d (ap_user_id p) oid role"
    "role_has_permission (Some (organization_role_value role)) x"
proof -
  obtain u mb where who: "who (begin_txn d) = (Inr p, u)" and mb: "authorize_organization_access p oid x u = (Inr mb, t)"
    using assms(3) by (auto simp: require_organization_permission_def sbind_eq_Inr sthen_eq_Inr session_basic)
  have u: "u = begin_txn d" using readonly_state [OF assms(2) who] .
  have "t = begin_txn d" "member_for (ap_user_id p) oid (begin_txn d) = (Inr (Some mb), begin_txn d)"
    "role_has_permission (Some (organization_role_value (om_role mb))) x"
    using mb unfolding u authorize_organization_access_def require_role_eq_Inr by simp_all
  moreover have "tenants_ok (tx_current (begin_txn d))" using assms(1) by (simp add: begin_txn_def)
  ultimately have "belongs_to d (ap_user_id p) oid (om_role mb)"
    using member_for_iff [of "begin_txn d" "ap_user_id p" oid mb] unfolding belongs_to_def begin_txn_def txn.simps by blast
  moreover have "fst (who (begin_txn d)) = Inr p" by (simp add: who)
  ultimately show ?thesis
    by (intro that [of "om_role mb"]) (rule \<open>t = begin_txn d\<close>, assumption+, rule \<open>role_has_permission _ x\<close>)
qed

lemma organization_reads:
  assumes "handle_organization env oid r (begin_txn d, g) = (Answered a, s, g')" "\<nexists>name slug. r = Create_Project name slug"
  shows "s = begin_txn d \<and> organization_answer_of d oid a"
proof -
  have shown: "s = begin_txn d \<and> organization_answer_of d oid a"
    if "fst (paged env page page_size (\<lambda>n k. from_session f (newest_first table P n k)) (begin_txn d, g)) = Answered a"
      "snd (paged env page page_size (\<lambda>n k. from_session f (newest_first table P n k)) (begin_txn d, g)) = (s, g')"
      "\<And>p. list_all (\<lambda>x. x \<in> set (table d) \<and> P x) (pg_items p) \<Longrightarrow> organization_answer_of d oid (f p)"
    for table :: "db \<Rightarrow> 'r list" and P and f :: "'r page \<Rightarrow> answer" and page page_size
  proof -
    let ?h = "from_session f (newest_first table P (nat page) (nat page_size))"
    have h: "fst (?h (begin_txn d, g)) = Answered a" "snd (?h (begin_txn d, g)) = (s, g')"
      using that(1,2) by (simp_all add: paged_def split: if_splits)
    obtain x where "a = f x" "list_all (\<lambda>x. x \<in> set (table (tx_current (begin_txn d))) \<and> P x) (pg_items x)"
      using h(1) by (rule from_session_yields [OF yields_newest])
    then show ?thesis
      using h(2) that(3) from_session_readonly [OF readonly_newest_first, of f table P "nat page" "nat page_size" "(begin_txn d, g)"]
      by (simp add: begin_txn_def)
  qed
  show ?thesis
  proof (cases r)
    case (List_Projects page page_size)
    then show ?thesis using assms(1) shown [of page page_size A_Projects db_projects "\<lambda>q. pj_organization_id q = oid"]
      by (simp add: list_projects_def)
  next
    case (List_Audit_Events action page page_size)
    then show ?thesis using assms(1) shown [of page page_size A_Audit_Events db_audit
        "\<lambda>e. ae_organization_id e = Some oid \<and> given action (ae_action e)"]
      by (simp add: list_audit_events_def list_all_iff)
  qed (use assms(2) in simp)
qed

lemma organization_roles:
  "role_has_permission (Some (organization_role_value role)) (organization_permission r) \<longleftrightarrow>
     role \<in> {OWNER, ADMIN} \<or> (\<exists>page page_size. r = List_Projects page page_size)"
  by (cases role; cases r) (auto simp: role_has_permission_iff known_permission admin_permission member_permissions_def)

text \<open>
  C38: a route of an organization answers members of that organization only, and, but for the list of its projects, its
  owners and administrators only; a listing holds rows of that organization only and changes nothing.
\<close>

theorem organization_shown_to_members:
  assumes "tenants_ok d"
    and "organization_exchange env (get_current_user mac loads st now creds) oid r d = (Answered a, d')"
  shows "(\<exists>p role. fst (get_current_user mac loads st now creds (begin_txn d)) = Inr p \<and> belongs_to d (ap_user_id p) oid role
      \<and> (role \<in> {OWNER, ADMIN} \<or> (\<exists>page page_size. r = List_Projects page page_size)))
    \<and> ((\<exists>name slug. r = Create_Project name slug) \<or> d' = d \<and> organization_answer_of d oid a)"
proof -
  obtain q t where q: "require_organization_permission (get_current_user mac loads st now creds) (organization_permission r) oid
      (begin_txn d) = (Inr q, t)"
    using assms(2) by (auto simp: organization_exchange_def split: prod.splits sum.splits)
  obtain role where p: "t = begin_txn d" "fst (get_current_user mac loads st now creds (begin_txn d)) = Inr q"
    "belongs_to d (ap_user_id q) oid role"
    "role_has_permission (Some (organization_role_value role)) (organization_permission r)"
    by (rule require_organization_Inr [OF assms(1) readonly_get_current_user q])
  obtain out s g where h: "handle_organization env oid r (begin_txn d, empty_graph) = (out, s, g)" by (rule prod_cases3)
  then have "out = Answered a" "d' = close_session out s"
    using assms(2) by (auto simp: organization_exchange_def q p(1) split: if_splits)
  then have "(\<exists>name slug. r = Create_Project name slug) \<or> d' = d \<and> organization_answer_of d oid a"
    using organization_reads [of env oid r d empty_graph a s g] h by (auto simp: close_session_def begin_txn_def)
  then show ?thesis using p organization_roles by blast
qed


section \<open>Samples\<close>

text \<open>User 7 lists the projects of the organization; user 9, who belongs to none, founds one.\<close>

theorem organization_shown_to_members_witness:
  "organization_exchange sample_env sample_who 1 (List_Projects 1 20) tenant_db
     = (Answered (A_Projects \<lparr> pg_items = db_projects tenant_db, pg_total = 1, pg_page = 1, pg_page_size = 20 \<rparr>), tenant_db)
   \<and> belongs_to tenant_db 7 1 MEMBER
   \<and> organization_answer_of tenant_db 1 (A_Projects \<lparr> pg_items = db_projects tenant_db, pg_total = 1, pg_page = 1, pg_page_size = 20 \<rparr>)"
proof -
  have member: "authorize_organization_access member_7 1 P_PROJECT_READ (begin_txn tenant_db)
      = (Inr (hd (db_members tenant_db)), begin_txn tenant_db)"
    by (simp add: authorize_organization_access_def member_for_def sbind_def srequire_def session_basic require_role_def
        role_has_permission_iff member_permissions_def fetch_one_def)
  have run: "organization_exchange sample_env sample_who 1 (List_Projects 1 20) tenant_db
     = (Answered (A_Projects \<lparr> pg_items = db_projects tenant_db, pg_total = 1, pg_page = 1, pg_page_size = 20 \<rparr>), tenant_db)"
    by (simp add: organization_exchange_def require_organization_permission_def sbind_def sthen_def sample_who_run member
        session_basic page_ok_def paged_def from_session_def list_projects_def newest_first_def page_of_def sample_env_def
        close_session_def page_result_def del: One_nat_def)
  show ?thesis using organization_shown_to_members [OF tenant_db_ok run] run by (auto simp: sample_who_run belongs_to_def)
qed






end
