(* ===== verification/Spec2Isabelle.thy ===== *)
theory Spec2Isabelle
  imports Compat_Properties Diff_Properties Risk_Properties Trajectory_Properties Replay_Properties
    Authz_Properties Blast_Properties Webhook_Properties Kafka_Properties Webhook_Route Token_Properties
    Login_Properties Rate_Properties Body_Limit Api_Properties Org_Api
begin

text \<open>
  A verification development of the AgentABI backend (\<open>src/backend/app\<close>; paths below are relative to it).

  \<^bold>\<open>The program.\<close> AgentABI versions the parts of AI agents (tools, models, prompts, workflows, ...) and tells
  what a change breaks. A project registers components and their versions; a scan compares two versions by a
  deterministic rule engine; runs of an agent are recorded as trajectories, replayed with a candidate version,
  and the two replays compared; the risk engine turns the evidence into a score and a decision; a pull
  request on GitHub triggers scan and assessment, at once or through Kafka, and receives the decision as a check.

  \<^bold>\<open>Theories and code, in the order of the imports.\<close>

  \<^item> Foundations. \<open>Prelude\<close>: the result type of code that may raise and its combinators. \<open>Py_Value\<close>,
    \<open>Py_Equality\<close>, \<open>Py_Text\<close>, \<open>Py_Collections\<close>, \<open>Json_Text\<close>, \<open>Py_Convert\<close>: the values, the equality, the
    texts, the sorting, the serialization and the conversions of the language as the code uses them.
    \<open>Domain_Enums\<close>, \<open>Errors\<close>: \<open>domain/enums.py\<close>, \<open>domain/exceptions.py\<close> with the statuses of \<open>api/v1/errors.py\<close>.
    \<open>Db_Rows\<close>: the rows of \<open>models/*.py\<close>. \<open>Session\<close>: \<open>core/database.py\<close>, a request as a state transformer over
    a committed store and a current one, with flush, commit, rollback, integrity errors, and the rules by which
    lemmas about operations are composed (\<open>wp\<close>); the locales \<open>status_machine\<close>, \<open>unique_table\<close> and
    \<open>retriable\<close> are the contracts of a status with its transitions, of a table with unique keys and of a request
    that can be repeated, each interpreted where the code has such a thing.
  \<^item> Compatibility. \<open>Component_Content\<close> (\<open>domain/component_content.py\<close>), \<open>Compat_Models\<close>, \<open>Compat_Rules\<close>,
    \<open>Compat_Normalizer\<close>, \<open>Compat_Diff\<close>, \<open>Compat_Analyzer\<close> (the modules of \<open>compatibility/\<close>), \<open>Registry\<close> and
    \<open>Compat_Service\<close> (\<open>services/component_registry.py\<close>, \<open>services/compatibility_service.py\<close>). The lemmas:
    normalization is idempotent, the comparison returns on valid contents and reports nothing on equal normal
    forms, the status is the worst change, \<open>CRITICAL\<close> is a new required input, a registered version keeps the keys.
  \<^item> Comparison of runs. \<open>Redaction\<close> (\<open>trajectory/redaction.py\<close>), \<open>Diff_Models\<close>, \<open>Alignment\<close>, \<open>Diff_Analyzer\<close>
    (\<open>differential/\<close>), \<open>Diff_Service\<close>: no secret is reported below a dict, the value comparison is exact within
    its depth, the four passes of the alignment partition the steps.
  \<^item> Risk. \<open>Risk_Engine\<close> (\<open>risk/\<close>) and \<open>Risk_Service\<close>: scores, caps, bands and hard blocks, and the stored
    assessment.
  \<^item> Trajectories and replays. \<open>Trajectory_Model\<close>, \<open>Trajectory_Service\<close>, \<open>Replay_Plan\<close>, \<open>Replay_Service\<close>
    (\<open>trajectory/\<close>, \<open>replay/\<close> and their services): any interleaving of recorder requests is a path of
    the inductive relation \<open>recorder_step\<close>; the numbering and the history are invariants of that relation; the handler that
    executes a replay refines an interpreter of plans.
  \<^item> Tenants. \<open>Authz\<close> (\<open>authz/\<close>, \<open>services/audit_service.py\<close>, \<open>services/organization_service.py\<close>).
  \<^item> Dependencies. \<open>Dependency_Graph\<close> (\<open>graph/repository.py\<close>, \<open>services/dependency_graph.py\<close>) and \<open>Blast_Radius\<close>
    (\<open>services/blast_radius.py\<close>): the breadth-first search against bounded reachability.
  \<^item> Pull requests. \<open>Github_Model\<close> (\<open>github/\<close>: signature, payload, check texts), \<open>Checks_Client\<close>, \<open>Repository_Mapping\<close>,
    \<open>Webhook_Service\<close>, \<open>Pr_Analysis\<close>; then \<open>Events\<close> (\<open>events/\<close>), \<open>Kafka_Consumer\<close>, \<open>Kafka_Handler\<close> (\<open>kafka/\<close>) and
    \<open>Webhook_Route\<close> (\<open>api/v1/github_webhook.py\<close>), which close the circle from delivery to check.
  \<^item> Callers. \<open>Base64\<close>, \<open>Py_Uuid\<close>: the codec and the identifiers as text. \<open>Token\<close> (\<open>auth/jwt.py\<close>, \<open>auth/claims.py\<close>,
    \<open>api/deps/auth.py\<close>): an issued token is read back until it expires, an accepted one carries the signature, and
    the caller it names is looked up in the store at each request. \<open>Oauth_State\<close>, \<open>Login\<close> (\<open>auth/oauth_state.py\<close>,
    \<open>services/github_oauth_service.py\<close>, \<open>github/oauth_client.py\<close>): the state is stored, sent and consumed once, and
    a login makes a token for the user of that GitHub account.
  \<^item> Explanations. \<open>Explanation\<close> (\<open>llm/\<close>, \<open>services/explanation_service.py\<close>, \<open>providers/\<close>): the changes of a scan as bounded
    evidence, the providers under the locale \<open>explanation_provider\<close>, and an answer that cites nothing else.
  \<^item> The edge. \<open>Rate_Limit\<close> (\<open>core/rate_limit.py\<close>, \<open>api/deps/rate_limit.py\<close>): both limiters against the number of
    hits in a window, the locale \<open>fixed_window\<close>; \<open>Body_Limit\<close> (\<open>core/request_size.py\<close>): no handler reads more than
    the limit, whatever the header declares.
  \<^item> Routes. \<open>Listings\<close>: the pages of the services. \<open>Routes\<close>: each router of \<open>api/v1\<close> under a project as a datatype of its
    requests, with the permission, the bucket and the validation of each; \<open>Api\<close>: the handlers, the order in which
    a request is authenticated, authorized, counted, validated and answered (\<open>exchange\<close>), and how the session is
    closed; \<open>Org_Api\<close>: the routes of an organization, its founding, and the account. \<open>Api_Laws\<close> says of each
    answer which rows it holds, \<open>Api_Properties\<close> that only owners and administrators change anything, that a
    project's routes show rows of that project only, and that a request over its quota changes nothing.
  \<^item> Each \<open>*_Laws\<close> theory holds the lemmas about the theories of its component, each \<open>*_Properties\<close> theory the
    statements meant to be read, with an instance at which they are applied; \<open>Pr_Defects\<close> and parts of the
    other property theories prove where the code does not do what its documents say.

  \<^bold>\<open>How the code is rendered.\<close> A function that may raise returns a sum, \<open>Inl\<close> the exception. A service method
  is a \<open>session\<close>: it takes the committed store and the transaction's view and returns both. Where the code
  gives up control, what other transactions commit meanwhile is an argument, a function on stores (\<open>others\<close>,
  \<open>waiting\<close>), arbitrary but for the invariant it has to keep; so statements hold under every interleaving at these
  points. Identifiers are numbers below \<open>2 ^ 128\<close> and arguments of the operation that creates them.
  Integers of the language are unbounded and stay so; floats appear only where a number is narrowed to one
  (\<open>compatibility/rules.py\<close>).

  \<^bold>\<open>Bounds and fuel.\<close> The recursive comparisons carry the code's own depth bound (64 for schemas and values), so
  they are total as they stand. The loop of attempts at GitHub and the loop of attempts at a message end by their
  counters. The breadth-first search drops an item or replaces it by items with one hop less to go, so the
  multiset of the hops left descends. Only the shortest decimal of a double (\<open>Py_Text\<close>) is searched with fuel: 17
  digits, which determine every double.

  \<^bold>\<open>Parameters.\<close> SHA-256, HMAC, the JSON parser, the texts of language exceptions, the UUID parser, the URL encoder, the
  random state, the clock, whether Redis answers, the offsets and limits the database accepts (\<open>en_accepts\<close>), the HTTP
  transport, the Kafka producer and consumer, and what comes back from OpenAI are arguments. What is assumed of them is stated where it is used: the
  parser reads back what the serializer wrote, the UUID parser reads back a printed identifier.

  \<^bold>\<open>Not modelled.\<close> Durations, and times but for the clock of tokens and windows; spans, metrics and logs
  (\<open>observability/\<close>), which no decision reads; the health routes, the response models, which rename
  fields, settings, drivers and migrations.
\<close>

end
